(* ===== verification/Prelude.thy ===== *)
theory Prelude
  imports Main "HOL-Library.Word" "HOL-Library.Monad_Syntax"
begin

text \<open>
  Shared vocabulary of the development: the machine integer types, the way a C function
  with effects is written down, and the small calculus the component proofs use.

  A C function that always returns is a HOL function into \<open>'a \<times> 's\<close> (result and new state);
  a C function that polls hardware and may not return is a function into
  \<open>('a \<times> 's) option\<close>, where \<open>None\<close> is ``does not return''. \<open>wpt\<close> and \<open>wpo\<close> say what
  holds of the result and of the final state of the two kinds; the rules in the collection
  \<open>wp\<close> follow the program text, so a proof about an operation is one application of the
  collection and of the lemmas about the operations it calls.
\<close>

unbundle bit_operations_syntax

type_synonym u8 = "8 word"
type_synonym u16 = "16 word"
type_synonym u32 = "32 word"
type_synonym u64 = "64 word"

named_theorems wp "syntax-directed rules of the program calculus"
named_theorems reg_defs "definitions of register accessors"

subsection \<open>Results of operations\<close>

definition wpt :: "'a \<times> 's \<Rightarrow> ('a \<Rightarrow> 's \<Rightarrow> bool) \<Rightarrow> bool" where
  "wpt pr Q = Q (fst pr) (snd pr)"

definition wpo :: "('a \<times> 's) option \<Rightarrow> ('a \<Rightarrow> 's \<Rightarrow> bool) \<Rightarrow> bool" where
  "wpo m Q \<longleftrightarrow> (\<forall>r s. m = Some (r, s) \<longrightarrow> Q r s)"

lemma wpt_pair [wp]: "Q r s \<Longrightarrow> wpt (r, s) Q"
  by (simp add: wpt_def)

lemma wpt_result: "wpt m (\<lambda>r _. r = v) \<Longrightarrow> \<exists>s. m = (v, s)"
  by (cases m) (simp add: wpt_def)

lemma wpt_Let [wp]: "wpt (f x) Q \<Longrightarrow> wpt (Let x f) Q"
  by (simp add: Let_def)

lemma wpt_case_prod [wp]: "wpt pr (\<lambda>v s. wpt (f v s) Q) \<Longrightarrow> wpt (case_prod f pr) Q"
  by (cases pr) (simp add: wpt_def)

lemma wpt_if [wp]:
  "\<lbrakk>c \<Longrightarrow> wpt a Q; \<not> c \<Longrightarrow> wpt b Q\<rbrakk> \<Longrightarrow> wpt (if c then a else b) Q"
  by simp

lemma wpt_case_option [wp]:
  "\<lbrakk>x = None \<Longrightarrow> wpt a Q; \<And>y. x = Some y \<Longrightarrow> wpt (f y) Q\<rbrakk>
    \<Longrightarrow> wpt (case_option a f x) Q"
  by (cases x) auto

lemma wpo_Some [wp]: "Q r s \<Longrightarrow> wpo (Some (r, s)) Q"
  by (simp add: wpo_def)

lemma wpo_None [wp]: "wpo None Q"
  by (simp add: wpo_def)

lemma wpo_Some_wpt [wp]: "wpt pr Q \<Longrightarrow> wpo (Some pr) Q"
  by (cases pr) (simp add: wpo_def wpt_def)

lemma wpo_Let [wp]: "wpo (f x) Q \<Longrightarrow> wpo (Let x f) Q"
  by (simp add: Let_def)

lemma wpo_case_prod [wp]: "wpt pr (\<lambda>v s. wpo (f v s) Q) \<Longrightarrow> wpo (case_prod f pr) Q"
  by (cases pr) (simp add: wpt_def)

lemma wpo_bind [wp]:
  "wpo m (\<lambda>r s. wpo (f (r, s)) Q) \<Longrightarrow> wpo (Option.bind m f) Q"
  by (cases m) (auto simp: wpo_def)

lemma wpo_if [wp]:
  "\<lbrakk>c \<Longrightarrow> wpo a Q; \<not> c \<Longrightarrow> wpo b Q\<rbrakk> \<Longrightarrow> wpo (if c then a else b) Q"
  by simp

lemma wpo_case_option [wp]:
  "\<lbrakk>x = None \<Longrightarrow> wpo a Q; \<And>y. x = Some y \<Longrightarrow> wpo (f y) Q\<rbrakk>
    \<Longrightarrow> wpo (case_option a f x) Q"
  by (cases x) auto

lemma wpo_case_sum [wp]:
  "\<lbrakk>\<And>y. x = Inl y \<Longrightarrow> wpo (f y) Q; \<And>y. x = Inr y \<Longrightarrow> wpo (g y) Q\<rbrakk>
    \<Longrightarrow> wpo (case_sum f g x) Q"
  by (cases x) auto

text \<open>Total correctness: the operation returns, and the postcondition holds.\<close>

definition wps :: "('a \<times> 's) option \<Rightarrow> ('a \<Rightarrow> 's \<Rightarrow> bool) \<Rightarrow> bool" where
  "wps m Q \<longleftrightarrow> (\<exists>r s. m = Some (r, s) \<and> Q r s)"

lemma wps_Some_wpt [wp]: "wpt pr Q \<Longrightarrow> wps (Some pr) Q"
  by (cases pr) (simp add: wps_def wpt_def)

lemma wps_Let [wp]: "wps (f x) Q \<Longrightarrow> wps (Let x f) Q"
  by (simp add: Let_def)

lemma wps_case_prod [wp]: "wpt pr (\<lambda>v s. wps (f v s) Q) \<Longrightarrow> wps (case_prod f pr) Q"
  by (cases pr) (simp add: wpt_def)

lemma wps_bind [wp]: "wps m (\<lambda>r s. wps (f (r, s)) Q) \<Longrightarrow> wps (Option.bind m f) Q"
  by (auto simp: wps_def)

lemma wps_if [wp]:
  "\<lbrakk>c \<Longrightarrow> wps a Q; \<not> c \<Longrightarrow> wps b Q\<rbrakk> \<Longrightarrow> wps (if c then a else b) Q"
  by simp

lemma wps_case_option [wp]:
  "\<lbrakk>x = None \<Longrightarrow> wps a Q; \<And>y. x = Some y \<Longrightarrow> wps (f y) Q\<rbrakk>
    \<Longrightarrow> wps (case_option a f x) Q"
  by (cases x) auto

lemma wps_case_sum [wp]:
  "\<lbrakk>\<And>y. x = Inl y \<Longrightarrow> wps (f y) Q; \<And>y. x = Inr y \<Longrightarrow> wps (g y) Q\<rbrakk>
    \<Longrightarrow> wps (case_sum f g x) Q"
  by (cases x) auto

lemma wps_mono: "\<lbrakk>wps m P; \<And>r s. P r s \<Longrightarrow> Q r s\<rbrakk> \<Longrightarrow> wps m Q"
  by (auto simp: wps_def)

lemma wps_wpo: "wps m P \<Longrightarrow> wpo m Q \<Longrightarrow> wps m (\<lambda>r s. P r s \<and> Q r s)"
  by (auto simp: wps_def wpo_def)

lemma wpt_mono: "\<lbrakk>wpt pr P; \<And>r s. P r s \<Longrightarrow> Q r s\<rbrakk> \<Longrightarrow> wpt pr Q"
  by (simp add: wpt_def)

lemma wpo_mono: "\<lbrakk>wpo m P; \<And>r s. P r s \<Longrightarrow> Q r s\<rbrakk> \<Longrightarrow> wpo m Q"
  by (auto simp: wpo_def)

lemma wpoD: "\<lbrakk>wpo m Q; m = Some (r, s)\<rbrakk> \<Longrightarrow> Q r s"
  by (simp add: wpo_def)

lemma wptD: "\<lbrakk>wpt pr Q; pr = (r, s)\<rbrakk> \<Longrightarrow> Q r s"
  by (simp add: wpt_def)

lemma wpt_UNIV [simp]: "wpt pr (\<lambda>_ _. True)"
  by (simp add: wpt_def)

subsection \<open>Loops without a bound\<close>

text \<open>
  \<open>forever body\<close> is a C loop that only its body leaves: an iteration on the loop variables
  \<open>c\<close> either leaves the loop with a value (\<open>Inl\<close>) or goes on with new loop variables (\<open>Inr\<close>).
  Partial correctness needs an invariant, termination a measure as well.
\<close>

partial_function (option) forever ::
    "('c \<Rightarrow> 's \<Rightarrow> (('a + 'c) \<times> 's) option) \<Rightarrow> 'c \<Rightarrow> 's \<Rightarrow> ('a \<times> 's) option" where
  "forever body c s = do {
     (r, s) \<leftarrow> body c s;
     (case r of Inl a \<Rightarrow> Some (a, s) | Inr c \<Rightarrow> forever body c s)
   }"

text \<open>
  The code equation guards the recursion with \<open>if\<close>, which symbolic evaluation does not enter
  before the condition is known.
\<close>

lemma forever_code [code]:
  "forever body c s = do {
     (r, s) \<leftarrow> body c s;
     (if isl r then Some (projl r, s) else forever body (projr r) s)
   }"
  by (subst forever.simps) (auto split: sum.splits prod.splits Option.bind_splits)

lemma wpo_forever:
  assumes "I c s"
    and step: "\<And>c s. I c s \<Longrightarrow> wpo (body c s) (\<lambda>r s'. case r of Inl a \<Rightarrow> Q a s' | Inr c' \<Rightarrow> I c' s')"
  shows "wpo (forever body c s) Q"
proof -
  have "b = body \<longrightarrow> I c s \<longrightarrow> Q (fst y) (snd y)" if "forever b c s = Some y" for b c s y
  proof (rule forever.raw_induct [OF _ that, of "\<lambda>b c s y. b = body \<longrightarrow> I c s \<longrightarrow> Q (fst y) (snd y)"],
      intro impI)
    fix f b c s y
    assume IH: "\<And>b c s y. f b c s = Some y \<Longrightarrow> b = body \<longrightarrow> I c s \<longrightarrow> Q (fst y) (snd y)"
      and y: "(b c s \<bind> (\<lambda>(r, s). case r of Inl a \<Rightarrow> Some (a, s) | Inr c \<Rightarrow> f b c s)) = Some y"
      and b: "b = body" and i: "I c s"
    from y b obtain r s' where r: "body c s = Some (r, s')"
      and e: "(case r of Inl a \<Rightarrow> Some (a, s') | Inr c \<Rightarrow> f body c s') = Some y"
      by (auto simp: bind_eq_Some_conv)
    from wpoD [OF step [OF i] r] e IH show "Q (fst y) (snd y)"
      by (auto split: sum.splits)
  qed
  with assms(1) show ?thesis by (auto simp: wpo_def)
qed

lemma wps_forever:
  fixes m :: "'c \<Rightarrow> 's \<Rightarrow> nat"
  assumes "I c s"
    and step: "\<And>c s. I c s \<Longrightarrow> wps (body c s)
      (\<lambda>r s'. case r of Inl a \<Rightarrow> Q a s' | Inr c' \<Rightarrow> I c' s' \<and> m c' s' < m c s)"
  shows "wps (forever body c s) Q"
  using assms(1)
proof (induction "m c s" arbitrary: c s rule: less_induct)
  case less
  from step [OF less.prems] obtain r s' where b: "body c s = Some (r, s')"
    and r: "case r of Inl a \<Rightarrow> Q a s' | Inr c' \<Rightarrow> I c' s' \<and> m c' s' < m c s"
    by (auto simp: wps_def)
  show ?case
  proof (cases r)
    case (Inl a)
    with b r show ?thesis by (simp add: forever.simps wps_def)
  next
    case (Inr c')
    with r less.hyps [of c' s'] b show ?thesis by (simp add: forever.simps)
  qed
qed

subsection \<open>Bytes of words\<close>

definition hi8 :: "u16 \<Rightarrow> u8" where
  "hi8 x = ucast (drop_bit 8 x)"

definition lo8 :: "u16 \<Rightarrow> u8" where
  "lo8 x = ucast x"

definition join16 :: "u8 \<Rightarrow> u8 \<Rightarrow> u16" where
  "join16 h l = push_bit 8 (ucast h) OR ucast l"

lemma join16_hi_lo [simp]: "join16 (hi8 x) (lo8 x) = x"
  unfolding join16_def hi8_def lo8_def
  by (rule bit_word_eqI) (auto simp: bit_simps)

lemma hi8_join16 [simp]: "hi8 (join16 h l) = h"
  unfolding join16_def hi8_def
  by (rule bit_word_eqI) (auto simp: bit_simps dest: bit_imp_le_length)

lemma lo8_join16 [simp]: "lo8 (join16 h l) = l"
  unfolding join16_def lo8_def
  by (rule bit_word_eqI) (auto simp: bit_simps)

lemma unat_u8_less: "unat (b :: u8) < 256"
  using unsigned_less [of b, where ?'a = nat] by simp

lemma unat_u16_less: "unat (b :: u16) < 65536"
  using unsigned_less [of b, where ?'a = nat] by simp

lemma unat_join16: "unat (join16 h l) = unat h * 256 + unat l"
proof -
  have *: "join16 h l = push_bit 8 (ucast h) + ucast l"
    unfolding join16_def
    by (rule disjunctive_add_eq_or [symmetric])
      (rule bit_word_eqI, auto simp: bit_simps dest: bit_imp_le_length)
  have e: "unat (push_bit 8 (ucast h :: u16)) = unat h * 256"
    using unat_u8_less [of h]
    by (simp add: push_bit_eq_mult unat_word_ariths unsigned_ucast_eq take_bit_eq_mod)
  show ?thesis
    using unat_u8_less [of h] unat_u8_less [of l]
    by (simp add: * unat_word_ariths e unsigned_ucast_eq take_bit_eq_mod)
qed

lemma unat_ucast_wider:
  fixes x :: "'a::len word"
  assumes "LENGTH('a) \<le> LENGTH('b::len)"
  shows "unat (ucast x :: 'b word) = unat x"
proof -
  have "unat x < 2 ^ LENGTH('b)"
    using unsigned_less [of x, where ?'a = nat] assms
    by (meson less_le_trans one_le_numeral power_increasing)
  then show ?thesis by (simp add: unsigned_ucast_eq take_bit_nat_eq_self_iff)
qed

lemma unat_ucasts [simp]:
  "unat (ucast (a :: u8) :: u16) = unat a" "unat (ucast (a :: u8) :: u32) = unat a"
  "unat (ucast (b :: u16) :: u32) = unat b" "unat (ucast (b :: u16) :: u64) = unat b"
  "unat (ucast (a :: u8) :: u64) = unat a" "unat (ucast (c :: u32) :: u64) = unat c"
  by (simp_all add: unat_ucast_wider)

lemma unat_plus_one:
  assumes "(x :: 'a::len word) < y"
  shows "unat (x + 1) = unat x + 1"
proof -
  have "unat y < 2 ^ LENGTH('a)" using unsigned_less [of y, where ?'a = nat] by simp
  with assms have "Suc (unat x) < 2 ^ LENGTH('a)" unfolding word_less_nat_alt by linarith
  then show ?thesis by (simp add: unat_word_ariths)
qed

subsection \<open>Counting up to a limit\<close>

text \<open>The measure of a loop that counts its rounds up to a limit, with wrap-around below it.\<close>

definition limit_left :: "u32 \<Rightarrow> u32 \<Rightarrow> nat" where
  "limit_left l n = (if n < l then unat (l - n) else Suc (unat l))"

lemma limit_left_step:
  assumes "n + 1 < l"
  shows "limit_left l (n + 1) < limit_left l n"
proof (cases "n < l")
  case True
  with assms have "unat (l - (n + 1)) < unat (l - n)"
    by (simp add: unat_plus_one [OF True] unat_sub word_le_nat_alt word_less_nat_alt)
  with True assms show ?thesis by (simp add: limit_left_def)
next
  case False
  have "unat (l - (n + 1)) \<le> unat l" using assms by (simp add: unat_sub less_imp_le)
  with False assms show ?thesis by (simp add: limit_left_def)
qed

subsection \<open>Loops over a list of sockets\<close>

lemma fold_reaches:
  assumes "\<And>s. P (f x s)" and "\<And>m s. P s \<Longrightarrow> P (f m s)"
  shows "x \<in> set xs \<or> P s \<Longrightarrow> P (fold f xs s)"
  by (induction xs arbitrary: s) (auto intro: assms)

lemma fold_keeps:
  assumes "\<And>m s. g (f m s) = g s"
  shows "g (fold f xs s) = g s"
  by (induction xs arbitrary: s) (simp_all add: assms)

end
