(* ===== verification/Bus.thy ===== *)
theory Bus
  imports Prelude
begin

text \<open>
  The checked SPI transport of \<open>Ethernet/wizchip_conf.c\<close>: the callback table, the root
  lifecycle (\<open>chip_state\<close>, \<open>chip_last_error\<close>) and the four checked transactions every
  register access goes through.

  The SPI peripheral, the W5500 behind it, the status probes and the lock primitives are
  registered callbacks, not code of this repository. They are the record \<open>platform\<close>, a
  parameter of every definition: functions on an arbitrary world \<open>'w\<close> that the driver passes
  along. Every callback invocation is also logged in the ghost field \<open>trace\<close> (latest first),
  over which wire contents, chip-select framing and locking are stated. The table entries
  are never null: the registration functions install defaults. Only the two burst entries
  may be unregistered (\<open>spi_read_burst\<close>, \<open>spi_write_burst\<close>).
\<close>

unbundle bit_operations_syntax

subsection \<open>Callbacks, events and state\<close>

datatype event =
    CrisEnter | CrisExit | CsSelect | CsDeselect
  | TxByte u8 | TxBurst "u8 list" | RxByte u8 | RxBurst "u8 list"
  | SpiClear | SpiBusyQ u8 | SpiErrorQ int
  | SockEnter u8 | SockExit u8 | GlobalEnter | GlobalExit
  | TimeUs u32 | NowUs u64 | WaitUs u64 | WaitHook | PhyLink u8

record 'w platform =
  pf_call :: "event \<Rightarrow> 'w \<Rightarrow> 'w"          \<comment> \<open>callbacks without a result\<close>
  pf_read_byte :: "'w \<Rightarrow> u8 \<times> 'w"
  pf_read_burst :: "nat \<Rightarrow> 'w \<Rightarrow> (nat \<Rightarrow> u8) \<times> 'w"
  pf_check_busy :: "'w \<Rightarrow> u8 \<times> 'w"
  pf_check_error :: "'w \<Rightarrow> int \<times> 'w"
  pf_safe_spi :: bool                  \<comment> \<open>the build defines \<open>WIZCHIP_SAFE_SPI\<close>\<close>

datatype wizchip_state =
  WIZCHIP_STATE_UNINIT | WIZCHIP_STATE_READY | WIZCHIP_STATE_FAULTED

record 'w bus_state =
  world :: 'w
  trace :: "event list"
  spi_read_burst :: bool
  spi_write_burst :: bool
  chip_state :: wizchip_state
  chip_last_error :: int
  wizchip_transport_healthy :: bool

definition SOCK_OK :: int where [simp]: "SOCK_OK = 1"
definition SOCK_BUSY :: int where [simp]: "SOCK_BUSY = 0"
definition SOCKERR_SOCKNUM :: int where [simp]: "SOCKERR_SOCKNUM = -1"
definition SOCKERR_SOCKOPT :: int where [simp]: "SOCKERR_SOCKOPT = -2"
definition SOCKERR_SOCKINIT :: int where [simp]: "SOCKERR_SOCKINIT = -3"
definition SOCKERR_SOCKCLOSED :: int where [simp]: "SOCKERR_SOCKCLOSED = -4"
definition SOCKERR_SOCKMODE :: int where [simp]: "SOCKERR_SOCKMODE = -5"
definition SOCKERR_SOCKFLAG :: int where [simp]: "SOCKERR_SOCKFLAG = -6"
definition SOCKERR_SOCKSTATUS :: int where [simp]: "SOCKERR_SOCKSTATUS = -7"
definition SOCKERR_ARG :: int where [simp]: "SOCKERR_ARG = -10"
definition SOCKERR_PORTZERO :: int where [simp]: "SOCKERR_PORTZERO = -11"
definition SOCKERR_IPINVALID :: int where [simp]: "SOCKERR_IPINVALID = -12"
definition SOCKERR_TIMEOUT :: int where [simp]: "SOCKERR_TIMEOUT = -13"
definition SOCKERR_DEADLINE :: int where [simp]: "SOCKERR_DEADLINE = -16"
definition SOCKERR_IO :: int where [simp]: "SOCKERR_IO = -3"
definition SOCKERR_NOTREADY :: int where [simp]: "SOCKERR_NOTREADY = -4"
definition SOCKFATAL_PACKLEN :: int where [simp]: "SOCKFATAL_PACKLEN = -1001"

subsection \<open>Callback invocations\<close>

definition call :: "'w platform \<Rightarrow> event \<Rightarrow> ('w, 'm) bus_state_scheme \<Rightarrow> ('w, 'm) bus_state_scheme" where
  "call p ev s = s\<lparr>world := pf_call p ev (world s), trace := ev # trace s\<rparr>"

definition spi_read_byte :: "'w platform \<Rightarrow> ('w, 'm) bus_state_scheme \<Rightarrow> u8 \<times> ('w, 'm) bus_state_scheme" where
  "spi_read_byte p s =
     (let (b, w) = pf_read_byte p (world s)
      in (b, s\<lparr>world := w, trace := RxByte b # trace s\<rparr>))"

definition spi_read_burst_cb ::
    "'w platform \<Rightarrow> nat \<Rightarrow> ('w, 'm) bus_state_scheme \<Rightarrow> u8 list \<times> ('w, 'm) bus_state_scheme" where
  "spi_read_burst_cb p n s =
     (let (f, w) = pf_read_burst p n (world s); bs = map f [0..<n]
      in (bs, s\<lparr>world := w, trace := RxBurst bs # trace s\<rparr>))"

text \<open>The byte loops that stand in for an unregistered burst callback.\<close>

primrec spi_read_bytes ::
    "'w platform \<Rightarrow> nat \<Rightarrow> ('w, 'm) bus_state_scheme \<Rightarrow> u8 list \<times> ('w, 'm) bus_state_scheme" where
  "spi_read_bytes p 0 s = ([], s)"
| "spi_read_bytes p (Suc n) s =
     (let (b, s) = spi_read_byte p s; (bs, s) = spi_read_bytes p n s in (b # bs, s))"

primrec spi_write_bytes ::
    "'w platform \<Rightarrow> u8 list \<Rightarrow> ('w, 'm) bus_state_scheme \<Rightarrow> ('w, 'm) bus_state_scheme" where
  "spi_write_bytes p [] s = s"
| "spi_write_bytes p (b # bs) s = spi_write_bytes p bs (call p (TxByte b) s)"

definition spi_read_data ::
    "'w platform \<Rightarrow> nat \<Rightarrow> ('w, 'm) bus_state_scheme \<Rightarrow> u8 list \<times> ('w, 'm) bus_state_scheme" where
  "spi_read_data p n s =
     (if spi_read_burst s then spi_read_burst_cb p n s else spi_read_bytes p n s)"

definition spi_write_data ::
    "'w platform \<Rightarrow> u8 list \<Rightarrow> ('w, 'm) bus_state_scheme \<Rightarrow> ('w, 'm) bus_state_scheme" where
  "spi_write_data p bs s =
     (if spi_write_burst s then call p (TxBurst bs) s else spi_write_bytes p bs s)"

text \<open>
  \<open>WIZCHIP_SPI_BUSY_CHECK() || WIZCHIP_SPI_ERROR_CHECK()\<close>: the error probe is asked only
  when the bus is not busy.
\<close>

definition spi_status_bad ::
    "'w platform \<Rightarrow> ('w, 'm) bus_state_scheme \<Rightarrow> bool \<times> ('w, 'm) bus_state_scheme" where
  "spi_status_bad p s =
     (let (b, w) = pf_check_busy p (world s); s = s\<lparr>world := w, trace := SpiBusyQ b # trace s\<rparr>
      in if b \<noteq> 0 then (True, s)
         else let (e, w) = pf_check_error p (world s);
                  s = s\<lparr>world := w, trace := SpiErrorQ e # trace s\<rparr>
              in (e \<noteq> 0, s))"

definition wizchip_get_spi_error ::
    "'w platform \<Rightarrow> ('w, 'm) bus_state_scheme \<Rightarrow> u8 \<times> ('w, 'm) bus_state_scheme" where
  "wizchip_get_spi_error p s =
     (let (e, w) = pf_check_error p (world s)
      in (word_of_int e, s\<lparr>world := w, trace := SpiErrorQ e # trace s\<rparr>))"

definition wizchip_clear_spi_error ::
    "'w platform \<Rightarrow> ('w, 'm) bus_state_scheme \<Rightarrow> ('w, 'm) bus_state_scheme" where
  "wizchip_clear_spi_error p s = call p SpiClear s"

subsection \<open>Root lifecycle\<close>

definition wizchip_get_state :: "('w, 'm) bus_state_scheme \<Rightarrow> wizchip_state" where
  "wizchip_get_state s = chip_state s"

definition wizchip_mark_faulted :: "('w, 'm) bus_state_scheme \<Rightarrow> ('w, 'm) bus_state_scheme" where
  "wizchip_mark_faulted s = s\<lparr>chip_state := WIZCHIP_STATE_FAULTED\<rparr>"

definition wizchip_get_last_error :: "('w, 'm) bus_state_scheme \<Rightarrow> int" where
  "wizchip_get_last_error s = chip_last_error s"

definition wizchip_set_last_error ::
    "int \<Rightarrow> ('w, 'm) bus_state_scheme \<Rightarrow> ('w, 'm) bus_state_scheme" where
  "wizchip_set_last_error e s = s\<lparr>chip_last_error := e\<rparr>"

definition wizchip_clear_last_error :: "('w, 'm) bus_state_scheme \<Rightarrow> ('w, 'm) bus_state_scheme" where
  "wizchip_clear_last_error s = s\<lparr>chip_last_error := 0\<rparr>"

definition wizchip_recover ::
    "'w platform \<Rightarrow> ('w, 'm) bus_state_scheme \<Rightarrow> int \<times> ('w, 'm) bus_state_scheme" where
  "wizchip_recover p s =
     (if chip_state s = WIZCHIP_STATE_READY then
        (0, (wizchip_clear_spi_error p s)\<lparr>chip_last_error := 0\<rparr>)
      else if chip_state s \<noteq> WIZCHIP_STATE_FAULTED then (-1, s)
      else (0, (wizchip_clear_spi_error p s)\<lparr>chip_last_error := 0, chip_state := WIZCHIP_STATE_READY\<rparr>))"

definition wizchip_invalidate_transport_cache ::
    "('w, 'm) bus_state_scheme \<Rightarrow> ('w, 'm) bus_state_scheme" where
  "wizchip_invalidate_transport_cache s = s\<lparr>wizchip_transport_healthy := False\<rparr>"

definition wizchip_spi_fault :: "('w, 'm) bus_state_scheme \<Rightarrow> int \<times> ('w, 'm) bus_state_scheme" where
  "wizchip_spi_fault s =
     (SOCKERR_IO, s\<lparr>chip_state := WIZCHIP_STATE_FAULTED, chip_last_error := SOCKERR_IO\<rparr>)"

subsection \<open>Checked transactions\<close>

definition W5500_SPI_READ :: u8 where "W5500_SPI_READ = push_bit 2 0x00"
definition W5500_SPI_WRITE :: u8 where "W5500_SPI_WRITE = push_bit 2 0x01"

definition frame_header :: "u32 \<Rightarrow> u8 list" where
  "frame_header addr = [ucast (drop_bit 16 addr), ucast (drop_bit 8 addr), ucast addr]"

definition wizchip_spi_write_header ::
    "'w platform \<Rightarrow> u32 \<Rightarrow> u8 \<Rightarrow> ('w, 'm) bus_state_scheme \<Rightarrow> ('w, 'm) bus_state_scheme" where
  "wizchip_spi_write_header p addr control s =
     spi_write_data p (frame_header (addr OR ucast control)) s"

text \<open>
  The status check after a transfer: on every transaction when the build is
  \<open>WIZCHIP_SAFE_SPI\<close>; otherwise only on reads, and only while the transport is not known
  to be healthy.
\<close>

definition spi_finish_read ::
    "'w platform \<Rightarrow> ('w, 'm) bus_state_scheme \<Rightarrow> int \<times> ('w, 'm) bus_state_scheme" where
  "spi_finish_read p s =
     (if pf_safe_spi p then
        let (bad, s) = spi_status_bad p s
        in if bad then wizchip_spi_fault (call p CrisExit s) else (0, call p CrisExit s)
      else if \<not> wizchip_transport_healthy s then
        let (bad, s) = spi_status_bad p s
        in if bad then wizchip_spi_fault (call p CrisExit s)
           else (0, call p CrisExit (s\<lparr>wizchip_transport_healthy := True\<rparr>))
      else (0, call p CrisExit s))"

definition spi_finish_write ::
    "'w platform \<Rightarrow> ('w, 'm) bus_state_scheme \<Rightarrow> int \<times> ('w, 'm) bus_state_scheme" where
  "spi_finish_write p s =
     (if pf_safe_spi p then
        let (bad, s) = spi_status_bad p s
        in if bad then wizchip_spi_fault (call p CrisExit s) else (0, call p CrisExit s)
      else (0, call p CrisExit s))"

text \<open>
  An output pointer is a boolean argument (is it non-null) and an optional result: \<open>None\<close>
  when the function did not write through it. An input buffer is \<open>None\<close> when null.
\<close>

definition wizchip_read8_checked_out ::
    "'w platform \<Rightarrow> u32 \<Rightarrow> bool \<Rightarrow> ('w, 'm) bus_state_scheme
       \<Rightarrow> (int \<times> u8 option) \<times> ('w, 'm) bus_state_scheme" where
  "wizchip_read8_checked_out p addr out s =
     (if \<not> out then ((SOCKERR_ARG, None), s)
      else let s = call p CrisEnter s;
               s = wizchip_clear_spi_error p s;
               s = call p CsSelect s;
               s = wizchip_spi_write_header p addr W5500_SPI_READ s;
               (b, s) = spi_read_byte p s;
               s = call p CsDeselect s;
               (r, s) = spi_finish_read p s
           in ((r, Some b), s))"

definition wizchip_read8_checked ::
    "'w platform \<Rightarrow> u32 \<Rightarrow> ('w, 'm) bus_state_scheme \<Rightarrow> u8 \<times> ('w, 'm) bus_state_scheme" where
  "wizchip_read8_checked p addr s =
     (let ((_, v), s) = wizchip_read8_checked_out p addr True s
      in (case v of None \<Rightarrow> 0xFF | Some b \<Rightarrow> b, s))"

definition wizchip_write8_checked ::
    "'w platform \<Rightarrow> u32 \<Rightarrow> u8 \<Rightarrow> ('w, 'm) bus_state_scheme \<Rightarrow> int \<times> ('w, 'm) bus_state_scheme" where
  "wizchip_write8_checked p addr data s =
     (let frame = frame_header (addr OR ucast W5500_SPI_WRITE) @ [data];
          s = call p CrisEnter s;
          s = s\<lparr>wizchip_transport_healthy := False\<rparr>;
          s = wizchip_clear_spi_error p s;
          s = call p CsSelect s;
          s = spi_write_data p frame s;
          s = call p CsDeselect s
      in spi_finish_write p s)"

definition wizchip_read_buf_checked ::
    "'w platform \<Rightarrow> u32 \<Rightarrow> bool \<Rightarrow> u16 \<Rightarrow> ('w, 'm) bus_state_scheme
       \<Rightarrow> (int \<times> u8 list) \<times> ('w, 'm) bus_state_scheme" where
  "wizchip_read_buf_checked p addr buf len s =
     (if len = 0 then ((0, []), s)
      else if \<not> buf then ((SOCKERR_ARG, []), s)
      else let s = call p CrisEnter s;
               s = wizchip_clear_spi_error p s;
               s = call p CsSelect s;
               s = wizchip_spi_write_header p addr W5500_SPI_READ s;
               (bs, s) = spi_read_data p (unat len) s;
               s = call p CsDeselect s;
               (r, s) = spi_finish_read p s
           in ((r, bs), s))"

definition wizchip_write_buf_checked ::
    "'w platform \<Rightarrow> u32 \<Rightarrow> u8 list option \<Rightarrow> u16 \<Rightarrow> ('w, 'm) bus_state_scheme
       \<Rightarrow> int \<times> ('w, 'm) bus_state_scheme" where
  "wizchip_write_buf_checked p addr buf len s =
     (if len = 0 then (0, s)
      else case buf of
        None \<Rightarrow> (SOCKERR_ARG, s)
      | Some bs \<Rightarrow>
          let s = call p CrisEnter s;
              s = s\<lparr>wizchip_transport_healthy := False\<rparr>;
              s = wizchip_clear_spi_error p s;
              s = call p CsSelect s;
              s = wizchip_spi_write_header p addr W5500_SPI_WRITE s;
              s = spi_write_data p (take (unat len) bs) s;
              s = call p CsDeselect s
          in spi_finish_write p s)"

end
