(* ===== verification/Wire.thy ===== *)
theory Wire
  imports Bus
begin

text \<open>
  What the transport does on the wire. \<open>reg_log\<close> reads the ghost trace back as the list of
  register accesses the chip sees (latest first): the bytes between one chip-select and the
  next deselect, with the address and direction decoded from the three header bytes.
  \<open>bus_phase\<close> is the framing discipline (critical section, chip select, transfer), and
  \<open>lock_phase\<close> the discipline of the registered lock callbacks.
  The first locale, \<open>bus_relation\<close>, is the contract of the four checked transactions: any
  relation on states they respect is respected by everything built from them.
\<close>

unbundle bit_operations_syntax

subsection \<open>Register accesses seen by the chip\<close>

datatype reg_op = RegRead u32 "u8 list" | RegWrite u32 "u8 list"

definition frame_addr :: "u8 list \<Rightarrow> u32" where
  "frame_addr tx = push_bit 16 (ucast (tx ! 0)) OR push_bit 8 (ucast (tx ! 1))
     OR ucast ((tx ! 2) AND 0xF8)"

definition decode_frame :: "u8 list \<Rightarrow> u8 list \<Rightarrow> reg_op" where
  "decode_frame tx rx =
     (if bit (tx ! 2) 2 then RegWrite (frame_addr tx) (drop 3 tx) else RegRead (frame_addr tx) rx)"

primrec scan :: "event list \<Rightarrow> reg_op list \<times> u8 list \<times> u8 list" where
  "scan [] = ([], [], [])"
| "scan (e # tr) =
     (let (lg, tx, rx) = scan tr in
      case e of
        CsSelect \<Rightarrow> (lg, [], [])
      | TxByte b \<Rightarrow> (lg, tx @ [b], rx)
      | TxBurst bs \<Rightarrow> (lg, tx @ bs, rx)
      | RxByte b \<Rightarrow> (lg, tx, rx @ [b])
      | RxBurst bs \<Rightarrow> (lg, tx, rx @ bs)
      | CsDeselect \<Rightarrow> (decode_frame tx rx # lg, [], [])
      | _ \<Rightarrow> (lg, tx, rx))"

definition reg_log :: "event list \<Rightarrow> reg_op list" where
  "reg_log tr = fst (scan tr)"

text \<open>The addresses of the register map: 16 bits of offset, 5 of block, the low 3 bits free.\<close>

definition reg_addr :: "u32 \<Rightarrow> bool" where
  "reg_addr a \<longleftrightarrow> a AND 0x7 = 0 \<and> drop_bit 24 a = 0"

lemma reg_addr_bits:
  assumes "reg_addr a" and "bit a n"
  shows "3 \<le> n \<and> n < 24"
proof -
  have "\<not> bit (a AND 0x7) n" and "\<not> bit (drop_bit 24 a) (n - 24)"
    using assms(1) by (simp_all add: reg_addr_def)
  with assms(2) have "\<not> bit (0x7 :: u32) n" and "\<not> 24 \<le> n"
    by (auto simp: bit_and_iff bit_drop_bit_eq)
  moreover have "bit (0x7 :: u32) n" if "n < 3"
    using that by (auto simp: numeral_eq_Suc less_Suc_eq)
  ultimately show ?thesis by linarith
qed

lemma bit_mask_F8: "bit (0xF8 :: u8) n \<longleftrightarrow> 3 \<le> n \<and> n < 8"
proof (cases "n < 8")
  case True
  then show ?thesis by (auto simp: numeral_eq_Suc less_Suc_eq)
next
  case False
  then show ?thesis by (auto dest: bit_imp_le_length)
qed

lemma frame_addr_header:
  assumes "reg_addr a" and "c AND 0xF8 = (0 :: u8)"
  shows "frame_addr (frame_header (a OR ucast c) @ xs) = a"
proof (rule bit_word_eqI)
  fix n assume "n < LENGTH(32)"
  have c: "\<not> bit c m" if "3 \<le> m" for m
  proof -
    have "\<not> bit (c AND 0xF8) m" using assms(2) by simp
    then have "\<not> (bit c m \<and> bit (0xF8 :: u8) m)" by (simp only: bit_and_iff simp_thms)
    with that bit_mask_F8 [of m] show ?thesis by (auto dest: bit_imp_le_length)
  qed
  consider "n < 3" | "3 \<le> n" "n < 8" | "8 \<le> n" "n < 16" | "16 \<le> n" "n < 24" | "24 \<le> n"
    by linarith
  then show "bit (frame_addr (frame_header (a OR ucast c) @ xs)) n = bit a n"
  proof cases
    case 1
    then show ?thesis
      using reg_addr_bits [OF assms(1), of n] bit_mask_F8 [of n] unfolding frame_addr_def frame_header_def
      by (auto simp: bit_simps)
  next
    case 2
    then show ?thesis
      using bit_mask_F8 [of n] c [of n] unfolding frame_addr_def frame_header_def
      by (auto simp: bit_simps)
  next
    case 3
    then show ?thesis
      using  c [of n] unfolding frame_addr_def frame_header_def
      by (auto simp: bit_simps)
  next
    case 4
    then show ?thesis
      using  c [of n] unfolding frame_addr_def frame_header_def
      by (auto simp: bit_simps)
  next
    case 5
    then show ?thesis
      using  c [of n] reg_addr_bits [OF assms(1), of n] unfolding frame_addr_def frame_header_def
      by (auto simp: bit_simps)
  qed
qed

subsection \<open>Framing and locking disciplines\<close>

datatype bus_mode = BusIdle | BusCritical | BusSelected | BusBad

fun bus_next :: "bus_mode \<Rightarrow> event \<Rightarrow> bus_mode" where
  "bus_next BusBad e = BusBad"
| "bus_next BusIdle e =
     (case e of CrisEnter \<Rightarrow> BusCritical
      | CrisExit \<Rightarrow> BusBad | CsSelect \<Rightarrow> BusBad | CsDeselect \<Rightarrow> BusBad
      | TxByte _ \<Rightarrow> BusBad | TxBurst _ \<Rightarrow> BusBad | RxByte _ \<Rightarrow> BusBad | RxBurst _ \<Rightarrow> BusBad
      | _ \<Rightarrow> BusIdle)"
| "bus_next BusCritical e =
     (case e of CrisExit \<Rightarrow> BusIdle | CsSelect \<Rightarrow> BusSelected
      | SpiClear \<Rightarrow> BusCritical | SpiBusyQ _ \<Rightarrow> BusCritical | SpiErrorQ _ \<Rightarrow> BusCritical
      | _ \<Rightarrow> BusBad)"
| "bus_next BusSelected e =
     (case e of CsDeselect \<Rightarrow> BusCritical
      | TxByte _ \<Rightarrow> BusSelected | TxBurst _ \<Rightarrow> BusSelected
      | RxByte _ \<Rightarrow> BusSelected | RxBurst _ \<Rightarrow> BusSelected
      | _ \<Rightarrow> BusBad)"

primrec bus_phase :: "event list \<Rightarrow> bus_mode" where
  "bus_phase [] = BusIdle"
| "bus_phase (e # tr) = bus_next (bus_phase tr) e"

text \<open>
  The lock discipline of the driver: locks are not recursive, the global lock is never
  requested while a socket lock is held, socket locks are requested in ascending order
  and released in reverse order, and the link callback runs with no lock held. The phase
  holds the global flag and the held socket locks, latest first.
\<close>

datatype lock_mode = Locks bool "u8 list" | LocksBad

fun lock_next :: "lock_mode \<Rightarrow> event \<Rightarrow> lock_mode" where
  "lock_next LocksBad e = LocksBad"
| "lock_next (Locks g hs) e =
     (case e of
        GlobalEnter \<Rightarrow> if \<not> g \<and> hs = [] then Locks True [] else LocksBad
      | GlobalExit \<Rightarrow> if g \<and> hs = [] then Locks False [] else LocksBad
      | SockEnter sn \<Rightarrow> if sn < 8 \<and> (\<forall>h \<in> set hs. h < sn) then Locks g (sn # hs) else LocksBad
      | SockExit sn \<Rightarrow> (case hs of [] \<Rightarrow> LocksBad
                        | h # hs' \<Rightarrow> if h = sn then Locks g hs' else LocksBad)
      | PhyLink _ \<Rightarrow> if \<not> g \<and> hs = [] then Locks g hs else LocksBad
      | _ \<Rightarrow> Locks g hs)"

primrec lock_phase :: "event list \<Rightarrow> lock_mode" where
  "lock_phase [] = Locks False []"
| "lock_phase (e # tr) = lock_next (lock_phase tr) e"

definition lock_event :: "event \<Rightarrow> bool" where
  "lock_event e \<longleftrightarrow> (case e of GlobalEnter \<Rightarrow> True | GlobalExit \<Rightarrow> True | SockEnter _ \<Rightarrow> True
     | SockExit _ \<Rightarrow> True | PhyLink _ \<Rightarrow> True | _ \<Rightarrow> False)"

lemma lock_next_other [simp]: "\<not> lock_event e \<Longrightarrow> lock_next l e = l"
  by (cases l) (auto simp: lock_event_def split: event.splits)

subsection \<open>What a transaction may change\<close>

definition bus_upd :: "('w, 'm) bus_state_scheme \<Rightarrow> ('w, 'm) bus_state_scheme \<Rightarrow> bool" where
  "bus_upd s s' \<longleftrightarrow> (\<exists>w t c e h. s' = s\<lparr>world := w, trace := t, chip_state := c,
      chip_last_error := e, wizchip_transport_healthy := h\<rparr>)"

lemma bus_updI:
  "s' = s\<lparr>world := w, trace := t, chip_state := c, chip_last_error := e,
     wizchip_transport_healthy := h\<rparr> \<Longrightarrow> bus_upd s s'"
  unfolding bus_upd_def by blast

lemma bus_upd_iff:
  "bus_upd s s' \<longleftrightarrow> bus_state.more s' = bus_state.more s
     \<and> spi_read_burst s' = spi_read_burst s \<and> spi_write_burst s' = spi_write_burst s"
proof
  assume "bus_state.more s' = bus_state.more s
     \<and> spi_read_burst s' = spi_read_burst s \<and> spi_write_burst s' = spi_write_burst s"
  then show "bus_upd s s'"
    by (intro bus_updI [where w = "world s'" and t = "trace s'" and c = "chip_state s'"
          and e = "chip_last_error s'" and h = "wizchip_transport_healthy s'"])
      (cases s; cases s'; simp)
qed (auto simp: bus_upd_def)

lemma bus_upd_refl [simp]: "bus_upd s s"
  by (simp add: bus_upd_iff)

lemma bus_upd_trans: "\<lbrakk>bus_upd a b; bus_upd b c\<rbrakk> \<Longrightarrow> bus_upd a c"
  by (simp add: bus_upd_iff)

lemma bus_upd_call [simp]: "bus_upd s (call p ev s)"
  by (simp add: bus_upd_iff call_def)

subsection \<open>Simplification of callback invocations\<close>

lemma call_simps [simp]:
  "trace (call p ev s) = ev # trace s"
  "world (call p ev s) = pf_call p ev (world s)"
  "spi_read_burst (call p ev s) = spi_read_burst s"
  "spi_write_burst (call p ev s) = spi_write_burst s"
  "chip_state (call p ev s) = chip_state s"
  "chip_last_error (call p ev s) = chip_last_error s"
  "wizchip_transport_healthy (call p ev s) = wizchip_transport_healthy s"
  by (simp_all add: call_def)

lemma reg_log_quiet [simp]:
  "reg_log (GlobalEnter # tr) = reg_log tr" "reg_log (GlobalExit # tr) = reg_log tr"
  "reg_log (SockEnter sn # tr) = reg_log tr" "reg_log (SockExit sn # tr) = reg_log tr"
  "reg_log (PhyLink l # tr) = reg_log tr"
  by (simp_all add: reg_log_def split: prod.split)

subsection \<open>Data phases and whole transactions\<close>

definition xfer ::
    "u8 list \<Rightarrow> u8 list \<Rightarrow> ('w, 'm) bus_state_scheme \<Rightarrow> ('w, 'm) bus_state_scheme \<Rightarrow> bool" where
  "xfer mo mi s s' \<longleftrightarrow>
     (\<exists>w t. s' = s\<lparr>world := w, trace := t\<rparr>
        \<and> scan t = (let (lg, tx, rx) = scan (trace s) in (lg, tx @ mo, rx @ mi))
        \<and> (bus_phase (trace s) = BusSelected \<longrightarrow> bus_phase t = BusSelected)
        \<and> lock_phase t = lock_phase (trace s))"

lemma xferI:
  "\<lbrakk>s' = s\<lparr>world := w, trace := t\<rparr>;
    scan t = (let (lg, tx, rx) = scan (trace s) in (lg, tx @ mo, rx @ mi));
    bus_phase (trace s) = BusSelected \<Longrightarrow> bus_phase t = BusSelected;
    lock_phase t = lock_phase (trace s)\<rbrakk> \<Longrightarrow> xfer mo mi s s'"
  unfolding xfer_def by blast

lemma xfer_refl: "xfer [] [] s s"
  by (rule xferI [where w = "world s" and t = "trace s"]) (simp_all split: prod.split)

lemma xfer_trans: "\<lbrakk>xfer a b s s'; xfer c d s' s''\<rbrakk> \<Longrightarrow> xfer (a @ c) (b @ d) s s''"
  unfolding xfer_def by (force split: prod.splits)

lemma xfer_tx_byte: "xfer [b] [] s (call p (TxByte b) s)"
  unfolding call_def by (rule xferI, rule refl) (simp_all add: lock_event_def split: prod.split)

lemma xfer_tx_burst: "xfer bs [] s (call p (TxBurst bs) s)"
  unfolding call_def by (rule xferI, rule refl) (simp_all add: lock_event_def split: prod.split)

lemma xfer_write_bytes: "xfer bs [] s (spi_write_bytes p bs s)"
proof (induction bs arbitrary: s)
  case Nil
  show ?case by (simp add: xfer_refl)
next
  case (Cons b bs)
  show ?case using xfer_trans [OF xfer_tx_byte Cons.IH] by simp
qed

lemma xfer_write_data: "xfer bs [] s (spi_write_data p bs s)"
  by (simp add: spi_write_data_def xfer_tx_burst xfer_write_bytes)

lemma xfer_read_byte: "spi_read_byte p s = (b, s') \<Longrightarrow> xfer [] [b] s s'"
  unfolding spi_read_byte_def
  by (auto simp: lock_event_def split: prod.splits intro!: xferI)

lemma xfer_read_bytes: "spi_read_bytes p n s = (bs, s') \<Longrightarrow> xfer [] bs s s' \<and> length bs = n"
proof (induction n arbitrary: bs s s')
  case 0
  then show ?case by (simp add: xfer_refl)
next
  case (Suc n)
  from Suc.prems obtain b s1 bs' where b: "spi_read_byte p s = (b, s1)"
      and r: "spi_read_bytes p n s1 = (bs', s')" and bs: "bs = b # bs'"
    by (auto split: prod.splits)
  from xfer_trans [OF xfer_read_byte [OF b]] Suc.IH [OF r] bs show ?case by fastforce
qed

lemma xfer_read_data:
  assumes "spi_read_data p n s = (bs, s')"
  shows "xfer [] bs s s' \<and> length bs = n"
proof (cases "spi_read_burst s")
  case True
  with assms show ?thesis
    unfolding spi_read_data_def spi_read_burst_cb_def
    by (auto simp: lock_event_def Let_def split: prod.splits intro!: xferI)
next
  case False
  with assms xfer_read_bytes show ?thesis by (simp add: spi_read_data_def)
qed

text \<open>One framed transaction with the register access \<open>acc\<close>, ending in status \<open>r\<close>.\<close>

definition txn ::
    "reg_op \<Rightarrow> int \<Rightarrow> ('w, 'm) bus_state_scheme \<Rightarrow> ('w, 'm) bus_state_scheme \<Rightarrow> bool" where
  "txn acc r s s' \<longleftrightarrow>
     bus_upd s s' \<and> reg_log (trace s') = acc # reg_log (trace s)
     \<and> (bus_phase (trace s) = BusIdle \<longrightarrow> bus_phase (trace s') = BusIdle)
     \<and> lock_phase (trace s') = lock_phase (trace s)
     \<and> (if r = 0 then chip_state s' = chip_state s \<and> chip_last_error s' = chip_last_error s
        else r = SOCKERR_IO \<and> chip_state s' = WIZCHIP_STATE_FAULTED \<and> chip_last_error s' = SOCKERR_IO)"

text \<open>From the critical section to the deselect, and then the status check.\<close>

definition framed ::
    "reg_op \<Rightarrow> ('w, 'm) bus_state_scheme \<Rightarrow> ('w, 'm) bus_state_scheme \<Rightarrow> bool" where
  "framed acc s s' \<longleftrightarrow>
     bus_upd s s' \<and> scan (trace s') = (acc # fst (scan (trace s)), [], [])
     \<and> (bus_phase (trace s) = BusIdle \<longrightarrow> bus_phase (trace s') = BusCritical)
     \<and> lock_phase (trace s') = lock_phase (trace s)
     \<and> chip_state s' = chip_state s \<and> chip_last_error s' = chip_last_error s"

lemma framedI:
  assumes x: "xfer mo mi (call p CsSelect (wizchip_clear_spi_error p t)) s1"
    and t: "t = (call p CrisEnter s)\<lparr>wizchip_transport_healthy := h\<rparr>"
  shows "framed (decode_frame mo mi) s (call p CsDeselect s1)"
proof -
  from x obtain w tr where s1: "s1 = (call p CsSelect (wizchip_clear_spi_error p t))\<lparr>world := w, trace := tr\<rparr>"
    and sc: "scan tr = (let (lg, tx, rx) = scan (trace (call p CsSelect (wizchip_clear_spi_error p t)))
               in (lg, tx @ mo, rx @ mi))"
    and bp: "bus_phase (trace (call p CsSelect (wizchip_clear_spi_error p t))) = BusSelected
               \<longrightarrow> bus_phase tr = BusSelected"
    and lp: "lock_phase tr = lock_phase (trace (call p CsSelect (wizchip_clear_spi_error p t)))"
    unfolding xfer_def by blast
  have "bus_upd s (call p CsDeselect s1)"
    by (simp add: s1 t wizchip_clear_spi_error_def call_def bus_upd_iff)
  with sc bp lp show ?thesis
    unfolding framed_def s1 t wizchip_clear_spi_error_def
    by (auto simp: lock_event_def split: prod.splits)
qed

definition status_queried ::
    "('w, 'm) bus_state_scheme \<Rightarrow> ('w, 'm) bus_state_scheme \<Rightarrow> bool" where
  "status_queried s s' \<longleftrightarrow>
     bus_upd s s' \<and> scan (trace s') = scan (trace s)
     \<and> (bus_phase (trace s) = BusCritical \<longrightarrow> bus_phase (trace s') = BusCritical)
     \<and> lock_phase (trace s') = lock_phase (trace s)
     \<and> chip_state s' = chip_state s \<and> chip_last_error s' = chip_last_error s"

lemma status_queried_bad: "spi_status_bad p s = (b, s') \<Longrightarrow> status_queried s s'"
  unfolding spi_status_bad_def status_queried_def
  by (auto simp: lock_event_def Let_def bus_upd_iff split: prod.splits if_splits)

lemma txn_ok:
  assumes f: "framed acc s s1" and q: "status_queried s1 s2"
    and h: "s3 = s2\<lparr>wizchip_transport_healthy := h\<rparr>"
  shows "txn acc 0 s (call p CrisExit s3)"
proof -
  have "bus_upd s2 (call p CrisExit s3)"
    by (simp add: h call_def bus_upd_iff)
  then have "bus_upd s (call p CrisExit s3)"
    using f q by (meson bus_upd_trans framed_def status_queried_def)
  with f q show ?thesis
    unfolding txn_def framed_def status_queried_def h reg_log_def
    by (auto simp: lock_event_def split: prod.splits)
qed

lemma txn_fault:
  assumes f: "framed acc s s1" and q: "status_queried s1 s2"
    and r: "wizchip_spi_fault (call p CrisExit s2) = (r, s')"
  shows "txn acc r s s'"
proof -
  have "bus_upd s2 s'"
    using r by (auto simp: wizchip_spi_fault_def call_def bus_upd_iff)
  then have "bus_upd s s'"
    using f q by (meson bus_upd_trans framed_def status_queried_def)
  with f q r show ?thesis
    unfolding txn_def framed_def status_queried_def reg_log_def wizchip_spi_fault_def
    by (auto simp: lock_event_def split: prod.splits)
qed

lemma status_queried_refl: "status_queried s s"
  by (simp add: status_queried_def)

lemma txn_finish_read:
  assumes "framed acc s s1" and "spi_finish_read p s1 = (r, s')"
  shows "txn acc r s s'"
proof -
  have id: "x = x\<lparr>wizchip_transport_healthy := wizchip_transport_healthy x\<rparr>" for x :: "('a, 'b) bus_state_scheme"
    by simp
  show ?thesis
    using assms(2) txn_ok [OF assms(1) status_queried_bad] txn_ok [OF assms(1) status_queried_bad id]
      txn_ok [OF assms(1) status_queried_refl id] txn_fault [OF assms(1) status_queried_bad]
    unfolding spi_finish_read_def
    by (auto simp: Let_def split: if_splits prod.splits)
qed

lemma txn_finish_write:
  assumes "framed acc s s1" and "spi_finish_write p s1 = (r, s')"
  shows "txn acc r s s'"
proof -
  have id: "x = x\<lparr>wizchip_transport_healthy := wizchip_transport_healthy x\<rparr>" for x :: "('a, 'b) bus_state_scheme"
    by simp
  show ?thesis
    using assms(2) txn_ok [OF assms(1) status_queried_bad id]
      txn_ok [OF assms(1) status_queried_refl id] txn_fault [OF assms(1) status_queried_bad]
    unfolding spi_finish_write_def
    by (auto simp: Let_def split: if_splits prod.splits)
qed

subsection \<open>The four checked transactions\<close>

definition read_acc :: "u32 \<Rightarrow> u8 list \<Rightarrow> reg_op" where
  "read_acc a rx = decode_frame (frame_header (a OR ucast W5500_SPI_READ)) rx"

definition write_acc :: "u32 \<Rightarrow> u8 list \<Rightarrow> reg_op" where
  "write_acc a data = decode_frame (frame_header (a OR ucast W5500_SPI_WRITE) @ data) []"

lemma read_acc_eq [simp]: "reg_addr a \<Longrightarrow> read_acc a rx = RegRead a rx"
  using frame_addr_header [of a W5500_SPI_READ "[]"] reg_addr_bits [of a 2]
  by (auto simp: read_acc_def decode_frame_def W5500_SPI_READ_def frame_header_def bit_simps)

lemma write_acc_eq [simp]: "reg_addr a \<Longrightarrow> write_acc a data = RegWrite a data"
  using frame_addr_header [of a W5500_SPI_WRITE data]
  by (auto simp: write_acc_def decode_frame_def W5500_SPI_WRITE_def frame_header_def bit_simps)

lemma read8_txn:
  assumes "wizchip_read8_checked_out p a True s = ((r, v), s')"
  shows "\<exists>b. v = Some b \<and> txn (read_acc a [b]) r s s'"
proof -
  define s3 where "s3 = call p CsSelect (wizchip_clear_spi_error p (call p CrisEnter s))"
  define s4 where "s4 = wizchip_spi_write_header p a W5500_SPI_READ s3"
  obtain b s5 where rb: "spi_read_byte p s4 = (b, s5)" by fastforce
  have "xfer (frame_header (a OR ucast W5500_SPI_READ)) [] s3 s4"
    unfolding s4_def wizchip_spi_write_header_def by (rule xfer_write_data)
  from xfer_trans [OF this xfer_read_byte [OF rb]]
  have "xfer (frame_header (a OR ucast W5500_SPI_READ)) [b] s3 s5" by simp
  then have "framed (read_acc a [b]) s (call p CsDeselect s5)"
    unfolding s3_def read_acc_def
    by (rule framedI [where h = "wizchip_transport_healthy s"]) (simp add: call_def)
  then show ?thesis
    using assms rb txn_finish_read
    by (auto simp: wizchip_read8_checked_out_def Let_def s3_def s4_def split: prod.splits)
qed

lemma read_buf_txn:
  assumes "wizchip_read_buf_checked p a True len s = ((r, bs), s')" and "len \<noteq> 0"
  shows "length bs = unat len \<and> txn (read_acc a bs) r s s'"
proof -
  define s3 where "s3 = call p CsSelect (wizchip_clear_spi_error p (call p CrisEnter s))"
  define s4 where "s4 = wizchip_spi_write_header p a W5500_SPI_READ s3"
  obtain bs' s5 where rb: "spi_read_data p (unat len) s4 = (bs', s5)" by fastforce
  have "xfer (frame_header (a OR ucast W5500_SPI_READ)) [] s3 s4"
    unfolding s4_def wizchip_spi_write_header_def by (rule xfer_write_data)
  from xfer_trans [OF this] xfer_read_data [OF rb]
  have "xfer (frame_header (a OR ucast W5500_SPI_READ)) bs' s3 s5" by fastforce
  then have "framed (read_acc a bs') s (call p CsDeselect s5)"
    unfolding s3_def read_acc_def
    by (rule framedI [where h = "wizchip_transport_healthy s"]) (simp add: call_def)
  then show ?thesis
    using assms rb txn_finish_read xfer_read_data [OF rb]
    by (auto simp: wizchip_read_buf_checked_def Let_def s3_def s4_def split: prod.splits)
qed

lemma write8_txn:
  assumes "wizchip_write8_checked p a d s = (r, s')"
  shows "txn (write_acc a [d]) r s s'"
proof -
  define t where "t = (call p CrisEnter s)\<lparr>wizchip_transport_healthy := False\<rparr>"
  have "xfer (frame_header (a OR ucast W5500_SPI_WRITE) @ [d]) [] (call p CsSelect (wizchip_clear_spi_error p t))
      (spi_write_data p (frame_header (a OR ucast W5500_SPI_WRITE) @ [d])
         (call p CsSelect (wizchip_clear_spi_error p t)))"
    by (rule xfer_write_data)
  from framedI [OF this t_def] show ?thesis
    using assms txn_finish_write
    by (auto simp: wizchip_write8_checked_def Let_def write_acc_def t_def)
qed

lemma write_buf_txn:
  assumes "wizchip_write_buf_checked p a (Some bs) len s = (r, s')" and "len \<noteq> 0"
  shows "txn (write_acc a (take (unat len) bs)) r s s'"
proof -
  define t where "t = (call p CrisEnter s)\<lparr>wizchip_transport_healthy := False\<rparr>"
  define s3 where "s3 = call p CsSelect (wizchip_clear_spi_error p t)"
  have "xfer (frame_header (a OR ucast W5500_SPI_WRITE) @ take (unat len) bs) [] s3
      (spi_write_data p (take (unat len) bs) (wizchip_spi_write_header p a W5500_SPI_WRITE s3))"
    using xfer_trans [OF xfer_write_data xfer_write_data, of "frame_header (a OR ucast W5500_SPI_WRITE)"]
    by (fastforce simp: wizchip_spi_write_header_def)
  from framedI [OF this [unfolded s3_def] t_def] show ?thesis
    using assms txn_finish_write
    by (auto simp: wizchip_write_buf_checked_def Let_def write_acc_def t_def s3_def)
qed

text \<open>Without \<open>WIZCHIP_SAFE_SPI\<close> a write never looks at the status probes.\<close>

lemma write_unsafe_ok:
  "\<not> pf_safe_spi p \<Longrightarrow> fst (wizchip_write8_checked p a d s) = 0"
  "\<not> pf_safe_spi p \<Longrightarrow> fst (wizchip_write_buf_checked p a (Some bs) len s) = 0"
  by (simp_all add: wizchip_write8_checked_def wizchip_write_buf_checked_def spi_finish_write_def Let_def)

subsection \<open>Contract of the transport\<close>

locale bus_relation =
  fixes p :: "'w platform"
    and R :: "('w, 'm) bus_state_scheme \<Rightarrow> ('w, 'm) bus_state_scheme \<Rightarrow> bool"
  assumes R_refl: "R s s"
    and R_trans: "\<lbrakk>R a b; R b c\<rbrakk> \<Longrightarrow> R a c"
    and R_txn: "txn acc r s s' \<Longrightarrow> R s s'"
begin

lemma R_read8:
  "\<lbrakk>R s0 s; \<And>v s'. R s0 s' \<Longrightarrow> Q v s'\<rbrakk> \<Longrightarrow> wpt (wizchip_read8_checked_out p a True s) Q"
  unfolding wpt_def
  by (metis (no_types, lifting) R_trans R_txn prod.collapse read8_txn)

lemma R_read8_value:
  "\<lbrakk>R s0 s; \<And>v s'. R s0 s' \<Longrightarrow> Q v s'\<rbrakk> \<Longrightarrow> wpt (wizchip_read8_checked p a s) Q"
  unfolding wizchip_read8_checked_def by (auto intro!: wp R_read8)

lemma R_write8:
  "\<lbrakk>R s0 s; \<And>v s'. R s0 s' \<Longrightarrow> Q v s'\<rbrakk> \<Longrightarrow> wpt (wizchip_write8_checked p a d s) Q"
  unfolding wpt_def
  by (metis R_trans R_txn prod.collapse write8_txn)

lemma R_read_buf:
  assumes "R s0 s" and "\<And>v s'. R s0 s' \<Longrightarrow> Q v s'"
  shows "wpt (wizchip_read_buf_checked p a True len s) Q"
proof (cases "len = 0")
  case True
  with assms show ?thesis by (simp add: wizchip_read_buf_checked_def wpt_def)
next
  case False
  obtain r bs s' where e: "wizchip_read_buf_checked p a True len s = ((r, bs), s')"
    by (metis prod.collapse)
  from read_buf_txn [OF e False] assms(1) have "R s0 s'" by (blast intro: R_trans R_txn)
  with assms(2) e show ?thesis by (simp add: wpt_def)
qed

lemma R_write_buf:
  assumes "R s0 s" and "\<And>v s'. R s0 s' \<Longrightarrow> Q v s'"
  shows "wpt (wizchip_write_buf_checked p a buf len s) Q"
proof (cases "len = 0 \<or> buf = None")
  case True
  with assms show ?thesis by (auto simp: wizchip_write_buf_checked_def wpt_def)
next
  case False
  then obtain bs where b: "buf = Some bs" "len \<noteq> 0" by auto
  obtain r s' where e: "wizchip_write_buf_checked p a (Some bs) len s = (r, s')" by fastforce
  from write_buf_txn [OF e b(2)] assms(1) have "R s0 s'" by (blast intro: R_trans R_txn)
  with assms(2) e b show ?thesis by (simp add: wpt_def)
qed

lemmas transport_rel = R_read8 R_read8_value R_write8 R_read_buf R_write_buf

end

interpretation bus_frame: bus_relation p bus_upd for p
  by unfold_locales (auto simp: txn_def intro: bus_upd_trans)

end
