(* ===== verification/Registers.thy ===== *)
theory Registers
  imports Wire
begin

text \<open>
  The register map of \<open>Ethernet/W5500/w5500.h\<close> and the register primitives of
  \<open>Ethernet/W5500/w5500.c\<close>: one definition per address macro, per bit-mask macro the driver
  uses, and per \<open>set\<close>/\<open>get\<close> accessor macro. Addresses are 32-bit sums, as in the macros, so
  the block and offset fields stay apart only because of the ranges proved here.
  Constants that clash with names of HOL or of other constants carry the prefix \<open>reg_\<close>.
  The locale \<open>bus_relation\<close> is extended to every accessor.
\<close>

unbundle bit_operations_syntax

type_synonym ('a, 'w, 'm) bus_op = "('w, 'm) bus_state_scheme \<Rightarrow> 'a \<times> ('w, 'm) bus_state_scheme"
type_synonym ('w, 'm) bus_proc = "('w, 'm) bus_state_scheme \<Rightarrow> ('w, 'm) bus_state_scheme"

subsection \<open>Addresses\<close>

definition WIZCHIP_CREG_BLOCK :: u32 where "WIZCHIP_CREG_BLOCK = 0"
definition WIZCHIP_SREG_BLOCK :: "u8 \<Rightarrow> u32" where "WIZCHIP_SREG_BLOCK N = 1 + 4 * ucast N"
definition WIZCHIP_TXBUF_BLOCK :: "u8 \<Rightarrow> u32" where "WIZCHIP_TXBUF_BLOCK N = 2 + 4 * ucast N"
definition WIZCHIP_RXBUF_BLOCK :: "u8 \<Rightarrow> u32" where "WIZCHIP_RXBUF_BLOCK N = 3 + 4 * ucast N"

definition reg_MR :: u32 where "reg_MR = push_bit 8 0x0000 + push_bit 3 WIZCHIP_CREG_BLOCK"
definition reg_GAR :: u32 where "reg_GAR = push_bit 8 0x0001 + push_bit 3 WIZCHIP_CREG_BLOCK"
definition reg_SUBR :: u32 where "reg_SUBR = push_bit 8 0x0005 + push_bit 3 WIZCHIP_CREG_BLOCK"
definition reg_SHAR :: u32 where "reg_SHAR = push_bit 8 0x0009 + push_bit 3 WIZCHIP_CREG_BLOCK"
definition reg_SIPR :: u32 where "reg_SIPR = push_bit 8 0x000f + push_bit 3 WIZCHIP_CREG_BLOCK"
definition reg_INTLEVEL :: u32 where "reg_INTLEVEL = push_bit 8 0x0013 + push_bit 3 WIZCHIP_CREG_BLOCK"
definition reg_IR :: u32 where "reg_IR = push_bit 8 0x0015 + push_bit 3 WIZCHIP_CREG_BLOCK"
definition reg_IMR :: u32 where "reg_IMR = push_bit 8 0x0016 + push_bit 3 WIZCHIP_CREG_BLOCK"
definition reg_SIR :: u32 where "reg_SIR = push_bit 8 0x0017 + push_bit 3 WIZCHIP_CREG_BLOCK"
definition reg_SIMR :: u32 where "reg_SIMR = push_bit 8 0x0018 + push_bit 3 WIZCHIP_CREG_BLOCK"
definition reg_RTR :: u32 where "reg_RTR = push_bit 8 0x0019 + push_bit 3 WIZCHIP_CREG_BLOCK"
definition reg_RCR :: u32 where "reg_RCR = push_bit 8 0x001b + push_bit 3 WIZCHIP_CREG_BLOCK"
definition reg_PTIMER :: u32 where "reg_PTIMER = push_bit 8 0x001c + push_bit 3 WIZCHIP_CREG_BLOCK"
definition reg_PMAGIC :: u32 where "reg_PMAGIC = push_bit 8 0x001d + push_bit 3 WIZCHIP_CREG_BLOCK"
definition reg_PHAR :: u32 where "reg_PHAR = push_bit 8 0x001e + push_bit 3 WIZCHIP_CREG_BLOCK"
definition reg_PSID :: u32 where "reg_PSID = push_bit 8 0x0024 + push_bit 3 WIZCHIP_CREG_BLOCK"
definition reg_PMRU :: u32 where "reg_PMRU = push_bit 8 0x0026 + push_bit 3 WIZCHIP_CREG_BLOCK"
definition reg_UIPR :: u32 where "reg_UIPR = push_bit 8 0x0028 + push_bit 3 WIZCHIP_CREG_BLOCK"
definition reg_UPORTR :: u32 where "reg_UPORTR = push_bit 8 0x002c + push_bit 3 WIZCHIP_CREG_BLOCK"
definition reg_PHYCFGR :: u32 where "reg_PHYCFGR = push_bit 8 0x002e + push_bit 3 WIZCHIP_CREG_BLOCK"
definition reg_VERSIONR :: u32 where "reg_VERSIONR = push_bit 8 0x0039 + push_bit 3 WIZCHIP_CREG_BLOCK"

definition Sn_MR :: "u8 \<Rightarrow> u32" where
  "Sn_MR N = push_bit 8 0x0000 + push_bit 3 (WIZCHIP_SREG_BLOCK N)"
definition Sn_CR :: "u8 \<Rightarrow> u32" where
  "Sn_CR N = push_bit 8 0x0001 + push_bit 3 (WIZCHIP_SREG_BLOCK N)"
definition Sn_IR :: "u8 \<Rightarrow> u32" where
  "Sn_IR N = push_bit 8 0x0002 + push_bit 3 (WIZCHIP_SREG_BLOCK N)"
definition Sn_SR :: "u8 \<Rightarrow> u32" where
  "Sn_SR N = push_bit 8 0x0003 + push_bit 3 (WIZCHIP_SREG_BLOCK N)"
definition Sn_PORT :: "u8 \<Rightarrow> u32" where
  "Sn_PORT N = push_bit 8 0x0004 + push_bit 3 (WIZCHIP_SREG_BLOCK N)"
definition Sn_DHAR :: "u8 \<Rightarrow> u32" where
  "Sn_DHAR N = push_bit 8 0x0006 + push_bit 3 (WIZCHIP_SREG_BLOCK N)"
definition Sn_DIPR :: "u8 \<Rightarrow> u32" where
  "Sn_DIPR N = push_bit 8 0x000c + push_bit 3 (WIZCHIP_SREG_BLOCK N)"
definition Sn_DPORT :: "u8 \<Rightarrow> u32" where
  "Sn_DPORT N = push_bit 8 0x0010 + push_bit 3 (WIZCHIP_SREG_BLOCK N)"
definition Sn_MSSR :: "u8 \<Rightarrow> u32" where
  "Sn_MSSR N = push_bit 8 0x0012 + push_bit 3 (WIZCHIP_SREG_BLOCK N)"
definition Sn_TOS :: "u8 \<Rightarrow> u32" where
  "Sn_TOS N = push_bit 8 0x0015 + push_bit 3 (WIZCHIP_SREG_BLOCK N)"
definition Sn_TTL :: "u8 \<Rightarrow> u32" where
  "Sn_TTL N = push_bit 8 0x0016 + push_bit 3 (WIZCHIP_SREG_BLOCK N)"
definition Sn_RXBUF_SIZE :: "u8 \<Rightarrow> u32" where
  "Sn_RXBUF_SIZE N = push_bit 8 0x001e + push_bit 3 (WIZCHIP_SREG_BLOCK N)"
definition Sn_TXBUF_SIZE :: "u8 \<Rightarrow> u32" where
  "Sn_TXBUF_SIZE N = push_bit 8 0x001f + push_bit 3 (WIZCHIP_SREG_BLOCK N)"
definition Sn_TX_FSR :: "u8 \<Rightarrow> u32" where
  "Sn_TX_FSR N = push_bit 8 0x0020 + push_bit 3 (WIZCHIP_SREG_BLOCK N)"
definition Sn_TX_RD :: "u8 \<Rightarrow> u32" where
  "Sn_TX_RD N = push_bit 8 0x0022 + push_bit 3 (WIZCHIP_SREG_BLOCK N)"
definition Sn_TX_WR :: "u8 \<Rightarrow> u32" where
  "Sn_TX_WR N = push_bit 8 0x0024 + push_bit 3 (WIZCHIP_SREG_BLOCK N)"
definition Sn_RX_RSR :: "u8 \<Rightarrow> u32" where
  "Sn_RX_RSR N = push_bit 8 0x0026 + push_bit 3 (WIZCHIP_SREG_BLOCK N)"
definition Sn_RX_RD :: "u8 \<Rightarrow> u32" where
  "Sn_RX_RD N = push_bit 8 0x0028 + push_bit 3 (WIZCHIP_SREG_BLOCK N)"
definition Sn_RX_WR :: "u8 \<Rightarrow> u32" where
  "Sn_RX_WR N = push_bit 8 0x002a + push_bit 3 (WIZCHIP_SREG_BLOCK N)"
definition Sn_IMR :: "u8 \<Rightarrow> u32" where
  "Sn_IMR N = push_bit 8 0x002c + push_bit 3 (WIZCHIP_SREG_BLOCK N)"
definition Sn_FRAG :: "u8 \<Rightarrow> u32" where
  "Sn_FRAG N = push_bit 8 0x002d + push_bit 3 (WIZCHIP_SREG_BLOCK N)"
definition Sn_KPALVTR :: "u8 \<Rightarrow> u32" where
  "Sn_KPALVTR N = push_bit 8 0x002f + push_bit 3 (WIZCHIP_SREG_BLOCK N)"

subsection \<open>Register values\<close>

definition Sn_MR_MFEN :: u8 where [simp]: "Sn_MR_MFEN = 0x80"
definition Sn_MR_MMB :: u8 where [simp]: "Sn_MR_MMB = 0x20"
definition Sn_MR_MIP6B :: u8 where [simp]: "Sn_MR_MIP6B = 0x10"
definition Sn_MR_MC :: u8 where [simp]: "Sn_MR_MC = 0x20"
definition MR_RST :: u8 where [simp]: "MR_RST = 0x80"
definition MR_WOL :: u8 where [simp]: "MR_WOL = 0x20"
definition MR_PB :: u8 where [simp]: "MR_PB = 0x10"
definition MR_PPPOE :: u8 where [simp]: "MR_PPPOE = 0x08"
definition MR_FARP :: u8 where [simp]: "MR_FARP = 0x02"
definition IR_CONFLICT :: u8 where [simp]: "IR_CONFLICT = 0x80"
definition IR_UNREACH :: u8 where [simp]: "IR_UNREACH = 0x40"
definition IR_PPPoE :: u8 where [simp]: "IR_PPPoE = 0x20"
definition IR_MP :: u8 where [simp]: "IR_MP = 0x10"
definition IM_IR7 :: u8 where [simp]: "IM_IR7 = 0x80"
definition IM_IR6 :: u8 where [simp]: "IM_IR6 = 0x40"
definition IM_IR5 :: u8 where [simp]: "IM_IR5 = 0x20"
definition IM_IR4 :: u8 where [simp]: "IM_IR4 = 0x10"
definition Sn_MR_MULTI :: u8 where [simp]: "Sn_MR_MULTI = 0x80"
definition Sn_MR_BCASTB :: u8 where [simp]: "Sn_MR_BCASTB = 0x40"
definition Sn_MR_ND :: u8 where [simp]: "Sn_MR_ND = 0x20"
definition Sn_MR_UCASTB :: u8 where [simp]: "Sn_MR_UCASTB = 0x10"
definition Sn_MR_MACRAW :: u8 where [simp]: "Sn_MR_MACRAW = 0x04"
definition Sn_MR_IPRAW :: u8 where [simp]: "Sn_MR_IPRAW = 0x03"
definition Sn_MR_UDP :: u8 where [simp]: "Sn_MR_UDP = 0x02"
definition Sn_MR_TCP :: u8 where [simp]: "Sn_MR_TCP = 0x01"
definition Sn_MR_CLOSE :: u8 where [simp]: "Sn_MR_CLOSE = 0x00"
definition Sn_CR_OPEN :: u8 where [simp]: "Sn_CR_OPEN = 0x01"
definition Sn_CR_LISTEN :: u8 where [simp]: "Sn_CR_LISTEN = 0x02"
definition Sn_CR_CONNECT :: u8 where [simp]: "Sn_CR_CONNECT = 0x04"
definition Sn_CR_DISCON :: u8 where [simp]: "Sn_CR_DISCON = 0x08"
definition Sn_CR_CLOSE :: u8 where [simp]: "Sn_CR_CLOSE = 0x10"
definition Sn_CR_SEND :: u8 where [simp]: "Sn_CR_SEND = 0x20"
definition Sn_CR_SEND_MAC :: u8 where [simp]: "Sn_CR_SEND_MAC = 0x21"
definition Sn_CR_SEND_KEEP :: u8 where [simp]: "Sn_CR_SEND_KEEP = 0x22"
definition Sn_CR_RECV :: u8 where [simp]: "Sn_CR_RECV = 0x40"
definition Sn_IR_SENDOK :: u8 where [simp]: "Sn_IR_SENDOK = 0x10"
definition Sn_IR_TIMEOUT :: u8 where [simp]: "Sn_IR_TIMEOUT = 0x08"
definition Sn_IR_RECV :: u8 where [simp]: "Sn_IR_RECV = 0x04"
definition Sn_IR_DISCON :: u8 where [simp]: "Sn_IR_DISCON = 0x02"
definition Sn_IR_CON :: u8 where [simp]: "Sn_IR_CON = 0x01"
definition SOCK_CLOSED :: u8 where [simp]: "SOCK_CLOSED = 0x00"
definition SOCK_INIT :: u8 where [simp]: "SOCK_INIT = 0x13"
definition SOCK_LISTEN :: u8 where [simp]: "SOCK_LISTEN = 0x14"
definition SOCK_SYNSENT :: u8 where [simp]: "SOCK_SYNSENT = 0x15"
definition SOCK_SYNRECV :: u8 where [simp]: "SOCK_SYNRECV = 0x16"
definition SOCK_ESTABLISHED :: u8 where [simp]: "SOCK_ESTABLISHED = 0x17"
definition SOCK_FIN_WAIT :: u8 where [simp]: "SOCK_FIN_WAIT = 0x18"
definition SOCK_CLOSING :: u8 where [simp]: "SOCK_CLOSING = 0x1A"
definition SOCK_TIME_WAIT :: u8 where [simp]: "SOCK_TIME_WAIT = 0x1B"
definition SOCK_CLOSE_WAIT :: u8 where [simp]: "SOCK_CLOSE_WAIT = 0x1C"
definition SOCK_LAST_ACK :: u8 where [simp]: "SOCK_LAST_ACK = 0x1D"
definition SOCK_UDP :: u8 where [simp]: "SOCK_UDP = 0x22"
definition SOCK_IPRAW :: u8 where [simp]: "SOCK_IPRAW = 0x32"
definition SOCK_MACRAW :: u8 where [simp]: "SOCK_MACRAW = 0x42"

subsection \<open>Register primitives\<close>

definition WIZCHIP_READ :: "'w platform \<Rightarrow> u32 \<Rightarrow> (u8, 'w, 'm) bus_op" where
  "WIZCHIP_READ p a s = wizchip_read8_checked p a s"

definition WIZCHIP_WRITE :: "'w platform \<Rightarrow> u32 \<Rightarrow> u8 \<Rightarrow> ('w, 'm) bus_proc" where
  "WIZCHIP_WRITE p a wb s = snd (wizchip_write8_checked p a wb s)"

definition WIZCHIP_READ_BUF ::
    "'w platform \<Rightarrow> u32 \<Rightarrow> bool \<Rightarrow> u16 \<Rightarrow> (u8 list, 'w, 'm) bus_op" where
  "WIZCHIP_READ_BUF p a buf len s = (let ((_, bs), s) = wizchip_read_buf_checked p a buf len s in (bs, s))"

definition WIZCHIP_WRITE_BUF ::
    "'w platform \<Rightarrow> u32 \<Rightarrow> u8 list option \<Rightarrow> u16 \<Rightarrow> ('w, 'm) bus_proc" where
  "WIZCHIP_WRITE_BUF p a buf len s = snd (wizchip_write_buf_checked p a buf len s)"

definition wizchip_read16_5500 ::
    "'w platform \<Rightarrow> u32 \<Rightarrow> bool \<Rightarrow> (u8 \<times> u16 option, 'w, 'm) bus_op" where
  "wizchip_read16_5500 p addr out s =
     (if \<not> out then ((-1, None), s)
      else let ((r, tmp), s) = wizchip_read_buf_checked p addr True 2 s
           in if r \<noteq> 0 then ((-1, None), s)
              else ((0, Some (join16 (tmp ! 0) (tmp ! 1))), s))"

definition wizchip_read16_5500_value :: "'w platform \<Rightarrow> u32 \<Rightarrow> (u16, 'w, 'm) bus_op" where
  "wizchip_read16_5500_value p addr s =
     (let ((_, v), s) = wizchip_read16_5500 p addr True s
      in (case v of None \<Rightarrow> 0 | Some x \<Rightarrow> x, s))"

definition wizchip_write16_5500 :: "'w platform \<Rightarrow> u32 \<Rightarrow> u16 \<Rightarrow> (int, 'w, 'm) bus_op" where
  "wizchip_write16_5500 p addr v s =
     (let tmp = [hi8 v, lo8 v] in wizchip_write_buf_checked p addr (Some tmp) 2 s)"

subsection \<open>Accessor macros\<close>

definition setMR :: "'w platform \<Rightarrow> u8 \<Rightarrow> ('w, 'm) bus_proc" where [reg_defs]:
  "setMR p v s = WIZCHIP_WRITE p reg_MR v s"
definition getMR :: "'w platform \<Rightarrow> (u8, 'w, 'm) bus_op" where [reg_defs]:
  "getMR p s = WIZCHIP_READ p reg_MR s"
definition setIR :: "'w platform \<Rightarrow> u8 \<Rightarrow> ('w, 'm) bus_proc" where [reg_defs]:
  "setIR p v s = WIZCHIP_WRITE p reg_IR (v AND 0xF0) s"
definition getIR :: "'w platform \<Rightarrow> (u8, 'w, 'm) bus_op" where [reg_defs]:
  "getIR p s = (let (v, s) = WIZCHIP_READ p reg_IR s in (v AND 0xF0, s))"
definition setIMR :: "'w platform \<Rightarrow> u8 \<Rightarrow> ('w, 'm) bus_proc" where [reg_defs]:
  "setIMR p v s = WIZCHIP_WRITE p reg_IMR v s"
definition getIMR :: "'w platform \<Rightarrow> (u8, 'w, 'm) bus_op" where [reg_defs]:
  "getIMR p s = WIZCHIP_READ p reg_IMR s"
definition setSIR :: "'w platform \<Rightarrow> u8 \<Rightarrow> ('w, 'm) bus_proc" where [reg_defs]:
  "setSIR p v s = WIZCHIP_WRITE p reg_SIR v s"
definition getSIR :: "'w platform \<Rightarrow> (u8, 'w, 'm) bus_op" where [reg_defs]:
  "getSIR p s = WIZCHIP_READ p reg_SIR s"
definition setSIMR :: "'w platform \<Rightarrow> u8 \<Rightarrow> ('w, 'm) bus_proc" where [reg_defs]:
  "setSIMR p v s = WIZCHIP_WRITE p reg_SIMR v s"
definition getSIMR :: "'w platform \<Rightarrow> (u8, 'w, 'm) bus_op" where [reg_defs]:
  "getSIMR p s = WIZCHIP_READ p reg_SIMR s"
definition setRCR :: "'w platform \<Rightarrow> u8 \<Rightarrow> ('w, 'm) bus_proc" where [reg_defs]:
  "setRCR p v s = WIZCHIP_WRITE p reg_RCR v s"
definition getRCR :: "'w platform \<Rightarrow> (u8, 'w, 'm) bus_op" where [reg_defs]:
  "getRCR p s = WIZCHIP_READ p reg_RCR s"
definition setPTIMER :: "'w platform \<Rightarrow> u8 \<Rightarrow> ('w, 'm) bus_proc" where [reg_defs]:
  "setPTIMER p v s = WIZCHIP_WRITE p reg_PTIMER v s"
definition getPTIMER :: "'w platform \<Rightarrow> (u8, 'w, 'm) bus_op" where [reg_defs]:
  "getPTIMER p s = WIZCHIP_READ p reg_PTIMER s"
definition setPMAGIC :: "'w platform \<Rightarrow> u8 \<Rightarrow> ('w, 'm) bus_proc" where [reg_defs]:
  "setPMAGIC p v s = WIZCHIP_WRITE p reg_PMAGIC v s"
definition getPMAGIC :: "'w platform \<Rightarrow> (u8, 'w, 'm) bus_op" where [reg_defs]:
  "getPMAGIC p s = WIZCHIP_READ p reg_PMAGIC s"
definition setPHYCFGR :: "'w platform \<Rightarrow> u8 \<Rightarrow> ('w, 'm) bus_proc" where [reg_defs]:
  "setPHYCFGR p v s = WIZCHIP_WRITE p reg_PHYCFGR v s"
definition getPHYCFGR :: "'w platform \<Rightarrow> (u8, 'w, 'm) bus_op" where [reg_defs]:
  "getPHYCFGR p s = WIZCHIP_READ p reg_PHYCFGR s"
definition getVERSIONR :: "'w platform \<Rightarrow> (u8, 'w, 'm) bus_op" where [reg_defs]:
  "getVERSIONR p s = WIZCHIP_READ p reg_VERSIONR s"
definition setINTLEVEL :: "'w platform \<Rightarrow> u16 \<Rightarrow> (int, 'w, 'm) bus_op" where [reg_defs]:
  "setINTLEVEL p v s = wizchip_write16_5500 p reg_INTLEVEL v s"
definition getINTLEVEL :: "'w platform \<Rightarrow> (u16, 'w, 'm) bus_op" where [reg_defs]:
  "getINTLEVEL p s = wizchip_read16_5500_value p reg_INTLEVEL s"
definition setRTR :: "'w platform \<Rightarrow> u16 \<Rightarrow> (int, 'w, 'm) bus_op" where [reg_defs]:
  "setRTR p v s = wizchip_write16_5500 p reg_RTR v s"
definition getRTR :: "'w platform \<Rightarrow> (u16, 'w, 'm) bus_op" where [reg_defs]:
  "getRTR p s = wizchip_read16_5500_value p reg_RTR s"
definition setPSID :: "'w platform \<Rightarrow> u16 \<Rightarrow> (int, 'w, 'm) bus_op" where [reg_defs]:
  "setPSID p v s = wizchip_write16_5500 p reg_PSID v s"
definition getPSID :: "'w platform \<Rightarrow> (u16, 'w, 'm) bus_op" where [reg_defs]:
  "getPSID p s = wizchip_read16_5500_value p reg_PSID s"
definition setPMRU :: "'w platform \<Rightarrow> u16 \<Rightarrow> (int, 'w, 'm) bus_op" where [reg_defs]:
  "setPMRU p v s = wizchip_write16_5500 p reg_PMRU v s"
definition getPMRU :: "'w platform \<Rightarrow> (u16, 'w, 'm) bus_op" where [reg_defs]:
  "getPMRU p s = wizchip_read16_5500_value p reg_PMRU s"
definition getUPORTR :: "'w platform \<Rightarrow> (u16, 'w, 'm) bus_op" where [reg_defs]:
  "getUPORTR p s = wizchip_read16_5500_value p reg_UPORTR s"
definition setGAR :: "'w platform \<Rightarrow> u8 list \<Rightarrow> ('w, 'm) bus_proc" where [reg_defs]:
  "setGAR p buf s = WIZCHIP_WRITE_BUF p reg_GAR (Some buf) 4 s"
definition getGAR :: "'w platform \<Rightarrow> (u8 list, 'w, 'm) bus_op" where [reg_defs]:
  "getGAR p s = WIZCHIP_READ_BUF p reg_GAR True 4 s"
definition setSUBR :: "'w platform \<Rightarrow> u8 list \<Rightarrow> ('w, 'm) bus_proc" where [reg_defs]:
  "setSUBR p buf s = WIZCHIP_WRITE_BUF p reg_SUBR (Some buf) 4 s"
definition getSUBR :: "'w platform \<Rightarrow> (u8 list, 'w, 'm) bus_op" where [reg_defs]:
  "getSUBR p s = WIZCHIP_READ_BUF p reg_SUBR True 4 s"
definition setSHAR :: "'w platform \<Rightarrow> u8 list \<Rightarrow> ('w, 'm) bus_proc" where [reg_defs]:
  "setSHAR p buf s = WIZCHIP_WRITE_BUF p reg_SHAR (Some buf) 6 s"
definition getSHAR :: "'w platform \<Rightarrow> (u8 list, 'w, 'm) bus_op" where [reg_defs]:
  "getSHAR p s = WIZCHIP_READ_BUF p reg_SHAR True 6 s"
definition setSIPR :: "'w platform \<Rightarrow> u8 list \<Rightarrow> ('w, 'm) bus_proc" where [reg_defs]:
  "setSIPR p buf s = WIZCHIP_WRITE_BUF p reg_SIPR (Some buf) 4 s"
definition getSIPR :: "'w platform \<Rightarrow> (u8 list, 'w, 'm) bus_op" where [reg_defs]:
  "getSIPR p s = WIZCHIP_READ_BUF p reg_SIPR True 4 s"
definition setPHAR :: "'w platform \<Rightarrow> u8 list \<Rightarrow> ('w, 'm) bus_proc" where [reg_defs]:
  "setPHAR p buf s = WIZCHIP_WRITE_BUF p reg_PHAR (Some buf) 6 s"
definition getPHAR :: "'w platform \<Rightarrow> (u8 list, 'w, 'm) bus_op" where [reg_defs]:
  "getPHAR p s = WIZCHIP_READ_BUF p reg_PHAR True 6 s"
definition getUIPR :: "'w platform \<Rightarrow> (u8 list, 'w, 'm) bus_op" where [reg_defs]:
  "getUIPR p s = WIZCHIP_READ_BUF p reg_UIPR True 4 s"

definition setSn_MR :: "'w platform \<Rightarrow> u8 \<Rightarrow> u8 \<Rightarrow> ('w, 'm) bus_proc" where [reg_defs]:
  "setSn_MR p sn v s = WIZCHIP_WRITE p (Sn_MR sn) v s"
definition getSn_MR :: "'w platform \<Rightarrow> u8 \<Rightarrow> (u8, 'w, 'm) bus_op" where [reg_defs]:
  "getSn_MR p sn s = WIZCHIP_READ p (Sn_MR sn) s"
definition setSn_CR :: "'w platform \<Rightarrow> u8 \<Rightarrow> u8 \<Rightarrow> ('w, 'm) bus_proc" where [reg_defs]:
  "setSn_CR p sn v s = WIZCHIP_WRITE p (Sn_CR sn) v s"
definition getSn_CR :: "'w platform \<Rightarrow> u8 \<Rightarrow> (u8, 'w, 'm) bus_op" where [reg_defs]:
  "getSn_CR p sn s = WIZCHIP_READ p (Sn_CR sn) s"
definition setSn_IR :: "'w platform \<Rightarrow> u8 \<Rightarrow> u8 \<Rightarrow> ('w, 'm) bus_proc" where [reg_defs]:
  "setSn_IR p sn v s = WIZCHIP_WRITE p (Sn_IR sn) (v AND 0x1F) s"
definition getSn_IR :: "'w platform \<Rightarrow> u8 \<Rightarrow> (u8, 'w, 'm) bus_op" where [reg_defs]:
  "getSn_IR p sn s = (let (v, s) = WIZCHIP_READ p (Sn_IR sn) s in (v AND 0x1F, s))"
definition setSn_IMR :: "'w platform \<Rightarrow> u8 \<Rightarrow> u8 \<Rightarrow> ('w, 'm) bus_proc" where [reg_defs]:
  "setSn_IMR p sn v s = WIZCHIP_WRITE p (Sn_IMR sn) (v AND 0x1F) s"
definition getSn_IMR :: "'w platform \<Rightarrow> u8 \<Rightarrow> (u8, 'w, 'm) bus_op" where [reg_defs]:
  "getSn_IMR p sn s = (let (v, s) = WIZCHIP_READ p (Sn_IMR sn) s in (v AND 0x1F, s))"
definition setSn_TOS :: "'w platform \<Rightarrow> u8 \<Rightarrow> u8 \<Rightarrow> ('w, 'm) bus_proc" where [reg_defs]:
  "setSn_TOS p sn v s = WIZCHIP_WRITE p (Sn_TOS sn) v s"
definition getSn_TOS :: "'w platform \<Rightarrow> u8 \<Rightarrow> (u8, 'w, 'm) bus_op" where [reg_defs]:
  "getSn_TOS p sn s = WIZCHIP_READ p (Sn_TOS sn) s"
definition setSn_TTL :: "'w platform \<Rightarrow> u8 \<Rightarrow> u8 \<Rightarrow> ('w, 'm) bus_proc" where [reg_defs]:
  "setSn_TTL p sn v s = WIZCHIP_WRITE p (Sn_TTL sn) v s"
definition getSn_TTL :: "'w platform \<Rightarrow> u8 \<Rightarrow> (u8, 'w, 'm) bus_op" where [reg_defs]:
  "getSn_TTL p sn s = WIZCHIP_READ p (Sn_TTL sn) s"
definition setSn_KPALVTR :: "'w platform \<Rightarrow> u8 \<Rightarrow> u8 \<Rightarrow> ('w, 'm) bus_proc" where [reg_defs]:
  "setSn_KPALVTR p sn v s = WIZCHIP_WRITE p (Sn_KPALVTR sn) v s"
definition getSn_KPALVTR :: "'w platform \<Rightarrow> u8 \<Rightarrow> (u8, 'w, 'm) bus_op" where [reg_defs]:
  "getSn_KPALVTR p sn s = WIZCHIP_READ p (Sn_KPALVTR sn) s"
definition getSn_SR :: "'w platform \<Rightarrow> u8 \<Rightarrow> (u8, 'w, 'm) bus_op" where [reg_defs]:
  "getSn_SR p sn s = WIZCHIP_READ p (Sn_SR sn) s"
definition getSn_RXBUF_SIZE :: "'w platform \<Rightarrow> u8 \<Rightarrow> (u8, 'w, 'm) bus_op" where [reg_defs]:
  "getSn_RXBUF_SIZE p sn s = WIZCHIP_READ p (Sn_RXBUF_SIZE sn) s"
definition getSn_TXBUF_SIZE :: "'w platform \<Rightarrow> u8 \<Rightarrow> (u8, 'w, 'm) bus_op" where [reg_defs]:
  "getSn_TXBUF_SIZE p sn s = WIZCHIP_READ p (Sn_TXBUF_SIZE sn) s"
definition setSn_PORT :: "'w platform \<Rightarrow> u8 \<Rightarrow> u16 \<Rightarrow> (int, 'w, 'm) bus_op" where [reg_defs]:
  "setSn_PORT p sn v s = wizchip_write16_5500 p (Sn_PORT sn) v s"
definition setSn_DPORT :: "'w platform \<Rightarrow> u8 \<Rightarrow> u16 \<Rightarrow> (int, 'w, 'm) bus_op" where [reg_defs]:
  "setSn_DPORT p sn v s = wizchip_write16_5500 p (Sn_DPORT sn) v s"
definition setSn_MSSR :: "'w platform \<Rightarrow> u8 \<Rightarrow> u16 \<Rightarrow> (int, 'w, 'm) bus_op" where [reg_defs]:
  "setSn_MSSR p sn v s = wizchip_write16_5500 p (Sn_MSSR sn) v s"
definition setSn_FRAG :: "'w platform \<Rightarrow> u8 \<Rightarrow> u16 \<Rightarrow> (int, 'w, 'm) bus_op" where [reg_defs]:
  "setSn_FRAG p sn v s = wizchip_write16_5500 p (Sn_FRAG sn) v s"
definition getSn_PORT :: "'w platform \<Rightarrow> u8 \<Rightarrow> (u16, 'w, 'm) bus_op" where [reg_defs]:
  "getSn_PORT p sn s = wizchip_read16_5500_value p (Sn_PORT sn) s"
definition getSn_DPORT :: "'w platform \<Rightarrow> u8 \<Rightarrow> (u16, 'w, 'm) bus_op" where [reg_defs]:
  "getSn_DPORT p sn s = wizchip_read16_5500_value p (Sn_DPORT sn) s"
definition getSn_MSSR :: "'w platform \<Rightarrow> u8 \<Rightarrow> (u16, 'w, 'm) bus_op" where [reg_defs]:
  "getSn_MSSR p sn s = wizchip_read16_5500_value p (Sn_MSSR sn) s"
definition getSn_FRAG :: "'w platform \<Rightarrow> u8 \<Rightarrow> (u16, 'w, 'm) bus_op" where [reg_defs]:
  "getSn_FRAG p sn s = wizchip_read16_5500_value p (Sn_FRAG sn) s"
definition getSn_TX_RD :: "'w platform \<Rightarrow> u8 \<Rightarrow> (u16, 'w, 'm) bus_op" where [reg_defs]:
  "getSn_TX_RD p sn s = wizchip_read16_5500_value p (Sn_TX_RD sn) s"
definition getSn_TX_WR :: "'w platform \<Rightarrow> u8 \<Rightarrow> (u16, 'w, 'm) bus_op" where [reg_defs]:
  "getSn_TX_WR p sn s = wizchip_read16_5500_value p (Sn_TX_WR sn) s"
definition getSn_RX_RD :: "'w platform \<Rightarrow> u8 \<Rightarrow> (u16, 'w, 'm) bus_op" where [reg_defs]:
  "getSn_RX_RD p sn s = wizchip_read16_5500_value p (Sn_RX_RD sn) s"
definition getSn_RX_WR :: "'w platform \<Rightarrow> u8 \<Rightarrow> (u16, 'w, 'm) bus_op" where [reg_defs]:
  "getSn_RX_WR p sn s = wizchip_read16_5500_value p (Sn_RX_WR sn) s"
definition setSn_TX_WR :: "'w platform \<Rightarrow> u8 \<Rightarrow> u16 \<Rightarrow> ('w, 'm) bus_proc" where [reg_defs]:
  "setSn_TX_WR p sn v s = WIZCHIP_WRITE_BUF p (Sn_TX_WR sn) (Some [hi8 v, lo8 v]) 2 s"
definition setSn_RX_RD :: "'w platform \<Rightarrow> u8 \<Rightarrow> u16 \<Rightarrow> ('w, 'm) bus_proc" where [reg_defs]:
  "setSn_RX_RD p sn v s = WIZCHIP_WRITE_BUF p (Sn_RX_RD sn) (Some [hi8 v, lo8 v]) 2 s"
definition setSn_DHAR :: "'w platform \<Rightarrow> u8 \<Rightarrow> u8 list option \<Rightarrow> ('w, 'm) bus_proc" where [reg_defs]:
  "setSn_DHAR p sn buf s = WIZCHIP_WRITE_BUF p (Sn_DHAR sn) buf 6 s"
definition getSn_DHAR :: "'w platform \<Rightarrow> u8 \<Rightarrow> (u8 list, 'w, 'm) bus_op" where [reg_defs]:
  "getSn_DHAR p sn s = WIZCHIP_READ_BUF p (Sn_DHAR sn) True 6 s"
definition setSn_DIPR :: "'w platform \<Rightarrow> u8 \<Rightarrow> u8 list option \<Rightarrow> ('w, 'm) bus_proc" where [reg_defs]:
  "setSn_DIPR p sn buf s = WIZCHIP_WRITE_BUF p (Sn_DIPR sn) buf 4 s"
definition getSn_DIPR :: "'w platform \<Rightarrow> u8 \<Rightarrow> (u8 list, 'w, 'm) bus_op" where [reg_defs]:
  "getSn_DIPR p sn s = WIZCHIP_READ_BUF p (Sn_DIPR sn) True 4 s"
definition getSn_RxMAX :: "'w platform \<Rightarrow> u8 \<Rightarrow> (u16, 'w, 'm) bus_op" where [reg_defs]:
  "getSn_RxMAX p sn s = (let (v, s) = getSn_RXBUF_SIZE p sn s in (push_bit 10 (ucast v), s))"
definition getSn_TxMAX :: "'w platform \<Rightarrow> u8 \<Rightarrow> (u16, 'w, 'm) bus_op" where [reg_defs]:
  "getSn_TxMAX p sn s = (let (v, s) = getSn_TXBUF_SIZE p sn s in (push_bit 10 (ucast v), s))"


subsection \<open>The register map\<close>

lemma sock_num_cases:
  assumes "(N :: u8) < 8"
  shows "N = 0 \<or> N = 1 \<or> N = 2 \<or> N = 3 \<or> N = 4 \<or> N = 5 \<or> N = 6 \<or> N = 7"
proof -
  have "unat N < 8" using assms by (simp add: word_less_nat_alt)
  then have "unat N \<in> {0, 1, 2, 3, 4, 5, 6, 7}" by auto
  then have "N \<in> word_of_nat ` {0, 1, 2, 3, 4, 5, 6, 7}"
    by (intro image_eqI [where x = "unat N"]) simp_all
  then show ?thesis by auto
qed

text \<open>The three fields of a frame: register offset, block select, and the control bits.\<close>

definition chip_loc :: "u32 \<Rightarrow> u32 \<times> u32 \<times> u32" where
  "chip_loc a = (drop_bit 8 a, drop_bit 3 a AND 0x1F, a AND 0x7)"

definition sock_regs :: "(u8 \<Rightarrow> u32) list" where
  "sock_regs = [Sn_MR, Sn_CR, Sn_IR, Sn_SR, Sn_PORT, Sn_DHAR, Sn_DIPR, Sn_DPORT, Sn_MSSR, Sn_TOS,
     Sn_TTL, Sn_RXBUF_SIZE, Sn_TXBUF_SIZE, Sn_TX_FSR, Sn_TX_RD, Sn_TX_WR, Sn_RX_RSR, Sn_RX_RD,
     Sn_RX_WR, Sn_IMR, Sn_FRAG, Sn_KPALVTR]"

definition sock_reg_offsets :: "u32 list" where
  "sock_reg_offsets = [0x00, 0x01, 0x02, 0x03, 0x04, 0x06, 0x0C, 0x10, 0x12, 0x15, 0x16, 0x1E, 0x1F,
     0x20, 0x22, 0x24, 0x26, 0x28, 0x2A, 0x2C, 0x2D, 0x2F]"

definition common_regs :: "u32 list" where
  "common_regs = [reg_MR, reg_GAR, reg_SUBR, reg_SHAR, reg_SIPR, reg_INTLEVEL, reg_IR, reg_IMR,
     reg_SIR, reg_SIMR, reg_RTR, reg_RCR, reg_PTIMER, reg_PMAGIC, reg_PHAR, reg_PSID, reg_PMRU,
     reg_UIPR, reg_UPORTR, reg_PHYCFGR, reg_VERSIONR]"

lemmas sock_reg_defs = Sn_MR_def Sn_CR_def Sn_IR_def Sn_SR_def Sn_PORT_def Sn_DHAR_def Sn_DIPR_def
  Sn_DPORT_def Sn_MSSR_def Sn_TOS_def Sn_TTL_def Sn_RXBUF_SIZE_def Sn_TXBUF_SIZE_def Sn_TX_FSR_def
  Sn_TX_RD_def Sn_TX_WR_def Sn_RX_RSR_def Sn_RX_RD_def Sn_RX_WR_def Sn_IMR_def Sn_FRAG_def
  Sn_KPALVTR_def WIZCHIP_SREG_BLOCK_def

lemmas common_reg_defs = reg_MR_def reg_GAR_def reg_SUBR_def reg_SHAR_def reg_SIPR_def
  reg_INTLEVEL_def reg_IR_def reg_IMR_def reg_SIR_def reg_SIMR_def reg_RTR_def reg_RCR_def
  reg_PTIMER_def reg_PMAGIC_def reg_PHAR_def reg_PSID_def reg_PMRU_def reg_UIPR_def reg_UPORTR_def
  reg_PHYCFGR_def reg_VERSIONR_def WIZCHIP_CREG_BLOCK_def

lemma sock_regs_loc:
  "N < 8 \<Longrightarrow> map (\<lambda>r. chip_loc (r N)) sock_regs = map (\<lambda>off. (off, 1 + 4 * ucast N, 0)) sock_reg_offsets"
  unfolding sock_regs_def sock_reg_offsets_def
  by (drule sock_num_cases) (elim disjE; simp add: chip_loc_def sock_reg_defs)

lemma reg_addr_loc: "\<lbrakk>chip_loc a = (off, blk, 0); off < 0x10000\<rbrakk> \<Longrightarrow> reg_addr a"
proof -
  assume a: "chip_loc a = (off, blk, 0)" "off < 0x10000"
  have "drop_bit 24 a = drop_bit 16 (drop_bit 8 a)" by simp
  also have "\<dots> = 0"
    using a by (simp add: chip_loc_def drop_bit_eq_div word_less_nat_alt unat_div unat_eq_zero
        flip: unat_eq_zero)
  finally show "reg_addr a" using a by (simp add: reg_addr_def chip_loc_def)
qed

lemma reg_addr_sock [simp]: "N < 8 \<Longrightarrow> r \<in> set sock_regs \<Longrightarrow> reg_addr (r N)"
  unfolding sock_regs_def
  by (drule sock_num_cases) (elim disjE; auto simp: reg_addr_def sock_reg_defs)

lemma reg_addr_common [simp]: "a \<in> set common_regs \<Longrightarrow> reg_addr a"
  unfolding common_regs_def by (auto simp: reg_addr_def common_reg_defs)

subsection \<open>Register primitives under a transport relation\<close>

context bus_relation
begin

lemma R_READ:
  "\<lbrakk>R s0 s; \<And>v s'. R s0 s' \<Longrightarrow> Q v s'\<rbrakk> \<Longrightarrow> wpt (WIZCHIP_READ p a s) Q"
  unfolding WIZCHIP_READ_def by (rule R_read8_value)

lemma R_WRITE: "R s0 s \<Longrightarrow> R s0 (WIZCHIP_WRITE p a v s)"
  using R_write8 [of s0 s "\<lambda>_. R s0"] by (simp add: WIZCHIP_WRITE_def wpt_def)

lemma R_READ_BUF:
  "\<lbrakk>R s0 s; \<And>v s'. R s0 s' \<Longrightarrow> Q v s'\<rbrakk> \<Longrightarrow> wpt (WIZCHIP_READ_BUF p a True len s) Q"
  unfolding WIZCHIP_READ_BUF_def by (auto intro!: wp transport_rel)

lemma R_WRITE_BUF: "R s0 s \<Longrightarrow> R s0 (WIZCHIP_WRITE_BUF p a buf len s)"
  using R_write_buf [of s0 s "\<lambda>_. R s0"] by (simp add: WIZCHIP_WRITE_BUF_def wpt_def)

lemma R_read16:
  "\<lbrakk>R s0 s; \<And>v s'. R s0 s' \<Longrightarrow> Q v s'\<rbrakk> \<Longrightarrow> wpt (wizchip_read16_5500 p a True s) Q"
  unfolding wizchip_read16_5500_def by (auto intro!: wp transport_rel)

lemma R_read16_value:
  "\<lbrakk>R s0 s; \<And>v s'. R s0 s' \<Longrightarrow> Q v s'\<rbrakk> \<Longrightarrow> wpt (wizchip_read16_5500_value p a s) Q"
  unfolding wizchip_read16_5500_value_def by (auto intro!: wp R_read16)

lemma R_write16:
  "\<lbrakk>R s0 s; \<And>v s'. R s0 s' \<Longrightarrow> Q v s'\<rbrakk> \<Longrightarrow> wpt (wizchip_write16_5500 p a v s) Q"
  unfolding wizchip_write16_5500_def by (auto intro!: wp transport_rel)

lemmas register_rel = transport_rel R_READ R_WRITE R_READ_BUF R_WRITE_BUF R_read16 R_read16_value R_write16

end

subsection \<open>What the primitives put on the wire\<close>

lemma WIZCHIP_READ_log:
  "WIZCHIP_READ p a s = (v, s') \<Longrightarrow> reg_addr a
    \<Longrightarrow> reg_log (trace s') = RegRead a [v] # reg_log (trace s)"
  unfolding WIZCHIP_READ_def wizchip_read8_checked_def
  by (auto split: prod.splits dest!: read8_txn simp: txn_def)

lemma WIZCHIP_WRITE_log:
  "reg_addr a \<Longrightarrow> reg_log (trace (WIZCHIP_WRITE p a v s)) = RegWrite a [v] # reg_log (trace s)"
  unfolding WIZCHIP_WRITE_def using write8_txn [of p a v s] by (auto simp: txn_def prod_eq_iff)

lemma WIZCHIP_WRITE_BUF_log:
  "\<lbrakk>reg_addr a; len \<noteq> 0\<rbrakk> \<Longrightarrow> reg_log (trace (WIZCHIP_WRITE_BUF p a (Some bs) len s))
     = RegWrite a (take (unat len) bs) # reg_log (trace s)"
  unfolding WIZCHIP_WRITE_BUF_def using write_buf_txn [of p a bs len s] by (auto simp: txn_def prod_eq_iff)

lemma WIZCHIP_READ_BUF_log:
  "\<lbrakk>WIZCHIP_READ_BUF p a True len s = (bs, s'); reg_addr a; len \<noteq> 0\<rbrakk>
    \<Longrightarrow> length bs = unat len \<and> reg_log (trace s') = RegRead a bs # reg_log (trace s)"
  unfolding WIZCHIP_READ_BUF_def by (auto split: prod.splits dest!: read_buf_txn simp: txn_def)

lemma wizchip_write16_5500_log:
  "\<lbrakk>wizchip_write16_5500 p a v s = (r, s'); reg_addr a\<rbrakk>
    \<Longrightarrow> reg_log (trace s') = RegWrite a [hi8 v, lo8 v] # reg_log (trace s)"
  unfolding wizchip_write16_5500_def Let_def
  by (drule write_buf_txn) (auto simp: txn_def)

lemma wizchip_read16_5500_log:
  assumes "wizchip_read16_5500 p a True s = ((r, v), s')" and "reg_addr a"
  shows "\<exists>h l. reg_log (trace s') = RegRead a [h, l] # reg_log (trace s)
     \<and> (r = 0 \<longrightarrow> v = Some (join16 h l)) \<and> (r \<noteq> 0 \<longrightarrow> v = None \<and> chip_state s' = WIZCHIP_STATE_FAULTED)"
proof -
  obtain q bs s1 where b: "wizchip_read_buf_checked p a True 2 s = ((q, bs), s1)"
    by (metis prod.collapse)
  from read_buf_txn [OF b] have l: "length bs = 2" and t: "txn (read_acc a bs) q s s1" by auto
  from l obtain x y where "bs = [x, y]" by (auto simp: numeral_2_eq_2 length_Suc_conv)
  with assms b t show ?thesis
    by (auto simp: wizchip_read16_5500_def txn_def split: if_splits)
qed

end
