(* ===== verification/Deadline.thy ===== *)
theory Deadline
  imports Wire
begin

text \<open>
  The time source and deadline policy of \<open>Ethernet/wizchip_conf.c\<close>: registration of a clock,
  reconstruction of a monotonic 64-bit timeline from a source that wraps at 2^32
  microseconds, absolute deadlines, and the bounded poll every hardware wait is built on.
  A registered clock is a function on the world (a callback of the application); wait
  callbacks have no result, so only their registration is state.
\<close>

unbundle bit_operations_syntax

subsection \<open>State\<close>

record wizchip_timeout_config =
  command_timeout_us :: u32
  operation_timeout_us :: u32
  phy_timeout_us :: u32

record wizchip_deadline =
  started_us :: u64
  deadline_us :: u64
  timeout_us :: u64
  polls :: u32

record 'w time_state = "'w bus_state" +
  now_us :: "('w \<Rightarrow> u64 \<times> 'w) option"
  wait_us :: bool
  wait_hook :: bool
  time_us_cb :: "('w \<Rightarrow> u32 \<times> 'w) option"
  configured_timeout_us :: u32
  poll_counter :: u32
  wrap_last_raw_us :: u32
  wrap_base_us :: u64
  timeout_config :: wizchip_timeout_config
  requested_operation_timeout_us :: u32

definition WIZCHIP_POLL_MAX :: u32 where "WIZCHIP_POLL_MAX = 100000"
definition WIZCHIP_RTR_MIN :: u16 where "WIZCHIP_RTR_MIN = 1"
definition WIZCHIP_RCR_MIN :: u8 where "WIZCHIP_RCR_MIN = 1"
definition WIZCHIP_RETRY_MARGIN_US :: u64 where "WIZCHIP_RETRY_MARGIN_US = 100000"
definition WIZCHIP_OPERATION_TIMEOUT_DEFAULT_US :: u32 where
  "WIZCHIP_OPERATION_TIMEOUT_DEFAULT_US = 2000000"
definition UINT32_MAX :: u64 where "UINT32_MAX = 0xFFFFFFFF"
definition UINT64_MAX :: u64 where "UINT64_MAX = 0xFFFFFFFFFFFFFFFF"

subsection \<open>Registration\<close>

definition wizchip_time_source_reset :: "('w, 'm) time_state_scheme \<Rightarrow> ('w, 'm) time_state_scheme" where
  "wizchip_time_source_reset s = s\<lparr>wrap_last_raw_us := 0, wrap_base_us := 0\<rparr>"

definition wizchip_time_source_active :: "('w, 'm) time_state_scheme \<Rightarrow> bool" where
  "wizchip_time_source_active s \<longleftrightarrow> time_us_cb s \<noteq> None \<or> now_us s \<noteq> None"

definition reg_wizchip_time_cbfunc ::
    "('w \<Rightarrow> u64 \<times> 'w) option \<Rightarrow> bool \<Rightarrow> ('w, 'm) time_state_scheme \<Rightarrow> ('w, 'm) time_state_scheme" where
  "reg_wizchip_time_cbfunc now_fn wait_fn s = wizchip_time_source_reset
     (s\<lparr>now_us := now_fn, wait_us := wait_fn, wait_hook := False, time_us_cb := None\<rparr>)"

definition reg_wizchip_time_hook_cbfunc ::
    "('w \<Rightarrow> u64 \<times> 'w) option \<Rightarrow> bool \<Rightarrow> ('w, 'm) time_state_scheme \<Rightarrow> ('w, 'm) time_state_scheme" where
  "reg_wizchip_time_hook_cbfunc now_fn wait_fn s = wizchip_time_source_reset
     (s\<lparr>now_us := now_fn, wait_us := False, wait_hook := wait_fn, time_us_cb := None\<rparr>)"

definition reg_wizchip_time_us_cbfunc ::
    "('w \<Rightarrow> u32 \<times> 'w) option \<Rightarrow> ('w, 'm) time_state_scheme \<Rightarrow> ('w, 'm) time_state_scheme" where
  "reg_wizchip_time_us_cbfunc f s = wizchip_time_source_reset (s\<lparr>time_us_cb := f\<rparr>)"

subsection \<open>Timeout configuration\<close>

definition wizchip_update_timeout_floor_locked ::
    "u16 \<Rightarrow> u8 \<Rightarrow> ('w, 'm) time_state_scheme \<Rightarrow> ('w, 'm) time_state_scheme" where
  "wizchip_update_timeout_floor_locked rtr rcr s =
     (let w = (ucast rtr :: u64) * 100 * ((ucast rcr :: u64) + 1) + WIZCHIP_RETRY_MARGIN_US;
          retry_window_us = (if w > UINT32_MAX then UINT32_MAX else w);
          op0 = requested_operation_timeout_us s;
          op = (if ucast op0 < retry_window_us then ucast retry_window_us else op0)
      in s\<lparr>timeout_config := (timeout_config s)\<lparr>operation_timeout_us := op\<rparr>,
           configured_timeout_us := op\<rparr>)"

definition wizchip_deadline_config_valid :: "('w, 'm) time_state_scheme \<Rightarrow> int" where
  "wizchip_deadline_config_valid s =
     (if \<not> wizchip_time_source_active s then 0
      else if command_timeout_us (timeout_config s) = 0 \<or> operation_timeout_us (timeout_config s) = 0
      then 0 else 1)"

definition wizchip_timeout_config_set ::
    "'w platform \<Rightarrow> u32 \<Rightarrow> ('w, 'm) time_state_scheme \<Rightarrow> u8 \<times> ('w, 'm) time_state_scheme" where
  "wizchip_timeout_config_set p t s =
     (if t = 0 then (1, s)
      else (0, call p GlobalExit ((call p GlobalEnter s)\<lparr>configured_timeout_us := t\<rparr>)))"

definition wizchip_get_timeout_config ::
    "bool \<Rightarrow> ('w, 'm) time_state_scheme \<Rightarrow> int \<times> wizchip_timeout_config option" where
  "wizchip_get_timeout_config config s =
     (if \<not> config then (-1, None) else (0, Some (timeout_config s)))"

subsection \<open>The timeline\<close>

definition wrap_raw :: "u32 \<Rightarrow> ('w, 'm) time_state_scheme \<Rightarrow> u64 \<times> ('w, 'm) time_state_scheme" where
  "wrap_raw raw s =
     (let base = (if raw < wrap_last_raw_us s then wrap_base_us s + 0x100000000 else wrap_base_us s)
      in (base + ucast raw, s\<lparr>wrap_last_raw_us := raw, wrap_base_us := base\<rparr>))"

definition wizchip_time_now ::
    "('w, 'm) time_state_scheme \<Rightarrow> u64 \<times> ('w, 'm) time_state_scheme" where
  "wizchip_time_now s =
     (case time_us_cb s of
        Some f \<Rightarrow> let (raw, w) = f (world s)
                  in wrap_raw raw (s\<lparr>world := w, trace := TimeUs raw # trace s\<rparr>)
      | None \<Rightarrow>
        (case now_us s of
           Some g \<Rightarrow> let (t, w) = g (world s)
                     in wrap_raw (ucast t) (s\<lparr>world := w, trace := NowUs t # trace s\<rparr>)
         | None \<Rightarrow> (ucast (poll_counter s), s)))"

definition wizchip_deadline_abs ::
    "u64 \<Rightarrow> ('w, 'm) time_state_scheme \<Rightarrow> u64 \<times> ('w, 'm) time_state_scheme" where
  "wizchip_deadline_abs t s =
     (if wizchip_time_source_active s then
        let (now, s) = wizchip_time_now s in (now + t, s)
      else (0, s\<lparr>poll_counter := 0,
                 configured_timeout_us := (if t > UINT32_MAX then ucast UINT32_MAX else ucast t)\<rparr>))"

definition wizchip_deadline_expired ::
    "u64 \<Rightarrow> ('w, 'm) time_state_scheme \<Rightarrow> bool \<times> ('w, 'm) time_state_scheme" where
  "wizchip_deadline_expired d s =
     (if wizchip_time_source_active s then
        let (now, s) = wizchip_time_now s in (d \<le> now, s)
      else let c = poll_counter s + 1 in (d \<le> ucast c, s\<lparr>poll_counter := c\<rparr>))"

definition wizchip_deadline_start ::
    "u64 \<Rightarrow> ('w, 'm) time_state_scheme \<Rightarrow> wizchip_deadline \<times> ('w, 'm) time_state_scheme" where
  "wizchip_deadline_start t s =
     (let (st, s) = wizchip_time_now s; (d, s) = wizchip_deadline_abs t s
      in (\<lparr>started_us = st, deadline_us = d, timeout_us = t, polls = 0\<rparr>, s))"

definition wizchip_deadline_poll ::
    "'w platform \<Rightarrow> wizchip_deadline \<Rightarrow> ('w, 'm) time_state_scheme
       \<Rightarrow> (int \<times> wizchip_deadline) \<times> ('w, 'm) time_state_scheme" where
  "wizchip_deadline_poll p dl s =
     (let s = (if wait_us s then call p (WaitUs 1) s
               else if wait_hook s then call p WaitHook s else s);
          dl = dl\<lparr>polls := polls dl + 1\<rparr>
      in if WIZCHIP_POLL_MAX \<le> polls dl then ((-16, dl), s)
         else if wizchip_time_source_active s then
           let (now, s) = wizchip_time_now s
           in if timeout_us dl \<le> now - started_us dl then ((-16, dl), s) else ((1, dl), s)
         else ((1, dl), s))"

subsection \<open>What a time operation may change\<close>

definition time_event :: "event \<Rightarrow> bool" where
  "time_event e \<longleftrightarrow> (case e of TimeUs _ \<Rightarrow> True | NowUs _ \<Rightarrow> True | WaitUs _ \<Rightarrow> True
     | WaitHook \<Rightarrow> True | _ \<Rightarrow> False)"

definition time_upd :: "('w, 'm) time_state_scheme \<Rightarrow> ('w, 'm) time_state_scheme \<Rightarrow> bool" where
  "time_upd s s' \<longleftrightarrow>
     (\<exists>evs. trace s' = evs @ trace s \<and> (\<forall>e \<in> set evs. time_event e))
     \<and> spi_read_burst s' = spi_read_burst s \<and> spi_write_burst s' = spi_write_burst s
     \<and> chip_state s' = chip_state s \<and> chip_last_error s' = chip_last_error s
     \<and> wizchip_transport_healthy s' = wizchip_transport_healthy s
     \<and> now_us s' = now_us s \<and> wait_us s' = wait_us s \<and> wait_hook s' = wait_hook s
     \<and> time_us_cb s' = time_us_cb s \<and> timeout_config s' = timeout_config s
     \<and> requested_operation_timeout_us s' = requested_operation_timeout_us s
     \<and> time_state.more s' = time_state.more s"

lemma time_upd_refl: "time_upd s s"
  by (simp add: time_upd_def)

lemma time_upd_trans: "\<lbrakk>time_upd a b; time_upd b c\<rbrakk> \<Longrightarrow> time_upd a c"
  unfolding time_upd_def by (elim conjE exE) (simp, metis Un_iff append.assoc set_append)

lemma time_upd_active:
  "time_upd s s' \<Longrightarrow> wizchip_time_source_active s' = wizchip_time_source_active s"
  by (simp add: time_upd_def wizchip_time_source_active_def)

lemma time_upd_wrap: "wrap_raw r s = (v, s') \<Longrightarrow> time_upd s s'"
  by (auto simp: wrap_raw_def time_upd_def Let_def)

lemma time_upd_event:
  "time_event e \<Longrightarrow> time_upd s (s\<lparr>world := w, trace := e # trace s\<rparr>)"
  by (simp add: time_upd_def)

lemma time_upd_event_wrap:
  assumes "time_event e" and "wrap_raw r (s\<lparr>world := w, trace := e # trace s\<rparr>) = (v, s')"
  shows "time_upd s s'"
  using time_upd_trans [OF time_upd_event [OF assms(1)] time_upd_wrap [OF assms(2)]] .

lemma time_upd_now: "wizchip_time_now s = (v, s') \<Longrightarrow> time_upd s s'"
  unfolding wizchip_time_now_def
  by (auto split: option.splits prod.splits simp: time_upd_refl time_event_def
      dest: time_upd_event_wrap [rotated])

lemma time_upd_abs: "wizchip_deadline_abs t s = (v, s') \<Longrightarrow> time_upd s s'"
  unfolding wizchip_deadline_abs_def
  by (auto split: if_splits prod.splits dest: time_upd_now simp: time_upd_def)

lemma time_upd_expired: "wizchip_deadline_expired d s = (v, s') \<Longrightarrow> time_upd s s'"
  unfolding wizchip_deadline_expired_def Let_def
  by (auto split: if_splits prod.splits dest: time_upd_now simp: time_upd_def)

lemma time_upd_poll: "wizchip_deadline_poll p dl s = (v, s') \<Longrightarrow> time_upd s s'"
proof -
  define s1 where "s1 = (if wait_us s then call p (WaitUs 1) s
               else if wait_hook s then call p WaitHook s else s)"
  have "time_upd s s1"
    by (simp add: s1_def call_def time_upd_event time_event_def time_upd_refl)
  then show "wizchip_deadline_poll p dl s = (v, s') \<Longrightarrow> time_upd s s'"
    unfolding wizchip_deadline_poll_def s1_def [symmetric] Let_def
    by (auto split: if_splits prod.splits dest: time_upd_now intro: time_upd_trans)
qed

lemma scan_time_event: "time_event e \<Longrightarrow> scan (e # tr) = scan tr"
  by (cases e) (simp_all add: time_event_def split: prod.split)

lemma scan_time_events: "\<forall>e \<in> set evs. time_event e \<Longrightarrow> scan (evs @ tr) = scan tr"
  by (induction evs) (simp_all add: scan_time_event del: scan.simps(2))

lemma lock_phase_time_events:
  "\<forall>e \<in> set evs. time_event e \<Longrightarrow> lock_phase (evs @ tr) = lock_phase tr"
proof (induction evs)
  case (Cons e evs)
  then have "\<not> lock_event e" by (auto simp: time_event_def lock_event_def split: event.splits)
  with Cons show ?case by simp
qed simp

lemma bus_phase_time_events:
  "\<lbrakk>\<forall>e \<in> set evs. time_event e; bus_phase tr = BusIdle\<rbrakk> \<Longrightarrow> bus_phase (evs @ tr) = BusIdle"
  by (induction evs) (auto simp: time_event_def split: event.splits)

lemma time_upd_wire:
  "time_upd s s' \<Longrightarrow> reg_log (trace s') = reg_log (trace s)
     \<and> lock_phase (trace s') = lock_phase (trace s)
     \<and> (bus_phase (trace s) = BusIdle \<longrightarrow> bus_phase (trace s') = BusIdle)"
  unfolding time_upd_def reg_log_def
  by (auto simp: scan_time_events lock_phase_time_events bus_phase_time_events)

end
