(* ===== verification/W5500.thy ===== *)
theory W5500
  imports Registers Deadline
begin

text \<open>
  \<open>Ethernet/W5500/w5500.c\<close>: buffer-size configuration with its size cache, the stable
  reads of the two 16-bit counters the chip may change while they are read, and the copies
  to and from socket buffer memory. \<open>chip_conf\<close> extends the state by the data
  \<open>wizchip_conf.c\<close> keeps about the chip.

  The stable reads poll until two consecutive values agree. Their loop ends only through
  a fault, an agreement or the deadline, so it is a \<open>partial_function\<close>; that it ends when no
  time source is registered is proved here. The locale \<open>poll_relation\<close> extends the transport
  contract by what time operations do.
\<close>

unbundle bit_operations_syntax

subsection \<open>State\<close>

text \<open>\<open>DHCP_ZERO\<close> is the value of the zero-initialised static, which no enumerator names.\<close>

datatype dhcp_mode = DHCP_ZERO | NETINFO_STATIC | NETINFO_DHCP

record 'w chip_conf = "'w time_state" +
  wizchip_txmax_cache :: "u8 \<Rightarrow> u16"
  wizchip_rxmax_cache :: "u8 \<Rightarrow> u16"
  wizchip_previous_link :: int
  DNS_server :: "u8 list"
  DHCP_mode :: dhcp_mode

type_synonym ('a, 'w, 'm) time_op = "('w, 'm) time_state_scheme \<Rightarrow> 'a \<times> ('w, 'm) time_state_scheme"
type_synonym ('a, 'w, 'm) time_wait =
  "('w, 'm) time_state_scheme \<Rightarrow> ('a \<times> ('w, 'm) time_state_scheme) option"
type_synonym ('a, 'w, 'm) conf_op = "('w, 'm) chip_conf_scheme \<Rightarrow> 'a \<times> ('w, 'm) chip_conf_scheme"

definition WIZCHIP_SOCK_NUM :: u8 where "WIZCHIP_SOCK_NUM = 8"
lemma sock_num_valid [simp]: "sn < 8 \<Longrightarrow> (WIZCHIP_SOCK_NUM \<le> sn) = False"
  by (simp add: WIZCHIP_SOCK_NUM_def)

definition WIZCHIP_POLL_MAX_64 :: u64 where "WIZCHIP_POLL_MAX_64 = 100000"

subsection \<open>Buffer sizes\<close>

text \<open>
  The array the C function gets as \<open>cache\<close> is one of the two size caches; here the function
  gets the update of that field.
\<close>

definition wizchip_set_buf_size ::
    "'w platform \<Rightarrow> u8 \<Rightarrow> u8 \<Rightarrow> u32
       \<Rightarrow> (((u8 \<Rightarrow> u16) \<Rightarrow> u8 \<Rightarrow> u16) \<Rightarrow> ('w, 'm) chip_conf_scheme \<Rightarrow> ('w, 'm) chip_conf_scheme)
       \<Rightarrow> (int, 'w, 'm) conf_op" where
  "wizchip_set_buf_size p sn size_kb addr cache_update s =
     (if WIZCHIP_SOCK_NUM \<le> sn
         \<or> size_kb \<noteq> 0 \<and> size_kb \<noteq> 2 \<and> size_kb \<noteq> 4 \<and> size_kb \<noteq> 8 \<and> size_kb \<noteq> 16
      then (-1, s)
      else let s = call p GlobalEnter s;
               (result, s) = wizchip_write8_checked p addr size_kb s;
               ((result, readback), s) =
                 (if result = 0 then wizchip_read8_checked_out p addr True s else ((result, None), s));
               result = (if result = 0 \<and> readback \<noteq> Some size_kb then -1 else result);
               s = (if result = 0 then cache_update (\<lambda>c. c(sn := ucast size_kb * 1024)) s else s);
               s = call p GlobalExit s
           in (result, s))"

definition wizchip_set_tx_buf_size :: "'w platform \<Rightarrow> u8 \<Rightarrow> u8 \<Rightarrow> (int, 'w, 'm) conf_op" where
  "wizchip_set_tx_buf_size p sn size_kb s =
     wizchip_set_buf_size p sn size_kb (Sn_TXBUF_SIZE sn) wizchip_txmax_cache_update s"

definition wizchip_set_rx_buf_size :: "'w platform \<Rightarrow> u8 \<Rightarrow> u8 \<Rightarrow> (int, 'w, 'm) conf_op" where
  "wizchip_set_rx_buf_size p sn size_kb s =
     wizchip_set_buf_size p sn size_kb (Sn_RXBUF_SIZE sn) wizchip_rxmax_cache_update s"

subsection \<open>Stable counters\<close>

text \<open>One iteration: leave with the result (\<open>Inl\<close>) or go around again (\<open>Inr\<close>).\<close>

definition stable_step ::
    "'w platform \<Rightarrow> u32 \<Rightarrow> u64 \<Rightarrow> unit \<Rightarrow> ('w, 'm) time_state_scheme
       \<Rightarrow> (((int \<times> u16 option) + unit) \<times> ('w, 'm) time_state_scheme) option" where
  "stable_step p addr deadline _ s =
     (let ((r1, first), s) = wizchip_read16_5500 p addr True s in
      if r1 \<noteq> 0 then Some (Inl (SOCKERR_IO, None), s)
      else let ((r2, second), s) = wizchip_read16_5500 p addr True s in
      if r2 \<noteq> 0 then Some (Inl (SOCKERR_IO, None), s)
      else if first = second then Some (Inl (SOCK_OK, second), s)
      else let ((r3, third), s) = wizchip_read16_5500 p addr True s in
      if r3 \<noteq> 0 then Some (Inl (SOCKERR_IO, None), s)
      else if second = third then Some (Inl (SOCK_OK, third), s)
      else let (expired, s) = wizchip_deadline_expired deadline s in
      if expired then Some (Inl (SOCKERR_DEADLINE, None), s)
      else Some (Inr (), s))"

definition stable_loop :: "'w platform \<Rightarrow> u32 \<Rightarrow> u64 \<Rightarrow> (int \<times> u16 option, 'w, 'm) time_wait" where
  "stable_loop p addr deadline s = forever (stable_step p addr deadline) () s"

definition getSn_TX_FSR_stable ::
    "'w platform \<Rightarrow> u8 \<Rightarrow> bool \<Rightarrow> (int \<times> u16 option, 'w, 'm) time_wait" where
  "getSn_TX_FSR_stable p sn out s =
     (if \<not> out then Some ((SOCKERR_IO, None), s)
      else let (deadline, s) = wizchip_deadline_abs WIZCHIP_POLL_MAX_64 s;
               deadline = (if deadline = 0 then WIZCHIP_POLL_MAX_64 else deadline)
           in stable_loop p (Sn_TX_FSR sn) deadline s)"

definition getSn_TX_FSR :: "'w platform \<Rightarrow> u8 \<Rightarrow> (u16, 'w, 'm) time_wait" where
  "getSn_TX_FSR p sn s = do {
     ((_, v), s) \<leftarrow> getSn_TX_FSR_stable p sn True s;
     Some (case v of None \<Rightarrow> 0 | Some x \<Rightarrow> x, s)
   }"

definition getSn_RX_RSR_stable ::
    "'w platform \<Rightarrow> u8 \<Rightarrow> bool \<Rightarrow> (int \<times> u16 option, 'w, 'm) time_wait" where
  "getSn_RX_RSR_stable p sn out s =
     (if \<not> out then Some ((SOCKERR_IO, None), s)
      else let (deadline, s) = wizchip_deadline_abs WIZCHIP_POLL_MAX_64 s;
               deadline = (if deadline = 0 then WIZCHIP_POLL_MAX_64 else deadline)
           in stable_loop p (Sn_RX_RSR sn) deadline s)"

definition getSn_RX_RSR :: "'w platform \<Rightarrow> u8 \<Rightarrow> (u16, 'w, 'm) time_wait" where
  "getSn_RX_RSR p sn s = do {
     ((_, v), s) \<leftarrow> getSn_RX_RSR_stable p sn True s;
     Some (case v of None \<Rightarrow> 0 | Some x \<Rightarrow> x, s)
   }"

subsection \<open>Buffer memory\<close>

definition wiz_send_data ::
    "'w platform \<Rightarrow> u8 \<Rightarrow> u8 list option \<Rightarrow> u16 \<Rightarrow> ('w, 'm) bus_proc" where
  "wiz_send_data p sn wizdata len s =
     (if WIZCHIP_SOCK_NUM \<le> sn \<or> len = 0 \<or> wizdata = None then s
      else let (ptr, s) = getSn_TX_WR p sn s;
               addrsel = push_bit 8 (ucast ptr) + push_bit 3 (WIZCHIP_TXBUF_BLOCK sn);
               s = WIZCHIP_WRITE_BUF p addrsel wizdata len s
           in setSn_TX_WR p sn (ptr + len) s)"

definition wiz_recv_data ::
    "'w platform \<Rightarrow> u8 \<Rightarrow> bool \<Rightarrow> u16 \<Rightarrow> (u8 list, 'w, 'm) bus_op" where
  "wiz_recv_data p sn wizdata len s =
     (if WIZCHIP_SOCK_NUM \<le> sn \<or> len = 0 \<or> \<not> wizdata then ([], s)
      else let (ptr, s) = getSn_RX_RD p sn s;
               addrsel = push_bit 8 (ucast ptr) + push_bit 3 (WIZCHIP_RXBUF_BLOCK sn);
               (bs, s) = WIZCHIP_READ_BUF p addrsel wizdata len s
           in (bs, setSn_RX_RD p sn (ptr + len) s))"

definition wiz_recv_ignore :: "'w platform \<Rightarrow> u8 \<Rightarrow> u16 \<Rightarrow> ('w, 'm) bus_proc" where
  "wiz_recv_ignore p sn len s =
     (if WIZCHIP_SOCK_NUM \<le> sn \<or> len = 0 then s
      else let (ptr, s) = getSn_RX_RD p sn s in setSn_RX_RD p sn (ptr + len) s)"

subsection \<open>Polling under a transport relation\<close>

locale poll_relation = bus_relation p R
  for p :: "'w platform"
    and R :: "('w, 'm) time_state_scheme \<Rightarrow> ('w, 'm) time_state_scheme \<Rightarrow> bool" +
  assumes R_time: "time_upd s s' \<Longrightarrow> R s s'"
begin

lemma R_time_step: "\<lbrakk>R s0 s; time_upd s s'\<rbrakk> \<Longrightarrow> R s0 s'"
  by (blast intro: R_trans R_time)

lemma R_deadline_abs:
  "\<lbrakk>R s0 s; \<And>v s'. R s0 s' \<Longrightarrow> Q v s'\<rbrakk> \<Longrightarrow> wpt (wizchip_deadline_abs t s) Q"
  unfolding wpt_def by (metis R_time_step prod.collapse time_upd_abs)

lemma R_deadline_expired:
  "\<lbrakk>R s0 s; \<And>v s'. R s0 s' \<Longrightarrow> Q v s'\<rbrakk> \<Longrightarrow> wpt (wizchip_deadline_expired t s) Q"
  unfolding wpt_def by (metis R_time_step prod.collapse time_upd_expired)

lemma R_time_now:
  "\<lbrakk>R s0 s; \<And>v s'. R s0 s' \<Longrightarrow> Q v s'\<rbrakk> \<Longrightarrow> wpt (wizchip_time_now s) Q"
  unfolding wpt_def by (metis R_time_step prod.collapse time_upd_now)

lemma R_deadline_poll:
  "\<lbrakk>R s0 s; \<And>v s'. R s0 s' \<Longrightarrow> Q v s'\<rbrakk> \<Longrightarrow> wpt (wizchip_deadline_poll p dl s) Q"
  unfolding wpt_def by (metis R_time_step prod.collapse time_upd_poll)

lemma R_deadline_start:
  "\<lbrakk>R s0 s; \<And>v s'. R s0 s' \<Longrightarrow> Q v s'\<rbrakk> \<Longrightarrow> wpt (wizchip_deadline_start t s) Q"
  unfolding wizchip_deadline_start_def by (auto intro!: wp R_deadline_abs R_time_now)

lemmas time_rel = register_rel R_deadline_abs R_deadline_expired R_time_now R_deadline_poll
  R_deadline_start

lemma R_stable_loop:
  assumes "R s0 s" and "\<And>v s'. R s0 s' \<Longrightarrow> Q v s'"
  shows "wpo (stable_loop p a d s) Q"
  unfolding stable_loop_def
  by (rule wpo_forever [where I = "\<lambda>_. R s0"], rule assms)
    (auto simp: stable_step_def intro!: wp time_rel assms(2))

lemma R_TX_FSR_stable:
  "\<lbrakk>R s0 s; \<And>v s'. R s0 s' \<Longrightarrow> Q v s'\<rbrakk> \<Longrightarrow> wpo (getSn_TX_FSR_stable p sn out s) Q"
  unfolding getSn_TX_FSR_stable_def by (auto intro!: wp time_rel R_stable_loop)

lemma R_RX_RSR_stable:
  "\<lbrakk>R s0 s; \<And>v s'. R s0 s' \<Longrightarrow> Q v s'\<rbrakk> \<Longrightarrow> wpo (getSn_RX_RSR_stable p sn out s) Q"
  unfolding getSn_RX_RSR_stable_def by (auto intro!: wp time_rel R_stable_loop)

lemma R_TX_FSR:
  "\<lbrakk>R s0 s; \<And>v s'. R s0 s' \<Longrightarrow> Q v s'\<rbrakk> \<Longrightarrow> wpo (getSn_TX_FSR p sn s) Q"
  unfolding getSn_TX_FSR_def by (auto intro!: wp R_TX_FSR_stable)

lemma R_RX_RSR:
  "\<lbrakk>R s0 s; \<And>v s'. R s0 s' \<Longrightarrow> Q v s'\<rbrakk> \<Longrightarrow> wpo (getSn_RX_RSR p sn s) Q"
  unfolding getSn_RX_RSR_def by (auto intro!: wp R_RX_RSR_stable)

lemma R_wiz_send_data: "R s0 s \<Longrightarrow> R s0 (wiz_send_data p sn data len s)"
  using R_read16_value [of s0 s "\<lambda>_. R s0" "Sn_TX_WR sn"]
  by (auto simp: wiz_send_data_def reg_defs wpt_def Let_def split: prod.split intro!: register_rel)

lemma R_wiz_recv_data:
  "\<lbrakk>R s0 s; \<And>v s'. R s0 s' \<Longrightarrow> Q v s'\<rbrakk> \<Longrightarrow> wpt (wiz_recv_data p sn buf len s) Q"
  unfolding wiz_recv_data_def reg_defs by (auto intro!: wp register_rel)

lemma R_wiz_recv_ignore: "R s0 s \<Longrightarrow> R s0 (wiz_recv_ignore p sn len s)"
  using R_read16_value [of s0 s "\<lambda>_. R s0" "Sn_RX_RD sn"]
  by (auto simp: wiz_recv_ignore_def reg_defs wpt_def Let_def split: prod.split intro!: register_rel)

lemmas chip_rel = time_rel R_TX_FSR_stable R_RX_RSR_stable R_TX_FSR R_RX_RSR
  R_wiz_send_data R_wiz_recv_data R_wiz_recv_ignore

end

subsection \<open>Stable counters\<close>

lemma join16_inject: "join16 h l = join16 h' l' \<longleftrightarrow> h = h' \<and> l = l'"
  by (metis hi8_join16 lo8_join16)

definition only_reads :: "u32 \<Rightarrow> ('w, 'm) bus_state_scheme \<Rightarrow> ('w, 'm) bus_state_scheme \<Rightarrow> bool" where
  "only_reads a s s' \<longleftrightarrow> (\<exists>ops. reg_log (trace s') = ops @ reg_log (trace s)
     \<and> (\<forall>x \<in> set ops. \<exists>bs. x = RegRead a bs))"

lemma only_reads_refl [simp]: "only_reads a s s"
  by (simp add: only_reads_def)

lemma only_reads_ops:
  "\<lbrakk>only_reads a s0 s; reg_log (trace t) = ops @ reg_log (trace s);
    \<forall>x \<in> set ops. \<exists>bs. x = RegRead a bs\<rbrakk> \<Longrightarrow> only_reads a s0 t"
  unfolding only_reads_def by (elim exE) (rule_tac x = "ops @ opsa" in exI, auto)

lemma only_reads_upto3:
  assumes "only_reads a s0 s"
  shows "reg_log (trace t) = RegRead a x # reg_log (trace s) \<Longrightarrow> only_reads a s0 t"
    and "reg_log (trace t) = RegRead a x # RegRead a y # reg_log (trace s) \<Longrightarrow> only_reads a s0 t"
    and "reg_log (trace t) = RegRead a x # RegRead a y # RegRead a z # reg_log (trace s)
      \<Longrightarrow> only_reads a s0 t"
  using assms only_reads_ops [of a s0 s t "[RegRead a x]"]
    only_reads_ops [of a s0 s t "[RegRead a x, RegRead a y]"]
    only_reads_ops [of a s0 s t "[RegRead a x, RegRead a y, RegRead a z]"] by simp_all

lemma wpt_read16_log:
  assumes "reg_addr a"
    and "\<And>h l s'. reg_log (trace s') = RegRead a [h, l] # reg_log (trace s) \<Longrightarrow> Q (0, Some (join16 h l)) s'"
    and "\<And>r h l s'. \<lbrakk>r \<noteq> 0; reg_log (trace s') = RegRead a [h, l] # reg_log (trace s);
           chip_state s' = WIZCHIP_STATE_FAULTED\<rbrakk> \<Longrightarrow> Q (r, None) s'"
  shows "wpt (wizchip_read16_5500 p a True s) Q"
proof -
  obtain r v s' where e: "wizchip_read16_5500 p a True s = ((r, v), s')" by (metis prod.collapse)
  from wizchip_read16_5500_log [OF e assms(1)] obtain h l where
    "reg_log (trace s') = RegRead a [h, l] # reg_log (trace s)"
    "r = 0 \<longrightarrow> v = Some (join16 h l)"
    "r \<noteq> 0 \<longrightarrow> v = None \<and> chip_state s' = WIZCHIP_STATE_FAULTED" by blast
  with assms(2) [of s' h l] assms(3) [of r s' h l] e show ?thesis
    by (cases "r = 0") (simp_all add: wpt_def)
qed

lemma wpt_expired_log:
  assumes "\<And>v s'. reg_log (trace s') = reg_log (trace s) \<Longrightarrow> Q v s'"
  shows "wpt (wizchip_deadline_expired d s) Q"
  unfolding wpt_def using assms time_upd_wire [OF time_upd_expired] by (metis prod.collapse)

text \<open>The three ways out of a stable read.\<close>

definition stable_result ::
    "u32 \<Rightarrow> ('w, 'm) bus_state_scheme \<Rightarrow> int \<times> u16 option \<Rightarrow> ('w, 'm) bus_state_scheme \<Rightarrow> bool" where
  "stable_result a s res s' \<longleftrightarrow> only_reads a s s' \<and>
     (case res of (r, v) \<Rightarrow>
        (r = SOCK_OK \<and> (\<exists>h l older. v = Some (join16 h l)
            \<and> reg_log (trace s') = RegRead a [h, l] # RegRead a [h, l] # older))
      \<or> (r = SOCKERR_IO \<and> v = None \<and> chip_state s' = WIZCHIP_STATE_FAULTED)
      \<or> (r = SOCKERR_DEADLINE \<and> v = None))"

lemma stable_step_spec:
  assumes "reg_addr a" and "only_reads a s0 s"
  shows "wpo (stable_step p a d c s)
    (\<lambda>r s'. case r of Inl res \<Rightarrow> stable_result a s0 res s' | Inr c' \<Rightarrow> only_reads a s0 s')"
  unfolding stable_step_def stable_result_def
  using assms
  by (auto intro!: wp wpt_read16_log wpt_expired_log simp: join16_inject
      dest: only_reads_upto3)

lemma stable_loop_spec:
  "reg_addr a \<Longrightarrow> only_reads a s0 s \<Longrightarrow> wpo (stable_loop p a d s) (stable_result a s0)"
  unfolding stable_loop_def
  by (rule wpo_forever [where I = "\<lambda>_. only_reads a s0"]) (simp_all add: stable_step_spec)

subsection \<open>Configuration is not touched by register traffic and waiting\<close>

definition chip_frame :: "('w, 'm) time_state_scheme \<Rightarrow> ('w, 'm) time_state_scheme \<Rightarrow> bool" where
  "chip_frame s s' \<longleftrightarrow>
     spi_read_burst s' = spi_read_burst s \<and> spi_write_burst s' = spi_write_burst s
     \<and> now_us s' = now_us s \<and> wait_us s' = wait_us s \<and> wait_hook s' = wait_hook s
     \<and> time_us_cb s' = time_us_cb s \<and> timeout_config s' = timeout_config s
     \<and> requested_operation_timeout_us s' = requested_operation_timeout_us s
     \<and> time_state.more s' = time_state.more s"

lemma bus_upd_time:
  assumes "bus_upd s s'"
  shows "now_us s' = now_us s \<and> wait_us s' = wait_us s \<and> wait_hook s' = wait_hook s
     \<and> time_us_cb s' = time_us_cb s \<and> timeout_config s' = timeout_config s
     \<and> requested_operation_timeout_us s' = requested_operation_timeout_us s
     \<and> poll_counter s' = poll_counter s \<and> configured_timeout_us s' = configured_timeout_us s
     \<and> time_state.more s' = time_state.more s"
  using assms unfolding bus_upd_def by auto

lemma bus_upd_chip_frame: "bus_upd s s' \<Longrightarrow> chip_frame s s'"
  using bus_upd_time [of s s'] by (simp add: chip_frame_def bus_upd_iff)

interpretation chip_frame: poll_relation p chip_frame for p
proof unfold_locales
  show "chip_frame s s" for s :: "('a, 'b) time_state_scheme" by (simp add: chip_frame_def)
  show "chip_frame a c" if "chip_frame a b" "chip_frame b c" for a b c :: "('a, 'b) time_state_scheme"
    using that by (simp add: chip_frame_def)
  show "chip_frame s s'" if "txn acc r s s'" for acc r and s s' :: "('a, 'b) time_state_scheme"
    using that bus_upd_chip_frame by (auto simp: txn_def)
  show "chip_frame s s'" if "time_upd s s'" for s s' :: "('a, 'b) time_state_scheme"
    using that by (auto simp: time_upd_def chip_frame_def)
qed

subsection \<open>Termination of the stable reads\<close>

text \<open>Without a time source each failed round counts one poll, and 100000 polls expire.\<close>

definition polling :: "('w, 'm) time_state_scheme \<Rightarrow> bool" where
  "polling s \<longleftrightarrow> \<not> wizchip_time_source_active s \<and> poll_counter s < 100000"

lemma polling_bus_upd: "\<lbrakk>polling s; bus_upd s s'\<rbrakk> \<Longrightarrow> polling s'"
  by (drule bus_upd_time) (auto simp: polling_def wizchip_time_source_active_def)

lemma wpt_expired_polling:
  assumes "polling s" and "\<And>s'. Q True s'"
    and "\<And>s'. \<lbrakk>polling s'; poll_counter s' = poll_counter s + 1\<rbrakk> \<Longrightarrow> Q False s'"
  shows "wpt (wizchip_deadline_expired WIZCHIP_POLL_MAX_64 s) Q"
proof -
  have "ucast (poll_counter s + 1) < (100000 :: u64) \<longleftrightarrow> poll_counter s + 1 < 100000"
    by (simp add: word_less_nat_alt)
  then have "\<not> 100000 \<le> (ucast (poll_counter s + 1) :: u64) \<longleftrightarrow> poll_counter s + 1 < 100000"
    by (simp add: not_le)
  with assms show ?thesis
    by (auto simp: wizchip_deadline_expired_def polling_def wpt_def Let_def
        WIZCHIP_POLL_MAX_64_def wizchip_time_source_active_def)
qed

lemma stable_step_polling:
  assumes "polling s0"
  shows "wps (stable_step p a WIZCHIP_POLL_MAX_64 c s0)
    (\<lambda>r s. case r of Inl _ \<Rightarrow> True | Inr _ \<Rightarrow> polling s \<and> poll_counter s = poll_counter s0 + 1)"
proof -
  have exp: "wpt (wizchip_deadline_expired WIZCHIP_POLL_MAX_64 s)
      (\<lambda>e s'. \<not> e \<longrightarrow> polling s' \<and> poll_counter s' = poll_counter s0 + 1)" if "bus_upd s0 s" for s
    using polling_bus_upd [OF assms that] bus_upd_time [OF that]
    by (auto intro: wpt_expired_polling)
  show ?thesis
    unfolding stable_step_def
    by (auto intro!: wp bus_frame.R_read16 [of s0] wpt_mono [OF exp])
qed

lemma stable_loop_returns:
  assumes "polling s"
  shows "wps (stable_loop p a WIZCHIP_POLL_MAX_64 s) (\<lambda>_ _. True)"
  unfolding stable_loop_def
proof (rule wps_forever [where I = "\<lambda>_. polling" and m = "\<lambda>_ s. 100000 - unat (poll_counter s)"])
  fix c and s :: "('a, 'b) time_state_scheme"
  assume s: "polling s"
  have m: "100000 - unat (poll_counter s + 1) < 100000 - unat (poll_counter s)"
    if "poll_counter s + 1 < 100000"
  proof -
    have "unat (poll_counter s + 1) = unat (poll_counter s) + 1"
      using s unat_plus_one [of "poll_counter s" 100000] by (simp add: polling_def)
    with that show ?thesis by (simp add: word_less_nat_alt)
  qed
  show "wps (stable_step p a WIZCHIP_POLL_MAX_64 c s) (\<lambda>r s'. case r of Inl _ \<Rightarrow> True
     | Inr c' \<Rightarrow> polling s' \<and> 100000 - unat (poll_counter s') < 100000 - unat (poll_counter s))"
    by (rule wps_mono [OF stable_step_polling [OF s]])
      (auto split: sum.splits simp: polling_def intro: m)
qed (fact assms)

text \<open>The stable reads always return when no time source is registered.\<close>

lemma stable_returns:
  assumes "\<not> wizchip_time_source_active s"
  shows "wps (getSn_TX_FSR_stable p sn out s) (\<lambda>_ _. True)"
    and "wps (getSn_RX_RSR_stable p sn out s) (\<lambda>_ _. True)"
proof -
  have "wizchip_deadline_abs WIZCHIP_POLL_MAX_64 s = (0, s')
      \<Longrightarrow> polling s'" for s'
    using assms by (auto simp: wizchip_deadline_abs_def polling_def wizchip_time_source_active_def)
  moreover have "fst (wizchip_deadline_abs WIZCHIP_POLL_MAX_64 s) = 0"
    using assms by (simp add: wizchip_deadline_abs_def)
  ultimately show "wps (getSn_TX_FSR_stable p sn out s) (\<lambda>_ _. True)"
    and "wps (getSn_RX_RSR_stable p sn out s) (\<lambda>_ _. True)"
    using stable_loop_returns
    by (auto simp: getSn_TX_FSR_stable_def getSn_RX_RSR_stable_def Let_def wps_def split: prod.splits)
qed

subsection \<open>Buffer memory on the wire\<close>

definition buf_addr :: "u16 \<Rightarrow> u32 \<Rightarrow> u32" where
  "buf_addr ptr blk = push_bit 8 (ucast ptr) + push_bit 3 blk"

lemma buf_addr_or:
  assumes "blk < 32"
  shows "buf_addr ptr blk = push_bit 8 (ucast ptr) OR push_bit 3 blk"
    and "bit blk n \<Longrightarrow> n < 5"
proof -
  have "take_bit 5 blk = blk" using assms
    by (simp add: take_bit_eq_mod word_less_nat_alt word_unat_eq_iff unat_mod)
  then show b: "bit blk n \<Longrightarrow> n < 5" for n by (metis bit_take_bit_iff)
  show "buf_addr ptr blk = push_bit 8 (ucast ptr) OR push_bit 3 blk"
    unfolding buf_addr_def
    by (rule disjunctive_add_eq_or, rule bit_word_eqI) (auto simp: bit_simps dest: b)
qed

lemma buf_addr_loc:
  assumes "blk < 32"
  shows "chip_loc (buf_addr ptr blk) = (ucast ptr, blk, 0)"
proof -
  note b = buf_addr_or [OF assms]
  have m: "x AND 0x1F = take_bit 5 x" "x AND 0x7 = take_bit 3 x" for x :: u32
    by (simp_all add: take_bit_eq_mask mask_eq_exp_minus_1)
  have "drop_bit 8 (buf_addr ptr blk) = ucast ptr"
    unfolding b(1) by (rule bit_word_eqI) (auto simp: bit_simps dest: b(2) bit_imp_le_length)
  moreover have "drop_bit 3 (buf_addr ptr blk) AND 0x1F = blk"
    unfolding b(1) m by (rule bit_word_eqI) (auto simp: bit_simps dest: b(2))
  moreover have "buf_addr ptr blk AND 0x7 = 0"
    unfolding b(1) m by (rule bit_word_eqI) (auto simp: bit_simps)
  ultimately show ?thesis by (simp add: chip_loc_def)
qed

lemma reg_addr_buf: "blk < 32 \<Longrightarrow> reg_addr (buf_addr ptr blk)"
  using buf_addr_loc [of blk ptr] reg_addr_loc [of "buf_addr ptr blk" "ucast ptr" blk]
  by (simp add: word_less_nat_alt unat_u16_less)

lemma sock_block_less:
  "N < 8 \<Longrightarrow> WIZCHIP_TXBUF_BLOCK N < 32" "N < 8 \<Longrightarrow> WIZCHIP_RXBUF_BLOCK N < 32"
  unfolding WIZCHIP_TXBUF_BLOCK_def WIZCHIP_RXBUF_BLOCK_def
  by (drule sock_num_cases, elim disjE, simp_all)+

lemma wizchip_read16_value_log:
  assumes "wizchip_read16_5500_value p a s = (v, s')" and "reg_addr a"
  shows "\<exists>h l. reg_log (trace s') = RegRead a [h, l] # reg_log (trace s)
     \<and> (chip_state s' \<noteq> WIZCHIP_STATE_FAULTED \<longrightarrow> v = join16 h l) \<and> (v = join16 h l \<or> v = 0)"
proof -
  from assms(1) obtain r x where e: "wizchip_read16_5500 p a True s = ((r, x), s')"
    and v: "v = (case x of None \<Rightarrow> 0 | Some y \<Rightarrow> y)"
    by (auto simp: wizchip_read16_5500_value_def split: prod.splits)
  from wizchip_read16_5500_log [OF e assms(2)] v show ?thesis by (cases "r = 0") auto
qed

text \<open>Faults are sticky: only an explicit recovery or initialisation leaves \<open>FAULTED\<close>.\<close>

definition fault_kept :: "('w, 'm) bus_state_scheme \<Rightarrow> ('w, 'm) bus_state_scheme \<Rightarrow> bool" where
  "fault_kept s s' \<longleftrightarrow>
     (chip_state s' = WIZCHIP_STATE_FAULTED \<or> chip_state s' = chip_state s)"

interpretation fault_bus: bus_relation p fault_kept for p
  by unfold_locales (auto simp: fault_kept_def txn_def split: if_splits)

interpretation fault_kept: poll_relation p fault_kept for p
  by unfold_locales (auto simp: fault_kept_def txn_def time_upd_def split: if_splits)

lemma fault_kept_write: "fault_kept s (WIZCHIP_WRITE p a v s)" "fault_kept s (WIZCHIP_WRITE_BUF p a b n s)"
  by (simp_all add: fault_bus.R_WRITE fault_bus.R_WRITE_BUF fault_bus.R_refl)

lemma sock_buf_addr:
  "push_bit 8 (ucast ptr) + push_bit 3 (WIZCHIP_TXBUF_BLOCK sn) = buf_addr ptr (WIZCHIP_TXBUF_BLOCK sn)"
  "push_bit 8 (ucast ptr) + push_bit 3 (WIZCHIP_RXBUF_BLOCK sn) = buf_addr ptr (WIZCHIP_RXBUF_BLOCK sn)"
  by (simp_all add: buf_addr_def)

lemma wiz_send_data_log:
  assumes "sn < 8" and "len \<noteq> 0"
    and ok: "chip_state (wiz_send_data p sn (Some d) len s) \<noteq> WIZCHIP_STATE_FAULTED"
  shows "\<exists>h l. let ptr = join16 h l in
    reg_log (trace (wiz_send_data p sn (Some d) len s)) =
      RegWrite (Sn_TX_WR sn) [hi8 (ptr + len), lo8 (ptr + len)]
      # RegWrite (buf_addr ptr (WIZCHIP_TXBUF_BLOCK sn)) (take (unat len) d)
      # RegRead (Sn_TX_WR sn) [h, l] # reg_log (trace s)"
proof -
  obtain ptr s1 where g: "getSn_TX_WR p sn s = (ptr, s1)" by fastforce
  define s2 where "s2 = WIZCHIP_WRITE_BUF p (buf_addr ptr (WIZCHIP_TXBUF_BLOCK sn)) (Some d) len s1"
  have r: "wiz_send_data p sn (Some d) len s
      = WIZCHIP_WRITE_BUF p (Sn_TX_WR sn) (Some [hi8 (ptr + len), lo8 (ptr + len)]) 2 s2"
    using assms(1,2) g
    by (simp add: wiz_send_data_def s2_def setSn_TX_WR_def sock_buf_addr)
  have a: "reg_addr (Sn_TX_WR sn)"
    by (rule reg_addr_sock [OF assms(1)]) (simp add: sock_regs_def)
  have "chip_state s2 \<noteq> WIZCHIP_STATE_FAULTED" "chip_state s1 \<noteq> WIZCHIP_STATE_FAULTED"
    using ok fault_kept_write(2) [of s2] fault_kept_write(2) [of s1]
    unfolding r s2_def by (metis fault_kept_def)+
  with wizchip_read16_value_log [OF g [unfolded getSn_TX_WR_def] a] obtain h l where
    "reg_log (trace s1) = RegRead (Sn_TX_WR sn) [h, l] # reg_log (trace s)" "ptr = join16 h l" by blast
  then show ?thesis
    using assms(1,2) a unfolding r s2_def
    by (auto simp: WIZCHIP_WRITE_BUF_log reg_addr_buf sock_block_less Let_def)
qed

lemma wiz_recv_data_log:
  assumes e: "wiz_recv_data p sn True len s = (bs, s')" and "sn < 8" and "len \<noteq> 0"
    and ok: "chip_state s' \<noteq> WIZCHIP_STATE_FAULTED"
  shows "\<exists>h l. let ptr = join16 h l in length bs = unat len \<and>
    reg_log (trace s') =
      RegWrite (Sn_RX_RD sn) [hi8 (ptr + len), lo8 (ptr + len)]
      # RegRead (buf_addr ptr (WIZCHIP_RXBUF_BLOCK sn)) bs
      # RegRead (Sn_RX_RD sn) [h, l] # reg_log (trace s)"
proof -
  obtain ptr s1 where g: "getSn_RX_RD p sn s = (ptr, s1)" by fastforce
  obtain bs' s2 where b: "WIZCHIP_READ_BUF p (buf_addr ptr (WIZCHIP_RXBUF_BLOCK sn)) True len s1 = (bs', s2)"
    by fastforce
  have r: "bs' = bs" "s' = WIZCHIP_WRITE_BUF p (Sn_RX_RD sn) (Some [hi8 (ptr + len), lo8 (ptr + len)]) 2 s2"
    using e assms(2,3) g b
    by (simp_all add: wiz_recv_data_def setSn_RX_RD_def sock_buf_addr)
  have a: "reg_addr (Sn_RX_RD sn)"
    by (rule reg_addr_sock [OF assms(2)]) (simp add: sock_regs_def)
  have "fault_kept s1 s2"
    using fault_bus.R_READ_BUF [OF fault_bus.R_refl, of s1 "\<lambda>_. fault_kept s1" p
        "buf_addr ptr (WIZCHIP_RXBUF_BLOCK sn)" len] b by (simp add: wpt_def)
  then have "chip_state s1 \<noteq> WIZCHIP_STATE_FAULTED"
    using ok fault_kept_write(2) [of s2] unfolding r by (metis fault_kept_def)
  with wizchip_read16_value_log [OF g [unfolded getSn_RX_RD_def] a] obtain h l where
    "reg_log (trace s1) = RegRead (Sn_RX_RD sn) [h, l] # reg_log (trace s)" "ptr = join16 h l" by blast
  then show ?thesis
    using assms(2,3) a r WIZCHIP_READ_BUF_log [OF b]
    by (auto simp: WIZCHIP_WRITE_BUF_log reg_addr_buf sock_block_less Let_def)
qed

subsection \<open>Buffer sizes\<close>

text \<open>A write and its readback, as far as buffer sizes need them.\<close>

lemma write_readback:
  assumes "wizchip_write8_checked p a v s = (r1, s1)" and "reg_addr a"
    and "(if r1 = 0 then wizchip_read8_checked_out p a True s1 else ((r1, None), s1)) = ((r2, x), s2)"
  shows "bus_upd s s2"
    and "r2 = 0 \<longrightarrow> (\<exists>b. x = Some b \<and> reg_log (trace s2) = RegRead a [b] # RegWrite a [v] # reg_log (trace s))"
    and "r2 = 0 \<or> r2 = SOCKERR_IO"
proof -
  note w = write8_txn [OF assms(1)]
  show "bus_upd s s2" and "r2 = 0 \<or> r2 = SOCKERR_IO"
    and "r2 = 0 \<longrightarrow> (\<exists>b. x = Some b \<and> reg_log (trace s2) = RegRead a [b] # RegWrite a [v] # reg_log (trace s))"
    using w assms(2,3) read8_txn [of p a s1 r2 x s2]
    by (auto simp: txn_def intro: bus_upd_trans split: if_splits)
qed

lemma bus_upd_conf:
  assumes "bus_upd s s'"
  shows "wizchip_txmax_cache s' = wizchip_txmax_cache s \<and> wizchip_rxmax_cache s' = wizchip_rxmax_cache s
     \<and> wizchip_previous_link s' = wizchip_previous_link s \<and> DNS_server s' = DNS_server s
     \<and> DHCP_mode s' = DHCP_mode s \<and> chip_conf.more s' = chip_conf.more s"
  using assms unfolding bus_upd_def by auto

lemma set_tx_buf_size_spec:
  assumes "wizchip_set_tx_buf_size p sn kb s = (r, s')"
  shows "if r = 0
    then sn < 8 \<and> kb \<in> {0, 2, 4, 8, 16}
       \<and> wizchip_txmax_cache s' = (wizchip_txmax_cache s)(sn := ucast kb * 1024)
       \<and> reg_log (trace s') = RegRead (Sn_TXBUF_SIZE sn) [kb] # RegWrite (Sn_TXBUF_SIZE sn) [kb]
            # reg_log (trace s)
    else wizchip_txmax_cache s' = wizchip_txmax_cache s"
proof (cases "sn < 8 \<and> kb \<in> {0, 2, 4, 8, 16}")
  case True
  let ?a = "Sn_TXBUF_SIZE sn"
  have a: "reg_addr ?a" using True by (intro reg_addr_sock) (simp_all add: sock_regs_def)
  obtain r1 s1 where w: "wizchip_write8_checked p ?a kb (call p GlobalEnter s) = (r1, s1)" by fastforce
  obtain r2 x s2 where
    b: "(if r1 = 0 then wizchip_read8_checked_out p ?a True s1 else ((r1, None), s1)) = ((r2, x), s2)"
    by (metis prod.collapse)
  have "bus_upd s s2"
    using write_readback(1) [OF w a b] bus_upd_trans [OF bus_upd_call] by blast
  note conf = bus_upd_conf [OF this]
  have e: "(r, s') = (if r2 = 0 \<and> x \<noteq> Some kb then -1 else r2,
      call p GlobalExit (if r2 = 0 \<and> x = Some kb
        then wizchip_txmax_cache_update (\<lambda>c. c(sn := ucast kb * 1024)) s2 else s2))"
    using assms True w b
    by (auto simp: wizchip_set_tx_buf_size_def wizchip_set_buf_size_def Let_def split: if_splits)
  then show ?thesis
    using True conf write_readback(2,3) [OF w a b] by (auto simp: call_def)
next
  case False
  with assms show ?thesis
    by (auto simp: wizchip_set_tx_buf_size_def wizchip_set_buf_size_def WIZCHIP_SOCK_NUM_def
        split: if_splits)
qed

end
