(* ===== verification/SockState.thy ===== *)
theory SockState
  imports W5500
begin

text \<open>
  The per-socket state of \<open>Ethernet/socket.c\<close> and the waits every socket operation is made
  of. Each static array of the source is a function of the socket number. The three bounded
  waits are instances of \<open>poll_until\<close>, one probe per round, which returns because
  \<open>wizchip_deadline_poll\<close> counts the rounds.

  The locale \<open>sock_relation\<close> is the contract of the code that runs while the lock of socket
  \<open>sn\<close> is held; \<open>api_relation\<close> is the contract of whole API calls, which take the lock,
  run such code and release it.
\<close>

unbundle bit_operations_syntax

subsection \<open>State\<close>

datatype sock_health_t = SOCK_HEALTHY | SOCK_FAULTED
datatype sock_tx_state_t = SOCK_TX_IDLE | SOCK_TX_DGRAM_PENDING | SOCK_TX_LOCAL_FAULT

record 'w drv = "'w chip_conf" +
  sock_any_port :: u16
  sock_io_mode :: "u8 \<Rightarrow> u8"
  sock_is_sending :: "u8 \<Rightarrow> u8"
  sock_health :: "u8 \<Rightarrow> sock_health_t"
  sock_remained_size :: "u8 \<Rightarrow> u16"
  sock_pack_info :: "u8 \<Rightarrow> u8"
  sock_mode :: "u8 \<Rightarrow> u8"
  sock_tx_state :: "u8 \<Rightarrow> sock_tx_state_t"
  sock_tx_pending_len :: "u8 \<Rightarrow> u16"

type_synonym ('a, 'w, 'm) sock_op = "('w, 'm) drv_scheme \<Rightarrow> 'a \<times> ('w, 'm) drv_scheme"
type_synonym ('a, 'w, 'm) sock_wait = "('w, 'm) drv_scheme \<Rightarrow> ('a \<times> ('w, 'm) drv_scheme) option"
type_synonym ('w, 'm) sock_proc = "('w, 'm) drv_scheme \<Rightarrow> ('w, 'm) drv_scheme"

definition SOCK_ANY_PORT_NUM :: u16 where "SOCK_ANY_PORT_NUM = 0xC000"

definition SF_ETHER_OWN :: u8 where [simp]: "SF_ETHER_OWN = Sn_MR_MFEN"
definition SF_IGMP_VER2 :: u8 where [simp]: "SF_IGMP_VER2 = Sn_MR_MC"
definition SF_TCP_NODELAY :: u8 where [simp]: "SF_TCP_NODELAY = Sn_MR_ND"
definition SF_MULTI_ENABLE :: u8 where [simp]: "SF_MULTI_ENABLE = Sn_MR_MULTI"
definition SF_BROAD_BLOCK :: u8 where [simp]: "SF_BROAD_BLOCK = Sn_MR_BCASTB"
definition SF_MULTI_BLOCK :: u8 where [simp]: "SF_MULTI_BLOCK = Sn_MR_MMB"
definition SF_IPv6_BLOCK :: u8 where [simp]: "SF_IPv6_BLOCK = Sn_MR_MIP6B"
definition SF_UNI_BLOCK :: u8 where [simp]: "SF_UNI_BLOCK = Sn_MR_UCASTB"
definition SF_IO_NONBLOCK :: u8 where [simp]: "SF_IO_NONBLOCK = 0x01"

definition SF_TCP_VALID_MASK :: u8 where
  "SF_TCP_VALID_MASK = SF_TCP_NODELAY OR SF_IO_NONBLOCK"
definition SF_UDP_VALID_MASK :: u8 where
  "SF_UDP_VALID_MASK = SF_IGMP_VER2 OR SF_MULTI_ENABLE OR SF_BROAD_BLOCK OR SF_UNI_BLOCK OR SF_IO_NONBLOCK"
definition SF_MACRAW_VALID_MASK :: u8 where
  "SF_MACRAW_VALID_MASK = SF_ETHER_OWN OR SF_BROAD_BLOCK OR SF_MULTI_BLOCK OR SF_IPv6_BLOCK OR SF_IO_NONBLOCK"
definition SF_IPRAW_VALID_MASK :: u8 where
  "SF_IPRAW_VALID_MASK = SF_IO_NONBLOCK"

definition PACK_FIRST :: u8 where [simp]: "PACK_FIRST = 0x80"
definition PACK_REMAINED :: u8 where [simp]: "PACK_REMAINED = 0x01"
definition PACK_COMPLETED :: u8 where [simp]: "PACK_COMPLETED = 0x00"
definition PACK_NONE :: u8 where [simp]: "PACK_NONE = 0x00"

subsection \<open>State resets\<close>

text \<open>Assignments to one element of a per-socket array.\<close>

named_theorems sock_set "assignments to per-socket state"

definition set_sock_io_mode :: "u8 \<Rightarrow> u8 \<Rightarrow> ('w, 'm) sock_proc" where [sock_set]:
  "set_sock_io_mode sn v s = s\<lparr>sock_io_mode := (sock_io_mode s)(sn := v)\<rparr>"

definition set_sock_is_sending :: "u8 \<Rightarrow> u8 \<Rightarrow> ('w, 'm) sock_proc" where [sock_set]:
  "set_sock_is_sending sn v s = s\<lparr>sock_is_sending := (sock_is_sending s)(sn := v)\<rparr>"

definition set_sock_health :: "u8 \<Rightarrow> sock_health_t \<Rightarrow> ('w, 'm) sock_proc" where [sock_set]:
  "set_sock_health sn v s = s\<lparr>sock_health := (sock_health s)(sn := v)\<rparr>"

definition set_sock_remained_size :: "u8 \<Rightarrow> u16 \<Rightarrow> ('w, 'm) sock_proc" where [sock_set]:
  "set_sock_remained_size sn v s = s\<lparr>sock_remained_size := (sock_remained_size s)(sn := v)\<rparr>"

definition set_sock_pack_info :: "u8 \<Rightarrow> u8 \<Rightarrow> ('w, 'm) sock_proc" where [sock_set]:
  "set_sock_pack_info sn v s = s\<lparr>sock_pack_info := (sock_pack_info s)(sn := v)\<rparr>"

definition set_sock_mode :: "u8 \<Rightarrow> u8 \<Rightarrow> ('w, 'm) sock_proc" where [sock_set]:
  "set_sock_mode sn v s = s\<lparr>sock_mode := (sock_mode s)(sn := v)\<rparr>"

definition set_sock_tx_state :: "u8 \<Rightarrow> sock_tx_state_t \<Rightarrow> ('w, 'm) sock_proc" where [sock_set]:
  "set_sock_tx_state sn v s = s\<lparr>sock_tx_state := (sock_tx_state s)(sn := v)\<rparr>"

definition set_sock_tx_pending_len :: "u8 \<Rightarrow> u16 \<Rightarrow> ('w, 'm) sock_proc" where [sock_set]:
  "set_sock_tx_pending_len sn v s = s\<lparr>sock_tx_pending_len := (sock_tx_pending_len s)(sn := v)\<rparr>"

definition sock_state_reset :: "u8 \<Rightarrow> ('w, 'm) sock_proc" where
  "sock_state_reset sn s = s\<lparr>
     sock_io_mode := (sock_io_mode s)(sn := 0),
     sock_is_sending := (sock_is_sending s)(sn := 0),
     sock_health := (sock_health s)(sn := SOCK_HEALTHY),
     sock_tx_state := (sock_tx_state s)(sn := SOCK_TX_IDLE),
     sock_tx_pending_len := (sock_tx_pending_len s)(sn := 0),
     sock_remained_size := (sock_remained_size s)(sn := 0),
     sock_pack_info := (sock_pack_info s)(sn := PACK_NONE),
     sock_mode := (sock_mode s)(sn := 0)\<rparr>"

definition wizchip_socket_state_reset_one :: "u8 \<Rightarrow> ('w, 'm) sock_proc" where
  "wizchip_socket_state_reset_one sn s =
     (if sn < WIZCHIP_SOCK_NUM then sock_state_reset sn s else s)"

definition sock_nums :: "u8 list" where
  "sock_nums = [0, 1, 2, 3, 4, 5, 6, 7]"

definition wizchip_socket_state_reset :: "('w, 'm) sock_proc" where
  "wizchip_socket_state_reset s = fold sock_state_reset sock_nums s"

subsection \<open>Bounded waits\<close>

definition wait_poll_init :: "u64 \<Rightarrow> (wizchip_deadline, 'w, 'm) time_op" where
  "wait_poll_init deadline s =
     (let (now, s) = wizchip_time_now s
      in (\<lparr>started_us = now, deadline_us = deadline, timeout_us = UINT64_MAX, polls = 0\<rparr>, s))"

definition wait_poll_expired ::
    "'w platform \<Rightarrow> wizchip_deadline \<Rightarrow> u64 \<Rightarrow> (int \<times> wizchip_deadline, 'w, 'm) time_op" where
  "wait_poll_expired p poll deadline s =
     (let ((r, poll), s) = wizchip_deadline_poll p poll s in
      if r = SOCKERR_DEADLINE then ((SOCKERR_DEADLINE, poll), s)
      else let (e, s) = wizchip_deadline_expired deadline s in
           if e then ((SOCKERR_DEADLINE, poll), s) else ((SOCK_OK, poll), s))"

definition sock_deadline_begin :: "u32 \<Rightarrow> (int \<times> u64 option, 'w, 'm) time_op" where
  "sock_deadline_begin budget_us s =
     (if wizchip_deadline_config_valid s = 0 then ((SOCKERR_TIMEOUT, None), s)
      else let (d, s) = wizchip_deadline_abs (ucast budget_us) s in ((SOCK_OK, Some d), s))"

text \<open>
  A wait loop: each round probes the chip; a result leaves the loop, otherwise the poll is
  counted, and an expired poll faults the socket and ends with \<open>SOCKERR_TIMEOUT\<close>.
\<close>

lemma wait_poll_expired_polls:
  assumes "wait_poll_expired p poll d s = ((r, poll'), s')" and "r \<noteq> SOCKERR_DEADLINE"
  shows "polls poll' = polls poll + 1 \<and> polls poll' < WIZCHIP_POLL_MAX"
  using assms unfolding wait_poll_expired_def wizchip_deadline_poll_def
  by (auto simp: Let_def not_le split: if_splits prod.splits)

abbreviation polls_left :: "wizchip_deadline \<Rightarrow> nat" where
  "polls_left poll \<equiv> limit_left WIZCHIP_POLL_MAX (polls poll)"

lemma polls_left_step:
  assumes "polls poll' = polls poll + 1" and "polls poll' < WIZCHIP_POLL_MAX"
  shows "polls_left poll' < polls_left poll"
  using limit_left_step [of "polls poll"] assms by simp

function poll_until ::
    "'w platform \<Rightarrow> u8 \<Rightarrow> (('w, 'm) drv_scheme \<Rightarrow> int option \<times> ('w, 'm) drv_scheme)
       \<Rightarrow> u64 \<Rightarrow> wizchip_deadline \<Rightarrow> (int, 'w, 'm) sock_op" where
  "poll_until p sn probe deadline poll s =
     (let (r, s1) = probe s in
      case r of
        Some x \<Rightarrow> (x, s1)
      | None \<Rightarrow>
          let ((e, poll'), s2) = wait_poll_expired p poll deadline s1 in
          if e = SOCKERR_DEADLINE
          then (SOCKERR_TIMEOUT, set_sock_health sn SOCK_FAULTED s2)
          else poll_until p sn probe deadline poll' s2)"
  by pat_completeness auto

termination
  by (relation "measure (\<lambda>(p, sn, probe, deadline, poll, s). polls_left poll)")
    (auto dest!: wait_poll_expired_polls [OF sym] intro: polls_left_step)

declare poll_until.simps [simp del]

text \<open>For evaluation: the recursion guarded by \<open>if\<close>.\<close>

lemma poll_until_code [code]:
  "poll_until p sn probe deadline poll s =
     (let (r, s1) = probe s in
      if \<not> Option.is_none r then (the r, s1)
      else let ((e, poll'), s2) = wait_poll_expired p poll deadline s1 in
           if e = SOCKERR_DEADLINE then (SOCKERR_TIMEOUT, set_sock_health sn SOCK_FAULTED s2)
           else poll_until p sn probe deadline poll' s2)"
  by (subst poll_until.simps) (auto simp: Option.is_none_def split: option.splits prod.splits)

lemma wpt_poll_until:
  assumes "I s"
    and probe: "\<And>s. I s \<Longrightarrow> wpt (probe s) (\<lambda>r s'. case r of Some x \<Rightarrow> Q x s' | None \<Rightarrow> I s')"
    and expired: "\<And>poll s. I s \<Longrightarrow> wpt (wait_poll_expired p poll d s)
       (\<lambda>(e, _) s'. if e = SOCKERR_DEADLINE
          then Q SOCKERR_TIMEOUT (set_sock_health sn SOCK_FAULTED s') else I s')"
  shows "wpt (poll_until p sn probe d poll s) Q"
  using assms(1)
proof (induction "polls_left poll" arbitrary: poll s rule: less_induct)
  case less
  obtain r s1 where pr: "probe s = (r, s1)" by fastforce
  show ?case
  proof (cases r)
    case (Some x)
    with pr probe [OF less.prems] show ?thesis
      by (subst poll_until.simps) (simp add: wpt_def)
  next
    case None
    with pr probe [OF less.prems] have i: "I s1" by (simp add: wpt_def)
    obtain e poll' s2 where w: "wait_poll_expired p poll d s1 = ((e, poll'), s2)"
      by (metis prod.collapse)
    from expired [OF i, of poll] w have q: "if e = SOCKERR_DEADLINE
        then Q SOCKERR_TIMEOUT (set_sock_health sn SOCK_FAULTED s2) else I s2"
      by (simp add: wpt_def)
    show ?thesis
    proof (cases "e = SOCKERR_DEADLINE")
      case True
      with q pr None w show ?thesis by (subst poll_until.simps) (simp add: wpt_def)
    next
      case False
      with polls_left_step wait_poll_expired_polls [OF w] have "polls_left poll' < polls_left poll"
        by blast
      from less.hyps [OF this, of s2] q False pr None w show ?thesis
        by (subst poll_until.simps) simp
    qed
  qed
qed

definition cr_probe :: "'w platform \<Rightarrow> u8 \<Rightarrow> (int option, 'w, 'm) sock_op" where
  "cr_probe p sn s = (let (cr, s) = getSn_CR p sn s in (if cr = 0 then Some SOCK_OK else None, s))"

definition wait_cr_accepted :: "'w platform \<Rightarrow> u8 \<Rightarrow> u64 \<Rightarrow> (int, 'w, 'm) sock_op" where
  "wait_cr_accepted p sn deadline s =
     (let (poll, s) = wait_poll_init deadline s
      in poll_until p sn (cr_probe p sn) deadline poll s)"

definition sr_probe :: "'w platform \<Rightarrow> u8 \<Rightarrow> u8 \<Rightarrow> (int option, 'w, 'm) sock_op" where
  "sr_probe p sn wanted s =
     (let (sr, s) = getSn_SR p sn s in (if sr = wanted then Some SOCK_OK else None, s))"

definition wait_sr_reached :: "'w platform \<Rightarrow> u8 \<Rightarrow> u8 \<Rightarrow> u64 \<Rightarrow> (int, 'w, 'm) sock_op" where
  "wait_sr_reached p sn wanted deadline s =
     (let (poll, s) = wait_poll_init deadline s
      in poll_until p sn (sr_probe p sn wanted) deadline poll s)"

definition datagram_probe :: "'w platform \<Rightarrow> u8 \<Rightarrow> (int option, 'w, 'm) sock_op" where
  "datagram_probe p sn s =
     (let (cr, s) = getSn_CR p sn s in
      if cr = 0 then (Some SOCK_OK, s)
      else let (ir, s) = getSn_IR p sn s in
           if ir AND Sn_IR_TIMEOUT \<noteq> 0 then (Some SOCKERR_TIMEOUT, setSn_IR p sn Sn_IR_TIMEOUT s)
           else (None, s))"

definition wait_datagram_cr_accepted ::
    "'w platform \<Rightarrow> u8 \<Rightarrow> u32 \<Rightarrow> u8 \<Rightarrow> (int, 'w, 'm) sock_op" where
  "wait_datagram_cr_accepted p sn timeout nonblocking s =
     (let (r, s) = datagram_probe p sn s in
      case r of
        Some x \<Rightarrow> (x, s)
      | None \<Rightarrow>
          if nonblocking \<noteq> 0 then (SOCK_BUSY, s)
          else let (deadline, s) = wizchip_deadline_abs (ucast timeout) s;
                   (poll, s) = wait_poll_init deadline s
               in poll_until p sn (datagram_probe p sn) deadline poll s)"

subsection \<open>Small readers\<close>

definition socket_open_status :: "u8 \<Rightarrow> u8" where
  "socket_open_status protocol =
     (let m = protocol AND 0x0F in
      if m = Sn_MR_TCP then SOCK_INIT else if m = Sn_MR_UDP then SOCK_UDP
      else if m = Sn_MR_IPRAW then SOCK_IPRAW else if m = Sn_MR_MACRAW then SOCK_MACRAW
      else SOCK_CLOSED)"

definition read_sn_tx_fsr :: "'w platform \<Rightarrow> u8 \<Rightarrow> (int \<times> u16 option, 'w, 'm) sock_wait" where
  "read_sn_tx_fsr p sn s = do {
     ((result, v), s) \<leftarrow> getSn_TX_FSR_stable p sn True s;
     Some ((if result = SOCK_OK then 0 else result, v), s)
   }"

definition read_sn_rx_rsr :: "'w platform \<Rightarrow> u8 \<Rightarrow> (int \<times> u16 option, 'w, 'm) sock_wait" where
  "read_sn_rx_rsr p sn s = do {
     ((result, v), s) \<leftarrow> getSn_RX_RSR_stable p sn True s;
     Some ((if result = SOCK_OK then 0 else result, v), s)
   }"

definition sock_mode_cached_or_read :: "'w platform \<Rightarrow> u8 \<Rightarrow> (u8, 'w, 'm) sock_op" where
  "sock_mode_cached_or_read p sn s =
     (let mode = sock_mode s sn in if mode = 0 then getSn_MR p sn s else (mode, s))"

subsection \<open>Code under the lock of one socket\<close>

definition sock_same :: "u8 \<Rightarrow> ('w, 'm) drv_scheme \<Rightarrow> ('w, 'm) drv_scheme \<Rightarrow> bool" where
  "sock_same m s s' \<longleftrightarrow>
     sock_io_mode s' m = sock_io_mode s m \<and> sock_is_sending s' m = sock_is_sending s m
     \<and> sock_health s' m = sock_health s m \<and> sock_remained_size s' m = sock_remained_size s m
     \<and> sock_pack_info s' m = sock_pack_info s m \<and> sock_mode s' m = sock_mode s m
     \<and> sock_tx_state s' m = sock_tx_state s m \<and> sock_tx_pending_len s' m = sock_tx_pending_len s m"

definition sock_upd :: "u8 \<Rightarrow> ('w, 'm) drv_scheme \<Rightarrow> ('w, 'm) drv_scheme \<Rightarrow> bool" where
  "sock_upd sn s s' \<longleftrightarrow>
     chip_conf.truncate s' = chip_conf.truncate s \<and> sock_any_port s' = sock_any_port s
     \<and> drv.more s' = drv.more s \<and> (\<forall>m. m \<noteq> sn \<longrightarrow> sock_same m s s')"

lemma sock_upd_fields:
  "sock_upd sn s (set_sock_io_mode sn io s)"
  "sock_upd sn s (set_sock_is_sending sn se s)"
  "sock_upd sn s (set_sock_health sn he s)"
  "sock_upd sn s (set_sock_remained_size sn re s)"
  "sock_upd sn s (set_sock_pack_info sn pa s)"
  "sock_upd sn s (set_sock_mode sn mo s)"
  "sock_upd sn s (set_sock_tx_state sn tx s)"
  "sock_upd sn s (set_sock_tx_pending_len sn pe s)"
  "sock_upd sn s (sock_state_reset sn s)"
  by (simp_all add: sock_upd_def sock_same_def chip_conf.truncate_def sock_state_reset_def sock_set)

lemma sock_upd_wire:
  assumes "sock_upd sn s s'"
  shows "trace s' = trace s" and "world s' = world s" and "chip_state s' = chip_state s"
    and "chip_last_error s' = chip_last_error s" and "timeout_config s' = timeout_config s"
  using assms by (simp_all add: sock_upd_def chip_conf.truncate_def)

locale sock_relation = poll_relation p R
  for p :: "'w platform"
    and R :: "('w, 'm) drv_scheme \<Rightarrow> ('w, 'm) drv_scheme \<Rightarrow> bool" +
  fixes sn :: u8
  assumes R_sock: "sock_upd sn s s' \<Longrightarrow> R s s'"
begin

lemma R_field:
  assumes "R s0 s"
  shows "R s0 (set_sock_io_mode sn io s)"
    and "R s0 (set_sock_is_sending sn se s)"
    and "R s0 (set_sock_health sn he s)"
    and "R s0 (set_sock_remained_size sn re s)"
    and "R s0 (set_sock_pack_info sn pa s)"
    and "R s0 (set_sock_mode sn mo s)"
    and "R s0 (set_sock_tx_state sn tx s)"
    and "R s0 (set_sock_tx_pending_len sn pe s)"
    and "R s0 (sock_state_reset sn s)"
  using assms by (blast intro: R_trans R_sock sock_upd_fields)+

lemma R_wait_poll_init:
  "\<lbrakk>R s0 s; \<And>v s'. R s0 s' \<Longrightarrow> Q v s'\<rbrakk> \<Longrightarrow> wpt (wait_poll_init d s) Q"
  unfolding wait_poll_init_def by (auto intro!: wp time_rel)

lemma R_wait_poll_expired:
  "\<lbrakk>R s0 s; \<And>v s'. R s0 s' \<Longrightarrow> Q v s'\<rbrakk> \<Longrightarrow> wpt (wait_poll_expired p poll d s) Q"
  unfolding wait_poll_expired_def by (auto intro!: wp time_rel)

lemma R_sock_deadline_begin:
  "\<lbrakk>R s0 s; \<And>v s'. R s0 s' \<Longrightarrow> Q v s'\<rbrakk> \<Longrightarrow> wpt (sock_deadline_begin b s) Q"
  unfolding sock_deadline_begin_def by (auto intro!: wp time_rel)

lemma R_poll_until:
  assumes "R s0 s" and "\<And>v s'. R s0 s' \<Longrightarrow> Q v s'"
    and "\<And>s. R s0 s \<Longrightarrow> wpt (probe s) (\<lambda>_. R s0)"
  shows "wpt (poll_until p sn probe d poll s) Q"
  by (rule wpt_poll_until [where I = "R s0"], rule assms(1), rule wpt_mono [OF assms(3)])
    (auto split: option.splits intro: assms(2) intro!: R_wait_poll_expired R_field)

lemma R_probes:
  "R s0 s \<Longrightarrow> wpt (cr_probe p sn s) (\<lambda>_. R s0)"
  "R s0 s \<Longrightarrow> wpt (sr_probe p sn w s) (\<lambda>_. R s0)"
  "R s0 s \<Longrightarrow> wpt (datagram_probe p sn s) (\<lambda>_. R s0)"
  unfolding cr_probe_def sr_probe_def datagram_probe_def reg_defs
  by (auto intro!: wp register_rel)

lemma R_wait_cr:
  "\<lbrakk>R s0 s; \<And>v s'. R s0 s' \<Longrightarrow> Q v s'\<rbrakk> \<Longrightarrow> wpt (wait_cr_accepted p sn d s) Q"
  unfolding wait_cr_accepted_def by (auto intro!: wp R_wait_poll_init R_poll_until R_probes)

lemma R_wait_sr:
  "\<lbrakk>R s0 s; \<And>v s'. R s0 s' \<Longrightarrow> Q v s'\<rbrakk> \<Longrightarrow> wpt (wait_sr_reached p sn w d s) Q"
  unfolding wait_sr_reached_def by (auto intro!: wp R_wait_poll_init R_poll_until R_probes)

lemma R_wait_datagram:
  assumes "R s0 s" and "\<And>v s'. R s0 s' \<Longrightarrow> Q v s'"
  shows "wpt (wait_datagram_cr_accepted p sn t nb s) Q"
  unfolding wait_datagram_cr_accepted_def using assms
  by (auto intro!: wp wpt_mono [OF R_probes(3)] R_wait_poll_init R_poll_until R_probes time_rel)

lemma R_read_tx_fsr:
  "\<lbrakk>R s0 s; \<And>v s'. R s0 s' \<Longrightarrow> Q v s'\<rbrakk> \<Longrightarrow> wpo (read_sn_tx_fsr p n s) Q"
  unfolding read_sn_tx_fsr_def by (auto intro!: wp chip_rel)

lemma R_read_rx_rsr:
  "\<lbrakk>R s0 s; \<And>v s'. R s0 s' \<Longrightarrow> Q v s'\<rbrakk> \<Longrightarrow> wpo (read_sn_rx_rsr p n s) Q"
  unfolding read_sn_rx_rsr_def by (auto intro!: wp chip_rel)

lemma R_sock_mode_read:
  "\<lbrakk>R s0 s; \<And>v s'. R s0 s' \<Longrightarrow> Q v s'\<rbrakk> \<Longrightarrow> wpt (sock_mode_cached_or_read p n s) Q"
  unfolding sock_mode_cached_or_read_def reg_defs by (auto intro!: wp register_rel)

lemma R_if: "\<lbrakk>c \<Longrightarrow> R s0 a; \<not> c \<Longrightarrow> R s0 b\<rbrakk> \<Longrightarrow> R s0 (if c then a else b)"
  by simp

lemmas sock_rel = chip_rel R_field R_if R_wait_poll_init R_wait_poll_expired R_sock_deadline_begin
  R_wait_cr R_wait_sr R_wait_datagram R_read_tx_fsr R_read_rx_rsr R_sock_mode_read

end

subsection \<open>Whole API calls\<close>

text \<open>
  \<open>A\<close> relates the states before and after an API call, \<open>R\<close> those before and after a stretch
  of code under the lock of \<open>sn\<close>. The ephemeral port is taken under the global lock.
\<close>

definition next_any_port :: "u16 \<Rightarrow> u16" where
  "next_any_port v = (let v = v + 1 in if v = 0xFFF0 then SOCK_ANY_PORT_NUM else v)"

definition take_any_port :: "'w platform \<Rightarrow> (u16, 'w, 'm) sock_op" where
  "take_any_port p s =
     (let s = call p GlobalEnter s;
          port = sock_any_port s;
          s = s\<lparr>sock_any_port := next_any_port port\<rparr>
      in (port, call p GlobalExit s))"

locale api_relation = sock_relation p R sn
  for p :: "'w platform"
    and R :: "('w, 'm) drv_scheme \<Rightarrow> ('w, 'm) drv_scheme \<Rightarrow> bool" and sn +
  fixes A :: "('w, 'm) drv_scheme \<Rightarrow> ('w, 'm) drv_scheme \<Rightarrow> bool"
  assumes A_incl: "R s s' \<Longrightarrow> A s s'"
    and A_trans: "\<lbrakk>A a b; A b c\<rbrakk> \<Longrightarrow> A a c"
    and A_sock: "\<lbrakk>sn < 8; R (call p (SockEnter sn) s) t\<rbrakk> \<Longrightarrow> A s (call p (SockExit sn) t)"
    and A_port: "A s (snd (take_any_port p s))"
    and A_err: "A s (s\<lparr>chip_last_error := e\<rparr>)"
begin

lemma A_refl: "A s s"
  by (rule A_incl [OF R_refl])

lemma A_take_any_port:
  "\<lbrakk>A s0 s; \<And>v s'. A s0 s' \<Longrightarrow> Q v s'\<rbrakk> \<Longrightarrow> wpt (take_any_port p s) Q"
  unfolding wpt_def by (blast intro: A_trans A_port)

lemma A_last_error: "A s0 s \<Longrightarrow> A s0 (wizchip_set_last_error e s)"
  unfolding wizchip_set_last_error_def by (blast intro: A_trans A_err)

lemma A_step: "\<lbrakk>A s0 s; wpt m (\<lambda>_. R s); \<And>v s'. A s0 s' \<Longrightarrow> Q v s'\<rbrakk> \<Longrightarrow> wpt m Q"
  unfolding wpt_def by (blast intro: A_trans A_incl)

lemma A_unlock: "\<lbrakk>A s0 s; sn < 8; R (call p (SockEnter sn) s) t\<rbrakk> \<Longrightarrow> A s0 (call p (SockExit sn) t)"
  by (blast intro: A_trans A_sock)

end

end
