(* ===== verification/Scripted.thy ===== *)
theory Scripted
  imports SockState
begin

text \<open>
  Executable instances of the parameters, for the witnesses: the state the C statics start
  in, and a platform whose chip answers every read with the next byte of a script (0 when
  the script is exhausted). Status probes report no error, the callbacks without a result
  do nothing, and the clock stands at 0. The burst callbacks are registered.
\<close>

definition drv_start :: "'w \<Rightarrow> 'w drv" where
  "drv_start w =
    \<lparr>world = w, trace = [], spi_read_burst = False, spi_write_burst = False,
     chip_state = WIZCHIP_STATE_UNINIT, chip_last_error = 0, wizchip_transport_healthy = False,
     now_us = None, wait_us = False, wait_hook = False, time_us_cb = None,
     configured_timeout_us = 0, poll_counter = 0, wrap_last_raw_us = 0, wrap_base_us = 0,
     timeout_config = \<lparr>command_timeout_us = 10000,
       operation_timeout_us = WIZCHIP_OPERATION_TIMEOUT_DEFAULT_US, phy_timeout_us = 10000\<rparr>,
     requested_operation_timeout_us = WIZCHIP_OPERATION_TIMEOUT_DEFAULT_US,
     wizchip_txmax_cache = (\<lambda>_. 0), wizchip_rxmax_cache = (\<lambda>_. 0), wizchip_previous_link = -1,
     DNS_server = [0, 0, 0, 0], DHCP_mode = DHCP_ZERO,
     sock_any_port = SOCK_ANY_PORT_NUM, sock_io_mode = (\<lambda>_. 0), sock_is_sending = (\<lambda>_. 0),
     sock_health = (\<lambda>_. SOCK_HEALTHY), sock_remained_size = (\<lambda>_. 0), sock_pack_info = (\<lambda>_. 0),
     sock_mode = (\<lambda>_. 0), sock_tx_state = (\<lambda>_. SOCK_TX_IDLE), sock_tx_pending_len = (\<lambda>_. 0)\<rparr>"

definition scripted :: "u8 list platform" where
  "scripted =
    \<lparr>pf_call = (\<lambda>_ w. w),
     pf_read_byte = (\<lambda>w. case w of [] \<Rightarrow> (0, []) | b # bs \<Rightarrow> (b, bs)),
     pf_read_burst = (\<lambda>n w. ((\<lambda>i. if i < length w then w ! i else 0), drop n w)),
     pf_check_busy = (\<lambda>w. (0, w)), pf_check_error = (\<lambda>w. (0, w)), pf_safe_spi = False\<rparr>"

text \<open>The driver after initialisation, with a clock and 2 KB of buffer per socket.\<close>

definition scripted_ready :: "u8 list \<Rightarrow> u8 list drv" where
  "scripted_ready script = (drv_start script)\<lparr>
     spi_read_burst := True, spi_write_burst := True, chip_state := WIZCHIP_STATE_READY,
     now_us := Some (\<lambda>w. (0, w)),
     wizchip_txmax_cache := (\<lambda>_. 2048), wizchip_rxmax_cache := (\<lambda>_. 2048)\<rparr>"

subsection \<open>Evaluation\<close>

text \<open>For evaluation by \<open>simp\<close>: unfold everything, and look only where control goes.\<close>

lemmas run_defs =
  call_def spi_read_byte_def spi_read_burst_cb_def spi_read_data_def spi_write_data_def
  spi_status_bad_def wizchip_get_spi_error_def wizchip_clear_spi_error_def wizchip_get_state_def
  wizchip_mark_faulted_def wizchip_get_last_error_def wizchip_set_last_error_def
  wizchip_clear_last_error_def wizchip_recover_def wizchip_invalidate_transport_cache_def
  wizchip_spi_fault_def W5500_SPI_READ_def W5500_SPI_WRITE_def frame_header_def
  wizchip_spi_write_header_def spi_finish_read_def spi_finish_write_def
  wizchip_read8_checked_out_def wizchip_read8_checked_def wizchip_write8_checked_def
  wizchip_read_buf_checked_def wizchip_write_buf_checked_def WIZCHIP_CREG_BLOCK_def
  WIZCHIP_SREG_BLOCK_def WIZCHIP_TXBUF_BLOCK_def WIZCHIP_RXBUF_BLOCK_def reg_MR_def reg_GAR_def
  reg_SUBR_def reg_SHAR_def reg_SIPR_def reg_INTLEVEL_def reg_IR_def reg_IMR_def reg_SIR_def
  reg_SIMR_def reg_RTR_def reg_RCR_def reg_PTIMER_def reg_PMAGIC_def reg_PHAR_def reg_PSID_def
  reg_PMRU_def reg_UIPR_def reg_UPORTR_def reg_PHYCFGR_def reg_VERSIONR_def Sn_MR_def Sn_CR_def
  Sn_IR_def Sn_SR_def Sn_PORT_def Sn_DHAR_def Sn_DIPR_def Sn_DPORT_def Sn_MSSR_def Sn_TOS_def
  Sn_TTL_def Sn_RXBUF_SIZE_def Sn_TXBUF_SIZE_def Sn_TX_FSR_def Sn_TX_RD_def Sn_TX_WR_def
  Sn_RX_RSR_def Sn_RX_RD_def Sn_RX_WR_def Sn_IMR_def Sn_FRAG_def Sn_KPALVTR_def WIZCHIP_READ_def
  WIZCHIP_WRITE_def WIZCHIP_READ_BUF_def WIZCHIP_WRITE_BUF_def wizchip_read16_5500_def
  wizchip_read16_5500_value_def wizchip_write16_5500_def WIZCHIP_POLL_MAX_def
  WIZCHIP_RTR_MIN_def WIZCHIP_RCR_MIN_def WIZCHIP_RETRY_MARGIN_US_def
  WIZCHIP_OPERATION_TIMEOUT_DEFAULT_US_def UINT32_MAX_def UINT64_MAX_def
  wizchip_time_source_reset_def wizchip_time_source_active_def reg_wizchip_time_cbfunc_def
  reg_wizchip_time_hook_cbfunc_def reg_wizchip_time_us_cbfunc_def
  wizchip_update_timeout_floor_locked_def wizchip_deadline_config_valid_def
  wizchip_timeout_config_set_def wizchip_get_timeout_config_def wrap_raw_def
  wizchip_time_now_def wizchip_deadline_abs_def wizchip_deadline_expired_def
  wizchip_deadline_start_def wizchip_deadline_poll_def WIZCHIP_SOCK_NUM_def
  WIZCHIP_POLL_MAX_64_def wizchip_set_buf_size_def wizchip_set_tx_buf_size_def
  wizchip_set_rx_buf_size_def stable_step_def stable_loop_def getSn_TX_FSR_stable_def
  getSn_TX_FSR_def getSn_RX_RSR_stable_def getSn_RX_RSR_def wiz_send_data_def wiz_recv_data_def
  wiz_recv_ignore_def SOCK_ANY_PORT_NUM_def SF_TCP_VALID_MASK_def SF_UDP_VALID_MASK_def
  SF_MACRAW_VALID_MASK_def SF_IPRAW_VALID_MASK_def set_sock_io_mode_def set_sock_is_sending_def
  set_sock_health_def set_sock_remained_size_def set_sock_pack_info_def set_sock_mode_def
  set_sock_tx_state_def set_sock_tx_pending_len_def sock_state_reset_def
  wizchip_socket_state_reset_one_def sock_nums_def wizchip_socket_state_reset_def
  wait_poll_init_def wait_poll_expired_def sock_deadline_begin_def cr_probe_def
  wait_cr_accepted_def sr_probe_def wait_sr_reached_def datagram_probe_def
  wait_datagram_cr_accepted_def socket_open_status_def read_sn_tx_fsr_def read_sn_rx_rsr_def
  sock_mode_cached_or_read_def next_any_port_def take_any_port_def drv_start_def scripted_def
  scripted_ready_def hi8_def lo8_def join16_def Let_def upt_rec poll_until.simps sock_set

lemmas run_cong = prod.case_cong_weak option.case_cong_weak if_weak_cong let_weak_cong
  sum.case_cong_weak list.case_cong_weak

subsection \<open>Following the script\<close>

text \<open>
  For longer runs: rules that follow a program on the scripted platform and only keep
  track of the rest of the script, with burst callbacks registered.
\<close>

definition scr :: "u8 list \<Rightarrow> (u8 list, 'm) bus_state_scheme \<Rightarrow> bool" where
  "scr w s \<longleftrightarrow> world s = w \<and> spi_read_burst s \<and> spi_write_burst s"

lemma scr_call [simp]: "scr w (call scripted ev s) = scr w s"
  by (simp add: scr_def call_def scripted_def)

lemma scr_start [simp]: "scr w (scripted_ready w)"
  by (simp add: scr_def scripted_ready_def drv_start_def)

lemma scr_finish:
  "scr w s \<Longrightarrow> wpt (spi_finish_read scripted s) (\<lambda>r s'. r = 0 \<and> scr w s')"
  "scr w s \<Longrightarrow> wpt (spi_finish_write scripted s) (\<lambda>r s'. r = 0 \<and> scr w s')"
  by (simp_all add: wpt_def scr_def spi_finish_read_def spi_finish_write_def spi_status_bad_def
      scripted_def call_def Let_def)

lemma scr_read_buf:
  assumes "scr w s" and "len \<noteq> 0" and "unat len \<le> length w"
    and "\<And>s'. scr (drop (unat len) w) s' \<Longrightarrow> Q (0, take (unat len) w) s'"
  shows "wpt (wizchip_read_buf_checked scripted a True len s) Q"
proof -
  have "map (\<lambda>i. if i < length w then w ! i else 0) [0..<unat len] = take (unat len) w"
    using assms(3) by (intro nth_equalityI) simp_all
  then have read: "wpt (spi_read_data scripted (unat len) t)
      (\<lambda>bs t'. bs = take (unat len) w \<and> scr (drop (unat len) w) t')"
    if "scr w t" for t :: "(u8 list, 'a) bus_state_scheme"
    using that by (simp add: wpt_def scr_def spi_read_data_def spi_read_burst_cb_def scripted_def Let_def)
  have fin: "wpt (spi_finish_read scripted (call scripted CsDeselect t)) (\<lambda>r t'. Q (r, take (unat len) w) t')"
    if "scr (drop (unat len) w) t" for t
    using that by (intro wpt_mono [OF scr_finish(1)]) (auto intro: assms(4))
  have hdr: "scr w (spi_write_data scripted h (call scripted CsSelect (call scripted SpiClear
      (call scripted CrisEnter s))))" for h
    using assms(1) by (simp add: spi_write_data_def) (simp add: scr_def)
  show ?thesis
    unfolding wizchip_read_buf_checked_def wizchip_clear_spi_error_def wizchip_spi_write_header_def Let_def
    using assms(2) by (auto intro!: wp wpt_mono [OF read] hdr wpt_mono [OF fin])
qed

lemma scr_read8:
  assumes "scr (b # w) s" and "\<And>s'. scr w s' \<Longrightarrow> Q (0, Some b) s'"
  shows "wpt (wizchip_read8_checked_out scripted a True s) Q"
proof -
  have read: "wpt (spi_read_byte scripted t) (\<lambda>v t'. v = b \<and> scr w t')"
    if "scr (b # w) t" for t :: "(u8 list, 'a) bus_state_scheme"
    using that by (simp add: wpt_def scr_def spi_read_byte_def scripted_def Let_def)
  have fin: "wpt (spi_finish_read scripted (call scripted CsDeselect t)) (\<lambda>r t'. Q (r, Some b) t')"
    if "scr w t" for t
    using that by (intro wpt_mono [OF scr_finish(1)]) (auto intro: assms(2))
  have hdr: "scr (b # w) (spi_write_data scripted h (call scripted CsSelect (call scripted SpiClear
      (call scripted CrisEnter s))))" for h
    using assms(1) by (simp add: spi_write_data_def) (simp add: scr_def)
  show ?thesis
    unfolding wizchip_read8_checked_out_def wizchip_clear_spi_error_def wizchip_spi_write_header_def Let_def
    by (auto intro!: wp wpt_mono [OF read] hdr wpt_mono [OF fin])
qed

lemma scr_write_data: "scr w s \<Longrightarrow> scr w (spi_write_data scripted bs s)"
  by (simp add: spi_write_data_def) (simp add: scr_def)

lemma scr_write8:
  assumes "scr w s" and "\<And>s'. scr w s' \<Longrightarrow> Q 0 s'"
  shows "wpt (wizchip_write8_checked scripted a d s) Q"
proof -
  have "scr w (s\<lparr>wizchip_transport_healthy := h\<rparr>) = scr w s" for h and s :: "(u8 list, 'a) bus_state_scheme"
    by (simp add: scr_def)
  then show ?thesis
    unfolding wizchip_write8_checked_def wizchip_clear_spi_error_def Let_def
    using assms by (auto intro!: wp wpt_mono [OF scr_finish(2)] scr_write_data
        simp: wizchip_invalidate_transport_cache_def)
qed

lemma scr_write_buf:
  assumes "scr w s" and "\<And>s'. scr w s' \<Longrightarrow> Q 0 s'"
  shows "wpt (wizchip_write_buf_checked scripted a (Some bs) len s) Q"
proof -
  have "scr w (s\<lparr>wizchip_transport_healthy := h\<rparr>) = scr w s" for h and s :: "(u8 list, 'a) bus_state_scheme"
    by (simp add: scr_def)
  then show ?thesis
    unfolding wizchip_write_buf_checked_def wizchip_clear_spi_error_def wizchip_spi_write_header_def Let_def
    using assms by (auto intro!: wp wpt_mono [OF scr_finish(2)] scr_write_data
        simp: wizchip_invalidate_transport_cache_def)
qed

lemmas scr_rules = scr_read_buf scr_read8 scr_write8 scr_write_buf

end
