(* ===== verification/ChipProps.thy ===== *)
theory ChipProps
  imports W5500 Scripted
begin

text \<open>
  The properties of the lower layers: transport, time base, register map, counters and
  buffer memory. Each is followed by its witness, an instance on the scripted platform.
\<close>

unbundle bit_operations_syntax

subsection \<open>Transport\<close>

text \<open>The status probes among the callbacks of a trace, and what their answers make of a result.\<close>

definition status_probe :: "event \<Rightarrow> bool" where
  "status_probe e \<longleftrightarrow> (case e of SpiBusyQ _ \<Rightarrow> True | SpiErrorQ _ \<Rightarrow> True | _ \<Rightarrow> False)"

definition status_probes :: "event list \<Rightarrow> event list" where
  "status_probes tr = filter status_probe tr"

definition status_reported :: "bool \<Rightarrow> event list \<Rightarrow> int \<Rightarrow> bool" where
  "status_reported asked qs r \<longleftrightarrow>
     (if \<not> asked then qs = [] \<and> r = 0
      else (\<exists>b. b \<noteq> 0 \<and> qs = [SpiBusyQ b] \<and> r = SOCKERR_IO)
        \<or> (\<exists>e. qs = [SpiErrorQ e, SpiBusyQ 0] \<and> r = (if e = 0 then 0 else SOCKERR_IO)))"

lemma status_probes_Cons [simp]:
  "status_probes (e # tr) = (if status_probe e then e # status_probes tr else status_probes tr)"
  by (simp add: status_probes_def)

lemma probes_write_data: "status_probes (trace (spi_write_data p bs s)) = status_probes (trace s)"
proof -
  have "status_probes (trace (spi_write_bytes p bs s)) = status_probes (trace s)"
    by (induction bs arbitrary: s) (simp_all add: status_probe_def)
  then show ?thesis by (simp add: spi_write_data_def status_probe_def)
qed

lemma health_write_data: "wizchip_transport_healthy (spi_write_data p bs s) = wizchip_transport_healthy s"
  using xfer_write_data [of bs s p] by (auto simp: xfer_def)

lemma probes_read_data: "status_probes (trace (snd (spi_read_data p n s))) = status_probes (trace s)"
proof -
  have "status_probes (trace (snd (spi_read_bytes p n s))) = status_probes (trace s)"
  proof (induction n arbitrary: s)
    case (Suc n)
    have "status_probes (trace (snd (spi_read_byte p s))) = status_probes (trace s)"
      by (simp add: spi_read_byte_def status_probe_def split: prod.split)
    with Suc [of "snd (spi_read_byte p s)"] show ?case by (simp add: split_beta)
  qed simp
  then show ?thesis by (simp add: spi_read_data_def spi_read_burst_cb_def status_probe_def split_beta Let_def)
qed

lemma finish_read_reports:
  assumes "spi_finish_read p s = (r, s')"
  shows "\<exists>qs. status_probes (trace s') = qs @ status_probes (trace s)
    \<and> status_reported (pf_safe_spi p \<or> \<not> wizchip_transport_healthy s) qs r"
  using assms
  by (auto simp: spi_finish_read_def spi_status_bad_def status_reported_def status_probe_def wizchip_spi_fault_def Let_def
      split: if_splits prod.splits)

text \<open>C25: A checked buffer read is one complete chip-select frame. The chip sees exactly one read
  access at the requested address and returns the bytes the caller gets, and the bus is idle
  again. The status is probed, after the transfer, exactly in a \<open>WIZCHIP_SAFE_SPI\<close> build or
  while the transport is not known to be healthy: first for a busy bus, and if it is not busy for an
  error. An answer other than 0 of the last probe makes the result \<open>SOCKERR_IO\<close> and faults the
  driver; otherwise the result is 0 and the lifecycle state is as it was.\<close>

theorem checked_read_frame:
  assumes "reg_addr a" and "len \<noteq> 0"
    and "wizchip_read_buf_checked p a True len s = ((r, bs), s')"
    and "bus_phase (trace s) = BusIdle"
  shows "length bs = unat len \<and> reg_log (trace s') = RegRead a bs # reg_log (trace s)
     \<and> bus_phase (trace s') = BusIdle
     \<and> (\<exists>qs. status_probes (trace s') = qs @ status_probes (trace s)
         \<and> status_reported (pf_safe_spi p \<or> \<not> wizchip_transport_healthy s) qs r)
     \<and> (if r = 0 then chip_state s' = chip_state s
        else r = SOCKERR_IO \<and> chip_state s' = WIZCHIP_STATE_FAULTED \<and> chip_last_error s' = SOCKERR_IO)"
proof -
  define t where "t = wizchip_spi_write_header p a W5500_SPI_READ
    (call p CsSelect (wizchip_clear_spi_error p (call p CrisEnter s)))"
  obtain bs' u where u: "spi_read_data p (unat len) t = (bs', u)" by fastforce
  have fin: "spi_finish_read p (call p CsDeselect u) = (r, s')"
    using assms(2,3) u by (simp add: wizchip_read_buf_checked_def t_def Let_def split: prod.splits)
  have t: "status_probes (trace t) = status_probes (trace s)" "wizchip_transport_healthy t = wizchip_transport_healthy s"
    by (simp_all add: t_def wizchip_spi_write_header_def probes_write_data health_write_data wizchip_clear_spi_error_def
        status_probe_def)
  have "status_probes (trace u) = status_probes (trace s)" "wizchip_transport_healthy u = wizchip_transport_healthy s"
    using probes_read_data [of p "unat len" t] xfer_read_data [OF u] u t by (auto simp: xfer_def)
  then show ?thesis
    using read_buf_txn [OF assms(3,2)] assms(1,4) finish_read_reports [OF fin]
    by (auto simp: txn_def status_probe_def)
qed

theorem checked_read_frame_witness:
  "\<exists>r bs s'. wizchip_read_buf_checked scripted (Sn_PORT 0) True 2 (scripted_ready [0x13, 0x88]) = ((r, bs), s')
     \<and> reg_log (trace s') = [RegRead (Sn_PORT 0) bs]"
proof -
  obtain r bs s' where e:
    "wizchip_read_buf_checked scripted (Sn_PORT 0) True 2 (scripted_ready [0x13, 0x88]) = ((r, bs), s')"
    by (metis prod.collapse)
  have t: "trace (scripted_ready [0x13, 0x88]) = []" by (simp add: scripted_ready_def drv_start_def)
  have "reg_addr (Sn_PORT 0)" by (simp add: reg_addr_sock sock_regs_def)
  from checked_read_frame [OF this _ e] t e show ?thesis by (auto simp: reg_log_def)
qed

text \<open>A checked buffer write is one complete chip-select frame that carries the address and
  the first \<open>len\<close> bytes of the buffer, whatever bytes the buffer holds.\<close>

theorem checked_write_frame:
  assumes "reg_addr a" and "len \<noteq> 0"
    and "wizchip_write_buf_checked p a (Some bs) len s = (r, s')"
    and "bus_phase (trace s) = BusIdle"
  shows "reg_log (trace s') = RegWrite a (take (unat len) bs) # reg_log (trace s)
     \<and> bus_phase (trace s') = BusIdle
     \<and> (if r = 0 then chip_state s' = chip_state s
        else r = SOCKERR_IO \<and> chip_state s' = WIZCHIP_STATE_FAULTED \<and> chip_last_error s' = SOCKERR_IO)"
  using write_buf_txn [OF assms(3,2)] assms(1,4) by (auto simp: txn_def)

theorem checked_write_frame_witness:
  "\<exists>r s'. wizchip_write_buf_checked scripted (Sn_DIPR 0) (Some [10, 0, 0, 1]) 4 (scripted_ready []) = (r, s')
     \<and> reg_log (trace s') = [RegWrite (Sn_DIPR 0) [10, 0, 0, 1]]"
proof -
  obtain r s' where e:
    "wizchip_write_buf_checked scripted (Sn_DIPR 0) (Some [10, 0, 0, 1]) 4 (scripted_ready []) = (r, s')"
    by fastforce
  have t: "trace (scripted_ready []) = []" by (simp add: scripted_ready_def drv_start_def)
  have "reg_addr (Sn_DIPR 0)" by (simp add: reg_addr_sock sock_regs_def)
  from checked_write_frame [OF this _ e] t e show ?thesis by (auto simp: reg_log_def)
qed

text \<open>A register write notices a stuck bus only in a \<open>WIZCHIP_SAFE_SPI\<close> build. With a bus that
  is busy whenever it is asked, the safe build returns \<open>SOCKERR_IO\<close> and faults the driver; the
  other build returns success and leaves the lifecycle state alone.\<close>

theorem write8_stuck_bus:
  assumes "\<And>w. fst (pf_check_busy p w) \<noteq> 0"
  shows "fst (wizchip_write8_checked p a d s) = (if pf_safe_spi p then SOCKERR_IO else 0)
     \<and> chip_state (snd (wizchip_write8_checked p a d s))
      = (if pf_safe_spi p then WIZCHIP_STATE_FAULTED else chip_state s)"
proof -
  obtain r s' where e: "wizchip_write8_checked p a d s = (r, s')" by fastforce
  have bad: "fst (spi_status_bad p t)" for t :: "('a, 'b) bus_state_scheme"
    using assms [of "world t"] by (simp add: spi_status_bad_def Let_def split_beta)
  have "r = (if pf_safe_spi p then SOCKERR_IO else 0)"
    using e bad unfolding wizchip_write8_checked_def spi_finish_write_def Let_def
    by (auto simp: split_beta wizchip_spi_fault_def split: if_splits)
  with write8_txn [OF e] e show ?thesis
    by (auto simp: txn_def)
qed

theorem write8_stuck_bus_witness:
  "fst (wizchip_write8_checked (scripted\<lparr>pf_check_busy := \<lambda>w. (1, w), pf_safe_spi := True\<rparr>) (Sn_CR 0) 1
     (scripted_ready [])) = SOCKERR_IO"
  using write8_stuck_bus [of "scripted\<lparr>pf_check_busy := \<lambda>w. (1, w), pf_safe_spi := True\<rparr>" "Sn_CR 0" 1
      "scripted_ready []"]
  by simp

subsection \<open>Time base\<close>

text \<open>Readings of the clock, and the raw values its callback gives on the same world.\<close>

primrec time_readings :: "nat \<Rightarrow> (u64 list, 'w, 'm) time_op" where
  "time_readings 0 s = ([], s)"
| "time_readings (Suc n) s =
     (let (v, s) = wizchip_time_now s; (vs, s) = time_readings n s in (v # vs, s))"

primrec raw_readings :: "('w \<Rightarrow> u32 \<times> 'w) \<Rightarrow> nat \<Rightarrow> 'w \<Rightarrow> u32 list" where
  "raw_readings f 0 w = []"
| "raw_readings f (Suc n) w = fst (f w) # raw_readings f n (snd (f w))"

text \<open>True times that never step back and never skip a whole period of the 32-bit counter.\<close>

primrec ticks :: "nat \<Rightarrow> nat list \<Rightarrow> bool" where
  "ticks prev [] \<longleftrightarrow> True"
| "ticks prev (t # ts) \<longleftrightarrow> prev \<le> t \<and> t < prev + 2 ^ 32 \<and> t < 2 ^ 64 \<and> ticks t ts"

definition timeline_at :: "nat \<Rightarrow> ('w, 'm) time_state_scheme \<Rightarrow> bool" where
  "timeline_at t s \<longleftrightarrow> unat (wrap_last_raw_us s) = t mod 2 ^ 32
     \<and> unat (wrap_base_us s) = t - t mod 2 ^ 32"

lemma div_next_period:
  fixes t u M :: nat
  assumes "u \<le> t" and "t < u + M"
  shows "t div M = (if t mod M < u mod M then u div M + 1 else u div M)"
proof -
  define q r k where "q = u div M" and "r = u mod M" and "k = t - u"
  have M: "0 < M" and r: "r < M" and k: "k < M" using assms by (auto simp: r_def k_def)
  have t: "t = r + k + q * M" using assms(1) div_mult_mod_eq [of u M] by (simp add: q_def r_def k_def)
  show ?thesis
  proof (cases "r + k < M")
    case True
    then have "t mod M = r + k" "t div M = q" by (simp_all add: t)
    then show ?thesis by (simp add: q_def r_def)
  next
    case False
    then have e: "t = r + k - M + (q + 1) * M" using t by simp
    have "r + k - M < M" using False r k by linarith
    then have "t mod M = r + k - M" "t div M = q + 1"
      unfolding e by (simp_all add: div_mult_self3 del: add_mult_distrib mult_Suc add_mult_distrib2)
    then show ?thesis using False k r by (simp add: q_def r_def)
  qed
qed

lemma wrap_raw_next:
  assumes "timeline_at prev s" and "prev \<le> t" "t < prev + 2 ^ 32" "t < 2 ^ 64"
    and "wrap_raw (word_of_nat t) s = (v, s')"
  shows "unat v = t" and "timeline_at t s'"
proof -
  have raw: "unat (word_of_nat t :: u32) = t mod 2 ^ 32" by (simp add: unat_of_nat)
  define b where "b = (if (word_of_nat t :: u32) < wrap_last_raw_us s then wrap_base_us s + 0x100000000 else wrap_base_us s)"
  have v: "v = b + ucast (word_of_nat t :: u32)" and s': "s' = s\<lparr>wrap_last_raw_us := word_of_nat t, wrap_base_us := b\<rparr>"
    using assms(5) by (auto simp: wrap_raw_def Let_def b_def)
  have dm: "prev = 2 ^ 32 * (prev div 2 ^ 32) + prev mod 2 ^ 32" "t = 2 ^ 32 * (t div 2 ^ 32) + t mod 2 ^ 32"
    by simp_all
  note q = div_next_period [OF assms(2,3)]
  have bt: "unat b = t - t mod 2 ^ 32"
  proof (cases "t mod 2 ^ 32 < prev mod 2 ^ 32")
    case True
    have "t - t mod 2 ^ 32 = 2 ^ 32 * (prev div 2 ^ 32) + 2 ^ 32" using q True dm(2) by (simp add: minus_mod_eq_mult_div)
    moreover have "prev - prev mod 2 ^ 32 = 2 ^ 32 * (prev div 2 ^ 32)" by (simp add: minus_mod_eq_mult_div)
    moreover have "t - t mod 2 ^ 32 < 2 ^ 64" using assms(4) by simp
    ultimately show ?thesis
      using True assms(1) raw unfolding b_def timeline_at_def
      by (simp add: word_less_nat_alt unat_word_ariths)
  next
    case False
    then show ?thesis
      using q assms(1) raw dm unfolding b_def timeline_at_def
      by (simp add: word_less_nat_alt minus_mod_eq_mult_div)
  qed
  show "unat v = t"
    using bt raw assms(4) unfolding v by (simp add: unat_word_ariths)
  show "timeline_at t s'"
    using bt raw unfolding s' timeline_at_def by simp
qed

lemma time_readings_ticks:
  assumes "timeline_at prev s" and "ticks prev ts" and "time_us_cb s = Some f"
    and "raw_readings f (length ts) (world s) = map word_of_nat ts"
  shows "map unat (fst (time_readings (length ts) s)) = ts"
  using assms
proof (induction ts arbitrary: prev s)
  case (Cons t ts)
  obtain raw w where fw: "f (world s) = (raw, w)" by fastforce
  with Cons.prems(4) have raw: "raw = word_of_nat t" "raw_readings f (length ts) w = map word_of_nat ts"
    by simp_all
  define s1 where "s1 = s\<lparr>world := w, trace := TimeUs raw # trace s\<rparr>"
  obtain v s2 where wr: "wrap_raw (word_of_nat t) s1 = (v, s2)" by fastforce
  have "timeline_at prev s1" using Cons.prems(1) by (simp add: timeline_at_def s1_def)
  note n = wrap_raw_next [OF this _ _ _ wr]
  have now: "wizchip_time_now s = (v, s2)"
    using Cons.prems(3) fw wr raw by (simp add: wizchip_time_now_def s1_def)
  have "time_us_cb s2 = Some f" "world s2 = w"
    using wr Cons.prems(3) by (auto simp: wrap_raw_def Let_def s1_def)
  with Cons.IH [OF n(2)] n(1) Cons.prems(2) raw now show ?case
    by (simp add: split_beta Let_def)
qed simp

text \<open>C26: The 64-bit timeline is exact. Read from a microsecond source that wraps at 2^32, at times
  that never step back and are less than one period apart, \<open>wizchip_time_now\<close> returns the
  true times, across any number of wraps.\<close>

theorem timeline_exact:
  assumes "time_us_cb s = Some f" and "wrap_last_raw_us s = 0" and "wrap_base_us s = 0"
    and "ticks 0 ts" and "raw_readings f (length ts) (world s) = map word_of_nat ts"
  shows "map unat (fst (time_readings (length ts) s)) = ts"
  by (rule time_readings_ticks [of 0 s ts f]) (use assms in \<open>simp_all add: timeline_at_def\<close>)

definition list_clock :: "u32 list \<Rightarrow> u32 \<times> u32 list" where
  "list_clock w = (hd w, tl w)"

theorem timeline_exact_witness:
  "map unat (fst (time_readings 3 ((drv_start [4000000000, 100, 50])\<lparr>time_us_cb := Some list_clock\<rparr>)))
     = [4000000000, 4294967396, 8589934642]"
proof -
  have "raw_readings list_clock 3 [4000000000, 100, 50] = [4000000000, 100, 50]"
    by (simp add: list_clock_def eval_nat_numeral)
  moreover have "map word_of_nat [4000000000, 4294967396, 8589934642] = [4000000000, 100, 50 :: u32]"
    by (simp add: word_eq_iff_unsigned unsigned_of_nat take_bit_eq_mod)
  ultimately show ?thesis
    using timeline_exact [of "(drv_start [4000000000, 100, 50])\<lparr>time_us_cb := Some list_clock\<rparr>" list_clock
        "[4000000000, 4294967396, 8589934642]"]
    by (simp add: drv_start_def numeral_3_eq_3)
qed

text \<open>The number of rounds a wait may go on: every poll so far answered ``not expired''.\<close>

primrec poll_rounds :: "'w platform \<Rightarrow> nat \<Rightarrow> wizchip_deadline \<Rightarrow> ('w, 'm) time_state_scheme \<Rightarrow> bool" where
  "poll_rounds p 0 dl s \<longleftrightarrow> True"
| "poll_rounds p (Suc n) dl s \<longleftrightarrow>
     (let ((r, dl), s) = wizchip_deadline_poll p dl s in r \<noteq> SOCKERR_DEADLINE \<and> poll_rounds p n dl s)"

lemma poll_step:
  assumes "wizchip_deadline_poll p dl s = ((r, dl'), s')" and "r \<noteq> SOCKERR_DEADLINE"
    and "unat (polls dl) < 100000"
  shows "unat (polls dl') = unat (polls dl) + 1 \<and> unat (polls dl') < 100000"
proof -
  have lt: "polls dl < 100000" using assms(3) by (simp add: word_less_nat_alt)
  show ?thesis
    using assms(1,2) unat_plus_one [OF lt] unfolding wizchip_deadline_poll_def
    by (auto simp: Let_def WIZCHIP_POLL_MAX_def not_le word_less_nat_alt split: if_splits prod.splits)
qed

lemma poll_rounds_bound:
  "\<lbrakk>poll_rounds p n dl s; unat (polls dl) < 100000\<rbrakk> \<Longrightarrow> n + unat (polls dl) < 100000"
proof (induction n arbitrary: dl s)
  case (Suc n)
  obtain r dl' s' where w: "wizchip_deadline_poll p dl s = ((r, dl'), s')" by (metis prod.collapse)
  with Suc.prems have "r \<noteq> SOCKERR_DEADLINE" "poll_rounds p n dl' s'" by (simp_all add: w)
  with Suc.IH [of dl' s'] poll_step [OF w] Suc.prems(2) show ?case by simp
qed simp

text \<open>C29: Every wait is bounded by its poll count, whatever the clock does: a poll that starts at
  0 answers ``expired'' after at most 100000 rounds, even with a clock that stands still.\<close>

theorem deadline_poll_bounded:
  assumes "polls dl = 0" and "poll_rounds p n dl s"
  shows "n < 100000"
  using poll_rounds_bound [OF assms(2)] assms(1) by simp

theorem deadline_poll_bounded_witness:
  "poll_rounds scripted 1 \<lparr>started_us = 0, deadline_us = 0, timeout_us = 5, polls = 0\<rparr> (scripted_ready [])
     \<and> (1 :: nat) < 100000"
proof -
  have "poll_rounds scripted 1 \<lparr>started_us = 0, deadline_us = 0, timeout_us = 5, polls = 0\<rparr> (scripted_ready [])"
    by (simp add: wizchip_deadline_poll_def scripted_ready_def drv_start_def WIZCHIP_POLL_MAX_def
        wizchip_time_source_active_def wizchip_time_now_def wrap_raw_def Let_def word_le_nat_alt)
  with deadline_poll_bounded [OF _ this] show ?thesis by simp
qed

text \<open>The operation timeout never undercuts the chip's own retransmissions: after a change of
  retry time and count it is the larger of the requested timeout and the full retry window
  plus the 100 ms margin, computed without wrap-around.\<close>

theorem timeout_floor:
  "unat (operation_timeout_us (timeout_config (wizchip_update_timeout_floor_locked rtr rcr s)))
     = max (unat (requested_operation_timeout_us s)) (unat rtr * 100 * (unat rcr + 1) + 100000)"
proof -
  have b: "unat rtr * 100 * (unat rcr + 1) \<le> 65535 * 100 * 256"
    using unat_u16_less [of rtr] unat_u8_less [of rcr] by (intro mult_mono) simp_all
  have e: "unat ((ucast rtr :: u64) * 100 * ((ucast rcr :: u64) + 1) + 100000)
      = unat rtr * 100 * (unat rcr + 1) + 100000" (is "unat ?w = _")
  proof -
    have "unat ((ucast rcr :: u64) + 1) = unat rcr + 1"
      using unat_u8_less [of rcr] by (simp add: unat_word_ariths)
    moreover have "unat ((ucast rtr :: u64) * 100) = unat rtr * 100"
      using unat_u16_less [of rtr] by (simp add: unat_word_ariths)
    ultimately show ?thesis using b by (simp add: unat_word_ariths)
  qed
  have nc: "\<not> UINT32_MAX < ?w"
    using b e by (simp add: word_less_nat_alt UINT32_MAX_def)
  have u: "unat (ucast ?w :: u32) = unat ?w"
    using b e by (simp add: unsigned_ucast_eq take_bit_eq_mod)
  show ?thesis
    using nc u e unfolding wizchip_update_timeout_floor_locked_def WIZCHIP_RETRY_MARGIN_US_def Let_def
    by (auto simp: word_less_nat_alt max_def)
qed

subsection \<open>Register map\<close>

text \<open>The register map has no aliases: two registers of socket blocks are at the same place of
  the chip only if they are the same register of the same socket.\<close>

theorem socket_registers_distinct:
  assumes "N < 8" and "M < 8" and "i < length sock_regs" and "j < length sock_regs"
  shows "chip_loc ((sock_regs ! i) N) = chip_loc ((sock_regs ! j) M) \<longleftrightarrow> i = j \<and> N = M"
proof -
  have l: "length sock_regs = length sock_reg_offsets" by (simp add: sock_regs_def sock_reg_offsets_def)
  have loc: "chip_loc ((sock_regs ! k) K) = (sock_reg_offsets ! k, 1 + 4 * ucast K, 0)"
    if "k < length sock_regs" "K < 8" for k K
    using arg_cong [OF sock_regs_loc [OF that(2)], of "\<lambda>xs. xs ! k"] that(1) l by simp
  have "distinct sock_reg_offsets" by (simp add: sock_reg_offsets_def)
  then have o: "sock_reg_offsets ! i = sock_reg_offsets ! j \<longleftrightarrow> i = j"
    using assms(3,4) l by (simp add: nth_eq_iff_index_eq)
  have "(1 + 4 * ucast N :: u32) = 1 + 4 * ucast M \<longleftrightarrow> N = M"
    using sock_num_cases [OF assms(1)] sock_num_cases [OF assms(2)] by (elim disjE; simp)
  with o loc assms show ?thesis by auto
qed

theorem socket_registers_distinct_witness:
  "chip_loc ((sock_regs ! 0) 3) \<noteq> chip_loc ((sock_regs ! 0) 4)"
  using socket_registers_distinct [of 3 4 0 0] by (simp add: sock_regs_def)

subsection \<open>Counters and buffer memory\<close>

text \<open>C27: The free-size counter is returned only when two consecutive reads of it agree: a success
  is the value the last two accesses both gave, a transport fault gives \<open>SOCKERR_IO\<close>, a counter
  that never settles \<open>SOCKERR_DEADLINE\<close>, and nothing but that register is ever accessed.\<close>

theorem tx_fsr_stable:
  assumes "sn < 8" and "getSn_TX_FSR_stable p sn True s = Some ((r, v), s')"
  shows "only_reads (Sn_TX_FSR sn) s s' \<and>
     (r = SOCK_OK \<and> (\<exists>h l older. v = Some (join16 h l)
          \<and> reg_log (trace s') = RegRead (Sn_TX_FSR sn) [h, l] # RegRead (Sn_TX_FSR sn) [h, l] # older)
      \<or> r = SOCKERR_IO \<and> v = None \<and> chip_state s' = WIZCHIP_STATE_FAULTED
      \<or> r = SOCKERR_DEADLINE \<and> v = None)"
proof -
  have a: "reg_addr (Sn_TX_FSR sn)" using assms(1) by (intro reg_addr_sock) (simp_all add: sock_regs_def)
  have "only_reads (Sn_TX_FSR sn) s s1" if "wizchip_deadline_abs WIZCHIP_POLL_MAX_64 s = (d, s1)" for d s1
    using time_upd_wire [OF time_upd_abs [OF that]] by (simp add: only_reads_def)
  then have "wpo (getSn_TX_FSR_stable p sn True s) (stable_result (Sn_TX_FSR sn) s)"
    unfolding getSn_TX_FSR_stable_def Let_def
    by (auto intro!: stable_loop_spec [OF a] split: prod.split)
  from wpoD [OF this assms(2)] show ?thesis by (auto simp: stable_result_def)
qed

theorem tx_fsr_stable_witness:
  "\<exists>v s'. getSn_TX_FSR_stable scripted 0 True (scripted_ready [8, 0, 8, 0]) = Some ((SOCK_OK, v), s')
     \<and> only_reads (Sn_TX_FSR 0) (scripted_ready [8, 0, 8, 0]) s'"
proof -
  have "\<exists>v s'. getSn_TX_FSR_stable scripted 0 True (scripted_ready [8, 0, 8, 0]) = Some ((SOCK_OK, v), s')"
    by (simp add: run_defs reg_defs forever_code cong: run_cong)
  then obtain v s' where e: "getSn_TX_FSR_stable scripted 0 True (scripted_ready [8, 0, 8, 0])
      = Some ((SOCK_OK, v), s')" by blast
  from tx_fsr_stable [OF _ e] e show ?thesis by auto
qed

text \<open>C28: The stable counter reads always return when no clock is registered: each disagreement
  counts a poll, and the fallback deadline of 100000 polls ends the loop.\<close>

theorem stable_reads_terminate:
  assumes "\<not> wizchip_time_source_active s"
  shows "(\<exists>r s'. getSn_TX_FSR_stable p sn out s = Some (r, s'))
     \<and> (\<exists>r s'. getSn_RX_RSR_stable p sn out s = Some (r, s'))"
  using stable_returns [OF assms] by (simp_all add: wps_def)

theorem stable_reads_terminate_witness:
  "\<exists>r s'. getSn_TX_FSR_stable scripted 0 True (drv_start [0, 4, 0, 5, 0, 6, 8, 0, 8, 0]) = Some (r, s')"
  by (rule conjunct1 [OF stable_reads_terminate]) (simp add: drv_start_def wizchip_time_source_active_def)

text \<open>Copying to the transmit buffer reads the write pointer, writes the data in the socket's
  own buffer block at that pointer, and advances the pointer by the length modulo 2^16. The
  three accesses happen in this order and there is no other.\<close>

theorem send_data_copy:
  assumes "sn < 8" and "len \<noteq> 0"
    and "chip_state (wiz_send_data p sn (Some d) len s) \<noteq> WIZCHIP_STATE_FAULTED"
  shows "\<exists>h l. let ptr = join16 h l in
    reg_log (trace (wiz_send_data p sn (Some d) len s)) =
      RegWrite (Sn_TX_WR sn) [hi8 (ptr + len), lo8 (ptr + len)]
      # RegWrite (buf_addr ptr (WIZCHIP_TXBUF_BLOCK sn)) (take (unat len) d)
      # RegRead (Sn_TX_WR sn) [h, l] # reg_log (trace s)"
  by (rule wiz_send_data_log [OF assms])

theorem send_data_copy_witness:
  "\<exists>h l. reg_log (trace (wiz_send_data scripted 0 (Some [1, 2, 3]) 3 (scripted_ready [0, 16])))
     = [RegWrite (Sn_TX_WR 0) [hi8 (join16 h l + 3), lo8 (join16 h l + 3)],
        RegWrite (buf_addr (join16 h l) (WIZCHIP_TXBUF_BLOCK 0)) [1, 2, 3],
        RegRead (Sn_TX_WR 0) [h, l]]"
proof -
  have "chip_state (wiz_send_data scripted 0 (Some [1, 2, 3]) 3 (scripted_ready [0, 16])) \<noteq> WIZCHIP_STATE_FAULTED"
    by (simp add: run_defs reg_defs cong: run_cong)
  from send_data_copy [OF _ _ this] show ?thesis
    by (simp add: Let_def scripted_ready_def drv_start_def reg_log_def)
qed

text \<open>Copying from the receive buffer reads the read pointer, reads exactly \<open>len\<close> bytes from the
  socket's own buffer block at that pointer, and advances the pointer by the length.\<close>

theorem recv_data_copy:
  assumes "wiz_recv_data p sn True len s = (bs, s')" and "sn < 8" and "len \<noteq> 0"
    and "chip_state s' \<noteq> WIZCHIP_STATE_FAULTED"
  shows "\<exists>h l. let ptr = join16 h l in length bs = unat len \<and>
    reg_log (trace s') =
      RegWrite (Sn_RX_RD sn) [hi8 (ptr + len), lo8 (ptr + len)]
      # RegRead (buf_addr ptr (WIZCHIP_RXBUF_BLOCK sn)) bs
      # RegRead (Sn_RX_RD sn) [h, l] # reg_log (trace s)"
  by (rule wiz_recv_data_log [OF assms])

theorem recv_data_copy_witness:
  "\<exists>bs s'. wiz_recv_data scripted 0 True 3 (scripted_ready [0, 16, 7, 8, 9]) = (bs, s')
     \<and> length bs = 3"
proof -
  obtain bs s' where e: "wiz_recv_data scripted 0 True 3 (scripted_ready [0, 16, 7, 8, 9]) = (bs, s')"
    by fastforce
  have "chip_state (snd (wiz_recv_data scripted 0 True 3 (scripted_ready [0, 16, 7, 8, 9]))) \<noteq> WIZCHIP_STATE_FAULTED"
    by (simp add: run_defs reg_defs cong: run_cong)
  with recv_data_copy [OF e] e show ?thesis by (auto simp: Let_def)
qed

text \<open>The size cache of a socket changes only with the chip: \<open>wizchip_set_tx_buf_size\<close> reports
  success only for a size the chip supports, after the register was written and read back
  with the same value, and every failure leaves the cache as it was.\<close>

theorem set_tx_buf_size_cache:
  assumes "wizchip_set_tx_buf_size p sn kb s = (r, s')"
  shows "if r = 0
    then sn < 8 \<and> kb \<in> {0, 2, 4, 8, 16}
       \<and> wizchip_txmax_cache s' = (wizchip_txmax_cache s)(sn := ucast kb * 1024)
       \<and> reg_log (trace s') = RegRead (Sn_TXBUF_SIZE sn) [kb] # RegWrite (Sn_TXBUF_SIZE sn) [kb]
            # reg_log (trace s)
    else wizchip_txmax_cache s' = wizchip_txmax_cache s"
  by (rule set_tx_buf_size_spec [OF assms])

theorem set_tx_buf_size_cache_witness:
  "\<exists>s'. wizchip_set_tx_buf_size scripted 0 4 (scripted_ready [4]) = (0, s')
     \<and> wizchip_txmax_cache s' 0 = 4096"
proof -
  obtain r s' where e: "wizchip_set_tx_buf_size scripted 0 4 (scripted_ready [4]) = (r, s')" by fastforce
  have "fst (wizchip_set_tx_buf_size scripted 0 4 (scripted_ready [4])) = 0"
    by (simp add: run_defs reg_defs cong: run_cong)
  with set_tx_buf_size_cache [OF e] e show ?thesis by auto
qed

end
