(* ===== verification/SockOpen.thy ===== *)
theory SockOpen
  imports SockState
begin

text \<open>
  \<open>socket\<close>, \<open>close\<close> and \<open>listen\<close> of \<open>Ethernet/socket.c\<close>, for the W5500 branches. The long body
  of \<open>socket\<close> is cut where the source changes phase: the argument checks, the part under the
  socket lock, and the part that programs and opens the socket. All of them return, because
  every wait counts its polls.
\<close>

unbundle bit_operations_syntax

subsection \<open>Closing\<close>

text \<open>The part from label \<open>close_clear_state\<close> on.\<close>

definition close_clear_state :: "'w platform \<Rightarrow> u8 \<Rightarrow> bool \<Rightarrow> int \<Rightarrow> (int, 'w, 'm) sock_op" where
  "close_clear_state p sn under_lock ret s =
     (let s = sock_state_reset sn s;
          s = set_sock_remained_size sn 0 s;
          s = set_sock_pack_info sn PACK_NONE s;
          s = set_sock_mode sn 0 s;
          s = (if ret = SOCKERR_TIMEOUT
               then set_sock_health sn SOCK_FAULTED s else s);
          s = (if \<not> under_lock then call p (SockExit sn) s else s)
      in (ret, s))"

definition close_command :: "'w platform \<Rightarrow> u8 \<Rightarrow> u64 \<Rightarrow> (int, 'w, 'm) sock_op" where
  "close_command p sn deadline s =
     (if sock_health s sn = SOCK_FAULTED then (SOCK_OK, s)
      else let (sr, s) = getSn_SR p sn s in
      if sr = SOCK_CLOSED then (SOCK_OK, s)
      else let s = setSn_CR p sn Sn_CR_CLOSE s;
               (ret, s) = wait_cr_accepted p sn deadline s in
           if ret \<noteq> SOCK_OK then (ret, s)
           else let s = setSn_IR p sn 0xFF s in wait_sr_reached p sn SOCK_CLOSED deadline s)"

definition close_internal ::
    "'w platform \<Rightarrow> u8 \<Rightarrow> bool \<Rightarrow> u64 \<Rightarrow> (int, 'w, 'm) sock_op" where
  "close_internal p sn under_lock inherited_deadline s =
     (if WIZCHIP_SOCK_NUM \<le> sn then (SOCKERR_SOCKNUM, s)
      else let s = (if \<not> under_lock then call p (SockEnter sn) s else s);
               ((ret, d), s) =
                 (if inherited_deadline = 0
                  then sock_deadline_begin (command_timeout_us (timeout_config s)) s
                  else ((SOCK_OK, Some inherited_deadline), s)) in
           case d of
             None \<Rightarrow> close_clear_state p sn under_lock ret s
           | Some deadline \<Rightarrow>
               let (ret, s) = close_command p sn deadline s
               in close_clear_state p sn under_lock ret s)"

definition close :: "'w platform \<Rightarrow> u8 \<Rightarrow> (int, 'w, 'm) sock_op" where
  "close p sn s =
     (if WIZCHIP_SOCK_NUM \<le> sn then (SOCKERR_SOCKNUM, s)
      else let s = call p (SockEnter sn) s;
               (ret, s) = close_internal p sn True 0 s
           in (ret, call p (SockExit sn) s))"

subsection \<open>Opening\<close>

definition valid_flag_mask :: "u8 \<Rightarrow> u8 option" where
  "valid_flag_mask protocol =
     (let m = protocol AND 0x0F in
      if m = Sn_MR_TCP then Some SF_TCP_VALID_MASK
      else if m = Sn_MR_UDP then Some SF_UDP_VALID_MASK
      else if m = Sn_MR_MACRAW then Some SF_MACRAW_VALID_MASK
      else if m = Sn_MR_IPRAW then Some SF_IPRAW_VALID_MASK
      else None)"

definition socket_args_check :: "u8 \<Rightarrow> u8 \<Rightarrow> u8 \<Rightarrow> int" where
  "socket_args_check sn protocol flag =
     (let m = protocol AND 0x0F in
      if WIZCHIP_SOCK_NUM \<le> sn then SOCKERR_SOCKNUM
      else if m \<noteq> Sn_MR_TCP \<and> m \<noteq> Sn_MR_UDP \<and> m \<noteq> Sn_MR_MACRAW \<and> m \<noteq> Sn_MR_IPRAW
      then SOCKERR_SOCKMODE
      else if sn \<noteq> 0 \<and> m = Sn_MR_MACRAW then SOCKERR_SOCKMODE
      else case valid_flag_mask protocol of
        None \<Rightarrow> SOCKERR_SOCKMODE
      | Some valid \<Rightarrow>
          if flag AND (NOT valid) \<noteq> 0 then SOCKERR_SOCKFLAG
          else if m = Sn_MR_UDP \<and> flag AND (SF_IGMP_VER2 OR SF_UNI_BLOCK) \<noteq> 0
            \<and> flag AND SF_MULTI_ENABLE = 0 then SOCKERR_SOCKFLAG
          else SOCK_OK)"

text \<open>The state of a socket once the chip reports it open.\<close>

definition socket_opened_state :: "u8 \<Rightarrow> u8 \<Rightarrow> u8 \<Rightarrow> ('w, 'm) sock_proc" where
  "socket_opened_state sn protocol flag s =
     (let hardware_flag = flag AND (NOT SF_IO_NONBLOCK);
          s = sock_state_reset sn s;
          s = set_sock_mode sn (protocol OR (hardware_flag AND 0xF0)) s;
          s = set_sock_health sn SOCK_HEALTHY s;
          s = set_sock_io_mode sn (if flag AND SF_IO_NONBLOCK \<noteq> 0 then 1 else 0) s;
          s = set_sock_remained_size sn 0 s
      in set_sock_pack_info sn PACK_COMPLETED s)"

text \<open>Programming the socket, the OPEN command and the wait for its status.\<close>

definition socket_program ::
    "'w platform \<Rightarrow> u8 \<Rightarrow> u8 \<Rightarrow> u16 \<Rightarrow> u8 \<Rightarrow> u64 \<Rightarrow> (int, 'w, 'm) sock_op" where
  "socket_program p sn protocol port flag deadline s =
     (let hardware_flag = flag AND (NOT SF_IO_NONBLOCK);
          s = setSn_MR p sn (protocol OR (hardware_flag AND 0xF0)) s;
          (_, s) = setSn_PORT p sn port s;
          s = setSn_CR p sn Sn_CR_OPEN s;
          (ret, s) = wait_cr_accepted p sn deadline s in
      if ret \<noteq> SOCK_OK then (ret, s)
      else let (ret, s) = wait_sr_reached p sn (socket_open_status protocol) deadline s in
      if ret \<noteq> SOCK_OK then (ret, s)
      else (uint sn, socket_opened_state sn protocol flag s))"

text \<open>From the source-address check to the end of the success path.\<close>

definition socket_open ::
    "'w platform \<Rightarrow> u8 \<Rightarrow> u8 \<Rightarrow> u16 \<Rightarrow> u8 \<Rightarrow> u64 \<Rightarrow> (int, 'w, 'm) sock_op" where
  "socket_open p sn protocol port flag deadline s =
     (if protocol AND 0x0F = Sn_MR_TCP then
        let (taddr, s) = getSIPR p s in
        if list_all (\<lambda>b. b = 0) taddr then (SOCKERR_SOCKINIT, s)
        else socket_program p sn protocol port flag deadline s
      else socket_program p sn protocol port flag deadline s)"

definition socket_locked ::
    "'w platform \<Rightarrow> u8 \<Rightarrow> u8 \<Rightarrow> u16 \<Rightarrow> u8 \<Rightarrow> u8 \<Rightarrow> (int, 'w, 'm) sock_op" where
  "socket_locked p sn protocol port flag status_before_lock s =
     (if sock_health s sn = SOCK_FAULTED then (SOCKERR_NOTREADY, s)
      else let ((ret, d), s) = sock_deadline_begin (command_timeout_us (timeout_config s)) s in
      case d of
        None \<Rightarrow> (ret, s)
      | Some deadline \<Rightarrow>
          let (sr, s) = getSn_SR p sn s in
          if sr \<noteq> SOCK_CLOSED then
            if status_before_lock = SOCK_CLOSED then (SOCKERR_SOCKSTATUS, s)
            else let (ret, s) = close_internal p sn True deadline s in
                 if ret \<noteq> SOCK_OK then (ret, s) else socket_open p sn protocol port flag deadline s
          else socket_open p sn protocol port flag deadline s)"

definition socket :: "'w platform \<Rightarrow> u8 \<Rightarrow> u8 \<Rightarrow> u16 \<Rightarrow> u8 \<Rightarrow> (int, 'w, 'm) sock_op" where
  "socket p sn protocol port flag s =
     (let chk = socket_args_check sn protocol flag in
      if chk \<noteq> SOCK_OK then (chk, s)
      else if wizchip_get_state s \<noteq> WIZCHIP_STATE_READY
      then (SOCKERR_NOTREADY, wizchip_set_last_error SOCKERR_NOTREADY s)
      else let (status_before_lock, s) = getSn_SR p sn s;
               (port, s) = (if port = 0 then take_any_port p s else (port, s));
               s = call p (SockEnter sn) s;
               (ret, s) = socket_locked p sn protocol port flag status_before_lock s
           in (ret, call p (SockExit sn) s))"

subsection \<open>Listening\<close>

definition listen_locked :: "'w platform \<Rightarrow> u8 \<Rightarrow> (int, 'w, 'm) sock_op" where
  "listen_locked p sn s =
     (if sock_health s sn = SOCK_FAULTED then (SOCKERR_IO, s)
      else let (sr, s) = getSn_SR p sn s in
      if sr \<noteq> SOCK_INIT then (SOCKERR_SOCKINIT, s)
      else let ((ret, d), s) = sock_deadline_begin (command_timeout_us (timeout_config s)) s in
      case d of
        None \<Rightarrow> (ret, s)
      | Some deadline \<Rightarrow>
          let s = setSn_CR p sn Sn_CR_LISTEN s;
              (ret, s) = wait_cr_accepted p sn deadline s in
          if ret \<noteq> SOCK_OK then (ret, s) else wait_sr_reached p sn SOCK_LISTEN deadline s)"

definition listen :: "'w platform \<Rightarrow> u8 \<Rightarrow> (int, 'w, 'm) sock_op" where
  "listen p sn s =
     (if WIZCHIP_SOCK_NUM \<le> sn then (SOCKERR_SOCKNUM, s)
      else let s = call p (SockEnter sn) s;
               (ret, s) = listen_locked p sn s
           in (ret, call p (SockExit sn) s))"

subsection \<open>The calls under the contracts of sockets\<close>

context sock_relation
begin

lemma R_close_clear_state:
  assumes "R s0 s" and Q: "\<And>v s'. R s0 s' \<Longrightarrow> Q v s'"
  shows "wpt (close_clear_state p sn True r s) Q"
  using assms(1) unfolding close_clear_state_def by (auto intro!: Q wp R_field)

lemma R_close_command:
  assumes "R s0 s" and Q: "\<And>v s'. R s0 s' \<Longrightarrow> Q v s'"
  shows "wpt (close_command p sn d s) Q"
  using assms(1) unfolding close_command_def reg_defs by (auto intro!: Q wp sock_rel)

lemma R_close_internal:
  assumes "R s0 s" and Q: "\<And>v s'. R s0 s' \<Longrightarrow> Q v s'"
  shows "wpt (close_internal p sn True d s) Q"
  using assms(1) unfolding close_internal_def by (auto intro!: Q wp sock_rel R_close_clear_state R_close_command)

lemma R_socket_program:
  assumes "R s0 s" and Q: "\<And>v s'. R s0 s' \<Longrightarrow> Q v s'"
  shows "wpt (socket_program p sn protocol port flag d s) Q"
  using assms(1) unfolding socket_program_def socket_opened_state_def Let_def reg_defs
  by (auto intro!: Q wp sock_rel)

lemma R_socket_open:
  assumes "R s0 s" and Q: "\<And>v s'. R s0 s' \<Longrightarrow> Q v s'"
  shows "wpt (socket_open p sn protocol port flag d s) Q"
  using assms(1) unfolding socket_open_def reg_defs by (auto intro!: Q wp sock_rel R_socket_program)

lemma R_socket_locked:
  assumes "R s0 s" and Q: "\<And>v s'. R s0 s' \<Longrightarrow> Q v s'"
  shows "wpt (socket_locked p sn protocol port flag st s) Q"
  using assms(1) unfolding socket_locked_def reg_defs by (auto intro!: Q wp sock_rel R_close_internal R_socket_open)

lemma R_listen_locked:
  assumes "R s0 s" and Q: "\<And>v s'. R s0 s' \<Longrightarrow> Q v s'"
  shows "wpt (listen_locked p sn s) Q"
  using assms(1) unfolding listen_locked_def reg_defs by (auto intro!: Q wp sock_rel)

end

context api_relation
begin

lemma A_locked:
  assumes "wpt m (\<lambda>_. R (call p (SockEnter sn) s))" and "A s0 s" and "sn < 8"
    and "\<And>v s'. A s0 s' \<Longrightarrow> Q v s'"
  shows "wpt m (\<lambda>r t. wpt (r, call p (SockExit sn) t) Q)"
  using assms(1) A_unlock [OF assms(2,3)] assms(4) by (simp add: wpt_def)

lemma A_close:
  assumes "A s0 s" and Q: "\<And>v s'. A s0 s' \<Longrightarrow> Q v s'"
  shows "wpt (close p sn s) Q"
  using assms(1) unfolding close_def
  by (auto intro!: Q wp A_locked [OF R_close_internal] R_refl simp: WIZCHIP_SOCK_NUM_def not_le)

lemma A_listen:
  assumes "A s0 s" and Q: "\<And>v s'. A s0 s' \<Longrightarrow> Q v s'"
  shows "wpt (listen p sn s) Q"
  using assms(1) unfolding listen_def
  by (auto intro!: Q wp A_locked [OF R_listen_locked] R_refl simp: WIZCHIP_SOCK_NUM_def not_le)

lemma socket_args_sn: "socket_args_check n protocol flag = SOCK_OK \<Longrightarrow> n < 8"
  unfolding socket_args_check_def Let_def WIZCHIP_SOCK_NUM_def by (auto simp: not_le split: if_splits)

lemma A_socket:
  assumes "A s0 s" and Q: "\<And>v s'. A s0 s' \<Longrightarrow> Q v s'"
  shows "wpt (socket p sn protocol port flag s) Q"
proof -
  have read: "wpt (getSn_SR p sn s) (\<lambda>_. R s)" for s
    unfolding reg_defs by (auto intro!: register_rel R_refl)
  show ?thesis
    using assms(1) unfolding socket_def
    by (auto intro!: Q wp A_locked [OF R_socket_locked] R_refl A_step [OF _ read] A_take_any_port
        A_last_error dest!: socket_args_sn [unfolded SOCK_OK_def])
qed

lemmas api_open = A_close A_listen A_socket

end

lemmas open_defs =
  close_clear_state_def close_command_def close_internal_def close_def valid_flag_mask_def
  socket_args_check_def socket_opened_state_def socket_program_def socket_open_def
  socket_locked_def socket_def listen_locked_def listen_def

end
