(* ===== verification/SockStream.thy ===== *)
theory SockStream
  imports SockOpen
begin

text \<open>
  The stream calls of \<open>Ethernet/socket.c\<close>: \<open>connect\<close>, \<open>disconnect\<close>, \<open>send\<close> and \<open>recv\<close>, for the
  W5500 branches (\<open>IPV6_AVAILABLE\<close> is not defined). The loops that only the clock bounds
  are \<open>forever\<close> loops, so these calls are partial functions; \<open>None\<close> is a call that does not
  return.
\<close>

unbundle bit_operations_syntax

subsection \<open>Connecting\<close>

definition connect_args_check :: "u8 \<Rightarrow> u8 list option \<Rightarrow> u16 \<Rightarrow> u8 \<Rightarrow> int" where
  "connect_args_check sn addr port addrlen =
     (if WIZCHIP_SOCK_NUM \<le> sn then SOCKERR_SOCKNUM
      else case addr of
        None \<Rightarrow> SOCKERR_ARG
      | Some a \<Rightarrow>
          if port = 0 then SOCKERR_PORTZERO
          else if addrlen \<noteq> 4 \<and> addrlen \<noteq> 16 then SOCKERR_IPINVALID
          else if addrlen = 4 then
            let taddr = (ucast (a ! 0) :: u32);
                taddr = push_bit 8 taddr + ucast (a ! 1);
                taddr = push_bit 8 taddr + ucast (a ! 2);
                taddr = push_bit 8 taddr + ucast (a ! 3)
            in if taddr = 0xFFFFFFFF \<or> taddr = 0 then SOCKERR_IPINVALID else SOCK_OK
          else SOCK_OK)"

text \<open>One round of the wait for \<open>SOCK_ESTABLISHED\<close>.\<close>

definition connect_step ::
    "'w platform \<Rightarrow> u8 \<Rightarrow> u64 \<Rightarrow> unit \<Rightarrow> (int + unit, 'w, 'm) sock_wait" where
  "connect_step p sn deadline _ s =
     (let (status, s) = getSn_SR p sn s in
      if status = SOCK_ESTABLISHED then Some (Inl SOCK_OK, s)
      else let (ir, s) = getSn_IR p sn s in
      if ir AND Sn_IR_TIMEOUT \<noteq> 0
      then let s = setSn_IR p sn Sn_IR_TIMEOUT s in Some (Inl SOCKERR_TIMEOUT, s)
      else if status = SOCK_CLOSED then Some (Inl SOCKERR_SOCKCLOSED, s)
      else let (expired, s) = wizchip_deadline_expired deadline s in
      if expired then let s = set_sock_health sn SOCK_FAULTED s in Some (Inl SOCKERR_IO, s)
      else Some (Inr (), s))"

definition connect_locked ::
    "'w platform \<Rightarrow> u8 \<Rightarrow> u8 list option \<Rightarrow> u16 \<Rightarrow> u8 \<Rightarrow> (int, 'w, 'm) sock_wait" where
  "connect_locked p sn addr port addrlen s =
     (if wizchip_get_state s \<noteq> WIZCHIP_STATE_READY then Some (SOCKERR_NOTREADY, s)
      else if sock_health s sn = SOCK_FAULTED then Some (SOCKERR_IO, s)
      else if sock_mode s sn AND 0x03 \<noteq> 0x01 then Some (SOCKERR_SOCKMODE, s)
      else let (sr, s) = getSn_SR p sn s in
      if sr \<noteq> SOCK_INIT then Some (SOCKERR_SOCKINIT, s)
      else if addrlen = 16 then Some (SOCKERR_SOCKMODE, s)
      else let (_, s) = setSn_DPORT p sn port s;
               s = setSn_DIPR p sn addr s;
               s = setSn_CR p sn Sn_CR_CONNECT s in
      if wizchip_deadline_config_valid s = 0 then Some (SOCKERR_TIMEOUT, s)
      else let cfg = timeout_config s;
               (deadline, s) = wizchip_deadline_abs (ucast (command_timeout_us cfg)) s;
               (ret, s) = wait_cr_accepted p sn deadline s in
      if ret \<noteq> SOCK_OK then Some (ret, s)
      else let (deadline, s) = wizchip_deadline_abs (ucast (operation_timeout_us cfg)) s
           in forever (connect_step p sn deadline) () s)"

definition connect_IO_6 ::
    "'w platform \<Rightarrow> u8 \<Rightarrow> u8 list option \<Rightarrow> u16 \<Rightarrow> u8 \<Rightarrow> (int, 'w, 'm) sock_wait" where
  "connect_IO_6 p sn addr port addrlen s =
     (let chk = connect_args_check sn addr port addrlen in
      if chk \<noteq> SOCK_OK then Some (chk, s)
      else do {
        let s = call p (SockEnter sn) s;
        (ret, s) \<leftarrow> connect_locked p sn addr port addrlen s;
        Some (ret, call p (SockExit sn) s)
      })"

definition connect_W5x00 ::
    "'w platform \<Rightarrow> u8 \<Rightarrow> u8 list option \<Rightarrow> u16 \<Rightarrow> (int, 'w, 'm) sock_wait" where
  "connect_W5x00 p sn addr port s = connect_IO_6 p sn addr port 4 s"

definition connect_W6x00 ::
    "'w platform \<Rightarrow> u8 \<Rightarrow> u8 list option \<Rightarrow> u16 \<Rightarrow> u8 \<Rightarrow> (int, 'w, 'm) sock_wait" where
  "connect_W6x00 p sn addr port addrlen s = connect_IO_6 p sn addr port addrlen s"

subsection \<open>Disconnecting\<close>

definition disconnect_step ::
    "'w platform \<Rightarrow> u8 \<Rightarrow> u64 \<Rightarrow> unit \<Rightarrow> (int + unit, 'w, 'm) sock_wait" where
  "disconnect_step p sn deadline _ s =
     (let (sr, s) = getSn_SR p sn s in
      if sr = SOCK_CLOSED then Some (Inl SOCK_OK, s)
      else let (ir, s) = getSn_IR p sn s in
      if ir AND Sn_IR_TIMEOUT \<noteq> 0
      then let s = setSn_IR p sn Sn_IR_TIMEOUT s;
               s = set_sock_health sn SOCK_FAULTED s in Some (Inl SOCKERR_TIMEOUT, s)
      else let (expired, s) = wizchip_deadline_expired deadline s in
      if expired then let s = set_sock_health sn SOCK_FAULTED s in Some (Inl SOCKERR_IO, s)
      else Some (Inr (), s))"

definition disconnect_wait :: "'w platform \<Rightarrow> u8 \<Rightarrow> (int, 'w, 'm) sock_wait" where
  "disconnect_wait p sn s =
     (let s = set_sock_is_sending sn 0 s in
      if wizchip_deadline_config_valid s = 0 then Some (SOCKERR_TIMEOUT, s)
      else let (deadline, s) = wizchip_deadline_abs (ucast (operation_timeout_us (timeout_config s))) s
           in forever (disconnect_step p sn deadline) () s)"

definition disconnect_locked :: "'w platform \<Rightarrow> u8 \<Rightarrow> (int, 'w, 'm) sock_wait" where
  "disconnect_locked p sn s =
     (if wizchip_get_state s \<noteq> WIZCHIP_STATE_READY then Some (SOCKERR_NOTREADY, s)
      else if sock_health s sn = SOCK_FAULTED then Some (SOCKERR_IO, s)
      else if sock_mode s sn AND 0x03 \<noteq> 0x01 then Some (SOCKERR_SOCKMODE, s)
      else let (tmp, s) = getSn_SR p sn s in
      if tmp = SOCK_CLOSED then Some (SOCK_OK, s)
      else if tmp = SOCK_ESTABLISHED \<or> tmp = SOCK_CLOSE_WAIT then
        let s = setSn_CR p sn Sn_CR_DISCON s in
        if wizchip_deadline_config_valid s = 0 then Some (SOCKERR_TIMEOUT, s)
        else let (deadline, s) = wizchip_deadline_abs (ucast (command_timeout_us (timeout_config s))) s;
                 (ret, s) = wait_cr_accepted p sn deadline s in
        if ret \<noteq> SOCK_OK then Some (ret, s) else disconnect_wait p sn s
      else disconnect_wait p sn s)"

definition disconnect :: "'w platform \<Rightarrow> u8 \<Rightarrow> (int, 'w, 'm) sock_wait" where
  "disconnect p sn s =
     (if WIZCHIP_SOCK_NUM \<le> sn then Some (SOCKERR_SOCKNUM, s)
      else do {
        let s = call p (SockEnter sn) s;
        (ret, s) \<leftarrow> disconnect_locked p sn s;
        Some (ret, call p (SockExit sn) s)
      })"

subsection \<open>Sending\<close>

text \<open>
  The wait for the previous SEND is a \<open>poll_until\<close> loop: its expiry faults the socket and
  returns \<open>SOCKERR_TIMEOUT\<close>, as there. \<open>SOCK_OK\<close> stands for the \<open>break\<close> after SENDOK, which no
  other exit returns.
\<close>

definition sendok_probe :: "'w platform \<Rightarrow> u8 \<Rightarrow> (int option, 'w, 'm) sock_op" where
  "sendok_probe p sn s =
     (let (tmp, s) = getSn_IR p sn s in
      if tmp AND Sn_IR_SENDOK \<noteq> 0
      then let s = setSn_IR p sn Sn_IR_SENDOK s in (Some SOCK_OK, set_sock_is_sending sn 0 s)
      else if tmp AND Sn_IR_TIMEOUT \<noteq> 0
      then let s = setSn_IR p sn Sn_IR_TIMEOUT s
           in (Some SOCKERR_TIMEOUT, set_sock_health sn SOCK_FAULTED s)
      else let (tmp, s) = getSn_SR p sn s in
      if tmp \<noteq> SOCK_ESTABLISHED \<and> tmp \<noteq> SOCK_CLOSE_WAIT
      then let s = set_sock_is_sending sn 0 s
           in (Some (if tmp = SOCK_CLOSED then SOCKERR_SOCKCLOSED else SOCKERR_SOCKSTATUS), s)
      else if sock_io_mode s sn \<noteq> 0 then (Some SOCK_BUSY, s)
      else (None, s))"

text \<open>
  One round of the wait for buffer space; the loop is left with \<open>Some ret\<close> (an error
  return) or \<open>None\<close> (the \<open>break\<close> with enough space).
\<close>

definition space_step ::
    "'w platform \<Rightarrow> u8 \<Rightarrow> u16 \<Rightarrow> u64 \<Rightarrow> wizchip_deadline
       \<Rightarrow> (int option + wizchip_deadline, 'w, 'm) sock_wait" where
  "space_step p sn len deadline poll s = do {
     ((ret, fsr), s) \<leftarrow> read_sn_tx_fsr p sn s;
     (case fsr of
        None \<Rightarrow> Some (Inl (Some ret), s)
      | Some freesize \<Rightarrow>
          let (tmp, s) = getSn_SR p sn s in
          if tmp \<noteq> SOCK_ESTABLISHED \<and> tmp \<noteq> SOCK_CLOSE_WAIT then
            if tmp = SOCK_CLOSED
            then let (_, s) = close_internal p sn True 0 s in Some (Inl (Some SOCKERR_SOCKSTATUS), s)
            else Some (Inl (Some SOCKERR_SOCKSTATUS), s)
          else if sock_io_mode s sn \<noteq> 0 \<and> freesize < len then Some (Inl (Some SOCK_BUSY), s)
          else if len \<le> freesize then Some (Inl None, s)
          else let ((e, poll), s) = wait_poll_expired p poll deadline s in
               if e = SOCKERR_DEADLINE then Some (Inl (Some SOCKERR_TIMEOUT), s)
               else Some (Inr poll, s))
   }"

text \<open>From the size clipping to the end of the success path.\<close>

definition send_transfer ::
    "'w platform \<Rightarrow> u8 \<Rightarrow> u8 list option \<Rightarrow> u16 \<Rightarrow> wizchip_timeout_config \<Rightarrow> (int, 'w, 'm) sock_wait" where
  "send_transfer p sn buf len cfg s = do {
     let len = (if wizchip_txmax_cache s sn < len then wizchip_txmax_cache s sn else len);
     let (deadline, s) = wizchip_deadline_abs (ucast (operation_timeout_us cfg)) s;
     let (poll, s) = wait_poll_init deadline s;
     (r, s) \<leftarrow> forever (space_step p sn len deadline) poll s;
     (case r of
        Some ret \<Rightarrow> Some (ret, s)
      | None \<Rightarrow>
          let s = wiz_send_data p sn buf len s;
              s = setSn_CR p sn Sn_CR_SEND s;
              (deadline, s) = wizchip_deadline_abs (ucast (command_timeout_us cfg)) s;
              (ret, s) = wait_cr_accepted p sn deadline s in
          if ret \<noteq> SOCK_OK then Some (ret, set_sock_health sn SOCK_FAULTED s)
          else Some (uint len, set_sock_is_sending sn 1 s))
   }"

definition send_locked ::
    "'w platform \<Rightarrow> u8 \<Rightarrow> u8 list option \<Rightarrow> u16 \<Rightarrow> (int, 'w, 'm) sock_wait" where
  "send_locked p sn buf len s =
     (if sock_health s sn = SOCK_FAULTED then Some (SOCKERR_IO, s)
      else if wizchip_deadline_config_valid s = 0 then Some (SOCKERR_TIMEOUT, s)
      else if sock_mode s sn AND 0x03 \<noteq> 0x01 then Some (SOCKERR_SOCKMODE, s)
      else let cfg = timeout_config s;
               (tmp, s) = getSn_SR p sn s in
      if tmp \<noteq> SOCK_ESTABLISHED \<and> tmp \<noteq> SOCK_CLOSE_WAIT then Some (SOCKERR_SOCKSTATUS, s)
      else if sock_is_sending s sn \<noteq> 0 then
        let (deadline, s) = wizchip_deadline_abs (ucast (operation_timeout_us cfg)) s;
            (poll, s) = wait_poll_init deadline s;
            (ret, s) = poll_until p sn (sendok_probe p sn) deadline poll s in
        if ret \<noteq> SOCK_OK then Some (ret, s) else send_transfer p sn buf len cfg s
      else send_transfer p sn buf len cfg s)"

definition send :: "'w platform \<Rightarrow> u8 \<Rightarrow> u8 list option \<Rightarrow> u16 \<Rightarrow> (int, 'w, 'm) sock_wait" where
  "send p sn buf len s =
     (if len = 0 then Some (0, s)
      else if buf = None then Some (SOCKERR_ARG, s)
      else if WIZCHIP_SOCK_NUM \<le> sn then Some (SOCKERR_SOCKNUM, s)
      else if wizchip_get_state s \<noteq> WIZCHIP_STATE_READY then Some (SOCKERR_NOTREADY, s)
      else do {
        let s = call p (SockEnter sn) s;
        (ret, s) \<leftarrow> send_locked p sn buf len s;
        Some (ret, call p (SockExit sn) s)
      })"

subsection \<open>Receiving\<close>

text \<open>
  One round of the wait for data. In \<open>SOCK_CLOSE_WAIT\<close> without data the source polls and
  \<open>continue\<close>s without looking at the IO mode.
\<close>

definition data_step ::
    "'w platform \<Rightarrow> u8 \<Rightarrow> u64 \<Rightarrow> wizchip_deadline
       \<Rightarrow> ((int + u16) + wizchip_deadline, 'w, 'm) sock_wait" where
  "data_step p sn deadline poll s = do {
     ((ret, rsr), s) \<leftarrow> read_sn_rx_rsr p sn s;
     (case rsr of
        None \<Rightarrow> Some (Inl (Inl ret), s)
      | Some recvsize \<Rightarrow>
          let (tmp, s) = getSn_SR p sn s in
          if tmp \<noteq> SOCK_ESTABLISHED then
            if tmp = SOCK_CLOSE_WAIT then
              if recvsize \<noteq> 0 then Some (Inl (Inr recvsize), s)
              else do {
                ((ret, fsr), s) \<leftarrow> read_sn_tx_fsr p sn s;
                (case fsr of
                   None \<Rightarrow> Some (Inl (Inl ret), s)
                 | Some freesize \<Rightarrow>
                     if freesize = wizchip_txmax_cache s sn
                     then let (_, s) = close_internal p sn True 0 s in Some (Inl (Inl SOCKERR_SOCKSTATUS), s)
                     else let ((e, poll), s) = wait_poll_expired p poll deadline s in
                          if e = SOCKERR_DEADLINE then Some (Inl (Inl SOCKERR_TIMEOUT), s)
                          else Some (Inr poll, s))
              }
            else let (_, s) = close_internal p sn True 0 s in Some (Inl (Inl SOCKERR_SOCKSTATUS), s)
          else if recvsize \<noteq> 0 then Some (Inl (Inr recvsize), s)
          else if sock_io_mode s sn \<noteq> 0 then Some (Inl (Inl SOCK_BUSY), s)
          else let ((e, poll), s) = wait_poll_expired p poll deadline s in
               if e = SOCKERR_DEADLINE then Some (Inl (Inl SOCKERR_TIMEOUT), s)
               else Some (Inr poll, s))
   }"

definition recv_transfer ::
    "'w platform \<Rightarrow> u8 \<Rightarrow> u16 \<Rightarrow> wizchip_timeout_config \<Rightarrow> (int \<times> u8 list, 'w, 'm) sock_wait" where
  "recv_transfer p sn len cfg s = do {
     let len = (if wizchip_rxmax_cache s sn < len then wizchip_rxmax_cache s sn else len);
     let (deadline, s) = wizchip_deadline_abs (ucast (operation_timeout_us cfg)) s;
     let (poll, s) = wait_poll_init deadline s;
     (r, s) \<leftarrow> forever (data_step p sn deadline) poll s;
     (case r of
        Inl ret \<Rightarrow> Some ((ret, []), s)
      | Inr recvsize \<Rightarrow>
          let len = (if recvsize < len then recvsize else len);
              (bs, s) = wiz_recv_data p sn True len s;
              s = setSn_CR p sn Sn_CR_RECV s;
              (deadline, s) = wizchip_deadline_abs (ucast (command_timeout_us cfg)) s;
              (ret, s) = wait_cr_accepted p sn deadline s in
          if ret \<noteq> SOCK_OK then Some ((ret, bs), set_sock_health sn SOCK_FAULTED s)
          else Some ((uint len, bs), s))
   }"

definition recv_locked :: "'w platform \<Rightarrow> u8 \<Rightarrow> u16 \<Rightarrow> (int \<times> u8 list, 'w, 'm) sock_wait" where
  "recv_locked p sn len s =
     (if sock_health s sn = SOCK_FAULTED then Some ((SOCKERR_IO, []), s)
      else if wizchip_deadline_config_valid s = 0 then Some ((SOCKERR_TIMEOUT, []), s)
      else if sock_mode s sn AND 0x03 \<noteq> 0x01 then Some ((SOCKERR_SOCKMODE, []), s)
      else recv_transfer p sn len (timeout_config s) s)"

definition recv :: "'w platform \<Rightarrow> u8 \<Rightarrow> bool \<Rightarrow> u16 \<Rightarrow> (int \<times> u8 list, 'w, 'm) sock_wait" where
  "recv p sn buf len s =
     (if len = 0 then Some ((0, []), s)
      else if \<not> buf then Some ((SOCKERR_ARG, []), s)
      else if WIZCHIP_SOCK_NUM \<le> sn then Some ((SOCKERR_SOCKNUM, []), s)
      else if wizchip_get_state s \<noteq> WIZCHIP_STATE_READY then Some ((SOCKERR_NOTREADY, []), s)
      else do {
        let s = call p (SockEnter sn) s;
        (ret, s) \<leftarrow> recv_locked p sn len s;
        Some (ret, call p (SockExit sn) s)
      })"

subsection \<open>The calls under the contracts of sockets\<close>

text \<open>A wait loop whose rounds keep the relation keeps the relation.\<close>

context sock_relation
begin

lemma R_forever:
  assumes "R s0 s" and "\<And>v s'. R s0 s' \<Longrightarrow> Q v s'"
    and "\<And>c s. R s0 s \<Longrightarrow> wpo (body c s) (\<lambda>_. R s0)"
  shows "wpo (forever body c s) Q"
  by (rule wpo_forever [where I = "\<lambda>_. R s0"], rule assms(1), rule wpo_mono [OF assms(3)])
    (auto split: sum.splits intro: assms(2))

lemma R_steps:
  "R s0 s \<Longrightarrow> wpo (connect_step p sn d c s) (\<lambda>_. R s0)"
  "R s0 s \<Longrightarrow> wpo (disconnect_step p sn d c s) (\<lambda>_. R s0)"
  "R s0 s \<Longrightarrow> wpt (sendok_probe p sn s) (\<lambda>_. R s0)"
  "R s0 s \<Longrightarrow> wpo (space_step p sn len d poll s) (\<lambda>_. R s0)"
  "R s0 s \<Longrightarrow> wpo (data_step p sn d poll s) (\<lambda>_. R s0)"
  unfolding connect_step_def disconnect_step_def sendok_probe_def space_step_def data_step_def reg_defs
  by (auto intro!: wp sock_rel R_close_internal)

lemma R_connect_locked:
  assumes "R s0 s" and Q: "\<And>v s'. R s0 s' \<Longrightarrow> Q v s'"
  shows "wpo (connect_locked p sn addr port addrlen s) Q"
  using assms(1) unfolding connect_locked_def reg_defs
  by (auto intro!: Q wp sock_rel R_forever R_steps)

lemma R_disconnect_locked:
  assumes "R s0 s" and Q: "\<And>v s'. R s0 s' \<Longrightarrow> Q v s'"
  shows "wpo (disconnect_locked p sn s) Q"
  using assms(1) unfolding disconnect_locked_def disconnect_wait_def reg_defs
  by (auto intro!: Q wp sock_rel R_forever R_steps)

lemma R_send_transfer:
  assumes "R s0 s" and Q: "\<And>v s'. R s0 s' \<Longrightarrow> Q v s'"
  shows "wpo (send_transfer p sn buf len cfg s) Q"
  using assms(1) unfolding send_transfer_def reg_defs
  by (auto intro!: Q wp sock_rel R_forever R_steps)

lemma R_send_locked:
  assumes "R s0 s" and Q: "\<And>v s'. R s0 s' \<Longrightarrow> Q v s'"
  shows "wpo (send_locked p sn buf len s) Q"
  using assms(1) unfolding send_locked_def reg_defs
  by (auto intro!: Q wp sock_rel R_poll_until R_steps R_send_transfer)

lemma R_recv_locked:
  assumes "R s0 s" and Q: "\<And>v s'. R s0 s' \<Longrightarrow> Q v s'"
  shows "wpo (recv_locked p sn len s) Q"
  using assms(1) unfolding recv_locked_def recv_transfer_def reg_defs
  by (auto intro!: Q wp sock_rel R_forever R_steps)

end

context api_relation
begin

lemma A_locked_wait:
  assumes "wpo m (\<lambda>_. R (call p (SockEnter sn) s))" and "A s0 s" and "sn < 8"
    and "\<And>v s'. A s0 s' \<Longrightarrow> Q v s'"
  shows "wpo (Option.bind m (\<lambda>(r, t). Some (r, call p (SockExit sn) t))) Q"
  using assms(1) A_unlock [OF assms(2,3)] assms(4) by (cases m) (auto simp: wpo_def)

lemma connect_args_sn: "connect_args_check n addr port addrlen = SOCK_OK \<Longrightarrow> n < 8"
  unfolding connect_args_check_def Let_def WIZCHIP_SOCK_NUM_def
  by (auto simp: not_le split: if_splits)

lemma A_connect:
  assumes "A s0 s" and Q: "\<And>v s'. A s0 s' \<Longrightarrow> Q v s'"
  shows "wpo (connect_IO_6 p sn addr port addrlen s) Q"
  using assms(1) unfolding connect_IO_6_def Let_def
  by (auto intro!: Q wpo_if wpo_Some A_locked_wait [OF R_connect_locked] R_refl
      dest!: connect_args_sn [unfolded SOCK_OK_def])

lemma A_disconnect:
  assumes "A s0 s" and Q: "\<And>v s'. A s0 s' \<Longrightarrow> Q v s'"
  shows "wpo (disconnect p sn s) Q"
  using assms(1) unfolding disconnect_def Let_def
  by (auto intro!: Q wpo_if wpo_Some A_locked_wait [OF R_disconnect_locked] R_refl
      simp: WIZCHIP_SOCK_NUM_def not_le)

lemma A_send:
  assumes "A s0 s" and Q: "\<And>v s'. A s0 s' \<Longrightarrow> Q v s'"
  shows "wpo (send p sn buf len s) Q"
  using assms(1) unfolding send_def Let_def
  by (auto intro!: Q wpo_if wpo_Some A_locked_wait [OF R_send_locked] R_refl
      simp: WIZCHIP_SOCK_NUM_def not_le)

lemma A_recv:
  assumes "A s0 s" and Q: "\<And>v s'. A s0 s' \<Longrightarrow> Q v s'"
  shows "wpo (recv p sn buf len s) Q"
  using assms(1) unfolding recv_def Let_def
  by (auto intro!: Q wpo_if wpo_Some A_locked_wait [OF R_recv_locked] R_refl
      simp: WIZCHIP_SOCK_NUM_def not_le)

lemmas api_stream = A_connect A_disconnect A_send A_recv

end

lemmas stream_defs =
  connect_args_check_def connect_step_def connect_locked_def connect_IO_6_def connect_W5x00_def
  connect_W6x00_def disconnect_step_def disconnect_wait_def disconnect_locked_def disconnect_def
  sendok_probe_def space_step_def send_transfer_def send_locked_def send_def data_step_def
  recv_transfer_def recv_locked_def recv_def

end
