(* ===== verification/SockDgram.thy ===== *)
theory SockDgram
  imports SockStream
begin

text \<open>
  The datagram calls of \<open>Ethernet/socket.c\<close>: \<open>sendto\<close> with its resumable transmit state, and
  \<open>recvfrom\<close> with the accounting of partly read packets. As before \<open>None\<close> is a call that does
  not return; \<open>sendto\<close> also ends there when it dereferences a null address, which the source
  does not check. Arguments that point to an address hold four bytes.
\<close>

unbundle bit_operations_syntax

definition Sn_MR_UDP6 :: u8 where [simp]: "Sn_MR_UDP6 = 0x0A"
definition Sn_MR_IPRAW6 :: u8 where [simp]: "Sn_MR_IPRAW6 = 0x0B"

subsection \<open>Sending a datagram\<close>

text \<open>While a SEND is pending: one look at the interrupt register, no payload, no command.\<close>

definition sendto_pending :: "'w platform \<Rightarrow> u8 \<Rightarrow> (int, 'w, 'm) sock_op" where
  "sendto_pending p sn s =
     (let (tmp, s) = getSn_IR p sn s in
      if tmp AND Sn_IR_SENDOK \<noteq> 0
      then let s = setSn_IR p sn Sn_IR_SENDOK s;
               ret = uint (sock_tx_pending_len s sn);
               s = set_sock_tx_pending_len sn 0 s;
               s = set_sock_tx_state sn SOCK_TX_IDLE s
           in (ret, s)
      else if tmp AND Sn_IR_TIMEOUT \<noteq> 0
      then let s = setSn_IR p sn Sn_IR_TIMEOUT s;
               s = set_sock_tx_pending_len sn 0 s;
               s = set_sock_tx_state sn SOCK_TX_IDLE s
           in (SOCKERR_TIMEOUT, s)
      else (SOCK_BUSY, s))"

text \<open>Mode, address length and port checks that program the destination early.\<close>

definition sendto_dest ::
    "'w platform \<Rightarrow> u8 \<Rightarrow> u8 list option \<Rightarrow> u16 \<Rightarrow> u8 \<Rightarrow> (int, 'w, 'm) sock_op" where
  "sendto_dest p sn addr port addrlen s =
     (let tmp = sock_mode s sn; m = tmp AND 0x0F in
      if m \<noteq> Sn_MR_UDP \<and> m \<noteq> Sn_MR_MACRAW \<and> m \<noteq> Sn_MR_IPRAW \<and> m \<noteq> Sn_MR_IPRAW6
      then (SOCKERR_SOCKMODE, s)
      else let (ret, s) =
          (if tmp \<noteq> Sn_MR_MACRAW then
             if addrlen = 16 then (SOCKERR_SOCKMODE, s)
             else if addrlen = 4 then
               if tmp = Sn_MR_UDP6 \<or> tmp = Sn_MR_IPRAW6 then (SOCKERR_SOCKMODE, s)
               else (SOCK_OK, setSn_DIPR p sn addr s)
             else (SOCKERR_IPINVALID, s)
           else (SOCK_OK, s)) in
      if ret \<noteq> SOCK_OK then (ret, s)
      else if tmp AND 0x03 = 0x02 then
        if port \<noteq> 0 then let (_, s) = setSn_DPORT p sn port s in (SOCK_OK, s)
        else (SOCKERR_PORTZERO, s)
      else (SOCK_OK, s))"

text \<open>The destination checks of the modes other than MACRAW.\<close>

definition sendto_check_dest ::
    "'w platform \<Rightarrow> u8 \<Rightarrow> u8 list option \<Rightarrow> u16 \<Rightarrow> (int, 'w, 'm) sock_wait" where
  "sendto_check_dest p sn addr port s =
     (let tmp = sock_mode s sn in
      if tmp AND 0x0F = Sn_MR_MACRAW then Some (SOCK_OK, s)
      else case addr of
        None \<Rightarrow> None
      | Some a \<Rightarrow>
          let taddr = (ucast (a ! 0) :: u32);
              taddr = push_bit 8 taddr + ucast (a ! 1);
              taddr = push_bit 8 taddr + ucast (a ! 2);
              taddr = push_bit 8 taddr + ucast (a ! 3) in
          if taddr = 0 \<and> tmp AND Sn_MR_MACRAW \<noteq> Sn_MR_MACRAW then Some (SOCKERR_IPINVALID, s)
          else if port = 0 \<and> tmp AND Sn_MR_MACRAW \<noteq> Sn_MR_MACRAW then Some (SOCKERR_PORTZERO, s)
          else let (sr, s) = getSn_SR p sn s in
          if sr \<noteq> SOCK_MACRAW \<and> sr \<noteq> SOCK_UDP \<and> sr \<noteq> SOCK_IPRAW then Some (SOCKERR_SOCKSTATUS, s)
          else let s = setSn_DIPR p sn addr s;
                   (_, s) = setSn_DPORT p sn port s
               in Some (SOCK_OK, s))"

definition sendto_space_step ::
    "'w platform \<Rightarrow> u8 \<Rightarrow> u16 \<Rightarrow> u8 \<Rightarrow> u64 \<Rightarrow> wizchip_deadline
       \<Rightarrow> (int + wizchip_deadline, 'w, 'm) sock_wait" where
  "sendto_space_step p sn len nonblocking deadline poll s = do {
     ((ret, fsr), s) \<leftarrow> read_sn_tx_fsr p sn s;
     (case fsr of
        None \<Rightarrow> Some (Inl ret, s)
      | Some freesize \<Rightarrow>
          let (sr, s) = getSn_SR p sn s in
          if sr = SOCK_CLOSED then Some (Inl SOCKERR_SOCKCLOSED, s)
          else if len \<le> freesize then Some (Inl SOCK_OK, s)
          else if nonblocking \<noteq> 0 then Some (Inl SOCK_BUSY, s)
          else let ((e, poll), s) = wait_poll_expired p poll deadline s in
               if e = SOCKERR_DEADLINE then Some (Inl SOCKERR_TIMEOUT, s)
               else Some (Inr poll, s))
   }"

text \<open>Buffer space (or, in MACRAW mode, one look at the status); \<open>SOCK_OK\<close> to go on.\<close>

definition sendto_space ::
    "'w platform \<Rightarrow> u8 \<Rightarrow> u16 \<Rightarrow> u8 \<Rightarrow> bool \<Rightarrow> wizchip_timeout_config \<Rightarrow> (int, 'w, 'm) sock_wait" where
  "sendto_space p sn len nonblocking is_macraw cfg s =
     (if \<not> is_macraw then do {
        let (deadline, s) = wizchip_deadline_abs (ucast (operation_timeout_us cfg)) s;
        let (poll, s) = wait_poll_init deadline s;
        forever (sendto_space_step p sn len nonblocking deadline) poll s
      }
      else let (sr, s) = getSn_SR p sn s in
           if sr = SOCK_CLOSED then Some (SOCKERR_SOCKCLOSED, s) else Some (SOCK_OK, s))"

definition sendto_probe :: "'w platform \<Rightarrow> u8 \<Rightarrow> u8 \<Rightarrow> (int option, 'w, 'm) sock_op" where
  "sendto_probe p sn nonblocking s =
     (let (tmp, s) = getSn_IR p sn s in
      if tmp AND Sn_IR_SENDOK \<noteq> 0 then (Some SOCK_OK, setSn_IR p sn Sn_IR_SENDOK s)
      else if tmp AND Sn_IR_TIMEOUT \<noteq> 0 then (Some SOCKERR_TIMEOUT, setSn_IR p sn Sn_IR_TIMEOUT s)
      else if nonblocking \<noteq> 0 then (Some SOCK_BUSY, s)
      else (None, s))"

text \<open>From the clearing of stale events to the end: copy, SEND, acceptance, completion.\<close>

definition sendto_issue ::
    "'w platform \<Rightarrow> u8 \<Rightarrow> u8 list option \<Rightarrow> u16 \<Rightarrow> u8 \<Rightarrow> wizchip_timeout_config \<Rightarrow> (int, 'w, 'm) sock_op" where
  "sendto_issue p sn buf len nonblocking cfg s =
     (let s = setSn_IR p sn (Sn_IR_SENDOK OR Sn_IR_TIMEOUT) s;
          s = wiz_send_data p sn buf len s;
          s = setSn_CR p sn Sn_CR_SEND s;
          ((ret, d), s) = sock_deadline_begin (command_timeout_us cfg) s in
      case d of
        None \<Rightarrow> (ret, set_sock_tx_state sn SOCK_TX_LOCAL_FAULT s)
      | Some deadline \<Rightarrow>
          let (ret, s) = wait_cr_accepted p sn deadline s in
          if ret \<noteq> SOCK_OK then (ret, set_sock_tx_state sn SOCK_TX_LOCAL_FAULT s)
          else let s = set_sock_tx_pending_len sn len s in
          if nonblocking \<noteq> 0 then (SOCK_BUSY, set_sock_tx_state sn SOCK_TX_DGRAM_PENDING s)
          else let (deadline, s) = wizchip_deadline_abs (ucast (operation_timeout_us cfg)) s;
                   (poll, s) = wait_poll_init deadline s;
                   (ret, s) = poll_until p sn (sendto_probe p sn nonblocking) deadline poll s in
          if ret \<noteq> SOCK_OK then (ret, s) else (uint len, s))"

definition sendto_new ::
    "'w platform \<Rightarrow> u8 \<Rightarrow> u8 list option \<Rightarrow> u16 \<Rightarrow> u8 list option \<Rightarrow> u16 \<Rightarrow> u8 \<Rightarrow> (int, 'w, 'm) sock_wait" where
  "sendto_new p sn buf len addr port addrlen s =
     (let cfg = timeout_config s;
          nonblocking = sock_io_mode s sn;
          is_macraw = (sock_mode s sn AND 0x0F = Sn_MR_MACRAW);
          (ret, s) = sendto_dest p sn addr port addrlen s in
      if ret \<noteq> SOCK_OK then Some (ret, s)
      else do {
        (ret, s) \<leftarrow> sendto_check_dest p sn addr port s;
        if ret \<noteq> SOCK_OK then Some (ret, s)
        else do {
          let len = (if wizchip_txmax_cache s sn < len then wizchip_txmax_cache s sn else len);
          (ret, s) \<leftarrow> sendto_space p sn len nonblocking is_macraw cfg s;
          if ret \<noteq> SOCK_OK then Some (ret, s)
          else Some (sendto_issue p sn buf len nonblocking cfg s)
        }
      })"

definition sendto_locked ::
    "'w platform \<Rightarrow> u8 \<Rightarrow> u8 list option \<Rightarrow> u16 \<Rightarrow> u8 list option \<Rightarrow> u16 \<Rightarrow> u8 \<Rightarrow> (int, 'w, 'm) sock_wait" where
  "sendto_locked p sn buf len addr port addrlen s =
     (if sock_tx_state s sn = SOCK_TX_LOCAL_FAULT then Some (SOCKERR_TIMEOUT, s)
      else if sock_health s sn = SOCK_FAULTED then Some (SOCKERR_IO, s)
      else if wizchip_deadline_config_valid s = 0 then Some (SOCKERR_TIMEOUT, s)
      else if sock_tx_state s sn = SOCK_TX_DGRAM_PENDING then Some (sendto_pending p sn s)
      else sendto_new p sn buf len addr port addrlen s)"

definition sendto_IO_6 ::
    "'w platform \<Rightarrow> u8 \<Rightarrow> u8 list option \<Rightarrow> u16 \<Rightarrow> u8 list option \<Rightarrow> u16 \<Rightarrow> u8 \<Rightarrow> (int, 'w, 'm) sock_wait" where
  "sendto_IO_6 p sn buf len addr port addrlen s =
     (if len = 0 then Some (0, s)
      else if buf = None then Some (SOCKERR_ARG, s)
      else if WIZCHIP_SOCK_NUM \<le> sn then Some (SOCKERR_SOCKNUM, s)
      else do {
        let s = call p (SockEnter sn) s;
        (ret, s) \<leftarrow> sendto_locked p sn buf len addr port addrlen s;
        Some (ret, call p (SockExit sn) s)
      })"

definition sendto_W5x00 ::
    "'w platform \<Rightarrow> u8 \<Rightarrow> u8 list option \<Rightarrow> u16 \<Rightarrow> u8 list option \<Rightarrow> u16 \<Rightarrow> (int, 'w, 'm) sock_wait" where
  "sendto_W5x00 p sn buf len addr port s =
     (if len = 0 then Some (0, s)
      else if buf = None then Some (SOCKERR_ARG, s)
      else if WIZCHIP_SOCK_NUM \<le> sn then Some (SOCKERR_SOCKNUM, s)
      else sendto_IO_6 p sn buf len addr port 4 s)"

definition sendto_W6x00 ::
    "'w platform \<Rightarrow> u8 \<Rightarrow> u8 list option \<Rightarrow> u16 \<Rightarrow> u8 list option \<Rightarrow> u16 \<Rightarrow> u8 \<Rightarrow> (int, 'w, 'm) sock_wait" where
  "sendto_W6x00 p sn buf len addr port addrlen s =
     (if len = 0 then Some (0, s)
      else if buf = None then Some (SOCKERR_ARG, s)
      else if WIZCHIP_SOCK_NUM \<le> sn then Some (SOCKERR_SOCKNUM, s)
      else sendto_IO_6 p sn buf len addr port addrlen s)"

subsection \<open>Receiving a datagram\<close>

text \<open>What \<open>recvfrom\<close> writes through its pointers.\<close>

record dgram_out =
  out_data :: "u8 list"
  out_addr :: "u8 list option"
  out_port :: "u16 option"

definition no_out :: dgram_out where
  "no_out = \<lparr>out_data = [], out_addr = None, out_port = None\<rparr>"

definition recvfrom_wait_step ::
    "'w platform \<Rightarrow> u8 \<Rightarrow> u8 \<Rightarrow> u64 \<Rightarrow> wizchip_deadline
       \<Rightarrow> ((int + u16) + wizchip_deadline, 'w, 'm) sock_wait" where
  "recvfrom_wait_step p sn nonblocking deadline poll s = do {
     ((ret, rsr), s) \<leftarrow> read_sn_rx_rsr p sn s;
     (case rsr of
        None \<Rightarrow> Some (Inl (Inl ret), s)
      | Some pack_len \<Rightarrow>
          let (sr, s) = getSn_SR p sn s in
          if sr = SOCK_CLOSED then Some (Inl (Inl SOCKERR_SOCKCLOSED), s)
          else if pack_len \<noteq> 0 then Some (Inl (Inr pack_len), s)
          else if nonblocking \<noteq> 0 then Some (Inl (Inl SOCK_BUSY), s)
          else let ((e, poll), s) = wait_poll_expired p poll deadline s in
               if e = SOCKERR_DEADLINE then Some (Inl (Inl SOCKERR_TIMEOUT), s)
               else Some (Inr poll, s))
   }"

definition recvfrom_wait ::
    "'w platform \<Rightarrow> u8 \<Rightarrow> u8 \<Rightarrow> wizchip_timeout_config \<Rightarrow> (int + u16, 'w, 'm) sock_wait" where
  "recvfrom_wait p sn nonblocking cfg s =
     (if sock_remained_size s sn = 0 then do {
        let (deadline, s) = wizchip_deadline_abs (ucast (operation_timeout_us cfg)) s;
        let (poll, s) = wait_poll_init deadline s;
        forever (recvfrom_wait_step p sn nonblocking deadline) poll s
      } else Some (Inr 0, s))"

text \<open>Reading \<open>n\<close> header bytes and handing them over to the chip.\<close>

definition recvfrom_header ::
    "'w platform \<Rightarrow> u8 \<Rightarrow> u16 \<Rightarrow> u8 \<Rightarrow> wizchip_timeout_config \<Rightarrow> (int \<times> u8 list, 'w, 'm) sock_op" where
  "recvfrom_header p sn n nonblocking cfg s =
     (let (head, s) = wiz_recv_data p sn True n s;
          s = setSn_CR p sn Sn_CR_RECV s;
          (ret, s) = wait_datagram_cr_accepted p sn (command_timeout_us cfg) nonblocking s
      in ((ret, head), s))"

definition pack_size :: "u16 \<Rightarrow> u16 \<Rightarrow> u16" where
  "pack_size len remained = (if len < remained then len else remained)"

text \<open>The three mode branches: a status (\<open>SOCK_OK\<close> to go on), \<open>pack_len\<close> and the outputs.\<close>

definition recvfrom_udp ::
    "'w platform \<Rightarrow> u8 \<Rightarrow> u16 \<Rightarrow> u16 \<Rightarrow> u8 \<Rightarrow> wizchip_timeout_config
       \<Rightarrow> (int \<times> u16 \<times> dgram_out, 'w, 'm) sock_op" where
  "recvfrom_udp p sn len pack_len nonblocking cfg s =
     (let ((ret, out), s) =
        (if sock_remained_size s sn = 0 then
           let ((ret, head), s) = recvfrom_header p sn 8 nonblocking cfg s in
           if ret \<noteq> SOCK_OK then ((ret, no_out), s)
           else let port = (ucast (head ! 4) :: u16);
                    port = push_bit 8 port + ucast (head ! 5);
                    size = (ucast (head ! 6) :: u16);
                    size = push_bit 8 size + ucast (head ! 7);
                    s = set_sock_remained_size sn size s;
                    s = set_sock_pack_info sn PACK_FIRST s
                in ((SOCK_OK, no_out\<lparr>out_addr := Some (take 4 head), out_port := Some port\<rparr>), s)
         else ((SOCK_OK, no_out), s)) in
      if ret \<noteq> SOCK_OK then ((ret, pack_len, out), s)
      else let pack_len = pack_size len (sock_remained_size s sn);
               (bs, s) = wiz_recv_data p sn True pack_len s
           in ((SOCK_OK, pack_len, out\<lparr>out_data := bs\<rparr>), s))"

definition recvfrom_macraw ::
    "'w platform \<Rightarrow> u8 \<Rightarrow> u16 \<Rightarrow> u16 \<Rightarrow> u8 \<Rightarrow> wizchip_timeout_config
       \<Rightarrow> (int \<times> u16 \<times> dgram_out, 'w, 'm) sock_op" where
  "recvfrom_macraw p sn len pack_len nonblocking cfg s =
     (let (ret, s) =
        (if sock_remained_size s sn = 0 then
           let ((ret, head), s) = recvfrom_header p sn 2 nonblocking cfg s in
           if ret \<noteq> SOCK_OK then (ret, s)
           else let s = set_sock_remained_size sn (ucast (head ! 0)) s;
                    pkt_len = push_bit 8 (sock_remained_size s sn) OR ucast (head ! 1) in
           if pkt_len < 2
           then let (_, s) = close_internal p sn True 0 s in (SOCKFATAL_PACKLEN, s)
           else let s = set_sock_remained_size sn (pkt_len - 2) s in
           if 1514 < sock_remained_size s sn
           then let (_, s) = close_internal p sn True 0 s in (SOCKFATAL_PACKLEN, s)
           else (SOCK_OK, set_sock_pack_info sn PACK_FIRST s)
         else (SOCK_OK, s)) in
      if ret \<noteq> SOCK_OK then ((ret, pack_len, no_out), s)
      else let pack_len = pack_size len (sock_remained_size s sn);
               (bs, s) = wiz_recv_data p sn True pack_len s
           in ((SOCK_OK, pack_len, no_out\<lparr>out_data := bs\<rparr>), s))"

definition recvfrom_ipraw ::
    "'w platform \<Rightarrow> u8 \<Rightarrow> u16 \<Rightarrow> u16 \<Rightarrow> u8 \<Rightarrow> wizchip_timeout_config
       \<Rightarrow> (int \<times> u16 \<times> dgram_out, 'w, 'm) sock_op" where
  "recvfrom_ipraw p sn len pack_len nonblocking cfg s =
     (let ((ret, out), s) =
        (if sock_remained_size s sn = 0 then
           let ((ret, head), s) = recvfrom_header p sn 6 nonblocking cfg s in
           if ret \<noteq> SOCK_OK then ((ret, no_out), s)
           else let size = (ucast (head ! 4) :: u16);
                    size = push_bit 8 size + ucast (head ! 5);
                    s = set_sock_remained_size sn size s;
                    s = set_sock_pack_info sn PACK_FIRST s
                in ((SOCK_OK, no_out\<lparr>out_addr := Some (take 4 head)\<rparr>), s)
         else ((SOCK_OK, no_out), s)) in
      if ret \<noteq> SOCK_OK then ((ret, pack_len, out), s)
      else if 0 < sock_remained_size s sn then
        let pack_len = pack_size len (sock_remained_size s sn);
            (bs, s) = wiz_recv_data p sn True pack_len s
        in ((SOCK_OK, pack_len, out\<lparr>out_data := bs\<rparr>), s)
      else ((SOCK_OK, pack_len, out), s))"

text \<open>The common end: give the bytes back to the chip and account for them.\<close>

definition recvfrom_finish ::
    "'w platform \<Rightarrow> u8 \<Rightarrow> u16 \<Rightarrow> u8 \<Rightarrow> wizchip_timeout_config \<Rightarrow> (int, 'w, 'm) sock_op" where
  "recvfrom_finish p sn pack_len nonblocking cfg s =
     (let s = setSn_CR p sn Sn_CR_RECV s;
          (ret, s) = wait_datagram_cr_accepted p sn (command_timeout_us cfg) nonblocking s in
      if ret \<noteq> SOCK_OK then (ret, s)
      else let s = set_sock_remained_size sn (sock_remained_size s sn - pack_len) s;
               s = (if sock_remained_size s sn \<noteq> 0
                    then set_sock_pack_info sn (sock_pack_info s sn OR PACK_REMAINED) s
                    else set_sock_pack_info sn (sock_pack_info s sn OR PACK_COMPLETED) s)
           in (uint pack_len, s))"

definition recvfrom_packet ::
    "'w platform \<Rightarrow> u8 \<Rightarrow> u16 \<Rightarrow> u16 \<Rightarrow> u8 \<Rightarrow> u8 \<Rightarrow> wizchip_timeout_config
       \<Rightarrow> (int \<times> dgram_out, 'w, 'm) sock_op" where
  "recvfrom_packet p sn len pack_len mr nonblocking cfg s =
     (let m = mr AND 0x07;
          ((ret, pack_len, out), s) =
            (if m = Sn_MR_UDP then recvfrom_udp p sn len pack_len nonblocking cfg s
             else if m = Sn_MR_MACRAW then recvfrom_macraw p sn len pack_len nonblocking cfg s
             else if m = Sn_MR_IPRAW then recvfrom_ipraw p sn len pack_len nonblocking cfg s
             else let s = wiz_recv_ignore p sn pack_len s
                  in ((SOCK_OK, pack_len, no_out), set_sock_remained_size sn pack_len s)) in
      if ret \<noteq> SOCK_OK then ((ret, out), s)
      else let (ret, s) = recvfrom_finish p sn pack_len nonblocking cfg s in ((ret, out), s))"

definition recvfrom_locked ::
    "'w platform \<Rightarrow> u8 \<Rightarrow> u16 \<Rightarrow> bool \<Rightarrow> bool \<Rightarrow> (int \<times> dgram_out, 'w, 'm) sock_wait" where
  "recvfrom_locked p sn len addr port s =
     (if sock_health s sn = SOCK_FAULTED then Some ((SOCKERR_IO, no_out), s)
      else if wizchip_deadline_config_valid s = 0 then Some ((SOCKERR_TIMEOUT, no_out), s)
      else let cfg = timeout_config s; nonblocking = sock_io_mode s sn;
               mr = sock_mode s sn; m = mr AND 0x0F in
      if m \<noteq> Sn_MR_UDP \<and> m \<noteq> Sn_MR_IPRAW \<and> m \<noteq> Sn_MR_IPRAW6 \<and> m \<noteq> Sn_MR_MACRAW
      then Some ((SOCKERR_SOCKMODE, no_out), s)
      else do {
        (r, s) \<leftarrow> recvfrom_wait p sn nonblocking cfg s;
        (case r of
           Inl ret \<Rightarrow> Some ((ret, no_out), s)
         | Inr pack_len \<Rightarrow>
             if \<not> addr \<or> \<not> port then Some ((SOCKERR_ARG, no_out), s)
             else Some (recvfrom_packet p sn len pack_len mr nonblocking cfg s))
      })"

definition recvfrom_IO_6 ::
    "'w platform \<Rightarrow> u8 \<Rightarrow> bool \<Rightarrow> u16 \<Rightarrow> bool \<Rightarrow> bool \<Rightarrow> (int \<times> dgram_out, 'w, 'm) sock_wait" where
  "recvfrom_IO_6 p sn buf len addr port s =
     (if len = 0 then Some ((0, no_out), s)
      else if \<not> buf then Some ((SOCKERR_ARG, no_out), s)
      else if WIZCHIP_SOCK_NUM \<le> sn then Some ((SOCKERR_SOCKNUM, no_out), s)
      else do {
        let s = call p (SockEnter sn) s;
        (ret, s) \<leftarrow> recvfrom_locked p sn len addr port s;
        Some (ret, call p (SockExit sn) s)
      })"

definition recvfrom_W5x00 ::
    "'w platform \<Rightarrow> u8 \<Rightarrow> bool \<Rightarrow> u16 \<Rightarrow> bool \<Rightarrow> bool \<Rightarrow> (int \<times> dgram_out, 'w, 'm) sock_wait" where
  "recvfrom_W5x00 p sn buf len addr port s =
     (if len = 0 then Some ((0, no_out), s)
      else if \<not> buf then Some ((SOCKERR_ARG, no_out), s)
      else if WIZCHIP_SOCK_NUM \<le> sn then Some ((SOCKERR_SOCKNUM, no_out), s)
      else recvfrom_IO_6 p sn buf len addr port s)"

definition recvfrom_W6x00 ::
    "'w platform \<Rightarrow> u8 \<Rightarrow> bool \<Rightarrow> u16 \<Rightarrow> bool \<Rightarrow> bool \<Rightarrow> (int \<times> dgram_out, 'w, 'm) sock_wait" where
  "recvfrom_W6x00 p sn buf len addr port s =
     (if len = 0 then Some ((0, no_out), s)
      else if \<not> buf then Some ((SOCKERR_ARG, no_out), s)
      else if WIZCHIP_SOCK_NUM \<le> sn then Some ((SOCKERR_SOCKNUM, no_out), s)
      else recvfrom_IO_6 p sn buf len addr port s)"

subsection \<open>The calls under the contracts of sockets\<close>

context sock_relation
begin

lemma R_dgram_steps:
  "R s0 s \<Longrightarrow> wpo (sendto_space_step p sn len nb d poll s) (\<lambda>_. R s0)"
  "R s0 s \<Longrightarrow> wpt (sendto_probe p sn nb s) (\<lambda>_. R s0)"
  "R s0 s \<Longrightarrow> wpo (recvfrom_wait_step p sn nb d poll s) (\<lambda>_. R s0)"
  unfolding sendto_space_step_def sendto_probe_def recvfrom_wait_step_def reg_defs
  by (auto intro!: wp sock_rel)

lemma R_sendto_pending:
  assumes "R s0 s" and Q: "\<And>v s'. R s0 s' \<Longrightarrow> Q v s'"
  shows "wpt (sendto_pending p sn s) Q"
  using assms(1) unfolding sendto_pending_def reg_defs by (auto intro!: Q wp sock_rel)

lemma R_sendto_dest:
  assumes "R s0 s" and Q: "\<And>v s'. R s0 s' \<Longrightarrow> Q v s'"
  shows "wpt (sendto_dest p sn addr port addrlen s) Q"
  using assms(1) unfolding sendto_dest_def reg_defs by (auto intro!: Q wp sock_rel)

lemma R_sendto_check_dest:
  assumes "R s0 s" and Q: "\<And>v s'. R s0 s' \<Longrightarrow> Q v s'"
  shows "wpo (sendto_check_dest p sn addr port s) Q"
  using assms(1) unfolding sendto_check_dest_def reg_defs by (auto intro!: Q wp sock_rel)

lemma R_sendto_space:
  assumes "R s0 s" and Q: "\<And>v s'. R s0 s' \<Longrightarrow> Q v s'"
  shows "wpo (sendto_space p sn len nb mac cfg s) Q"
  using assms(1) unfolding sendto_space_def reg_defs
  by (auto intro!: Q wp sock_rel R_forever R_dgram_steps)

lemma R_sendto_issue:
  assumes "R s0 s" and Q: "\<And>v s'. R s0 s' \<Longrightarrow> Q v s'"
  shows "wpt (sendto_issue p sn buf len nb cfg s) Q"
  using assms(1) unfolding sendto_issue_def reg_defs
  by (auto intro!: Q wp sock_rel R_poll_until R_dgram_steps)

lemma R_sendto_locked:
  assumes "R s0 s" and Q: "\<And>v s'. R s0 s' \<Longrightarrow> Q v s'"
  shows "wpo (sendto_locked p sn buf len addr port addrlen s) Q"
  using assms(1) unfolding sendto_locked_def sendto_new_def
  by (auto intro!: Q wp R_sendto_pending R_sendto_dest R_sendto_check_dest R_sendto_space R_sendto_issue)

lemma R_recvfrom_header:
  assumes "R s0 s" and Q: "\<And>v s'. R s0 s' \<Longrightarrow> Q v s'"
  shows "wpt (recvfrom_header p sn n nb cfg s) Q"
  using assms(1) unfolding recvfrom_header_def reg_defs by (auto intro!: Q wp sock_rel)

lemma R_recvfrom_udp:
  assumes "R s0 s" and Q: "\<And>v s'. R s0 s' \<Longrightarrow> Q v s'"
  shows "wpt (recvfrom_udp p sn len pl nb cfg s) Q"
  using assms(1) unfolding recvfrom_udp_def Let_def
  by (auto intro!: Q wp sock_rel R_recvfrom_header)

lemma R_recvfrom_macraw:
  assumes "R s0 s" and Q: "\<And>v s'. R s0 s' \<Longrightarrow> Q v s'"
  shows "wpt (recvfrom_macraw p sn len pl nb cfg s) Q"
  using assms(1) unfolding recvfrom_macraw_def
  by (auto intro!: Q wp sock_rel R_recvfrom_header R_close_internal)

lemma R_recvfrom_ipraw:
  assumes "R s0 s" and Q: "\<And>v s'. R s0 s' \<Longrightarrow> Q v s'"
  shows "wpt (recvfrom_ipraw p sn len pl nb cfg s) Q"
  using assms(1) unfolding recvfrom_ipraw_def Let_def
  by (auto intro!: Q wp sock_rel R_recvfrom_header)

lemma R_recvfrom_packet:
  assumes "R s0 s" and Q: "\<And>v s'. R s0 s' \<Longrightarrow> Q v s'"
  shows "wpt (recvfrom_packet p sn len pl mr nb cfg s) Q"
  using assms(1) unfolding recvfrom_packet_def recvfrom_finish_def reg_defs
  by (auto intro!: Q wp sock_rel R_recvfrom_udp R_recvfrom_macraw R_recvfrom_ipraw)

lemma R_recvfrom_locked:
  assumes "R s0 s" and Q: "\<And>v s'. R s0 s' \<Longrightarrow> Q v s'"
  shows "wpo (recvfrom_locked p sn len addr port s) Q"
  using assms(1) unfolding recvfrom_locked_def recvfrom_wait_def Let_def
  by (auto intro!: Q wp sock_rel R_forever R_dgram_steps R_recvfrom_packet)

end

context api_relation
begin

lemma A_sendto:
  assumes "A s0 s" and Q: "\<And>v s'. A s0 s' \<Longrightarrow> Q v s'"
  shows "wpo (sendto_IO_6 p sn buf len addr port addrlen s) Q"
  using assms(1) unfolding sendto_IO_6_def Let_def
  by (auto intro!: Q wpo_if wpo_Some A_locked_wait [OF R_sendto_locked] R_refl
      simp: WIZCHIP_SOCK_NUM_def not_le)

lemma A_recvfrom:
  assumes "A s0 s" and Q: "\<And>v s'. A s0 s' \<Longrightarrow> Q v s'"
  shows "wpo (recvfrom_IO_6 p sn buf len addr port s) Q"
  using assms(1) unfolding recvfrom_IO_6_def Let_def
  by (auto intro!: Q wpo_if wpo_Some A_locked_wait [OF R_recvfrom_locked] R_refl
      simp: WIZCHIP_SOCK_NUM_def not_le)

end

lemmas dgram_defs =
  sendto_pending_def sendto_dest_def sendto_check_dest_def sendto_space_step_def
  sendto_space_def sendto_probe_def sendto_issue_def sendto_new_def sendto_locked_def
  sendto_IO_6_def sendto_W5x00_def sendto_W6x00_def no_out_def recvfrom_wait_step_def
  recvfrom_wait_def recvfrom_header_def pack_size_def recvfrom_udp_def recvfrom_macraw_def
  recvfrom_ipraw_def recvfrom_finish_def recvfrom_packet_def recvfrom_locked_def
  recvfrom_IO_6_def recvfrom_W5x00_def recvfrom_W6x00_def

end
