(* ===== verification/SockCtl.thy ===== *)
theory SockCtl
  imports SockDgram
begin

text \<open>
  The control calls of \<open>Ethernet/socket.c\<close>: \<open>ctlsocket\<close>, \<open>setsockopt\<close> and \<open>getsockopt\<close>. What
  the \<open>void *arg\<close> of a call points to is \<open>opt_arg\<close>, the values a read of that memory at each
  of the used types gives (\<open>None\<close> is the null pointer); what a call stores through it is an
  \<open>opt_val\<close>.
\<close>

unbundle bit_operations_syntax

datatype ctlsock_type =
    CS_SET_IOMODE | CS_GET_IOMODE | CS_GET_MAXTXBUF | CS_GET_MAXRXBUF | CS_CLR_INTERRUPT
  | CS_GET_INTERRUPT | CS_SET_PREFER | CS_GET_PREFER | CS_SET_INTMASK | CS_GET_INTMASK
  | CS_GET_TX_STATE

datatype sockopt_type =
    SO_FLAG | SO_TTL | SO_TOS | SO_MSS | SO_DESTIP | SO_DESTPORT | SO_KEEPALIVESEND
  | SO_KEEPALIVEAUTO | SO_SENDBUF | SO_RECVBUF | SO_STATUS | SO_EXTSTATUS | SO_MODE
  | SO_REMAINSIZE | SO_PACKINFO

record opt_arg =
  arg_u8 :: u8
  arg_u16 :: u16
  arg_bytes :: "u8 list"

datatype opt_val = V8 u8 | V16 u16 | VBytes "u8 list" | VTxState sock_tx_state_t

definition SOCK_IO_BLOCK :: u8 where [simp]: "SOCK_IO_BLOCK = 0"
definition SOCK_IO_NONBLOCK :: u8 where [simp]: "SOCK_IO_NONBLOCK = 1"
definition SIK_ALL :: u8 where [simp]: "SIK_ALL = 0x1F"

subsection \<open>\<open>ctlsocket\<close>\<close>

definition ctlsocket_locked ::
    "'w platform \<Rightarrow> u8 \<Rightarrow> ctlsock_type \<Rightarrow> opt_arg \<Rightarrow> (int \<times> opt_val option, 'w, 'm) sock_op" where
  "ctlsocket_locked p sn cstype arg s =
     (if cstype = CS_GET_TX_STATE then ((SOCK_OK, Some (VTxState (sock_tx_state s sn))), s)
      else if sock_health s sn = SOCK_FAULTED then ((SOCKERR_IO, None), s)
      else case cstype of
        CS_SET_IOMODE \<Rightarrow>
          let tmp = arg_u8 arg in
          if tmp = SOCK_IO_NONBLOCK then ((SOCK_OK, None), set_sock_io_mode sn 1 s)
          else if tmp = SOCK_IO_BLOCK then ((SOCK_OK, None), set_sock_io_mode sn 0 s)
          else ((SOCKERR_ARG, None), s)
      | CS_GET_IOMODE \<Rightarrow> ((SOCK_OK, Some (V8 (sock_io_mode s sn))), s)
      | CS_GET_MAXTXBUF \<Rightarrow> ((SOCK_OK, Some (V16 (wizchip_txmax_cache s sn))), s)
      | CS_GET_MAXRXBUF \<Rightarrow> ((SOCK_OK, Some (V16 (wizchip_rxmax_cache s sn))), s)
      | CS_CLR_INTERRUPT \<Rightarrow>
          let tmp = arg_u8 arg in
          if SIK_ALL < tmp then ((SOCKERR_ARG, None), s)
          else ((SOCK_OK, None), setSn_IR p sn tmp s)
      | CS_GET_INTERRUPT \<Rightarrow> let (v, s) = getSn_IR p sn s in ((SOCK_OK, Some (V8 v)), s)
      | CS_SET_INTMASK \<Rightarrow>
          let tmp = arg_u8 arg in
          if SIK_ALL < tmp then ((SOCKERR_ARG, None), s)
          else ((SOCK_OK, None), setSn_IMR p sn tmp s)
      | CS_GET_INTMASK \<Rightarrow> let (v, s) = getSn_IMR p sn s in ((SOCK_OK, Some (V8 v)), s)
      | _ \<Rightarrow> ((SOCKERR_ARG, None), s))"

definition ctlsocket ::
    "'w platform \<Rightarrow> u8 \<Rightarrow> ctlsock_type \<Rightarrow> opt_arg option \<Rightarrow> (int \<times> opt_val option, 'w, 'm) sock_op" where
  "ctlsocket p sn cstype arg s =
     (if WIZCHIP_SOCK_NUM \<le> sn then ((SOCKERR_SOCKNUM, None), s)
      else case arg of
        None \<Rightarrow> ((SOCKERR_ARG, None), s)
      | Some a \<Rightarrow>
          let s = call p (SockEnter sn) s;
              (ret, s) = ctlsocket_locked p sn cstype a s
          in (ret, call p (SockExit sn) s))"

subsection \<open>\<open>setsockopt\<close>\<close>

definition keepalive_send :: "'w platform \<Rightarrow> u8 \<Rightarrow> (int, 'w, 'm) sock_op" where
  "keepalive_send p sn s =
     (if sock_mode s sn AND 0x03 \<noteq> 0x01 then (SOCKERR_SOCKMODE, s)
      else let (kp, s) = getSn_KPALVTR p sn s in
      if kp \<noteq> 0 then (SOCKERR_SOCKOPT, s)
      else if wizchip_deadline_config_valid s = 0 then (SOCKERR_TIMEOUT, s)
      else let (deadline, s) = wizchip_deadline_abs (ucast (command_timeout_us (timeout_config s))) s;
               (poll, s) = wait_poll_init deadline s;
               s = setSn_CR p sn Sn_CR_SEND_KEEP s
           in poll_until p sn (datagram_probe p sn) deadline poll s)"

definition setsockopt_locked ::
    "'w platform \<Rightarrow> u8 \<Rightarrow> sockopt_type \<Rightarrow> opt_arg option \<Rightarrow> (int, 'w, 'm) sock_op" where
  "setsockopt_locked p sn sotype arg s =
     (if sock_health s sn = SOCK_FAULTED then (SOCKERR_IO, s)
      else if sotype = SO_KEEPALIVESEND then keepalive_send p sn s
      else case arg of
        None \<Rightarrow> (SOCKERR_ARG, s)
      | Some a \<Rightarrow>
         (case sotype of
            SO_TTL \<Rightarrow> (SOCK_OK, setSn_TTL p sn (arg_u8 a) s)
          | SO_TOS \<Rightarrow> (SOCK_OK, setSn_TOS p sn (arg_u8 a) s)
          | SO_MSS \<Rightarrow> let (_, s) = setSn_MSSR p sn (arg_u16 a) s in (SOCK_OK, s)
          | SO_DESTIP \<Rightarrow> (SOCK_OK, setSn_DIPR p sn (Some (arg_bytes a)) s)
          | SO_DESTPORT \<Rightarrow> let (_, s) = setSn_DPORT p sn (arg_u16 a) s in (SOCK_OK, s)
          | SO_KEEPALIVEAUTO \<Rightarrow>
              if sock_mode s sn AND 0x03 \<noteq> 0x01 then (SOCKERR_SOCKMODE, s)
              else (SOCK_OK, setSn_KPALVTR p sn (arg_u8 a) s)
          | _ \<Rightarrow> (SOCKERR_ARG, s)))"

definition setsockopt ::
    "'w platform \<Rightarrow> u8 \<Rightarrow> sockopt_type \<Rightarrow> opt_arg option \<Rightarrow> (int, 'w, 'm) sock_op" where
  "setsockopt p sn sotype arg s =
     (if WIZCHIP_SOCK_NUM \<le> sn then (SOCKERR_SOCKNUM, s)
      else if arg = None \<and> sotype \<noteq> SO_KEEPALIVESEND then (SOCKERR_ARG, s)
      else let s = call p (SockEnter sn) s;
               (ret, s) = setsockopt_locked p sn sotype arg s
           in (ret, call p (SockExit sn) s))"

subsection \<open>\<open>getsockopt\<close>\<close>

text \<open>A counter read straight into the caller's memory: stored only when it succeeded.\<close>

definition counter_opt :: "int \<times> u16 option \<Rightarrow> int \<times> opt_val option" where
  "counter_opt r = (case r of (ret, v) \<Rightarrow>
     (if ret \<noteq> 0 then SOCKERR_IO else SOCK_OK, case v of None \<Rightarrow> None | Some x \<Rightarrow> Some (V16 x)))"

definition getsockopt_locked ::
    "'w platform \<Rightarrow> u8 \<Rightarrow> sockopt_type \<Rightarrow> (int \<times> opt_val option, 'w, 'm) sock_wait" where
  "getsockopt_locked p sn sotype s =
     (if sock_health s sn = SOCK_FAULTED \<and> sotype \<noteq> SO_STATUS then Some ((SOCKERR_IO, None), s)
      else case sotype of
        SO_FLAG \<Rightarrow>
          let (mode, s) = sock_mode_cached_or_read p sn s in
          Some ((SOCK_OK, Some (V8 ((mode AND 0xF0) OR push_bit 3 (sock_io_mode s sn)))), s)
      | SO_TTL \<Rightarrow> let (v, s) = getSn_TTL p sn s in Some ((SOCK_OK, Some (V8 v)), s)
      | SO_TOS \<Rightarrow> let (v, s) = getSn_TOS p sn s in Some ((SOCK_OK, Some (V8 v)), s)
      | SO_MSS \<Rightarrow> let (v, s) = getSn_MSSR p sn s in Some ((SOCK_OK, Some (V16 v)), s)
      | SO_DESTIP \<Rightarrow> let (v, s) = getSn_DIPR p sn s in Some ((SOCK_OK, Some (VBytes v)), s)
      | SO_DESTPORT \<Rightarrow> let (v, s) = getSn_DPORT p sn s in Some ((SOCK_OK, Some (V16 v)), s)
      | SO_KEEPALIVEAUTO \<Rightarrow>
          if sock_mode s sn AND 0x03 \<noteq> 0x01 then Some ((SOCKERR_SOCKMODE, None), s)
          else let (v, s) = getSn_KPALVTR p sn s in Some ((SOCK_OK, Some (V8 v)), s)
      | SO_SENDBUF \<Rightarrow> do { (r, s) \<leftarrow> read_sn_tx_fsr p sn s; Some (counter_opt r, s) }
      | SO_RECVBUF \<Rightarrow> do { (r, s) \<leftarrow> read_sn_rx_rsr p sn s; Some (counter_opt r, s) }
      | SO_STATUS \<Rightarrow> let (v, s) = getSn_SR p sn s in Some ((SOCK_OK, Some (V8 v)), s)
      | SO_REMAINSIZE \<Rightarrow>
          let (mode, s) = sock_mode_cached_or_read p sn s in
          if mode AND 0x0F = Sn_MR_TCP then do { (r, s) \<leftarrow> read_sn_rx_rsr p sn s; Some (counter_opt r, s) }
          else Some ((SOCK_OK, Some (V16 (sock_remained_size s sn))), s)
      | SO_PACKINFO \<Rightarrow>
          let (mode, s) = sock_mode_cached_or_read p sn s in
          if mode AND 0x0F = Sn_MR_TCP then Some ((SOCKERR_SOCKMODE, None), s)
          else Some ((SOCK_OK, Some (V8 (sock_pack_info s sn))), s)
      | _ \<Rightarrow> Some ((SOCKERR_SOCKOPT, None), s))"

definition getsockopt ::
    "'w platform \<Rightarrow> u8 \<Rightarrow> sockopt_type \<Rightarrow> bool \<Rightarrow> (int \<times> opt_val option, 'w, 'm) sock_wait" where
  "getsockopt p sn sotype arg s =
     (if WIZCHIP_SOCK_NUM \<le> sn then Some ((SOCKERR_SOCKNUM, None), s)
      else if \<not> arg then Some ((SOCKERR_ARG, None), s)
      else do {
        let s = call p (SockEnter sn) s;
        (ret, s) \<leftarrow> getsockopt_locked p sn sotype s;
        Some (ret, call p (SockExit sn) s)
      })"

subsection \<open>The calls under the contracts of sockets\<close>

context sock_relation
begin

lemma R_ctlsocket_locked:
  assumes "R s0 s" and Q: "\<And>v s'. R s0 s' \<Longrightarrow> Q v s'"
  shows "wpt (ctlsocket_locked p sn cstype arg s) Q"
  using assms(1) unfolding ctlsocket_locked_def reg_defs Let_def
  by (cases cstype) (auto intro!: Q wp sock_rel)

lemma R_keepalive:
  assumes "R s0 s" and Q: "\<And>v s'. R s0 s' \<Longrightarrow> Q v s'"
  shows "wpt (keepalive_send p sn s) Q"
  using assms(1) unfolding keepalive_send_def reg_defs
  by (auto intro!: Q wp sock_rel R_poll_until R_probes)

lemma R_setsockopt_locked:
  assumes "R s0 s" and Q: "\<And>v s'. R s0 s' \<Longrightarrow> Q v s'"
  shows "wpt (setsockopt_locked p sn sotype arg s) Q"
  using assms(1) unfolding setsockopt_locked_def reg_defs
  by (cases sotype) (auto intro!: Q wp sock_rel R_keepalive)

lemma R_getsockopt_locked:
  assumes "R s0 s" and Q: "\<And>v s'. R s0 s' \<Longrightarrow> Q v s'"
  shows "wpo (getsockopt_locked p sn sotype s) Q"
  using assms(1) unfolding getsockopt_locked_def reg_defs
  by (cases sotype) (auto intro!: Q wp sock_rel)

end

context api_relation
begin

lemma A_ctlsocket:
  assumes "A s0 s" and Q: "\<And>v s'. A s0 s' \<Longrightarrow> Q v s'"
  shows "wpt (ctlsocket p sn cstype arg s) Q"
  using assms(1) unfolding ctlsocket_def
  by (auto intro!: Q wp A_locked [OF R_ctlsocket_locked] R_refl simp: WIZCHIP_SOCK_NUM_def not_le)

lemma A_setsockopt:
  assumes "A s0 s" and Q: "\<And>v s'. A s0 s' \<Longrightarrow> Q v s'"
  shows "wpt (setsockopt p sn sotype arg s) Q"
  using assms(1) unfolding setsockopt_def
  by (auto intro!: Q wp A_locked [OF R_setsockopt_locked] R_refl simp: WIZCHIP_SOCK_NUM_def not_le)

lemma A_getsockopt:
  assumes "A s0 s" and Q: "\<And>v s'. A s0 s' \<Longrightarrow> Q v s'"
  shows "wpo (getsockopt p sn sotype arg s) Q"
  using assms(1) unfolding getsockopt_def Let_def
  by (auto intro!: Q wpo_if wpo_Some A_locked_wait [OF R_getsockopt_locked] R_refl
      simp: WIZCHIP_SOCK_NUM_def not_le)

end

lemmas ctl_defs =
  ctlsocket_locked_def ctlsocket_def keepalive_send_def setsockopt_locked_def setsockopt_def
  counter_opt_def getsockopt_locked_def getsockopt_def

end
