(* ===== verification/SockSpec.thy ===== *)
theory SockSpec
  imports SockCtl
begin

text \<open>
  What every socket call keeps, whatever the chip answers: the lock discipline, the framing
  of the bus, the state of the other sockets, the range of ephemeral ports and a recorded
  fault. Each is an interpretation of \<open>api_relation\<close>, lifted to sequences of calls by rule
  induction over the step relation \<open>api_step\<close>.
\<close>

unbundle bit_operations_syntax

subsection \<open>Sequences of API calls\<close>

text \<open>One step is one returning call of the socket interface, on any socket, with any arguments.\<close>

inductive api_step :: "'w platform \<Rightarrow> u8 \<Rightarrow> ('w, 'm) drv_scheme \<Rightarrow> ('w, 'm) drv_scheme \<Rightarrow> bool"
  for p :: "'w platform" where
  step_socket: "socket p sn protocol port flag s = (r, s') \<Longrightarrow> api_step p sn s s'"
| step_close: "close p sn s = (r, s') \<Longrightarrow> api_step p sn s s'"
| step_listen: "listen p sn s = (r, s') \<Longrightarrow> api_step p sn s s'"
| step_connect: "connect_IO_6 p sn addr port addrlen s = Some (r, s') \<Longrightarrow> api_step p sn s s'"
| step_disconnect: "disconnect p sn s = Some (r, s') \<Longrightarrow> api_step p sn s s'"
| step_send: "send p sn buf len s = Some (r, s') \<Longrightarrow> api_step p sn s s'"
| step_recv: "recv p sn out len s = Some (o_recv, s') \<Longrightarrow> api_step p sn s s'"
| step_sendto: "sendto_IO_6 p sn buf len addr port addrlen s = Some (r, s') \<Longrightarrow> api_step p sn s s'"
| step_recvfrom: "recvfrom_IO_6 p sn out len a q s = Some (o_dgram, s') \<Longrightarrow> api_step p sn s s'"
| step_ctlsocket: "ctlsocket p sn cstype arg s = (o_ctl, s') \<Longrightarrow> api_step p sn s s'"
| step_setsockopt: "setsockopt p sn sotype arg s = (r, s') \<Longrightarrow> api_step p sn s s'"
| step_getsockopt: "getsockopt p sn sotype out s = Some (o_opt, s') \<Longrightarrow> api_step p sn s s'"

inductive api_run :: "'w platform \<Rightarrow> ('w, 'm) drv_scheme \<Rightarrow> ('w, 'm) drv_scheme \<Rightarrow> bool"
  for p :: "'w platform" where
  run_nil: "api_run p s s"
| run_step: "\<lbrakk>api_run p s s'; api_step p sn s' s''\<rbrakk> \<Longrightarrow> api_run p s s''"

context api_relation
begin

lemma A_api_step:
  assumes "api_step p sn s s'"
  shows "A s s'"
  using assms
proof cases
  case (step_socket protocol port flag r)
  with A_socket [OF A_refl, of s "\<lambda>_. A s"] show ?thesis by (metis wptD)
next
  case (step_close r)
  with A_close [OF A_refl, of s "\<lambda>_. A s"] show ?thesis by (metis wptD)
next
  case (step_listen r)
  with A_listen [OF A_refl, of s "\<lambda>_. A s"] show ?thesis by (metis wptD)
next
  case (step_connect addr port addrlen r)
  with A_connect [OF A_refl, of s "\<lambda>_. A s"] show ?thesis by (metis wpoD)
next
  case (step_disconnect r)
  with A_disconnect [OF A_refl, of s "\<lambda>_. A s"] show ?thesis by (metis wpoD)
next
  case (step_send buf len r)
  with A_send [OF A_refl, of s "\<lambda>_. A s"] show ?thesis by (metis wpoD)
next
  case (step_recv out len o_recv)
  with A_recv [OF A_refl, of s "\<lambda>_. A s"] show ?thesis by (metis wpoD)
next
  case (step_sendto buf len addr port addrlen r)
  with A_sendto [OF A_refl, of s "\<lambda>_. A s"] show ?thesis by (metis wpoD)
next
  case (step_recvfrom out len a q o_dgram)
  with A_recvfrom [OF A_refl, of s "\<lambda>_. A s"] show ?thesis by (metis wpoD)
next
  case (step_ctlsocket cstype arg o_ctl)
  with A_ctlsocket [OF A_refl, of s "\<lambda>_. A s"] show ?thesis by (metis wptD)
next
  case (step_setsockopt sotype arg r)
  with A_setsockopt [OF A_refl, of s "\<lambda>_. A s"] show ?thesis by (metis wptD)
next
  case (step_getsockopt sotype out o_opt)
  with A_getsockopt [OF A_refl, of s "\<lambda>_. A s"] show ?thesis by (metis wpoD)
qed

end

subsection \<open>The five contracts\<close>

definition locks_same :: "('w, 'm) drv_scheme \<Rightarrow> ('w, 'm) drv_scheme \<Rightarrow> bool" where
  "locks_same s s' \<longleftrightarrow> lock_phase (trace s') = lock_phase (trace s)"

definition no_locks :: "('w, 'm) drv_scheme \<Rightarrow> bool" where
  "no_locks s \<longleftrightarrow> lock_phase (trace s) = Locks False []"

definition bus_idle :: "('w, 'm) drv_scheme \<Rightarrow> bool" where
  "bus_idle s \<longleftrightarrow> bus_phase (trace s) = BusIdle"

text \<open>Everything a call on \<open>sn\<close> must leave alone.\<close>

definition isolated :: "u8 \<Rightarrow> ('w, 'm) drv_scheme \<Rightarrow> ('w, 'm) drv_scheme \<Rightarrow> bool" where
  "isolated sn s s' \<longleftrightarrow> (\<forall>m. m \<noteq> sn \<longrightarrow> sock_same m s s')
     \<and> wizchip_txmax_cache s' = wizchip_txmax_cache s \<and> wizchip_rxmax_cache s' = wizchip_rxmax_cache s
     \<and> DNS_server s' = DNS_server s \<and> DHCP_mode s' = DHCP_mode s
     \<and> timeout_config s' = timeout_config s \<and> drv.more s' = drv.more s"

definition port_ok :: "u16 \<Rightarrow> bool" where
  "port_ok v \<longleftrightarrow> 0xC000 \<le> v \<and> v < 0xFFF0"

lemma port_ok_next: "port_ok v \<Longrightarrow> port_ok (next_any_port v)"
proof -
  assume v: "port_ok v"
  then have lt: "v < 0xFFF0" by (simp add: port_ok_def)
  note n = unat_plus_one [OF lt]
  from v lt show ?thesis
    by (auto simp: port_ok_def next_any_port_def Let_def SOCK_ANY_PORT_NUM_def word_le_nat_alt
        word_less_nat_alt n word_unat_eq_iff)
qed

lemma chip_frame_conf:
  assumes "chip_frame s s'"
  shows "(\<forall>m. sock_same m s s') \<and> wizchip_txmax_cache s' = wizchip_txmax_cache s
     \<and> wizchip_rxmax_cache s' = wizchip_rxmax_cache s
     \<and> DNS_server s' = DNS_server s \<and> DHCP_mode s' = DHCP_mode s
     \<and> timeout_config s' = timeout_config s \<and> sock_any_port s' = sock_any_port s
     \<and> drv.more s' = drv.more s"
  using assms unfolding chip_frame_def sock_same_def
  by (cases s; cases s') simp

text \<open>A step that register traffic, waiting and the fields of \<open>sn\<close> respect.\<close>

lemma isolated_frame: "chip_frame s s' \<Longrightarrow> isolated sn s s'"
  by (drule chip_frame_conf) (simp add: isolated_def)

lemma isolated_txn: "txn acc r s s' \<Longrightarrow> isolated sn s s'"
  by (rule isolated_frame, rule chip_frame.R_txn)

lemma isolated_time: "time_upd s s' \<Longrightarrow> isolated sn s s'"
  by (rule isolated_frame, rule chip_frame.R_time)

lemma isolated_trans: "\<lbrakk>isolated sn a b; isolated sn b c\<rbrakk> \<Longrightarrow> isolated sn a c"
  by (simp add: isolated_def sock_same_def)

lemma isolated_sock: "sock_upd sn s s' \<Longrightarrow> isolated sn s s'"
  by (simp add: isolated_def sock_upd_def chip_conf.truncate_def)

lemma call_drv_fields [simp]:
  "sock_any_port (call p ev s) = sock_any_port s"
  "wizchip_txmax_cache (call p ev s) = wizchip_txmax_cache s"
  "wizchip_rxmax_cache (call p ev s) = wizchip_rxmax_cache s"
  "sock_tx_state (call p ev s) = sock_tx_state s" "sock_health (call p ev s) = sock_health s"
  "sock_mode (call p ev s) = sock_mode s" "sock_io_mode (call p ev s) = sock_io_mode s"
  "sock_is_sending (call p ev s) = sock_is_sending s"
  "sock_remained_size (call p ev s) = sock_remained_size s"
  "sock_pack_info (call p ev s) = sock_pack_info s"
  "sock_tx_pending_len (call p ev s) = sock_tx_pending_len s"
  "timeout_config (call p ev s) = timeout_config s" "DNS_server (call p ev s) = DNS_server s"
  "DHCP_mode (call p ev s) = DHCP_mode s" "drv.more (call p ev s) = drv.more s"
  "time_us_cb (call p ev s) = time_us_cb s" "now_us (call p ev s) = now_us s"
  by (simp_all add: call_def)

lemma isolated_call [simp]:
  "isolated sn (call p ev s) t = isolated sn s t" "isolated sn s (call p ev t) = isolated sn s t"
  by (simp_all add: isolated_def sock_same_def)

lemma isolated_simple [simp]: "isolated sn s s" "isolated sn s (s\<lparr>chip_last_error := e\<rparr>)"
  by (simp_all add: isolated_def sock_same_def)

lemma take_any_port_simps [simp]:
  "trace (snd (take_any_port p s)) = GlobalExit # GlobalEnter # trace s"
  "sock_any_port (snd (take_any_port p s)) = next_any_port (sock_any_port s)"
  "chip_state (snd (take_any_port p s)) = chip_state s"
  "isolated sn s (snd (take_any_port p s))"
  by (simp_all add: take_any_port_def Let_def) (simp add: isolated_def sock_same_def)

interpretation locks: api_relation p locks_same sn "\<lambda>s s'. no_locks s \<longrightarrow> no_locks s'" for p sn
  by unfold_locales
    (auto simp: locks_same_def no_locks_def txn_def time_upd_wire
      sock_upd_wire(1))

interpretation framing: api_relation p "\<lambda>s s'. bus_idle s \<longrightarrow> bus_idle s'" sn
  "\<lambda>s s'. bus_idle s \<longrightarrow> bus_idle s'" for p sn
  by unfold_locales
    (auto simp: bus_idle_def txn_def time_upd_wire sock_upd_wire(1))

interpretation isolation: api_relation p "isolated sn" sn "isolated sn" for p sn
  by unfold_locales (auto simp: isolated_txn isolated_time isolated_sock intro: isolated_trans)

interpretation ports: api_relation p "\<lambda>s s'. sock_any_port s' = sock_any_port s" sn
  "\<lambda>s s'. port_ok (sock_any_port s) \<longrightarrow> port_ok (sock_any_port s')" for p sn
  by unfold_locales
    (auto simp: sock_upd_def port_ok_next
      dest!: chip_frame.R_txn chip_frame.R_time chip_frame_conf)

interpretation faults: api_relation p fault_kept sn fault_kept for p sn
  by unfold_locales
    (auto simp: fault_kept_def sock_upd_wire(3))

end
