(* ===== verification/SockFun.thy ===== *)
theory SockFun
  imports SockSpec
begin

text \<open>
  What the socket calls do, branch by branch: rules that follow a program text and collect
  the register accesses it makes (\<open>reg_log\<close>, latest first) and the per-socket fields it
  leaves, then the specifications of the waits and of the calls built from them.
\<close>

unbundle bit_operations_syntax

subsection \<open>Register traffic leaves the driver's data alone\<close>

lemma reg_addr_sock_regs [simp]:
  assumes "sn < 8"
  shows "reg_addr (Sn_MR sn)" "reg_addr (Sn_CR sn)" "reg_addr (Sn_IR sn)" "reg_addr (Sn_SR sn)"
    "reg_addr (Sn_PORT sn)" "reg_addr (Sn_DHAR sn)" "reg_addr (Sn_DIPR sn)" "reg_addr (Sn_DPORT sn)"
    "reg_addr (Sn_MSSR sn)" "reg_addr (Sn_TOS sn)" "reg_addr (Sn_TTL sn)" "reg_addr (Sn_TX_WR sn)"
    "reg_addr (Sn_RX_RD sn)" "reg_addr (Sn_TX_FSR sn)" "reg_addr (Sn_RX_RSR sn)"
    "reg_addr (Sn_IMR sn)" "reg_addr (Sn_KPALVTR sn)" "reg_addr reg_SIPR"
  using assms by (auto intro!: reg_addr_sock [OF assms] reg_addr_common simp: sock_regs_def common_regs_def)

lemma chip_frame_fields:
  assumes "chip_frame s s'"
  shows "sock_any_port s' = sock_any_port s" "sock_io_mode s' = sock_io_mode s"
    "sock_is_sending s' = sock_is_sending s" "sock_health s' = sock_health s"
    "sock_remained_size s' = sock_remained_size s" "sock_pack_info s' = sock_pack_info s"
    "sock_mode s' = sock_mode s" "sock_tx_state s' = sock_tx_state s"
    "sock_tx_pending_len s' = sock_tx_pending_len s"
    "wizchip_txmax_cache s' = wizchip_txmax_cache s" "wizchip_rxmax_cache s' = wizchip_rxmax_cache s"
    "timeout_config s' = timeout_config s"
    "wizchip_time_source_active s' = wizchip_time_source_active s"
    "wizchip_deadline_config_valid s' = wizchip_deadline_config_valid s"
  using assms unfolding chip_frame_def wizchip_deadline_config_valid_def wizchip_time_source_active_def
  by (cases s; cases s'; simp)+

lemma write_frame:
  "chip_frame s (WIZCHIP_WRITE p a v s)" "chip_frame s (WIZCHIP_WRITE_BUF p a b n s)"
  by (simp_all add: chip_frame.R_WRITE chip_frame.R_WRITE_BUF chip_frame.R_refl)

lemmas write_fields [simp] = chip_frame_fields [OF write_frame(1)] chip_frame_fields [OF write_frame(2)]

lemma set_trace [simp]:
  "trace (set_sock_io_mode sn v1 s) = trace s" "trace (set_sock_is_sending sn v1 s) = trace s"
  "trace (set_sock_health sn h s) = trace s" "trace (set_sock_remained_size sn v2 s) = trace s"
  "trace (set_sock_pack_info sn v1 s) = trace s" "trace (set_sock_mode sn v1 s) = trace s"
  "trace (set_sock_tx_state sn t s) = trace s" "trace (set_sock_tx_pending_len sn v2 s) = trace s"
  "trace (sock_state_reset sn s) = trace s"
  by (simp_all add: sock_set sock_state_reset_def)

subsection \<open>Rules that collect register accesses\<close>

declare WIZCHIP_WRITE_log [simp] WIZCHIP_WRITE_BUF_log [simp]

lemma wptI: "(\<And>v s'. m = (v, s') \<Longrightarrow> Q v s') \<Longrightarrow> wpt m Q"
  by (cases m) (simp add: wpt_def)

lemma READ_effect:
  assumes "WIZCHIP_READ p a s = (v, s')" and "reg_addr a"
  shows "reg_log (trace s') = RegRead a [v] # reg_log (trace s)" and "chip_frame s s'"
proof -
  show "reg_log (trace s') = RegRead a [v] # reg_log (trace s)"
    by (rule WIZCHIP_READ_log [OF assms])
  from chip_frame.R_READ [OF chip_frame.R_refl, of s "\<lambda>_. chip_frame s" p a] assms(1)
  show "chip_frame s s'" by (simp add: wpt_def)
qed

lemma wpt_READ:
  assumes "reg_addr a"
    and "\<And>v s'. \<lbrakk>reg_log (trace s') = RegRead a [v] # reg_log (trace s); chip_frame s s'\<rbrakk> \<Longrightarrow> Q v s'"
  shows "wpt (WIZCHIP_READ p a s) Q"
  by (rule wptI) (blast intro: assms dest: READ_effect)

lemma wpt_READ_BUF:
  assumes "reg_addr a" and "len \<noteq> 0"
    and "\<And>bs s'. \<lbrakk>length bs = unat len; reg_log (trace s') = RegRead a bs # reg_log (trace s);
      chip_frame s s'\<rbrakk> \<Longrightarrow> Q bs s'"
  shows "wpt (WIZCHIP_READ_BUF p a True len s) Q"
proof (rule wptI)
  fix v s' assume e: "WIZCHIP_READ_BUF p a True len s = (v, s')"
  from chip_frame.R_READ_BUF [OF chip_frame.R_refl, of s "\<lambda>_. chip_frame s" p a len]
  have "chip_frame s s'" by (simp add: wpt_def e)
  with WIZCHIP_READ_BUF_log [OF e assms(1,2)] show "Q v s'" by (blast intro: assms(3))
qed

lemma wpt_write16:
  assumes "reg_addr a"
    and "\<And>r s'. \<lbrakk>reg_log (trace s') = RegWrite a [hi8 v, lo8 v] # reg_log (trace s); chip_frame s s'\<rbrakk>
      \<Longrightarrow> Q r s'"
  shows "wpt (wizchip_write16_5500 p a v s) Q"
proof (rule wptI)
  fix r s' assume e: "wizchip_write16_5500 p a v s = (r, s')"
  from chip_frame.R_write16 [OF chip_frame.R_refl, of s "\<lambda>_. chip_frame s" p a v]
  have "chip_frame s s'" by (simp add: wpt_def e)
  with wizchip_write16_5500_log [OF e assms(1)] show "Q r s'" by (rule assms(2))
qed

definition time_step :: "('w, 'm) time_state_scheme \<Rightarrow> ('w, 'm) time_state_scheme \<Rightarrow> bool" where
  "time_step s s' \<longleftrightarrow> reg_log (trace s') = reg_log (trace s) \<and> chip_frame s s'"

lemma time_step: "time_upd s s' \<Longrightarrow> time_step s s'"
  unfolding time_step_def using time_upd_wire chip_frame.R_time by blast

lemma time_step_trans: "\<lbrakk>time_step a b; time_step b c\<rbrakk> \<Longrightarrow> time_step a c"
  unfolding time_step_def using chip_frame.R_trans by fastforce

lemma time_stepD:
  assumes "time_step s s'"
  shows "reg_log (trace s') = reg_log (trace s)" and "chip_frame s s'"
  using assms by (auto simp: time_step_def)

lemma wpt_deadline_abs: "(\<And>v s'. time_step s s' \<Longrightarrow> Q v s') \<Longrightarrow> wpt (wizchip_deadline_abs t s) Q"
  by (rule wptI) (blast intro: time_step time_upd_abs)

lemma wpt_deadline_expired: "(\<And>v s'. time_step s s' \<Longrightarrow> Q v s') \<Longrightarrow> wpt (wizchip_deadline_expired t s) Q"
  by (rule wptI) (blast intro: time_step time_upd_expired)

lemma wpt_deadline_poll: "(\<And>v s'. time_step s s' \<Longrightarrow> Q v s') \<Longrightarrow> wpt (wizchip_deadline_poll p dl s) Q"
  by (rule wptI) (blast intro: time_step time_upd_poll)

lemma wpt_wait_poll_init: "(\<And>v s'. time_step s s' \<Longrightarrow> Q v s') \<Longrightarrow> wpt (wait_poll_init d s) Q"
  unfolding wait_poll_init_def
  by (intro wp, rule wptI, drule time_upd_now [THEN time_step]) (auto intro!: wp)

lemma wpt_wait_poll_expired:
  assumes "\<And>e poll s'. time_step s s' \<Longrightarrow> Q (e, poll) s'"
  shows "wpt (wait_poll_expired p poll d s) Q"
  unfolding wait_poll_expired_def
  by (auto intro!: wp wpt_deadline_poll wpt_deadline_expired assms intro: time_step_trans)

lemma wpt_sock_deadline_begin:
  assumes "wizchip_deadline_config_valid s = 0 \<Longrightarrow> Q (SOCKERR_TIMEOUT, None) s"
    and "\<And>d s'. \<lbrakk>wizchip_deadline_config_valid s \<noteq> 0; time_step s s'\<rbrakk> \<Longrightarrow> Q (SOCK_OK, Some d) s'"
  shows "wpt (sock_deadline_begin b s) Q"
  unfolding sock_deadline_begin_def using assms by (auto intro!: wp wpt_deadline_abs)

subsection \<open>The waits\<close>

text \<open>
  A wait reads one register over and over: the log grows by reads of it, and it ends with
  the awaited value or with a faulted socket.
\<close>

definition polled :: "u32 \<Rightarrow> u8 \<Rightarrow> ('w, 'm) drv_scheme \<Rightarrow> ('w, 'm) drv_scheme \<Rightarrow> bool" where
  "polled a v s s' \<longleftrightarrow> (\<exists>vs. reg_log (trace s') = RegRead a [v] # map (\<lambda>x. RegRead a [x]) vs @ reg_log (trace s))
     \<and> chip_frame s s'"

definition poll_failed :: "u32 \<Rightarrow> u8 \<Rightarrow> ('w, 'm) drv_scheme \<Rightarrow> ('w, 'm) drv_scheme \<Rightarrow> bool" where
  "poll_failed a sn s s' \<longleftrightarrow> (\<exists>vs t. reg_log (trace s') = map (\<lambda>x. RegRead a [x]) vs @ reg_log (trace s)
     \<and> chip_frame s t \<and> s' = set_sock_health sn SOCK_FAULTED t)"

lemma wpt_register_wait:
  assumes a: "reg_addr a"
    and probe: "\<And>s. probe s = (let (x, s) = WIZCHIP_READ p a s in (if x = v then Some SOCK_OK else None, s))"
    and ok: "\<And>s'. polled a v s s' \<Longrightarrow> Q SOCK_OK s'"
    and bad: "\<And>s'. poll_failed a sn s s' \<Longrightarrow> Q SOCKERR_TIMEOUT s'"
  shows "wpt (let (poll, s) = wait_poll_init d s in poll_until p sn probe d poll s) Q"
proof -
  define I where "I s' \<longleftrightarrow> chip_frame s s'
      \<and> (\<exists>vs. reg_log (trace s') = map (\<lambda>x. RegRead a [x]) vs @ reg_log (trace s))" for s'
  have I: "I s''" if "I s'" "chip_frame s' s''"
      "reg_log (trace s'') = map (\<lambda>x. RegRead a [x]) vs @ reg_log (trace s')" for s' s'' vs
  proof -
    from that(1) obtain ws where "reg_log (trace s') = map (\<lambda>x. RegRead a [x]) ws @ reg_log (trace s)"
      and f: "chip_frame s s'" unfolding I_def by blast
    with that(3) have "reg_log (trace s'') = map (\<lambda>x. RegRead a [x]) (vs @ ws) @ reg_log (trace s)" by simp
    with chip_frame.R_trans [OF f that(2)] show ?thesis unfolding I_def by blast
  qed
  show ?thesis
  proof (intro wp wpt_wait_poll_init)
    fix poll s1
    assume "time_step s s1"
    then have "I s1"
      unfolding I_def by (auto dest: time_stepD intro!: exI [of _ "[]"])
    then show "wpt (poll_until p sn probe d poll s1) Q"
    proof (rule wpt_poll_until)
      fix s' assume i: "I s'"
      show "wpt (probe s') (\<lambda>r t. case r of Some x \<Rightarrow> Q x t | None \<Rightarrow> I t)"
        unfolding probe
      proof (intro wp wpt_READ a)
        fix x t assume t: "reg_log (trace t) = RegRead a [x] # reg_log (trace s')" "chip_frame s' t"
        have "polled a v s t" if "x = v"
          using i t that chip_frame.R_trans unfolding polled_def I_def by fastforce
        moreover have "I t" using I [OF i t(2), of "[x]"] t(1) by simp
        ultimately show "case if x = v then Some SOCK_OK else None of Some x \<Rightarrow> Q x t | None \<Rightarrow> I t"
          using ok by auto
      qed
    next
      fix poll s' assume i: "I s'"
      have "I t" if "time_step s' t" for t
        using I [OF i, of t "[]"] time_stepD [OF that] by simp
      moreover have "Q SOCKERR_TIMEOUT (set_sock_health sn SOCK_FAULTED t)" if "I t" for t
        using that by (intro bad) (auto simp: poll_failed_def I_def)
      ultimately show "wpt (wait_poll_expired p poll d s') (\<lambda>(e, _) t. if e = SOCKERR_DEADLINE
          then Q SOCKERR_TIMEOUT (set_sock_health sn SOCK_FAULTED t) else I t)"
        by (auto intro!: wpt_wait_poll_expired)
    qed
  qed
qed

lemma wpt_wait_cr:
  assumes "sn < 8"
    and "\<And>s'. polled (Sn_CR sn) 0 s s' \<Longrightarrow> Q SOCK_OK s'"
    and "\<And>s'. poll_failed (Sn_CR sn) sn s s' \<Longrightarrow> Q SOCKERR_TIMEOUT s'"
  shows "wpt (wait_cr_accepted p sn d s) Q"
  unfolding wait_cr_accepted_def
  by (rule wpt_register_wait [where a = "Sn_CR sn" and v = 0])
    (use assms in \<open>auto simp: cr_probe_def getSn_CR_def\<close>)

lemma wpt_wait_sr:
  assumes "sn < 8"
    and "\<And>s'. polled (Sn_SR sn) w s s' \<Longrightarrow> Q SOCK_OK s'"
    and "\<And>s'. poll_failed (Sn_SR sn) sn s s' \<Longrightarrow> Q SOCKERR_TIMEOUT s'"
  shows "wpt (wait_sr_reached p sn w d s) Q"
  unfolding wait_sr_reached_def
  by (rule wpt_register_wait [where a = "Sn_SR sn" and v = w])
    (use assms in \<open>auto simp: sr_probe_def getSn_SR_def\<close>)

subsection \<open>Closing\<close>

text \<open>A socket record as \<open>sock_state_reset\<close> leaves it, with the given health.\<close>

definition sock_reset_to :: "sock_health_t \<Rightarrow> u8 \<Rightarrow> ('w, 'm) drv_scheme \<Rightarrow> bool" where
  "sock_reset_to h sn s \<longleftrightarrow> sock_io_mode s sn = 0 \<and> sock_is_sending s sn = 0 \<and> sock_health s sn = h
     \<and> sock_remained_size s sn = 0 \<and> sock_pack_info s sn = PACK_NONE \<and> sock_mode s sn = 0
     \<and> sock_tx_state s sn = SOCK_TX_IDLE \<and> sock_tx_pending_len s sn = 0"

lemma close_clear_state_eq:
  "close_clear_state p sn True r s = (r, if r = SOCKERR_TIMEOUT
     then set_sock_health sn SOCK_FAULTED (sock_state_reset sn s) else sock_state_reset sn s)"
  by (simp add: close_clear_state_def Let_def sock_set sock_state_reset_def)

lemma sock_reset_to_simps [simp]:
  "sock_reset_to SOCK_HEALTHY sn (sock_state_reset sn s)"
  "sock_reset_to SOCK_FAULTED sn (set_sock_health sn SOCK_FAULTED (sock_state_reset sn s))"
  by (simp_all add: sock_reset_to_def sock_state_reset_def sock_set)

definition reg_writes :: "reg_op list \<Rightarrow> reg_op list" where
  "reg_writes ops = filter (\<lambda>x. case x of RegWrite _ _ \<Rightarrow> True | _ \<Rightarrow> False) ops"

lemma reg_writes_simps [simp]:
  "reg_writes [] = []" "reg_writes (RegRead a bs # ops) = reg_writes ops"
  "reg_writes (RegWrite a bs # ops) = RegWrite a bs # reg_writes ops"
  "reg_writes (map (\<lambda>x. RegRead a [x]) vs @ ops) = reg_writes ops"
  "reg_writes (ops @ ops') = reg_writes ops @ reg_writes ops'"
  by (simp_all add: reg_writes_def)

lemma reg_writes_reads [simp]: "reg_writes (map (\<lambda>x. RegRead a [x]) vs) = []"
  using reg_writes_simps(4) [of a vs "[]"] by simp

text \<open>What closing writes: the CLOSE command, and the interrupt clear once it was accepted.\<close>

definition close_writes :: "u8 \<Rightarrow> int \<Rightarrow> reg_op list \<Rightarrow> bool" where
  "close_writes sn r ops \<longleftrightarrow>
     (let ws = reg_writes ops in
      if r = SOCK_OK then ws = [] \<or> ws = [RegWrite (Sn_IR sn) [0x1F], RegWrite (Sn_CR sn) [Sn_CR_CLOSE]]
      else ws = [RegWrite (Sn_CR sn) [Sn_CR_CLOSE]]
        \<or> ws = [RegWrite (Sn_IR sn) [0x1F], RegWrite (Sn_CR sn) [Sn_CR_CLOSE]])"

definition new_ops :: "('w, 'm) drv_scheme \<Rightarrow> ('w, 'm) drv_scheme \<Rightarrow> reg_op list \<Rightarrow> bool" where
  "new_ops s s' ops \<longleftrightarrow> reg_log (trace s') = ops @ reg_log (trace s)"

lemma close_command_spec:
  assumes "sn < 8"
  shows "wpt (close_command p sn d s) (\<lambda>r s'. (r = SOCK_OK \<or> r = SOCKERR_TIMEOUT)
     \<and> (\<exists>ops. new_ops s s' ops \<and> close_writes sn r ops
          \<and> (r = SOCK_OK \<longrightarrow> sock_health s sn = SOCK_FAULTED \<and> s' = s
               \<or> (\<exists>rest. ops = RegRead (Sn_SR sn) [SOCK_CLOSED] # rest))))"
  unfolding close_command_def reg_defs
  using assms
  by (auto intro!: wp wpt_READ wpt_wait_cr wpt_wait_sr
      simp: new_ops_def close_writes_def polled_def poll_failed_def Let_def)

lemma new_ops_trans: "\<lbrakk>new_ops a b x; new_ops b c y\<rbrakk> \<Longrightarrow> new_ops a c (y @ x)"
  by (simp add: new_ops_def)

lemma new_ops_time: "time_step s t \<Longrightarrow> new_ops s t []"
  by (simp add: new_ops_def time_step_def)

text \<open>\<open>close_internal\<close> under the lock: the outcome and the state it leaves.\<close>

definition closed_post :: "u8 \<Rightarrow> ('w, 'm) drv_scheme \<Rightarrow> int \<Rightarrow> ('w, 'm) drv_scheme \<Rightarrow> bool" where
  "closed_post sn s r s' \<longleftrightarrow>
     (r = SOCK_OK \<and> sock_reset_to SOCK_HEALTHY sn s' \<or> r = SOCKERR_TIMEOUT \<and> sock_reset_to SOCK_FAULTED sn s')
     \<and> (\<exists>ops. new_ops s s' ops \<and> (close_writes sn r ops \<or> wizchip_deadline_config_valid s = 0 \<and> ops = [])
          \<and> (if sock_health s sn = SOCK_FAULTED then ops = []
             else r = SOCK_OK \<longrightarrow> (\<exists>rest. ops = RegRead (Sn_SR sn) [SOCK_CLOSED] # rest)))"

lemma close_command_faulted:
  "sock_health s sn = SOCK_FAULTED \<Longrightarrow> close_command p sn d s = (SOCK_OK, s)"
  by (simp add: close_command_def)

lemma close_tail_spec:
  assumes "sn < 8" and t: "time_step s0 s"
  shows "wpt (let (ret, s) = close_command p sn d s in close_clear_state p sn True ret s) (closed_post sn s0)"
proof -
  have h: "sock_health s sn = sock_health s0 sn"
    using chip_frame_fields(4) [OF time_stepD(2) [OF t]] by simp
  show ?thesis
  proof (cases "sock_health s sn = SOCK_FAULTED")
    case True
    with h t show ?thesis
      by (simp add: close_command_faulted close_clear_state_eq wpt_def closed_post_def new_ops_def
          time_step_def close_writes_def)
  next
    case False
    then have ok: "closed_post sn s0 SOCK_OK (sock_state_reset sn s')"
      if "new_ops s s' ops" "close_writes sn SOCK_OK ops" "\<exists>rest. ops = RegRead (Sn_SR sn) [SOCK_CLOSED] # rest"
      for s' ops
      using that t h by (auto simp: closed_post_def new_ops_def time_step_def)
    from False have bad: "closed_post sn s0 SOCKERR_TIMEOUT
        (set_sock_health sn SOCK_FAULTED (sock_state_reset sn s'))"
      if "new_ops s s' ops" "close_writes sn SOCKERR_TIMEOUT ops" for s' ops
      using that t h by (auto simp: closed_post_def new_ops_def time_step_def)
    show ?thesis
      by (intro wp wpt_mono [OF close_command_spec [OF assms(1)]])
        (use False in \<open>auto simp: close_clear_state_eq wpt_def intro: ok [simplified] bad [simplified]\<close>)
  qed
qed

lemma close_internal_spec:
  assumes "sn < 8"
  shows "wpt (close_internal p sn True d s) (closed_post sn s)"
proof -
  have invalid: "closed_post sn s SOCKERR_TIMEOUT
      (set_sock_health sn SOCK_FAULTED (sock_state_reset sn s))" if "wizchip_deadline_config_valid s = 0"
    using that by (auto simp: closed_post_def new_ops_def)
  have refl: "time_step s s" by (simp add: time_step_def chip_frame.R_refl)
  note tail = close_tail_spec [OF assms, unfolded Let_def]
  show ?thesis
    unfolding close_internal_def using assms
    by (auto simp: Let_def close_clear_state_eq intro!: wpt_case_prod wpt_if wpt_pair
        wpt_sock_deadline_begin tail refl invalid [simplified] split: option.splits)
qed

subsection \<open>Opening\<close>

definition opened :: "u8 \<Rightarrow> u8 \<Rightarrow> u8 \<Rightarrow> ('w, 'm) drv_scheme \<Rightarrow> bool" where
  "opened sn protocol flag s \<longleftrightarrow>
     sock_mode s sn = protocol OR (flag AND 0xF0)
     \<and> sock_io_mode s sn = (if flag AND SF_IO_NONBLOCK \<noteq> 0 then 1 else 0)
     \<and> sock_health s sn = SOCK_HEALTHY \<and> sock_is_sending s sn = 0 \<and> sock_remained_size s sn = 0
     \<and> sock_pack_info s sn = PACK_COMPLETED \<and> sock_tx_state s sn = SOCK_TX_IDLE
     \<and> sock_tx_pending_len s sn = 0"

lemma hardware_flag: "(flag AND NOT SF_IO_NONBLOCK) AND 0xF0 = flag AND (0xF0 :: u8)"
  by (simp add: and.assoc)

text \<open>The accesses of a successful open, latest first: mode, port, OPEN, then the status.\<close>

definition open_writes :: "u8 \<Rightarrow> u8 \<Rightarrow> u16 \<Rightarrow> u8 \<Rightarrow> reg_op list" where
  "open_writes sn protocol port flag =
     [RegWrite (Sn_CR sn) [Sn_CR_OPEN], RegWrite (Sn_PORT sn) [hi8 port, lo8 port],
      RegWrite (Sn_MR sn) [protocol OR (flag AND 0xF0)]]"

definition open_post ::
    "u8 \<Rightarrow> u8 \<Rightarrow> u16 \<Rightarrow> u8 \<Rightarrow> ('w, 'm) drv_scheme \<Rightarrow> int \<Rightarrow> ('w, 'm) drv_scheme \<Rightarrow> bool" where
  "open_post sn protocol port flag s r s' \<longleftrightarrow>
     (r = uint sn \<and> opened sn protocol flag s'
       \<and> (\<exists>ops. new_ops s s' (RegRead (Sn_SR sn) [socket_open_status protocol] # ops)
            \<and> reg_writes ops = open_writes sn protocol port flag))
     \<or> (r = SOCKERR_SOCKINIT \<and> (\<exists>ops. new_ops s s' ops \<and> reg_writes ops = []))
     \<or> (r = SOCKERR_TIMEOUT \<and> sock_health s' sn = SOCK_FAULTED)"

lemma opened_state: "opened sn protocol flag (socket_opened_state sn protocol flag s)"
  unfolding opened_def socket_opened_state_def Let_def hardware_flag
  by (simp add: sock_set sock_state_reset_def)

lemma opened_state_trace [simp]: "trace (socket_opened_state sn protocol flag s) = trace s"
  by (simp add: socket_opened_state_def Let_def)

lemma wpt_getSIPR:
  "(\<And>bs s'. \<lbrakk>reg_log (trace s') = RegRead reg_SIPR bs # reg_log (trace s); chip_frame s s'\<rbrakk> \<Longrightarrow> Q bs s')
    \<Longrightarrow> wpt (getSIPR p s) Q"
  unfolding getSIPR_def by (rule wpt_READ_BUF) (auto intro: reg_addr_common simp: common_regs_def)

lemma open_post_bad: "poll_failed a sn t s' \<Longrightarrow> open_post sn protocol port flag s SOCKERR_TIMEOUT s'"
  by (auto simp: open_post_def poll_failed_def sock_set)

lemma open_post_ok:
  assumes "polled (Sn_CR sn) 0 (WIZCHIP_WRITE p (Sn_CR sn) Sn_CR_OPEN a) b"
    and "reg_log (trace a) = RegWrite (Sn_PORT sn) [hi8 port, lo8 port]
      # RegWrite (Sn_MR sn) [protocol OR (flag AND 0xF0)] # lg @ reg_log (trace s)"
    and "reg_writes lg = []" and "sn < 8"
    and "polled (Sn_SR sn) (socket_open_status protocol) b c"
  shows "open_post sn protocol port flag s (uint sn) (socket_opened_state sn protocol flag c)"
proof -
  from assms(5) obtain vs where c: "reg_log (trace c) = RegRead (Sn_SR sn) [socket_open_status protocol]
      # map (\<lambda>x. RegRead (Sn_SR sn) [x]) vs @ reg_log (trace b)" unfolding polled_def by blast
  from assms(1,2,4) obtain ws where b: "reg_log (trace b) = RegRead (Sn_CR sn) [0]
      # map (\<lambda>x. RegRead (Sn_CR sn) [x]) ws @ open_writes sn protocol port flag @ lg @ reg_log (trace s)"
    unfolding polled_def open_writes_def by auto
  show ?thesis
    unfolding open_post_def new_ops_def using assms(3)
    by (intro disjI1 conjI exI [of _ "map (\<lambda>x. RegRead (Sn_SR sn) [x]) vs @ RegRead (Sn_CR sn) [0]
        # map (\<lambda>x. RegRead (Sn_CR sn) [x]) ws @ open_writes sn protocol port flag @ lg"])
      (simp_all add: b c opened_state open_writes_def)
qed

lemma socket_program_spec:
  assumes "sn < 8" and "reg_log (trace t) = lg @ reg_log (trace s)" and "reg_writes lg = []"
  shows "wpt (socket_program p sn protocol port flag d t) (open_post sn protocol port flag s)"
  unfolding socket_program_def setSn_MR_def setSn_PORT_def setSn_CR_def Let_def hardware_flag
  using assms
  by (auto intro!: wpt_case_prod wpt_if wpt_pair wpt_write16 wpt_wait_cr wpt_wait_sr
      intro: open_post_bad [simplified] open_post_ok [simplified])

lemma socket_open_spec:
  assumes "sn < 8"
  shows "wpt (socket_open p sn protocol port flag d s) (open_post sn protocol port flag s)"
proof -
  have sip: "open_post sn protocol port flag s SOCKERR_SOCKINIT s'"
    if "reg_log (trace s') = RegRead reg_SIPR bs # reg_log (trace s)" for s' bs
    using that by (auto simp: open_post_def new_ops_def intro!: exI [of _ "[RegRead reg_SIPR bs]"])
  have prog: "wpt (socket_program p sn protocol port flag d t) (open_post sn protocol port flag s)"
    if "reg_log (trace t) = RegRead reg_SIPR bs # reg_log (trace s)" for t bs
    by (rule socket_program_spec [of _ _ "[RegRead reg_SIPR bs]"]) (use that assms in simp_all)
  have prog0: "wpt (socket_program p sn protocol port flag d s) (open_post sn protocol port flag s)"
    by (rule socket_program_spec [of _ _ "[]"]) (use assms in simp_all)
  show ?thesis
    unfolding socket_open_def
    by (auto intro!: wp wpt_getSIPR prog0 intro: prog sip [simplified])
qed

text \<open>A successful \<open>socket\<close>: the writes of a close may precede those of the open.\<close>

definition socket_done :: "u8 \<Rightarrow> u8 \<Rightarrow> u16 \<Rightarrow> u8 \<Rightarrow> ('w, 'm) drv_scheme \<Rightarrow> ('w, 'm) drv_scheme \<Rightarrow> bool" where
  "socket_done sn protocol port flag s s' \<longleftrightarrow> opened sn protocol flag s'
     \<and> (\<exists>ops ws. new_ops s s' (RegRead (Sn_SR sn) [socket_open_status protocol] # ops)
          \<and> reg_writes ops = open_writes sn protocol port flag @ ws
          \<and> (ws = [] \<or> ws = [RegWrite (Sn_IR sn) [0x1F], RegWrite (Sn_CR sn) [Sn_CR_CLOSE]]))"

definition socket_post ::
    "u8 \<Rightarrow> u8 \<Rightarrow> u16 \<Rightarrow> u8 \<Rightarrow> ('w, 'm) drv_scheme \<Rightarrow> int \<Rightarrow> ('w, 'm) drv_scheme \<Rightarrow> bool" where
  "socket_post sn protocol port flag s r s' \<longleftrightarrow>
     r = uint sn \<and> socket_done sn protocol port flag s s'
     \<or> r \<in> {SOCKERR_NOTREADY, SOCKERR_TIMEOUT, SOCKERR_SOCKSTATUS, SOCKERR_SOCKINIT}"

lemma open_post_socket:
  assumes "open_post sn protocol port flag t r s'" and "new_ops s t lg"
    and "reg_writes lg = [] \<or> reg_writes lg = [RegWrite (Sn_IR sn) [0x1F], RegWrite (Sn_CR sn) [Sn_CR_CLOSE]]"
  shows "socket_post sn protocol port flag s r s'"
proof -
  consider (ok) ops where "r = uint sn" "opened sn protocol flag s'"
      "new_ops t s' (RegRead (Sn_SR sn) [socket_open_status protocol] # ops)"
      "reg_writes ops = open_writes sn protocol port flag"
    | (err) "r = SOCKERR_SOCKINIT \<or> r = SOCKERR_TIMEOUT"
    using assms(1) unfolding open_post_def by blast
  then show ?thesis
  proof cases
    case ok
    from new_ops_trans [OF assms(2) ok(3)] have "new_ops s s' (RegRead (Sn_SR sn) [socket_open_status protocol] # ops @ lg)"
      by simp
    with ok assms(3) have "socket_done sn protocol port flag s s'"
      unfolding socket_done_def by (intro conjI exI [of _ "ops @ lg"] exI [of _ "reg_writes lg"]) simp_all
    with ok show ?thesis by (simp add: socket_post_def)
  next
    case err
    then show ?thesis by (auto simp: socket_post_def)
  qed
qed

lemma closed_post_ops:
  assumes "closed_post sn s r s'"
  shows "\<exists>ops. new_ops s s' ops \<and> (close_writes sn r ops \<or> ops = [])"
proof -
  from assms have "\<exists>ops. new_ops s s' ops \<and> (close_writes sn r ops \<or> wizchip_deadline_config_valid s = 0 \<and> ops = [])
     \<and> (if sock_health s sn = SOCK_FAULTED then ops = []
        else r = SOCK_OK \<longrightarrow> (\<exists>rest. ops = RegRead (Sn_SR sn) [SOCK_CLOSED] # rest))"
    unfolding closed_post_def by (rule conjunct2)
  then show ?thesis by auto
qed

lemma socket_locked_spec:
  assumes "sn < 8" and "new_ops s0 s lg" and "reg_writes lg = []"
  shows "wpt (socket_locked p sn protocol port flag st s) (socket_post sn protocol port flag s0)"
proof -
  let ?Q = "socket_post sn protocol port flag s0"
  have post: "wpt (socket_open p sn protocol port flag d t) ?Q" if "new_ops s0 t lg'"
    "reg_writes lg' = [] \<or> reg_writes lg' = [RegWrite (Sn_IR sn) [0x1F], RegWrite (Sn_CR sn) [Sn_CR_CLOSE]]"
    for d t lg'
    by (rule wpt_mono [OF socket_open_spec [OF assms(1)]]) (rule open_post_socket [OF _ that])
  have closed: "wpt (close_internal p sn True d t) (\<lambda>r t'. wpt (if r \<noteq> SOCK_OK then (r, t')
      else socket_open p sn protocol port flag d' t') ?Q)" if n: "new_ops s0 t lg'" "reg_writes lg' = []"
    for d d' t lg'
  proof (rule wpt_mono [OF close_internal_spec [OF assms(1)]])
    fix r t' assume c: "closed_post sn t r t'"
    show "wpt (if r \<noteq> SOCK_OK then (r, t') else socket_open p sn protocol port flag d' t') ?Q"
    proof (cases "r = SOCK_OK")
      case True
      from closed_post_ops [OF c] True obtain ops
        where o: "new_ops t t' ops" "close_writes sn SOCK_OK ops \<or> ops = []" by auto
      from o(2) n(2) have "reg_writes (ops @ lg') = []
          \<or> reg_writes (ops @ lg') = [RegWrite (Sn_IR sn) [0x1F], RegWrite (Sn_CR sn) [Sn_CR_CLOSE]]"
        by (auto simp: close_writes_def Let_def)
      from post [OF new_ops_trans [OF n(1) o(1)] this] True show ?thesis by simp
    next
      case False
      with c show ?thesis by (auto simp: closed_post_def socket_post_def wpt_def)
    qed
  qed
  have read: "new_ops s0 t' (RegRead (Sn_SR sn) [v] # lg)"
    if "reg_log (trace t') = RegRead (Sn_SR sn) [v] # reg_log (trace t)" "time_step s t" for t t' v
    using that assms(2) by (simp add: new_ops_def time_step_def)
  have err: "?Q SOCKERR_NOTREADY t" "?Q SOCKERR_TIMEOUT t" "?Q SOCKERR_SOCKSTATUS t" for t
    by (simp_all add: socket_post_def)
  have body: "wpt (if v \<noteq> SOCK_CLOSED then if st = SOCK_CLOSED then (SOCKERR_SOCKSTATUS, t')
        else let (r, t'') = close_internal p sn True d t' in
             if r \<noteq> SOCK_OK then (r, t'') else socket_open p sn protocol port flag d t''
      else socket_open p sn protocol port flag d t') ?Q"
    if "reg_log (trace t') = RegRead (Sn_SR sn) [v] # reg_log (trace t)" "time_step s t" for t t' v d
  proof -
    have w: "reg_writes (RegRead (Sn_SR sn) [v] # lg) = []" by (simp add: assms(3))
    show ?thesis
      by (intro wpt_if wpt_pair wpt_Let wpt_case_prod err post [OF read [OF that] disjI1 [OF w]]
          closed [OF read [OF that] w])
  qed
  show ?thesis
    unfolding socket_locked_def getSn_SR_def
    by (intro wpt_if wpt_pair wpt_Let wpt_case_prod wpt_sock_deadline_begin err)
      (simp_all add: err [simplified] wpt_pair, intro wpt_case_prod wpt_READ body [simplified] reg_addr_sock_regs assms)
qed

end
