(* ===== verification/SockProps.thy ===== *)
theory SockProps
  imports SockFun Scripted
begin

text \<open>
  The properties of the socket calls, each followed by its witness: an instance on the
  scripted platform, evaluated by \<open>simp\<close>.
\<close>

unbundle bit_operations_syntax

subsection \<open>Preparation\<close>

lemma reg_log_lock_event [simp]:
  "reg_log (SockEnter n # tr) = reg_log tr" "reg_log (SockExit n # tr) = reg_log tr"
  "reg_log (GlobalEnter # tr) = reg_log tr" "reg_log (GlobalExit # tr) = reg_log tr"
  by (simp_all add: reg_log_def split_beta Let_def)

lemma new_ops_call [simp]:
  "new_ops s (call p (SockExit n) t) ops = new_ops s t ops"
  "new_ops (call p (SockEnter n) s) t ops = new_ops s t ops"
  by (simp_all add: new_ops_def)

lemma sock_reset_to_call [simp]: "sock_reset_to h sn (call p ev s) = sock_reset_to h sn s"
  by (simp add: sock_reset_to_def)

lemma opened_call [simp]: "opened sn protocol flag (call p ev s) = opened sn protocol flag s"
  by (simp add: opened_def)

lemma socket_done_call [simp]:
  "socket_done sn protocol port flag s (call p (SockExit n) t) = socket_done sn protocol port flag s t"
  by (simp add: socket_done_def)

lemma deadline_valid_call [simp]:
  "wizchip_deadline_config_valid (call p ev s) = wizchip_deadline_config_valid s"
  by (simp add: wizchip_deadline_config_valid_def wizchip_time_source_active_def call_def)

subsection \<open>Opening and closing\<close>

text \<open>C1: A non-negative result of \<open>socket\<close> is the socket number, and then the socket is open: the
  record holds the requested mode and blocking mode and is otherwise reset, the chip was
  programmed with mode, port and OPEN in this order (after at most one CLOSE of the old
  connection), and the last register access read the status the protocol must show. A zero
  port is replaced by the next ephemeral port.\<close>

theorem socket_success:
  assumes "socket p sn protocol port flag s = (r, s')" and "0 \<le> r"
  shows "r = uint sn
     \<and> socket_done sn protocol (if port = 0 then sock_any_port s else port) flag s s'"
proof -
  have chk: "socket_args_check sn protocol flag = SOCK_OK"
    using assms by (auto simp: socket_def Let_def socket_args_check_def split: if_splits option.splits)
  then have sn: "sn < 8" using locks.socket_args_sn by blast
  have rdy: "wizchip_get_state s = WIZCHIP_STATE_READY"
    using assms chk by (auto simp: socket_def split: if_splits)
  obtain st s1 where g: "getSn_SR p sn s = (st, s1)" by fastforce
  have f: "reg_log (trace s1) = RegRead (Sn_SR sn) [st] # reg_log (trace s) \<and> chip_frame s s1"
    using READ_effect [OF g [unfolded getSn_SR_def] reg_addr_sock_regs(4) [OF sn]] by blast
  define port' where "port' = (if port = 0 then sock_any_port s else port)"
  define s2 where "s2 = (if port = 0 then snd (take_any_port p s1) else s1)"
  have sap: "sock_any_port s1 = sock_any_port s" using f chip_frame_fields(1) by blast
  then have pt: "(if port = 0 then take_any_port p s1 else (port, s1)) = (port', s2)"
    by (simp add: port'_def s2_def take_any_port_def Let_def)
  have "new_ops s (call p (SockEnter sn) s2) [RegRead (Sn_SR sn) [st]]"
    using f by (simp add: new_ops_def s2_def)
  from socket_locked_spec [OF sn this]
  have "wpt (socket_locked p sn protocol port' flag st (call p (SockEnter sn) s2))
      (socket_post sn protocol port' flag s)" by simp
  moreover obtain r2 s3 where l: "socket_locked p sn protocol port' flag st (call p (SockEnter sn) s2) = (r2, s3)"
    by fastforce
  moreover have "r = r2" "s' = call p (SockExit sn) s3"
    using assms(1) chk rdy g pt l by (simp_all add: socket_def)
  ultimately show ?thesis
    using assms(2) unfolding port'_def [symmetric] by (auto simp: wpt_def socket_post_def)
qed

theorem socket_success_witness:
  "\<exists>s'. socket scripted 0 Sn_MR_TCP 5000 0 (scripted_ready [0, 0, 192, 168, 1, 2, 0, 0x13]) = (0, s')
     \<and> socket_done 0 Sn_MR_TCP 5000 0 (scripted_ready [0, 0, 192, 168, 1, 2, 0, 0x13]) s'"
proof -
  have "fst (socket scripted 0 1 5000 0 (scripted_ready [0, 0, 192, 168, 1, 2, 0, 0x13])) = 0"
    by (simp add: run_defs reg_defs open_defs cong: run_cong)
  then obtain s' where
    e: "socket scripted 0 1 5000 0 (scripted_ready [0, 0, 192, 168, 1, 2, 0, 0x13]) = (0, s')"
    by (metis prod.collapse)
  from socket_success [OF e] e show ?thesis by auto
qed

end
