(* ===== verification/GateProps.thy ===== *)
theory GateProps
  imports SockProps
begin

text \<open>
  What every socket call checks before it touches the chip: its arguments, the health of the
  socket, the state of the driver and the time source. Closing, the way out of a fault.
\<close>

unbundle bit_operations_syntax

subsection \<open>Calls that only take the lock\<close>

definition lock_only :: "'w platform \<Rightarrow> u8 \<Rightarrow> ('w, 'm) drv_scheme \<Rightarrow> ('w, 'm) drv_scheme" where
  "lock_only p sn s = call p (SockExit sn) (call p (SockEnter sn) s)"

lemma lock_only_log: "reg_log (trace (lock_only p sn s)) = reg_log (trace s)"
  by (simp add: lock_only_def)

lemma state_call [simp]: "wizchip_get_state (call p ev s) = wizchip_get_state s"
  by (simp add: wizchip_get_state_def call_def)

text \<open>C22: Ten calls refuse a faulted socket without touching the chip. With valid arguments and the driver
  READY, listen, connect, disconnect, send, recv, sendto, recvfrom, setsockopt, ctlsocket and getsockopt
  (except for the status, which is read from the chip) return an error, and apart from the lock callbacks
  the driver is as it was. The error is \<open>SOCKERR_IO\<close>; sendto returns \<open>SOCKERR_TIMEOUT\<close> when the socket is in
  its own fault state. ctlsocket answers one question all the same, for the transmit state, which is in
  the record of the socket. \<open>socket\<close> and \<open>close\<close> are the ways out of a fault, and do more.\<close>

theorem faulted_refused:
  assumes "sock_health s sn = SOCK_FAULTED" and "sn < 8" and "wizchip_get_state s = WIZCHIP_STATE_READY"
    and "len \<noteq> 0" and "connect_args_check sn (Some a) port addrlen = SOCK_OK"
  shows "listen p sn s = (SOCKERR_IO, lock_only p sn s)
     \<and> connect_IO_6 p sn (Some a) port addrlen s = Some (SOCKERR_IO, lock_only p sn s)
     \<and> disconnect p sn s = Some (SOCKERR_IO, lock_only p sn s)
     \<and> send p sn (Some bs) len s = Some (SOCKERR_IO, lock_only p sn s)
     \<and> recv p sn True len s = Some ((SOCKERR_IO, []), lock_only p sn s)
     \<and> sendto_IO_6 p sn (Some bs) len addr port' addrlen' s
       = Some (if sock_tx_state s sn = SOCK_TX_LOCAL_FAULT then SOCKERR_TIMEOUT else SOCKERR_IO, lock_only p sn s)
     \<and> recvfrom_IO_6 p sn True len b c s = Some ((SOCKERR_IO, no_out), lock_only p sn s)
     \<and> setsockopt p sn sotype (Some arg) s = (SOCKERR_IO, lock_only p sn s)
     \<and> ctlsocket p sn cstype (Some arg) s = (if cstype = CS_GET_TX_STATE then (SOCK_OK, Some (VTxState (sock_tx_state s sn)))
         else (SOCKERR_IO, None), lock_only p sn s)
     \<and> (sotype \<noteq> SO_STATUS \<longrightarrow> getsockopt p sn sotype True s = Some ((SOCKERR_IO, None), lock_only p sn s))"
  using assms
  by (simp add: listen_def listen_locked_def connect_IO_6_def connect_locked_def disconnect_def
      disconnect_locked_def send_def send_locked_def recv_def recv_locked_def sendto_IO_6_def
      sendto_locked_def recvfrom_IO_6_def recvfrom_locked_def setsockopt_def setsockopt_locked_def
      ctlsocket_def ctlsocket_locked_def getsockopt_def getsockopt_locked_def lock_only_def
      WIZCHIP_SOCK_NUM_def Let_def)

definition faulted_start :: "u8 list drv" where
  "faulted_start = (scripted_ready [])\<lparr>sock_health := (\<lambda>_. SOCK_FAULTED)\<rparr>"

theorem faulted_refused_witness:
  "listen scripted 2 faulted_start = (SOCKERR_IO, lock_only scripted 2 faulted_start)"
  by (rule faulted_refused [where len = 1 and a = "[10, 0, 0, 1]" and port = 80 and addrlen = 4, THEN conjunct1])
    (simp_all add: faulted_start_def scripted_ready_def drv_start_def wizchip_get_state_def
      connect_args_check_def WIZCHIP_SOCK_NUM_def)

subsection \<open>Closing\<close>



text \<open>A socket number beyond the last socket is refused by every socket call, before any lock is
  taken: the state is unchanged and the result is \<open>SOCKERR_SOCKNUM\<close>.\<close>

theorem socket_number_checked:
  assumes "\<not> sn < 8" and "len \<noteq> 0"
  shows "socket p sn protocol port flag s = (SOCKERR_SOCKNUM, s) \<and> close p sn s = (SOCKERR_SOCKNUM, s)
     \<and> listen p sn s = (SOCKERR_SOCKNUM, s) \<and> disconnect p sn s = Some (SOCKERR_SOCKNUM, s)
     \<and> connect_IO_6 p sn addr port addrlen s = Some (SOCKERR_SOCKNUM, s)
     \<and> send p sn (Some bs) len s = Some (SOCKERR_SOCKNUM, s)
     \<and> recv p sn True len s = Some ((SOCKERR_SOCKNUM, []), s)
     \<and> sendto_IO_6 p sn (Some bs) len addr port addrlen s = Some (SOCKERR_SOCKNUM, s)
     \<and> recvfrom_IO_6 p sn True len b c s = Some ((SOCKERR_SOCKNUM, no_out), s)
     \<and> setsockopt p sn sotype arg s = (SOCKERR_SOCKNUM, s)
     \<and> ctlsocket p sn cstype arg s = ((SOCKERR_SOCKNUM, None), s)
     \<and> getsockopt p sn sotype out s = Some ((SOCKERR_SOCKNUM, None), s)"
  using assms
  by (simp add: socket_def socket_args_check_def close_def listen_def connect_IO_6_def
      connect_args_check_def disconnect_def send_def recv_def sendto_IO_6_def recvfrom_IO_6_def
      setsockopt_def ctlsocket_def getsockopt_def WIZCHIP_SOCK_NUM_def not_less Let_def)

theorem socket_number_checked_witness:
  "close scripted 8 (scripted_ready []) = (SOCKERR_SOCKNUM, scripted_ready [])"
  by (rule socket_number_checked [where len = 1, THEN conjunct2, THEN conjunct1]) simp_all

end
