(* ===== verification/ConnProps.thy ===== *)
theory ConnProps
  imports SockProps
begin

text \<open>
  Opening, listening and closing of connections: what \<open>listen\<close>, \<open>connect\<close> and \<open>disconnect\<close> have
  seen and written when they report success, and what bounds their waits.
\<close>

unbundle bit_operations_syntax

subsection \<open>Counting writes\<close>

text \<open>The accesses since \<open>s\<close> wrote \<open>ws\<close>, latest first.\<close>

definition wrote :: "('w, 'm) drv_scheme \<Rightarrow> reg_op list \<Rightarrow> ('w, 'm) drv_scheme \<Rightarrow> bool" where
  "wrote s ws s' \<longleftrightarrow> (\<exists>ops. new_ops s s' ops \<and> reg_writes ops = ws)"

text \<open>The same, and the last access read \<open>v\<close> from register \<open>a\<close>.\<close>

definition wrote_read :: "('w, 'm) drv_scheme \<Rightarrow> reg_op list \<Rightarrow> u32 \<Rightarrow> u8 \<Rightarrow> ('w, 'm) drv_scheme \<Rightarrow> bool" where
  "wrote_read s ws a v s' \<longleftrightarrow> (\<exists>ops. new_ops s s' (RegRead a [v] # ops) \<and> reg_writes ops = ws)"

lemma wrote_refl [simp]: "wrote s [] s"
  by (auto simp: wrote_def new_ops_def)

lemma wrote_logs:
  assumes "wrote s ws t" and "reg_log (trace t') = ops @ reg_log (trace t)"
  shows "wrote s (reg_writes ops @ ws) t'"
proof -
  from assms obtain ops' where "new_ops s t' (ops @ ops')" "reg_writes ops' = ws"
    by (auto simp: wrote_def new_ops_def)
  then show ?thesis unfolding wrote_def by (intro exI [of _ "ops @ ops'"]) simp
qed

lemma wrote_same: "\<lbrakk>wrote s ws t; reg_log (trace t') = reg_log (trace t)\<rbrakk> \<Longrightarrow> wrote s ws t'"
  using wrote_logs [of s ws t t' "[]"] by simp

lemma wrote_get: "\<lbrakk>wrote s ws t; reg_log (trace t') = RegRead a bs # reg_log (trace t)\<rbrakk> \<Longrightarrow> wrote s ws t'"
  using wrote_logs [of s ws t t' "[RegRead a bs]"] by simp

lemma wrote_put: "\<lbrakk>wrote s ws t; reg_log (trace t') = RegWrite a bs # reg_log (trace t)\<rbrakk>
  \<Longrightarrow> wrote s (RegWrite a bs # ws) t'"
  using wrote_logs [of s ws t t' "[RegWrite a bs]"] by simp

lemma wrote_read_get:
  "\<lbrakk>wrote s ws t; reg_log (trace t') = RegRead a [v] # reg_log (trace t)\<rbrakk> \<Longrightarrow> wrote_read s ws a v t'"
  by (auto simp: wrote_def wrote_read_def new_ops_def)

lemma wrote_polled: "\<lbrakk>wrote s ws t; polled a v t t'\<rbrakk> \<Longrightarrow> wrote_read s ws a v t'"
proof -
  assume w: "wrote s ws t" and "polled a v t t'"
  then obtain vs where l: "reg_log (trace t') = RegRead a [v] # map (\<lambda>x. RegRead a [x]) vs @ reg_log (trace t)"
    unfolding polled_def by blast
  from w obtain ops where "new_ops s t ops" "reg_writes ops = ws" unfolding wrote_def by blast
  with l show ?thesis
    unfolding wrote_read_def new_ops_def by (intro exI [of _ "map (\<lambda>x. RegRead a [x]) vs @ ops"]) simp
qed

lemma wrote_read_wrote: "wrote_read s ws a v t \<Longrightarrow> wrote s ws t"
  unfolding wrote_read_def wrote_def by force

lemma wrote_call [simp]:
  "wrote_read (call p (SockEnter n) s) ws a v t = wrote_read s ws a v t"
  "wrote_read s ws a v (call p (SockExit n) t) = wrote_read s ws a v t"
  "wrote (call p (SockEnter n) s) ws t = wrote s ws t" "wrote s ws (call p (SockExit n) t) = wrote s ws t"
  by (simp_all add: wrote_read_def wrote_def)

named_theorems wrote "rules that follow a program text and collect its writes"

lemma wrote_READ [wrote]:
  assumes "reg_addr a" and "wrote s0 ws s"
    and "\<And>v s'. \<lbrakk>wrote_read s0 ws a v s'; wrote s0 ws s'; chip_frame s s'\<rbrakk> \<Longrightarrow> Q v s'"
  shows "wpt (WIZCHIP_READ p a s) Q"
  using assms(1) by (rule wpt_READ) (rule assms(3), rule wrote_read_get [OF assms(2)], assumption,
      rule wrote_get [OF assms(2)])

lemma wrote_WRITE [wrote]:
  "\<lbrakk>reg_addr a; wrote s0 ws s\<rbrakk> \<Longrightarrow> wrote s0 (RegWrite a [v] # ws) (WIZCHIP_WRITE p a v s)"
  by (erule wrote_put) simp

lemma wrote_WRITE_BUF [wrote]:
  "\<lbrakk>reg_addr a; len \<noteq> 0; wrote s0 ws s\<rbrakk>
    \<Longrightarrow> wrote s0 (RegWrite a (take (unat len) bs) # ws) (WIZCHIP_WRITE_BUF p a (Some bs) len s)"
  by (erule wrote_put) simp

lemma wrote_write16 [wrote]:
  assumes "reg_addr a" and "wrote s0 ws s" and "\<And>v s'. wrote s0 (RegWrite a [hi8 w, lo8 w] # ws) s' \<Longrightarrow> Q v s'"
  shows "wpt (wizchip_write16_5500 p a w s) Q"
  using assms(1) by (rule wpt_write16) (rule assms(3), rule wrote_put [OF assms(2)])

lemma wrote_waits [wrote]:
  assumes "wrote s0 ws s"
  shows "(\<And>v s'. wrote s0 ws s' \<Longrightarrow> Q v s') \<Longrightarrow> wpt (wizchip_deadline_abs t s) Q"
    and "(\<And>v s'. wrote s0 ws s' \<Longrightarrow> Q1 v s') \<Longrightarrow> wpt (wizchip_deadline_expired t s) Q1"
    and "\<lbrakk>Q2 (SOCKERR_TIMEOUT, None) s; \<And>d s'. wrote s0 ws s' \<Longrightarrow> Q2 (SOCK_OK, Some d) s'\<rbrakk>
      \<Longrightarrow> wpt (sock_deadline_begin b s) Q2"
  using wrote_same [OF assms]
  by (auto intro!: wpt_deadline_abs wpt_deadline_expired wpt_sock_deadline_begin dest!: time_stepD(1))

lemma wrote_register_waits [wrote]:
  assumes "sn < 8" and "wrote s0 ws s"
  shows "\<lbrakk>\<And>s'. wrote_read s0 ws (Sn_CR sn) 0 s' \<Longrightarrow> Q SOCK_OK s';
      \<And>s'. sock_health s' sn = SOCK_FAULTED \<Longrightarrow> Q SOCKERR_TIMEOUT s'\<rbrakk> \<Longrightarrow> wpt (wait_cr_accepted p sn d s) Q"
    and "\<lbrakk>\<And>s'. wrote_read s0 ws (Sn_SR sn) w s' \<Longrightarrow> Q1 SOCK_OK s';
      \<And>s'. sock_health s' sn = SOCK_FAULTED \<Longrightarrow> Q1 SOCKERR_TIMEOUT s'\<rbrakk> \<Longrightarrow> wpt (wait_sr_reached p sn w d s) Q1"
  using wrote_polled [OF assms(2)]
  by (auto intro!: wpt_wait_cr [OF assms(1)] wpt_wait_sr [OF assms(1)] simp: poll_failed_def sock_set)

subsection \<open>Listening\<close>

text \<open>When \<open>listen\<close> reports success the socket was in INIT, the only thing written was the LISTEN
  command, and the last register access read the status LISTEN. Any other result is an error.\<close>

theorem listen_success:
  assumes "listen p sn s = (r, s')"
  shows "if r = SOCK_OK then wrote_read s [RegWrite (Sn_CR sn) [Sn_CR_LISTEN]] (Sn_SR sn) SOCK_LISTEN s'
    else r \<in> {SOCKERR_SOCKNUM, SOCKERR_IO, SOCKERR_SOCKINIT, SOCKERR_TIMEOUT}"
proof -
  let ?P = "\<lambda>s r s'. if r = SOCK_OK then wrote_read s [RegWrite (Sn_CR sn) [Sn_CR_LISTEN]] (Sn_SR sn) SOCK_LISTEN s'
    else r \<in> {SOCKERR_SOCKNUM, SOCKERR_IO, SOCKERR_SOCKINIT, SOCKERR_TIMEOUT}"
  have "wpt (listen_locked p sn s) (?P s)" if "sn < 8" for s :: "('a, 'b) drv_scheme"
    unfolding listen_locked_def getSn_SR_def setSn_CR_def
    using that by (auto intro!: wp wrote intro: wrote_read_wrote)
  from this [of "call p (SockEnter sn) s"] have "wpt (listen p sn s) (?P s)"
    unfolding listen_def by (auto simp: wpt_def split_beta Let_def WIZCHIP_SOCK_NUM_def not_le)
  from wptD [OF this assms] show ?thesis .
qed

theorem listen_success_witness:
  "\<exists>s'. listen scripted 2 (scripted_ready [0x13, 0, 0x14]) = (SOCK_OK, s')
     \<and> wrote_read (scripted_ready [0x13, 0, 0x14]) [RegWrite (Sn_CR 2) [Sn_CR_LISTEN]] (Sn_SR 2) SOCK_LISTEN s'"
proof -
  have "fst (listen scripted 2 (scripted_ready [0x13, 0, 0x14])) = SOCK_OK"
    by (simp add: run_defs reg_defs open_defs cong: run_cong)
  then obtain s' where e: "listen scripted 2 (scripted_ready [0x13, 0, 0x14]) = (SOCK_OK, s')"
    by (metis prod.collapse)
  from listen_success [OF e] e show ?thesis by auto
qed

subsection \<open>Connecting\<close>

lemma connect_loop_spec:
  assumes "sn < 8" and "wrote s0 ws s"
  shows "wpo (forever (connect_step p sn d) () s)
    (\<lambda>r s'. if r = SOCK_OK then wrote_read s0 ws (Sn_SR sn) SOCK_ESTABLISHED s' else r < 0)"
proof (rule wpo_forever [where I = "\<lambda>_. wrote s0 ws", OF assms(2)])
  fix c s assume "wrote s0 ws s"
  then show "wpo (connect_step p sn d c s) (\<lambda>r s'. case r of
      Inl a \<Rightarrow> if a = SOCK_OK then wrote_read s0 ws (Sn_SR sn) SOCK_ESTABLISHED s' else a < 0
      | Inr c' \<Rightarrow> wrote s0 ws s')"
    unfolding connect_step_def getSn_SR_def getSn_IR_def
    using assms(1) by (auto intro!: wp wrote)
qed

definition connect_writes :: "u8 \<Rightarrow> u8 list \<Rightarrow> u16 \<Rightarrow> reg_op list" where
  "connect_writes sn a port = [RegWrite (Sn_CR sn) [Sn_CR_CONNECT], RegWrite (Sn_DIPR sn) (take 4 a),
     RegWrite (Sn_DPORT sn) [hi8 port, lo8 port]]"

definition connect_post ::
    "u8 \<Rightarrow> u8 list \<Rightarrow> u16 \<Rightarrow> ('w, 'm) drv_scheme \<Rightarrow> int \<Rightarrow> ('w, 'm) drv_scheme \<Rightarrow> bool" where
  "connect_post sn a port s r s' \<longleftrightarrow> (if r = SOCK_OK
     then wrote_read s (connect_writes sn a port) (Sn_SR sn) SOCK_ESTABLISHED s' else r < 0)"

lemma connect_post_call [simp]:
  "connect_post sn a port (call p (SockEnter n) s) r t = connect_post sn a port s r t"
  "connect_post sn a port s r (call p (SockExit m) t) = connect_post sn a port s r t"
  by (simp_all add: connect_post_def)

lemma connect_locked_spec:
  assumes "sn < 8"
  shows "wpo (connect_locked p sn (Some a) port addrlen s) (connect_post sn a port s)"
proof -
  have err: "connect_post sn a port s r t" if "r < 0" for r t
    using that by (auto simp: connect_post_def)
  have loop: "wpo (forever (connect_step p sn d) () t) (connect_post sn a port s)"
    if "wrote s (connect_writes sn a port) t" for d t
    by (rule wpo_mono [OF connect_loop_spec [OF assms that]]) (simp add: connect_post_def)
  have dipr: "wrote s (RegWrite (Sn_DIPR sn) (take 4 a) # ws) (WIZCHIP_WRITE_BUF p (Sn_DIPR sn) (Some a) 4 t)"
    if "wrote s ws t" for ws t
    using wrote_WRITE_BUF [OF _ _ that, of "Sn_DIPR sn" 4 a p] assms by simp
  show ?thesis
    unfolding connect_locked_def getSn_SR_def setSn_CR_def setSn_DPORT_def setSn_DIPR_def
    using assms
    by (auto intro!: wp wrote [where ?s0.0 = s] wrote_refl dipr loop err intro: wrote_read_wrote
        simp: connect_writes_def)
qed

text \<open>C20: \<open>connect\<close> reports success only when the chip showed ESTABLISHED in the last register access,
  and then it wrote exactly the destination port, the destination address and the CONNECT command,
  in this order. Every other result that it returns is a negative error.\<close>

theorem connect_success:
  assumes "connect_IO_6 p sn (Some a) port addrlen s = Some (r, s')"
  shows "connect_post sn a port s r s'"
proof -
  have err: "chk < 0" if "connect_args_check sn (Some a) port addrlen = chk" "chk \<noteq> SOCK_OK" for chk
    using that by (auto simp: connect_args_check_def Let_def split: if_splits)
  have "wpo (connect_IO_6 p sn (Some a) port addrlen s) (connect_post sn a port s)"
    unfolding connect_IO_6_def Let_def
  proof (intro wpo_if wpo_bind wpo_Some, goal_cases)
    case 1
    with err [OF refl] show ?case by (auto simp: connect_post_def)
  next
    case 2
    then have "sn < 8" using locks.connect_args_sn by blast
    then show ?case
      by (intro wpo_mono [OF connect_locked_spec]) (auto simp: wpo_def)
  qed
  with assms show ?thesis by (simp add: wpo_def)
qed

definition connect_start :: "u8 list \<Rightarrow> u8 list drv" where
  "connect_start script = (scripted_ready script)\<lparr>sock_mode := (\<lambda>_. Sn_MR_TCP)\<rparr>"

theorem connect_success_witness:
  "\<exists>s'. connect_IO_6 scripted 0 (Some [10, 0, 0, 1]) 80 4 (connect_start [0x13, 0, 0x17]) = Some (SOCK_OK, s')
     \<and> connect_post 0 [10, 0, 0, 1] 80 (connect_start [0x13, 0, 0x17]) SOCK_OK s'"
proof -
  have "\<exists>s'. connect_IO_6 scripted 0 (Some [10, 0, 0, 1]) 80 4 (connect_start [0x13, 0, 0x17]) = Some (SOCK_OK, s')"
    by (simp add: run_defs reg_defs stream_defs connect_start_def forever_code cong: run_cong)
  with connect_success show ?thesis by blast
qed

text \<open>
  Up to the wait for the peer: the call is over (\<open>Inl\<close>), or has given the CONNECT command and waits until
  this deadline (\<open>Inr\<close>).
\<close>

definition connect_begin ::
    "'w platform \<Rightarrow> u8 \<Rightarrow> u8 list option \<Rightarrow> u16 \<Rightarrow> u8 \<Rightarrow> ('w, 'm) drv_scheme \<Rightarrow> (int + u64) \<times> ('w, 'm) drv_scheme" where
  "connect_begin p sn addr port addrlen s =
     (if wizchip_get_state s \<noteq> WIZCHIP_STATE_READY then (Inl SOCKERR_NOTREADY, s)
      else if sock_health s sn = SOCK_FAULTED then (Inl SOCKERR_IO, s)
      else if sock_mode s sn AND 0x03 \<noteq> 0x01 then (Inl SOCKERR_SOCKMODE, s)
      else let (sr, s) = getSn_SR p sn s in
      if sr \<noteq> SOCK_INIT then (Inl SOCKERR_SOCKINIT, s)
      else if addrlen = 16 then (Inl SOCKERR_SOCKMODE, s)
      else let (_, s) = setSn_DPORT p sn port s;
               s = setSn_DIPR p sn addr s;
               s = setSn_CR p sn Sn_CR_CONNECT s in
      if wizchip_deadline_config_valid s = 0 then (Inl SOCKERR_TIMEOUT, s)
      else let cfg = timeout_config s;
               (deadline, s) = wizchip_deadline_abs (ucast (command_timeout_us cfg)) s;
               (ret, s) = wait_cr_accepted p sn deadline s in
      if ret \<noteq> SOCK_OK then (Inl ret, s)
      else let (deadline, s) = wizchip_deadline_abs (ucast (operation_timeout_us cfg)) s in (Inr deadline, s))"

lemma connect_locked_begin:
  "connect_locked p sn addr port addrlen s = (case connect_begin p sn addr port addrlen s of
     (Inl r, t) \<Rightarrow> Some (r, t) | (Inr d, t) \<Rightarrow> forever (connect_step p sn d) () t)"
  unfolding connect_locked_def connect_begin_def Let_def
  by (simp add: case_prod_unfold)

text \<open>Rounds of the wait that go on.\<close>

fun connect_rounds :: "'w platform \<Rightarrow> u8 \<Rightarrow> u64 \<Rightarrow> nat \<Rightarrow> ('w, 'm) drv_scheme \<Rightarrow> ('w, 'm) drv_scheme option" where
  "connect_rounds p sn d 0 s = Some s"
| "connect_rounds p sn d (Suc n) s =
     (case connect_step p sn d () s of Some (Inr _, s') \<Rightarrow> connect_rounds p sn d n s' | _ \<Rightarrow> None)"

text \<open>
  While \<open>W\<close> holds of the world, the two registers that a round reads decide nothing, and the registered
  clock shows \<open>raw\<close>.
\<close>

definition peer_undecided :: "'w platform \<Rightarrow> u8 \<Rightarrow> ('w \<Rightarrow> bool) \<Rightarrow> ('w, 'm) drv_scheme \<Rightarrow> bool" where
  "peer_undecided p sn W s \<longleftrightarrow> (W (world s) \<longrightarrow>
     (let (sr, s) = getSn_SR p sn s; (ir, s) = getSn_IR p sn s
      in sr \<noteq> SOCK_ESTABLISHED \<and> sr \<noteq> SOCK_CLOSED \<and> ir AND Sn_IR_TIMEOUT = 0 \<and> W (world s)))"

definition clock_stands :: "('w \<Rightarrow> bool) \<Rightarrow> u32 \<Rightarrow> ('w, 'm) time_state_scheme \<Rightarrow> bool" where
  "clock_stands W raw s \<longleftrightarrow> (case time_us_cb s of
     Some f \<Rightarrow> \<forall>w. W w \<longrightarrow> fst (f w) = raw \<and> W (snd (f w))
   | None \<Rightarrow> (case now_us s of
       Some g \<Rightarrow> \<forall>w. W w \<longrightarrow> ucast (fst (g w)) = raw \<and> W (snd (g w))
     | None \<Rightarrow> False))"

definition standing :: "('w \<Rightarrow> bool) \<Rightarrow> u32 \<Rightarrow> u64 \<Rightarrow> ('w, 'm) time_state_scheme \<Rightarrow> bool" where
  "standing W raw now s \<longleftrightarrow> W (world s) \<and> clock_stands W raw s \<and> fst (wrap_raw raw s) = now"

lemma clock_stands_same:
  "\<lbrakk>time_us_cb s' = time_us_cb s; now_us s' = now_us s\<rbrakk> \<Longrightarrow> clock_stands W raw s' = clock_stands W raw s"
  by (simp add: clock_stands_def split: option.split)

lemma wrap_raw_same:
  "\<lbrakk>wrap_last_raw_us s' = wrap_last_raw_us s; wrap_base_us s' = wrap_base_us s\<rbrakk>
    \<Longrightarrow> fst (wrap_raw raw s') = fst (wrap_raw raw s)"
  by (simp add: wrap_raw_def Let_def)

lemma wrap_raw_again:
  "fst (wrap_raw raw (snd (wrap_raw raw s))) = fst (wrap_raw raw s)" "time_us_cb (snd (wrap_raw raw s)) = time_us_cb s"
  "now_us (snd (wrap_raw raw s)) = now_us s" "world (snd (wrap_raw raw s)) = world s"
  by (simp_all add: wrap_raw_def Let_def)

lemma standing_wrap:
  assumes "W w" and "clock_stands W raw s" and "wrap_raw raw (s\<lparr>world := w, trace := tr\<rparr>) = (now, s')"
  shows "fst (wrap_raw raw s) = now" "standing W raw now s'"
proof -
  let ?s = "s\<lparr>world := w, trace := tr\<rparr>"
  have "fst (wrap_raw raw ?s) = fst (wrap_raw raw s)" by (rule wrap_raw_same) simp_all
  then show "fst (wrap_raw raw s) = now" using assms(3) by simp
  have "clock_stands W raw s'"
    using assms(2,3) wrap_raw_again(2,3) [of raw ?s] clock_stands_same [of s' s W raw] by simp
  then show "standing W raw now s'"
    using assms(1,3) wrap_raw_again(1,4) [of raw ?s] by (simp add: standing_def)
qed

lemma standing_now:
  assumes "W (world s)" and "clock_stands W raw s" and "wizchip_time_now s = (now, s')"
  shows "fst (wrap_raw raw s) = now" "standing W raw now s'"
proof -
  obtain w tr where "W w" "wrap_raw raw (s\<lparr>world := w, trace := tr\<rparr>) = (now, s')"
  proof (cases "time_us_cb s")
    case (Some f)
    obtain r w where f: "f (world s) = (r, w)" by fastforce
    with Some assms have "r = raw" "W w" by (auto simp: clock_stands_def)
    with Some f assms(3) that show thesis by (simp add: wizchip_time_now_def)
  next
    case None
    then obtain g where g: "now_us s = Some g" using assms(2) by (auto simp: clock_stands_def split: option.splits)
    obtain r w where r: "g (world s) = (r, w)" by fastforce
    with None g assms(1,2) have "ucast r = raw" "W w" by (auto simp: clock_stands_def)
    with None g r assms(3) that show thesis by (simp add: wizchip_time_now_def)
  qed
  from standing_wrap [where W = W, OF this(1) assms(2) this(2)]
  show "fst (wrap_raw raw s) = now" "standing W raw now s'" by blast+
qed

lemma standing_bus:
  fixes s s' :: "('w, 'm) time_state_scheme"
  assumes "standing W raw now s" and "bus_upd s s'" and "W (world s')"
  shows "standing W raw now s'"
proof -
  have "wrap_last_raw_us s' = wrap_last_raw_us s" "wrap_base_us s' = wrap_base_us s"
    using assms(2) unfolding bus_upd_def by auto
  then show ?thesis
    using assms wrap_raw_same [of s' s] clock_stands_same [of s' s] bus_upd_time [OF assms(2)] by (simp add: standing_def)
qed

lemma undecided_round:
  fixes s :: "('w, 'm) drv_scheme"
  assumes "peer_undecided p sn W s" and "standing W raw now s" and "now < d"
  shows "\<exists>u. connect_step p sn d () s = Some (Inr (), u) \<and> standing W raw now u
    \<and> lock_phase (trace u) = lock_phase (trace s)"
proof -
  obtain sr s1 ir s2 where sr: "getSn_SR p sn s = (sr, s1)" and ir: "getSn_IR p sn s1 = (ir, s2)" by fastforce
  have read: "bus_upd t (snd (WIZCHIP_READ p a t))" for a and t :: "('w, 'm) drv_scheme"
    using bus_frame.R_READ [OF bus_frame.R_refl, of t "\<lambda>_. bus_upd t" p a] by (simp add: wpt_def)
  have upd: "bus_upd s s1" "bus_upd s1 s2"
    using read [of s "Sn_SR sn"] read [of s1 "Sn_IR sn"] sr ir
    by (auto simp: getSn_SR_def getSn_IR_def split: prod.splits)
  have w: "sr \<noteq> SOCK_ESTABLISHED" "sr \<noteq> SOCK_CLOSED" "ir AND Sn_IR_TIMEOUT = 0" "W (world s2)"
    using assms(1,2) by (simp_all add: peer_undecided_def standing_def sr ir)
  have st: "standing W raw now s2"
    by (rule standing_bus [OF assms(2) bus_upd_trans [OF upd] w(4)])
  then have active: "wizchip_time_source_active s2"
    by (auto simp: standing_def clock_stands_def wizchip_time_source_active_def split: option.splits)
  obtain v u where now: "wizchip_time_now s2 = (v, u)" by fastforce
  have "v = now" "standing W raw now u"
    using standing_now [OF _ _ now, of W raw] st by (auto simp: standing_def)
  moreover have step: "connect_step p sn d () s = Some (Inr (), u)"
    using w active now assms(3) \<open>v = now\<close>
    by (simp add: connect_step_def sr ir wizchip_deadline_expired_def not_le)
  moreover have "lock_phase (trace u) = lock_phase (trace s)"
    using wpoD [OF locks.R_steps(1) step, of s] by (simp add: locks_same_def)
  ultimately show ?thesis by blast
qed

lemma undecided_rounds:
  fixes s :: "('w, 'm) drv_scheme"
  assumes "\<forall>u :: ('w, 'm) drv_scheme. peer_undecided p sn W u" and "standing W raw now s" and "now < d"
  shows "\<exists>u. connect_rounds p sn d n s = Some u \<and> standing W raw now u \<and> lock_phase (trace u) = lock_phase (trace s)"
  using assms(2)
proof (induction n arbitrary: s)
  case (Suc n)
  then show ?case using undecided_round [OF spec [OF assms(1)] Suc(2) assms(3)] by fastforce
qed simp

lemma undecided_hangs:
  fixes s :: "('w, 'm) drv_scheme"
  assumes "\<forall>u :: ('w, 'm) drv_scheme. peer_undecided p sn W u" and "standing W raw now s" and "now < d"
  shows "forever (connect_step p sn d) () s = None"
proof -
  have "wpo (forever (connect_step p sn d) () s) (\<lambda>_ _. False)"
  proof (rule wpo_forever [where I = "\<lambda>_. standing W raw now", OF assms(2)])
    fix c and s :: "('w, 'm) drv_scheme" assume "standing W raw now s"
    with undecided_round [OF spec [OF assms(1)] this assms(3)]
    show "wpo (connect_step p sn d c s) (\<lambda>r s'. case r of Inl a \<Rightarrow> False | Inr c' \<Rightarrow> standing W raw now s')"
      by (auto simp: wpo_def)
  qed
  then show ?thesis by (cases "forever (connect_step p sn d) () s") (auto simp: wpo_def)
qed

text \<open>The lock of the socket is held when the wait begins.\<close>

lemma connect_begin_locks: "lock_phase (trace (snd (connect_begin p sn addr port addrlen s))) = lock_phase (trace s)"
proof -
  have "wpt (connect_begin p sn addr port addrlen s) (\<lambda>_. locks_same s)"
    unfolding connect_begin_def reg_defs
    by (auto intro!: wp locks.sock_rel locks.R_refl)
  then show ?thesis by (simp add: wpt_def locks_same_def)
qed

text \<open>C24: Only the clock bounds the wait of \<open>connect\<close>. Once \<open>connect\<close> has given the CONNECT command and waits
  for its peer, suppose that the status and the interrupt register read in the rounds decide nothing (not
  ESTABLISHED, not CLOSED, no TIMEOUT interrupt), and that the registered clock stands still at a time before
  the deadline. Then \<open>connect\<close> does not return: every round goes on, and the lock of its socket, and no
  other, is held after each of them. The other waits count their polls.\<close>

theorem connect_needs_clock:
  fixes s t :: "('w, 'm) drv_scheme"
  assumes "no_locks s" and "connect_args_check sn (Some a) port addrlen = SOCK_OK"
    and "connect_begin p sn (Some a) port addrlen (call p (SockEnter sn) s) = (Inr d, t)"
    and "W (world t)" and "\<forall>u :: ('w, 'm) drv_scheme. peer_undecided p sn W u"
    and "clock_stands W raw t" and "fst (wizchip_time_now t) < d"
  shows "connect_IO_6 p sn (Some a) port addrlen s = None
    \<and> (\<forall>n. \<exists>u. connect_rounds p sn d n t = Some u \<and> lock_phase (trace u) = Locks False [sn])"
proof -
  have st: "standing W raw (fst (wizchip_time_now t)) t"
    using standing_now(1) [OF assms(4,6), of "fst (wizchip_time_now t)" "snd (wizchip_time_now t)"] assms(4,6)
    by (simp add: standing_def)
  have "lock_phase (trace t) = lock_phase (trace (call p (SockEnter sn) s))"
    using connect_begin_locks [of p sn "Some a" port addrlen "call p (SockEnter sn) s"] by (simp add: assms(3))
  then have lock: "lock_phase (trace t) = Locks False [sn]"
    using assms(1) locks.connect_args_sn [OF assms(2)] by (simp add: call_def no_locks_def)
  have "connect_IO_6 p sn (Some a) port addrlen s = None"
    using undecided_hangs [OF assms(5) st assms(7)]
    by (simp add: connect_IO_6_def assms(2) [simplified] connect_locked_begin assms(3))
  moreover have "\<exists>u. connect_rounds p sn d n t = Some u \<and> lock_phase (trace u) = Locks False [sn]" for n
    using undecided_rounds [OF assms(5) st assms(7), of n] lock by auto
  ultimately show ?thesis by blast
qed

text \<open>A peer that lingers: every byte that the chip gives after the last of the script repeats it.\<close>

definition lingering :: "u8 list platform" where
  "lingering = scripted\<lparr>pf_read_byte := (\<lambda>w. case w of [] \<Rightarrow> (0, []) | b # bs \<Rightarrow> (b, if bs = [] then [b] else bs))\<rparr>"

lemma lingering_call [simp]: "pf_call lingering ev w = w"
  by (simp add: lingering_def scripted_def)

lemma lingering_bytes [simp]: "world (spi_write_bytes lingering bs s) = world s"
  by (induction bs arbitrary: s) simp_all

lemma lingering_read:
  assumes "world s = [b]"
  shows "wpt (WIZCHIP_READ lingering a s) (\<lambda>v s'. v = b \<and> world s' = [b])"
proof -
  have read: "wpt (spi_read_byte lingering t) (\<lambda>v t'. v = b \<and> world t' = [b])" if "world t = [b]"
    for t :: "(u8 list, 'a) bus_state_scheme"
    using that by (simp add: wpt_def spi_read_byte_def lingering_def Let_def)
  have fin: "wpt (spi_finish_read lingering t) (\<lambda>_ t'. world t' = [b])" if "world t = [b]"
    for t :: "(u8 list, 'a) bus_state_scheme"
    using that
    by (simp add: wpt_def spi_finish_read_def spi_status_bad_def lingering_def scripted_def call_def Let_def)
  show ?thesis
    unfolding WIZCHIP_READ_def wizchip_read8_checked_def wizchip_read8_checked_out_def wizchip_clear_spi_error_def
      wizchip_spi_write_header_def spi_write_data_def Let_def
    using assms by (auto intro!: wp wpt_mono [OF read] wpt_mono [OF fin])
qed

lemma lingering_undecided: "peer_undecided lingering sn (\<lambda>w. w = [SOCK_SYNSENT]) s"
proof -
  have reads: "fst (WIZCHIP_READ lingering a u) = SOCK_SYNSENT" "world (snd (WIZCHIP_READ lingering a u)) = [SOCK_SYNSENT]"
    if "world u = [SOCK_SYNSENT]" for a and u :: "(u8 list, 'a) drv_scheme"
    using lingering_read [OF that, of a] by (simp_all add: wpt_def)
  show ?thesis
    unfolding peer_undecided_def getSn_SR_def getSn_IR_def Let_def case_prod_unfold
    by (simp add: reads)
qed

lemma lingering_begin:
  "\<exists>t. connect_begin lingering 0 (Some [10, 0, 0, 1]) 80 4 (call lingering (SockEnter 0) (connect_start [0x13, 0, SOCK_SYNSENT]))
      = (Inr 2000000, t) \<and> world t = [SOCK_SYNSENT] \<and> time_us_cb t = None \<and> now_us t = Some (\<lambda>w. (0, w))
    \<and> wrap_last_raw_us t = 0 \<and> wrap_base_us t = 0"
  by (simp add: connect_begin_def run_defs reg_defs connect_start_def lingering_def cong: run_cong)

theorem connect_needs_clock_witness:
  "connect_IO_6 lingering 0 (Some [10, 0, 0, 1]) 80 4 (connect_start [0x13, 0, SOCK_SYNSENT]) = None"
proof -
  obtain t where t: "connect_begin lingering 0 (Some [10, 0, 0, 1]) 80 4
      (call lingering (SockEnter 0) (connect_start [0x13, 0, SOCK_SYNSENT])) = (Inr 2000000, t)"
    "world t = [SOCK_SYNSENT]" "time_us_cb t = None" "now_us t = Some (\<lambda>w. (0, w))"
    "wrap_last_raw_us t = 0" "wrap_base_us t = 0"
    using lingering_begin by blast
  have "no_locks (connect_start [0x13, 0, SOCK_SYNSENT])"
    by (simp add: no_locks_def connect_start_def scripted_ready_def drv_start_def)
  moreover have "connect_args_check 0 (Some [10, 0, 0, 1]) 80 4 = SOCK_OK"
    by (simp add: connect_args_check_def WIZCHIP_SOCK_NUM_def)
  moreover have "clock_stands (\<lambda>w. w = [SOCK_SYNSENT]) 0 t"
    by (simp add: clock_stands_def t)
  moreover have "fst (wizchip_time_now t) < 2000000"
    by (simp add: wizchip_time_now_def wrap_raw_def Let_def t)
  ultimately show ?thesis
    using connect_needs_clock [where W = "\<lambda>w. w = [SOCK_SYNSENT]", OF _ _ t(1)] t(2) lingering_undecided by blast
qed

subsection \<open>Disconnecting\<close>

definition disconnect_post :: "u8 \<Rightarrow> ('w, 'm) drv_scheme \<Rightarrow> int \<Rightarrow> ('w, 'm) drv_scheme \<Rightarrow> bool" where
  "disconnect_post sn s r s' \<longleftrightarrow> (if r = SOCK_OK
     then wrote_read s [] (Sn_SR sn) SOCK_CLOSED s' \<or> wrote_read s [RegWrite (Sn_CR sn) [Sn_CR_DISCON]] (Sn_SR sn) SOCK_CLOSED s'
     else r < 0)"

lemma disconnect_post_call [simp]:
  "disconnect_post sn (call p (SockEnter n) s) r t = disconnect_post sn s r t"
  "disconnect_post sn s r (call p (SockExit m) t) = disconnect_post sn s r t"
  by (simp_all add: disconnect_post_def)

lemma wrote_sending: "wrote s ws t \<Longrightarrow> wrote s ws (set_sock_is_sending sn b t)"
  by (erule wrote_same) simp

lemma disconnect_wait_spec:
  assumes "sn < 8" and "wrote s0 ws s" and "ws = [] \<or> ws = [RegWrite (Sn_CR sn) [Sn_CR_DISCON]]"
  shows "wpo (disconnect_wait p sn s) (disconnect_post sn s0)"
proof -
  have step: "wpo (disconnect_step p sn d c t) (\<lambda>r s'. case r of
      Inl a \<Rightarrow> disconnect_post sn s0 a s' | Inr c' \<Rightarrow> wrote s0 ws s')" if "wrote s0 ws t" for d c t
    unfolding disconnect_step_def getSn_SR_def getSn_IR_def setSn_IR_def
    using assms(1,3) that by (auto intro!: wp wrote simp: disconnect_post_def)
  have "wpo (forever (disconnect_step p sn d) () t) (disconnect_post sn s0)" if "wrote s0 ws t" for d t
    by (rule wpo_forever [where I = "\<lambda>_. wrote s0 ws", OF that step])
  then show ?thesis
    unfolding disconnect_wait_def
    by (auto intro!: wp wrote_waits(1) intro: wrote_sending [OF assms(2)] simp: disconnect_post_def)
qed

text \<open>\<open>disconnect\<close> reports success only when the chip showed CLOSED in the last register access. The
  only thing it can have written by then is one DISCON command, and it writes none when the
  connection was not established. Every other result that it returns is a negative error.\<close>

theorem disconnect_success:
  assumes "disconnect p sn s = Some (r, s')"
  shows "disconnect_post sn s r s'"
proof -
  have err: "disconnect_post sn s r t" if "r < 0" for r and s t :: "('a, 'b) drv_scheme"
    using that by (auto simp: disconnect_post_def)
  have locked: "wpo (disconnect_locked p sn s) (disconnect_post sn s)" if sn: "sn < 8" for s :: "('a, 'b) drv_scheme"
  proof -
    note wait = disconnect_wait_spec [OF sn]
    have closed: "disconnect_post sn s SOCK_OK t" if "wrote_read s [] (Sn_SR sn) SOCK_CLOSED t" for t
      using that by (simp add: disconnect_post_def)
    show ?thesis
      unfolding disconnect_locked_def getSn_SR_def setSn_CR_def
      using sn
      by (auto intro!: wp wrote [where ?s0.0 = s] wrote_refl intro: err closed [simplified] wait wrote_read_wrote)
  qed
  have "wpo (disconnect p sn s) (disconnect_post sn s)"
    unfolding disconnect_def Let_def
    by (intro wpo_if wpo_bind wpo_Some err, simp, rule wpo_mono [OF locked])
      (auto simp: wpo_def WIZCHIP_SOCK_NUM_def not_le)
  with assms show ?thesis by (simp add: wpo_def)
qed

theorem disconnect_success_witness:
  "\<exists>s'. disconnect scripted 0 (connect_start [0x17, 0, 0]) = Some (SOCK_OK, s')
     \<and> disconnect_post 0 (connect_start [0x17, 0, 0]) SOCK_OK s'"
proof -
  have "\<exists>s'. disconnect scripted 0 (connect_start [0x17, 0, 0]) = Some (SOCK_OK, s')"
    by (simp add: run_defs reg_defs stream_defs connect_start_def forever_code cong: run_cong)
  with disconnect_success show ?thesis by blast
qed

end
