(* ===== verification/Commands.thy ===== *)
theory Commands
  imports SockProps
begin

text \<open>
  Which commands a socket call gives to the chip: \<open>cmds sn\<close> is the list of the values written
  to the command register of a socket, latest first. Reads, waits and the writes of other
  registers are silent; the rules of this theory follow a program text and keep track of the
  commands, whatever the chip answers.
\<close>

unbundle bit_operations_syntax

subsection \<open>Commands in the register log\<close>

definition cmd_of :: "u8 \<Rightarrow> reg_op \<Rightarrow> u8 list" where
  "cmd_of sn x = (case x of RegWrite a bs \<Rightarrow> (if a = Sn_CR sn then bs else []) | RegRead a bs \<Rightarrow> [])"

definition cmds :: "u8 \<Rightarrow> ('w, 'm) bus_state_scheme \<Rightarrow> u8 list" where
  "cmds sn s = concat (map (cmd_of sn) (reg_log (trace s)))"

lemma cmd_of_simps [simp]:
  "cmd_of sn (RegRead a bs) = []" "cmd_of sn (RegWrite a bs) = (if a = Sn_CR sn then bs else [])"
  by (simp_all add: cmd_of_def)

lemma not_Sn_CR [simp]:
  "Sn_MR sn \<noteq> Sn_CR sn" "Sn_IR sn \<noteq> Sn_CR sn" "Sn_PORT sn \<noteq> Sn_CR sn" "Sn_DIPR sn \<noteq> Sn_CR sn"
  "Sn_DPORT sn \<noteq> Sn_CR sn" "Sn_TX_WR sn \<noteq> Sn_CR sn" "Sn_RX_RD sn \<noteq> Sn_CR sn"
  by (simp_all add: Sn_MR_def Sn_IR_def Sn_PORT_def Sn_DIPR_def Sn_DPORT_def Sn_TX_WR_def Sn_RX_RD_def
      Sn_CR_def)

text \<open>Buffer memory is in blocks 2 and 3 modulo 4, socket registers in block 1.\<close>

lemma buf_addr_not_Sn_CR:
  assumes "sn < 8"
  shows "buf_addr ptr (WIZCHIP_TXBUF_BLOCK sn) \<noteq> Sn_CR sn" "buf_addr ptr (WIZCHIP_RXBUF_BLOCK sn) \<noteq> Sn_CR sn"
proof -
  have bit8: "\<not> bit (push_bit 8 (ucast ptr :: u32)) n" if "n < 8" for n
    using that by (simp add: bit_simps)
  have cr: "bit (Sn_CR sn) 3" "\<not> bit (Sn_CR sn) 4"
    using sock_num_cases [OF assms] by (elim disjE; simp add: Sn_CR_def WIZCHIP_SREG_BLOCK_def; code_simp)+
  have tx: "bit (WIZCHIP_TXBUF_BLOCK sn) 1" and rx: "bit (WIZCHIP_RXBUF_BLOCK sn) 1"
    using sock_num_cases [OF assms]
    by (elim disjE; simp add: WIZCHIP_TXBUF_BLOCK_def WIZCHIP_RXBUF_BLOCK_def; code_simp)+
  have "bit (buf_addr ptr blk) 4 = bit blk 1" if "blk < 32" for blk
    using bit8 by (simp add: buf_addr_or [OF that] bit_simps)
  then have "bit (buf_addr ptr (WIZCHIP_TXBUF_BLOCK sn)) 4" "bit (buf_addr ptr (WIZCHIP_RXBUF_BLOCK sn)) 4"
    using sock_block_less [OF assms] tx rx by simp_all
  with cr show "buf_addr ptr (WIZCHIP_TXBUF_BLOCK sn) \<noteq> Sn_CR sn"
    "buf_addr ptr (WIZCHIP_RXBUF_BLOCK sn) \<noteq> Sn_CR sn" by metis+
qed

subsection \<open>Silent steps\<close>

text \<open>
  What a silent step keeps: the commands given so far, the transmit state, the blocking mode
  and the data the calls read again after a wait. The register log only grows.
\<close>

definition grows :: "('w, 'm) bus_state_scheme \<Rightarrow> ('w, 'm) bus_state_scheme \<Rightarrow> bool" where
  "grows s s' \<longleftrightarrow> (\<exists>ops. reg_log (trace s') = ops @ reg_log (trace s))"

lemma growsI: "reg_log (trace s') = ops @ reg_log (trace s) \<Longrightarrow> grows s s'"
  by (auto simp: grows_def)

lemma grows_cons: "reg_log (trace s') = x # reg_log (trace s) \<Longrightarrow> grows s s'"
  by (rule growsI [of _ "[x]"]) simp

lemma grows_same: "reg_log (trace s') = reg_log (trace s) \<Longrightarrow> grows s s'"
  by (rule growsI [of _ "[]"]) simp

lemma grows_trans: "\<lbrakk>grows a b; grows b c\<rbrakk> \<Longrightarrow> grows a c"
  by (auto simp: grows_def)

definition silent :: "u8 \<Rightarrow> ('w, 'm) drv_scheme \<Rightarrow> ('w, 'm) drv_scheme \<Rightarrow> bool" where
  "silent sn s s' \<longleftrightarrow> cmds sn s' = cmds sn s
     \<and> sock_tx_state s' sn = sock_tx_state s sn \<and> sock_tx_pending_len s' sn = sock_tx_pending_len s sn
     \<and> sock_io_mode s' sn = sock_io_mode s sn \<and> sock_mode s' sn = sock_mode s sn
     \<and> sock_remained_size s' sn = sock_remained_size s sn \<and> sock_pack_info s' sn = sock_pack_info s sn
     \<and> wizchip_txmax_cache s' = wizchip_txmax_cache s \<and> wizchip_rxmax_cache s' = wizchip_rxmax_cache s
     \<and> timeout_config s' = timeout_config s \<and> grows s s'"

lemma silent_refl [simp]: "silent sn s s"
  by (simp add: silent_def grows_same)

lemma silent_trans: "\<lbrakk>silent sn a b; silent sn b c\<rbrakk> \<Longrightarrow> silent sn a c"
  by (auto simp: silent_def intro: grows_trans)

lemma silent_frame:
  assumes "chip_frame s s'" and "cmds sn s' = cmds sn s" and "grows s s'"
  shows "silent sn s s'"
  using assms(2,3) chip_frame_fields [OF assms(1)] by (simp add: silent_def)

lemma silent_log:
  "\<lbrakk>reg_log (trace s') = ops @ reg_log (trace s); chip_frame s s'; concat (map (cmd_of sn) ops) = []\<rbrakk>
    \<Longrightarrow> silent sn s s'"
  by (erule silent_frame) (simp_all add: cmds_def growsI)

lemma silent_read: "\<lbrakk>reg_log (trace s') = RegRead a bs # reg_log (trace s); chip_frame s s'\<rbrakk> \<Longrightarrow> silent sn s s'"
  by (rule silent_log [of _ "[RegRead a bs]"]) simp_all

lemma silent_time: "time_step s s' \<Longrightarrow> silent sn s s'"
  by (rule silent_log [of _ "[]"]) (simp_all add: time_step_def)

lemma silent_health: "silent sn s (set_sock_health sn h s)" "silent sn s (set_sock_is_sending sn b s)"
  by (simp_all add: silent_def cmds_def sock_set grows_same)

lemma cmds_fields [simp]:
  "cmds sn (set_sock_io_mode m v1 s) = cmds sn s" "cmds sn (set_sock_is_sending m v2 s) = cmds sn s"
  "cmds sn (set_sock_health m h s) = cmds sn s" "cmds sn (set_sock_remained_size m v3 s) = cmds sn s"
  "cmds sn (set_sock_pack_info m v4 s) = cmds sn s" "cmds sn (set_sock_mode m v5 s) = cmds sn s"
  "cmds sn (set_sock_tx_state m t s) = cmds sn s" "cmds sn (set_sock_tx_pending_len m v6 s) = cmds sn s"
  "cmds sn (sock_state_reset m s) = cmds sn s"
  "cmds sn (call p (SockEnter n) s) = cmds sn s" "cmds sn (call p (SockExit n) s) = cmds sn s"
  by (simp_all add: cmds_def)

named_theorems silent "rules that follow a program text through silent steps"

lemma silent_then:
  assumes "silent sn s s'" and "silent sn s0 s" and "\<And>v s'. silent sn s0 s' \<Longrightarrow> Q v s'"
  shows "Q v s'"
  using assms silent_trans by blast

lemma silent_WRITE [silent]:
  assumes "reg_addr a" and "a \<noteq> Sn_CR sn" and "silent sn s0 s"
  shows "silent sn s0 (WIZCHIP_WRITE p a v s)"
  by (rule silent_trans [OF assms(3)], rule silent_frame)
    (simp_all add: write_frame cmds_def assms(1,2) grows_cons)

lemma silent_WRITE_BUF [silent]:
  assumes "reg_addr a" and "a \<noteq> Sn_CR sn" and "silent sn s0 s"
  shows "silent sn s0 (WIZCHIP_WRITE_BUF p a b len s)"
proof (cases "len = 0 \<or> b = None")
  case True
  with assms(3) show ?thesis by (auto simp: WIZCHIP_WRITE_BUF_def wizchip_write_buf_checked_def)
next
  case False
  then obtain bs where "b = Some bs" "len \<noteq> 0" by auto
  with assms(1,2) have "silent sn s (WIZCHIP_WRITE_BUF p a b len s)"
    by (intro silent_log [where ops = "[RegWrite a (take (unat len) bs)]"]) (simp_all add: write_frame)
  with assms(3) show ?thesis by (rule silent_trans)
qed

lemma silent_READ [silent]:
  assumes "reg_addr a" and "silent sn s0 s" and "\<And>v s'. silent sn s0 s' \<Longrightarrow> Q v s'"
  shows "wpt (WIZCHIP_READ p a s) Q"
  using assms(1) by (rule wpt_READ) (rule silent_then [OF silent_read assms(2,3)])

lemma silent_READ_BUF [silent]:
  assumes "reg_addr a" and "len \<noteq> 0" and "silent sn s0 s" and "\<And>v s'. silent sn s0 s' \<Longrightarrow> Q v s'"
  shows "wpt (WIZCHIP_READ_BUF p a True len s) Q"
  using assms(1,2) by (rule wpt_READ_BUF) (rule silent_then [OF silent_read assms(3,4)])

lemma silent_write16 [silent]:
  assumes "reg_addr a" and "a \<noteq> Sn_CR sn" and "silent sn s0 s" and "\<And>v s'. silent sn s0 s' \<Longrightarrow> Q v s'"
  shows "wpt (wizchip_write16_5500 p a w s) Q"
  using assms(1)
  by (rule wpt_write16) (rule silent_then [OF silent_log [of _ "[RegWrite a [hi8 w, lo8 w]]"] assms(3,4)],
      simp_all add: assms(2))

lemma silent_read16 [silent]:
  fixes s :: "('w, 'm) drv_scheme"
  assumes "reg_addr a" and "silent sn s0 s" and "\<And>v s'. silent sn s0 s' \<Longrightarrow> Q v s'"
  shows "wpt (wizchip_read16_5500 p a True s) Q"
proof (rule wptI)
  fix v s' assume e: "wizchip_read16_5500 p a True s = (v, s')"
  obtain h l where "reg_log (trace s') = RegRead a [h, l] # reg_log (trace s)"
    using wizchip_read16_5500_log [OF _ assms(1), of p s "fst v" "snd v" s'] e by auto
  moreover have "chip_frame s s'"
    using wptD [OF chip_frame.R_read16 [OF chip_frame.R_refl, of s "\<lambda>_. chip_frame s"] e] by blast
  ultimately show "Q v s'" by (rule silent_then [OF silent_read assms(2,3)])
qed

lemma silent_read16_value [silent]:
  assumes "reg_addr a" and "silent sn s0 s" and "\<And>v s'. silent sn s0 s' \<Longrightarrow> Q v s'"
  shows "wpt (wizchip_read16_5500_value p a s) Q"
  unfolding wizchip_read16_5500_value_def using assms by (auto intro!: wp silent_read16)

lemma silent_waits [silent]:
  assumes "silent sn s0 s"
  shows "(\<And>v s'. silent sn s0 s' \<Longrightarrow> Q v s') \<Longrightarrow> wpt (wizchip_deadline_abs t s) Q"
    and "(\<And>v s'. silent sn s0 s' \<Longrightarrow> Q1 v s') \<Longrightarrow> wpt (wizchip_deadline_expired t s) Q1"
    and "(\<And>v s'. silent sn s0 s' \<Longrightarrow> Q2 v s') \<Longrightarrow> wpt (wait_poll_init t s) Q2"
    and "(\<And>v s'. silent sn s0 s' \<Longrightarrow> Q3 v s') \<Longrightarrow> wpt (wait_poll_expired p poll t s) Q3"
  using silent_trans [OF assms silent_time]
  by (auto intro!: wpt_deadline_abs wpt_deadline_expired wpt_wait_poll_init wpt_wait_poll_expired)

lemma silent_sock_deadline_begin [silent]:
  assumes "silent sn s0 s" and "Q (SOCKERR_TIMEOUT, None) s" and "\<And>d s'. silent sn s0 s' \<Longrightarrow> Q (SOCK_OK, Some d) s'"
  shows "wpt (sock_deadline_begin t s) Q"
  by (rule wpt_sock_deadline_begin) (auto intro: assms(2,3) [simplified] silent_trans [OF assms(1) silent_time])

lemma silent_poll_until:
  assumes "silent sn s0 s"
    and "\<And>s. silent sn s0 s \<Longrightarrow> wpt (probe s) (\<lambda>r s'. silent sn s0 s' \<and> (case r of Some x \<Rightarrow> Q x s' | None \<Rightarrow> True))"
    and "\<And>s'. \<lbrakk>silent sn s0 s'; sock_health s' sn = SOCK_FAULTED\<rbrakk> \<Longrightarrow> Q SOCKERR_TIMEOUT s'"
  shows "wpt (poll_until p sn probe d poll s) Q"
proof (rule wpt_poll_until [where I = "silent sn s0"])
  fix s assume "silent sn s0 s"
  from assms(2) [OF this] show "wpt (probe s) (\<lambda>r s'. case r of Some x \<Rightarrow> Q x s' | None \<Rightarrow> silent sn s0 s')"
    by (rule wpt_mono) (auto split: option.splits)
next
  fix poll s assume s: "silent sn s0 s"
  have "Q SOCKERR_TIMEOUT (set_sock_health sn SOCK_FAULTED t)" if "silent sn s0 t" for t
    by (rule assms(3), rule silent_trans [OF that silent_health(1)]) (simp add: sock_set)
  with s show "wpt (wait_poll_expired p poll d s) (\<lambda>(e, _) s'. if e = SOCKERR_DEADLINE
      then Q SOCKERR_TIMEOUT (set_sock_health sn SOCK_FAULTED s') else silent sn s0 s')"
    by (auto intro!: silent_waits(4))
qed (rule assms(1))

lemma silent_forever:
  assumes "silent sn s0 s"
    and "\<And>c s. silent sn s0 s \<Longrightarrow> wpo (body c s) (\<lambda>r s'. silent sn s0 s' \<and> (case r of Inl x \<Rightarrow> Q x s' | Inr y \<Rightarrow> True))"
  shows "wpo (forever body c s) Q"
  by (rule wpo_forever [where I = "\<lambda>_. silent sn s0", OF assms(1)], rule wpo_mono [OF assms(2)])
    (auto split: sum.splits)

subsection \<open>The waits and the data copies\<close>

lemma silent_stable_step:
  assumes "reg_addr a" and "silent sn s0 s"
  shows "wpo (stable_step p a d c s) (\<lambda>r s'. silent sn s0 s'
    \<and> (case r of Inl x \<Rightarrow> silent sn s0 s' \<and> (fst x = SOCK_OK \<and> snd x \<noteq> None \<or> fst x < 0 \<and> snd x = None)
        | Inr y \<Rightarrow> True))"
proof -
  have read: "wpt (wizchip_read16_5500 p a True t) Q"
    if "silent sn s0 t" "\<And>x t'. \<lbrakk>silent sn s0 t'; fst x = 0 \<longrightarrow> snd x \<noteq> None\<rbrakk> \<Longrightarrow> Q x t'"
    for t :: "('a, 'b) drv_scheme" and Q
  proof (rule wptI)
    fix x t' assume e: "wizchip_read16_5500 p a True t = (x, t')"
    have "wpt (wizchip_read16_5500 p a True t) (\<lambda>r _. fst r = 0 \<longrightarrow> snd r \<noteq> None)"
      by (rule wpt_read16_log [OF assms(1)]) simp_all
    moreover have "wpt (wizchip_read16_5500 p a True t) (\<lambda>_. silent sn s0)"
      by (rule silent_read16 [OF assms(1) that(1)])
    ultimately show "Q x t'" using e by (auto simp: wpt_def intro: that(2))
  qed
  show ?thesis
    unfolding stable_step_def
    by (auto intro!: wp read silent_waits(2) assms(2))
qed

lemma silent_stable_loop:
  assumes "reg_addr a" and "silent sn s0 s"
  shows "wpo (stable_loop p a d s) (\<lambda>x s'. silent sn s0 s'
    \<and> (fst x = SOCK_OK \<and> snd x \<noteq> None \<or> fst x < 0 \<and> snd x = None))"
  unfolding stable_loop_def by (rule silent_forever [OF assms(2) silent_stable_step [OF assms(1)]])

lemma silent_counters [silent]:
  assumes "sn < 8" and "silent sn s0 s"
    and "\<And>ret v s'. \<lbrakk>silent sn s0 s'; ret = 0 \<and> v \<noteq> None \<or> ret < 0 \<and> v = None\<rbrakk> \<Longrightarrow> Q (ret, v) s'"
  shows "wpo (read_sn_tx_fsr p sn s) Q" and "wpo (read_sn_rx_rsr p sn s) Q"
  unfolding read_sn_tx_fsr_def read_sn_rx_rsr_def getSn_TX_FSR_stable_def getSn_RX_RSR_stable_def
  using assms(1)
  by (auto intro!: wp silent_waits(1) assms(2) wpo_mono [OF silent_stable_loop] assms(3))

lemma silent_wait_cr [silent]:
  assumes "sn < 8" and "silent sn s0 s" and "\<And>s'. silent sn s0 s' \<Longrightarrow> Q SOCK_OK s'"
    and "\<And>s'. \<lbrakk>silent sn s0 s'; sock_health s' sn = SOCK_FAULTED\<rbrakk> \<Longrightarrow> Q SOCKERR_TIMEOUT s'"
  shows "wpt (wait_cr_accepted p sn d s) Q"
  unfolding wait_cr_accepted_def cr_probe_def getSn_CR_def
  using assms(1) by (auto intro!: wp silent silent_poll_until assms(2-4) [simplified])

lemma silent_datagram_probe [silent]:
  assumes "sn < 8" and "silent sn s0 s" and "\<And>x s'. \<lbrakk>silent sn s0 s'; x = None \<or> x = Some SOCK_OK \<or> x = Some SOCKERR_TIMEOUT\<rbrakk> \<Longrightarrow> Q x s'"
  shows "wpt (datagram_probe p sn s) Q"
  unfolding datagram_probe_def getSn_CR_def getSn_IR_def setSn_IR_def
  using assms(1) by (auto intro!: wp silent assms(2) intro: assms(3) [simplified])

lemma silent_wait_datagram [silent]:
  assumes "sn < 8" and "silent sn s0 s"
    and "\<And>r s'. \<lbrakk>silent sn s0 s'; r = SOCK_OK \<or> r = SOCKERR_TIMEOUT \<or> r = SOCK_BUSY \<and> nb \<noteq> 0\<rbrakk> \<Longrightarrow> Q r s'"
  shows "wpt (wait_datagram_cr_accepted p sn t nb s) Q"
  unfolding wait_datagram_cr_accepted_def
  using assms(1) by (auto intro!: wp silent silent_poll_until assms(2) intro: assms(3) [simplified])

lemma silent_send_data [silent]:
  assumes "silent sn s0 s"
  shows "silent sn s0 (wiz_send_data p sn d len s)"
proof (cases "WIZCHIP_SOCK_NUM \<le> sn \<or> len = 0 \<or> d = None")
  case True
  with assms show ?thesis by (auto simp: wiz_send_data_def)
next
  case False
  then have sn: "sn < 8" by (simp add: WIZCHIP_SOCK_NUM_def not_le)
  have a: "reg_addr (buf_addr ptr (WIZCHIP_TXBUF_BLOCK sn))" for ptr
    by (simp add: reg_addr_buf sock_block_less sn)
  have "wpt (getSn_TX_WR p sn s) (\<lambda>_. silent sn s0)"
    unfolding getSn_TX_WR_def using sn by (auto intro!: silent_read16_value assms)
  with False sn show ?thesis
    by (auto simp: wiz_send_data_def wpt_def sock_buf_addr setSn_TX_WR_def a buf_addr_not_Sn_CR split: prod.splits
        intro!: silent)
qed

lemma silent_recv_data [silent]:
  assumes "sn < 8" and "silent sn s0 s" and "\<And>v s'. \<lbrakk>silent sn s0 s'; length v = unat len\<rbrakk> \<Longrightarrow> Q v s'"
  shows "wpt (wiz_recv_data p sn True len s) Q"
proof (cases "len = 0")
  case True
  then show ?thesis by (auto simp: wiz_recv_data_def wpt_def intro: assms)
next
  case False
  have a: "reg_addr (buf_addr ptr (WIZCHIP_RXBUF_BLOCK sn))" for ptr
    by (simp add: reg_addr_buf sock_block_less assms(1))
  have q: "Q v (WIZCHIP_WRITE_BUF p (Sn_RX_RD sn) (Some x) 2 t)" if "silent sn s0 t" "length v = unat len" for v t x
    by (rule assms(3)) (use that assms(1) in \<open>auto intro!: silent\<close>)
  have read: "wpt (WIZCHIP_READ_BUF p (buf_addr ptr (WIZCHIP_RXBUF_BLOCK sn)) True len t) Q'"
    if "silent sn s0 t" "\<And>v s'. \<lbrakk>silent sn s0 s'; length v = unat len\<rbrakk> \<Longrightarrow> Q' v s'" for ptr t Q'
    using a False by (rule wpt_READ_BUF) (rule that(2) [OF silent_trans [OF that(1) silent_read]])
  show ?thesis
    using False assms(1)
    by (auto simp: wiz_recv_data_def sock_buf_addr getSn_RX_RD_def setSn_RX_RD_def WIZCHIP_SOCK_NUM_def not_le
        intro!: wp silent_read16_value read q assms(2))
qed

lemma silent_recv_ignore [silent]:
  assumes "sn < 8" and "silent sn s0 s"
  shows "silent sn s0 (wiz_recv_ignore p sn len s)"
proof -
  have "wpt (getSn_RX_RD p sn s) (\<lambda>_. silent sn s0)"
    unfolding getSn_RX_RD_def using assms by (auto intro!: silent_read16_value)
  with assms show ?thesis
    by (auto simp: wiz_recv_ignore_def wpt_def setSn_RX_RD_def split: prod.splits intro!: silent)
qed

end
