(* ===== verification/StreamProps.thy ===== *)
theory StreamProps
  imports Commands
begin

text \<open>
  What the stream calls promise when they succeed: which data went into the buffer of the
  socket, which commands were given, and what the chip had answered before.
\<close>

unbundle bit_operations_syntax

subsection \<open>Sending\<close>

lemma wpt_any: "(\<And>v s. Q v s) \<Longrightarrow> wpt m Q"
  by (simp add: wpt_def)

lemma wpo_Some_eq: "wpo (Some (r, s)) Q = Q r s"
  by (simp add: wpo_def)

lemma is_sending_set [simp]: "sock_is_sending (set_sock_is_sending sn b s) sn = b"
  by (simp add: sock_set)

text \<open>
  The accesses of a successful send, latest first: the command was accepted after \<open>vs\<close> other
  reads, SEND was given, the write pointer moved by \<open>n\<close>, and before that the first \<open>n\<close> bytes
  were copied to the place the pointer read showed.
\<close>

definition sent_log :: "u8 \<Rightarrow> u16 \<Rightarrow> u8 list \<Rightarrow> reg_op list \<Rightarrow> bool" where
  "sent_log sn n bs ops \<longleftrightarrow> (\<exists>vs h l. let ptr = join16 h l in
     ops = RegRead (Sn_CR sn) [0] # map (\<lambda>x. RegRead (Sn_CR sn) [x]) vs
       @ [RegWrite (Sn_CR sn) [Sn_CR_SEND], RegWrite (Sn_TX_WR sn) [hi8 (ptr + n), lo8 (ptr + n)],
          RegWrite (buf_addr ptr (WIZCHIP_TXBUF_BLOCK sn)) (take (unat n) bs), RegRead (Sn_TX_WR sn) [h, l]])"

text \<open>A command and the wait for its acceptance.\<close>

definition accepted :: "u8 \<Rightarrow> u8 \<Rightarrow> ('w, 'm) drv_scheme \<Rightarrow> ('w, 'm) drv_scheme \<Rightarrow> bool" where
  "accepted sn v s s' \<longleftrightarrow> fault_kept s s' \<and> (\<exists>vs. reg_log (trace s') = RegRead (Sn_CR sn) [0]
     # map (\<lambda>x. RegRead (Sn_CR sn) [x]) vs @ RegWrite (Sn_CR sn) [v] # reg_log (trace s))"

lemma command_accepted_spec:
  fixes s :: "('w, 'm) drv_scheme"
  assumes "sn < 8"
  shows "wpt (wizchip_deadline_abs t (setSn_CR p sn v s)) (\<lambda>d s'. wpt (wait_cr_accepted p sn d s')
    (\<lambda>r s'. if r = SOCK_OK then accepted sn v s s' else r = SOCKERR_TIMEOUT))"
proof -
  let ?s = "setSn_CR p sn v s"
  have log: "wpt (wizchip_deadline_abs t ?s) (\<lambda>d s1. wpt (wait_cr_accepted p sn d s1)
      (\<lambda>r s'. if r = SOCK_OK then time_step ?s s1 \<and> polled (Sn_CR sn) 0 s1 s' else r = SOCKERR_TIMEOUT))"
    using assms by (auto intro!: wpt_deadline_abs wpt_wait_cr)
  have "fault_kept s ?s" unfolding setSn_CR_def by (rule fault_kept_write)
  then have fk: "wpt (wizchip_deadline_abs t ?s) (\<lambda>d s1. wpt (wait_cr_accepted p sn d s1) (\<lambda>_. fault_kept s))"
    by (auto intro!: faults.sock_rel)
  obtain d s1 where d: "wizchip_deadline_abs t ?s = (d, s1)" by fastforce
  obtain r s' where r: "wait_cr_accepted p sn d s1 = (r, s')" by fastforce
  from wptD [OF wptD [OF log d] r] wptD [OF wptD [OF fk d] r]
  have "if r = SOCK_OK then accepted sn v s s' else r = SOCKERR_TIMEOUT"
    using assms by (auto simp: accepted_def polled_def time_step_def setSn_CR_def) blast
  then show ?thesis unfolding d r wpt_def fst_conv snd_conv .
qed

text \<open>The copy and the command: what was sent, unless the transport failed.\<close>

definition copied :: "u8 \<Rightarrow> u16 \<Rightarrow> u8 list \<Rightarrow> ('w, 'm) drv_scheme \<Rightarrow> ('w, 'm) drv_scheme \<Rightarrow> bool" where
  "copied sn n bs t s' \<longleftrightarrow> chip_state s' = WIZCHIP_STATE_FAULTED \<or> (\<exists>ops. new_ops t s' ops \<and> sent_log sn n bs ops)"

lemma copied_accepted:
  assumes "sn < 8" and "n \<noteq> 0" and "accepted sn Sn_CR_SEND (wiz_send_data p sn (Some bs) n s) s'"
  shows "copied sn n bs s s'"
proof (cases "chip_state (wiz_send_data p sn (Some bs) n s) = WIZCHIP_STATE_FAULTED")
  case True
  with assms(3) show ?thesis by (auto simp: accepted_def fault_kept_def copied_def)
next
  case False
  from wiz_send_data_log [OF assms(1,2) False] obtain h l where "let ptr = join16 h l in
    reg_log (trace (wiz_send_data p sn (Some bs) n s)) = RegWrite (Sn_TX_WR sn) [hi8 (ptr + n), lo8 (ptr + n)]
      # RegWrite (buf_addr ptr (WIZCHIP_TXBUF_BLOCK sn)) (take (unat n) bs)
      # RegRead (Sn_TX_WR sn) [h, l] # reg_log (trace s)" by blast
  with assms(3) have "\<exists>ops. new_ops s s' ops \<and> sent_log sn n bs ops"
    unfolding new_ops_def sent_log_def Let_def by (auto simp: accepted_def)
  then show ?thesis by (simp add: copied_def)
qed

text \<open>The wait for the previous SEND ends with its completion, or with an error.\<close>

definition confirmed :: "u8 \<Rightarrow> ('w, 'm) drv_scheme \<Rightarrow> bool" where
  "confirmed sn s \<longleftrightarrow> (\<exists>v rest. reg_log (trace s) = RegWrite (Sn_IR sn) [Sn_IR_SENDOK] # RegRead (Sn_IR sn) [v] # rest
     \<and> (v AND 0x1F) AND Sn_IR_SENDOK \<noteq> 0)"

lemma sendok_wait_spec:
  assumes "sn < 8" and "silent sn s0 s"
  shows "wpt (poll_until p sn (sendok_probe p sn) d poll s) (\<lambda>r s'. silent sn s0 s'
    \<and> (if r = SOCK_OK then confirmed sn s' else r \<le> 0))"
proof (rule silent_poll_until [OF assms(2)])
  fix s assume s: "silent sn s0 s"
  have k: "silent sn s0 (set_sock_is_sending sn 0 t)" "silent sn s0 (set_sock_health sn SOCK_FAULTED t)"
    if "silent sn s0 t" for t
    using silent_trans [OF that] silent_health by blast+
  have ok: "confirmed sn (set_sock_is_sending sn 0 (WIZCHIP_WRITE p (Sn_IR sn) Sn_IR_SENDOK t))"
    if "reg_log (trace t) = RegRead (Sn_IR sn) [v] # rest" "(v AND 0x1F) AND Sn_IR_SENDOK \<noteq> 0" for t v rest
    using that assms(1) by (auto simp: confirmed_def)
  have ir: "wpt (getSn_IR p sn s) Q" if "\<And>v t. \<lbrakk>silent sn s0 t; reg_log (trace t) = RegRead (Sn_IR sn) [v] # reg_log (trace s)\<rbrakk>
      \<Longrightarrow> Q (v AND 0x1F) t" for Q
    unfolding getSn_IR_def using assms(1)
    by (auto intro!: wp wpt_READ that intro: silent_trans [OF s silent_read])
  show "wpt (sendok_probe p sn s) (\<lambda>r s'. silent sn s0 s' \<and> (case r of
      Some x \<Rightarrow> silent sn s0 s' \<and> (if x = SOCK_OK then confirmed sn s' else x \<le> 0) | None \<Rightarrow> True))"
    unfolding sendok_probe_def setSn_IR_def getSn_SR_def
    using assms(1) by (auto intro!: wp ir silent k intro: ok [simplified])
qed simp

text \<open>The space loop is silent unless it closes the socket, and then it ends with an error.\<close>

lemma space_loop_spec:
  assumes "sn < 8" and "silent sn s0 s"
  shows "wpo (forever (space_step p sn len d) poll s)
    (\<lambda>r s'. case r of Some ret \<Rightarrow> ret \<le> 0 | None \<Rightarrow> silent sn s0 s')"
proof (rule wpo_forever [where I = "\<lambda>_. silent sn s0", OF assms(2)])
  fix poll s assume "silent sn s0 s"
  then show "wpo (space_step p sn len d poll s) (\<lambda>r s'. case r of
      Inl x \<Rightarrow> (case x of Some ret \<Rightarrow> ret \<le> 0 | None \<Rightarrow> silent sn s0 s') | Inr y \<Rightarrow> silent sn s0 s')"
    unfolding space_step_def getSn_SR_def
    using assms(1) by (auto intro!: wp silent simp: wpo_Some_eq intro: wpt_any)
qed

definition clipped :: "u16 \<Rightarrow> u16 \<Rightarrow> u16" where
  "clipped limit len = (if limit < len then limit else len)"

lemma copied_fields [simp]:
  "copied sn n bs t (set_sock_is_sending sn b s) = copied sn n bs t s"
  "copied sn n bs t (call p (SockExit m) s) = copied sn n bs t s"
  by (simp_all add: copied_def new_ops_def, simp_all add: sock_set)

lemma send_transfer_spec:
  assumes "sn < 8" and "silent sn s0 s"
  shows "wpo (send_transfer p sn (Some bs) len cfg s) (\<lambda>r s'. 0 < r \<longrightarrow>
     r = uint (clipped (wizchip_txmax_cache s0 sn) len) \<and> sock_is_sending s' sn = 1
     \<and> (\<exists>t. silent sn s0 t \<and> silent sn s t \<and> copied sn (clipped (wizchip_txmax_cache s0 sn) len) bs t s'))"
proof -
  define n where "n = clipped (wizchip_txmax_cache s0 sn) len"
  have n: "(if wizchip_txmax_cache s sn < len then wizchip_txmax_cache s sn else len) = n"
    using assms(2) by (simp add: n_def clipped_def silent_def)
  have tail: "wpo (let t = wiz_send_data p sn (Some bs) n t; t = setSn_CR p sn Sn_CR_SEND t;
                      (deadline, t) = wizchip_deadline_abs tm t; (ret, t) = wait_cr_accepted p sn deadline t
                  in if ret \<noteq> SOCK_OK then Some (ret, set_sock_health sn SOCK_FAULTED t)
                     else Some (uint n, set_sock_is_sending sn 1 t))
      (\<lambda>r s'. 0 < r \<longrightarrow> r = uint n \<and> sock_is_sending s' sn = 1
         \<and> (\<exists>t. silent sn s0 t \<and> silent sn s t \<and> copied sn n bs t s'))"
    if "silent sn s t" for t tm
  proof -
    have ok: "\<exists>t. silent sn s0 t \<and> silent sn s t \<and> copied sn n bs t s'"
      if "accepted sn Sn_CR_SEND (wiz_send_data p sn (Some bs) n t) s'" "0 < uint n" for s'
      using that(2) copied_accepted [OF assms(1) _ that(1)] silent_trans [OF assms(2) \<open>silent sn s t\<close>] \<open>silent sn s t\<close>
      by (cases "n = 0") auto
    show ?thesis
      unfolding Let_def
      by (rule wpo_case_prod, rule wpt_mono [OF command_accepted_spec [OF assms(1)]], rule wpo_case_prod,
          rule wpt_mono, assumption)
        (auto simp: wpo_Some_eq split: if_splits intro: ok [simplified])
  qed
  show ?thesis
    unfolding send_transfer_def n n_def [symmetric]
    by (intro wpo_Let wpo_case_prod wpo_bind silent_waits(1,3) [of sn s] silent_refl,
        assumption?, rule wpo_mono [OF space_loop_spec [OF assms(1)]])
      (auto split: option.splits simp: wpo_Some_eq intro: tail [simplified])
qed

text \<open>
  A successful send, from the outside: up to \<open>c\<close>, where a SEND still in flight was confirmed,
  and up to \<open>t\<close>, where there was space, nothing was commanded; then the data went out.
\<close>

definition send_done ::
    "u8 \<Rightarrow> u16 \<Rightarrow> u8 list \<Rightarrow> ('w, 'm) drv_scheme \<Rightarrow> int \<Rightarrow> ('w, 'm) drv_scheme \<Rightarrow> bool" where
  "send_done sn len bs s r s' \<longleftrightarrow>
     (let n = clipped (wizchip_txmax_cache s sn) len in
      r = uint n \<and> sock_is_sending s' sn = 1
      \<and> (\<exists>c t. silent sn s c \<and> silent sn c t \<and> (sock_is_sending s sn = 0 \<or> confirmed sn c)
           \<and> copied sn n bs t s'))"

lemma send_doneI:
  "\<lbrakk>r = uint (clipped (wizchip_txmax_cache s sn) len); sock_is_sending s' sn = 1; silent sn s c; silent sn c t;
    sock_is_sending s sn = 0 \<or> confirmed sn c; copied sn (clipped (wizchip_txmax_cache s sn) len) bs t s'\<rbrakk>
    \<Longrightarrow> send_done sn len bs s r s'"
  unfolding send_done_def Let_def by blast

lemma send_locked_spec:
  assumes "sn < 8"
  shows "wpo (send_locked p sn (Some bs) len s) (\<lambda>r s'. 0 < r \<longrightarrow> send_done sn len bs s r s')"
proof -
  have transfer: "wpo (send_transfer p sn (Some bs) len cfg t) (\<lambda>r s'. 0 < r \<longrightarrow> send_done sn len bs s r s')"
    if t: "silent sn s t" "sock_is_sending s sn = 0 \<or> confirmed sn t" for t cfg
    by (intro wpo_mono [OF send_transfer_spec [OF assms t(1)]]) (blast intro: send_doneI [OF _ _ t(1) _ t(2)])
  have sending: "sock_is_sending t sn = sock_is_sending s sn" if "chip_frame s t" for t
    using chip_frame_fields [OF that] by simp
  have wait: "wpt (wizchip_deadline_abs tm t) (\<lambda>deadline t. wpo (let (poll, t) = wait_poll_init deadline t;
        (ret, t) = poll_until p sn (sendok_probe p sn) deadline poll t
      in if ret \<noteq> SOCK_OK then Some (ret, t) else send_transfer p sn (Some bs) len cfg t)
      (\<lambda>r s'. 0 < r \<longrightarrow> send_done sn len bs s r s'))" if "silent sn s t" for t tm cfg
    by (intro wpo_Let wpo_case_prod silent_waits(1) [OF that] silent_waits(3),
        assumption, rule wpt_mono [OF sendok_wait_spec [OF assms]])
      (auto intro!: wpo_if wpo_Some intro: transfer)
  show ?thesis
    unfolding send_locked_def getSn_SR_def
    using assms sending
    by (auto intro!: wpo_if wpo_Some wpo_Let wpo_case_prod wpt_READ transfer wait [simplified]
        intro: silent_read)
qed

text \<open>C3: A positive result of \<open>send\<close> is the number of bytes that went out, at most the buffer size of
  the socket. Unless the transport failed, those are the first bytes of the caller's data, copied
  to the place the transmit write pointer showed, the pointer was advanced by as many, and then
  SEND was given once and accepted. A SEND still in flight when the call began was confirmed by
  the chip before, and nothing was commanded in between.\<close>

theorem send_success:
  assumes "send p sn (Some bs) len s = Some (r, s')" and "0 < r"
  shows "send_done sn len bs s r s'"
proof -
  have enter: "silent sn s (call p (SockEnter m) s)" for m
    by (simp add: silent_def grows_same)
  have shift: "send_done sn len bs s r (call p (SockExit sn) t)"
    if "send_done sn len bs (call p (SockEnter sn) s) r t" for r t
    using that silent_trans [OF enter [of sn]] by (fastforce simp: send_done_def Let_def)
  have "wpo (send p sn (Some bs) len s) (\<lambda>r s'. 0 < r \<longrightarrow> send_done sn len bs s r s')"
    unfolding send_def Let_def
    by (auto intro!: wpo_if wpo_bind wpo_Some wpo_mono [OF send_locked_spec] shift
        simp: WIZCHIP_SOCK_NUM_def not_le)
  with assms show ?thesis by (simp add: wpo_def)
qed

definition tcp_ready :: "u8 list \<Rightarrow> u8 list drv" where
  "tcp_ready script = (scripted_ready script)\<lparr>sock_mode := (\<lambda>_. Sn_MR_TCP)\<rparr>"

theorem send_success_witness:
  "\<exists>s'. send scripted 0 (Some [7, 8, 9]) 3 (tcp_ready [0x17, 8, 0, 8, 0, 0x17, 0, 16, 0]) = Some (3, s')
     \<and> send_done 0 3 [7, 8, 9] (tcp_ready [0x17, 8, 0, 8, 0, 0x17, 0, 16, 0]) 3 s'"
proof -
  have "\<exists>s'. send scripted 0 (Some [7, 8, 9]) 3 (tcp_ready [0x17, 8, 0, 8, 0, 0x17, 0, 16, 0]) = Some (3, s')"
    by (simp add: run_defs reg_defs stream_defs tcp_ready_def forever_code cong: run_cong)
  then obtain s' where
    e: "send scripted 0 (Some [7, 8, 9]) 3 (tcp_ready [0x17, 8, 0, 8, 0, 0x17, 0, 16, 0]) = Some (3, s')" ..
  from send_success [OF e] e show ?thesis by simp
qed

subsection \<open>Receiving\<close>

text \<open>The accesses of a successful receive, latest first, and what the chip reported before them.\<close>

definition received_log :: "u8 \<Rightarrow> u16 \<Rightarrow> u8 list \<Rightarrow> reg_op list \<Rightarrow> bool" where
  "received_log sn n bs ops \<longleftrightarrow> length bs = unat n \<and> (\<exists>vs h l. let ptr = join16 h l in
     ops = RegRead (Sn_CR sn) [0] # map (\<lambda>x. RegRead (Sn_CR sn) [x]) vs
       @ [RegWrite (Sn_CR sn) [Sn_CR_RECV], RegWrite (Sn_RX_RD sn) [hi8 (ptr + n), lo8 (ptr + n)],
          RegRead (buf_addr ptr (WIZCHIP_RXBUF_BLOCK sn)) bs, RegRead (Sn_RX_RD sn) [h, l]])"

definition received_size :: "u8 \<Rightarrow> u16 \<Rightarrow> ('w, 'm) drv_scheme \<Rightarrow> bool" where
  "received_size sn m s \<longleftrightarrow> (\<exists>h l v rest. m = join16 h l
     \<and> reg_log (trace s) = RegRead (Sn_SR sn) [v] # RegRead (Sn_RX_RSR sn) [h, l] # RegRead (Sn_RX_RSR sn) [h, l] # rest)"

definition taken_out :: "u8 \<Rightarrow> u16 \<Rightarrow> u8 list \<Rightarrow> ('w, 'm) drv_scheme \<Rightarrow> ('w, 'm) drv_scheme \<Rightarrow> bool" where
  "taken_out sn n bs t s' \<longleftrightarrow> chip_state s' = WIZCHIP_STATE_FAULTED \<or> (\<exists>ops. new_ops t s' ops \<and> received_log sn n bs ops)"

lemma taken_out_accepted:
  assumes "sn < 8" and "n \<noteq> 0" and "wiz_recv_data p sn True n s = (bs, t)" and "accepted sn Sn_CR_RECV t s'"
  shows "taken_out sn n bs s s'"
proof (cases "chip_state t = WIZCHIP_STATE_FAULTED")
  case True
  with assms(4) show ?thesis by (auto simp: accepted_def fault_kept_def taken_out_def)
next
  case False
  from wiz_recv_data_log [OF assms(3,1,2) False] obtain h l where "let ptr = join16 h l in length bs = unat n \<and>
    reg_log (trace t) = RegWrite (Sn_RX_RD sn) [hi8 (ptr + n), lo8 (ptr + n)]
      # RegRead (buf_addr ptr (WIZCHIP_RXBUF_BLOCK sn)) bs # RegRead (Sn_RX_RD sn) [h, l] # reg_log (trace s)" by blast
  with assms(4) have "\<exists>ops. new_ops s s' ops \<and> received_log sn n bs ops"
    unfolding new_ops_def received_log_def Let_def by (auto simp: accepted_def)
  then show ?thesis by (simp add: taken_out_def)
qed

lemma rsr_spec:
  assumes "sn < 8" and "silent sn s0 s"
  shows "wpo (read_sn_rx_rsr p sn s) (\<lambda>x s'. silent sn s0 s' \<and> (case snd x of None \<Rightarrow> fst x < 0
     | Some m \<Rightarrow> \<exists>h l rest. m = join16 h l \<and> reg_log (trace s') = RegRead (Sn_RX_RSR sn) [h, l] # RegRead (Sn_RX_RSR sn) [h, l] # rest))"
proof -
  have a: "reg_addr (Sn_RX_RSR sn)" using assms(1) by simp
  have s: "wpo (read_sn_rx_rsr p sn s) (\<lambda>x s'. silent sn s0 s' \<and> (snd x = None \<longrightarrow> fst x < 0))"
    using assms by (auto intro!: silent_counters)
  have loop: "wpo (stable_loop p (Sn_RX_RSR sn) d t) (\<lambda>x s'. snd x \<noteq> None \<longrightarrow> (\<exists>h l rest. snd x = Some (join16 h l)
      \<and> reg_log (trace s') = RegRead (Sn_RX_RSR sn) [h, l] # RegRead (Sn_RX_RSR sn) [h, l] # rest))"
    for d and t :: "('a, 'b) drv_scheme"
    by (rule wpo_mono [OF stable_loop_spec [OF a only_reads_refl]]) (auto simp: stable_result_def)
  have "wpo (read_sn_rx_rsr p sn s) (\<lambda>x s'. snd x \<noteq> None \<longrightarrow> (\<exists>h l rest. snd x = Some (join16 h l)
      \<and> reg_log (trace s') = RegRead (Sn_RX_RSR sn) [h, l] # RegRead (Sn_RX_RSR sn) [h, l] # rest))"
    unfolding read_sn_rx_rsr_def getSn_RX_RSR_stable_def Let_def simp_thms if_False
    by (intro wpo_bind wpo_case_prod wpt_any, rule wpo_mono [OF loop]) (auto simp: wpo_Some_eq)
  with s show ?thesis by (force simp: wpo_def split: option.splits)
qed

lemma rsr_rule:
  assumes "sn < 8" and "silent sn s0 s" and "\<And>ret s'. \<lbrakk>silent sn s0 s'; ret < 0\<rbrakk> \<Longrightarrow> Q (ret, None) s'"
    and "\<And>ret h l rest s'. \<lbrakk>silent sn s0 s';
      reg_log (trace s') = RegRead (Sn_RX_RSR sn) [h, l] # RegRead (Sn_RX_RSR sn) [h, l] # rest\<rbrakk>
      \<Longrightarrow> Q (ret, Some (join16 h l)) s'"
  shows "wpo (read_sn_rx_rsr p sn s) Q"
  by (rule wpo_mono [OF rsr_spec [OF assms(1,2)]]) (auto split: option.splits intro: assms(3,4))

lemma data_loop_spec:
  assumes "sn < 8" and "silent sn s0 s"
  shows "wpo (forever (data_step p sn d) poll s)
    (\<lambda>r s'. case r of Inl ret \<Rightarrow> ret \<le> 0 | Inr m \<Rightarrow> silent sn s0 s' \<and> received_size sn m s')"
proof (rule wpo_forever [where I = "\<lambda>_. silent sn s0", OF assms(2)])
  fix poll s assume s: "silent sn s0 s"
  have sr: "wpt (getSn_SR p sn t) Q" if "silent sn s0 t"
    "\<And>v t'. \<lbrakk>silent sn s0 t'; reg_log (trace t') = RegRead (Sn_SR sn) [v] # reg_log (trace t)\<rbrakk> \<Longrightarrow> Q v t'" for t Q
    unfolding getSn_SR_def using assms(1)
    by (auto intro!: wpt_READ that(2) intro: silent_trans [OF that(1) silent_read])
  have m: "received_size sn (join16 h l) t" if "reg_log (trace t) =
      RegRead (Sn_SR sn) [v] # RegRead (Sn_RX_RSR sn) [h, l] # RegRead (Sn_RX_RSR sn) [h, l] # rest" for t v h l rest
    using that by (auto simp: received_size_def)
  show "wpo (data_step p sn d poll s) (\<lambda>r s'. case r of
      Inl x \<Rightarrow> (case x of Inl ret \<Rightarrow> ret \<le> 0 | Inr m \<Rightarrow> silent sn s0 s' \<and> received_size sn m s')
      | Inr y \<Rightarrow> silent sn s0 s')"
    unfolding data_step_def
    using assms(1) by (auto intro!: wp s rsr_rule sr silent_counters(1) silent_waits simp: wpo_Some_eq intro: m wpt_any)
qed

text \<open>
  A successful receive from the outside: nothing was commanded until the state \<open>t\<close> in which the
  chip had reported \<open>m\<close> bytes; of those, at most \<open>len\<close> and at most a buffer, \<open>bs\<close> were read and
  given back.
\<close>

definition recv_done ::
    "u8 \<Rightarrow> u16 \<Rightarrow> ('w, 'm) drv_scheme \<Rightarrow> int \<Rightarrow> u8 list \<Rightarrow> ('w, 'm) drv_scheme \<Rightarrow> bool" where
  "recv_done sn len s r bs s' \<longleftrightarrow>
     (\<exists>m t. silent sn s t \<and> received_size sn m t
        \<and> (let n = clipped m (clipped (wizchip_rxmax_cache s sn) len) in r = uint n \<and> taken_out sn n bs t s'))"

lemma recv_transfer_spec:
  assumes "sn < 8" and "silent sn s0 s"
  shows "wpo (recv_transfer p sn len cfg s) (\<lambda>(r, bs) s'. 0 < r \<longrightarrow> recv_done sn len s0 r bs s')"
proof -
  have n: "(if wizchip_rxmax_cache s sn < len then wizchip_rxmax_cache s sn else len)
      = clipped (wizchip_rxmax_cache s0 sn) len"
    using assms(2) by (simp add: clipped_def silent_def)
  have tail: "wpo (let k = (if m < n then m else n); (bs, t) = wiz_recv_data p sn True k t;
                      t = setSn_CR p sn Sn_CR_RECV t;
                      (deadline, t) = wizchip_deadline_abs tm t; (ret, t) = wait_cr_accepted p sn deadline t
                  in if ret \<noteq> SOCK_OK then Some ((ret, bs), set_sock_health sn SOCK_FAULTED t)
                     else Some ((uint k, bs), t))
      (\<lambda>(r, bs) s'. 0 < r \<longrightarrow> recv_done sn len s0 r bs s')"
    if t: "silent sn s0 t" "received_size sn m t" "n = clipped (wizchip_rxmax_cache s0 sn) len" for t tm m n
  proof -
    obtain bs t1 where d: "wiz_recv_data p sn True (clipped m n) t = (bs, t1)" by fastforce
    have ok: "recv_done sn len s0 (uint (clipped m n)) bs s'"
      if "accepted sn Sn_CR_RECV t1 s'" "0 < uint (clipped m n)" for s'
    proof -
      have "clipped m n \<noteq> 0" using that(2) by auto
      from taken_out_accepted [OF assms(1) this d that(1)] t show ?thesis
        unfolding recv_done_def Let_def by blast
    qed
    show ?thesis
      unfolding Let_def clipped_def [symmetric] d prod.case
      by (rule wpo_case_prod, rule wpt_mono [OF command_accepted_spec [OF assms(1)]], rule wpo_case_prod,
          rule wpt_mono, assumption)
        (auto simp: wpo_Some_eq split: if_splits intro: ok [simplified])
  qed
  show ?thesis
    unfolding recv_transfer_def n
    by (intro wpo_Let wpo_case_prod wpo_bind silent_waits(1) [OF assms(2)] silent_waits(3),
        assumption, rule wpo_mono [OF data_loop_spec [OF assms(1)]], assumption, unfold prod.case, rule wpo_case_sum)
      (simp add: wpo_Some_eq, rule tail, simp_all)
qed

text \<open>C4: A positive result of \<open>recv\<close> is a number of bytes that the chip reported as received, in two
  equal readings, at most the caller's length and the buffer size of the socket. Unless the
  transport failed, exactly those bytes were read from the place the receive read pointer showed
  and handed over, the pointer was advanced by as many, and RECV was given once and accepted. No
  command was given before.\<close>

theorem recv_success:
  assumes "recv p sn True len s = Some ((r, bs), s')" and "0 < r"
  shows "recv_done sn len s r bs s'"
proof -
  have enter: "silent sn s (call p (SockEnter m) s)" for m
    by (simp add: silent_def grows_same)
  have exit: "taken_out sn n bs t (call p (SockExit m) s') = taken_out sn n bs t s'" for n bs m
    and t s' :: "('a, 'b) drv_scheme"
    by (simp add: taken_out_def)
  have shift: "recv_done sn len s r bs (call p (SockExit sn) t)"
    if "recv_done sn len (call p (SockEnter sn) s) r bs t" for r bs t
    using that silent_trans [OF enter [of sn]] by (fastforce simp: recv_done_def Let_def exit)
  have "wpo (recv_locked p sn len (call p (SockEnter sn) s)) (\<lambda>(r, bs) s'. 0 < r
      \<longrightarrow> recv_done sn len (call p (SockEnter sn) s) r bs s')" if "sn < 8"
    unfolding recv_locked_def
    by (auto intro!: wpo_if recv_transfer_spec [OF that silent_refl] simp: wpo_Some_eq)
  then have "wpo (recv p sn True len s) (\<lambda>(r, bs) s'. 0 < r \<longrightarrow> recv_done sn len s r bs s')"
    unfolding recv_def Let_def
    by (auto intro!: wpo_if wpo_bind elim!: wpo_mono intro: shift simp: wpo_Some_eq WIZCHIP_SOCK_NUM_def not_le)
  with assms show ?thesis by (simp add: wpo_def)
qed

theorem recv_success_witness:
  "\<exists>bs s'. recv scripted 0 True 9 (tcp_ready [0, 2, 0, 2, 0x17, 0, 16, 5, 6, 0]) = Some ((2, bs), s')
     \<and> recv_done 0 9 (tcp_ready [0, 2, 0, 2, 0x17, 0, 16, 5, 6, 0]) 2 bs s'"
proof -
  have "\<exists>bs s'. recv scripted 0 True 9 (tcp_ready [0, 2, 0, 2, 0x17, 0, 16, 5, 6, 0]) = Some ((2, bs), s')"
    by (simp add: run_defs reg_defs stream_defs tcp_ready_def forever_code cong: run_cong)
  then obtain bs s' where
    e: "recv scripted 0 True 9 (tcp_ready [0, 2, 0, 2, 0x17, 0, 16, 5, 6, 0]) = Some ((2, bs), s')" by blast
  from recv_success [OF e] e show ?thesis by auto
qed

end
