(* ===== verification/DgramProps.thy ===== *)
theory DgramProps
  imports Commands
begin

text \<open>
  The datagram calls against their contract. \<open>dgram_step\<close> is what \<open>sendto\<close> promises: a machine
  with three states that knows nothing of registers, deadlines or buffers. The theorems show
  that every call is a step of it, with as many SEND commands as the step says.
\<close>

unbundle bit_operations_syntax

subsection \<open>The transmit contract\<close>

datatype dgram_state = DIdle | DPending u16 | DFault

text \<open>\<open>dgram_step len d r k d'\<close>: a call with \<open>len\<close> bytes in state \<open>d\<close> returns \<open>r\<close> after giving \<open>k\<close> SEND
  commands and leaves state \<open>d'\<close>.\<close>

inductive dgram_step :: "u16 \<Rightarrow> dgram_state \<Rightarrow> int \<Rightarrow> nat \<Rightarrow> dgram_state \<Rightarrow> bool"
  for len :: u16 where
  refused: "r \<le> 0 \<Longrightarrow> dgram_step len d r 0 d"
| sent: "n \<le> len \<Longrightarrow> dgram_step len DIdle (uint n) 1 DIdle"
| unconfirmed: "dgram_step len DIdle SOCKERR_TIMEOUT 1 DIdle"
| started: "n \<le> len \<Longrightarrow> dgram_step len DIdle SOCK_BUSY 1 (DPending n)"
| not_accepted: "dgram_step len DIdle SOCKERR_TIMEOUT 1 DFault"
| completed: "dgram_step len (DPending n) (uint n) 0 DIdle"
| timed_out: "dgram_step len (DPending n) SOCKERR_TIMEOUT 0 DIdle"

definition dgram_of :: "u8 \<Rightarrow> ('w, 'm) drv_scheme \<Rightarrow> dgram_state" where
  "dgram_of sn s = (case sock_tx_state s sn of SOCK_TX_IDLE \<Rightarrow> DIdle
     | SOCK_TX_DGRAM_PENDING \<Rightarrow> DPending (sock_tx_pending_len s sn) | SOCK_TX_LOCAL_FAULT \<Rightarrow> DFault)"

definition refines :: "u8 \<Rightarrow> u16 \<Rightarrow> ('w, 'm) drv_scheme \<Rightarrow> int \<Rightarrow> ('w, 'm) drv_scheme \<Rightarrow> bool" where
  "refines sn len s r s' \<longleftrightarrow> (\<exists>k. cmds sn s' = replicate k Sn_CR_SEND @ cmds sn s
     \<and> dgram_step len (dgram_of sn s) r k (dgram_of sn s'))"

lemma dgram_of_cong:
  "\<lbrakk>sock_tx_state s' sn = sock_tx_state s sn; sock_tx_pending_len s' sn = sock_tx_pending_len s sn\<rbrakk>
    \<Longrightarrow> dgram_of sn s' = dgram_of sn s"
  by (cases "sock_tx_state s sn") (simp_all add: dgram_of_def)

lemma dgram_of_silent: "silent sn s s' \<Longrightarrow> dgram_of sn s' = dgram_of sn s \<and> cmds sn s' = cmds sn s"
  by (auto simp: silent_def intro: dgram_of_cong)

lemma dgram_of_call [simp]: "dgram_of sn (call p ev s) = dgram_of sn s"
  by (rule dgram_of_cong) simp_all

lemma refines_silent:
  assumes "silent sn s s'" and "r \<le> 0"
  shows "refines sn len s r s'"
  using assms dgram_of_silent [OF assms(1)] by (auto simp: refines_def intro!: exI [of _ 0] refused)

lemma refines_call [simp]:
  "refines sn len (call p (SockEnter n) s) r t = refines sn len s r t"
  "refines sn len s r (call p (SockExit n) t) = refines sn len s r t"
  by (simp_all add: refines_def)

subsection \<open>The parts of \<open>sendto\<close>\<close>

lemma silent_sendto_dest:
  assumes "sn < 8" and "silent sn s0 s"
    and "\<And>r s'. \<lbrakk>silent sn s0 s'; r = SOCK_OK \<or> r < 0\<rbrakk> \<Longrightarrow> Q r s'"
  shows "wpt (sendto_dest p sn addr port addrlen s) Q"
  unfolding sendto_dest_def setSn_DIPR_def setSn_DPORT_def
  using assms(1) by (auto intro!: wp silent assms(2) intro: assms(3) [simplified])

lemma silent_check_dest:
  assumes "sn < 8" and "silent sn s0 s"
    and "\<And>r s'. \<lbrakk>silent sn s0 s'; r = SOCK_OK \<or> r < 0\<rbrakk> \<Longrightarrow> Q r s'"
  shows "wpo (sendto_check_dest p sn addr port s) Q"
  unfolding sendto_check_dest_def setSn_DIPR_def setSn_DPORT_def getSn_SR_def
  using assms(1) by (auto intro!: wp silent assms(2) intro: assms(3) [simplified])

lemma silent_space_step:
  assumes "sn < 8" and "silent sn s0 s"
  shows "wpo (sendto_space_step p sn len nb d poll s) (\<lambda>r s'. silent sn s0 s'
    \<and> (case r of Inl x \<Rightarrow> silent sn s0 s' \<and> (x = SOCK_OK \<or> x \<le> 0) | Inr y \<Rightarrow> True))"
  unfolding sendto_space_step_def getSn_SR_def
  using assms(1) by (auto intro!: wp silent assms(2))

lemma silent_space:
  assumes "sn < 8" and "silent sn s0 s"
    and "\<And>r s'. \<lbrakk>silent sn s0 s'; r = SOCK_OK \<or> r \<le> 0\<rbrakk> \<Longrightarrow> Q r s'"
  shows "wpo (sendto_space p sn len nb mac cfg s) Q"
proof -
  have loop: "wpo (forever (sendto_space_step p sn len nb d) poll t) Q" if "silent sn s0 t" for d poll t
    by (rule wpo_mono [OF silent_forever [OF that silent_space_step [OF assms(1)]]]) (auto intro: assms(3))
  show ?thesis
    unfolding sendto_space_def getSn_SR_def
    using assms(1) by (auto intro!: wp silent assms(2) loop intro: assms(3) [simplified])
qed

lemma sendto_pending_refines:
  assumes "sn < 8" and "sock_tx_state s sn = SOCK_TX_DGRAM_PENDING"
  shows "wpt (sendto_pending p sn s) (refines sn len s)"
proof -
  have idle: "refines sn len s r (set_sock_tx_state sn SOCK_TX_IDLE (set_sock_tx_pending_len sn 0 t))"
    if "silent sn s t" "r = uint (sock_tx_pending_len t sn) \<or> r = SOCKERR_TIMEOUT" for r t
  proof -
    have "dgram_of sn s = DPending (sock_tx_pending_len t sn)" "cmds sn t = cmds sn s"
      using that(1) assms(2) by (simp_all add: dgram_of_def silent_def)
    with that(2) show ?thesis
      by (auto simp: refines_def dgram_of_def sock_set cmds_def
          intro!: exI [of _ 0] completed timed_out [simplified])
  qed
  show ?thesis
    unfolding sendto_pending_def getSn_IR_def setSn_IR_def
    using assms(1) by (auto intro!: wp silent intro: idle [simplified] refines_silent)
qed

lemma silent_sendto_probe:
  assumes "sn < 8" and "silent sn s0 s"
  shows "wpt (sendto_probe p sn 0 s) (\<lambda>r s'. silent sn s0 s'
    \<and> (r = None \<or> r = Some SOCK_OK \<or> r = Some SOCKERR_TIMEOUT))"
  unfolding sendto_probe_def getSn_IR_def setSn_IR_def
  using assms(1) by (auto intro!: wp silent assms(2))

text \<open>After the SEND command: each way the call can end is a step of the contract.\<close>

definition issued :: "u8 \<Rightarrow> ('w, 'm) drv_scheme \<Rightarrow> ('w, 'm) drv_scheme \<Rightarrow> bool" where
  "issued sn s t \<longleftrightarrow> cmds sn t = Sn_CR_SEND # cmds sn s \<and> sock_tx_state t sn = SOCK_TX_IDLE"

lemma issued_silent: "\<lbrakk>issued sn s t; silent sn t t'\<rbrakk> \<Longrightarrow> issued sn s t'"
  by (simp add: issued_def silent_def)

lemma issued_pending: "issued sn s t \<Longrightarrow> issued sn s (set_sock_tx_pending_len sn n t)"
  by (simp add: issued_def) (simp add: sock_set)

lemma issued_refines:
  assumes "issued sn s t" and "sock_tx_state s sn = SOCK_TX_IDLE" and "n \<le> len"
  shows "refines sn len s SOCKERR_TIMEOUT (set_sock_tx_state sn SOCK_TX_LOCAL_FAULT t)"
    and "refines sn len s SOCK_BUSY (set_sock_tx_state sn SOCK_TX_DGRAM_PENDING (set_sock_tx_pending_len sn n t))"
    and "refines sn len s SOCKERR_TIMEOUT t" and "refines sn len s (uint n) t"
proof -
  have d: "dgram_of sn s = DIdle" "dgram_of sn t = DIdle"
    "dgram_of sn (set_sock_tx_state sn SOCK_TX_LOCAL_FAULT t) = DFault"
    "dgram_of sn (set_sock_tx_state sn SOCK_TX_DGRAM_PENDING (set_sock_tx_pending_len sn n t)) = DPending n"
    using assms(1,2) by (simp_all add: dgram_of_def issued_def sock_set)
  have c: "cmds sn t = replicate 1 Sn_CR_SEND @ cmds sn s"
    using assms(1) by (simp add: issued_def)
  show "refines sn len s SOCKERR_TIMEOUT (set_sock_tx_state sn SOCK_TX_LOCAL_FAULT t)"
    "refines sn len s SOCK_BUSY (set_sock_tx_state sn SOCK_TX_DGRAM_PENDING (set_sock_tx_pending_len sn n t))"
    "refines sn len s SOCKERR_TIMEOUT t" "refines sn len s (uint n) t"
    unfolding refines_def d using c assms(3)
    by (auto intro!: exI [of _ 1] dgram_step.intros [simplified])
qed

lemma sendto_issue_refines:
  assumes "sn < 8" and "silent sn s0 s" and "sock_tx_state s0 sn = SOCK_TX_IDLE" and "n \<le> len"
  shows "wpt (sendto_issue p sn buf n nb cfg s) (refines sn len s0)"
proof -
  let ?s1 = "wiz_send_data p sn buf n (setSn_IR p sn (Sn_IR_SENDOK OR Sn_IR_TIMEOUT) s)"
  have "silent sn s0 ?s1"
    unfolding setSn_IR_def by (intro silent assms(2)) (simp_all add: assms(1))
  then have i: "issued sn s0 (setSn_CR p sn Sn_CR_SEND ?s1)"
    using assms(1,3) by (simp add: issued_def silent_def setSn_CR_def cmds_def)
  note r = issued_refines [OF _ assms(3,4)] and i' = i [simplified]
  have ended: "refines sn len s0 SOCKERR_TIMEOUT t'" "refines sn len s0 (uint n) t'"
    if "silent sn (setSn_CR p sn Sn_CR_SEND ?s1) t" "silent sn (set_sock_tx_pending_len sn n t) t'" for t t'
    using r(3,4) [OF issued_silent [OF issued_pending [OF issued_silent [OF i that(1)]] that(2)]] .
  have probe: "wpt (poll_until p sn (sendto_probe p sn 0) d poll t) Q"
    if "silent sn t0 t" "\<And>v t'. \<lbrakk>silent sn t0 t'; v = SOCK_OK \<or> v = SOCKERR_TIMEOUT\<rbrakk> \<Longrightarrow> Q v t'" for d poll t t0 Q
    by (rule silent_poll_until [OF that(1)], rule wpt_mono [OF silent_sendto_probe [OF assms(1)]])
      (auto intro: that(2) [simplified])
  show ?thesis
    unfolding sendto_issue_def Let_def
    using assms(1)
    by (auto intro!: wp silent silent_refl probe r(1,2) [simplified]
        intro: i' ended [simplified] issued_silent [OF i'])
qed

lemma sendto_new_refines:
  assumes "sn < 8" and "sock_tx_state s sn = SOCK_TX_IDLE"
  shows "wpo (sendto_new p sn buf len addr port addrlen s) (refines sn len s)"
proof -
  note issue = sendto_issue_refines [OF assms(1) _ assms(2)]
  have neg: "refines sn len s r t" if "silent sn s t" "r = SOCK_OK \<or> r \<le> 0" "r \<noteq> SOCK_OK" for r t
    using refines_silent that by blast
  show ?thesis
    unfolding sendto_new_def Let_def
    by (auto intro!: wp silent_sendto_dest silent_check_dest silent_space assms(1) silent_refl issue
        intro: neg [simplified])
qed

lemma sendto_locked_refines:
  assumes "sn < 8"
  shows "wpo (sendto_locked p sn buf len addr port addrlen s) (refines sn len s)"
proof -
  have "sock_tx_state s sn = SOCK_TX_IDLE" if "sock_tx_state s sn \<noteq> SOCK_TX_LOCAL_FAULT"
    "sock_tx_state s sn \<noteq> SOCK_TX_DGRAM_PENDING"
    using that by (cases "sock_tx_state s sn") simp_all
  then show ?thesis
    unfolding sendto_locked_def
    by (auto intro!: wp refines_silent silent_refl sendto_pending_refines sendto_new_refines assms)
qed

lemma sendto_call_refines:
  assumes "sendto_IO_6 p sn buf len addr port addrlen s = Some (r, s')"
  shows "refines sn len s r s'"
proof -
  have refl: "refines sn n s r s" if "r \<le> 0" for r n
    using that by (rule refines_silent [OF silent_refl])
  have "wpo (sendto_IO_6 p sn buf len addr port addrlen s) (refines sn len s)"
    unfolding sendto_IO_6_def
    by (auto intro!: wp refl wpo_mono [OF sendto_locked_refines] simp: WIZCHIP_SOCK_NUM_def not_le)
  with assms show ?thesis by (simp add: wpo_def)
qed

text \<open>C2: \<open>sendto\<close> implements its transmit contract, whatever the chip, the clock and the network do.
  A call that returns is a step of \<open>dgram_step\<close>, and the commands it gave to the socket are as many
  SENDs as the step says and nothing else. So a non-blocking call that found its datagram pending
  neither copies nor sends again, the length it finally returns is the one accepted when the
  datagram was issued, and a socket in its local fault state gives no command at all.\<close>

theorem sendto_refines:
  assumes "sendto_IO_6 p sn buf len addr port addrlen s = Some (r, s')"
  shows "refines sn len s r s'"
  using assms by (rule sendto_call_refines)

text \<open>A UDP socket with a datagram of three bytes pending; the chip reports SENDOK.\<close>

definition udp_pending :: "u8 list \<Rightarrow> u8 list drv" where
  "udp_pending script = (scripted_ready script)\<lparr>sock_mode := (\<lambda>_. Sn_MR_UDP), sock_io_mode := (\<lambda>_. 1),
     sock_tx_state := (\<lambda>_. SOCK_TX_DGRAM_PENDING), sock_tx_pending_len := (\<lambda>_. 3)\<rparr>"

lemma sendto_pending_run:
  "\<exists>s'. sendto_IO_6 scripted 0 (Some [1, 2]) 2 None 0 4 (udp_pending [0x10]) = Some (3, s')"
  by (simp add: run_defs reg_defs sendto_IO_6_def sendto_locked_def sendto_pending_def udp_pending_def
      cong: run_cong)

theorem sendto_refines_witness:
  "\<exists>s'. sendto_IO_6 scripted 0 (Some [1, 2]) 2 None 0 4 (udp_pending [0x10]) = Some (3, s')
     \<and> refines 0 2 (udp_pending [0x10]) 3 s'"
  using sendto_pending_run sendto_refines by blast

subsection \<open>Runs of \<open>sendto\<close>\<close>

text \<open>Several calls on one socket, with the list of their results, latest first.\<close>

inductive sendto_run ::
    "'w platform \<Rightarrow> u8 \<Rightarrow> ('w, 'm) drv_scheme \<Rightarrow> int list \<Rightarrow> ('w, 'm) drv_scheme \<Rightarrow> bool"
  for p :: "'w platform" and sn :: u8 where
  sendto_none: "sendto_run p sn s [] s"
| sendto_more: "\<lbrakk>sendto_run p sn s rs t; sendto_IO_6 p sn buf len addr port addrlen t = Some (r, s')\<rbrakk>
    \<Longrightarrow> sendto_run p sn s (r # rs) s'"

definition outstanding :: "dgram_state \<Rightarrow> nat" where
  "outstanding d = (case d of DPending n \<Rightarrow> 1 | _ \<Rightarrow> 0)"

definition completions :: "int list \<Rightarrow> nat" where
  "completions rs = length (filter (\<lambda>r. 0 < r) rs)"

lemma dgram_step_conserves:
  "dgram_step len d r k d' \<Longrightarrow> completions [r] + outstanding d' \<le> outstanding d + k"
  by (induction rule: dgram_step.induct) (simp_all add: completions_def outstanding_def)

text \<open>C23: No datagram is reported sent twice. Over any sequence of \<open>sendto\<close> calls on a socket the calls
  that return a positive length, together with a datagram still pending, are at most as many as
  the SEND commands given since, plus one if a datagram was pending at the start.\<close>

theorem sendto_no_duplicates:
  assumes "sendto_run p sn s rs s'"
  shows "\<exists>k. cmds sn s' = replicate k Sn_CR_SEND @ cmds sn s
     \<and> completions rs + outstanding (dgram_of sn s') \<le> outstanding (dgram_of sn s) + k"
  using assms
proof induction
  case (sendto_none s)
  then show ?case by (auto simp: completions_def intro: exI [of _ 0])
next
  case (sendto_more s rs t buf len addr port addrlen r s')
  from sendto_more.IH obtain k where k: "cmds sn t = replicate k Sn_CR_SEND @ cmds sn s"
    "completions rs + outstanding (dgram_of sn t) \<le> outstanding (dgram_of sn s) + k" by blast
  from sendto_call_refines [OF sendto_more.hyps(2)] obtain j where j: "cmds sn s' = replicate j Sn_CR_SEND @ cmds sn t"
    "dgram_step len (dgram_of sn t) r j (dgram_of sn s')" by (auto simp: refines_def)
  have "completions (r # rs) = completions [r] + completions rs" by (simp add: completions_def)
  with dgram_step_conserves [OF j(2)] k j(1) show ?case
    by (intro exI [of _ "j + k"]) (simp add: replicate_add)
qed

theorem sendto_no_duplicates_witness:
  "\<exists>s'. sendto_IO_6 scripted 0 (Some [1, 2]) 2 None 0 4 (udp_pending [0x10]) = Some (3, s')
     \<and> (\<exists>k. cmds 0 s' = replicate k Sn_CR_SEND @ cmds 0 (udp_pending [0x10])
          \<and> completions [3] + outstanding (dgram_of 0 s') \<le> 1 + k)"
proof -
  from sendto_pending_run obtain s' where
    e: "sendto_IO_6 scripted 0 (Some [1, 2]) 2 None 0 4 (udp_pending [0x10]) = Some (3, s')" ..
  have "outstanding (dgram_of 0 (udp_pending [0x10])) = 1"
    by (simp add: outstanding_def dgram_of_def udp_pending_def)
  with sendto_no_duplicates [OF sendto_more [OF sendto_none e]] e show ?thesis by metis
qed

subsection \<open>Reading a datagram\<close>

text \<open>
  What a successful \<open>recvfrom\<close> leaves: \<open>n\<close> bytes of a packet of which \<open>m\<close> were left, with the
  packet flags \<open>info\<close> of the packet so far.
\<close>

definition taken :: "u8 \<Rightarrow> u16 \<Rightarrow> u16 \<Rightarrow> u8 \<Rightarrow> int \<Rightarrow> dgram_out \<Rightarrow> ('w, 'm) drv_scheme \<Rightarrow> bool" where
  "taken sn len m info r out s' \<longleftrightarrow>
     (let n = pack_size len m in
      r = uint n \<and> length (out_data out) = unat n \<and> sock_remained_size s' sn = m - n
      \<and> sock_pack_info s' sn = info OR (if m = n then PACK_COMPLETED else PACK_REMAINED))"

definition udp_size :: "u8 list \<Rightarrow> u16" where
  "udp_size head = push_bit 8 (ucast (head ! 6)) + ucast (head ! 7)"

definition udp_port :: "u8 list \<Rightarrow> u16" where
  "udp_port head = push_bit 8 (ucast (head ! 4)) + ucast (head ! 5)"

definition udp_taken ::
    "u8 \<Rightarrow> u16 \<Rightarrow> ('w, 'm) drv_scheme \<Rightarrow> int \<Rightarrow> dgram_out \<Rightarrow> ('w, 'm) drv_scheme \<Rightarrow> bool" where
  "udp_taken sn len s r out s' \<longleftrightarrow>
     (if sock_remained_size s sn \<noteq> 0
      then taken sn len (sock_remained_size s sn) (sock_pack_info s sn) r out s'
        \<and> out_addr out = None \<and> out_port out = None \<and> cmds sn s' = Sn_CR_RECV # cmds sn s
      else \<exists>head. length head = 8 \<and> taken sn len (udp_size head) PACK_FIRST r out s'
        \<and> out_addr out = Some (take 4 head) \<and> out_port out = Some (udp_port head)
        \<and> cmds sn s' = [Sn_CR_RECV, Sn_CR_RECV] @ cmds sn s)"

lemma cmds_setSn_CR: "sn < 8 \<Longrightarrow> cmds sn (setSn_CR p sn v s) = v # cmds sn s"
  by (simp add: setSn_CR_def cmds_def)

lemma setSn_CR_fields [simp]:
  "sock_remained_size (setSn_CR p sn v s) = sock_remained_size s"
  "sock_pack_info (setSn_CR p sn v s) = sock_pack_info s"
  by (simp_all add: setSn_CR_def)

lemma recvfrom_finish_spec:
  assumes "sn < 8"
  shows "wpt (recvfrom_finish p sn n nb cfg s) (\<lambda>r s'. 0 < r \<longrightarrow> r = uint n
     \<and> cmds sn s' = Sn_CR_RECV # cmds sn s \<and> sock_remained_size s' sn = sock_remained_size s sn - n
     \<and> sock_pack_info s' sn = sock_pack_info s sn
         OR (if sock_remained_size s sn = n then PACK_COMPLETED else PACK_REMAINED))"
  unfolding recvfrom_finish_def Let_def
  using assms
  by (auto intro!: wp silent_wait_datagram silent_refl simp: silent_def cmds_setSn_CR)
    (auto simp: sock_set)

lemma recvfrom_header_spec:
  assumes "sn < 8"
  shows "wpt (recvfrom_header p sn n nb cfg s) (\<lambda>(ret, head) t. length head = unat n
     \<and> cmds sn t = Sn_CR_RECV # cmds sn s \<and> (ret = SOCK_OK \<or> ret \<le> 0))"
  unfolding recvfrom_header_def Let_def
  using assms
  by (auto intro!: wp silent_recv_data silent_wait_datagram silent_refl simp: silent_def cmds_setSn_CR)

text \<open>What the UDP branch hands to the common end.\<close>

definition udp_read ::
    "u8 \<Rightarrow> u16 \<Rightarrow> ('w, 'm) drv_scheme \<Rightarrow> u16 \<Rightarrow> dgram_out \<Rightarrow> ('w, 'm) drv_scheme \<Rightarrow> bool" where
  "udp_read sn len s n out t \<longleftrightarrow> n = pack_size len (sock_remained_size t sn) \<and> length (out_data out) = unat n
     \<and> (if sock_remained_size s sn \<noteq> 0
        then silent sn s t \<and> out_addr out = None \<and> out_port out = None
        else \<exists>head. length head = 8 \<and> cmds sn t = Sn_CR_RECV # cmds sn s
          \<and> sock_remained_size t sn = udp_size head \<and> sock_pack_info t sn = PACK_FIRST
          \<and> out_addr out = Some (take 4 head) \<and> out_port out = Some (udp_port head))"

text \<open>The header branch leaves the size of the packet and its flags in the record.\<close>

definition udp_headed ::
    "u8 \<Rightarrow> ('w, 'm) drv_scheme \<Rightarrow> dgram_out \<Rightarrow> ('w, 'm) drv_scheme \<Rightarrow> bool" where
  "udp_headed sn s out t \<longleftrightarrow> (if sock_remained_size s sn \<noteq> 0 then out = no_out \<and> t = s
     else \<exists>head. length head = 8 \<and> cmds sn t = Sn_CR_RECV # cmds sn s
          \<and> sock_remained_size t sn = udp_size head \<and> sock_pack_info t sn = PACK_FIRST
          \<and> out = no_out\<lparr>out_addr := Some (take 4 head), out_port := Some (udp_port head)\<rparr>)"

definition udp_head :: "'w platform \<Rightarrow> u8 \<Rightarrow> u8 \<Rightarrow> wizchip_timeout_config \<Rightarrow> (int \<times> dgram_out, 'w, 'm) sock_op" where
  "udp_head p sn nb cfg s =
     (if sock_remained_size s sn = 0 then
        let ((ret, head), s) = recvfrom_header p sn 8 nb cfg s in
        if ret \<noteq> SOCK_OK then ((ret, no_out), s)
        else ((SOCK_OK, no_out\<lparr>out_addr := Some (take 4 head), out_port := Some (udp_port head)\<rparr>),
          set_sock_pack_info sn PACK_FIRST (set_sock_remained_size sn (udp_size head) s))
      else ((SOCK_OK, no_out), s))"

lemma recvfrom_udp_eq:
  "recvfrom_udp p sn len pl nb cfg s =
     (let ((ret, out), s) = udp_head p sn nb cfg s in
      if ret \<noteq> SOCK_OK then ((ret, pl, out), s)
      else let n = pack_size len (sock_remained_size s sn);
               (bs, s) = wiz_recv_data p sn True n s
           in ((SOCK_OK, n, out\<lparr>out_data := bs\<rparr>), s))"
  unfolding recvfrom_udp_def udp_head_def udp_size_def udp_port_def Let_def ..

lemma udp_head_spec:
  assumes "sn < 8"
  shows "wpt (udp_head p sn nb cfg s) (\<lambda>(ret, out) t. if ret = SOCK_OK then udp_headed sn s out t else ret \<le> 0)"
proof (cases "sock_remained_size s sn = 0")
  case True
  have "wpt (recvfrom_header p sn 8 nb cfg s) (\<lambda>(ret, head) t. length head = 8
     \<and> cmds sn t = Sn_CR_RECV # cmds sn s \<and> (ret = SOCK_OK \<or> ret \<le> 0))"
    by (rule wpt_mono [OF recvfrom_header_spec [OF assms]]) auto
  then show ?thesis
    using True by (auto simp: udp_head_def udp_headed_def wpt_def split_beta sock_set cmds_def)
next
  case False
  then show ?thesis by (simp add: udp_head_def udp_headed_def wpt_def)
qed

lemma udp_read_headed:
  assumes "udp_headed sn s out t" and "silent sn t t'" and "n = pack_size len (sock_remained_size t sn)"
    and "length bs = unat n"
  shows "udp_read sn len s n (out\<lparr>out_data := bs\<rparr>) t'"
  using assms by (auto simp: udp_headed_def udp_read_def no_out_def silent_def) blast

lemma recvfrom_udp_spec:
  assumes "sn < 8"
  shows "wpt (recvfrom_udp p sn len pl nb cfg s) (\<lambda>(ret, n, out) t.
     if ret = SOCK_OK then udp_read sn len s n out t else ret \<le> 0)"
proof -
  have data: "wpt (let n = pack_size len (sock_remained_size t sn); (bs, t') = wiz_recv_data p sn True n t
      in ((SOCK_OK, n, out\<lparr>out_data := bs\<rparr>), t')) (\<lambda>(ret, n, out) t.
     if ret = SOCK_OK then udp_read sn len s n out t else ret \<le> 0)" if "udp_headed sn s out t" for out t
    by (intro wp silent_recv_data [OF assms silent_refl]) (simp add: udp_read_headed [OF that])
  show ?thesis
    unfolding recvfrom_udp_eq
  proof (intro wpt_Let wpt_case_prod, rule wpt_mono [OF udp_head_spec [OF assms]])
    fix x t assume x: "(case x of (ret, out) \<Rightarrow> \<lambda>t. if ret = SOCK_OK then udp_headed sn s out t else ret \<le> 0) t"
    then show "wpt ((case x of (ret, out) \<Rightarrow> \<lambda>s. if ret \<noteq> SOCK_OK then ((ret, pl, out), s)
        else let n = pack_size len (sock_remained_size s sn); (bs, s) = wiz_recv_data p sn True n s
             in ((SOCK_OK, n, out\<lparr>out_data := bs\<rparr>), s)) t)
      (\<lambda>(ret, n, out) t. if ret = SOCK_OK then udp_read sn len s n out t else ret \<le> 0)"
      using data by (cases x) (simp add: wpt_pair split: if_splits)
  qed
qed

lemma udp_taken_finish:
  assumes "udp_read sn len s n out t" and "r = uint n" and "cmds sn s' = Sn_CR_RECV # cmds sn t"
    and "sock_remained_size s' sn = sock_remained_size t sn - n"
    and "sock_pack_info s' sn = sock_pack_info t sn
      OR (if sock_remained_size t sn = n then PACK_COMPLETED else PACK_REMAINED)"
  shows "udp_taken sn len s r out s'"
proof (cases "sock_remained_size s sn = 0")
  case True
  with assms(1) obtain head where "length head = 8" "cmds sn t = Sn_CR_RECV # cmds sn s"
    "sock_remained_size t sn = udp_size head" "sock_pack_info t sn = PACK_FIRST"
    "out_addr out = Some (take 4 head)" "out_port out = Some (udp_port head)"
    by (auto simp: udp_read_def)
  with assms True show ?thesis
    unfolding udp_taken_def taken_def Let_def by (auto simp: udp_read_def intro!: exI [of _ head])
next
  case False
  with assms show ?thesis by (auto simp: udp_taken_def taken_def udp_read_def silent_def Let_def)
qed

lemma udp_mode: "mr AND 0x0F = Sn_MR_UDP \<Longrightarrow> mr AND 0x07 = (Sn_MR_UDP :: u8)"
proof -
  assume "mr AND 0x0F = Sn_MR_UDP"
  then have "(mr AND 0x0F) AND 0x07 = Sn_MR_UDP AND 0x07" by simp
  moreover have "(mr AND 0x0F) AND 0x07 = mr AND (0x07 :: u8)" by (simp add: and.assoc)
  ultimately show ?thesis by simp
qed

lemma recvfrom_packet_udp:
  assumes "sn < 8" and "mr AND 0x0F = Sn_MR_UDP"
  shows "wpt (recvfrom_packet p sn len pl mr nb cfg s) (\<lambda>(r, out) s'. 0 < r \<longrightarrow> udp_taken sn len s r out s')"
  unfolding recvfrom_packet_def Let_def udp_mode [OF assms(2)]
proof (simp only: simp_thms if_True, intro wpt_case_prod, rule wpt_mono [OF recvfrom_udp_spec [OF assms(1)]])
  fix x t assume x: "(case x of (ret, n, out) \<Rightarrow> \<lambda>t. if ret = SOCK_OK then udp_read sn len s n out t else ret \<le> 0) t"
  obtain ret n out where e: "x = (ret, n, out)" by (metis prod_cases3)
  have "wpt (recvfrom_finish p sn n nb cfg t) (\<lambda>r s'. 0 < r \<longrightarrow> udp_taken sn len s r out s')" if "ret = SOCK_OK"
    using x that by (intro wpt_mono [OF recvfrom_finish_spec [OF assms(1)]]) (auto simp: e intro: udp_taken_finish)
  with x show "wpt ((case x of (ret, pack_len, out) \<Rightarrow> \<lambda>s. if ret \<noteq> SOCK_OK then ((ret, out), s)
      else case recvfrom_finish p sn pack_len nb cfg s of (ret, s) \<Rightarrow> ((ret, out), s)) t)
    (\<lambda>(r, out) s'. 0 < r \<longrightarrow> udp_taken sn len s r out s')"
    by (auto simp: e wpt_def split: if_splits prod.splits)
qed

lemma silent_recvfrom_wait:
  assumes "sn < 8" and "silent sn s0 s"
    and "\<And>r s'. \<lbrakk>silent sn s0 s'; \<And>x. r = Inl x \<Longrightarrow> x \<le> 0\<rbrakk> \<Longrightarrow> Q r s'"
  shows "wpo (recvfrom_wait p sn nb cfg s) Q"
proof -
  have step: "wpo (recvfrom_wait_step p sn nb d poll t) (\<lambda>r s'. silent sn s0 s'
      \<and> (case r of Inl x \<Rightarrow> silent sn s0 s' \<and> (case x of Inl e \<Rightarrow> e \<le> 0 | Inr n \<Rightarrow> True) | Inr y \<Rightarrow> True))"
    if "silent sn s0 t" for d poll t
    unfolding recvfrom_wait_step_def getSn_SR_def
    using assms(1) by (auto intro!: wp silent that)
  have loop: "wpo (forever (recvfrom_wait_step p sn nb d) poll t) Q" if "silent sn s0 t" for d poll t
    by (rule wpo_mono [OF silent_forever [OF that step]]) (auto intro: assms(3) split: sum.splits)
  show ?thesis
    unfolding recvfrom_wait_def by (auto intro!: wp silent loop assms(2) intro: assms(3))
qed

lemma udp_taken_silent: "\<lbrakk>udp_taken sn len t r out s'; silent sn s t\<rbrakk> \<Longrightarrow> udp_taken sn len s r out s'"
  by (simp add: udp_taken_def silent_def cong: if_cong)

lemma taken_call [simp]: "taken sn len m info r out (call p ev t) = taken sn len m info r out t"
  by (simp add: taken_def)

lemma udp_taken_exit [simp]: "udp_taken sn len s r out (call p (SockExit n) t) = udp_taken sn len s r out t"
  by (simp add: udp_taken_def cong: if_cong)

lemma silent_enter: "silent sn s (call p (SockEnter n) s)"
  by (simp add: silent_def grows_same)

lemma recvfrom_locked_udp:
  assumes "sn < 8" and "sock_mode s sn AND 0x0F = Sn_MR_UDP"
  shows "wpo (recvfrom_locked p sn len addr port s) (\<lambda>(r, out) s'. 0 < r \<longrightarrow> udp_taken sn len s r out s')"
proof -
  have "wpt (recvfrom_packet p sn len pl (sock_mode s sn) nb cfg t)
      (\<lambda>(r, out) s'. 0 < r \<longrightarrow> udp_taken sn len s r out s')" if "silent sn s t" for pl nb cfg t
    using udp_taken_silent [OF _ that]
    by (intro wpt_mono [OF recvfrom_packet_udp [OF assms]]) (auto simp: split_beta)
  then show ?thesis
    unfolding recvfrom_locked_def Let_def
    by (auto intro!: wp silent_recvfrom_wait assms(1) silent_refl)
qed

text \<open>C5: A UDP read accounts for every byte of a datagram. A successful \<open>recvfrom\<close> on a UDP socket
  returns the smaller of the caller's length and what is left of the current datagram, hands over
  exactly that many bytes, and what is left shrinks by it. At a datagram boundary the eight byte
  header is read and given back to the chip first; address, port and size come from it, and a
  later call for the same datagram reads no header. The flags say whether a datagram began,
  remains or is complete. The only commands are RECV, one per chunk and one for the header.\<close>

theorem udp_datagram_accounting:
  assumes "recvfrom_IO_6 p sn True len True True s = Some ((r, out), s')" and "0 < r"
    and "sock_mode s sn AND 0x0F = Sn_MR_UDP"
  shows "udp_taken sn len s r out s'"
proof -
  have call: "udp_taken sn len s r out (call p (SockExit sn) t)" if "udp_taken sn len (call p (SockEnter sn) s) r out t"
    for r out t using udp_taken_silent [OF that silent_enter] by simp
  have "wpo (recvfrom_IO_6 p sn True len True True s) (\<lambda>(r, out) s'. 0 < r \<longrightarrow> udp_taken sn len s r out s')"
    unfolding recvfrom_IO_6_def Let_def
    using assms(3)
    by (auto intro!: wpo_if wpo_bind wpo_Some wpo_mono [OF recvfrom_locked_udp] call
        simp: WIZCHIP_SOCK_NUM_def not_le)
  with assms show ?thesis by (simp add: wpo_def)
qed

text \<open>A UDP socket with two bytes of a datagram left.\<close>

definition udp_partial :: "u8 list \<Rightarrow> u8 list drv" where
  "udp_partial script = (scripted_ready script)\<lparr>sock_mode := (\<lambda>_. Sn_MR_UDP), sock_remained_size := (\<lambda>_. 2),
     sock_pack_info := (\<lambda>_. PACK_FIRST OR PACK_REMAINED)\<rparr>"

theorem udp_datagram_accounting_witness:
  "\<exists>out s'. recvfrom_IO_6 scripted 0 True 5 True True (udp_partial [0, 16, 7, 9, 0]) = Some ((2, out), s')
     \<and> udp_taken 0 5 (udp_partial [0, 16, 7, 9, 0]) 2 out s'"
proof -
  have "\<exists>out s'. recvfrom_IO_6 scripted 0 True 5 True True (udp_partial [0, 16, 7, 9, 0]) = Some ((2, out), s')"
    by (simp add: run_defs reg_defs dgram_defs udp_partial_def cong: run_cong)
  then obtain out s' where
    e: "recvfrom_IO_6 scripted 0 True 5 True True (udp_partial [0, 16, 7, 9, 0]) = Some ((2, out), s')" by blast
  have "sock_mode (udp_partial [0, 16, 7, 9, 0]) 0 AND 0x0F = Sn_MR_UDP"
    by (simp add: udp_partial_def)
  with udp_datagram_accounting [OF e] e show ?thesis by auto
qed

end
