(* ===== verification/ChipConf.thy ===== *)
theory ChipConf
  imports SockSpec
begin

text \<open>
  The chip-level half of \<open>Ethernet/wizchip_conf.c\<close> for the W5500: software reset and
  initialisation as transactions under every lock, interrupt control, network information,
  network mode and retransmission timeouts.

  A caller's structure is a record of this theory; a byte-array argument is a list of which
  the code uses the first \<open>WIZCHIP_SOCK_NUM\<close> elements.
\<close>

unbundle bit_operations_syntax

subsection \<open>Transactions under every lock\<close>

definition wizchip_transaction_lock :: "'w platform \<Rightarrow> ('w, 'm) sock_proc" where
  "wizchip_transaction_lock p s = fold (\<lambda>sn. call p (SockEnter sn)) sock_nums (call p GlobalEnter s)"

definition wizchip_transaction_unlock :: "'w platform \<Rightarrow> ('w, 'm) sock_proc" where
  "wizchip_transaction_unlock p s = call p GlobalExit (fold (\<lambda>sn. call p (SockExit sn)) (rev sock_nums) s)"

definition wizchip_transaction_reset_socket_state :: "('w, 'm) sock_proc" where
  "wizchip_transaction_reset_socket_state s = fold (\<lambda>sn s.
     let s = wizchip_socket_state_reset_one sn s
     in s\<lparr>wizchip_txmax_cache := (wizchip_txmax_cache s)(sn := 0),
          wizchip_rxmax_cache := (wizchip_rxmax_cache s)(sn := 0)\<rparr>) sock_nums s"

definition wizchip_transaction_finish :: "'w platform \<Rightarrow> int \<Rightarrow> (int, 'w, 'm) sock_op" where
  "wizchip_transaction_finish p ret s =
     (let s = wizchip_transaction_unlock p s in
      if ret = 0 then (ret, s\<lparr>chip_state := WIZCHIP_STATE_READY, chip_last_error := 0\<rparr>)
      else let s = s\<lparr>chip_state := WIZCHIP_STATE_FAULTED\<rparr>
           in (ret, if chip_last_error s = 0 then s\<lparr>chip_last_error := ret\<rparr> else s))"

text \<open>The loop over the sockets, from the given one on; it stops at the first failed read.\<close>

primrec refresh_caches :: "'w platform \<Rightarrow> u8 list \<Rightarrow> (int, 'w, 'm) sock_op" where
  "refresh_caches p [] s = (0, s)"
| "refresh_caches p (sn # sns) s =
     (let ((r, tx_size), s) = wizchip_read8_checked_out p (Sn_TXBUF_SIZE sn) True s in
      if r \<noteq> 0 then (SOCKERR_IO, s)
      else let ((r, rx_size), s) = wizchip_read8_checked_out p (Sn_RXBUF_SIZE sn) True s in
      if r \<noteq> 0 then (SOCKERR_IO, s)
      else let s = s\<lparr>wizchip_txmax_cache := (wizchip_txmax_cache s)(sn := ucast (the tx_size) * 1024),
                     wizchip_rxmax_cache := (wizchip_rxmax_cache s)(sn := ucast (the rx_size) * 1024)\<rparr>
           in refresh_caches p sns s)"

definition wizchip_refresh_socket_caches :: "'w platform \<Rightarrow> (int, 'w, 'm) sock_op" where
  "wizchip_refresh_socket_caches p s = refresh_caches p sock_nums s"

subsection \<open>Software reset\<close>

text \<open>The wait for the version register, with the local \<open>_poll\<close>.\<close>

function version_poll :: "'w platform \<Rightarrow> u32 \<Rightarrow> (int, 'w, 'm) bus_op" where
  "version_poll p poll s =
     (let ((r, version), s) = wizchip_read8_checked_out p reg_VERSIONR True s in
      if r \<noteq> 0 then (SOCKERR_IO, s)
      else if version = Some 0x04 then (0, s)
      else if poll + 1 < WIZCHIP_POLL_MAX then version_poll p (poll + 1) s
      else (-1, s))"
  by pat_completeness auto

termination
  by (relation "measure (\<lambda>(p, poll, s). limit_left WIZCHIP_POLL_MAX poll)") (simp_all add: limit_left_step)

declare version_poll.simps [simp del]

text \<open>Saving the network configuration, the reset, restoring it, and the wait.\<close>

definition sw_reset_body :: "'w platform \<Rightarrow> (int, 'w, 'm) bus_op" where
  "sw_reset_body p s =
     (let ((r, mac), s) = wizchip_read_buf_checked p reg_SHAR True 6 s in
      if r \<noteq> 0 then (SOCKERR_IO, s)
      else let ((r, gw), s) = wizchip_read_buf_checked p reg_GAR True 4 s in
      if r \<noteq> 0 then (SOCKERR_IO, s)
      else let ((r, sn), s) = wizchip_read_buf_checked p reg_SUBR True 4 s in
      if r \<noteq> 0 then (SOCKERR_IO, s)
      else let ((r, sip), s) = wizchip_read_buf_checked p reg_SIPR True 4 s in
      if r \<noteq> 0 then (SOCKERR_IO, s)
      else let (r, s) = wizchip_write8_checked p reg_MR MR_RST s in
      if r \<noteq> 0 then (SOCKERR_IO, s)
      else let ((r, mr), s) = wizchip_read8_checked_out p reg_MR True s in
      if r \<noteq> 0 then (SOCKERR_IO, s)
      else let (r, s) = wizchip_write_buf_checked p reg_SHAR (Some mac) 6 s in
      if r \<noteq> 0 then (SOCKERR_IO, s)
      else let (r, s) = wizchip_write_buf_checked p reg_GAR (Some gw) 4 s in
      if r \<noteq> 0 then (SOCKERR_IO, s)
      else let (r, s) = wizchip_write_buf_checked p reg_SUBR (Some sn) 4 s in
      if r \<noteq> 0 then (SOCKERR_IO, s)
      else let (r, s) = wizchip_write_buf_checked p reg_SIPR (Some sip) 4 s in
      if r \<noteq> 0 then (SOCKERR_IO, s)
      else version_poll p 0 s)"

definition wizchip_sw_reset_locked :: "'w platform \<Rightarrow> (int, 'w, 'm) sock_op" where
  "wizchip_sw_reset_locked p s = sw_reset_body p (s\<lparr>wizchip_previous_link := -1\<rparr>)"

definition wizchip_sw_reset :: "'w platform \<Rightarrow> (int, 'w, 'm) sock_op" where
  "wizchip_sw_reset p s =
     (let s = wizchip_transaction_lock p s;
          s = s\<lparr>chip_state := WIZCHIP_STATE_UNINIT, chip_last_error := 0\<rparr>;
          s = wizchip_transaction_reset_socket_state s;
          (ret, s) = wizchip_sw_reset_locked p s;
          (ret, s) = (if ret = 0 then wizchip_refresh_socket_caches p s else (ret, s))
      in wizchip_transaction_finish p ret s)"

subsection \<open>Initialisation\<close>

definition buf_size_ok :: "u8 \<Rightarrow> bool" where
  "buf_size_ok n \<longleftrightarrow> \<not> (n \<noteq> 0 \<and> n \<noteq> 2 \<and> n \<noteq> 4 \<and> n \<noteq> 8 \<and> n \<noteq> 16)"

text \<open>The validation loop over one array, with its running total.\<close>

primrec sizes_valid :: "u16 \<Rightarrow> u8 list \<Rightarrow> bool" where
  "sizes_valid tx_total [] \<longleftrightarrow> True"
| "sizes_valid tx_total (n # ns) \<longleftrightarrow>
     (if \<not> buf_size_ok n then False
      else let tx_total = tx_total + ucast n in if tx_total > 16 then False else sizes_valid tx_total ns)"

text \<open>The second total, in the \<open>int8_t tmp\<close> of the result; \<open>None\<close> leaves with \<open>-1\<close>.\<close>

primrec sizes_total :: "int \<Rightarrow> u8 list \<Rightarrow> int option" where
  "sizes_total tmp [] = Some tmp"
| "sizes_total tmp (n # ns) =
     (let tmp = signed_take_bit 7 (tmp + uint n) in if tmp > 16 then None else sizes_total tmp ns)"

primrec program_sizes ::
    "'w platform \<Rightarrow> (u8 \<Rightarrow> u32)
       \<Rightarrow> (((u8 \<Rightarrow> u16) \<Rightarrow> u8 \<Rightarrow> u16) \<Rightarrow> ('w, 'm) drv_scheme \<Rightarrow> ('w, 'm) drv_scheme)
       \<Rightarrow> int \<Rightarrow> (u8 \<times> u8) list \<Rightarrow> (int, 'w, 'm) sock_op" where
  "program_sizes p reg cache_update tmp [] s = (tmp, s)"
| "program_sizes p reg cache_update _ (x # xs) s =
     (let (tmp, s) = wizchip_write8_checked p (reg (fst x)) (snd x) s in
      if tmp \<noteq> 0 then (tmp, s)
      else let s = cache_update (\<lambda>c. c(fst x := ucast (snd x) * 1024)) s
           in program_sizes p reg cache_update tmp xs s)"

text \<open>One of the two sections \<open>if (txsize)\<close>, \<open>if (rxsize)\<close>; \<open>tmp\<close> is kept when the array is null.\<close>

definition init_sizes ::
    "'w platform \<Rightarrow> (u8 \<Rightarrow> u32)
       \<Rightarrow> (((u8 \<Rightarrow> u16) \<Rightarrow> u8 \<Rightarrow> u16) \<Rightarrow> ('w, 'm) drv_scheme \<Rightarrow> ('w, 'm) drv_scheme)
       \<Rightarrow> u8 list option \<Rightarrow> int \<Rightarrow> (int, 'w, 'm) sock_op" where
  "init_sizes p reg cache_update sizes tmp s =
     (case sizes of
        None \<Rightarrow> (tmp, s)
      | Some ns \<Rightarrow>
         (case sizes_total 0 (take 8 ns) of
            None \<Rightarrow> (-1, s)
          | Some tmp \<Rightarrow> program_sizes p reg cache_update tmp (zip sock_nums ns) s))"

definition init_identity :: "'w platform \<Rightarrow> (int, 'w, 'm) sock_op" where
  "init_identity p s =
     (let ((tmp, version), s) = wizchip_read8_checked_out p reg_VERSIONR True s;
          tmp = (if tmp = 0 \<and> version \<noteq> Some 0x04 then -1 else tmp) in
      if tmp \<noteq> 0 then (tmp, s)
      else let ((r, phycfgr), s) = wizchip_read8_checked_out p reg_PHYCFGR True s in
      if r \<noteq> 0 then (SOCKERR_IO, s)
      else (tmp, s\<lparr>wizchip_previous_link := (if the phycfgr AND 0x01 \<noteq> 0 then 1 else 0)\<rparr>))"

definition wizchip_init_locked ::
    "'w platform \<Rightarrow> u8 list option \<Rightarrow> u8 list option \<Rightarrow> (int, 'w, 'm) sock_op" where
  "wizchip_init_locked p txsize rxsize s =
     (let (tmp, s) = wizchip_sw_reset_locked p s in
      if tmp \<noteq> 0 then (tmp, s)
      else let (tmp, s) = init_sizes p Sn_TXBUF_SIZE wizchip_txmax_cache_update txsize tmp s in
      if tmp \<noteq> 0 then (tmp, s)
      else let (tmp, s) = init_sizes p Sn_RXBUF_SIZE wizchip_rxmax_cache_update rxsize tmp s in
      if tmp \<noteq> 0 then (tmp, s)
      else init_identity p s)"

definition sizes_arg_valid :: "u8 list option \<Rightarrow> bool" where
  "sizes_arg_valid sizes = (case sizes of None \<Rightarrow> True | Some ns \<Rightarrow> sizes_valid 0 (take 8 ns))"

definition wizchip_init ::
    "'w platform \<Rightarrow> u8 list option \<Rightarrow> u8 list option \<Rightarrow> (int, 'w, 'm) sock_op" where
  "wizchip_init p txsize rxsize s =
     (if \<not> sizes_arg_valid txsize then (-1, s)
      else if \<not> sizes_arg_valid rxsize then (-1, s)
      else let s = wizchip_transaction_lock p s;
               s = s\<lparr>chip_state := WIZCHIP_STATE_UNINIT, chip_last_error := 0\<rparr>;
               s = wizchip_transaction_reset_socket_state s;
               (tmp, s) = wizchip_init_locked p txsize rxsize s
           in wizchip_transaction_finish p tmp s)"

subsection \<open>Interrupts\<close>

definition wizchip_clrinterrupt :: "'w platform \<Rightarrow> u32 \<Rightarrow> ('w, 'm) bus_proc" where
  "wizchip_clrinterrupt p intr s =
     (let ir = (ucast intr :: u8);
          sir = (ucast (drop_bit 8 (ucast intr :: u16)) :: u8);
          s = setIR p ir s
      in fold (\<lambda>sn s. if sir AND push_bit (unat sn) 0x01 \<noteq> 0 then setSn_IR p sn 0xFF s else s) sock_nums s)"

definition wizchip_getinterrupt :: "'w platform \<Rightarrow> (u32, 'w, 'm) bus_op" where
  "wizchip_getinterrupt p s =
     (let (tmp3, s) = WIZCHIP_READ_BUF p reg_IR True 3 s;
          ir = tmp3 ! 0; sir = tmp3 ! 2
      in (push_bit 8 (ucast sir) + ucast ir, s))"

definition wizchip_setinterruptmask_locked :: "'w platform \<Rightarrow> u32 \<Rightarrow> ('w, 'm) bus_proc" where
  "wizchip_setinterruptmask_locked p intr s =
     (let imr = (ucast intr :: u8);
          simr = (ucast (drop_bit 8 (ucast intr :: u16)) :: u8);
          s = setIMR p imr s
      in setSIMR p simr s)"

definition wizchip_setinterruptmask :: "'w platform \<Rightarrow> u32 \<Rightarrow> ('w, 'm) bus_proc" where
  "wizchip_setinterruptmask p intr s =
     call p GlobalExit (wizchip_setinterruptmask_locked p intr (call p GlobalEnter s))"

definition wizchip_getinterruptmask_locked :: "'w platform \<Rightarrow> (u32, 'w, 'm) bus_op" where
  "wizchip_getinterruptmask_locked p s =
     (let (imr, s) = getIMR p s;
          (simr, s) = getSIMR p s
      in (push_bit 8 (ucast simr) + ucast imr, s))"

definition wizchip_getinterruptmask :: "'w platform \<Rightarrow> (u32, 'w, 'm) bus_op" where
  "wizchip_getinterruptmask p s =
     (let (intr, s) = wizchip_getinterruptmask_locked p (call p GlobalEnter s)
      in (intr, call p GlobalExit s))"

subsection \<open>Network information, mode and timeouts\<close>

record wiz_NetInfo =
  ni_mac :: "u8 list"
  ni_ip :: "u8 list"
  ni_sn :: "u8 list"
  ni_gw :: "u8 list"
  ni_dns :: "u8 list"
  ni_dhcp :: dhcp_mode

record wiz_NetTimeout =
  retry_cnt :: u8
  time_100us :: u16

definition NM_FORCEARP :: u32 where [simp]: "NM_FORCEARP = push_bit 1 1"
definition NM_PPPOE :: u32 where [simp]: "NM_PPPOE = push_bit 3 1"
definition NM_PINGBLOCK :: u32 where [simp]: "NM_PINGBLOCK = push_bit 4 1"
definition NM_WAKEONLAN :: u32 where [simp]: "NM_WAKEONLAN = push_bit 5 1"

definition NM_MASK :: u32 where
  "NM_MASK = NM_WAKEONLAN OR NM_PPPOE OR NM_PINGBLOCK OR NM_FORCEARP"

definition wizchip_setnetinfo_locked :: "'w platform \<Rightarrow> wiz_NetInfo \<Rightarrow> ('w, 'm) sock_proc" where
  "wizchip_setnetinfo_locked p i s =
     (let s = setSHAR p (ni_mac i) s;
          s = setGAR p (ni_gw i) s;
          s = setSUBR p (ni_sn i) s;
          s = setSIPR p (ni_ip i) s
      in s\<lparr>DNS_server := [ni_dns i ! 0, ni_dns i ! 1, ni_dns i ! 2, ni_dns i ! 3],
           DHCP_mode := ni_dhcp i\<rparr>)"

definition wizchip_setnetinfo :: "'w platform \<Rightarrow> wiz_NetInfo \<Rightarrow> ('w, 'm) sock_proc" where
  "wizchip_setnetinfo p i s = call p GlobalExit (wizchip_setnetinfo_locked p i (call p GlobalEnter s))"

definition wizchip_getnetinfo_locked :: "'w platform \<Rightarrow> (wiz_NetInfo, 'w, 'm) sock_op" where
  "wizchip_getnetinfo_locked p s =
     (let (mac, s) = getSHAR p s;
          (gw, s) = getGAR p s;
          (sn, s) = getSUBR p s;
          (ip, s) = getSIPR p s
      in (\<lparr>ni_mac = mac, ni_ip = ip, ni_sn = sn, ni_gw = gw,
           ni_dns = [DNS_server s ! 0, DNS_server s ! 1, DNS_server s ! 2, DNS_server s ! 3],
           ni_dhcp = DHCP_mode s\<rparr>, s))"

definition wizchip_getnetinfo :: "'w platform \<Rightarrow> (wiz_NetInfo, 'w, 'm) sock_op" where
  "wizchip_getnetinfo p s =
     (let (i, s) = wizchip_getnetinfo_locked p (call p GlobalEnter s) in (i, call p GlobalExit s))"

definition wizchip_setnetmode :: "'w platform \<Rightarrow> u32 \<Rightarrow> (int, 'w, 'm) bus_op" where
  "wizchip_setnetmode p netmode s =
     (if netmode AND NOT NM_MASK \<noteq> 0 then (-1, s)
      else let (tmp, s) = getMR p s;
               tmp = tmp AND ucast (NOT NM_MASK);
               tmp = tmp OR ucast netmode
           in (0, setMR p tmp s))"

definition wizchip_getnetmode :: "'w platform \<Rightarrow> (u32, 'w, 'm) bus_op" where
  "wizchip_getnetmode p s = (let (mr, s) = getMR p s in (ucast mr, s))"

definition wizchip_settimeout_locked :: "'w platform \<Rightarrow> wiz_NetTimeout \<Rightarrow> ('w, 'm) sock_proc" where
  "wizchip_settimeout_locked p t s =
     (let cnt = (if retry_cnt t < WIZCHIP_RCR_MIN then WIZCHIP_RCR_MIN else retry_cnt t);
          tm = (if time_100us t < WIZCHIP_RTR_MIN then WIZCHIP_RTR_MIN else time_100us t);
          (_, s) = setRTR p tm s;
          s = setRCR p cnt s
      in wizchip_update_timeout_floor_locked tm cnt s)"

definition wizchip_settimeout :: "'w platform \<Rightarrow> wiz_NetTimeout \<Rightarrow> ('w, 'm) sock_proc" where
  "wizchip_settimeout p t s = call p GlobalExit (wizchip_settimeout_locked p t (call p GlobalEnter s))"

definition wizchip_gettimeout_locked :: "'w platform \<Rightarrow> (wiz_NetTimeout, 'w, 'm) bus_op" where
  "wizchip_gettimeout_locked p s =
     (let (cnt, s) = getRCR p s;
          (tm, s) = getRTR p s
      in (\<lparr>retry_cnt = cnt, time_100us = tm\<rparr>, s))"

definition wizchip_gettimeout :: "'w platform \<Rightarrow> (wiz_NetTimeout, 'w, 'm) bus_op" where
  "wizchip_gettimeout p s =
     (let (t, s) = wizchip_gettimeout_locked p (call p GlobalEnter s) in (t, call p GlobalExit s))"

definition wizchip_set_timeout_config ::
    "'w platform \<Rightarrow> wizchip_timeout_config option \<Rightarrow> (int, 'w, 'm) sock_op" where
  "wizchip_set_timeout_config p config s =
     (case config of
        None \<Rightarrow> (-1, s)
      | Some c \<Rightarrow>
          if command_timeout_us c = 0 \<or> operation_timeout_us c = 0 \<or> phy_timeout_us c = 0 then (-1, s)
          else let s = call p GlobalEnter s;
                   (rtr, s) = getRTR p s;
                   (rcr, s) = getRCR p s;
                   s = s\<lparr>timeout_config := c, requested_operation_timeout_us := operation_timeout_us c\<rparr>;
                   s = wizchip_update_timeout_floor_locked rtr rcr s
               in (0, call p GlobalExit s))"

definition wizchip_set_operation_timeout_us :: "'w platform \<Rightarrow> u32 \<Rightarrow> (int, 'w, 'm) sock_op" where
  "wizchip_set_operation_timeout_us p timeout s =
     (if timeout = 0 then (-1, s)
      else let s = call p GlobalEnter s;
               (rtr, s) = getRTR p s;
               (rcr, s) = getRCR p s;
               s = s\<lparr>requested_operation_timeout_us := timeout\<rparr>;
               s = wizchip_update_timeout_floor_locked rtr rcr s
           in (0, call p GlobalExit s))"

subsection \<open>The operations under the contracts of the chip\<close>

context bus_relation
begin

lemma R_version_poll:
  assumes "R s0 s" and "\<And>v s'. R s0 s' \<Longrightarrow> Q v s'"
  shows "wpt (version_poll p n s) Q"
  using assms(1)
proof (induction "limit_left WIZCHIP_POLL_MAX n" arbitrary: n s rule: less_induct)
  case less
  show ?case
    by (subst version_poll.simps) (auto intro!: wp transport_rel less assms(2) limit_left_step)
qed

lemma R_sw_reset_body:
  assumes "R s0 s" and "\<And>v s'. R s0 s' \<Longrightarrow> Q v s'"
  shows "wpt (sw_reset_body p s) Q"
  unfolding sw_reset_body_def
  by (auto intro!: wp transport_rel R_version_poll assms)

end

text \<open>
  Code that takes no lock: register traffic and assignments to the configuration, which
  leave the per-socket state and the port counter alone.
\<close>

definition conf_fields :: "('w, 'm) drv_scheme \<Rightarrow> ('w, 'm) drv_scheme \<Rightarrow> bool" where
  "conf_fields s s' \<longleftrightarrow> trace s' = trace s \<and> sock_any_port s' = sock_any_port s
     \<and> (\<forall>sn. sock_same sn s s')"

locale conf_relation = bus_relation p R
  for p :: "'w platform"
    and R :: "('w, 'm) drv_scheme \<Rightarrow> ('w, 'm) drv_scheme \<Rightarrow> bool" +
  assumes R_fields: "conf_fields s s' \<Longrightarrow> R s s'"
begin

lemma R_conf_field:
  assumes "R s0 s"
  shows "R s0 (s\<lparr>wizchip_previous_link := l\<rparr>)"
    and "R s0 (s\<lparr>wizchip_txmax_cache := tx, wizchip_rxmax_cache := rx\<rparr>)"
    and "R s0 (s\<lparr>DNS_server := dns, DHCP_mode := dhcp\<rparr>)"
    and "R s0 (s\<lparr>timeout_config := tc, configured_timeout_us := ct\<rparr>)"
    and "R s0 (wizchip_txmax_cache_update f s)" and "R s0 (wizchip_rxmax_cache_update f s)"
  by (rule R_trans [OF assms R_fields]; simp add: conf_fields_def sock_same_def)+

lemma R_refresh_caches:
  assumes "R s0 s" and "\<And>v s'. R s0 s' \<Longrightarrow> Q v s'"
  shows "wpt (refresh_caches p sns s) Q"
  using assms(1)
proof (induction sns arbitrary: s)
  case Nil
  then show ?case by (auto intro!: wp assms(2))
next
  case (Cons sn sns)
  show ?case
    by (auto intro!: wp transport_rel Cons assms(2) R_conf_field)
qed

lemma R_sw_reset_locked:
  assumes "R s0 s" and "\<And>v s'. R s0 s' \<Longrightarrow> Q v s'"
  shows "wpt (wizchip_sw_reset_locked p s) Q"
  unfolding wizchip_sw_reset_locked_def by (rule R_sw_reset_body) (auto intro: assms R_conf_field)

lemma R_program_sizes:
  assumes "R s0 s" and "\<And>v s'. R s0 s' \<Longrightarrow> Q v s'" and "\<And>f s. R s0 s \<Longrightarrow> R s0 (cu f s)"
  shows "wpt (program_sizes p reg cu tmp xs s) Q"
  using assms(1)
proof (induction xs arbitrary: s tmp)
  case Nil
  then show ?case by (auto intro!: wp assms(2))
next
  case (Cons x xs)
  show ?case
    by (auto intro!: wp transport_rel Cons assms(2,3))
qed

lemma R_init_sizes:
  assumes "R s0 s" and "\<And>v s'. R s0 s' \<Longrightarrow> Q v s'" and "\<And>f s. R s0 s \<Longrightarrow> R s0 (cu f s)"
  shows "wpt (init_sizes p reg cu sizes tmp s) Q"
  unfolding init_sizes_def by (auto intro!: wp assms R_program_sizes)

lemma R_init_identity:
  assumes "R s0 s" and "\<And>v s'. R s0 s' \<Longrightarrow> Q v s'"
  shows "wpt (init_identity p s) Q"
  unfolding init_identity_def
  by (auto intro!: wp R_read8 assms R_conf_field)

lemma R_init_locked:
  assumes "R s0 s" and "\<And>v s'. R s0 s' \<Longrightarrow> Q v s'"
  shows "wpt (wizchip_init_locked p tx rx s) Q"
  unfolding wizchip_init_locked_def
  by (auto intro!: wp R_sw_reset_locked R_init_sizes R_init_identity assms R_conf_field)

end

text \<open>
  \<open>A\<close> relates the states around a whole call: code under the global lock, code under every
  lock, or a link notification.
\<close>

definition conf_upd :: "('w, 'm) drv_scheme \<Rightarrow> ('w, 'm) drv_scheme \<Rightarrow> bool" where
  "conf_upd s s' \<longleftrightarrow> trace s' = trace s \<and> sock_any_port s' = sock_any_port s"

locale conf_api = poll_relation p R + conf_relation p R
  for p :: "'w platform"
    and R :: "('w, 'm) drv_scheme \<Rightarrow> ('w, 'm) drv_scheme \<Rightarrow> bool" +
  fixes A :: "('w, 'm) drv_scheme \<Rightarrow> ('w, 'm) drv_scheme \<Rightarrow> bool"
  assumes R_conf: "conf_upd s s' \<Longrightarrow> R s s'"
    and A_incl: "R s s' \<Longrightarrow> A s s'"
    and A_trans: "\<lbrakk>A a b; A b c\<rbrakk> \<Longrightarrow> A a c"
    and A_global: "R (call p GlobalEnter s) t \<Longrightarrow> A s (call p GlobalExit t)"
    and A_all: "R (wizchip_transaction_lock p s) t \<Longrightarrow> A s (wizchip_transaction_unlock p t)"
    and A_link: "A s (call p (PhyLink l) s)"
begin

lemma conf_upd_reset: "conf_upd s (wizchip_transaction_reset_socket_state s)"
proof -
  have "conf_upd s (fold (\<lambda>sn s. let s = wizchip_socket_state_reset_one sn s
      in s\<lparr>wizchip_txmax_cache := (wizchip_txmax_cache s)(sn := 0),
           wizchip_rxmax_cache := (wizchip_rxmax_cache s)(sn := 0)\<rparr>) sns s)" for sns
    by (induction sns arbitrary: s)
      (simp_all add: conf_upd_def wizchip_socket_state_reset_one_def sock_state_reset_def Let_def)
  then show ?thesis unfolding wizchip_transaction_reset_socket_state_def .
qed

lemma A_transaction:
  assumes "R (wizchip_transaction_lock p s) t" and "A s0 s"
  shows "wpt (wizchip_transaction_finish p r t) (\<lambda>_. A s0)"
proof -
  have a: "A s0 (wizchip_transaction_unlock p t)"
    using A_trans [OF assms(2) A_all [OF assms(1)]] .
  have u: "A s0 t'" if "conf_upd (wizchip_transaction_unlock p t) t'" for t'
    using A_trans [OF a A_incl [OF R_conf [OF that]]] .
  show ?thesis
    unfolding wizchip_transaction_finish_def
    by (auto intro!: wp u simp: conf_upd_def)
qed

lemma A_sw_reset:
  assumes "A s0 s"
  shows "wpt (wizchip_sw_reset p s) (\<lambda>_. A s0)"
proof -
  have i: "R t (wizchip_transaction_reset_socket_state (t\<lparr>chip_state := c, chip_last_error := e\<rparr>))" for t c e
    using conf_upd_reset [of "t\<lparr>chip_state := c, chip_last_error := e\<rparr>"] by (intro R_conf) (simp add: conf_upd_def)
  show ?thesis
    unfolding wizchip_sw_reset_def wizchip_refresh_socket_caches_def
    by (auto intro!: wp R_sw_reset_locked R_refresh_caches i A_transaction assms)
qed

lemma A_init:
  assumes "A s0 s"
  shows "wpt (wizchip_init p tx rx s) (\<lambda>_. A s0)"
proof -
  have i: "R t (wizchip_transaction_reset_socket_state (t\<lparr>chip_state := c, chip_last_error := e\<rparr>))" for t c e
    using conf_upd_reset [of "t\<lparr>chip_state := c, chip_last_error := e\<rparr>"] by (intro R_conf) (simp add: conf_upd_def)
  show ?thesis
    unfolding wizchip_init_def
    by (auto intro!: wp R_init_locked i A_transaction assms)
qed

lemma A_locked: "\<lbrakk>R (call p GlobalEnter s) t; A s0 s\<rbrakk> \<Longrightarrow> A s0 (call p GlobalExit t)"
  by (blast intro: A_trans A_global)

lemma R_clrinterrupt: "R s0 s \<Longrightarrow> R s0 (wizchip_clrinterrupt p intr s)"
  by (simp add: wizchip_clrinterrupt_def sock_nums_def Let_def reg_defs R_WRITE)

lemma R_setnetinfo: "R s0 s \<Longrightarrow> R s0 (wizchip_setnetinfo_locked p i s)"
  unfolding wizchip_setnetinfo_locked_def Let_def reg_defs by (intro R_conf_field R_WRITE_BUF)

lemma R_timeout_floor: "R s0 s \<Longrightarrow> R s0 (wizchip_update_timeout_floor_locked tm cnt s)"
  unfolding wizchip_update_timeout_floor_locked_def Let_def by (rule R_conf_field)

lemma R_settimeout: "R s0 s \<Longrightarrow> R s0 (wizchip_settimeout_locked p t s)"
  unfolding wizchip_settimeout_locked_def Let_def case_prod_unfold reg_defs
  by (intro R_timeout_floor R_WRITE) (rule R_write16 [unfolded wpt_def])

end

lemma transaction_lock_trace:
  "trace (wizchip_transaction_lock p s) = map SockEnter (rev sock_nums) @ GlobalEnter # trace s"
  "trace (wizchip_transaction_unlock p s) = GlobalExit # map SockExit sock_nums @ trace s"
  by (simp_all add: wizchip_transaction_lock_def wizchip_transaction_unlock_def sock_nums_def)

interpretation conf_lock: conf_api p locks_same "\<lambda>s s'. no_locks s \<longrightarrow> no_locks s'" for p
  by unfold_locales
    (auto simp: locks_same_def no_locks_def txn_def time_upd_wire conf_upd_def conf_fields_def transaction_lock_trace
      sock_nums_def)

interpretation conf_framing: conf_api p "\<lambda>s s'. bus_idle s \<longrightarrow> bus_idle s'"
  "\<lambda>s s'. bus_idle s \<longrightarrow> bus_idle s'" for p
  by unfold_locales
    (auto simp: bus_idle_def txn_def time_upd_wire conf_upd_def conf_fields_def transaction_lock_trace sock_nums_def)

interpretation conf_port: conf_api p "\<lambda>s s'. sock_any_port s' = sock_any_port s"
  "\<lambda>s s'. sock_any_port s' = sock_any_port s" for p
  by unfold_locales
    (auto simp: conf_upd_def conf_fields_def wizchip_transaction_lock_def wizchip_transaction_unlock_def sock_nums_def
      dest!: chip_frame.R_txn chip_frame.R_time chip_frame_conf)

text \<open>The per-socket state under configuration.\<close>

definition socks_same :: "('w, 'm) drv_scheme \<Rightarrow> ('w, 'm) drv_scheme \<Rightarrow> bool" where
  "socks_same s s' \<longleftrightarrow> (\<forall>sn. sock_same sn s s')"

interpretation conf_socks: conf_relation p socks_same for p
  by unfold_locales
    (auto simp: socks_same_def sock_same_def conf_fields_def dest!: chip_frame.R_txn chip_frame_conf)

lemmas conf_defs =
  wizchip_transaction_lock_def wizchip_transaction_unlock_def
  wizchip_transaction_reset_socket_state_def wizchip_transaction_finish_def
  wizchip_refresh_socket_caches_def sw_reset_body_def wizchip_sw_reset_locked_def
  wizchip_sw_reset_def buf_size_ok_def init_sizes_def init_identity_def
  wizchip_init_locked_def sizes_arg_valid_def wizchip_init_def wizchip_clrinterrupt_def
  wizchip_getinterrupt_def wizchip_setinterruptmask_locked_def wizchip_setinterruptmask_def
  wizchip_getinterruptmask_locked_def wizchip_getinterruptmask_def NM_MASK_def
  wizchip_setnetinfo_locked_def wizchip_setnetinfo_def wizchip_getnetinfo_locked_def
  wizchip_getnetinfo_def wizchip_setnetmode_def wizchip_getnetmode_def
  wizchip_settimeout_locked_def wizchip_settimeout_def wizchip_gettimeout_locked_def
  wizchip_gettimeout_def wizchip_set_timeout_config_def wizchip_set_operation_timeout_us_def version_poll.simps

end
