(* ===== verification/Phy.thy ===== *)
theory Phy
  imports ChipConf
begin

text \<open>
  The PHY half of \<open>Ethernet/wizchip_conf.c\<close> for the W5500 (configuration word, hardware
  reset with its bounded waits, power mode, link changes) and the dispatchers \<open>ctlwizchip\<close>
  and \<open>ctlnetwork\<close>. In a dispatcher the memory behind \<open>void *arg\<close> is a \<open>ctl_arg\<close>, the value a
  read at each used type gives; what it stores there is a \<open>ctl_val\<close>. \<open>None\<close> is the outcome of
  dereferencing a null pointer, which some requests do not check for.
\<close>

unbundle bit_operations_syntax

subsection \<open>Configuration word\<close>

definition PHYCFGR_RST :: u8 where [simp]: "PHYCFGR_RST = NOT (push_bit 7 1)"
definition PHYCFGR_OPMD :: u8 where [simp]: "PHYCFGR_OPMD = push_bit 6 1"
definition PHYCFGR_OPMDC_ALLA :: u8 where [simp]: "PHYCFGR_OPMDC_ALLA = push_bit 3 7"
definition PHYCFGR_OPMDC_PDOWN :: u8 where [simp]: "PHYCFGR_OPMDC_PDOWN = push_bit 3 6"
definition PHYCFGR_OPMDC_100FA :: u8 where [simp]: "PHYCFGR_OPMDC_100FA = push_bit 3 4"
definition PHYCFGR_OPMDC_100F :: u8 where [simp]: "PHYCFGR_OPMDC_100F = push_bit 3 3"
definition PHYCFGR_OPMDC_100H :: u8 where [simp]: "PHYCFGR_OPMDC_100H = push_bit 3 2"
definition PHYCFGR_OPMDC_10F :: u8 where [simp]: "PHYCFGR_OPMDC_10F = push_bit 3 1"
definition PHYCFGR_OPMDC_10H :: u8 where [simp]: "PHYCFGR_OPMDC_10H = push_bit 3 0"
definition PHYCFGR_DPX_FULL :: u8 where [simp]: "PHYCFGR_DPX_FULL = push_bit 2 1"
definition PHYCFGR_SPD_100 :: u8 where [simp]: "PHYCFGR_SPD_100 = push_bit 1 1"
definition PHYCFGR_LNK_ON :: u8 where [simp]: "PHYCFGR_LNK_ON = push_bit 0 1"

definition PHY_CONFBY_HW :: u8 where [simp]: "PHY_CONFBY_HW = 0"
definition PHY_CONFBY_SW :: u8 where [simp]: "PHY_CONFBY_SW = 1"
definition PHY_MODE_MANUAL :: u8 where [simp]: "PHY_MODE_MANUAL = 0"
definition PHY_MODE_AUTONEGO :: u8 where [simp]: "PHY_MODE_AUTONEGO = 1"
definition PHY_SPEED_10 :: u8 where [simp]: "PHY_SPEED_10 = 0"
definition PHY_SPEED_100 :: u8 where [simp]: "PHY_SPEED_100 = 1"
definition PHY_DUPLEX_HALF :: u8 where [simp]: "PHY_DUPLEX_HALF = 0"
definition PHY_DUPLEX_FULL :: u8 where [simp]: "PHY_DUPLEX_FULL = 1"
definition PHY_LINK_OFF :: int where [simp]: "PHY_LINK_OFF = 0"
definition PHY_LINK_ON :: int where [simp]: "PHY_LINK_ON = 1"
definition PHY_POWER_NORM :: u8 where [simp]: "PHY_POWER_NORM = 0"
definition PHY_POWER_DOWN :: u8 where [simp]: "PHY_POWER_DOWN = 1"

definition WIZPHY_RESET_HOLD_US :: u64 where "WIZPHY_RESET_HOLD_US = 200"
definition WIZPHY_RST_BIT :: u8 where "WIZPHY_RST_BIT = NOT PHYCFGR_RST"
definition WIZPHY_RESET_MASK :: u8 where
  "WIZPHY_RESET_MASK = WIZPHY_RST_BIT OR PHYCFGR_OPMD OR PHYCFGR_OPMDC_ALLA"
definition WIZPHY_DEADLINE_ERROR :: int where [simp]: "WIZPHY_DEADLINE_ERROR = -16"

record wiz_PhyConf =
  phy_by :: u8
  phy_mode :: u8
  phy_speed :: u8
  phy_duplex :: u8

text \<open>The word \<open>wizphy_setphyconf\<close> makes of the register and the structure, and its reading.\<close>

definition phyconf_word :: "wiz_PhyConf \<Rightarrow> u8 \<Rightarrow> u8" where
  "phyconf_word c tmp =
     (let tmp = tmp AND NOT (PHYCFGR_OPMD OR PHYCFGR_OPMDC_ALLA);
          tmp = (if phy_by c = PHY_CONFBY_SW then tmp OR PHYCFGR_OPMD else tmp) in
      if phy_mode c = PHY_MODE_AUTONEGO then tmp OR PHYCFGR_OPMDC_ALLA
      else if phy_duplex c = PHY_DUPLEX_FULL then
        if phy_speed c = PHY_SPEED_100 then tmp OR PHYCFGR_OPMDC_100F else tmp OR PHYCFGR_OPMDC_10F
      else if phy_speed c = PHY_SPEED_100 then tmp OR PHYCFGR_OPMDC_100H else tmp OR PHYCFGR_OPMDC_10H)"

definition word_phyconf :: "u8 \<Rightarrow> wiz_PhyConf" where
  "word_phyconf tmp =
     (let m = tmp AND PHYCFGR_OPMDC_ALLA in
      \<lparr>phy_by = (if tmp AND PHYCFGR_OPMD \<noteq> 0 then PHY_CONFBY_SW else PHY_CONFBY_HW),
       phy_mode = (if m = PHYCFGR_OPMDC_ALLA \<or> m = PHYCFGR_OPMDC_100FA then PHY_MODE_AUTONEGO
         else PHY_MODE_MANUAL),
       phy_speed = (if m = PHYCFGR_OPMDC_100FA \<or> m = PHYCFGR_OPMDC_100F \<or> m = PHYCFGR_OPMDC_100H
         then PHY_SPEED_100 else PHY_SPEED_10),
       phy_duplex = (if m = PHYCFGR_OPMDC_100FA \<or> m = PHYCFGR_OPMDC_100F \<or> m = PHYCFGR_OPMDC_10F
         then PHY_DUPLEX_FULL else PHY_DUPLEX_HALF)\<rparr>)"

subsection \<open>Waits\<close>

text \<open>The loop of \<open>wizphy_wait_until\<close>, with the local \<open>polls\<close>.\<close>

function phy_hold :: "'w platform \<Rightarrow> u64 \<Rightarrow> u32 \<Rightarrow> (int, 'w, 'm) time_op" where
  "phy_hold p deadline n s =
     (let (expired, s) = wizchip_deadline_expired deadline s in
      if expired then (0, s)
      else if \<not> wait_us s \<and> \<not> wait_hook s then (WIZPHY_DEADLINE_ERROR, s)
      else let s = (if wait_us s then call p (WaitUs 1) s else call p WaitHook s) in
      if n + 1 < WIZCHIP_POLL_MAX then phy_hold p deadline (n + 1) s
      else (WIZPHY_DEADLINE_ERROR, s))"
  by pat_completeness auto
termination
  by (relation "measure (\<lambda>(p, d, n, s). limit_left WIZCHIP_POLL_MAX n)") (simp_all add: limit_left_step)

declare phy_hold.simps [simp del]

definition wizphy_wait_until :: "'w platform \<Rightarrow> u64 \<Rightarrow> u64 \<Rightarrow> (int, 'w, 'm) time_op" where
  "wizphy_wait_until p deadline delay s =
     (if now_us s = None then
        if \<not> wait_us s then (WIZPHY_DEADLINE_ERROR, s) else (0, call p (WaitUs delay) s)
      else phy_hold p deadline 0 s)"

text \<open>The loop of \<open>wizphy_wait_readback\<close>: the clock is asked only when it is registered.\<close>

function phy_readback ::
    "'w platform \<Rightarrow> u8 \<Rightarrow> u64 \<Rightarrow> u32 \<Rightarrow> u32 \<Rightarrow> (int, 'w, 'm) time_op" where
  "phy_readback p expected deadline poll_limit n s =
     (let (v, s) = getPHYCFGR p s in
      if v AND WIZPHY_RESET_MASK = expected AND WIZPHY_RESET_MASK then (0, s)
      else if \<not> wait_us s \<and> \<not> wait_hook s then (WIZPHY_DEADLINE_ERROR, s)
      else let s = (if wait_us s then call p (WaitUs 1) s else call p WaitHook s) in
      if n + 1 < poll_limit then
        let (again, s) = (if now_us s = None then (True, s)
              else let (e, s) = wizchip_deadline_expired deadline s in (\<not> e, s)) in
        if again then phy_readback p expected deadline poll_limit (n + 1) s
        else (WIZPHY_DEADLINE_ERROR, s)
      else (WIZPHY_DEADLINE_ERROR, s))"
  by pat_completeness auto
termination
  by (relation "measure (\<lambda>(p, e, d, l, n, s). limit_left l n)") (simp_all add: limit_left_step)

declare phy_readback.simps [simp del]

definition wizphy_wait_readback :: "'w platform \<Rightarrow> u8 \<Rightarrow> (int, 'w, 'm) time_op" where
  "wizphy_wait_readback p expected s =
     (let (deadline, s) = wizchip_deadline_abs (ucast (phy_timeout_us (timeout_config s))) s;
          poll_limit = (if now_us s = None \<and> wait_us s \<and> phy_timeout_us (timeout_config s) < WIZCHIP_POLL_MAX
                        then phy_timeout_us (timeout_config s) else WIZCHIP_POLL_MAX)
      in phy_readback p expected deadline poll_limit 0 s)"

subsection \<open>PHY operations\<close>

definition wizphy_reset_locked :: "'w platform \<Rightarrow> u8 \<Rightarrow> (int, 'w, 'm) time_op" where
  "wizphy_reset_locked p configured s =
     (let reset_low = configured AND NOT WIZPHY_RST_BIT;
          reset_high = configured OR WIZPHY_RST_BIT;
          s = setPHYCFGR p reset_low s;
          (r, s) = wizphy_wait_readback p reset_low s in
      if r \<noteq> 0 then (WIZPHY_DEADLINE_ERROR, s)
      else let (hold, s) = wizchip_deadline_abs WIZPHY_RESET_HOLD_US s;
               (r, s) = wizphy_wait_until p hold WIZPHY_RESET_HOLD_US s in
      if r \<noteq> 0 then (WIZPHY_DEADLINE_ERROR, s)
      else let s = setPHYCFGR p reset_high s in wizphy_wait_readback p reset_high s)"

definition wizphy_reset :: "'w platform \<Rightarrow> (int, 'w, 'm) time_op" where
  "wizphy_reset p s =
     (let s = call p GlobalEnter s;
          (configured, s) = getPHYCFGR p s;
          (ret, s) = wizphy_reset_locked p configured s
      in (ret, call p GlobalExit s))"

definition phyconf_valid :: "wiz_PhyConf \<Rightarrow> bool" where
  "phyconf_valid c \<longleftrightarrow> \<not> (phy_by c > PHY_CONFBY_SW \<or> phy_mode c > PHY_MODE_AUTONEGO
     \<or> phy_speed c > PHY_SPEED_100 \<or> phy_duplex c > PHY_DUPLEX_FULL)"

definition wizphy_setphyconf :: "'w platform \<Rightarrow> wiz_PhyConf option \<Rightarrow> (int, 'w, 'm) time_op" where
  "wizphy_setphyconf p phyconf s =
     (case phyconf of
        None \<Rightarrow> (-1, s)
      | Some c \<Rightarrow>
          if \<not> phyconf_valid c then (-1, s)
          else let s = call p GlobalEnter s;
                   (tmp, s) = getPHYCFGR p s;
                   tmp = phyconf_word c tmp;
                   s = setPHYCFGR p tmp s;
                   (ret, s) = wizphy_reset_locked p tmp s
               in (ret, call p GlobalExit s))"

definition wizphy_getphyconf :: "'w platform \<Rightarrow> bool \<Rightarrow> (int \<times> wiz_PhyConf option, 'w, 'm) bus_op" where
  "wizphy_getphyconf p phyconf s =
     (if \<not> phyconf then ((-1, None), s)
      else let s = call p GlobalEnter s;
               (tmp, s) = getPHYCFGR p s;
               s = call p GlobalExit s
           in ((0, Some (word_phyconf tmp)), s))"

text \<open>Only speed and duplex of the structure are written.\<close>

definition wizphy_getphystat ::
    "'w platform \<Rightarrow> wiz_PhyConf option \<Rightarrow> (int \<times> wiz_PhyConf option, 'w, 'm) bus_op" where
  "wizphy_getphystat p phyconf s =
     (case phyconf of
        None \<Rightarrow> ((-1, None), s)
      | Some c \<Rightarrow>
          let s = call p GlobalEnter s;
              (tmp, s) = getPHYCFGR p s;
              s = call p GlobalExit s
          in ((if tmp AND PHYCFGR_LNK_ON \<noteq> 0 then PHY_LINK_ON else PHY_LINK_OFF,
               Some (c\<lparr>phy_duplex := (if tmp AND PHYCFGR_DPX_FULL \<noteq> 0 then PHY_DUPLEX_FULL else PHY_DUPLEX_HALF),
                      phy_speed := (if tmp AND PHYCFGR_SPD_100 \<noteq> 0 then PHY_SPEED_100 else PHY_SPEED_10)\<rparr>)), s))"

definition wizphy_setphypmode :: "'w platform \<Rightarrow> u8 \<Rightarrow> (int, 'w, 'm) time_op" where
  "wizphy_setphypmode p pmode s =
     (if pmode \<noteq> PHY_POWER_NORM \<and> pmode \<noteq> PHY_POWER_DOWN then (-1, s)
      else let s = call p GlobalEnter s;
               (tmp, s) = getPHYCFGR p s in
      if tmp AND PHYCFGR_OPMD = 0 then (-1, call p GlobalExit s)
      else let tmp = tmp AND NOT PHYCFGR_OPMDC_ALLA;
               tmp = (if pmode = PHY_POWER_DOWN then tmp OR PHYCFGR_OPMDC_PDOWN else tmp OR PHYCFGR_OPMDC_ALLA);
               s = setPHYCFGR p tmp s;
               (ret, s) = wizphy_reset_locked p tmp s
           in (ret, call p GlobalExit s))"

definition wizphy_getphypmode :: "'w platform \<Rightarrow> (u8, 'w, 'm) bus_op" where
  "wizphy_getphypmode p s =
     (let (v, s) = getPHYCFGR p s
      in (if v AND PHYCFGR_OPMDC_ALLA = PHYCFGR_OPMDC_PDOWN then PHY_POWER_DOWN else PHY_POWER_NORM, s))"

definition wizphy_getphylink :: "'w platform \<Rightarrow> (int, 'w, 'm) conf_op" where
  "wizphy_getphylink p s =
     (let (v, s) = getPHYCFGR p s;
          tmp = (if v AND PHYCFGR_LNK_ON \<noteq> 0 then PHY_LINK_ON else PHY_LINK_OFF) in
      if tmp \<noteq> wizchip_previous_link s
      then (tmp, call p (PhyLink (word_of_int tmp)) (s\<lparr>wizchip_previous_link := tmp\<rparr>))
      else (tmp, s))"

definition wizphy_powerdown :: "'w platform \<Rightarrow> (int, 'w, 'm) bus_op" where
  "wizphy_powerdown p s =
     (let s = setPHYCFGR p PHYCFGR_OPMDC_PDOWN s
      in (0, setPHYCFGR p (PHYCFGR_OPMDC_PDOWN OR PHYCFGR_OPMD) s))"

definition wizphy_powerup :: "'w platform \<Rightarrow> (int, 'w, 'm) bus_op" where
  "wizphy_powerup p s =
     (let s = setPHYCFGR p PHYCFGR_OPMDC_ALLA s
      in (0, setPHYCFGR p (PHYCFGR_OPMDC_ALLA OR PHYCFGR_OPMD) s))"

definition wiznet_wol_enable :: "'w platform \<Rightarrow> u8 \<Rightarrow> ('w, 'm) bus_proc" where
  "wiznet_wol_enable p sn s = (let (mr, s) = getMR p s in setMR p (mr OR MR_WOL) s)"

definition wiznet_wol_disable :: "'w platform \<Rightarrow> ('w, 'm) bus_proc" where
  "wiznet_wol_disable p s = (let (mr, s) = getMR p s in setMR p (mr AND NOT MR_WOL) s)"

subsection \<open>Dispatchers\<close>

datatype ctlwizchip_type =
    CW_SYS_LOCK | CW_SYS_UNLOCK | CW_GET_SYSLOCK | CW_RESET_WIZCHIP | CW_INIT_WIZCHIP
  | CW_GET_INTERRUPT | CW_CLR_INTERRUPT | CW_SET_INTRMASK | CW_GET_INTRMASK | CW_SET_INTRTIME
  | CW_GET_INTRTIME | CW_SET_IEN | CW_GET_IEN | CW_GET_ID | CW_GET_VER | CW_SET_SYSCLK
  | CW_GET_SYSCLK | CW_RESET_PHY | CW_SET_PHYCONF | CW_GET_PHYCONF | CW_GET_PHYSTATUS
  | CW_SET_PHYPOWMODE | CW_GET_PHYPOWMODE | CW_GET_PHYLINK

datatype ctlnetwork_type =
    CN_SET_NETINFO | CN_GET_NETINFO | CN_SET_NETMODE | CN_GET_NETMODE | CN_SET_TIMEOUT
  | CN_GET_TIMEOUT

record ctl_arg =
  ctl_bytes :: "u8 list"
  ctl_u16 :: u16
  ctl_intr :: u32
  ctl_phy :: wiz_PhyConf
  ctl_net :: wiz_NetInfo
  ctl_time :: wiz_NetTimeout

datatype ctl_val =
    CtlU8 u8 | CtlU16 u16 | CtlU32 u32 | CtlBytes "u8 list" | CtlPhy wiz_PhyConf
  | CtlNet wiz_NetInfo | CtlTime wiz_NetTimeout

definition WIZCHIP_ID :: "u8 list" where
  "WIZCHIP_ID = [0x57, 0x35, 0x35, 0x30, 0x30, 0x00]"

definition ctlwizchip ::
    "'w platform \<Rightarrow> ctlwizchip_type \<Rightarrow> ctl_arg option \<Rightarrow> (int \<times> ctl_val option, 'w, 'm) sock_wait" where
  "ctlwizchip p cwtype arg s =
     (case cwtype of
        CW_RESET_WIZCHIP \<Rightarrow> let (ret, s) = wizchip_sw_reset p s in Some ((ret, None), s)
      | CW_INIT_WIZCHIP \<Rightarrow>
          let (tx, rx) = (case arg of None \<Rightarrow> (None, None)
                | Some a \<Rightarrow> (Some (take 8 (ctl_bytes a)), Some (drop 8 (ctl_bytes a))));
              (ret, s) = wizchip_init p tx rx s
          in Some ((ret, None), s)
      | CW_CLR_INTERRUPT \<Rightarrow>
         (case arg of None \<Rightarrow> Some ((-1, None), s)
          | Some a \<Rightarrow> Some ((0, None),
              call p GlobalExit (wizchip_clrinterrupt p (ctl_intr a) (call p GlobalEnter s))))
      | CW_GET_INTERRUPT \<Rightarrow>
         (case arg of None \<Rightarrow> Some ((-1, None), s)
          | Some a \<Rightarrow> let (v, s) = wizchip_getinterrupt p (call p GlobalEnter s)
                      in Some ((0, Some (CtlU32 v)), call p GlobalExit s))
      | CW_SET_INTRMASK \<Rightarrow>
         (case arg of None \<Rightarrow> Some ((-1, None), s)
          | Some a \<Rightarrow> Some ((0, None),
              call p GlobalExit (wizchip_setinterruptmask_locked p (ctl_intr a) (call p GlobalEnter s))))
      | CW_GET_INTRMASK \<Rightarrow>
         (case arg of None \<Rightarrow> Some ((-1, None), s)
          | Some a \<Rightarrow> let (v, s) = wizchip_getinterruptmask_locked p (call p GlobalEnter s)
                      in Some ((0, Some (CtlU32 v)), call p GlobalExit s))
      | CW_SET_INTRTIME \<Rightarrow>
         (case arg of None \<Rightarrow> None
          | Some a \<Rightarrow> let (_, s) = setINTLEVEL p (ctl_u16 a) s in Some ((0, None), s))
      | CW_GET_INTRTIME \<Rightarrow>
         (case arg of None \<Rightarrow> None
          | Some a \<Rightarrow> let (v, s) = getINTLEVEL p s in Some ((0, Some (CtlU16 v)), s))
      | CW_GET_ID \<Rightarrow>
         (case arg of None \<Rightarrow> None | Some a \<Rightarrow> Some ((0, Some (CtlBytes (WIZCHIP_ID @ [0]))), s))
      | CW_RESET_PHY \<Rightarrow> let (ret, s) = wizphy_reset p s in Some ((ret, None), s)
      | CW_SET_PHYCONF \<Rightarrow>
          let (ret, s) = wizphy_setphyconf p (map_option ctl_phy arg) s in Some ((ret, None), s)
      | CW_GET_PHYCONF \<Rightarrow>
          let ((ret, c), s) = wizphy_getphyconf p (arg \<noteq> None) s in Some ((ret, map_option CtlPhy c), s)
      | CW_GET_PHYSTATUS \<Rightarrow>
          let ((ret, c), s) = wizphy_getphystat p (map_option ctl_phy arg) s
          in Some ((ret, map_option CtlPhy c), s)
      | CW_SET_PHYPOWMODE \<Rightarrow>
         (case arg of None \<Rightarrow> Some ((-1, None), s)
          | Some a \<Rightarrow> let (ret, s) = wizphy_setphypmode p (ctl_bytes a ! 0) s in Some ((ret, None), s))
      | CW_GET_PHYPOWMODE \<Rightarrow>
         (case arg of None \<Rightarrow> Some ((-1, None), s)
          | Some a \<Rightarrow> let (v, s) = wizphy_getphypmode p s in Some ((0, Some (CtlU8 v)), s))
      | CW_GET_PHYLINK \<Rightarrow>
         (case arg of None \<Rightarrow> Some ((-1, None), s)
          | Some a \<Rightarrow> let (v, s) = wizphy_getphylink p s in Some ((0, Some (CtlU8 (word_of_int v))), s))
      | _ \<Rightarrow> Some ((-1, None), s))"

definition ctlnetwork ::
    "'w platform \<Rightarrow> ctlnetwork_type \<Rightarrow> ctl_arg option \<Rightarrow> (int \<times> ctl_val option, 'w, 'm) sock_wait" where
  "ctlnetwork p cntype arg s =
     (case arg of
        None \<Rightarrow> None
      | Some a \<Rightarrow>
         (case cntype of
            CN_SET_NETINFO \<Rightarrow> Some ((0, None),
              call p GlobalExit (wizchip_setnetinfo_locked p (ctl_net a) (call p GlobalEnter s)))
          | CN_GET_NETINFO \<Rightarrow>
              let (i, s) = wizchip_getnetinfo_locked p (call p GlobalEnter s)
              in Some ((0, Some (CtlNet i)), call p GlobalExit s)
          | CN_SET_NETMODE \<Rightarrow> let (ret, s) = wizchip_setnetmode p (ctl_intr a) s in Some ((ret, None), s)
          | CN_GET_NETMODE \<Rightarrow> let (v, s) = wizchip_getnetmode p s in Some ((0, Some (CtlU32 v)), s)
          | CN_SET_TIMEOUT \<Rightarrow> Some ((0, None),
              call p GlobalExit (wizchip_settimeout_locked p (ctl_time a) (call p GlobalEnter s)))
          | CN_GET_TIMEOUT \<Rightarrow>
              let (t, s) = wizchip_gettimeout_locked p (call p GlobalEnter s)
              in Some ((0, Some (CtlTime t)), call p GlobalExit s)))"

subsection \<open>The operations under the contracts of the chip\<close>

context conf_api
begin

lemma R_wait_call: "R s0 s \<Longrightarrow> R s0 (call p (WaitUs n) s)" "R s0 s \<Longrightarrow> R s0 (call p WaitHook s)"
  by (rule R_time_step, simp, simp add: call_def time_upd_event time_event_def)+

lemma R_pause: "R s0 s \<Longrightarrow> R s0 (if wait_us s then call p (WaitUs 1) s else call p WaitHook s)"
  by (simp add: R_wait_call)

lemma R_phy_hold:
  assumes "R s0 s" and "\<And>v s'. R s0 s' \<Longrightarrow> Q v s'"
  shows "wpt (phy_hold p d n s) Q"
  using assms(1)
proof (induction "limit_left WIZCHIP_POLL_MAX n" arbitrary: n s rule: less_induct)
  case less
  show ?case
    by (subst phy_hold.simps)
      (auto intro!: wp R_deadline_expired less assms(2) limit_left_step R_pause)
qed

lemma R_wait_until:
  assumes "R s0 s" and "\<And>v s'. R s0 s' \<Longrightarrow> Q v s'"
  shows "wpt (wizphy_wait_until p d n s) Q"
  unfolding wizphy_wait_until_def by (auto intro!: wp R_phy_hold R_wait_call assms)

lemma R_phy_readback:
  assumes "R s0 s" and Q: "\<And>v s'. R s0 s' \<Longrightarrow> Q v s'"
  shows "wpt (phy_readback p e d l n s) Q"
  using assms(1)
proof (induction "limit_left l n" arbitrary: n s rule: less_induct)
  case less
  show ?case
    by (subst phy_readback.simps)
      (auto simp: reg_defs intro!: wp R_READ R_deadline_expired less Q limit_left_step R_pause)
qed

lemma R_wait_readback:
  assumes "R s0 s" and "\<And>v s'. R s0 s' \<Longrightarrow> Q v s'"
  shows "wpt (wizphy_wait_readback p e s) Q"
  unfolding wizphy_wait_readback_def by (auto intro!: wp R_phy_readback R_deadline_abs assms)

lemma R_phy_reset:
  assumes "R s0 s" and "\<And>v s'. R s0 s' \<Longrightarrow> Q v s'"
  shows "wpt (wizphy_reset_locked p c s) Q"
  unfolding wizphy_reset_locked_def reg_defs
  by (auto intro!: wp R_wait_readback R_wait_until R_WRITE R_deadline_abs assms)

lemma A_return: "A s0 s \<Longrightarrow> wpt (v, s) (\<lambda>_. A s0)"
  by (rule wpt_pair)

lemma A_read: "\<lbrakk>wpt m (\<lambda>_. R s); A s0 s; \<And>v s'. A s0 s' \<Longrightarrow> Q v s'\<rbrakk> \<Longrightarrow> wpt m Q"
  unfolding wpt_def by (blast intro: A_trans A_incl)

lemma A_phy:
  assumes "A s0 s"
  shows "wpt (wizphy_reset p s) (\<lambda>_. A s0)"
    and "wpt (wizphy_setphyconf p c s) (\<lambda>_. A s0)"
    and "wpt (wizphy_getphyconf p b s) (\<lambda>_. A s0)"
    and "wpt (wizphy_getphystat p c s) (\<lambda>_. A s0)"
    and "wpt (wizphy_setphypmode p m s) (\<lambda>_. A s0)"
  unfolding wizphy_reset_def wizphy_setphyconf_def wizphy_getphyconf_def wizphy_getphystat_def
    wizphy_setphypmode_def reg_defs
  by (auto intro!: wp R_READ R_phy_reset R_WRITE assms A_locked [OF _ assms] R_refl)

lemma A_getphylink:
  assumes "A s0 s"
  shows "wpt (wizphy_getphylink p s) (\<lambda>_. A s0)"
proof -
  have "A s0 (call p (PhyLink l) t)" if "R s t" for l t
    using assms that by (blast intro: A_trans A_incl A_link)
  then show ?thesis
    unfolding wizphy_getphylink_def reg_defs
    by (auto intro!: wp R_READ R_conf_field R_refl intro: A_trans [OF assms A_incl])
qed

lemma R_chip_reads:
  assumes "R s0 s"
  shows "(\<And>v s'. R s0 s' \<Longrightarrow> Q v s') \<Longrightarrow> wpt (wizchip_getinterrupt p s) Q"
    and "(\<And>v s'. R s0 s' \<Longrightarrow> Q1 v s') \<Longrightarrow> wpt (wizchip_getinterruptmask_locked p s) Q1"
    and "(\<And>v s'. R s0 s' \<Longrightarrow> Q2 v s') \<Longrightarrow> wpt (wizchip_getnetinfo_locked p s) Q2"
    and "(\<And>v s'. R s0 s' \<Longrightarrow> Q3 v s') \<Longrightarrow> wpt (wizchip_gettimeout_locked p s) Q3"
    and "(\<And>v s'. R s0 s' \<Longrightarrow> Q4 v s') \<Longrightarrow> wpt (wizchip_setnetmode p m s) Q4"
    and "(\<And>v s'. R s0 s' \<Longrightarrow> Q5 v s') \<Longrightarrow> wpt (wizchip_getnetmode p s) Q5"
    and "(\<And>v s'. R s0 s' \<Longrightarrow> Q6 v s') \<Longrightarrow> wpt (wizphy_getphypmode p s) Q6"
    and "(\<And>v s'. R s0 s' \<Longrightarrow> Q7 v s') \<Longrightarrow> wpt (setINTLEVEL p w s) Q7"
    and "(\<And>v s'. R s0 s' \<Longrightarrow> Q8 v s') \<Longrightarrow> wpt (getINTLEVEL p s) Q8"
  unfolding wizchip_getinterrupt_def wizchip_getinterruptmask_locked_def wizchip_getnetinfo_locked_def
    wizchip_gettimeout_locked_def wizchip_setnetmode_def wizchip_getnetmode_def wizphy_getphypmode_def
    reg_defs
  using assms by (auto intro!: wp register_rel)

lemmas A_ctl = A_sw_reset [THEN wpt_mono] A_init [THEN wpt_mono] A_phy [THEN wpt_mono]
  A_getphylink [THEN wpt_mono] R_chip_reads

lemma R_setmask: "R s0 s \<Longrightarrow> R s0 (wizchip_setinterruptmask_locked p intr s)"
  by (simp add: wizchip_setinterruptmask_locked_def Let_def reg_defs R_WRITE)

lemma A_ctlwizchip:
  assumes "A s0 s"
  shows "wpo (ctlwizchip p cw arg s) (\<lambda>_. A s0)"
  unfolding ctlwizchip_def
  by (cases cw) (auto intro!: wp A_ctl
      A_locked [OF _ assms] R_refl assms R_clrinterrupt R_setmask intro: A_trans [OF assms A_incl])

lemma A_ctlnetwork:
  assumes "A s0 s"
  shows "wpo (ctlnetwork p cn arg s) (\<lambda>_. A s0)"
  unfolding ctlnetwork_def
  by (cases cn) (auto intro!: wp R_chip_reads
      A_locked [OF _ assms] R_refl assms R_setnetinfo R_settimeout intro: A_trans [OF assms A_incl])

end

end
