(* ===== verification/ConfProps.thy ===== *)
theory ConfProps
  imports Phy SockFun Scripted
begin

text \<open>
  The properties of chip configuration: reset and initialisation, PHY control, network mode.
  Each is followed by its witness on the scripted platform.
\<close>

unbundle bit_operations_syntax

subsection \<open>Preparation\<close>

definition all_reset :: "('w, 'm) drv_scheme \<Rightarrow> bool" where
  "all_reset s \<longleftrightarrow> (\<forall>sn < 8. sock_reset_to SOCK_HEALTHY sn s)"

lemma all_reset_socks_same: "\<lbrakk>all_reset s; socks_same s s'\<rbrakk> \<Longrightarrow> all_reset s'"
  by (simp add: all_reset_def socks_same_def sock_reset_to_def sock_same_def)

text \<open>A socket whose record and size caches are cleared.\<close>

definition cleared :: "u8 \<Rightarrow> ('w, 'm) drv_scheme \<Rightarrow> bool" where
  "cleared sn s \<longleftrightarrow> sock_reset_to SOCK_HEALTHY sn s
     \<and> wizchip_txmax_cache s sn = 0 \<and> wizchip_rxmax_cache s sn = 0"

lemma reset_one_reset:
  "sn < 8 \<Longrightarrow> sock_reset_to SOCK_HEALTHY sn (wizchip_socket_state_reset_one sn s)"
  "sock_reset_to SOCK_HEALTHY sn s \<Longrightarrow> sock_reset_to SOCK_HEALTHY sn (wizchip_socket_state_reset_one m s)"
  by (simp_all add: wizchip_socket_state_reset_one_def sock_reset_to_def sock_state_reset_def
      WIZCHIP_SOCK_NUM_def)

lemma reset_one_caches:
  "wizchip_txmax_cache (wizchip_socket_state_reset_one m s) = wizchip_txmax_cache s"
  "wizchip_rxmax_cache (wizchip_socket_state_reset_one m s) = wizchip_rxmax_cache s"
  by (simp_all add: wizchip_socket_state_reset_one_def sock_state_reset_def)

lemma sock_reset_to_caches [simp]:
  "sock_reset_to h sn (s\<lparr>wizchip_txmax_cache := tx, wizchip_rxmax_cache := rx\<rparr>) = sock_reset_to h sn s"
  by (simp add: sock_reset_to_def)

lemma cleared_transaction:
  assumes "sn < 8"
  shows "cleared sn (wizchip_transaction_reset_socket_state s)"
  unfolding wizchip_transaction_reset_socket_state_def
proof (rule fold_reaches [where x = sn])
  show "sn \<in> set sock_nums \<or> cleared sn s"
    using sock_num_cases [OF assms] by (auto simp: sock_nums_def)
qed (simp_all add: cleared_def reset_one_caches reset_one_reset assms Let_def)

lemma all_reset_transaction: "all_reset (wizchip_transaction_reset_socket_state s)"
  using cleared_transaction unfolding all_reset_def cleared_def by blast

lemma unlock_simps [simp]:
  "chip_last_error (wizchip_transaction_unlock p s) = chip_last_error s"
  "wizchip_txmax_cache (wizchip_transaction_unlock p s) = wizchip_txmax_cache s"
  "wizchip_rxmax_cache (wizchip_transaction_unlock p s) = wizchip_rxmax_cache s"
  "all_reset (wizchip_transaction_unlock p s) = all_reset s"
  by (simp_all add: wizchip_transaction_unlock_def sock_nums_def all_reset_def sock_reset_to_def)

lemma all_reset_chip [simp]:
  "all_reset (s\<lparr>chip_state := c\<rparr>) = all_reset s" "all_reset (s\<lparr>chip_last_error := e\<rparr>) = all_reset s"
  by (simp_all add: all_reset_def sock_reset_to_def)

text \<open>The state a transaction ends in, for each outcome.\<close>

definition transaction_done :: "int \<Rightarrow> ('w, 'm) drv_scheme \<Rightarrow> bool" where
  "transaction_done r s \<longleftrightarrow> all_reset s
     \<and> (if r = 0 then chip_state s = WIZCHIP_STATE_READY \<and> chip_last_error s = 0
        else chip_state s = WIZCHIP_STATE_FAULTED \<and> chip_last_error s \<noteq> 0)"

lemma transaction_finish_done:
  assumes "all_reset s"
  shows "wpt (wizchip_transaction_finish p r s) (\<lambda>r' s'. r' = r \<and> transaction_done r s'
     \<and> wizchip_txmax_cache s' = wizchip_txmax_cache s \<and> wizchip_rxmax_cache s' = wizchip_rxmax_cache s)"
  unfolding wizchip_transaction_finish_def
  using assms by (auto intro!: wp simp: transaction_done_def Let_def wpt_def)

text \<open>The configuration code on the scripted platform.\<close>

lemma scr_reset [simp]:
  "scr w (wizchip_transaction_reset_socket_state s) = scr w s"
  unfolding wizchip_transaction_reset_socket_state_def
  by (rule fold_keeps) (simp add: Let_def wizchip_socket_state_reset_one_def sock_state_reset_def scr_def)

lemma scr_fields [simp]:
  "scr w (s\<lparr>chip_state := c\<rparr>) = scr w s" "scr w (s\<lparr>chip_last_error := e\<rparr>) = scr w s"
  "scr w (s\<lparr>wizchip_previous_link := l\<rparr>) = scr w s"
  "scr w (s\<lparr>wizchip_txmax_cache := tx, wizchip_rxmax_cache := rx\<rparr>) = scr w s"
  by (simp_all add: scr_def)

lemma scr_lock [simp]: "scr w (wizchip_transaction_lock scripted s) = scr w s"
  by (simp add: wizchip_transaction_lock_def sock_nums_def)

lemma scr_sw_reset_body:
  assumes "scr ([0,8,0xDC,1,2,3, 192,168,1,1, 255,255,255,0, 192,168,1,2, 0, 4] @ w) s"
    and "\<And>s'. scr w s' \<Longrightarrow> Q 0 s'"
  shows "wpt (sw_reset_body scripted s) Q"
  unfolding sw_reset_body_def using assms
  by (auto intro!: wp scr_rules simp: version_poll.simps [of scripted 0])

lemma scr_refresh:
  assumes "scr ([2,2,2,2,2,2,2,2,2,2,2,2,2,2,2,2]) s"
    and "\<And>s'. scr [] s' \<Longrightarrow> Q 0 s'"
  shows "wpt (wizchip_refresh_socket_caches scripted s) Q"
  unfolding wizchip_refresh_socket_caches_def sock_nums_def using assms(1)
  by (auto intro!: wp scr_rules assms(2))

subsection \<open>Reset and initialisation\<close>

text \<open>C18: A software reset ends in one of two states, whatever the chip answers. Result 0 leaves the
  driver READY with no error; any other result leaves it FAULTED with an error recorded. In
  both cases the record of every socket is back to its reset value.\<close>

theorem sw_reset_outcome:
  assumes "wizchip_sw_reset p s = (r, s')"
  shows "transaction_done r s'"
proof -
  define s1 where "s1 = wizchip_transaction_reset_socket_state
    ((wizchip_transaction_lock p s)\<lparr>chip_state := WIZCHIP_STATE_UNINIT, chip_last_error := 0\<rparr>)"
  have i: "all_reset t" if "socks_same s1 t" for t
    using all_reset_socks_same [OF all_reset_transaction] that by (simp add: s1_def)
  have "wpt (wizchip_sw_reset p s) transaction_done"
    unfolding wizchip_sw_reset_def wizchip_refresh_socket_caches_def Let_def s1_def [symmetric]
    by (auto intro!: wp conf_socks.R_sw_reset_locked conf_socks.R_refresh_caches conf_socks.R_refl
        wpt_mono [OF transaction_finish_done] i)
  with assms show ?thesis by (simp add: wpt_def)
qed

definition script_config :: "u8 list" where
  "script_config = [0,8,0xDC,1,2,3, 192,168,1,1, 255,255,255,0, 192,168,1,2, 0, 4]"

theorem sw_reset_outcome_witness:
  "\<exists>s'. wizchip_sw_reset scripted (scripted_ready (script_config @ [2,2,2,2,2,2,2,2,2,2,2,2,2,2,2,2])) = (0, s')
     \<and> chip_state s' = WIZCHIP_STATE_READY"
proof -
  let ?s = "scripted_ready (script_config @ [2,2,2,2,2,2,2,2,2,2,2,2,2,2,2,2])"
  have "wpt (wizchip_sw_reset scripted ?s) (\<lambda>r _. r = 0)"
    unfolding wizchip_sw_reset_def wizchip_sw_reset_locked_def script_config_def
    by (auto intro!: wp scr_sw_reset_body scr_refresh simp: wizchip_transaction_finish_def Let_def)
  from wpt_result [OF this] obtain s' where e: "wizchip_sw_reset scripted ?s = (0, s')" ..
  from sw_reset_outcome [OF e] e show ?thesis by (auto simp: transaction_done_def)
qed

text \<open>What a size array must be: supported sizes that fit in the 16 KB of one direction.\<close>

definition sizes_ok :: "u8 list option \<Rightarrow> bool" where
  "sizes_ok sizes = (case sizes of None \<Rightarrow> True
     | Some ns \<Rightarrow> set (take 8 ns) \<subseteq> {0, 2, 4, 8, 16} \<and> sum_list (map unat (take 8 ns)) \<le> 16)"

lemma sizes_valid_iff:
  "unat t \<le> 16 \<Longrightarrow> sizes_valid t ns \<longleftrightarrow>
     set ns \<subseteq> {0, 2, 4, 8, 16} \<and> unat t + sum_list (map unat ns) \<le> 16"
proof (induction ns arbitrary: t)
  case (Cons n ns)
  have u: "unat (t + ucast n) = unat t + unat n"
    using Cons.prems unat_u8_less [of n] by (simp add: unat_word_ariths)
  have ok: "buf_size_ok n \<longleftrightarrow> n \<in> {0, 2, 4, 8, 16}" by (auto simp: buf_size_ok_def)
  show ?case
  proof (cases "16 < t + ucast n")
    case True
    then show ?thesis using u by (simp add: Let_def word_less_nat_alt)
  next
    case False
    then have "unat (t + ucast n) \<le> 16" by (simp add: word_less_nat_alt)
    from Cons.IH [OF this] False u ok show ?thesis by (simp add: Let_def)
  qed
qed simp

lemma sizes_arg_valid_iff: "sizes_arg_valid sizes \<longleftrightarrow> sizes_ok sizes"
  by (auto simp: sizes_arg_valid_def sizes_ok_def sizes_valid_iff split: option.split)

definition cache_set :: "u8 list option \<Rightarrow> (u8 \<Rightarrow> u16) \<Rightarrow> u8 \<Rightarrow> u16" where
  "cache_set sizes c = (case sizes of None \<Rightarrow> c
     | Some ns \<Rightarrow> fold (\<lambda>x c. c(fst x := ucast (snd x) * 1024)) (zip sock_nums ns) c)"

lemma program_sizes_caches:
  assumes "\<And>f s. get (cu f s) = f (get s)" and "\<And>f s. other (cu f s) = other s"
    and "\<And>s s'. chip_frame s s' \<Longrightarrow> get s' = get s \<and> other s' = other s"
  shows "wpt (program_sizes p reg cu tmp xs s) (\<lambda>r s'. other s' = other s
     \<and> (r = 0 \<longrightarrow> get s' = fold (\<lambda>x c. c(fst x := ucast (snd x) * 1024)) xs (get s)))"
proof (induction xs arbitrary: tmp s)
  case (Cons x xs)
  show ?case
    by (auto intro!: wp chip_frame.R_write8 [OF chip_frame.R_refl] wpt_mono [OF Cons.IH]
        simp: assms(1,2) dest!: assms(3))
qed (simp add: wpt_def)

lemma init_sizes_caches:
  assumes "\<And>f s. get (cu f s) = f (get s)" and "\<And>f s. other (cu f s) = other s"
    and "\<And>s s'. chip_frame s s' \<Longrightarrow> get s' = get s \<and> other s' = other s"
  shows "wpt (init_sizes p reg cu sizes tmp s) (\<lambda>r s'. other s' = other s
     \<and> (r = 0 \<longrightarrow> get s' = cache_set sizes (get s)))"
  unfolding init_sizes_def cache_set_def
  by (auto intro!: wp wpt_mono [OF program_sizes_caches [of get cu other]] simp: assms(1,2) dest!: assms(3))

lemma chip_frame_caches:
  fixes s s' :: "('w, 'm) drv_scheme"
  shows "chip_frame s s' \<Longrightarrow> wizchip_txmax_cache s' = wizchip_txmax_cache s \<and> wizchip_rxmax_cache s' = wizchip_rxmax_cache s"
  "chip_frame s s' \<Longrightarrow> wizchip_rxmax_cache s' = wizchip_rxmax_cache s \<and> wizchip_txmax_cache s' = wizchip_txmax_cache s"
  using chip_frame_conf [of s s'] by auto

lemmas init_tx = init_sizes_caches
  [of wizchip_txmax_cache wizchip_txmax_cache_update wizchip_rxmax_cache, OF _ _ chip_frame_caches(1), simplified]
lemmas init_rx = init_sizes_caches
  [of wizchip_rxmax_cache wizchip_rxmax_cache_update wizchip_txmax_cache, OF _ _ chip_frame_caches(2), simplified]

lemma init_locked_caches:
  "wpt (wizchip_init_locked p tx rx s) (\<lambda>r s'. r = 0 \<longrightarrow>
     wizchip_txmax_cache s' = cache_set tx (wizchip_txmax_cache s)
     \<and> wizchip_rxmax_cache s' = cache_set rx (wizchip_rxmax_cache s))"
  unfolding wizchip_init_locked_def wizchip_sw_reset_locked_def init_identity_def
  by (auto intro!: wp chip_frame.R_sw_reset_body [OF chip_frame.R_refl] chip_frame.R_read8 [OF chip_frame.R_refl]
      wpt_mono [OF init_tx] wpt_mono [OF init_rx] dest!: chip_frame_caches(1))

text \<open>The two caches after a successful initialisation: what was asked for, 0 for a null array.\<close>

definition cache_of :: "u8 list option \<Rightarrow> u8 \<Rightarrow> u16" where
  "cache_of sizes sn = (case sizes of None \<Rightarrow> 0 | Some ns \<Rightarrow> ucast (ns ! unat sn) * 1024)"

definition full_array :: "u8 list option \<Rightarrow> bool" where
  "full_array sizes \<longleftrightarrow> (case sizes of None \<Rightarrow> True | Some ns \<Rightarrow> length ns = 8)"

definition caches_are :: "u8 list option \<Rightarrow> u8 list option \<Rightarrow> ('w, 'm) drv_scheme \<Rightarrow> bool" where
  "caches_are tx rx s \<longleftrightarrow>
     (\<forall>sn < 8. wizchip_txmax_cache s sn = cache_of tx sn \<and> wizchip_rxmax_cache s sn = cache_of rx sn)"

lemma cache_set_of:
  assumes "full_array sizes" and "sn < 8" and "c sn = 0"
  shows "cache_set sizes c sn = cache_of sizes sn"
proof (cases sizes)
  case (Some ns)
  with assms(1) have "length ns = 8" by (simp add: full_array_def)
  then obtain a b c' d e f g h where "ns = [a, b, c', d, e, f, g, h]"
    by (auto simp: eval_nat_numeral length_Suc_conv)
  with Some sock_num_cases [OF assms(2)] show ?thesis
    by (elim disjE) (simp_all add: cache_set_def cache_of_def sock_nums_def)
qed (simp add: cache_set_def cache_of_def assms(3))

text \<open>C15: Initialisation either rejects the size arrays before touching anything, or it is a
  transaction with two outcomes. Result 0 leaves the driver READY with the requested sizes
  cached for every socket, any other result leaves it FAULTED. A null array is accepted and
  leaves its cache at 0: after \<open>wizchip_init(NULL, NULL)\<close> no socket has any buffer space.\<close>

theorem init_outcome:
  assumes "wizchip_init p tx rx s = (r, s')" and "full_array tx" and "full_array rx"
  shows "if sizes_ok tx \<and> sizes_ok rx
    then transaction_done r s' \<and> (if r = 0 then caches_are tx rx s' else True)
    else r = -1 \<and> s' = s"
proof (cases "sizes_ok tx \<and> sizes_ok rx")
  case True
  define s1 where "s1 = wizchip_transaction_reset_socket_state
    ((wizchip_transaction_lock p s)\<lparr>chip_state := WIZCHIP_STATE_UNINIT, chip_last_error := 0\<rparr>)"
  have i: "all_reset t" if "socks_same s1 t" for t
    using all_reset_socks_same [OF all_reset_transaction] that by (simp add: s1_def)
  obtain r1 s2 where l: "wizchip_init_locked p tx rx s1 = (r1, s2)" by fastforce
  obtain r2 s3 where f: "wizchip_transaction_finish p r1 s2 = (r2, s3)" by fastforce
  have "wpt (wizchip_init_locked p tx rx s1) (\<lambda>_. socks_same s1)"
    by (rule conf_socks.R_init_locked [OF conf_socks.R_refl])
  with l i have "all_reset s2" by (simp add: wpt_def)
  from transaction_finish_done [OF this, of p r1] f
  have d: "r2 = r1" "transaction_done r1 s3" "wizchip_txmax_cache s3 = wizchip_txmax_cache s2"
    "wizchip_rxmax_cache s3 = wizchip_rxmax_cache s2" by (simp_all add: wpt_def)
  have "wizchip_init p tx rx s = (r2, s3)"
    using True l f by (simp add: wizchip_init_def sizes_arg_valid_iff s1_def Let_def)
  with assms(1) have e: "r = r2" "s' = s3" by simp_all
  have z: "wizchip_txmax_cache s1 sn = 0 \<and> wizchip_rxmax_cache s1 sn = 0" if "sn < 8" for sn
  proof -
    have "cleared sn s1" unfolding s1_def by (rule cleared_transaction [OF that])
    then show ?thesis by (simp add: cleared_def)
  qed
  have "caches_are tx rx s3" if "r2 = 0"
    using init_locked_caches [of p tx rx s1] l that d z assms(2,3)
    by (simp add: wpt_def caches_are_def cache_set_of)
  with True d e show ?thesis by simp
next
  case False
  with assms(1) show ?thesis by (auto simp: wizchip_init_def sizes_arg_valid_iff split: if_splits)
qed

theorem init_outcome_witness:
  "\<exists>s'. wizchip_init scripted None None (scripted_ready (script_config @ [4, 1])) = (0, s')
     \<and> caches_are None None s'"
proof -
  have "wpt (wizchip_init scripted None None (scripted_ready (script_config @ [4, 1]))) (\<lambda>r _. r = 0)"
    unfolding wizchip_init_def wizchip_init_locked_def wizchip_sw_reset_locked_def script_config_def
      init_sizes_def init_identity_def
    by (auto intro!: wp scr_sw_reset_body scr_rules intro: scr_start simp: sizes_arg_valid_def wizchip_transaction_finish_def Let_def)
  from wpt_result [OF this] obtain s' where
    e: "wizchip_init scripted None None (scripted_ready (script_config @ [4, 1])) = (0, s')" ..
  from init_outcome [OF e] e show ?thesis by (auto simp: full_array_def sizes_ok_def)
qed

end
