(* ===== verification/PhyProps.thy ===== *)
theory PhyProps
  imports Phy SockFun Scripted
begin

text \<open>
  The properties of PHY control and of the network mode, each followed by its witness on the
  scripted platform.
\<close>

unbundle bit_operations_syntax

subsection \<open>Preparation\<close>

lemma reg_addr_phy [simp]: "reg_addr reg_PHYCFGR" "reg_addr reg_MR"
  by (auto intro!: reg_addr_common simp: common_regs_def)

lemma reg_log_events [simp]:
  "reg_log (SockEnter n # tr) = reg_log tr" "reg_log (SockExit n # tr) = reg_log tr"
  "reg_log (GlobalEnter # tr) = reg_log tr" "reg_log (GlobalExit # tr) = reg_log tr"
  "reg_log (WaitUs u # tr) = reg_log tr" "reg_log (WaitHook # tr) = reg_log tr"
  "reg_log (PhyLink l # tr) = reg_log tr"
  by (simp_all add: reg_log_def split_beta Let_def)

lemma wait_log [simp]:
  "reg_log (trace (if b then call p (WaitUs u) s else call p WaitHook s)) = reg_log (trace s)"
  by simp

text \<open>A register log that extends \<open>L\<close> by reads of the PHY register, the last one first.\<close>

definition phy_reads :: "reg_op list \<Rightarrow> u8 list \<Rightarrow> ('w, 'm) bus_state_scheme \<Rightarrow> bool" where
  "phy_reads L vs s \<longleftrightarrow> reg_log (trace s) = map (\<lambda>x. RegRead reg_PHYCFGR [x]) vs @ L"

lemma phy_hold_log:
  "wpt (phy_hold p d n s) (\<lambda>_ s'. reg_log (trace s') = reg_log (trace s))"
proof (induction "limit_left WIZCHIP_POLL_MAX n" arbitrary: n s rule: less_induct)
  case less
  show ?case
    by (subst phy_hold.simps)
      (auto intro!: wp wpt_deadline_expired wpt_mono [OF less] simp: limit_left_step dest!: time_stepD(1))
qed

lemma phy_readback_log:
  assumes "phy_reads L ws s"
  shows "wpt (phy_readback p e d l n s) (\<lambda>r s'. \<exists>vs. phy_reads L vs s'
     \<and> (r = 0 \<longrightarrow> vs \<noteq> [] \<and> hd vs AND WIZPHY_RESET_MASK = e AND WIZPHY_RESET_MASK))"
    (is "wpt _ ?Q")
  using assms
proof (induction "limit_left l n" arbitrary: n s ws rule: less_induct)
  case less
  have one: "phy_reads L (v # ws) t" if "reg_log (trace t) = RegRead reg_PHYCFGR [v] # reg_log (trace s)" for v and t :: "('a, 'b) time_state_scheme"
    using that less.prems by (simp add: phy_reads_def)
  have rec: "wpt (phy_readback p e d l (n + 1) t) ?Q" if "n + 1 < l" "phy_reads L vs t" for vs and t :: "('a, 'b) time_state_scheme"
    by (rule less.hyps [OF limit_left_step [OF that(1)] that(2)])
  have bad: "wpt (WIZPHY_DEADLINE_ERROR, t) ?Q" if "phy_reads L vs t" for vs and t :: "('a, 'b) time_state_scheme"
    using that by (auto simp: wpt_def)
  show ?case
  proof (subst phy_readback.simps, unfold getPHYCFGR_def, intro wpt_Let wpt_case_prod wpt_READ reg_addr_phy)
    fix v and t :: "('a, 'b) time_state_scheme"
    assume "reg_log (trace t) = RegRead reg_PHYCFGR [v] # reg_log (trace s)"
    then have r: "phy_reads L (v # ws) t" by (rule one)
    define w where "w = (if wait_us t then call p (WaitUs 1) t else call p WaitHook t)"
    have w: "phy_reads L (v # ws) w" using r by (simp add: phy_reads_def w_def)
    have go: "wpt (if now_us w = None then (True, w)
        else let (e, s) = wizchip_deadline_expired d w in (\<not> e, s)) (\<lambda>_. phy_reads L (v # ws))"
      using w by (auto intro!: wp wpt_deadline_expired simp: phy_reads_def dest!: time_stepD(1))
    have "wpt (let (again, s) = (if now_us w = None then (True, w)
          else let (e, s) = wizchip_deadline_expired d w in (\<not> e, s)) in
        if again then phy_readback p e d l (n + 1) s else (WIZPHY_DEADLINE_ERROR, s)) ?Q" if "n + 1 < l"
      unfolding Let_def by (intro wpt_case_prod wpt_mono [OF go [unfolded Let_def]] wpt_if rec [OF that] bad)
    then show "wpt (if v AND WIZPHY_RESET_MASK = e AND WIZPHY_RESET_MASK then (0, t)
      else if \<not> wait_us t \<and> \<not> wait_hook t then (WIZPHY_DEADLINE_ERROR, t)
      else let s = if wait_us t then call p (WaitUs 1) t else call p WaitHook t in
        if n + 1 < l then
          let (again, s) = (if now_us s = None then (True, s)
                else let (e, s) = wizchip_deadline_expired d s in (\<not> e, s)) in
          if again then phy_readback p e d l (n + 1) s else (WIZPHY_DEADLINE_ERROR, s)
        else (WIZPHY_DEADLINE_ERROR, s)) ?Q"
      using r bad [OF w] bad [OF r] unfolding w_def by (auto simp: wpt_def Let_def)
  qed
qed

lemma rst_bit: "WIZPHY_RST_BIT = 0x80" "WIZPHY_RESET_MASK = 0xF8"
  by (simp_all add: WIZPHY_RST_BIT_def WIZPHY_RESET_MASK_def)

text \<open>The accesses of a successful PHY reset, latest first, for a register value \<open>w\<close>.\<close>

definition phy_reset_ops :: "u8 \<Rightarrow> u8 \<Rightarrow> reg_op list \<Rightarrow> bool" where
  "phy_reset_ops w v ops \<longleftrightarrow> (\<exists>vs ws.
     ops = map (\<lambda>x. RegRead reg_PHYCFGR [x]) (v # vs) @ RegWrite reg_PHYCFGR [w OR 0x80]
         # map (\<lambda>x. RegRead reg_PHYCFGR [x]) ws @ [RegWrite reg_PHYCFGR [w AND 0x7F]]
     \<and> v AND 0xF8 = (w OR 0x80) AND 0xF8)"

lemma wait_readback_log:
  assumes "phy_reads L [] s"
  shows "wpt (wizphy_wait_readback p e s) (\<lambda>r s'. \<exists>vs. phy_reads L vs s'
     \<and> (r = 0 \<longrightarrow> vs \<noteq> [] \<and> hd vs AND 0xF8 = e AND 0xF8))"
proof -
  have t: "phy_reads L [] t" if "time_step s t" for t
    using assms time_stepD(1) [OF that] by (simp add: phy_reads_def)
  show ?thesis
    unfolding wizphy_wait_readback_def rst_bit(2) [symmetric]
    by (intro wpt_Let wpt_case_prod wpt_deadline_abs phy_readback_log [OF t])
qed

lemma wait_until_log:
  "wpt (wizphy_wait_until p d u s) (\<lambda>_ s'. reg_log (trace s') = reg_log (trace s))"
  unfolding wizphy_wait_until_def by (auto intro!: wp phy_hold_log)

lemma reset_locked_log:
  "wpt (wizphy_reset_locked p w s) (\<lambda>r s'. r = 0 \<longrightarrow>
     (\<exists>v ops. phy_reset_ops w v ops \<and> reg_log (trace s') = ops @ reg_log (trace s)))"
proof -
  have m: "NOT 0x80 = (0x7F :: u8)" by code_simp
  have hi: "wpt (wizphy_wait_readback p (w OR 0x80) t) (\<lambda>r s'. r = 0 \<longrightarrow>
     (\<exists>v ops. phy_reset_ops w v ops \<and> reg_log (trace s') = ops @ reg_log (trace s)))"
    if "reg_log (trace t) = RegWrite reg_PHYCFGR [w OR 0x80] # map (\<lambda>x. RegRead reg_PHYCFGR [x]) ws
         @ RegWrite reg_PHYCFGR [w AND 0x7F] # reg_log (trace s)" for t ws
  proof -
    have "phy_reads (RegWrite reg_PHYCFGR [w OR 0x80] # map (\<lambda>x. RegRead reg_PHYCFGR [x]) ws
         @ RegWrite reg_PHYCFGR [w AND 0x7F] # reg_log (trace s)) [] t"
      using that by (simp add: phy_reads_def)
    from wait_readback_log [OF this] show ?thesis
      by (rule wpt_mono) (fastforce simp: phy_reads_def phy_reset_ops_def neq_Nil_conv)
  qed
  have lo: "wpt (wizphy_wait_readback p v t) (\<lambda>_ t'. \<exists>vs. phy_reads (reg_log (trace t)) vs t')"
    for v and t :: "('a, 'b) time_state_scheme"
    by (rule wpt_mono [OF wait_readback_log [of "reg_log (trace t)"]]) (auto simp: phy_reads_def)
  show ?thesis
    unfolding wizphy_reset_locked_def rst_bit m setPHYCFGR_def
  proof (intro wpt_Let wpt_case_prod wpt_mono [OF lo [of "w AND 0x7F"]] wpt_if wpt_pair wpt_deadline_abs wpt_mono [OF wait_until_log])
    fix r d r2 and t t1 t2 :: "('a, 'b) time_state_scheme"
    assume "\<exists>vs. phy_reads (reg_log (trace (WIZCHIP_WRITE p reg_PHYCFGR (w AND 0x7F) s))) vs t"
      and "time_step t t1" "reg_log (trace t2) = reg_log (trace t1)"
    then obtain vs where "reg_log (trace t2) = map (\<lambda>x. RegRead reg_PHYCFGR [x]) vs
        @ RegWrite reg_PHYCFGR [w AND 0x7F] # reg_log (trace s)"
      by (auto simp: phy_reads_def dest!: time_stepD(1))
    then show "wpt (wizphy_wait_readback p (w OR 0x80) (WIZCHIP_WRITE p reg_PHYCFGR (w OR 0x80) t2))
        (\<lambda>r s'. r = 0 \<longrightarrow> (\<exists>v ops. phy_reset_ops w v ops \<and> reg_log (trace s') = ops @ reg_log (trace s)))"
      by (intro hi) simp
  qed auto
qed

lemma word_phyconf_mask: "v AND 0xF8 = h AND 0xF8 \<Longrightarrow> word_phyconf v = word_phyconf h"
proof -
  assume a: "v AND 0xF8 = h AND 0xF8"
  have "v AND 0x38 = (v AND 0xF8) AND 0x38" "h AND 0x38 = (h AND 0xF8) AND 0x38"
    "v AND 0x40 = (v AND 0xF8) AND 0x40" "h AND 0x40 = (h AND 0xF8) AND 0x40" by (simp_all add: and.assoc)
  with a have "v AND 0x38 = h AND 0x38" "v AND 0x40 = h AND 0x40" by simp_all
  then show ?thesis by (simp add: word_phyconf_def)
qed

text \<open>What the register can hold of a configuration: with autonegotiation, not speed and duplex.\<close>

definition phyconf_kept :: "wiz_PhyConf \<Rightarrow> wiz_PhyConf" where
  "phyconf_kept c = (if phy_mode c = PHY_MODE_AUTONEGO
     then c\<lparr>phy_speed := PHY_SPEED_10, phy_duplex := PHY_DUPLEX_HALF\<rparr> else c)"

lemma u8_le_1: "\<not> (x :: u8) > 1 \<longleftrightarrow> x = 0 \<or> x = 1"
  by (auto simp: not_less word_le_nat_alt le_Suc_eq word_unat_eq_iff)

lemma word_phyconf_word:
  assumes "phyconf_valid c"
  shows "word_phyconf (phyconf_word c tmp OR 0x80) = phyconf_kept c"
  using assms unfolding phyconf_valid_def phyconf_word_def word_phyconf_def phyconf_kept_def
  by (cases c) (auto simp: u8_le_1 Let_def bit.conj_disj_distrib2 and.assoc)

subsection \<open>Configuring the PHY\<close>

text \<open>C19: When \<open>wizphy_setphyconf\<close> reports success the PHY runs with the requested configuration.
  The arguments were valid; the new register value was written, the PHY was put into reset and
  taken out of it again with that value, and the register finally read back with it. What was
  read decodes to the configuration asked for (speed and duplex are not kept with autonegotiation).\<close>

theorem phy_conf_applied:
  assumes "wizphy_setphyconf p (Some c) s = (0, s')"
  shows "phyconf_valid c \<and> (\<exists>old v ops. phy_reset_ops (phyconf_word c old) v ops
     \<and> reg_log (trace s') = ops @ RegWrite reg_PHYCFGR [phyconf_word c old] # RegRead reg_PHYCFGR [old]
          # reg_log (trace s)
     \<and> word_phyconf v = phyconf_kept c)"
proof -
  have v: "phyconf_valid c" using assms by (auto simp: wizphy_setphyconf_def split: if_splits)
  have kept: "word_phyconf x = phyconf_kept c" if "phy_reset_ops (phyconf_word c old) x ops" for old x ops
    using that word_phyconf_mask [of x "phyconf_word c old OR 0x80"] word_phyconf_word [OF v]
    by (auto simp: phy_reset_ops_def)
  have "wpt (wizphy_setphyconf p (Some c) s) (\<lambda>r s'. r = 0 \<longrightarrow> (\<exists>old v ops.
     phy_reset_ops (phyconf_word c old) v ops
     \<and> reg_log (trace s') = ops @ RegWrite reg_PHYCFGR [phyconf_word c old] # RegRead reg_PHYCFGR [old]
          # reg_log (trace s)))"
    unfolding wizphy_setphyconf_def getPHYCFGR_def setPHYCFGR_def
    by (auto intro!: wp wpt_READ wpt_mono [OF reset_locked_log] simp: v)
  with assms v kept show ?thesis by (simp add: wpt_def) blast
qed

theorem phy_conf_applied_witness:
  "\<exists>s'. wizphy_setphyconf scripted (Some \<lparr>phy_by = 1, phy_mode = 0, phy_speed = 1, phy_duplex = 1\<rparr>)
        ((scripted_ready [0xB8, 0x58, 0xD8])\<lparr>now_us := None, wait_us := True\<rparr>) = (0, s')
     \<and> phyconf_valid \<lparr>phy_by = 1, phy_mode = 0, phy_speed = 1, phy_duplex = 1\<rparr>"
proof -
  let ?s = "(scripted_ready [0xB8, 0x58, 0xD8])\<lparr>now_us := None, wait_us := True\<rparr>"
  let ?c = "\<lparr>phy_by = 1, phy_mode = 0, phy_speed = 1, phy_duplex = 1\<rparr>"
  have "fst (wizphy_setphyconf scripted (Some ?c) ?s) = 0"
    by (simp add: run_defs reg_defs wizphy_setphyconf_def wizphy_reset_locked_def wizphy_wait_readback_def
        wizphy_wait_until_def phy_readback.simps rst_bit phyconf_valid_def phyconf_word_def cong: run_cong)
  then obtain s' where e: "wizphy_setphyconf scripted (Some ?c) ?s = (0, s')" by (metis prod.collapse)
  from phy_conf_applied [OF e] e show ?thesis by auto
qed

text \<open>\<open>wizphy_powerup\<close> and \<open>wizphy_powerdown\<close> leave the PHY in reset: both write the whole register
  twice, and bit 7, which is active low, is 0 in every value they write.\<close>

theorem phy_power_in_reset:
  "reg_log (trace (snd (wizphy_powerup p s))) =
     [RegWrite reg_PHYCFGR [0x78], RegWrite reg_PHYCFGR [0x38]] @ reg_log (trace s)
   \<and> reg_log (trace (snd (wizphy_powerdown p s))) =
     [RegWrite reg_PHYCFGR [0x70], RegWrite reg_PHYCFGR [0x30]] @ reg_log (trace s)
   \<and> list_all (\<lambda>v. v AND NOT PHYCFGR_RST = 0) [0x78, 0x38, 0x70, 0x30]"
  by (simp add: wizphy_powerup_def wizphy_powerdown_def setPHYCFGR_def Let_def)

text \<open>The network mode is set only as far as the mode covers. A value with any other bit is
  rejected without an access; otherwise the mode register is read once and written back with
  the four mode bits replaced and the rest as it was.\<close>

theorem netmode_bits:
  fixes s :: "('w, 'm) drv_scheme"
  assumes "wizchip_setnetmode p m s = (r, s')"
  shows "if m AND NOT 0x3A = 0
    then r = 0 \<and> (\<exists>old. reg_log (trace s') = [RegWrite reg_MR [(old AND 0xC5) OR ucast m], RegRead reg_MR [old]]
           @ reg_log (trace s))
    else r = -1 \<and> s' = s"
proof -
  have m: "NM_MASK = 0x3A" by (simp add: NM_MASK_def)
  have n: "(ucast (NOT (0x3A :: u32)) :: u8) = 0xC5" by code_simp
  have "wpt (wizchip_setnetmode p m s) (\<lambda>r s'. if m AND NOT 0x3A = 0
    then r = 0 \<and> (\<exists>old. reg_log (trace s') = [RegWrite reg_MR [(old AND 0xC5) OR ucast m], RegRead reg_MR [old]]
           @ reg_log (trace s))
    else r = -1 \<and> s' = s)"
    unfolding wizchip_setnetmode_def m n getMR_def setMR_def
    by (auto intro!: wpt_if wpt_pair wpt_Let wpt_case_prod wpt_READ)
  from wptD [OF this assms] show ?thesis .
qed

theorem netmode_bits_witness:
  "\<exists>s'. wizchip_setnetmode scripted 0x20 (scripted_ready [0x90]) = (0, s')
     \<and> (\<exists>old. reg_log (trace s') = [RegWrite reg_MR [(old AND 0xC5) OR 0x20], RegRead reg_MR [old]])"
proof -
  obtain r s' where e: "wizchip_setnetmode scripted 0x20 (scripted_ready [0x90]) = (r, s')" by fastforce
  have "(0x20 :: u32) AND NOT 0x3A = 0" by code_simp
  with netmode_bits [OF e] e show ?thesis
    by (auto simp: scripted_ready_def drv_start_def reg_log_def)
qed

end
