(* ===== verification/Driver.thy ===== *)
theory Driver
  imports Phy Scripted
begin

text \<open>
  The whole driver as a step relation: socket calls, the two control dispatchers and the
  two functions that set the timeouts, in any order. Its invariants come from the contracts \<open>api_relation\<close>
  and \<open>conf_api\<close>, which the components discharge.
\<close>

subsection \<open>Steps of the driver\<close>

inductive driver_step :: "'w platform \<Rightarrow> ('w, 'm) drv_scheme \<Rightarrow> ('w, 'm) drv_scheme \<Rightarrow> bool"
  for p :: "'w platform" where
  step_sock: "api_step p sn s s' \<Longrightarrow> driver_step p s s'"
| step_chip: "ctlwizchip p cwtype arg s = Some (o_chip, s') \<Longrightarrow> driver_step p s s'"
| step_net: "ctlnetwork p cntype arg s = Some (o_net, s') \<Longrightarrow> driver_step p s s'"
| step_timeouts: "wizchip_set_timeout_config p config s = (r, s') \<Longrightarrow> driver_step p s s'"
| step_operation_timeout: "wizchip_set_operation_timeout_us p t s = (r, s') \<Longrightarrow> driver_step p s s'"

inductive driver_run :: "'w platform \<Rightarrow> ('w, 'm) drv_scheme \<Rightarrow> ('w, 'm) drv_scheme \<Rightarrow> bool"
  for p :: "'w platform" where
  driver_nil: "driver_run p s s"
| driver_more: "\<lbrakk>driver_run p s s'; driver_step p s' s''\<rbrakk> \<Longrightarrow> driver_run p s s''"

context conf_api
begin

lemma A_set_timeout:
  assumes "A s0 s"
  shows "wpt (wizchip_set_timeout_config p config s) (\<lambda>_. A s0)"
    and "wpt (wizchip_set_operation_timeout_us p timeout s) (\<lambda>_. A s0)"
proof -
  have "R t (wizchip_update_timeout_floor_locked rtr rcr
      (t\<lparr>timeout_config := c, requested_operation_timeout_us := u\<rparr>))" for t rtr rcr c u
    by (rule R_timeout_floor, rule R_conf) (simp add: conf_upd_def)
  then show "wpt (wizchip_set_timeout_config p config s) (\<lambda>_. A s0)"
    unfolding wizchip_set_timeout_config_def getRTR_def getRCR_def
    by (auto intro!: wp register_rel A_locked [OF _ assms] R_refl assms intro: R_trans)
  have "R t (wizchip_update_timeout_floor_locked rtr rcr (t\<lparr>requested_operation_timeout_us := u\<rparr>))" for t rtr rcr u
    by (rule R_timeout_floor, rule R_conf) (simp add: conf_upd_def)
  then show "wpt (wizchip_set_operation_timeout_us p timeout s) (\<lambda>_. A s0)"
    unfolding wizchip_set_operation_timeout_us_def getRTR_def getRCR_def
    by (auto intro!: wp register_rel A_locked [OF _ assms] R_refl assms intro: R_trans)
qed

end

subsection \<open>The discipline of the driver\<close>

text \<open>Between two steps no lock is held, no frame is open on the bus, and the next ephemeral port is valid.\<close>

definition disciplined :: "('w, 'm) drv_scheme \<Rightarrow> bool" where
  "disciplined s \<longleftrightarrow> no_locks s \<and> bus_idle s \<and> port_ok (sock_any_port s)"

lemma disciplined_step:
  assumes "driver_step p s s'" and "disciplined s"
  shows "disciplined s'"
proof -
  have conf: "disciplined s'" if "no_locks s \<longrightarrow> no_locks s'" "bus_idle s \<longrightarrow> bus_idle s'"
    "sock_any_port s' = sock_any_port s"
    using that assms(2) by (simp add: disciplined_def)
  have A: "no_locks s \<longrightarrow> no_locks s" "bus_idle s \<longrightarrow> bus_idle s"
    "sock_any_port s = sock_any_port s" by simp_all
  from assms(1) show ?thesis
  proof cases
    case (step_sock sn)
    with assms(2) show ?thesis
      using locks.A_api_step framing.A_api_step ports.A_api_step unfolding disciplined_def by blast
  next
    case (step_chip cwtype arg o_chip)
    note D = wpoD [OF _ step_chip]
    from conf [OF D [OF conf_lock.A_ctlwizchip [OF A(1)]] D [OF conf_framing.A_ctlwizchip [OF A(2)]]
        D [OF conf_port.A_ctlwizchip [OF A(3)]]] show ?thesis .
  next
    case (step_net cntype arg o_net)
    note D = wpoD [OF _ step_net]
    from conf [OF D [OF conf_lock.A_ctlnetwork [OF A(1)]] D [OF conf_framing.A_ctlnetwork [OF A(2)]]
        D [OF conf_port.A_ctlnetwork [OF A(3)]]] show ?thesis .
  next
    case (step_timeouts config r)
    note D = wptD [OF _ step_timeouts]
    from conf [OF D [OF conf_lock.A_set_timeout(1) [OF A(1)]] D [OF conf_framing.A_set_timeout(1) [OF A(2)]]
        D [OF conf_port.A_set_timeout(1) [OF A(3)]]] show ?thesis .
  next
    case (step_operation_timeout t r)
    note D = wptD [OF _ step_operation_timeout]
    from conf [OF D [OF conf_lock.A_set_timeout(2) [OF A(1)]] D [OF conf_framing.A_set_timeout(2) [OF A(2)]]
        D [OF conf_port.A_set_timeout(2) [OF A(3)]]] show ?thesis .
  qed
qed

lemma disciplined_start: "disciplined (drv_start w)"
  by (simp add: disciplined_def no_locks_def bus_idle_def port_ok_def drv_start_def SOCK_ANY_PORT_NUM_def)

lemma disciplined_ready [simp]: "disciplined (scripted_ready script)"
  using disciplined_start [of script]
  by (simp add: disciplined_def no_locks_def bus_idle_def scripted_ready_def)

text \<open>C6: Whatever the application calls, in any order and on any sockets, and whatever the chip and
  the callbacks answer, the driver keeps its discipline: the lock callbacks are paired, never
  nested recursively, the global lock is never requested under a socket lock, several socket
  locks are taken in ascending order only, and the link callback runs unlocked; every chip
  select is framed by the critical section; and after each call no lock is held and the next
  ephemeral port lies in 0xC000 to 0xFFEF.\<close>

theorem driver_discipline:
  assumes "driver_run p s s'" and "disciplined s"
  shows "disciplined s'"
  using assms by (induction rule: driver_run.induct) (auto intro: disciplined_step)

lemma pair_call: "m = (fst m, snd m)"
  by simp

theorem driver_discipline_witness:
  "disciplined (snd (wizchip_set_timeout_config scripted
     (Some \<lparr>command_timeout_us = 1, operation_timeout_us = 1, phy_timeout_us = 1\<rparr>)
     (snd (socket scripted 3 Sn_MR_UDP 0 0 (scripted_ready [])))))"
  by (rule driver_discipline [OF driver_more [OF driver_more [OF driver_nil step_sock] step_timeouts]],
      rule step_socket, rule pair_call, rule pair_call, simp)

subsection \<open>Sockets do not interfere\<close>

text \<open>C16: A socket call changes the per-socket data of its own socket only: the health, mode, blocking
  mode, transmit state and packet accounting of every other socket are as before, and so are the
  buffer size caches, the network configuration and the timeout configuration.\<close>

theorem socket_isolated:
  assumes "api_step p sn s s'"
  shows "isolated sn s s'"
  using assms by (rule isolation.A_api_step)

theorem socket_isolated_witness:
  "isolated 3 (scripted_ready []) (snd (socket scripted 3 Sn_MR_UDP 0 0 (scripted_ready [])))"
  by (rule socket_isolated, rule step_socket, rule pair_call)

subsection \<open>A fault is final\<close>

text \<open>No sequence of socket calls brings the chip out of the FAULTED state: once a transaction
  failed, only \<open>wizchip_recover\<close>, a software reset or an initialisation do.\<close>

theorem fault_sticky:
  assumes "api_run p s s'" and "chip_state s = WIZCHIP_STATE_FAULTED"
  shows "chip_state s' = WIZCHIP_STATE_FAULTED"
  using assms
proof (induction rule: api_run.induct)
  case (run_step s s' sn s'')
  then show ?case using faults.A_api_step [OF run_step.hyps(2)] by (auto simp: fault_kept_def)
qed

theorem fault_sticky_witness:
  "chip_state (snd (close scripted 1 ((scripted_ready [])\<lparr>chip_state := WIZCHIP_STATE_FAULTED\<rparr>)))
    = WIZCHIP_STATE_FAULTED"
  by (rule fault_sticky [OF run_step [OF run_nil step_close [OF pair_call]]]) simp

end
