(* ===== verification/Memory.thy ===== *)
theory Memory
  imports Prelude
begin

text \<open>
  Byte memory as a function of the address: what a pointer argument points to, the bytes of a
  message in it, and what a copy into it leaves.
\<close>

definition bytes_at :: "(nat \<Rightarrow> u8) \<Rightarrow> nat \<Rightarrow> nat \<Rightarrow> u8 list" where
  "bytes_at msg cp n = map (\<lambda>i. msg (cp + i)) [0..<n]"

lemma length_bytes_at [simp]: "length (bytes_at msg cp n) = n"
  by (simp add: bytes_at_def)

text \<open>What a receive leaves in a buffer: the memory from its address on, as a function of the offset.\<close>

definition store_bytes :: "u8 list \<Rightarrow> (nat \<Rightarrow> u8) \<Rightarrow> nat \<Rightarrow> u8" where
  "store_bytes bs mem = (\<lambda>i. if i < length bs then bs ! i else mem i)"

text \<open>A copy to an offset.\<close>

definition store_at :: "nat \<Rightarrow> u8 list \<Rightarrow> (nat \<Rightarrow> u8) \<Rightarrow> nat \<Rightarrow> u8" where
  "store_at off bs mem = (\<lambda>i. if off \<le> i \<and> i < off + length bs then bs ! (i - off) else mem i)"

text \<open>A message from a list of bytes.\<close>

definition message :: "u8 list \<Rightarrow> nat \<Rightarrow> u8" where
  "message bs = (\<lambda>i. if i < length bs then bs ! i else 0)"

text \<open>A list of bytes stands at an offset.\<close>

definition stands :: "(nat \<Rightarrow> u8) \<Rightarrow> nat \<Rightarrow> u8 list \<Rightarrow> bool" where
  "stands msg off bs \<longleftrightarrow> bytes_at msg off (length bs) = bs"

lemma bytes_at_Suc: "bytes_at msg off (Suc n) = msg off # bytes_at msg (off + 1) n"
proof -
  have "[0..<Suc n] = 0 # map Suc [0..<n]"
    by (simp only: map_Suc_upt) (rule upt_conv_Cons, simp)
  then show ?thesis by (simp add: bytes_at_def del: upt_Suc)
qed

lemma stands_Nil [simp]: "stands msg off []"
  by (simp add: stands_def bytes_at_def)

lemma stands_Cons [simp]: "stands msg off (b # bs) \<longleftrightarrow> msg off = b \<and> stands msg (off + 1) bs"
  by (simp add: stands_def bytes_at_Suc)

lemma stands_append [simp]:
  "stands msg off (as @ bs) \<longleftrightarrow> stands msg off as \<and> stands msg (off + length as) bs"
  by (induction as arbitrary: off) (auto simp: ac_simps)

lemma stands_bytes: "stands msg off bs \<Longrightarrow> bytes_at msg off (length bs) = bs"
  by (simp add: stands_def)

lemma stands_message: "stands (message bs) 0 bs"
  unfolding stands_def bytes_at_def by (rule nth_equalityI) (simp_all add: message_def)

end
