(* ===== verification/Sends.thy ===== *)
theory Sends
  imports DgramProps Memory
begin

text \<open>
  Counting SEND commands over whole socket calls, for the clients built on them: only \<open>sendto\<close>
  and \<open>send\<close> give SEND, and \<open>sendto\<close> gives it at most once. The rules in the collection
  \<open>quiet\<close> follow a program text that gives no SEND, whatever else it does to the socket.
\<close>

unbundle bit_operations_syntax

subsection \<open>Quiet steps\<close>

definition sends :: "u8 \<Rightarrow> ('w, 'm) bus_state_scheme \<Rightarrow> nat" where
  "sends sn s = count_list (cmds sn s) Sn_CR_SEND"

definition no_send :: "u8 \<Rightarrow> ('w, 'm) drv_scheme \<Rightarrow> ('w, 'm) drv_scheme \<Rightarrow> bool" where
  "no_send sn s s' \<longleftrightarrow> sends sn s' = sends sn s"

lemma no_send_refl [simp]: "no_send sn s s"
  by (simp add: no_send_def)

lemma no_send_trans: "\<lbrakk>no_send sn a b; no_send sn b c\<rbrakk> \<Longrightarrow> no_send sn a c"
  by (simp add: no_send_def)

lemma no_send_silent: "\<lbrakk>silent sn s s'; no_send sn s0 s\<rbrakk> \<Longrightarrow> no_send sn s0 s'"
  by (simp add: no_send_def sends_def silent_def)

lemma no_send_same: "\<lbrakk>cmds sn s' = cmds sn s; no_send sn s0 s\<rbrakk> \<Longrightarrow> no_send sn s0 s'"
  by (simp add: no_send_def sends_def)

lemma sends_same: "cmds sn s' = cmds sn s \<Longrightarrow> sends sn s' = sends sn s"
  by (simp add: sends_def)

lemma no_send_fields [simp]:
  "no_send sn s0 (set_sock_io_mode m v1 s) = no_send sn s0 s"
  "no_send sn s0 (set_sock_is_sending m v2 s) = no_send sn s0 s"
  "no_send sn s0 (set_sock_health m h s) = no_send sn s0 s"
  "no_send sn s0 (set_sock_remained_size m v3 s) = no_send sn s0 s"
  "no_send sn s0 (set_sock_pack_info m v4 s) = no_send sn s0 s"
  "no_send sn s0 (set_sock_mode m v5 s) = no_send sn s0 s"
  "no_send sn s0 (sock_state_reset m s) = no_send sn s0 s"
  "no_send sn s0 (s\<lparr>chip_last_error := e\<rparr>) = no_send sn s0 s"
  "no_send sn s0 (call p (SockEnter n) s) = no_send sn s0 s"
  "no_send sn s0 (call p (SockExit n) s) = no_send sn s0 s"
  by (simp_all add: no_send_def sends_def) (simp add: cmds_def)

named_theorems quiet "rules that follow a program text that gives no SEND command"

lemma quiet_CR [quiet]:
  "\<lbrakk>sn < 8; v \<noteq> Sn_CR_SEND; no_send sn s0 s\<rbrakk> \<Longrightarrow> no_send sn s0 (setSn_CR p sn v s)"
  by (simp add: no_send_def sends_def cmds_setSn_CR)

lemma quiet_by:
  assumes "wpt m (\<lambda>_. silent sn s)" and "no_send sn s0 s" and "\<And>v s'. no_send sn s0 s' \<Longrightarrow> Q v s'"
  shows "wpt m Q"
  using assms(1) by (rule wpt_mono) (rule assms(3) [OF no_send_silent [OF _ assms(2)]])

lemma quiet_by_wpo:
  assumes "wpo m (\<lambda>_. silent sn s)" and "no_send sn s0 s" and "\<And>v s'. no_send sn s0 s' \<Longrightarrow> Q v s'"
  shows "wpo m Q"
  using assms(1) by (rule wpo_mono) (rule assms(3) [OF no_send_silent [OF _ assms(2)]])

text \<open>The silent operations, as steps of their own.\<close>

lemma silent_wait_sr:
  assumes "sn < 8"
  shows "wpt (wait_sr_reached p sn w d s) (\<lambda>_. silent sn s)"
proof -
  have "wpt (sr_probe p sn w t) (\<lambda>r s'. silent sn s s' \<and> (case r of Some x \<Rightarrow> silent sn s s' | None \<Rightarrow> True))"
    if "silent sn s t" for t
    unfolding sr_probe_def getSn_SR_def using assms that by (auto intro!: wp silent)
  then show ?thesis
    unfolding wait_sr_reached_def by (auto intro!: wp silent silent_poll_until)
qed

lemma silent_operations:
  assumes "sn < 8"
  shows "wpt (getSn_SR p sn s) (\<lambda>_. silent sn s)" "wpt (getSn_IR p sn s) (\<lambda>_. silent sn s)"
    "wpt (getSIPR p s) (\<lambda>_. silent sn s)" "wpt (setSn_PORT p sn port s) (\<lambda>_. silent sn s)"
    "wpt (wait_cr_accepted p sn d s) (\<lambda>_. silent sn s)"
    "wpt (wait_datagram_cr_accepted p sn t nb s) (\<lambda>_. silent sn s)"
    "wpt (sock_deadline_begin b s) (\<lambda>_. silent sn s)"
    "wpt (wiz_recv_data p sn True len s) (\<lambda>_. silent sn s)"
  using assms unfolding getSn_SR_def getSn_IR_def getSIPR_def setSn_PORT_def
  by (auto intro!: wp silent)

lemma silent_settings:
  assumes "sn < 8"
  shows "silent sn s (setSn_MR p sn v s)" "silent sn s (setSn_IR p sn v s)"
    "silent sn s (wiz_recv_ignore p sn len s)"
  using assms unfolding setSn_MR_def setSn_IR_def by (auto intro!: silent)

lemmas quiet_operations [quiet] =
  silent_operations [THEN quiet_by] silent_wait_sr [THEN quiet_by] silent_settings [THEN no_send_silent]

subsection \<open>Calls that never send\<close>

lemma quiet_close_internal [quiet]:
  assumes "sn < 8" and "no_send sn s0 s" and "\<And>v s'. no_send sn s0 s' \<Longrightarrow> Q v s'"
  shows "wpt (close_internal p sn u d s) Q"
proof -
  have clear: "wpt (close_clear_state p sn ul r t) Q" if "no_send sn s0 t" for ul r t
    unfolding close_clear_state_def Let_def
    by (intro wpt_pair assms(3)) (simp add: that)
  show ?thesis
    unfolding close_internal_def close_command_def Let_def
    using assms(1,2) by (auto intro!: wp quiet clear split: if_splits)
qed

lemma quiet_close [quiet]:
  assumes "no_send sn s0 s" and "\<And>v s'. no_send sn s0 s' \<Longrightarrow> Q v s'"
  shows "wpt (close p sn s) Q"
  unfolding close_def Let_def
  using assms by (auto intro!: wp quiet simp: WIZCHIP_SOCK_NUM_def not_le)

lemma quiet_any_port:
  "no_send sn s0 s \<Longrightarrow> no_send sn s0 (snd (take_any_port p s))"
  by (rule no_send_same) (simp_all add: cmds_def)

lemma quiet_socket_open:
  assumes "sn < 8" and "no_send sn s0 s" and "\<And>v s'. no_send sn s0 s' \<Longrightarrow> Q v s'"
  shows "wpt (socket_open p sn protocol port flag d s) Q"
proof -
  have opened: "Q v (socket_opened_state sn protocol flag t)" if "no_send sn s0 t" for t v
    by (rule assms(3)) (simp add: socket_opened_state_def Let_def that)
  have program: "wpt (socket_program p sn protocol port flag d t) Q" if "no_send sn s0 t" for t
    unfolding socket_program_def Let_def
    by (intro wp quiet assms(1) that opened) (simp_all add: assms(3) that)
  show ?thesis
    unfolding socket_open_def Let_def
    by (intro wp quiet assms program) (simp_all add: assms)
qed

lemma quiet_socket [quiet]:
  assumes "no_send sn s0 s" and "\<And>v s'. no_send sn s0 s' \<Longrightarrow> Q v s'"
  shows "wpt (socket p sn protocol port flag s) Q"
proof (cases "sn < 8")
  case True
  have locked: "wpt (socket_locked p sn protocol port' flag sr t) Q'"
    if "no_send sn s0 t" "\<And>v s'. no_send sn s0 s' \<Longrightarrow> Q' v s'" for port' sr t Q'
    unfolding socket_locked_def Let_def
    using True that(1) by (auto intro!: wp quiet quiet_socket_open intro: that(2))
  have port: "wpt (take_any_port p t) Q'"
    if "no_send sn s0 t" "\<And>v s'. no_send sn s0 s' \<Longrightarrow> Q' v s'" for t Q'
    using that(1) quiet_any_port [OF that(1)] by (simp add: wpt_def that(2))
  show ?thesis
    unfolding socket_def Let_def wizchip_set_last_error_def
    using True assms by (auto intro!: wp quiet locked port split: if_splits)
next
  case False
  then have "socket_args_check sn protocol flag \<noteq> SOCK_OK"
    by (simp add: socket_args_check_def WIZCHIP_SOCK_NUM_def Let_def not_less)
  with assms show ?thesis by (simp add: socket_def Let_def wpt_def)
qed

lemma quiet_recvfrom [quiet]:
  assumes "no_send sn s0 s" and "\<And>v s'. no_send sn s0 s' \<Longrightarrow> Q v s'"
  shows "wpo (recvfrom_IO_6 p sn out len a q s) Q"
proof -
  have packet: "wpt (recvfrom_packet p sn len pl mr nb cfg t) Q'"
    if "sn < 8" "no_send sn s0 t" "\<And>v s'. no_send sn s0 s' \<Longrightarrow> Q' v s'" for pl mr nb cfg t Q'
    unfolding recvfrom_packet_def recvfrom_udp_def recvfrom_macraw_def recvfrom_ipraw_def
      recvfrom_header_def recvfrom_finish_def Let_def
    using that(1,2) by (auto intro!: wp quiet intro: that(3))
  have wait: "wpo (recvfrom_wait p sn nb cfg t) Q'"
    if "sn < 8" "no_send sn s0 t" "\<And>v s'. no_send sn s0 s' \<Longrightarrow> Q' v s'" for nb cfg t Q'
    by (rule quiet_by_wpo [OF _ that(2,3)]) (auto intro!: silent_recvfrom_wait that(1))
  show ?thesis
    unfolding recvfrom_IO_6_def recvfrom_locked_def Let_def
    using assms(1) by (auto intro!: wp wait packet simp: WIZCHIP_SOCK_NUM_def not_le intro: assms(2))
qed

subsection \<open>What a client sees of a call\<close>

text \<open>
  The clients extend the driver's record by their own statics. A socket call leaves these alone,
  and gives at most \<open>k\<close> SEND commands.
\<close>

definition client_step :: "u8 \<Rightarrow> nat \<Rightarrow> ('w, 'm) drv_scheme \<Rightarrow> ('w, 'm) drv_scheme \<Rightarrow> bool" where
  "client_step sn k s s' \<longleftrightarrow> drv.more s' = drv.more s \<and> sends sn s \<le> sends sn s' \<and> sends sn s' \<le> sends sn s + k"

lemma client_stepI:
  "\<lbrakk>isolated sn s s'; no_send sn s s'\<rbrakk> \<Longrightarrow> client_step sn 0 s s'"
  by (simp add: client_step_def isolated_def no_send_def)

lemma client_step_weaken: "\<lbrakk>client_step sn j s s'; j \<le> k\<rbrakk> \<Longrightarrow> client_step sn k s s'"
  by (simp add: client_step_def)

named_theorems client "calls of the socket interface as steps of a client"

lemma wpt_client:
  "\<lbrakk>wpt m (\<lambda>_. isolated sn s); wpt m (\<lambda>_. no_send sn s); \<And>v s'. client_step sn 0 s s' \<Longrightarrow> Q v s'\<rbrakk> \<Longrightarrow> wpt m Q"
  by (simp add: wpt_def client_stepI)

lemma wpo_client:
  "\<lbrakk>wpo m (\<lambda>_. isolated sn s); wpo m (\<lambda>_. no_send sn s); \<And>v s'. client_step sn 0 s s' \<Longrightarrow> Q v s'\<rbrakk> \<Longrightarrow> wpo m Q"
  by (simp add: wpo_def client_stepI)

lemma client_socket [client]:
  assumes "\<And>v s'. client_step sn 0 s s' \<Longrightarrow> Q v s'"
  shows "wpt (socket p sn protocol port flag s) Q"
  by (rule wpt_client [OF isolation.A_socket [OF isolation.A_refl] quiet_socket [OF no_send_refl] assms])

lemma client_close [client]:
  assumes "\<And>v s'. client_step sn 0 s s' \<Longrightarrow> Q v s'"
  shows "wpt (close p sn s) Q"
  by (rule wpt_client [OF isolation.A_close [OF isolation.A_refl] quiet_close [OF no_send_refl] assms])

lemma client_getSn_SR [client]:
  "\<lbrakk>sn < 8; \<And>v s'. client_step sn 0 s s' \<Longrightarrow> Q v s'\<rbrakk> \<Longrightarrow> wpt (getSn_SR p sn s) Q"
  by (rule wpt_client [OF _ silent_operations(1) [THEN quiet_by]])
    (auto simp: getSn_SR_def intro!: isolation.register_rel)

lemma client_getSn_RX_RSR [client]:
  assumes "sn < 8" and "\<And>v s'. client_step sn 0 s s' \<Longrightarrow> Q v s'"
  shows "wpo (getSn_RX_RSR p sn s) Q"
proof (rule wpo_client [OF _ _ assms(2)])
  show "wpo (getSn_RX_RSR p sn s) (\<lambda>_. isolated sn s)"
    by (rule isolation.R_RX_RSR) simp_all
  have "wpo (getSn_RX_RSR p sn s) (\<lambda>_. silent sn s)"
    unfolding getSn_RX_RSR_def getSn_RX_RSR_stable_def using assms(1)
    by (auto intro!: wp silent_waits(1) wpo_mono [OF silent_stable_loop])
  then show "wpo (getSn_RX_RSR p sn s) (\<lambda>_. no_send sn s)"
    by (rule quiet_by_wpo) simp_all
qed

lemma client_recvfrom:
  assumes "\<And>v s'. client_step sn 0 s s' \<Longrightarrow> Q v s'"
  shows "wpo (recvfrom_W5x00 p sn out len a q s) Q"
proof -
  have "wpo (recvfrom_IO_6 p sn out len a q s) Q"
    by (rule wpo_client [OF isolation.A_recvfrom [OF isolation.A_refl] quiet_recvfrom assms]) simp_all
  moreover have "client_step sn 0 s s" by (simp add: client_step_def)
  ultimately show ?thesis
    unfolding recvfrom_W5x00_def by (auto intro!: wp assms)
qed

lemma count_replicate [simp]: "count_list (replicate k x) x = k"
  by (induction k) simp_all

lemma dgram_step_once: "dgram_step len d r k d' \<Longrightarrow> k \<le> 1"
  by (induction rule: dgram_step.induct) simp_all

lemma client_sendto [client]:
  assumes "\<And>v s'. client_step sn 1 s s' \<Longrightarrow> Q v s'"
  shows "wpo (sendto_W5x00 p sn buf len addr port s) Q"
proof -
  have "wpo (sendto_IO_6 p sn buf len addr port 4 s) Q"
  proof (unfold wpo_def, intro allI impI)
    fix r s' assume e: "sendto_IO_6 p sn buf len addr port 4 s = Some (r, s')"
    from sendto_call_refines [OF e] obtain k where "cmds sn s' = replicate k Sn_CR_SEND @ cmds sn s" "k \<le> 1"
      by (auto simp: refines_def dest: dgram_step_once)
    moreover have "isolated sn s s'"
      using isolation.A_sendto [OF isolation.A_refl, of sn s "\<lambda>_. isolated sn s"] e by (auto simp: wpo_def)
    ultimately have "client_step sn 1 s s'"
      by (simp add: client_step_def isolated_def sends_def)
    then show "Q r s'" by (rule assms)
  qed
  moreover have "client_step sn 1 s s" by (simp add: client_step_def)
  ultimately show ?thesis
    unfolding sendto_W5x00_def by (auto intro!: wp assms)
qed

lemma sendto_nothing: "sendto_W5x00 p sn buf 0 addr port s = Some (0, s)"
  by (simp add: sendto_W5x00_def)

subsection \<open>Common registers and the sender of a datagram\<close>

lemma common_not_Sn_CR: "\<lbrakk>a \<in> set common_regs; sn < 8\<rbrakk> \<Longrightarrow> a \<noteq> Sn_CR sn"
  by (drule sock_num_cases) (auto simp: common_regs_def common_reg_defs Sn_CR_def WIZCHIP_SREG_BLOCK_def)

lemma common_registers [simp]:
  "reg_addr reg_MR" "reg_addr reg_GAR" "reg_addr reg_SUBR" "reg_addr reg_SHAR" "reg_addr reg_SIPR"
  "sn < 8 \<Longrightarrow> reg_MR \<noteq> Sn_CR sn" "sn < 8 \<Longrightarrow> reg_GAR \<noteq> Sn_CR sn" "sn < 8 \<Longrightarrow> reg_SUBR \<noteq> Sn_CR sn"
  "sn < 8 \<Longrightarrow> reg_SHAR \<noteq> Sn_CR sn" "sn < 8 \<Longrightarrow> reg_SIPR \<noteq> Sn_CR sn"
  by (simp_all add: common_regs_def common_not_Sn_CR)

lemma client_common [simp]:
  assumes "sn < 8"
  shows "client_step sn 0 s (setSIPR p v s)" "client_step sn 0 s (setSUBR p v s)"
    "client_step sn 0 s (setGAR p v s)" "client_step sn 0 s (setSHAR p v s)" "client_step sn 0 s (setMR p b s)"
  unfolding setSIPR_def setSUBR_def setGAR_def setSHAR_def setMR_def
  by (auto intro!: client_stepI isolation.R_WRITE isolation.R_WRITE_BUF no_send_silent [OF _ no_send_refl]
      silent_WRITE silent_WRITE_BUF simp: assms)

lemma client_getMR [client]:
  assumes "sn < 8" and "\<And>v s'. client_step sn 0 s s' \<Longrightarrow> Q v s'"
  shows "wpt (getMR p s) Q"
  unfolding getMR_def
proof (rule wpt_client [OF _ _ assms(2)])
  show "wpt (WIZCHIP_READ p reg_MR s) (\<lambda>_. isolated sn s)" by (rule isolation.R_READ) simp_all
  show "wpt (WIZCHIP_READ p reg_MR s) (\<lambda>_. no_send sn s)"
    by (rule silent_READ [OF _ silent_refl no_send_silent [OF _ no_send_refl]]) simp_all
qed

lemma client_getSHAR [client]:
  assumes "sn < 8" and "\<And>v s'. \<lbrakk>client_step sn 0 s s'; length v = 6\<rbrakk> \<Longrightarrow> Q v s'"
  shows "wpt (getSHAR p s) Q"
proof -
  let ?read = "WIZCHIP_READ_BUF p reg_SHAR True 6 s"
  have "wpt ?read (\<lambda>_. isolated sn s)" by (rule isolation.R_READ_BUF) simp_all
  moreover have "wpt ?read (\<lambda>_. no_send sn s)"
    by (rule silent_READ_BUF [OF _ _ silent_refl no_send_silent [OF _ no_send_refl]]) simp_all
  moreover have "wpt ?read (\<lambda>v _. length v = 6)" by (rule wpt_READ_BUF) simp_all
  ultimately show ?thesis by (simp add: getSHAR_def wpt_def assms(2) client_stepI)
qed

text \<open>An address that a receive writes has four bytes.\<close>

definition sender_ok :: "dgram_out \<Rightarrow> bool" where
  "sender_ok out \<longleftrightarrow> (\<forall>a. out_addr out = Some a \<longrightarrow> length a = 4)"

lemma sender_ok_none [simp]: "sender_ok no_out"
  by (simp add: sender_ok_def no_out_def)

lemma sender_ok_fields [simp]:
  "sender_ok (out\<lparr>out_data := bs\<rparr>) = sender_ok out" "sender_ok (out\<lparr>out_port := q\<rparr>) = sender_ok out"
  "sender_ok (out\<lparr>out_addr := Some a\<rparr>) = (length a = 4)"
  by (simp_all add: sender_ok_def)

lemma sender_header:
  assumes "sn < 8" and "4 \<le> unat n" and "\<And>ret head s'. 4 \<le> length head \<Longrightarrow> Q (ret, head) s'"
  shows "wpt (recvfrom_header p sn n nb cfg s) Q"
  by (rule wpt_mono [OF recvfrom_header_spec [OF assms(1)]]) (use assms(2,3) in auto)

lemma sender_any:
  "(\<And>v s'. Q v s') \<Longrightarrow> wpt (wiz_recv_data p sn True n s) Q"
  "(\<And>v s'. R v s') \<Longrightarrow> wpt (close_internal p sn f b s) R"
  "(\<And>v s'. T v s') \<Longrightarrow> wpt (recvfrom_finish p sn n nb cfg s) T"
  "(\<And>v s'. U v s') \<Longrightarrow> wpo (recvfrom_wait p sn nb cfg s) U"
  by (simp_all add: wpt_def wpo_def)

lemma sender_packet:
  assumes "sn < 8"
  shows "wpt (recvfrom_packet p sn len pl mr nb cfg s) (\<lambda>x _. sender_ok (snd x))"
proof -
  have udp: "wpt (recvfrom_udp p sn len pl nb cfg s) (\<lambda>x _. sender_ok (snd (snd x)))"
    unfolding recvfrom_udp_def Let_def
    by (auto intro!: wp sender_header [OF assms] sender_any)
  have ipraw: "wpt (recvfrom_ipraw p sn len pl nb cfg s) (\<lambda>x _. sender_ok (snd (snd x)))"
    unfolding recvfrom_ipraw_def Let_def
    by (auto intro!: wp sender_header [OF assms] sender_any)
  have macraw: "wpt (recvfrom_macraw p sn len pl nb cfg s) (\<lambda>x _. sender_ok (snd (snd x)))"
    by (simp add: recvfrom_macraw_def wpt_def split_beta Let_def)
  show ?thesis
    unfolding recvfrom_packet_def Let_def
    by (auto intro!: wp wpt_mono [OF udp] wpt_mono [OF ipraw] wpt_mono [OF macraw] sender_any)
qed

lemma client_recvfrom_sender [client]:
  assumes "\<And>v s'. \<lbrakk>client_step sn 0 s s'; sender_ok (snd v)\<rbrakk> \<Longrightarrow> Q v s'"
  shows "wpo (recvfrom_W5x00 p sn out len a q s) Q"
proof -
  have "wpo (recvfrom_locked p sn len a q t) (\<lambda>x _. sender_ok (snd x))" if "sn < 8" for t
    unfolding recvfrom_locked_def Let_def
    by (auto intro!: wp wpt_mono [OF sender_packet [OF that]] sender_any)
  then have "wpo (recvfrom_W5x00 p sn out len a q s) (\<lambda>x _. sender_ok (snd x))"
    unfolding recvfrom_W5x00_def recvfrom_IO_6_def Let_def split_beta
    by (auto intro!: wpo_if wpo_Some wpo_bind elim!: wpo_mono simp: WIZCHIP_SOCK_NUM_def not_le wpo_def bind_eq_Some_conv)
  moreover have "wpo (recvfrom_W5x00 p sn out len a q s) (\<lambda>_. client_step sn 0 s)"
    by (rule client_recvfrom)
  ultimately show ?thesis by (auto simp: wpo_def intro: assms)
qed

text \<open>Calls of the rest of the driver may do anything to it, but not to the statics of a client.\<close>

definition statics :: "('w, 'm) drv_scheme \<Rightarrow> ('w, 'm) drv_scheme \<Rightarrow> bool" where
  "statics s s' \<longleftrightarrow> drv.more s' = drv.more s"

lemma statics_refl [simp]: "statics s s"
  by (simp add: statics_def)

lemma statics_trans: "\<lbrakk>statics a b; statics b c\<rbrakk> \<Longrightarrow> statics a c"
  by (simp add: statics_def)

lemma statics_client: "client_step sn k s s' \<Longrightarrow> statics s s'"
  by (simp add: statics_def client_step_def)

lemma statics_getsockopt: "wpo (getsockopt p sn sotype arg s) (\<lambda>_. statics s)"
proof -
  have "wpo (getsockopt p sn sotype arg s) (\<lambda>_. isolated sn s)"
    by (rule isolation.A_getsockopt [OF isolation.A_refl])
  then show ?thesis by (rule wpo_mono) (simp add: statics_def isolated_def)
qed

end
