(* ===== verification/Calendar.thy ===== *)
theory Calendar
  imports Prelude
begin

text \<open>
  The calendar of the SNTP client, \<open>Internet/SNTP/sntp.c\<close>: \<open>calcdatetime\<close>, which splits a number
  of seconds since 1900 into a date and a time, and its inverse \<open>changedatetime_to_seconds\<close>, with
  the widths of the source. The reference is a count of days in years and months over the
  natural numbers.
\<close>

unbundle bit_operations_syntax

subsection \<open>The code\<close>

record datetime =
  yy :: u16
  mo :: u8
  dd :: u8
  hh :: u8
  mm :: u8
  ss :: u8

definition SECS_PERDAY :: u64 where "SECS_PERDAY = 86400"
definition EPOCH :: nat where "EPOCH = 1900"

definition is_leap :: "nat \<Rightarrow> bool" where
  "is_leap y \<longleftrightarrow> y mod 400 = 0 \<or> y mod 100 \<noteq> 0 \<and> y mod 4 = 0"

text \<open>The year loop on its variables \<open>n\<close>, \<open>d\<close> and \<open>r\<close> (\<open>y\<close> counts with \<open>r\<close>).\<close>

definition year_secs :: "nat \<Rightarrow> u64" where
  "year_secs y = (if is_leap y then SECS_PERDAY * 366 else SECS_PERDAY * 365)"

function year_loop :: "u64 \<Rightarrow> u64 \<Rightarrow> u16 \<Rightarrow> u64 \<times> u64 \<times> u16" where
  "year_loop n d r =
     (if n < year_secs (EPOCH + unat r) then (n, d, r)
      else year_loop (n - year_secs (EPOCH + unat r))
             (d + (if is_leap (EPOCH + unat r) then 366 else 365)) (r + 1))"
  by pat_completeness auto

termination
proof (relation "measure (\<lambda>(n, d, r). unat n)")
  fix n d :: u64 and r :: u16
  assume n: "\<not> n < year_secs (EPOCH + unat r)"
  have "0 < unat (year_secs (EPOCH + unat r))" by (simp add: year_secs_def SECS_PERDAY_def)
  with n show "((n - year_secs (EPOCH + unat r), d + (if is_leap (EPOCH + unat r) then 366 else 365), r + 1), n, d, r)
      \<in> measure (\<lambda>(n, d, r). unat n)"
    by (simp add: not_less unat_sub word_le_nat_alt)
qed simp

declare year_loop.simps [simp del]

text \<open>Days of month \<open>yf\<close> of the year \<open>y\<close>, 0 when \<open>yf\<close> is no month: the three tests of a round.\<close>

definition month_len :: "nat \<Rightarrow> u8 \<Rightarrow> int" where
  "month_len y yf =
     (if yf = 1 \<or> yf = 3 \<or> yf = 5 \<or> yf = 7 \<or> yf = 8 \<or> yf = 10 \<or> yf = 12 then 31
      else if yf = 2 then (if is_leap y then 29 else 28)
      else if yf = 4 \<or> yf = 6 \<or> yf = 9 \<or> yf = 11 then 30
      else 0)"

text \<open>The months in order, and how many rounds a number beyond them takes to come back.\<close>

lemma month_cases:
  assumes "yf \<le> (12 :: u8)"
  shows "yf = 0 \<or> yf = 1 \<or> yf = 2 \<or> yf = 3 \<or> yf = 4 \<or> yf = 5 \<or> yf = 6 \<or> yf = 7 \<or> yf = 8 \<or> yf = 9
    \<or> yf = 10 \<or> yf = 11 \<or> yf = 12"
proof -
  have "unat yf \<le> 12" using assms by (simp add: word_le_nat_alt)
  then show ?thesis
    by (simp add: word_unat_eq_iff) arith
qed

lemma month_len_bounds: "month_len y yf = 0 \<or> 28 \<le> month_len y yf \<and> month_len y yf \<le> 31"
  by (simp add: month_len_def)

lemma month_len_0: "month_len y yf = 0 \<longleftrightarrow> yf = 0 \<or> 12 < yf"
proof (cases "yf \<le> 12")
  case True
  from month_cases [OF this] show ?thesis
    by (elim disjE) (simp_all add: month_len_def)
next
  case False
  then show ?thesis by (auto simp: month_len_def)
qed

definition rounds_to_month :: "u8 \<Rightarrow> nat" where
  "rounds_to_month yf = (if yf = 0 then 1 else if yf \<le> 12 then 0 else 257 - unat yf)"

lemma rounds_to_month_step:
  assumes "yf = 0 \<or> 12 < yf"
  shows "rounds_to_month (yf + 1) < rounds_to_month yf"
proof (cases "yf = 0 \<or> yf = 255")
  case True
  then show ?thesis by (auto simp: rounds_to_month_def)
next
  case False
  then have "yf < 255" by (simp add: word_less_nat_alt word_unat_eq_iff) (use unat_u8_less [of yf] in linarith)
  note p = unat_plus_one [OF this]
  from False assms have "12 < unat yf" by (simp add: word_less_nat_alt)
  with p \<open>yf < 255\<close> show ?thesis
    by (auto simp: rounds_to_month_def word_le_nat_alt word_less_nat_alt word_unat_eq_iff)
qed

lemma rounds_to_month_le: "rounds_to_month yf \<le> 257"
  by (simp add: rounds_to_month_def)

function month_loop :: "nat \<Rightarrow> u8 \<Rightarrow> int \<Rightarrow> u64 \<Rightarrow> u8 \<times> u64" where
  "month_loop y yf yd rz =
     (if yd < 28 then (yf, rz)
      else let k = month_len y yf in
           if k = 0 then month_loop y (yf + 1) yd rz
           else if yd - k < 0 then (yf, rz)
           else month_loop y (yf + 1) (yd - k) (rz + of_int k))"
  by pat_completeness auto

termination
proof (relation "measure (\<lambda>(y, yf, yd, rz). nat yd * 300 + rounds_to_month yf)")
  fix y :: nat and yf :: u8 and yd :: int and rz :: u64 and k
  assume y: "\<not> yd < 28" and k: "k = month_len y yf"
  show "((y, yf + 1, yd, rz), y, yf, yd, rz) \<in> measure (\<lambda>(y, yf, yd, rz). nat yd * 300 + rounds_to_month yf)"
    if "k = 0"
    using rounds_to_month_step that k by (simp add: month_len_0)
  show "((y, yf + 1, yd - k, rz + of_int k), y, yf, yd, rz)
      \<in> measure (\<lambda>(y, yf, yd, rz). nat yd * 300 + rounds_to_month yf)" if "k \<noteq> 0" "\<not> yd - k < 0"
  proof -
    have "nat (yd - k) + 28 \<le> nat yd" using that month_len_bounds [of y yf] k by auto
    with rounds_to_month_le [of "yf + 1"] show ?thesis by simp
  qed
qed simp

declare month_loop.simps [simp del]

definition calcdatetime :: "u64 \<Rightarrow> datetime" where
  "calcdatetime seconds =
     (let total_d = seconds div SECS_PERDAY;
          (n, d, r) = year_loop seconds 0 0;
          y = r + of_nat EPOCH;
          (yf, rz) = month_loop (unat y) 1 (sint (total_d - d)) 0;
          yr = (ucast (total_d - d - rz) :: u16) + 1;
          seconds = seconds mod SECS_PERDAY
      in \<lparr>yy = y, mo = yf, dd = ucast yr, hh = ucast (seconds div 3600),
          mm = ucast ((seconds mod 3600) div 60), ss = ucast ((seconds mod 3600) mod 60)\<rparr>)"

text \<open>The loops of the inverse: leap years before \<open>l\<close>, and the days of the months before \<open>mo\<close>.\<close>

definition run_year_cnt :: "u16 \<Rightarrow> nat" where
  "run_year_cnt l = length (filter is_leap [EPOCH..<unat l])"

definition days_at :: "u16 \<Rightarrow> nat \<Rightarrow> u32" where
  "days_at l i =
     (if i = 5 \<or> i = 7 \<or> i = 10 \<or> i = 12 then 30
      else if i = 3 then (if is_leap (unat l) then 29 else 28)
      else if i = 2 \<or> i = 4 \<or> i = 6 \<or> i = 8 \<or> i = 9 \<or> i = 11 then 31
      else 0)"

definition changedatetime_to_seconds :: "datetime \<Rightarrow> u64" where
  "changedatetime_to_seconds t =
     (let l = yy t;
          leaps = int (run_year_cnt l);
          total_day = (of_int ((uint l - int EPOCH - leaps) * 365 + leaps * 366) :: u32);
          total_day = fold (\<lambda>i total. total + days_at l i) [1..<Suc (unat (mo t))] total_day;
          seconds = (ucast ((total_day + ucast (dd t) - 1) * 24 * 3600) :: u64)
      in seconds + ucast (ss t) + ucast (mm t) * 60 + ucast (hh t) * 3600)"

subsection \<open>The calendar\<close>

definition year_days :: "nat \<Rightarrow> nat" where
  "year_days y = (if is_leap y then 366 else 365)"

definition days_before_year :: "nat \<Rightarrow> nat" where
  "days_before_year r = sum_list (map (\<lambda>i. year_days (EPOCH + i)) [0..<r])"

definition month_table :: "nat \<Rightarrow> nat list" where
  "month_table y = [31, if is_leap y then 29 else 28, 31, 30, 31, 30, 31, 31, 30, 31, 30, 31]"

definition days_before_month :: "nat \<Rightarrow> nat \<Rightarrow> nat" where
  "days_before_month y m = sum_list (take (m - 1) (month_table y))"

definition valid_datetime :: "datetime \<Rightarrow> bool" where
  "valid_datetime t \<longleftrightarrow> EPOCH \<le> unat (yy t) \<and> 1 \<le> mo t \<and> mo t \<le> 12
     \<and> 1 \<le> dd t \<and> unat (dd t) \<le> month_table (unat (yy t)) ! (unat (mo t) - 1)
     \<and> hh t < 24 \<and> mm t < 60 \<and> ss t < 60"

text \<open>The seconds since 1900 that a date and a time stand for.\<close>

definition civil_seconds :: "datetime \<Rightarrow> nat" where
  "civil_seconds t =
     (days_before_year (unat (yy t) - EPOCH) + days_before_month (unat (yy t)) (unat (mo t)) + unat (dd t) - 1) * 86400
     + unat (hh t) * 3600 + unat (mm t) * 60 + unat (ss t)"

lemma days_before_year_Suc: "days_before_year (Suc r) = days_before_year r + year_days (EPOCH + r)"
  by (simp add: days_before_year_def)

lemma days_before_year_ge: "365 * r \<le> days_before_year r"
  by (induction r) (auto simp: days_before_year_Suc year_days_def)

lemma month_table_length [simp]: "length (month_table y) = 12"
  by (simp add: month_table_def)

lemma month_table_sum: "sum_list (month_table y) = year_days y"
  by (simp add: month_table_def year_days_def)

lemma month_len_table:
  assumes "1 \<le> yf" and "yf \<le> 12"
  shows "month_len y yf = int (month_table y ! (unat yf - 1))"
  using month_cases [OF assms(2)] assms(1)
  by (elim disjE) (simp_all add: month_len_def month_table_def)

lemma days_before_month_Suc:
  assumes "1 \<le> m" and "m \<le> 12"
  shows "days_before_month y (Suc m) = days_before_month y m + month_table y ! (m - 1)"
proof -
  from assms obtain k where "m = Suc k" "k < 12" by (cases m) auto
  then show ?thesis by (simp add: days_before_month_def take_Suc_conv_app_nth)
qed

lemma days_before_month_le:
  assumes "1 \<le> m" and "m \<le> 12"
  shows "days_before_month y m + month_table y ! (m - 1) \<le> year_days y"
proof -
  have "sum_list (take m (month_table y)) \<le> sum_list (take m (month_table y)) + sum_list (drop m (month_table y))"
    by simp
  also have "\<dots> = year_days y"
    by (simp flip: sum_list_append add: month_table_sum)
  finally show ?thesis
    using days_before_month_Suc [OF assms, of y] by (simp add: days_before_month_def)
qed

subsection \<open>The loops follow the calendar\<close>

lemma year_secs_days: "unat (year_secs y) = 86400 * year_days y"
  by (simp add: year_secs_def year_days_def SECS_PERDAY_def)

text \<open>Up to 2^40 seconds no variable of the year loop wraps.\<close>

lemma year_loop_spec:
  assumes "unat n + 86400 * unat d = N" and "unat d = days_before_year (unat r)" and "N < 2 ^ 40"
  shows "case year_loop n d r of (n', d', r') \<Rightarrow> unat n' + 86400 * unat d' = N
     \<and> unat d' = days_before_year (unat r') \<and> unat n' < 86400 * year_days (EPOCH + unat r') \<and> unat r' < 40000"
  using assms
proof (induction n d r rule: year_loop.induct)
  case (1 n d r)
  let ?y = "EPOCH + unat r"
  have r: "unat r < 40000"
    using days_before_year_ge [of "unat r"] 1(2-4) by simp
  show ?case
  proof (cases "n < year_secs ?y")
    case True
    then have "unat n < 86400 * year_days ?y" by (simp add: word_less_nat_alt year_secs_days)
    with True 1(2,3) r show ?thesis by (subst year_loop.simps) simp
  next
    case False
    then have n: "unat (n - year_secs ?y) = unat n - 86400 * year_days ?y" "86400 * year_days ?y \<le> unat n"
      by (simp_all add: not_less unat_sub word_le_nat_alt year_secs_days)
    have d: "unat (d + (if is_leap ?y then 366 else 365)) = unat d + year_days ?y"
      using 1(2,4) by (auto simp: unat_word_ariths year_days_def)
    have r1: "unat (r + 1) = Suc (unat r)"
      using r by (simp add: unat_word_ariths)
    have "unat (n - year_secs ?y) + 86400 * unat (d + (if is_leap ?y then 366 else 365)) = N"
      using 1(2) n by (simp add: d)
    moreover have "unat (d + (if is_leap ?y then 366 else 365)) = days_before_year (unat (r + 1))"
      using 1(3) by (simp add: d r1 days_before_year_Suc)
    ultimately show ?thesis
      using 1(1) [OF False _ _ 1(4)] False by (subst year_loop.simps) simp
  qed
qed

lemma month_loop_spec:
  assumes "1 \<le> yf" and "yf \<le> 12" and "0 \<le> yd" and "unat rz = days_before_month y (unat yf)"
    and "yd + int (unat rz) = int Y" and "Y < year_days y"
  shows "case month_loop y yf yd rz of (m, rz') \<Rightarrow> 1 \<le> m \<and> m \<le> 12 \<and> unat rz' = days_before_month y (unat m)
     \<and> unat rz' \<le> Y \<and> Y < unat rz' + month_table y ! (unat m - 1)"
  using assms
proof (induction y yf yd rz rule: month_loop.induct)
  case (1 y yf yd rz)
  define k where "k = month_len y yf"
  have k: "k = int (month_table y ! (unat yf - 1))" "28 \<le> k" "k \<le> 31"
    using month_len_table [OF 1(3,4)] month_len_bounds [of y yf] month_len_0 [of y yf] 1(3,4)
    by (auto simp: k_def)
  have m: "1 \<le> unat yf" "unat yf \<le> 12"
    using 1(3,4) by (simp_all add: word_le_nat_alt)
  show ?case
  proof (cases "yd < 28 \<or> yd - k < 0")
    case True
    then have "month_loop y yf yd rz = (yf, rz)"
      using k(2) by (subst month_loop.simps) (auto simp: k_def Let_def)
    with True k 1(3-8) show ?thesis by auto
  next
    case False
    have l: "month_loop y yf yd rz = month_loop y (yf + 1) (yd - k) (rz + of_int k)"
      using False k(2) by (subst month_loop.simps) (auto simp: k_def Let_def)
    have "int (unat rz) \<le> int Y" using 1(5,7) by linarith
    then have "unat rz < 366" using 1(8) by (simp only: of_nat_le_iff) (simp add: year_days_def split: if_splits)
    moreover have "unat (of_int k :: u64) = nat k"
      using k(2,3) by (simp add: unsigned_of_int take_bit_eq_mod)
    ultimately have rz: "unat (rz + of_int k) = unat rz + nat k"
      using k(2,3) by (simp add: unat_word_ariths)
    have next_month: "days_before_month y (Suc (unat yf)) = unat rz + nat k"
      using days_before_month_Suc [OF m, of y] 1(6) k(1) by simp
    have "unat yf \<noteq> 12"
    proof
      assume "unat yf = 12"
      then have "days_before_month y (Suc (unat yf)) = year_days y"
        by (simp add: days_before_month_def month_table_sum)
      with next_month False 1(7,8) k(2) show False by linarith
    qed
    with m(2) have y1: "unat (yf + 1) = Suc (unat yf)" "yf + 1 \<le> 12" "1 \<le> yf + 1"
      by (simp_all add: unat_word_ariths word_le_nat_alt)
    show ?thesis
      unfolding l
      using 1(2) [OF _ k_def _ _ y1(3,2)] False k(2) rz next_month y1(1) 1(7,8) by auto
  qed
qed

lemma sint_small:
  assumes "unat (w :: u64) = k" and "k < 2 ^ 63"
  shows "sint w = int k"
proof -
  have "uint w = int k" using assms(1) by (metis uint_nat)
  with assms(2) show ?thesis by (simp add: sint_uint signed_take_bit_int_eq_self)
qed

lemma day_casts:
  assumes "unat (w :: u64) = k" and "k < 31" and "D = Suc k"
  shows "unat (ucast ((ucast w :: u16) + 1) :: u8) = D"
  using assms by (simp add: unat_word_ariths unsigned_ucast_eq take_bit_eq_mod)

lemma time_of_day:
  fixes s :: u64
  shows "unat (ucast (s mod SECS_PERDAY div 3600) :: u8) = unat s mod 86400 div 3600"
    and "unat (ucast (s mod SECS_PERDAY mod 3600 div 60) :: u8) = unat s mod 86400 mod 3600 div 60"
    and "unat (ucast (s mod SECS_PERDAY mod 3600 mod 60) :: u8) = unat s mod 86400 mod 3600 mod 60"
  by (simp_all add: unsigned_ucast_eq take_bit_eq_mod SECS_PERDAY_def unat_div unat_mod)

lemma calcdatetime_spec:
  assumes "unat s < 2 ^ 40"
  shows "valid_datetime (calcdatetime s)" and "civil_seconds (calcdatetime s) = unat s"
proof -
  obtain n d r where l: "year_loop s 0 0 = (n, d, r)" by (metis prod_cases3)
  from year_loop_spec [of s 0 "unat s" 0] assms l
  have n: "unat n + 86400 * unat d = unat s" "unat d = days_before_year (unat r)"
    "unat n < 86400 * year_days (EPOCH + unat r)" "unat r < 40000"
    by (simp_all add: days_before_year_def)
  define Y where "Y = unat n div 86400"
  have Y: "Y < year_days (EPOCH + unat r)" using n(3) by (simp add: Y_def)
  then have Y366: "Y < 366" by (simp add: year_days_def split: if_splits)
  have y: "unat (r + of_nat EPOCH) = EPOCH + unat r"
    using n(4) by (simp add: EPOCH_def unat_word_ariths)
  have s: "unat s div 86400 = unat d + Y"
    unfolding Y_def n(1) [symmetric] by (metis div_mult_self2 add.commute zero_neq_numeral)
  then have td: "unat (s div SECS_PERDAY) = unat d + Y"
    by (simp add: unat_div SECS_PERDAY_def)
  then have yd: "unat (s div SECS_PERDAY - d) = Y"
    by (simp add: unat_sub word_le_nat_alt)
  then have si: "sint (s div SECS_PERDAY - d) = int Y"
    using Y366 by (intro sint_small) simp_all
  obtain yf rz where m: "month_loop (EPOCH + unat r) 1 (int Y) 0 = (yf, rz)" by fastforce
  from month_loop_spec [of 1 "int Y" 0 "EPOCH + unat r" Y] Y m
  have mo: "1 \<le> yf" "yf \<le> 12" "unat rz = days_before_month (EPOCH + unat r) (unat yf)" "unat rz \<le> Y"
    "Y < unat rz + month_table (EPOCH + unat r) ! (unat yf - 1)"
    by (simp_all add: days_before_month_def)
  define D where "D = Y - unat rz + 1"
  have len: "month_table (EPOCH + unat r) ! (unat yf - 1) \<le> 31"
    using month_len_bounds [of "EPOCH + unat r" yf] month_len_table [OF mo(1,2), of "EPOCH + unat r"] by auto
  have "unat (s div SECS_PERDAY - d - rz) = Y - unat rz"
    using mo(4) yd by (simp add: unat_sub word_le_nat_alt)
  then have dd: "unat (ucast ((ucast (s div SECS_PERDAY - d - rz) :: u16) + 1) :: u8) = D"
    using mo(5) len by (intro day_casts) (simp_all add: D_def)
  have c: "calcdatetime s = \<lparr>yy = r + of_nat EPOCH, mo = yf,
      dd = ucast ((ucast (s div SECS_PERDAY - d - rz) :: u16) + 1),
      hh = ucast (s mod SECS_PERDAY div 3600), mm = ucast (s mod SECS_PERDAY mod 3600 div 60),
      ss = ucast (s mod SECS_PERDAY mod 3600 mod 60)\<rparr>"
    using l m by (simp add: calcdatetime_def y si Let_def)
  note t = time_of_day [of s]
  have "D \<le> month_table (EPOCH + unat r) ! (unat yf - 1)" using mo(4,5) by (simp add: D_def)
  moreover have "unat s mod 86400 div 3600 < 24" "unat s mod 86400 mod 3600 div 60 < 60"
    by (simp_all add: less_mult_imp_div_less)
  ultimately show "valid_datetime (calcdatetime s)"
    using t mo(1,2) dd
    by (simp add: c valid_datetime_def y word_less_nat_alt word_le_nat_alt D_def)
  show "civil_seconds (calcdatetime s) = unat s"
    using t mo(3,4) n(2) s div_mult_mod_eq [of "unat s" 86400]
    by (simp add: c civil_seconds_def y dd D_def)
qed

subsection \<open>The inverse follows the calendar\<close>

lemma run_year_cnt_days:
  assumes "unat l = EPOCH + r"
  shows "days_before_year r = 365 * r + run_year_cnt l"
proof -
  have "days_before_year r = 365 * r + length (filter is_leap [EPOCH..<EPOCH + r])"
    by (induction r) (simp_all add: days_before_year_def year_days_def)
  then show ?thesis by (simp add: run_year_cnt_def assms)
qed

lemma days_at_next:
  assumes "1 \<le> m" and "m < 12"
  shows "days_at l (Suc m) = of_nat (month_table (unat l) ! (m - 1))"
proof -
  from assms have "m = 1 \<or> m = 2 \<or> m = 3 \<or> m = 4 \<or> m = 5 \<or> m = 6 \<or> m = 7 \<or> m = 8 \<or> m = 9 \<or> m = 10 \<or> m = 11"
    by arith
  then show ?thesis by (elim disjE) (simp_all add: days_at_def month_table_def)
qed

lemma days_at_sum:
  assumes "1 \<le> m" and "m \<le> 12"
  shows "fold (\<lambda>i n. n + days_at l i) [1..<Suc m] n = n + of_nat (days_before_month (unat l) m)"
  using assms
proof (induction m rule: nat_induct_at_least)
  case base
  then show ?case by (simp add: days_at_def days_before_month_def)
next
  case (Suc m)
  then have "fold (\<lambda>i n. n + days_at l i) [1..<Suc (Suc m)] n
      = n + of_nat (days_before_month (unat l) m) + days_at l (Suc m)"
    by simp
  with Suc show ?case by (simp add: days_at_next days_before_month_Suc)
qed

lemma changedatetime_spec:
  assumes v: "valid_datetime t" and b: "civil_seconds t < 4295030400"
  shows "changedatetime_to_seconds t = of_nat (civil_seconds t)"
proof -
  obtain r where r: "unat (yy t) = EPOCH + r"
    using v by (auto simp: valid_datetime_def le_iff_add)
  define m where "m = days_before_month (unat (yy t)) (unat (mo t))"
  define N where "N = days_before_year r + m + unat (dd t) - 1"
  have dd: "1 \<le> unat (dd t)" using v by (simp add: valid_datetime_def word_le_nat_alt)
  have "(of_int ((uint (yy t) - int EPOCH - int (run_year_cnt (yy t))) * 365 + int (run_year_cnt (yy t)) * 366) :: u32)
      = of_int (int (days_before_year r))"
    using r by (intro arg_cong [where f = of_int]) (simp add: run_year_cnt_days [OF r] uint_nat del: of_nat_unat)
  moreover have "1 \<le> unat (mo t)" "unat (mo t) \<le> 12" using v by (simp_all add: valid_datetime_def word_le_nat_alt)
  ultimately have td: "fold (\<lambda>i n. n + days_at (yy t) i) [1..<Suc (unat (mo t))]
      (of_int ((uint (yy t) - int EPOCH - int (run_year_cnt (yy t))) * 365 + int (run_year_cnt (yy t)) * 366))
      = of_nat (days_before_year r + m)"
    by (simp only: days_at_sum m_def) simp
  have "(of_nat (days_before_year r + m) + ucast (dd t) - 1 :: u32) = of_nat N"
    using dd by (simp add: N_def of_nat_diff)
  moreover have c: "civil_seconds t = N * 86400 + unat (hh t) * 3600 + unat (mm t) * 60 + unat (ss t)"
    by (simp add: civil_seconds_def N_def m_def r)
  moreover from this b have N: "N \<le> 49710" by linarith
  ultimately have "changedatetime_to_seconds t
      = ucast (of_nat N * 24 * 3600 :: u32) + ucast (ss t) + ucast (mm t) * 60 + ucast (hh t) * 3600"
    unfolding changedatetime_to_seconds_def Let_def td by (simp only:)
  also have "(of_nat N * 24 * 3600 :: u32) = of_nat (N * 86400)" by simp
  also have "(ucast (of_nat (N * 86400) :: u32) :: u64) = of_nat (N * 86400)"
    using N unfolding unsigned_of_nat by (subst take_bit_nat_eq_self) simp_all
  finally show ?thesis by (simp add: c)
qed

subsection \<open>Reading a date and writing it back\<close>

text \<open>A date stands for one number of seconds only: year, month and day are found back in the counts.\<close>

lemma step_unique:
  fixes f :: "nat \<Rightarrow> nat"
  assumes "mono f" and "f i \<le> x" and "x < f (Suc i)" and "f j \<le> x" and "x < f (Suc j)"
  shows "i = j"
proof -
  have "f (Suc i) \<le> f j" if "i < j" using monoD [OF assms(1)] that by simp
  moreover have "f (Suc j) \<le> f i" if "j < i" using monoD [OF assms(1)] that by simp
  ultimately show ?thesis using assms(2-5) by (metis linorder_neqE_nat not_less order.trans)
qed

lemma mono_days_before_year: "mono days_before_year"
  by (simp add: mono_iff_le_Suc days_before_year_Suc)

lemma mono_days_before_month: "mono (days_before_month y)"
proof (rule monoI)
  fix m n :: nat
  assume "m \<le> n"
  then obtain k where k: "n - 1 = m - 1 + k" by (metis diff_le_mono le_iff_add)
  show "days_before_month y m \<le> days_before_month y n"
    unfolding days_before_month_def k take_add by simp
qed

lemma valid_day:
  assumes "valid_datetime t"
  shows "days_before_month (unat (yy t)) (unat (mo t)) \<le> days_before_month (unat (yy t)) (unat (mo t)) + unat (dd t) - 1"
    and "days_before_month (unat (yy t)) (unat (mo t)) + unat (dd t) - 1 < days_before_month (unat (yy t)) (Suc (unat (mo t)))"
    and "days_before_month (unat (yy t)) (unat (mo t)) + unat (dd t) - 1 < year_days (unat (yy t))"
    and "1 \<le> unat (dd t)" and "EPOCH \<le> unat (yy t)"
proof -
  have m: "1 \<le> unat (mo t)" "unat (mo t) \<le> 12" and d: "1 \<le> unat (dd t)"
    "unat (dd t) \<le> month_table (unat (yy t)) ! (unat (mo t) - 1)"
    using assms by (simp_all add: valid_datetime_def word_le_nat_alt)
  note next_month = days_before_month_Suc [OF m, of "unat (yy t)"] days_before_month_le [OF m, of "unat (yy t)"]
  show "days_before_month (unat (yy t)) (unat (mo t)) \<le> days_before_month (unat (yy t)) (unat (mo t)) + unat (dd t) - 1"
    "days_before_month (unat (yy t)) (unat (mo t)) + unat (dd t) - 1 < days_before_month (unat (yy t)) (Suc (unat (mo t)))"
    "days_before_month (unat (yy t)) (unat (mo t)) + unat (dd t) - 1 < year_days (unat (yy t))"
    "1 \<le> unat (dd t)"
    using next_month d by linarith+
  show "EPOCH \<le> unat (yy t)" using assms by (simp add: valid_datetime_def)
qed

lemma time_unique:
  assumes "D * 86400 + h * 3600 + m * 60 + s = D' * 86400 + h' * 3600 + m' * 60 + (s' :: nat)"
    and "h < 24" "m < 60" "s < 60" "h' < 24" "m' < 60" "s' < 60"
  shows "D = D' \<and> h = h' \<and> m = m' \<and> s = s'"
proof -
  have "D = D'" using assms by linarith
  then have "h = h'" using assms by linarith
  with \<open>D = D'\<close> have "m = m'" using assms by linarith
  with \<open>D = D'\<close> \<open>h = h'\<close> show ?thesis using assms by linarith
qed

lemma civil_seconds_inject:
  assumes t: "valid_datetime t" and u: "valid_datetime u" and eq: "civil_seconds t = civil_seconds u"
  shows "t = u"
proof -
  let ?days = "\<lambda>t. days_before_month (unat (yy t)) (unat (mo t)) + unat (dd t) - 1"
  let ?all = "\<lambda>t. days_before_year (unat (yy t) - EPOCH) + ?days t"
  have all: "days_before_year (unat (yy v) - EPOCH) + days_before_month (unat (yy v)) (unat (mo v)) + unat (dd v) - 1 = ?all v"
    if "valid_datetime v" for v
    using valid_day(4) [OF that] by simp
  have split: "?all t = ?all u" "unat (hh t) = unat (hh u)" "unat (mm t) = unat (mm u)" "unat (ss t) = unat (ss u)"
    using time_unique [OF eq [unfolded civil_seconds_def all [OF t] all [OF u]]] t u
    by (simp_all add: valid_datetime_def word_less_nat_alt)
  have next_year: "?all v < days_before_year (Suc (unat (yy v) - EPOCH))" if "valid_datetime v" for v
    using valid_day(3,5) [OF that] by (simp add: days_before_year_Suc)
  have "unat (yy t) - EPOCH = unat (yy u) - EPOCH"
    by (rule step_unique [OF mono_days_before_year _ next_year [OF t] _ next_year [OF u, folded split(1)]])
      (use split(1) in simp_all)
  then have y: "unat (yy t) = unat (yy u)" using valid_day(5) [OF t] valid_day(5) [OF u] by simp
  then have days: "?days t = ?days u" using split(1) by simp
  have "unat (mo t) = unat (mo u)"
    by (rule step_unique [OF mono_days_before_month [of "unat (yy t)"], of _ "?days t"])
      (use valid_day(1,2) [OF t] valid_day(1,2) [OF u] y days in simp_all)
  moreover from this have "unat (dd t) = unat (dd u)"
    using days y valid_day(4) [OF t] valid_day(4) [OF u] by simp
  ultimately show ?thesis
    using split(2-4) y by (intro datetime.equality) (simp_all add: word_unat_eq_iff)
qed

text \<open>C31: The two conversions of the SNTP client are inverse to each other, in both directions, up to
  the last day whose first second fits the 32-bit product of \<open>changedatetime_to_seconds\<close>: every
  number of seconds since 1900 below 4295030400 (the first era of the protocol and 17 hours beyond,
  in February 2036) is what \<open>changedatetime_to_seconds\<close> computes from the date that
  \<open>calcdatetime\<close> makes of it, and every valid date that lies before that second is what
  \<open>calcdatetime\<close> makes of its number.\<close>

theorem datetime_roundtrip:
  "(unat s < 4295030400 \<longrightarrow> changedatetime_to_seconds (calcdatetime s) = s)
    \<and> (valid_datetime t \<and> civil_seconds t < 4295030400 \<longrightarrow> calcdatetime (changedatetime_to_seconds t) = t)"
proof (intro conjI impI)
  assume "unat s < 4295030400"
  then show "changedatetime_to_seconds (calcdatetime s) = s"
    using calcdatetime_spec [of s] changedatetime_spec [of "calcdatetime s"] by simp
next
  assume t: "valid_datetime t \<and> civil_seconds t < 4295030400"
  let ?s = "changedatetime_to_seconds t"
  have s: "unat ?s = civil_seconds t"
    using t by (simp add: changedatetime_spec unsigned_of_nat take_bit_nat_eq_self)
  then show "calcdatetime ?s = t"
    using t calcdatetime_spec [of ?s] by (intro civil_seconds_inject) simp_all
qed

text \<open>7 December 2023, and the end of the leap day of 1904.\<close>

definition a_date :: datetime where
  "a_date = \<lparr>yy = 1904, mo = 2, dd = 29, hh = 23, mm = 59, ss = 59\<rparr>"

theorem datetime_roundtrip_witness:
  "changedatetime_to_seconds (calcdatetime 3910903168) = 3910903168
    \<and> calcdatetime (changedatetime_to_seconds a_date) = a_date"
proof -
  have "valid_datetime a_date" "civil_seconds a_date < 4295030400"
    by (simp_all add: a_date_def valid_datetime_def civil_seconds_def days_before_year_def days_before_month_def
        month_table_def year_days_def is_leap_def EPOCH_def upt_conv_Cons)
  then show ?thesis
    using datetime_roundtrip [of 3910903168 a_date] by simp
qed

end
