(* ===== verification/Sntp.thy ===== *)
theory Sntp
  imports Sends Calendar Scripted
begin

text \<open>
  The SNTP client, \<open>Internet/SNTP/sntp.c\<close>, on top of the datagram calls: its statics extend the
  record of the driver. The buffer the application hands over is the memory from its address on,
  a function of the offset.
\<close>

unbundle bit_operations_syntax

subsection \<open>State\<close>

record ntpformat =
  dstaddr :: "u8 list"
  version :: u8
  leap :: u8
  ntp_mode :: u8
  stratum :: u8
  ntp_poll :: u8
  precision :: u8
  rootdelay :: u32
  rootdisp :: u32
  refid :: u8
  reftime :: u64
  org :: u64
  rec_time :: u64
  xmt :: u64

record 'w sntp_drv = "'w drv" +
  NTPformat :: ntpformat
  Nowdatetime :: datetime
  ntpmessage :: "u8 list"
  data_buf :: "nat \<Rightarrow> u8"
  NTP_SOCKET :: u8
  time_zone :: u8
  ntp_retry_cnt :: u16

type_synonym ('a, 'w, 'm) sntp_wait = "('w, 'm) sntp_drv_scheme \<Rightarrow> ('a \<times> ('w, 'm) sntp_drv_scheme) option"

definition MAX_SNTP_BUF_SIZE :: u16 where "MAX_SNTP_BUF_SIZE = 56"
definition ntp_port :: u16 where "ntp_port = 123"

subsection \<open>The time zone\<close>

definition tz_table :: "int list" where
  "tz_table =
    [-(12 * 3600), -(11 * 3600), -(10 * 3600), -(9 * 3600 + 30 * 60), -(9 * 3600),
     -(8 * 3600), -(8 * 3600), -(7 * 3600), -(7 * 3600), -(6 * 3600), -(6 * 3600),
     -(5 * 3600), -(5 * 3600), -(5 * 3600), -(4 * 3600 + 30 * 60), -(4 * 3600), -(4 * 3600),
     -(3 * 3600 + 30 * 60), -(3 * 3600), -(2 * 3600), -(1 * 3600), 0, 0,
     1 * 3600, 1 * 3600, 1 * 3600, 2 * 3600, 2 * 3600, 3 * 3600, 3 * 3600, 3 * 3600 + 30 * 60,
     4 * 3600, 4 * 3600 + 30 * 60, 5 * 3600, 5 * 3600 + 30 * 60, 5 * 3600 + 45 * 60, 6 * 3600,
     6 * 3600 + 30 * 60, 7 * 3600, 8 * 3600, 9 * 3600, 9 * 3600 + 30 * 60, 10 * 3600,
     10 * 3600 + 30 * 60, 11 * 3600, 11 * 3600 + 30 * 60, 12 * 3600, 12 * 3600 + 45 * 60,
     13 * 3600, 14 * 3600]"

definition tz_offset :: "u8 \<Rightarrow> int" where
  "tz_offset tz = (if unat tz < 50 then tz_table ! unat tz else 0)"

definition ntp_seconds :: "(nat \<Rightarrow> u8) \<Rightarrow> nat \<Rightarrow> u64" where
  "ntp_seconds buf idx = fold (\<lambda>i seconds. push_bit 8 seconds OR ucast (buf (idx + i))) [0..<4] 0"

definition get_seconds_from_ntp_server :: "nat \<Rightarrow> ('w, 'm) sntp_drv_scheme \<Rightarrow> ('w, 'm) sntp_drv_scheme" where
  "get_seconds_from_ntp_server idx s =
     (let seconds = ntp_seconds (data_buf s) idx + of_int (tz_offset (time_zone s))
      in s\<lparr>Nowdatetime := calcdatetime seconds\<rparr>)"

subsection \<open>The client\<close>

definition SNTP_init ::
    "u8 \<Rightarrow> u8 list \<Rightarrow> u8 \<Rightarrow> (nat \<Rightarrow> u8) \<Rightarrow> ('w, 'm) sntp_drv_scheme \<Rightarrow> ('w, 'm) sntp_drv_scheme" where
  "SNTP_init sn ntp_server tz buf s =
     (let f = \<lparr>dstaddr = take 4 ntp_server, version = 4, leap = 0, ntp_mode = 3, stratum = 0, ntp_poll = 0,
                precision = 0, rootdelay = 0, rootdisp = 0, refid = 0, reftime = 0, org = 0,
                rec_time = 0, xmt = 1\<rparr>;
          Flag = push_bit 6 (leap f) + push_bit 3 (version f) + ntp_mode f
      in s\<lparr>NTP_SOCKET := sn, time_zone := tz, data_buf := buf, NTPformat := f,
           ntpmessage := (ntpmessage s)[0 := Flag]\<rparr>)"

definition sntp_send :: "'w platform \<Rightarrow> (int, 'w, 'm) sntp_wait" where
  "sntp_send p s =
     sendto_W5x00 p (NTP_SOCKET s) (Some (ntpmessage s)) 48 (Some (dstaddr (NTPformat s))) ntp_port s"

text \<open>The part of the UDP case for an empty receive buffer.\<close>

definition sntp_request :: "'w platform \<Rightarrow> (unit, 'w, 'm) sntp_wait" where
  "sntp_request p s =
     (if ntp_retry_cnt s < 0xFFFF then
        if ntp_retry_cnt s = 0 then do {
          (_, s) \<leftarrow> sntp_send p s;
          Some ((), s\<lparr>ntp_retry_cnt := ntp_retry_cnt s + 1\<rparr>)
        }
        else if ntp_retry_cnt s mod 0xFFF = 0 then do {
          (_, s) \<leftarrow> sntp_send p s;
          Some ((), s\<lparr>ntp_retry_cnt := ntp_retry_cnt s + 1\<rparr>)
        }
        else Some ((), s)
      else let (_, s) = close p (NTP_SOCKET s) (s\<lparr>ntp_retry_cnt := 0\<rparr>) in Some ((), s))"

text \<open>The result, and what is written through \<open>time\<close>.\<close>

definition SNTP_run :: "'w platform \<Rightarrow> (int \<times> datetime option, 'w, 'm) sntp_wait" where
  "SNTP_run p s =
     (let (sr, s) = getSn_SR p (NTP_SOCKET s) s in
      if sr = SOCK_UDP then do {
        (RSR_len, s) \<leftarrow> getSn_RX_RSR p (NTP_SOCKET s) s;
        if 0 < RSR_len then do {
          let RSR_len = (if MAX_SNTP_BUF_SIZE < RSR_len then MAX_SNTP_BUF_SIZE else RSR_len);
          ((_, out), s) \<leftarrow> recvfrom_W5x00 p (NTP_SOCKET s) True RSR_len True True s;
          let s = s\<lparr>data_buf := store_bytes (out_data out) (data_buf s)\<rparr>;
          let s = get_seconds_from_ntp_server 40 s;
          let time = Nowdatetime s;
          let (_, s) = close p (NTP_SOCKET s) (s\<lparr>ntp_retry_cnt := 0\<rparr>);
          Some ((1, Some time), s)
        } else do {
          (_, s) \<leftarrow> sntp_request p s;
          Some ((0, None), s)
        }
      }
      else if sr = SOCK_CLOSED then
        let (_, s) = socket p (NTP_SOCKET s) Sn_MR_UDP ntp_port 0 s in Some ((0, None), s)
      else Some ((0, None), s))"

text \<open>Several calls, with the list of their results, latest first.\<close>

inductive sntp_calls ::
    "'w platform \<Rightarrow> ('w, 'm) sntp_drv_scheme \<Rightarrow> int list \<Rightarrow> ('w, 'm) sntp_drv_scheme \<Rightarrow> bool"
  for p :: "'w platform" where
  sntp_none: "sntp_calls p s [] s"
| sntp_more: "\<lbrakk>sntp_calls p s rs t; SNTP_run p t = Some ((r, time), s')\<rbrakk> \<Longrightarrow> sntp_calls p s (r # rs) s'"

subsection \<open>The client's data across socket calls\<close>

lemma more_kept:
  fixes s s' :: "('w, 'm) sntp_drv_scheme"
  assumes "drv.more s' = drv.more s"
  shows "NTPformat s' = NTPformat s" "Nowdatetime s' = Nowdatetime s" "ntpmessage s' = ntpmessage s"
    "data_buf s' = data_buf s" "NTP_SOCKET s' = NTP_SOCKET s" "time_zone s' = time_zone s"
    "ntp_retry_cnt s' = ntp_retry_cnt s"
  using assms by (cases s; cases s'; simp)+

lemma client_kept:
  fixes s s' :: "('w, 'm) sntp_drv_scheme"
  assumes "client_step sn k s s'"
  shows "Nowdatetime s' = Nowdatetime s" "data_buf s' = data_buf s" "NTP_SOCKET s' = NTP_SOCKET s"
    "time_zone s' = time_zone s" "ntp_retry_cnt s' = ntp_retry_cnt s" "sends sn s' \<le> sends sn s + k"
  using assms by (auto simp: client_step_def dest: more_kept)

lemma sends_client [simp]:
  fixes s :: "('w, 'm) sntp_drv_scheme"
  shows "sends sn (s\<lparr>ntp_retry_cnt := c\<rparr>) = sends sn s" "sends sn (s\<lparr>data_buf := b\<rparr>) = sends sn s"
    "sends sn (s\<lparr>Nowdatetime := t\<rparr>) = sends sn s"
  by (simp_all add: sends_def cmds_def)

subsection \<open>What the client reports\<close>

text \<open>The big-endian value of the four bytes at \<open>idx\<close>.\<close>

definition ntp_value :: "(nat \<Rightarrow> u8) \<Rightarrow> nat \<Rightarrow> nat" where
  "ntp_value buf idx = ((unat (buf idx) * 256 + unat (buf (idx + 1))) * 256 + unat (buf (idx + 2))) * 256
     + unat (buf (idx + 3))"

lemma shift_in:
  assumes "unat (w :: u64) = n" and "n < 2 ^ 56"
  shows "unat (push_bit 8 w OR ucast (b :: u8)) = n * 256 + unat b"
proof -
  have "push_bit 8 w OR ucast b = push_bit 8 w + ucast b"
    by (rule disjunctive_add_eq_or [symmetric])
      (rule bit_word_eqI, auto simp: bit_simps dest: bit_imp_le_length)
  moreover have "unat (push_bit 8 w) = n * 256"
    using assms by (simp add: push_bit_eq_mult unat_word_ariths)
  ultimately show ?thesis
    using assms(2) unat_u8_less [of b] by (simp add: unat_word_ariths)
qed

lemma ntp_seconds_value: "unat (ntp_seconds buf idx) = ntp_value buf idx"
proof -
  have "ntp_seconds buf idx = push_bit 8 (push_bit 8 (push_bit 8 (push_bit 8 0 OR ucast (buf idx))
      OR ucast (buf (idx + 1))) OR ucast (buf (idx + 2))) OR ucast (buf (idx + 3))"
    by (simp add: ntp_seconds_def upt_rec numeral_2_eq_2 numeral_3_eq_3)
  moreover note b = unat_u8_less [of "buf idx"] unat_u8_less [of "buf (idx + 1)"] unat_u8_less [of "buf (idx + 2)"]
  have b0: "unat (push_bit 8 0 OR ucast (buf idx) :: u64) = unat (buf idx)" by simp
  note b1 = shift_in [OF b0, of "buf (idx + 1)"]
  note b2 = shift_in [OF b1, of "buf (idx + 2)"]
  note b3 = shift_in [OF b2, of "buf (idx + 3)"]
  ultimately show ?thesis using b b3 by (simp add: ntp_value_def)
qed

lemma ntp_value_less: "ntp_value buf idx < 2 ^ 32"
  using unat_u8_less [of "buf idx"] unat_u8_less [of "buf (idx + 1)"] unat_u8_less [of "buf (idx + 2)"]
    unat_u8_less [of "buf (idx + 3)"] by (simp add: ntp_value_def)

lemma tz_offset_bounds: "- 43200 \<le> tz_offset tz" "tz_offset tz \<le> 50400"
proof -
  have "list_all (\<lambda>x. - 43200 \<le> x \<and> x \<le> 50400) tz_table" by (simp add: tz_table_def)
  then have "- 43200 \<le> tz_table ! i \<and> tz_table ! i \<le> 50400" if "i < 50" for i
    using that by (simp add: list_all_length tz_table_def)
  then show "- 43200 \<le> tz_offset tz" "tz_offset tz \<le> 50400"
    by (simp_all add: tz_offset_def)
qed

definition local_seconds :: "(nat \<Rightarrow> u8) \<Rightarrow> u8 \<Rightarrow> int" where
  "local_seconds buf tz = int (ntp_value buf 40) + tz_offset tz"

lemma Nowdatetime_correct:
  assumes "0 \<le> local_seconds (data_buf s) (time_zone s)"
  shows "valid_datetime (Nowdatetime (get_seconds_from_ntp_server 40 s))"
    and "int (civil_seconds (Nowdatetime (get_seconds_from_ntp_server 40 s))) = local_seconds (data_buf s) (time_zone s)"
proof -
  let ?n = "local_seconds (data_buf s) (time_zone s)"
  let ?w = "ntp_seconds (data_buf s) 40 + of_int (tz_offset (time_zone s))"
  have "uint (ntp_seconds (data_buf s) 40) = int (ntp_value (data_buf s) 40)"
    by (metis ntp_seconds_value uint_nat)
  moreover have "?n < 2 ^ 40"
    using ntp_value_less [of "data_buf s" 40] tz_offset_bounds(2) [of "time_zone s"] by (simp add: local_seconds_def)
  moreover have "?w = of_int ?n"
    by (simp add: local_seconds_def flip: ntp_seconds_value)
  ultimately have w: "int (unat ?w) = ?n"
    using assms by (simp add: take_bit_eq_mod unsigned_of_int)
  with \<open>?n < 2 ^ 40\<close> have "int (unat ?w) < int (2 ^ 40)" by simp
  then have "unat ?w < 2 ^ 40" by (simp only: of_nat_less_iff)
  from calcdatetime_spec [OF this] w
  show "valid_datetime (Nowdatetime (get_seconds_from_ntp_server 40 s))"
    "int (civil_seconds (Nowdatetime (get_seconds_from_ntp_server 40 s))) = ?n"
    by (simp_all add: get_seconds_from_ntp_server_def)
qed

definition time_reported :: "('w, 'm) sntp_drv_scheme \<Rightarrow> int \<times> datetime option \<Rightarrow> ('w, 'm) sntp_drv_scheme \<Rightarrow> bool" where
  "time_reported s x s' \<longleftrightarrow> (case x of (r, None) \<Rightarrow> r = 0
     | (r, Some t) \<Rightarrow> r = 1 \<and> (0 \<le> local_seconds (data_buf s') (time_zone s)
         \<longrightarrow> valid_datetime t \<and> int (civil_seconds t) = local_seconds (data_buf s') (time_zone s)))"

lemma time_reported_none [simp]: "time_reported s (0, None) t"
  by (simp add: time_reported_def)

subsection \<open>One call\<close>

text \<open>What a call may do: at most one SEND, and only when the counter leaves 0.\<close>

definition request_left :: "('w, 'm) sntp_drv_scheme \<Rightarrow> nat" where
  "request_left s = 1 - unat (ntp_retry_cnt s)"

definition sntp_step :: "('w, 'm) sntp_drv_scheme \<Rightarrow> int \<Rightarrow> ('w, 'm) sntp_drv_scheme \<Rightarrow> bool" where
  "sntp_step s r s' \<longleftrightarrow> NTP_SOCKET s' = NTP_SOCKET s
     \<and> (ntp_retry_cnt s \<le> 1 \<longrightarrow> ntp_retry_cnt s' \<le> 1
         \<and> sends (NTP_SOCKET s) s' + request_left s' \<le> sends (NTP_SOCKET s) s + request_left s + (if r = 1 then 1 else 0))"

lemma small_cnt: "(c :: u16) \<le> 1 \<longleftrightarrow> c = 0 \<or> c = 1"
  by (auto simp: word_le_nat_alt word_unat_eq_iff le_Suc_eq)

lemma sntp_step_sent:
  assumes "client_step (NTP_SOCKET s) 1 s t" and "ntp_retry_cnt s = 0 \<or> 1 < ntp_retry_cnt s"
  shows "sntp_step s 0 (t\<lparr>ntp_retry_cnt := ntp_retry_cnt t + 1\<rparr>)"
  using client_kept [OF assms(1)] assms(2) by (auto simp: sntp_step_def request_left_def small_cnt)

lemma sntp_step_quiet:
  assumes "client_step (NTP_SOCKET s) 0 s t"
  shows "sntp_step s r t"
  using client_kept [OF assms] by (simp add: sntp_step_def request_left_def)

lemma sntp_request_step:
  assumes "NTP_SOCKET s < 8"
  shows "wpo (sntp_request p s) (\<lambda>_. sntp_step s 0)"
proof -
  have sent: "wpo (sntp_send p s) (\<lambda>_ t. client_step (NTP_SOCKET s) 1 s t)"
    unfolding sntp_send_def by (intro client)
  have bind: "wpo (do { (_, t) \<leftarrow> sntp_send p s; Some ((), t\<lparr>ntp_retry_cnt := ntp_retry_cnt t + 1\<rparr>) }) (\<lambda>_. sntp_step s 0)"
    if "ntp_retry_cnt s = 0 \<or> 1 < ntp_retry_cnt s"
    using that by (auto intro!: wp wpo_mono [OF sent] sntp_step_sent)
  have again: "1 < ntp_retry_cnt s" if "ntp_retry_cnt s mod 0xFFF = 0" "ntp_retry_cnt s \<noteq> 0"
  proof -
    have "(1 :: u16) mod 0xFFF = 1"
      by (rule word_unat_eq_iff [THEN iffD2]) (simp only: unat_mod, simp)
    then have "ntp_retry_cnt s \<noteq> 1" using that(1) by (metis one_neq_zero)
    with that(2) have "\<not> ntp_retry_cnt s \<le> 1" by (simp add: small_cnt)
    then show ?thesis by simp
  qed
  have gave_up: "wpt (close p (NTP_SOCKET s) (s\<lparr>ntp_retry_cnt := 0\<rparr>)) (\<lambda>v t. wpo (Some ((), t)) (\<lambda>_. sntp_step s 0))"
    if "\<not> ntp_retry_cnt s < 0xFFFF"
  proof (rule client_close)
    fix t assume "client_step (NTP_SOCKET s) 0 (s\<lparr>ntp_retry_cnt := 0\<rparr>) t"
    from client_kept [OF this] that show "wpo (Some ((), t)) (\<lambda>_. sntp_step s 0)"
      by (auto simp: sntp_step_def small_cnt intro!: wpo_Some)
  qed
  have refl: "sntp_step s 0 s" by (simp add: sntp_step_def)
  consider (first) "ntp_retry_cnt s = 0" | (retry) "ntp_retry_cnt s \<noteq> 0" "ntp_retry_cnt s mod 0xFFF = 0"
    | (wait) "ntp_retry_cnt s \<noteq> 0" "ntp_retry_cnt s mod 0xFFF \<noteq> 0" by argo
  then show ?thesis
  proof cases
    case first
    then show ?thesis using bind by (simp add: sntp_request_def)
  next
    case retry
    then show ?thesis using bind again gave_up
      by (cases "ntp_retry_cnt s < 0xFFFF") (simp_all add: sntp_request_def Let_def wpo_case_prod)
  next
    case wait
    then show ?thesis using refl gave_up
      by (cases "ntp_retry_cnt s < 0xFFFF") (simp_all add: sntp_request_def Let_def wpo_case_prod wpo_Some)
  qed
qed

lemma client_step_trans:
  "\<lbrakk>client_step sn j a b; client_step sn k b c\<rbrakk> \<Longrightarrow> client_step sn (j + k) a c"
  by (auto simp: client_step_def)

lemma sntp_step_after:
  assumes "client_step (NTP_SOCKET s) 0 s t" and "sntp_step t r s'"
  shows "sntp_step s r s'"
  using client_kept [OF assms(1)] assms(2) by (auto simp: sntp_step_def request_left_def)

lemma SNTP_run_spec:
  assumes "NTP_SOCKET s < 8"
  shows "wpo (SNTP_run p s) (\<lambda>x s'. time_reported s x s' \<and> sntp_step s (fst x) s')"
proof -
  let ?sn = "NTP_SOCKET s"
  let ?Q = "\<lambda>x s'. time_reported s x s' \<and> sntp_step s (fst x) s'"
  have none: "?Q (0, None) t" if "sntp_step s 0 t" for t
    using that by simp
  have kept: "NTP_SOCKET t = ?sn" if "client_step ?sn 0 s t" for t
    using client_kept(3) [OF that] .
  have request: "wpo (sntp_request p t) (\<lambda>_ s'. ?Q (0, None) s')" if "client_step ?sn 0 s t" for t
    using kept [OF that] assms
    by (intro wpo_mono [OF sntp_request_step] none sntp_step_after [OF that]) simp_all
  have closed: "wpt (close p (NTP_SOCKET (get_seconds_from_ntp_server 40 (t\<lparr>data_buf := b\<rparr>)))
      (get_seconds_from_ntp_server 40 (t\<lparr>data_buf := b\<rparr>)\<lparr>ntp_retry_cnt := 0\<rparr>))
      (\<lambda>_ s'. ?Q (1, Some (Nowdatetime (get_seconds_from_ntp_server 40 (t\<lparr>data_buf := b\<rparr>)))) s')"
    if c: "client_step ?sn 0 s t" for t b
  proof (rule client_close)
    let ?u = "get_seconds_from_ntp_server 40 (t\<lparr>data_buf := b\<rparr>)"
    have f: "data_buf ?u = b" "time_zone ?u = time_zone t" "NTP_SOCKET ?u = NTP_SOCKET t"
      "sends n ?u = sends n t" for n
      by (simp_all add: get_seconds_from_ntp_server_def Let_def)
    fix s' assume cl: "client_step (NTP_SOCKET ?u) 0 (?u\<lparr>ntp_retry_cnt := 0\<rparr>) s'"
    have "0 \<le> local_seconds b (time_zone s) \<longrightarrow> valid_datetime (Nowdatetime ?u)
        \<and> int (civil_seconds (Nowdatetime ?u)) = local_seconds b (time_zone s)"
      using Nowdatetime_correct [of "t\<lparr>data_buf := b\<rparr>"] client_kept(4) [OF c] by simp
    then have "time_reported s (1, Some (Nowdatetime ?u)) s'"
      using client_kept(2) [OF cl] by (simp add: time_reported_def f)
    moreover have "sntp_step s 1 s'"
      using client_kept [OF c] client_kept [OF cl] by (simp add: sntp_step_def request_left_def f)
    ultimately show "?Q (1, Some (Nowdatetime ?u)) s'" by simp
  qed
  have received: "wpo (recvfrom_W5x00 p (NTP_SOCKET t) True n True True t)
      (\<lambda>_ t'. client_step ?sn 0 s t')" if "client_step ?sn 0 s t" for t n
    using kept [OF that] client_step_trans [OF that] by (auto intro!: client)
  have counted: "wpo (getSn_RX_RSR p (NTP_SOCKET t) t) (\<lambda>_ t'. client_step ?sn 0 s t')"
    if "client_step ?sn 0 s t" for t
    using kept [OF that] assms client_step_trans [OF that] by (auto intro!: client)
  have opened: "wpt (socket p (NTP_SOCKET t) Sn_MR_UDP ntp_port 0 t) (\<lambda>_ s'. ?Q (0, None) s')"
    if "client_step ?sn 0 s t" for t
    using kept [OF that] client_step_trans [OF that] by (auto intro!: client none sntp_step_quiet)
  show ?thesis
    unfolding SNTP_run_def Let_def
    by (rule wpo_case_prod, rule client_getSn_SR [OF assms])
      (auto intro!: wp wpo_mono [OF counted] wpo_mono [OF received] wpo_mono [OF request] wpt_mono [OF closed]
        wpt_mono [OF opened [simplified]] none sntp_step_quiet)
qed

subsection \<open>The properties\<close>

text \<open>C14: The time reported is the server's. \<open>SNTP_run\<close> returns 1 exactly when it writes a date, and then
  the date is a valid calendar date and stands for the seconds since 1900 in bytes 40 to 43 of the
  receive buffer (big-endian) plus the offset of the configured time zone, provided that sum is not
  negative. A timestamp smaller than a western offset, as in the first hours of a new era, is
  outside this contract.\<close>

theorem sntp_time:
  assumes "SNTP_run p s = Some ((r, time), s')" and "NTP_SOCKET s < 8"
  shows "time_reported s (r, time) s'"
  using wpoD [OF SNTP_run_spec [OF assms(2)] assms(1)] by simp

text \<open>A client of time zone 40 (UTC+9) that waits for the answer of its server on socket 3.\<close>

definition sntp_start :: "u8 list \<Rightarrow> u8 list sntp_drv" where
  "sntp_start script = drv.extend (scripted_ready script)
     \<lparr>NTPformat = \<lparr>dstaddr = [10, 0, 0, 1], version = 4, leap = 0, ntp_mode = 3, stratum = 0, ntp_poll = 0,
        precision = 0, rootdelay = 0, rootdisp = 0, refid = 0, reftime = 0, org = 0, rec_time = 0, xmt = 1\<rparr>,
      Nowdatetime = \<lparr>yy = 0, mo = 0, dd = 0, hh = 0, mm = 0, ss = 0\<rparr>, ntpmessage = 0x23 # replicate 47 0,
      data_buf = (\<lambda>_. 0), NTP_SOCKET = 3, time_zone = 40, ntp_retry_cnt = 1\<rparr>"

text \<open>The rest of a datagram of 44 bytes is at hand.\<close>

definition sntp_waiting :: "u8 list sntp_drv" where
  "sntp_waiting = (sntp_start ([0x22, 0, 52, 0, 52, 0, 0] @ replicate 40 0 @ [0xE9, 0x1B, 0x7A, 0x80]))
     \<lparr>sock_mode := (\<lambda>_. Sn_MR_UDP), sock_remained_size := (\<lambda>_. 44)\<rparr>"

theorem sntp_time_witness:
  "\<exists>t s'. SNTP_run scripted sntp_waiting = Some ((1, Some t), s') \<and> time_reported sntp_waiting (1, Some t) s'"
proof -
  have "\<exists>t s'. SNTP_run scripted sntp_waiting = Some ((1, Some t), s')"
    by (simp add: run_defs reg_defs dgram_defs open_defs SNTP_run_def get_seconds_from_ntp_server_def
        sntp_waiting_def sntp_start_def drv.extend_def MAX_SNTP_BUF_SIZE_def forever_code cong: run_cong)
  then obtain t s' where e: "SNTP_run scripted sntp_waiting = Some ((1, Some t), s')" by blast
  have "NTP_SOCKET sntp_waiting < 8" by (simp add: sntp_waiting_def sntp_start_def drv.extend_def)
  from sntp_time [OF e this] e show ?thesis by blast
qed

text \<open>A lost request is lost for good. Over any sequence of \<open>SNTP_run\<close> calls that starts with the retry
  counter at 0 or 1, whatever the chip and the network do, the counter stays there, and the client
  gives at most one SEND command per time it reports plus one: no request is ever repeated and the
  client never gives up, although the code has a retry branch and a limit.\<close>

theorem sntp_never_retries:
  assumes "sntp_calls p s rs s'" and "NTP_SOCKET s < 8" and "ntp_retry_cnt s \<le> 1"
  shows "ntp_retry_cnt s' \<le> 1 \<and> sends (NTP_SOCKET s) s' \<le> sends (NTP_SOCKET s) s + count_list rs 1 + request_left s"
proof -
  have "NTP_SOCKET s' = NTP_SOCKET s \<and> ntp_retry_cnt s' \<le> 1
    \<and> sends (NTP_SOCKET s) s' + request_left s' \<le> sends (NTP_SOCKET s) s + count_list rs 1 + request_left s"
    using assms
  proof induction
    case (sntp_more s rs t r time s')
    then have t: "NTP_SOCKET t = NTP_SOCKET s" "ntp_retry_cnt t \<le> 1"
      "sends (NTP_SOCKET s) t + request_left t \<le> sends (NTP_SOCKET s) s + count_list rs 1 + request_left s"
      by simp_all
    with sntp_more.prems have "sntp_step t r s'"
      using wpoD [OF SNTP_run_spec sntp_more.hyps(2)] by simp
    with t show ?case by (auto simp: sntp_step_def)
  qed simp
  then show ?thesis by simp
qed

theorem sntp_never_retries_witness:
  "\<exists>s'. sntp_calls scripted (sntp_start [0x22]) [0] s'
     \<and> ntp_retry_cnt s' \<le> 1 \<and> sends 3 s' \<le> sends 3 (sntp_start [0x22])"
proof -
  have "\<exists>s'. SNTP_run scripted (sntp_start [0x22]) = Some ((0, None), s')"
    by (simp add: run_defs reg_defs dgram_defs open_defs SNTP_run_def sntp_request_def
        sntp_start_def drv.extend_def forever_code cong: run_cong)
  then obtain s' where e: "SNTP_run scripted (sntp_start [0x22]) = Some ((0, None), s')" by blast
  have s: "NTP_SOCKET (sntp_start [0x22]) = 3" "ntp_retry_cnt (sntp_start [0x22]) = 1"
    by (simp_all add: sntp_start_def drv.extend_def)
  from sntp_more [OF sntp_none e] have c: "sntp_calls scripted (sntp_start [0x22]) [0] s'" by simp
  from sntp_never_retries [OF c] c s show ?thesis by (auto simp: request_left_def)
qed

end
