(* ===== verification/Dns.thy ===== *)
theory Dns
  imports Memory
begin

text \<open>
  The messages of the DNS client, \<open>Internet/DNS/dns.c\<close>: the query it writes and the reply it
  reads. A message is the memory from its first byte on, and a pointer into it is an offset. The
  bytes written to a name buffer are a list, so its length says how far the writes go.
\<close>

unbundle bit_operations_syntax

subsection \<open>Constants and the header\<close>

definition MAX_DNS_BUF_SIZE :: u16 where "MAX_DNS_BUF_SIZE = 256"
definition MAX_DOMAIN_NAME :: int where "MAX_DOMAIN_NAME = 128"
definition MAX_DNS_RETRY :: u8 where "MAX_DNS_RETRY = 2"
definition DNS_WAIT_TIME :: u32 where "DNS_WAIT_TIME = 3"
definition IPPORT_DOMAIN :: u16 where "IPPORT_DOMAIN = 53"
definition DNS_MSG_ID :: u16 where "DNS_MSG_ID = 0x1122"
definition MAXCNAME :: int where "MAXCNAME = MAX_DOMAIN_NAME + drop_bit 1 MAX_DOMAIN_NAME"

definition TYPE_A :: int where "TYPE_A = 1"
definition TYPE_NS :: int where "TYPE_NS = 2"
definition TYPE_CNAME :: int where "TYPE_CNAME = 5"
definition TYPE_SOA :: int where "TYPE_SOA = 6"
definition TYPE_MB :: int where "TYPE_MB = 7"
definition TYPE_MG :: int where "TYPE_MG = 8"
definition TYPE_MR :: int where "TYPE_MR = 9"
definition TYPE_PTR :: int where "TYPE_PTR = 12"
definition TYPE_HINFO :: int where "TYPE_HINFO = 13"
definition TYPE_MX :: int where "TYPE_MX = 15"
definition TYPE_TXT :: int where "TYPE_TXT = 16"

record dhdr =
  dns_id :: u16
  qr :: u8
  opcode :: u8
  aa :: u8
  tc :: u8
  rd :: u8
  ra :: u8
  rcode :: u8
  qdcount :: u16
  ancount :: u16
  nscount :: u16
  arcount :: u16

definition get16 :: "(nat \<Rightarrow> u8) \<Rightarrow> nat \<Rightarrow> u16" where
  "get16 msg cp = push_bit 8 (ucast (msg cp)) + ucast (msg (cp + 1))"

definition put16 :: "u16 \<Rightarrow> u8 list" where
  "put16 i = [ucast (drop_bit 8 i), ucast i]"

subsection \<open>Names\<close>

definition dot :: u8 where "dot = 0x2E"

text \<open>
  One segment: the length byte, after following an indirection, with the position of the
  segment's first byte, \<open>clen\<close> and \<open>indirect\<close>.
\<close>

definition name_segment :: "(nat \<Rightarrow> u8) \<Rightarrow> nat \<Rightarrow> bool \<Rightarrow> int \<Rightarrow> u8 \<times> nat \<times> bool \<times> int" where
  "name_segment msg cp indirect clen =
     (let slen = msg cp; cp = cp + 1;
          clen = (if \<not> indirect then clen + 1 else clen) in
      if slen AND 0xC0 = 0xC0
      then let clen = (if \<not> indirect then clen + 1 else clen);
               cp = unat (slen AND 0x3F) * 256 + unat (msg cp)
           in (msg cp, cp + 1, True, clen)
      else (slen, cp, indirect, clen))"

lemma uint_u8_nonneg: "0 \<le> uint (x :: u8)"
  by simp

lemma segment_fits: "\<not> len \<le> uint (x :: u8) \<Longrightarrow> 0 < len"
  using uint_u8_nonneg [of x] by linarith

text \<open>The result and the bytes written to \<open>buf\<close>; a failure leaves what was written before it.\<close>

function parse_name_loop ::
    "(nat \<Rightarrow> u8) \<Rightarrow> nat \<Rightarrow> bool \<Rightarrow> int \<Rightarrow> nat \<Rightarrow> u8 list \<Rightarrow> int \<Rightarrow> int \<times> u8 list" where
  "parse_name_loop msg cp indirect clen nseg buf len =
     (let (slen, cp, indirect, clen) = name_segment msg cp indirect clen in
      if slen = 0 then
        let buf = (if nseg = 0 then buf @ [dot] else buf) in (clen, buf @ [0])
      else if len - (uint slen + 1) < 0 then (-1, buf)
      else parse_name_loop msg (cp + unat slen) indirect (if \<not> indirect then clen + uint slen else clen)
             (nseg + 1) (buf @ bytes_at msg cp (unat slen) @ [dot]) (len - (uint slen + 1)))"
  by pat_completeness auto

termination
  by (relation "measure (\<lambda>(msg, cp, indirect, clen, nseg, buf, len). nat len)")
    (auto simp: nat_less_iff segment_fits intro: less_le_trans [of _ 0])

declare parse_name_loop.simps [simp del]

definition parse_name :: "(nat \<Rightarrow> u8) \<Rightarrow> nat \<Rightarrow> int \<Rightarrow> int \<times> u8 list" where
  "parse_name msg compressed len = parse_name_loop msg compressed False 0 0 [] len"

subsection \<open>The reply\<close>

definition dns_question :: "(nat \<Rightarrow> u8) \<Rightarrow> nat \<Rightarrow> nat option" where
  "dns_question msg cp =
     (let (len, _) = parse_name msg cp MAXCNAME in
      if len = -1 then None else Some (cp + nat len + 2 + 2))"

definition dns_answer :: "(nat \<Rightarrow> u8) \<Rightarrow> nat \<Rightarrow> u8 list \<Rightarrow> nat option \<times> u8 list" where
  "dns_answer msg cp ip =
     (let (len, _) = parse_name msg cp MAXCNAME in
      if len = -1 then (None, ip)
      else let cp = cp + nat len;
               type = uint (get16 msg cp);
               cp = cp + 2 + 2 + 4 + 2 in
      if type = TYPE_A then (Some (cp + 4), bytes_at msg cp 4)
      else if type = TYPE_CNAME \<or> type = TYPE_MB \<or> type = TYPE_MG \<or> type = TYPE_MR \<or> type = TYPE_NS
        \<or> type = TYPE_PTR
      then let (len, _) = parse_name msg cp MAXCNAME in
           if len = -1 then (None, ip) else (Some (cp + nat len), ip)
      else if type = TYPE_HINFO
      then let cp = cp + 1 + unat (msg cp); cp = cp + 1 + unat (msg cp) in (Some cp, ip)
      else if type = TYPE_MX
      then let cp = cp + 2; (len, _) = parse_name msg cp MAXCNAME in
           if len = -1 then (None, ip) else (Some (cp + nat len), ip)
      else if type = TYPE_SOA
      then let (len, _) = parse_name msg cp MAXCNAME in
           if len = -1 then (None, ip)
           else let cp = cp + nat len; (len, _) = parse_name msg cp MAXCNAME in
                if len = -1 then (None, ip) else (Some (cp + nat len + 4 + 4 + 4 + 4 + 4), ip)
      else (Some cp, ip))"

primrec dns_questions :: "nat \<Rightarrow> (nat \<Rightarrow> u8) \<Rightarrow> nat \<Rightarrow> nat option" where
  "dns_questions 0 msg cp = Some cp"
| "dns_questions (Suc n) msg cp = do { cp \<leftarrow> dns_question msg cp; dns_questions n msg cp }"

primrec dns_answers :: "nat \<Rightarrow> (nat \<Rightarrow> u8) \<Rightarrow> nat \<Rightarrow> u8 list \<Rightarrow> nat option \<times> u8 list" where
  "dns_answers 0 msg cp ip = (Some cp, ip)"
| "dns_answers (Suc n) msg cp ip =
     (let (cp, ip) = dns_answer msg cp ip in
      case cp of None \<Rightarrow> (None, ip) | Some cp \<Rightarrow> dns_answers n msg cp ip)"

definition parse_header :: "(nat \<Rightarrow> u8) \<Rightarrow> dhdr" where
  "parse_header msg =
     (let tmp = get16 msg 2; flag = (\<lambda>m. if tmp AND m \<noteq> 0 then 1 else 0)
      in \<lparr>dns_id = get16 msg 0, qr = flag 0x8000, opcode = ucast (drop_bit 11 tmp AND 0xF), aa = flag 0x0400,
          tc = flag 0x0200, rd = flag 0x0100, ra = flag 0x0080, rcode = ucast (tmp AND 0xF),
          qdcount = get16 msg 4, ancount = get16 msg 6, nscount = get16 msg 8, arcount = get16 msg 10\<rparr>)"

text \<open>The result, the header and the address written through \<open>ip_from_dns\<close>.\<close>

definition parseDNSMSG :: "(nat \<Rightarrow> u8) \<Rightarrow> u8 list \<Rightarrow> int \<times> dhdr \<times> u8 list" where
  "parseDNSMSG msg ip =
     (let h = parse_header msg in
      case dns_questions (unat (qdcount h)) msg 12 of
        None \<Rightarrow> (-1, h, ip)
      | Some cp \<Rightarrow>
          let (cp, ip) = dns_answers (unat (ancount h)) msg cp ip in
          (if cp = None then -1 else if rcode h = 0 then 1 else 0, h, ip))"

subsection \<open>The query\<close>

text \<open>The components of \<open>dname\<close>, up to an empty one or the last.\<close>

function query_name :: "u8 list \<Rightarrow> u8 list" where
  "query_name dname =
     (let seg = takeWhile (\<lambda>c. c \<noteq> dot) dname in
      ucast (of_nat (length seg) :: u16) #
        (if seg = [] then []
         else if dot \<in> set dname then seg @ query_name (drop (length seg + 1) dname)
         else seg @ [0]))"
  by pat_completeness auto

termination
  by (relation "measure length") (auto simp: takeWhile_eq_Nil_iff)

declare query_name.simps [simp del]

text \<open>The message for \<open>DNS_MSGID\<close> \<open>i\<close> (already counted up), with recursion desired.\<close>

definition query_message :: "u16 \<Rightarrow> u16 \<Rightarrow> u8 list \<Rightarrow> u8 list" where
  "query_message i op name =
     put16 i @ put16 (push_bit 11 op OR 0x0100) @ put16 1 @ put16 0 @ put16 0 @ put16 0
     @ query_name name @ put16 0x0001 @ put16 0x0001"

end
