(* ===== verification/DnsProps.thy ===== *)
theory DnsProps
  imports Dns
begin

text \<open>
  The name decoder against the format of names on the wire, the query against the decoder, and
  how far the decoder writes into the caller's buffer.
\<close>

unbundle bit_operations_syntax

subsection \<open>Names on the wire\<close>

text \<open>
  \<open>name_at msg off ls n\<close>: the labels \<open>ls\<close> are encoded at \<open>off\<close>, in \<open>n\<close> bytes there. The target
  of a pointer is no pointer itself.
\<close>

inductive name_at :: "(nat \<Rightarrow> u8) \<Rightarrow> nat \<Rightarrow> u8 list list \<Rightarrow> nat \<Rightarrow> bool"
  for msg :: "nat \<Rightarrow> u8" where
  name_root: "msg off = 0 \<Longrightarrow> name_at msg off [] 1"
| name_label: "\<lbrakk>0 < n; n < 64; unat (msg off) = n; name_at msg (off + 1 + n) ls k\<rbrakk>
    \<Longrightarrow> name_at msg off (bytes_at msg (off + 1) n # ls) (1 + n + k)"
| name_pointer: "\<lbrakk>msg off AND 0xC0 = 0xC0; t = unat (msg off AND 0x3F) * 256 + unat (msg (off + 1));
    msg t AND 0xC0 \<noteq> 0xC0; name_at msg t ls k\<rbrakk> \<Longrightarrow> name_at msg off ls 2"

definition dotted :: "u8 list list \<Rightarrow> u8 list" where
  "dotted ls = concat (map (\<lambda>l. l @ [dot]) ls)"

definition name_size :: "u8 list list \<Rightarrow> nat" where
  "name_size ls = length (dotted ls)"

lemma dotted_simps [simp]:
  "dotted [] = []" "dotted (l # ls) = l @ dot # dotted ls"
  by (simp_all add: dotted_def)

lemma name_size_simps [simp]:
  "name_size [] = 0" "name_size (l # ls) = length l + 1 + name_size ls"
  by (simp_all add: name_size_def)

lemma small_no_pointer:
  assumes "unat (b :: u8) < 64"
  shows "b AND 0xC0 \<noteq> 0xC0"
proof
  assume "b AND 0xC0 = 0xC0"
  moreover have "b AND 0xC0 \<le> b" by (rule word_and_le2)
  ultimately have "0xC0 \<le> b" by simp
  with assms show False by (simp add: word_le_nat_alt)
qed

lemma name_segment_plain:
  "msg cp AND 0xC0 \<noteq> 0xC0 \<Longrightarrow>
    name_segment msg cp ind clen = (msg cp, cp + 1, ind, if ind then clen else clen + 1)"
  by (simp add: name_segment_def)

text \<open>A pointer is as good as the name it points to, two bytes long.\<close>

lemma parse_name_pointer:
  assumes "msg cp AND 0xC0 = 0xC0" and "t = unat (msg cp AND 0x3F) * 256 + unat (msg (cp + 1))"
    and "msg t AND 0xC0 \<noteq> 0xC0"
  shows "parse_name_loop msg cp ind clen nseg buf len
    = parse_name_loop msg t True (if ind then clen else clen + 2) nseg buf len"
proof -
  have "name_segment msg cp ind clen = name_segment msg t True (if ind then clen else clen + 2)"
    using assms by (simp add: name_segment_def Let_def)
  then show ?thesis
    by (subst (1 2) parse_name_loop.simps) simp
qed

lemma parse_name_loop_spec:
  assumes "name_at msg cp ls n" and "int (name_size ls) \<le> len"
  shows "parse_name_loop msg cp ind clen nseg buf len
    = (if ind then clen else clen + int n,
       (if nseg = 0 \<and> ls = [] then buf @ [dot] else buf @ dotted ls) @ [0])"
  using assms
proof (induction arbitrary: ind clen nseg buf len rule: name_at.induct)
  case (name_root off)
  then show ?case
    by (subst parse_name_loop.simps) (simp add: name_segment_plain)
next
  case (name_label n off ls k)
  have np: "msg off AND 0xC0 \<noteq> 0xC0" using name_label.hyps by (intro small_no_pointer) simp
  have u: "uint (msg off) = int n" using name_label.hyps(3) by (metis uint_nat)
  have "msg off \<noteq> 0" using name_label.hyps(1,3) by auto
  with name_label.prems show ?case
    by (subst parse_name_loop.simps)
      (simp add: name_segment_plain [where msg = msg, OF np] u name_label.hyps(3) name_label.IH [simplified])
next
  case (name_pointer off t ls k)
  from parse_name_pointer [OF name_pointer.hyps(1-3)] name_pointer.IH [OF name_pointer.prems]
  show ?case by simp
qed

lemma parse_name_spec:
  assumes "name_at msg cp ls n" and "int (name_size ls) \<le> len"
  shows "parse_name msg cp len = (int n, (if ls = [] then [dot] else dotted ls) @ [0])"
  using parse_name_loop_spec [OF assms] by (simp add: parse_name_def)

subsection \<open>How far the decoder writes\<close>

lemma parse_name_loop_writes:
  assumes "0 \<le> len" and "nseg = 0 \<longrightarrow> buf = [] \<and> 1 \<le> len"
  shows "int (length (snd (parse_name_loop msg cp ind clen nseg buf len))) \<le> int (length buf) + len + 1"
  using assms
proof (induction msg cp ind clen nseg buf len rule: parse_name_loop.induct)
  case (1 msg cp ind clen nseg buf len)
  obtain slen cp' ind' clen' where seg: "name_segment msg cp ind clen = (slen, cp', ind', clen')"
    by (metis prod_cases4)
  show ?case
  proof (cases "slen = 0 \<or> len - (uint slen + 1) < 0")
    case True
    with 1(2,3) seg show ?thesis by (subst parse_name_loop.simps) auto
  next
    case False
    then have step: "int (length (snd (parse_name_loop msg (cp' + unat slen) ind' (if \<not> ind' then clen' + uint slen else clen')
        (nseg + 1) (buf @ bytes_at msg cp' (unat slen) @ [dot]) (len - (uint slen + 1)))))
      \<le> int (length (buf @ bytes_at msg cp' (unat slen) @ [dot])) + (len - (uint slen + 1)) + 1"
      by (intro 1(1) [OF seg [symmetric] refl refl refl]) simp_all
    have "parse_name_loop msg cp ind clen nseg buf len
        = parse_name_loop msg (cp' + unat slen) ind' (if \<not> ind' then clen' + uint slen else clen')
            (nseg + 1) (buf @ bytes_at msg cp' (unat slen) @ [dot]) (len - (uint slen + 1))"
      using False seg by (subst parse_name_loop.simps) simp
    with step show ?thesis by simp
  qed
qed

lemma parse_name_writes_at_most:
  assumes "1 \<le> len"
  shows "int (length (snd (parse_name msg cp len))) \<le> len + 1"
  using parse_name_loop_writes [of len 0 "[]" msg cp False 0] assms by (simp add: parse_name_def)

text \<open>C33: \<open>parse_name\<close> can write one byte beyond the buffer it is given. Called as the reply parser
  calls it, with the size \<open>MAXCNAME\<close> of the caller's array, it never writes more than
  \<open>MAXCNAME + 1\<close> bytes, whatever the message holds; but it accepts every well-formed name whose
  labels and dots take \<open>MAXCNAME\<close> bytes, as three labels of the maximal length 63 do, and writes
  exactly \<open>MAXCNAME + 1\<close> bytes for it: the terminator is not accounted for.\<close>

theorem parse_name_overrun:
  assumes "name_at msg cp ls n" and "int (name_size ls) = MAXCNAME"
  shows "int (length (snd (parse_name msg' cp' MAXCNAME))) \<le> MAXCNAME + 1
    \<and> fst (parse_name msg cp MAXCNAME) = int n
    \<and> int (length (snd (parse_name msg cp MAXCNAME))) = MAXCNAME + 1"
proof -
  have "ls \<noteq> []" using assms(2) by (auto simp: MAXCNAME_def MAX_DOMAIN_NAME_def)
  moreover have "(1 :: int) \<le> MAXCNAME" by (simp add: MAXCNAME_def MAX_DOMAIN_NAME_def)
  ultimately show ?thesis
    using parse_name_spec [OF assms(1), of MAXCNAME] assms(2) parse_name_writes_at_most [of MAXCNAME msg' cp']
    by (simp add: name_size_def)
qed

subsection \<open>The query names its labels\<close>

text \<open>A host name as the application gives it, and its form on the wire.\<close>

fun host_name :: "u8 list list \<Rightarrow> u8 list" where
  "host_name [] = []"
| "host_name [l] = l"
| "host_name (l # ls) = l @ dot # host_name ls"

definition wire_name :: "u8 list list \<Rightarrow> u8 list" where
  "wire_name ls = concat (map (\<lambda>l. of_nat (length l) # l) ls) @ [0]"

definition labels_ok :: "u8 list list \<Rightarrow> bool" where
  "labels_ok ls \<longleftrightarrow> (\<forall>l \<in> set ls. l \<noteq> [] \<and> dot \<notin> set l \<and> length l < 64)"

lemma labels_ok_Cons [simp]:
  "labels_ok (l # ls) \<longleftrightarrow> l \<noteq> [] \<and> dot \<notin> set l \<and> length l < 64 \<and> labels_ok ls"
  by (auto simp: labels_ok_def)

lemma wire_name_simps [simp]:
  "wire_name [] = [0]" "wire_name (l # ls) = of_nat (length l) # l @ wire_name ls"
  by (simp_all add: wire_name_def)

lemma takeWhile_label:
  assumes "dot \<notin> set l"
  shows "takeWhile (\<lambda>c. c \<noteq> dot) l = l" "takeWhile (\<lambda>c. c \<noteq> dot) (l @ dot # r) = l"
proof -
  have "\<forall>c \<in> set l. c \<noteq> dot" using assms by auto
  then show "takeWhile (\<lambda>c. c \<noteq> dot) l = l" "takeWhile (\<lambda>c. c \<noteq> dot) (l @ dot # r) = l"
    by (simp_all add: takeWhile_append2 takeWhile_eq_all_conv)
qed

lemma query_name_host:
  assumes "labels_ok ls" and "ls \<noteq> []"
  shows "query_name (host_name ls) = wire_name ls"
  using assms
proof (induction ls rule: host_name.induct)
  case (2 l)
  then show ?case
    by (subst query_name.simps) (simp add: takeWhile_label Let_def unsigned_of_nat take_bit_nat_eq_self)
next
  case (3 l m ls)
  then show ?case
    by (subst query_name.simps) (simp add: takeWhile_label Let_def unsigned_of_nat take_bit_nat_eq_self)
qed simp

lemma name_at_wire:
  assumes "labels_ok ls" and "stands msg off (wire_name ls)"
  shows "name_at msg off ls (length (wire_name ls))"
  using assms
proof (induction ls arbitrary: off)
  case Nil
  then show ?case using name_root [of msg off] by simp
next
  case (Cons l ls)
  then have n: "unat (msg off) = length l" by (simp add: unsigned_of_nat take_bit_nat_eq_self)
  have l: "bytes_at msg (off + 1) (length l) = l"
    using Cons.prems(2) by (simp add: stands_bytes)
  have "name_at msg (off + 1 + length l) ls (length (wire_name ls))"
    using Cons.IH Cons.prems by (simp add: ac_simps)
  from name_label [OF _ _ n this, unfolded l] Cons.prems(1) show ?case by simp
qed

lemma dotted_host: "ls \<noteq> [] \<Longrightarrow> dotted ls = host_name ls @ [dot]"
  by (induction ls rule: host_name.induct) simp_all

subsection \<open>A query and its reply\<close>

lemma get16_join: "get16 msg cp = join16 (msg cp) (msg (cp + 1))"
  unfolding get16_def join16_def
  by (rule disjunctive_add_eq_or) (rule bit_word_eqI, auto simp: bit_simps dest: bit_imp_le_length)

lemma put16_bytes: "put16 v = [hi8 v, lo8 v]"
  by (simp add: put16_def hi8_def lo8_def)

lemma get16_stands: "stands msg off (put16 v) \<Longrightarrow> get16 msg off = v"
  by (simp add: get16_join put16_bytes)

lemma length_put16 [simp]: "length (put16 v) = 2"
  by (simp add: put16_def)

text \<open>
  A name in a reply: labels, and then the root or a compression pointer. What a pointer stands for
  is read from the message.
\<close>

datatype name_end = Root | At nat

record wire_dname =
  own_labels :: "u8 list list"
  name_end :: name_end

definition dname_wire :: "wire_dname \<Rightarrow> u8 list" where
  "dname_wire n = concat (map (\<lambda>l. of_nat (length l) # l) (own_labels n))
     @ (case name_end n of Root \<Rightarrow> [0] | At t \<Rightarrow> [of_nat (0xC0 + t div 256), of_nat (t mod 256)])"

text \<open>A pointer reaches 16384 bytes, to a name that is no pointer; all labels fit the buffers of the client.\<close>

definition dname_ok :: "(nat \<Rightarrow> u8) \<Rightarrow> wire_dname \<Rightarrow> bool" where
  "dname_ok msg n \<longleftrightarrow> labels_ok (own_labels n) \<and> (case name_end n of
     Root \<Rightarrow> int (name_size (own_labels n)) \<le> MAXCNAME
   | At t \<Rightarrow> t < 16384 \<and> msg t AND 0xC0 \<noteq> 0xC0
       \<and> (\<exists>ls k. name_at msg t ls k \<and> int (name_size (own_labels n @ ls)) \<le> MAXCNAME))"

text \<open>The data of a record, one constructor for each shape that the client knows.\<close>

datatype rdata = Address "u8 list" | Named int wire_dname | Host "u8 list" "u8 list"
  | Exchange u16 wire_dname | Authority wire_dname wire_dname "u8 list"

record dns_record =
  owner :: wire_dname
  class_ttl :: "u8 list"
  rdata :: rdata

fun rdata_type :: "rdata \<Rightarrow> int" where
  "rdata_type (Address a) = TYPE_A"
| "rdata_type (Named t n) = t"
| "rdata_type (Host cpu os) = TYPE_HINFO"
| "rdata_type (Exchange pref n) = TYPE_MX"
| "rdata_type (Authority m r nums) = TYPE_SOA"

fun rdata_wire :: "rdata \<Rightarrow> u8 list" where
  "rdata_wire (Address a) = a"
| "rdata_wire (Named t n) = dname_wire n"
| "rdata_wire (Host cpu os) = of_nat (length cpu) # cpu @ of_nat (length os) # os"
| "rdata_wire (Exchange pref n) = put16 pref @ dname_wire n"
| "rdata_wire (Authority m r nums) = dname_wire m @ dname_wire r @ nums"

fun rdata_ok :: "(nat \<Rightarrow> u8) \<Rightarrow> rdata \<Rightarrow> bool" where
  "rdata_ok msg (Address a) \<longleftrightarrow> length a = 4"
| "rdata_ok msg (Named t n) \<longleftrightarrow> t \<in> {TYPE_CNAME, TYPE_MB, TYPE_MG, TYPE_MR, TYPE_NS, TYPE_PTR} \<and> dname_ok msg n"
| "rdata_ok msg (Host cpu os) \<longleftrightarrow> length cpu < 256 \<and> length os < 256"
| "rdata_ok msg (Exchange pref n) \<longleftrightarrow> dname_ok msg n"
| "rdata_ok msg (Authority m r nums) \<longleftrightarrow> dname_ok msg m \<and> dname_ok msg r \<and> length nums = 20"

definition record_wire :: "dns_record \<Rightarrow> u8 list" where
  "record_wire r = dname_wire (owner r) @ put16 (of_int (rdata_type (rdata r))) @ class_ttl r
     @ put16 (of_nat (length (rdata_wire (rdata r)))) @ rdata_wire (rdata r)"

definition record_ok :: "(nat \<Rightarrow> u8) \<Rightarrow> dns_record \<Rightarrow> bool" where
  "record_ok msg r \<longleftrightarrow> dname_ok msg (owner r) \<and> length (class_ttl r) = 6 \<and> rdata_ok msg (rdata r)"

text \<open>The address that a list of records gives to the host: the last one, if there is one.\<close>

definition last_address :: "dns_record list \<Rightarrow> u8 list \<Rightarrow> u8 list" where
  "last_address rs ip = fold (\<lambda>r ip. case rdata r of Address a \<Rightarrow> a | _ \<Rightarrow> ip) rs ip"

text \<open>
  A reply: the identifier and the question of the query, the records of the answer, and whatever
  follows them.
\<close>

definition dns_reply :: "u8 list \<Rightarrow> u16 \<Rightarrow> u16 \<Rightarrow> u16 \<Rightarrow> dns_record list \<Rightarrow> u8 list" where
  "dns_reply query flags ns ar rs =
     take 2 query @ put16 flags @ put16 1 @ put16 (of_nat (length rs)) @ put16 ns @ put16 ar @ drop 12 query
     @ concat (map record_wire rs)"

lemma pointer_bytes:
  assumes "t < 16384"
  shows "(of_nat (0xC0 + t div 256) :: u8) AND 0xC0 = 0xC0"
    and "unat ((of_nat (0xC0 + t div 256) :: u8) AND 0x3F) * 256 + unat (of_nat (t mod 256) :: u8) = t"
proof -
  have all: "\<forall>q\<in>set [0..<64]. (of_nat (0xC0 + q) :: u8) AND 0xC0 = 0xC0 \<and> unat ((of_nat (0xC0 + q) :: u8) AND 0x3F) = q"
    by code_simp
  have "t div 256 \<in> set [0..<64]" using assms by auto
  with all have q: "(of_nat (0xC0 + t div 256) :: u8) AND 0xC0 = 0xC0"
    "unat ((of_nat (0xC0 + t div 256) :: u8) AND 0x3F) = t div 256" by blast+
  show "(of_nat (0xC0 + t div 256) :: u8) AND 0xC0 = 0xC0" by (rule q(1))
  show "unat ((of_nat (0xC0 + t div 256) :: u8) AND 0x3F) * 256 + unat (of_nat (t mod 256) :: u8) = t"
    unfolding q(2) by (simp add: unsigned_of_nat take_bit_nat_eq_self)
qed

lemma name_at_labels:
  assumes "labels_ok ls" and "stands msg off (concat (map (\<lambda>l. of_nat (length l) # l) ls))"
    and "name_at msg (off + length (concat (map (\<lambda>l. (of_nat (length l) :: u8) # l) ls))) ms k"
  shows "name_at msg off (ls @ ms) (length (concat (map (\<lambda>l. (of_nat (length l) :: u8) # l) ls)) + k)"
  using assms
proof (induction ls arbitrary: off)
  case (Cons l ls)
  then have n: "unat (msg off) = length l" by (simp add: unsigned_of_nat take_bit_nat_eq_self)
  have l: "bytes_at msg (off + 1) (length l) = l"
    using Cons.prems(2) by (simp add: stands_bytes)
  have "name_at msg (off + 1 + length l) (ls @ ms) (length (concat (map (\<lambda>l. (of_nat (length l) :: u8) # l) ls)) + k)"
    by (rule Cons.IH) (use Cons.prems in \<open>simp_all add: ac_simps\<close>)
  from name_label [OF _ _ n this, unfolded l] Cons.prems(1) show ?case by (simp add: ac_simps)
qed simp

lemma dname_at:
  assumes "dname_ok msg n" and "stands msg off (dname_wire n)"
  shows "\<exists>ls. name_at msg off ls (length (dname_wire n)) \<and> int (name_size ls) \<le> MAXCNAME"
proof (cases "name_end n")
  case Root
  then have "name_at msg off (own_labels n @ []) (length (dname_wire n))"
    using assms name_at_labels [of "own_labels n" msg off "[]" 1] name_root
    by (simp add: dname_ok_def dname_wire_def)
  then show ?thesis using assms(1) Root by (auto simp: dname_ok_def)
next
  case (At t)
  let ?own = "concat (map (\<lambda>l. (of_nat (length l) :: u8) # l) (own_labels n))"
  obtain ls k where t: "t < 16384" "msg t AND 0xC0 \<noteq> 0xC0" "name_at msg t ls k"
    "int (name_size (own_labels n @ ls)) \<le> MAXCNAME"
    using assms(1) At by (auto simp: dname_ok_def)
  have "name_at msg (off + length ?own) ls 2"
    by (rule name_pointer [OF _ _ t(2,3)]) (use assms(2) At pointer_bytes [OF t(1)] in \<open>simp_all add: dname_wire_def\<close>)
  then have "name_at msg off (own_labels n @ ls) (length (dname_wire n))"
    using assms At name_at_labels [of "own_labels n" msg off ls 2] by (simp add: dname_ok_def dname_wire_def)
  then show ?thesis using t(4) by blast
qed

lemma parse_dname:
  assumes "dname_ok msg n" and "stands msg off (dname_wire n)"
  shows "\<exists>w. parse_name msg off MAXCNAME = (int (length (dname_wire n)), w)"
  using dname_at [OF assms] parse_name_spec by blast

lemma type_uint: "t \<in> {0..<65536} \<Longrightarrow> uint (of_int t :: u16) = t"
  by (simp add: uint_word_of_int_eq take_bit_int_eq_self)

lemmas dns_types = TYPE_A_def TYPE_NS_def TYPE_CNAME_def TYPE_SOA_def TYPE_MB_def TYPE_MG_def TYPE_MR_def
  TYPE_PTR_def TYPE_HINFO_def TYPE_MX_def

text \<open>A record is skipped, and its address taken if it has one.\<close>

lemma answer_record:
  assumes "record_ok msg r" and "stands msg off (record_wire r)"
  shows "dns_answer msg off ip
    = (Some (off + length (record_wire r)), case rdata r of Address a \<Rightarrow> a | _ \<Rightarrow> ip)"
proof -
  let ?n = "length (dname_wire (owner r))" and ?t = "rdata_type (rdata r)"
  obtain w where name: "parse_name msg off MAXCNAME = (int ?n, w)"
    using parse_dname [of msg "owner r" off] assms by (auto simp: record_ok_def record_wire_def)
  have type: "uint (get16 msg (off + ?n)) = ?t"
  proof -
    have "get16 msg (off + ?n) = of_int ?t"
      using assms(2) by (intro get16_stands) (simp add: record_wire_def)
    moreover have "?t \<in> {0..<65536}"
      using assms(1) by (cases "rdata r") (auto simp: record_ok_def dns_types)
    ultimately show ?thesis by (simp only: type_uint)
  qed
  have data: "stands msg (off + ?n + 10) (rdata_wire (rdata r))"
    using assms by (simp add: record_ok_def record_wire_def ac_simps)
  have len: "length (record_wire r) = ?n + 10 + length (rdata_wire (rdata r))"
    using assms(1) by (simp add: record_ok_def record_wire_def)
  have ok: "rdata_ok msg (rdata r)" using assms(1) by (simp add: record_ok_def)
  show ?thesis
  proof (cases "rdata r")
    case (Address a)
    then show ?thesis
      using name type data len ok stands_bytes [of msg "off + ?n + 10" a]
      by (simp add: dns_answer_def Let_def TYPE_A_def ac_simps)
  next
    case (Named t n)
    then obtain w' where "parse_name msg (off + ?n + 10) MAXCNAME = (int (length (dname_wire n)), w')"
      using parse_dname [of msg n "off + ?n + 10"] data ok by auto
    with Named name type len ok show ?thesis
      by (auto simp: dns_answer_def Let_def dns_types ac_simps)
  next
    case (Host cpu os)
    then show ?thesis
      using name type data len ok
      by (simp add: dns_answer_def Let_def dns_types unsigned_of_nat take_bit_nat_eq_self ac_simps)
  next
    case (Exchange pref n)
    then obtain w' where "parse_name msg (off + ?n + 12) MAXCNAME = (int (length (dname_wire n)), w')"
      using parse_dname [of msg n "off + ?n + 12"] data ok by (auto simp: ac_simps)
    with Exchange name type len ok show ?thesis
      by (auto simp: dns_answer_def Let_def dns_types ac_simps)
  next
    case (Authority m q nums)
    then obtain w' w'' where "parse_name msg (off + ?n + 10) MAXCNAME = (int (length (dname_wire m)), w')"
      "parse_name msg (off + ?n + 10 + length (dname_wire m)) MAXCNAME = (int (length (dname_wire q)), w'')"
      using parse_dname [of msg m "off + ?n + 10"] parse_dname [of msg q "off + ?n + 10 + length (dname_wire m)"] data ok
      by auto
    with Authority name type len ok show ?thesis
      by (auto simp: dns_answer_def Let_def dns_types ac_simps)
  qed
qed

lemma answer_records:
  assumes "\<forall>r\<in>set rs. record_ok msg r" and "stands msg off (concat (map record_wire rs))"
  shows "dns_answers (length rs) msg off ip
    = (Some (off + length (concat (map record_wire rs))), last_address rs ip)"
  using assms
proof (induction rs arbitrary: off ip)
  case (Cons r rs)
  then show ?case
    using answer_record [of msg r off ip] by (simp add: last_address_def ac_simps)
qed (simp add: last_address_def)

lemma query_parts:
  assumes "labels_ok ls" and "ls \<noteq> []"
  shows "take 2 (query_message i op (host_name ls)) = put16 i"
    and "drop 12 (query_message i op (host_name ls)) = wire_name ls @ put16 1 @ put16 1"
  by (simp_all add: query_message_def query_name_host [OF assms] put16_def)

lemma wire_first:
  assumes "labels_ok ls" and "stands msg off (wire_name ls)"
  shows "msg off AND 0xC0 \<noteq> 0xC0"
  using assms by (cases ls) (auto intro!: small_no_pointer simp: unsigned_of_nat take_bit_nat_eq_self)

lemma low_nibble: "(ucast (v AND 0xF :: u16) :: u8) = 0 \<longleftrightarrow> v AND 0xF = 0"
proof -
  have "v AND 0xF \<le> 0xF" by (rule word_and_le1)
  then have "unat (v AND 0xF) < 256" by (simp add: word_le_nat_alt)
  then show ?thesis by (simp add: word_unat_eq_iff unsigned_ucast_eq take_bit_nat_eq_self)
qed

text \<open>C8: The client understands every reply to its own query. For a host name of non-empty labels shorter
  than 64 bytes that fits the name buffers, take any reply to the message that \<open>dns_makequery\<close> builds:
  with its identifier and its question echoed, and any list of answers of the types A, CNAME, MB, MG, MR,
  NS, PTR, HINFO, MX and SOA, whose names are written out or compressed with pointers anywhere into the
  message (each to a name that is no pointer itself), and anything after them. It parses to the
  identifier of the query and to the four bytes of the last address record, or leaves the address as it
  was when there is none; the result is 1 when the response code is 0, and 0 otherwise.\<close>

theorem dns_reply_address:
  assumes "labels_ok ls" and "ls \<noteq> []" and "int (name_size ls) \<le> MAXCNAME" and "length rs < 65536"
    and "stands msg 0 (dns_reply (query_message i op (host_name ls)) flags ns ar rs)"
    and "\<forall>r\<in>set rs. record_ok msg r"
  shows "parseDNSMSG msg ip = (if flags AND 0xF = 0 then 1 else 0, parse_header msg, last_address rs ip)
    \<and> dns_id (parse_header msg) = i"
proof -
  define w where "w = wire_name ls"
  have st: "stands msg 0 (put16 i @ put16 flags @ put16 1 @ put16 (of_nat (length rs)) @ put16 ns @ put16 ar
      @ (w @ put16 1 @ put16 1) @ concat (map record_wire rs))"
    using assms(5) by (simp only: dns_reply_def query_parts [OF assms(1,2)] w_def)
  then have part: "stands msg 0 (put16 i)" "stands msg 2 (put16 flags)" "stands msg 4 (put16 1)"
    "stands msg 6 (put16 (of_nat (length rs)))" "stands msg 12 w"
    "stands msg (length w + 16) (concat (map record_wire rs))"
    by (simp_all add: numeral_eq_Suc)
  note h = part(1-4) [THEN get16_stands]
  have "name_at msg 12 ls (length w)"
    using part(5) unfolding w_def by (rule name_at_wire [OF assms(1)])
  then have q: "dns_question msg 12 = Some (length w + 16)"
    using parse_name_spec [OF _ assms(3)] by (simp add: dns_question_def)
  have rc: "rcode (parse_header msg) = 0 \<longleftrightarrow> flags AND 0xF = 0"
    using h(2) by (simp add: parse_header_def Let_def low_nibble)
  have c: "qdcount (parse_header msg) = 1" "unat (ancount (parse_header msg)) = length rs"
    "dns_id (parse_header msg) = i"
    using h assms(4) by (simp_all add: parse_header_def Let_def unsigned_of_nat take_bit_nat_eq_self)
  show ?thesis
    using q answer_records [OF assms(6) part(6)] rc c by (simp add: parseDNSMSG_def Let_def)
qed

text \<open>The host \<open>www.a\<close> is an alias of \<open>b.a\<close>, which has two addresses; the names are compressed.\<close>

definition www_a :: "u8 list list" where
  "www_a = [[0x77, 0x77, 0x77], [0x61]]"

definition www_a_answers :: "dns_record list" where
  "www_a_answers =
     [\<lparr>owner = \<lparr>own_labels = [], name_end = At 12\<rparr>, class_ttl = [0, 1, 0, 0, 0, 9],
        rdata = Named TYPE_CNAME \<lparr>own_labels = [[0x62]], name_end = At 16\<rparr>\<rparr>,
      \<lparr>owner = \<lparr>own_labels = [], name_end = At 35\<rparr>, class_ttl = [0, 1, 0, 0, 0, 9], rdata = Address [10, 0, 0, 1]\<rparr>,
      \<lparr>owner = \<lparr>own_labels = [[0x62], [0x61]], name_end = Root\<rparr>, class_ttl = [0, 1, 0, 0, 0, 9],
        rdata = Address [10, 0, 0, 2]\<rparr>]"

definition www_a_reply :: "u8 list" where
  "www_a_reply = dns_reply (query_message 7 0 (host_name www_a)) 0x8180 0 0 www_a_answers"

lemma www_a_bytes:
  "\<forall>p\<in>set [(12, 3), (13, 0x77), (14, 0x77), (15, 0x77), (16, 1), (17, 0x61), (18, 0), (35, 1), (36, 0x62), (37, 0xC0), (38, 16)].
     message www_a_reply (fst p) = snd p"
  by code_simp

lemma www_a_names:
  "name_at (message www_a_reply) 12 [[0x77, 0x77, 0x77], [0x61]] 7" "name_at (message www_a_reply) 16 [[0x61]] 3"
  "name_at (message www_a_reply) 35 [[0x62], [0x61]] 4"
proof -
  let ?m = "message www_a_reply"
  note b = www_a_bytes [simplified]
  have l: "bytes_at ?m 17 1 = [0x61]" "bytes_at ?m 13 3 = [0x77, 0x77, 0x77]" "bytes_at ?m 36 1 = [0x62]"
    using stands_bytes [of ?m 17 "[0x61]"] stands_bytes [of ?m 13 "[0x77, 0x77, 0x77]"] stands_bytes [of ?m 36 "[0x62]"]
    by (simp_all add: b numeral_3_eq_3)
  have root: "name_at ?m 18 [] 1" by (rule name_root) (simp add: b)
  have "name_at ?m 16 (bytes_at ?m (16 + 1) 1 # []) (1 + 1 + 1)"
    by (rule name_label) (use root in \<open>simp_all add: b\<close>)
  then show a: "name_at ?m 16 [[0x61]] 3" using l(1) by (simp add: numeral_3_eq_3)
  have "name_at ?m 12 (bytes_at ?m (12 + 1) 3 # [[0x61]]) (1 + 3 + 3)"
    by (rule name_label) (use a in \<open>simp_all add: b\<close>)
  then show "name_at ?m 12 [[0x77, 0x77, 0x77], [0x61]] 7" using l(2) by simp
  have "name_at ?m 37 [[0x61]] 2"
    by (rule name_pointer [OF _ _ _ a]) (simp_all add: b)
  then have "name_at ?m 35 (bytes_at ?m (35 + 1) 1 # [[0x61]]) (1 + 1 + 2)"
    by - (rule name_label, simp_all add: b)
  moreover have "1 + 1 + 2 = (4 :: nat)" by simp
  ultimately show "name_at ?m 35 [[0x62], [0x61]] 4" using l(3) by (simp only:) simp
qed

theorem dns_reply_address_witness:
  "parseDNSMSG (message www_a_reply) [0, 0, 0, 0] = (1, parse_header (message www_a_reply), [10, 0, 0, 2])
    \<and> dns_id (parse_header (message www_a_reply)) = 7"
proof -
  have "labels_ok www_a" "www_a \<noteq> []" "int (name_size www_a) \<le> MAXCNAME" "length www_a_answers < 65536"
    by (simp_all add: www_a_def dot_def labels_ok_def MAXCNAME_def MAX_DOMAIN_NAME_def www_a_answers_def)
  moreover have "stands (message www_a_reply) 0 (dns_reply (query_message 7 0 (host_name www_a)) 0x8180 0 0 www_a_answers)"
    using stands_message [of www_a_reply] by (simp only: www_a_reply_def)
  moreover have "\<forall>r\<in>set www_a_answers. record_ok (message www_a_reply) r"
    using www_a_names by (fastforce simp: www_a_answers_def record_ok_def dname_ok_def labels_ok_def dot_def
        www_a_bytes [simplified] MAXCNAME_def MAX_DOMAIN_NAME_def)
  ultimately show ?thesis
    using dns_reply_address [of www_a www_a_answers] by (simp add: www_a_answers_def last_address_def)
qed

theorem parse_name_overrun_witness:
  "int (length (snd (parse_name (message (wire_name (replicate 3 (replicate 63 0x61)))) 0 MAXCNAME))) = 193
    \<and> MAXCNAME = 192"
proof -
  let ?ls = "replicate 3 (replicate 63 (0x61 :: u8))"
  have ok: "labels_ok ?ls" by (simp add: labels_ok_def dot_def)
  have m: "MAXCNAME = 192" by (simp add: MAXCNAME_def MAX_DOMAIN_NAME_def)
  have "int (name_size ?ls) = MAXCNAME" by (simp add: m numeral_3_eq_3)
  from parse_name_overrun [OF name_at_wire [OF ok stands_message] this] show ?thesis by (simp add: m)
qed

end
