(* ===== verification/DnsClient.thy ===== *)
theory DnsClient
  imports Sends Scripted DnsProps
begin

text \<open>
  \<open>DNS_run\<close> of \<open>Internet/DNS/dns.c\<close> on top of the datagram calls. The one-second timer interrupt
  \<open>DNS_time_handler\<close> may come between any two steps; only the check for a timeout looks at its
  counter, so \<open>tk i\<close> is the number of interrupts before the check of round \<open>i\<close>.
\<close>

unbundle bit_operations_syntax

subsection \<open>State and timer\<close>

record 'w dns_drv = "'w drv" +
  pDNSMSG :: "nat \<Rightarrow> u8"
  DNS_SOCKET :: u8
  DNS_MSGID :: u16
  dns_1s_tick :: u32
  retry_count :: u8

type_synonym ('a, 'w, 'm) dns_wait = "('w, 'm) dns_drv_scheme \<Rightarrow> ('a \<times> ('w, 'm) dns_drv_scheme) option"

definition DNS_init :: "u8 \<Rightarrow> (nat \<Rightarrow> u8) \<Rightarrow> ('w, 'm) dns_drv_scheme \<Rightarrow> ('w, 'm) dns_drv_scheme" where
  "DNS_init sn buf s = s\<lparr>DNS_SOCKET := sn, pDNSMSG := buf, DNS_MSGID := DNS_MSG_ID\<rparr>"

definition DNS_time_handler :: "('w, 'm) dns_drv_scheme \<Rightarrow> ('w, 'm) dns_drv_scheme" where
  "DNS_time_handler s = s\<lparr>dns_1s_tick := dns_1s_tick s + 1\<rparr>"

definition check_DNS_timeout :: "('w, 'm) dns_drv_scheme \<Rightarrow> int \<times> ('w, 'm) dns_drv_scheme" where
  "check_DNS_timeout s =
     (if DNS_WAIT_TIME \<le> dns_1s_tick s then
        let s = s\<lparr>dns_1s_tick := 0\<rparr> in
        if MAX_DNS_RETRY \<le> retry_count s then (-1, s\<lparr>retry_count := 0\<rparr>)
        else (0, s\<lparr>retry_count := retry_count s + 1\<rparr>)
      else (1, s))"

subsection \<open>The client\<close>

definition dns_makequery :: "u16 \<Rightarrow> u8 list \<Rightarrow> ('w, 'm) dns_drv_scheme \<Rightarrow> int \<times> ('w, 'm) dns_drv_scheme" where
  "dns_makequery op name s =
     (let i = DNS_MSGID s + 1; q = query_message i op name
      in (sint (of_nat (length q) :: u16), s\<lparr>DNS_MSGID := i, pDNSMSG := store_bytes q (pDNSMSG s)\<rparr>))"

definition dns_send :: "'w platform \<Rightarrow> u8 list \<Rightarrow> u16 \<Rightarrow> (int, 'w, 'm) dns_wait" where
  "dns_send p dns_ip len s =
     sendto_W5x00 p (DNS_SOCKET s) (Some (bytes_at (pDNSMSG s) 0 (unat len))) len (Some dns_ip) IPPORT_DOMAIN s"

text \<open>
  A round of the loop: the result and the address once it ends. \<open>len\<close> holds the size just read
  when the timeout is checked.
\<close>

definition dns_round ::
    "'w platform \<Rightarrow> (nat \<Rightarrow> nat) \<Rightarrow> u8 list \<Rightarrow> u8 list \<Rightarrow> nat \<Rightarrow> ((int \<times> u8 list) + nat, 'w, 'm) dns_wait" where
  "dns_round p tk dns_ip ip i s = do {
     (len, s) \<leftarrow> getSn_RX_RSR p (DNS_SOCKET s) s;
     if 0 < len then do {
       let len = (if MAX_DNS_BUF_SIZE < len then MAX_DNS_BUF_SIZE else len);
       ((_, out), s) \<leftarrow> recvfrom_W5x00 p (DNS_SOCKET s) True len True True s;
       let s = s\<lparr>pDNSMSG := store_bytes (out_data out) (pDNSMSG s)\<rparr>;
       let (ret, _, ip) = parseDNSMSG (pDNSMSG s) ip;
       let (_, s) = close p (DNS_SOCKET s) s;
       Some (Inl (ret, ip), s)
     } else do {
       let (ret, s) = check_DNS_timeout ((DNS_time_handler ^^ tk i) s);
       if ret < 0 then
         let (_, s) = close p (DNS_SOCKET s) s in Some (Inl (0, ip), s)
       else if ret = 0 then do {
         (_, s) \<leftarrow> dns_send p dns_ip len s;
         Some (Inr (i + 1), s)
       } else Some (Inr (i + 1), s)
     }
   }"

definition DNS_run ::
    "'w platform \<Rightarrow> (nat \<Rightarrow> nat) \<Rightarrow> u8 list \<Rightarrow> u8 list \<Rightarrow> u8 list \<Rightarrow> (int \<times> u8 list, 'w, 'm) dns_wait" where
  "DNS_run p tk dns_ip name ip s = do {
     let s = s\<lparr>retry_count := 0, dns_1s_tick := 0\<rparr>;
     let (_, s) = socket p (DNS_SOCKET s) Sn_MR_UDP 0 0 s;
     let (len, s) = dns_makequery 0 name s;
     (_, s) \<leftarrow> dns_send p dns_ip (of_int len) s;
     forever (dns_round p tk dns_ip ip) 0 s
   }"

subsection \<open>The client's data across socket calls\<close>

lemma dns_kept:
  fixes s s' :: "('w, 'm) dns_drv_scheme"
  assumes "client_step sn k s s'"
  shows "DNS_SOCKET s' = DNS_SOCKET s" "pDNSMSG s' = pDNSMSG s" "sends sn s' \<le> sends sn s + k"
  using assms by (cases s; cases s'; simp add: client_step_def)+

lemma dns_sends [simp]:
  fixes s :: "('w, 'm) dns_drv_scheme"
  shows "sends sn (s\<lparr>pDNSMSG := b\<rparr>) = sends sn s" "sends sn (s\<lparr>retry_count := r\<rparr>) = sends sn s"
    "sends sn (s\<lparr>dns_1s_tick := t\<rparr>) = sends sn s" "sends sn (s\<lparr>DNS_MSGID := i\<rparr>) = sends sn s"
  by (simp_all add: sends_def cmds_def)

text \<open>Timer and timeout only touch the counters.\<close>

lemma dns_timer:
  "DNS_SOCKET ((DNS_time_handler ^^ n) s) = DNS_SOCKET s" "sends sn ((DNS_time_handler ^^ n) s) = sends sn s"
  by (induction n) (simp_all add: DNS_time_handler_def)

lemma dns_timeout:
  "DNS_SOCKET (snd (check_DNS_timeout s)) = DNS_SOCKET s" "sends sn (snd (check_DNS_timeout s)) = sends sn s"
  by (simp_all add: check_DNS_timeout_def Let_def)

text \<open>What is known during the loop, and at its end.\<close>

definition dns_busy :: "nat \<Rightarrow> ('w, 'm) dns_drv_scheme \<Rightarrow> ('w, 'm) dns_drv_scheme \<Rightarrow> bool" where
  "dns_busy k s s' \<longleftrightarrow> DNS_SOCKET s' = DNS_SOCKET s \<and> sends (DNS_SOCKET s) s' \<le> sends (DNS_SOCKET s) s + k"

definition dns_done :: "u8 list \<Rightarrow> ('w, 'm) dns_drv_scheme \<Rightarrow> int \<times> u8 list \<Rightarrow> ('w, 'm) dns_drv_scheme \<Rightarrow> bool" where
  "dns_done ip s x s' \<longleftrightarrow> dns_busy 1 s s'
     \<and> (x = (0, ip) \<or> (\<exists>h. parseDNSMSG (pDNSMSG s') ip = (fst x, h, snd x)))"

lemma dns_busy_step:
  assumes "dns_busy j s t" and "client_step (DNS_SOCKET s) k t t'"
  shows "dns_busy (j + k) s t'"
  using assms dns_kept [OF assms(2)] by (simp add: dns_busy_def)

lemma dns_busy_same:
  "\<lbrakk>dns_busy k s t; DNS_SOCKET t' = DNS_SOCKET t; \<And>sn. sends sn t' = sends sn t\<rbrakk> \<Longrightarrow> dns_busy k s t'"
  by (simp add: dns_busy_def)

lemma dns_closed:
  assumes "dns_busy 1 s t" and "x = (0, ip) \<or> (\<exists>h. parseDNSMSG (pDNSMSG t) ip = (fst x, h, snd x))"
  shows "wpt (close p (DNS_SOCKET t) t) (\<lambda>_. dns_done ip s x)"
proof (rule client_close)
  fix t' assume c: "client_step (DNS_SOCKET t) 0 t t'"
  then have "dns_busy 1 s t'" using assms(1) dns_busy_step [OF assms(1), of 0] by (simp add: dns_busy_def)
  with dns_kept(2) [OF c] assms(2) show "dns_done ip s x t'" by (simp add: dns_done_def)
qed

lemma dns_calls:
  assumes "DNS_SOCKET s < 8" and "dns_busy 1 s t"
  shows "wpo (getSn_RX_RSR p (DNS_SOCKET t) t) (\<lambda>_. dns_busy 1 s)"
    and "wpo (recvfrom_W5x00 p (DNS_SOCKET t) True n True True t) (\<lambda>_. dns_busy 1 s)"
proof -
  have sn: "DNS_SOCKET t = DNS_SOCKET s" using assms(2) by (simp add: dns_busy_def)
  have kept: "dns_busy 1 s t'" if "client_step (DNS_SOCKET s) 0 t t'" for t'
    using dns_busy_step [OF assms(2) that] by simp
  show "wpo (getSn_RX_RSR p (DNS_SOCKET t) t) (\<lambda>_. dns_busy 1 s)"
    "wpo (recvfrom_W5x00 p (DNS_SOCKET t) True n True True t) (\<lambda>_. dns_busy 1 s)"
    using assms(1) unfolding sn by (auto intro!: client kept [simplified])
qed

lemma dns_send_nothing: "dns_send p dns_ip 0 s = Some (0, s)"
  by (simp add: dns_send_def sendto_nothing)

lemma dns_round_spec:
  assumes "DNS_SOCKET s < 8" and "dns_busy 1 s t"
  shows "wpo (dns_round p tk dns_ip ip i t) (\<lambda>r t'. case r of Inl x \<Rightarrow> dns_done ip s x t' | Inr i' \<Rightarrow> dns_busy 1 s t')"
    (is "wpo _ ?Q")
proof -
  have reply: "wpo (let u = u\<lparr>pDNSMSG := b\<rparr>; (ret, _, ip) = parseDNSMSG (pDNSMSG u) ip;
      (_, u) = close p (DNS_SOCKET u) u in Some (Inl (ret, ip), u)) ?Q" if "dns_busy 1 s u" for u b
  proof -
    obtain r h a where parsed: "parseDNSMSG b ip = (r, h, a)" by (metis prod_cases3)
    have "dns_busy 1 s (u\<lparr>pDNSMSG := b\<rparr>)" using that by (simp add: dns_busy_def)
    from dns_closed [OF this, of "(r, a)" ip p] parsed show ?thesis
      by (auto simp: Let_def wpt_def wpo_def split: prod.splits)
  qed
  have checked: "wpo (let (ret, u) = check_DNS_timeout ((DNS_time_handler ^^ n) u) in
      if ret < 0 then let (_, u) = close p (DNS_SOCKET u) u in Some (Inl (0, ip), u)
      else if ret = 0 then do { (_, u) \<leftarrow> dns_send p dns_ip 0 u; Some (Inr (i + 1), u) }
      else Some (Inr (i + 1), u)) ?Q" if "dns_busy 1 s u" for u n
  proof -
    obtain ret u' where c: "check_DNS_timeout ((DNS_time_handler ^^ n) u) = (ret, u')" by fastforce
    with dns_timeout [where s = "(DNS_time_handler ^^ n) u"]
    have "dns_busy 1 s u'" using dns_busy_same [OF that, of u'] by (simp add: dns_timer)
    with dns_closed [OF this, of "(0, ip)" ip p] c show ?thesis
      by (auto simp: Let_def wpt_def wpo_def dns_send_nothing split: prod.splits if_splits)
  qed
  show ?thesis
    unfolding dns_round_def
  proof (rule wpo_bind, rule wpo_mono [OF dns_calls(1) [OF assms]])
    fix len u assume u: "dns_busy 1 s u"
    show "wpo (case (len, u) of (len, s) \<Rightarrow> if 0 < len then do {
         let len = (if MAX_DNS_BUF_SIZE < len then MAX_DNS_BUF_SIZE else len);
         ((_, out), s) \<leftarrow> recvfrom_W5x00 p (DNS_SOCKET s) True len True True s;
         let s = s\<lparr>pDNSMSG := store_bytes (out_data out) (pDNSMSG s)\<rparr>;
         let (ret, _, ip) = parseDNSMSG (pDNSMSG s) ip;
         let (_, s) = close p (DNS_SOCKET s) s;
         Some (Inl (ret, ip), s)
       } else do {
         let (ret, s) = check_DNS_timeout ((DNS_time_handler ^^ tk i) s);
         if ret < 0 then
           let (_, s) = close p (DNS_SOCKET s) s in Some (Inl (0, ip), s)
         else if ret = 0 then do {
           (_, s) \<leftarrow> dns_send p dns_ip len s;
           Some (Inr (i + 1), s)
         } else Some (Inr (i + 1), s)
       }) ?Q"
    proof (cases "0 < len")
      case True
      then show ?thesis
        using reply by (auto simp: Let_def intro!: wpo_bind wpo_mono [OF dns_calls(2) [OF assms(1) u]])
    next
      case False
      then have "len = 0" by (simp add: word_greater_zero_iff)
      then show ?thesis using checked [OF u] by simp
    qed
  qed
qed

lemma dns_busy_once: "dns_busy 0 s t \<Longrightarrow> dns_busy 1 s t"
  by (simp add: dns_busy_def)

lemma DNS_run_spec:
  assumes "DNS_SOCKET s < 8"
  shows "wpo (DNS_run p tk dns_ip name ip s) (dns_done ip s)"
proof -
  let ?s = "s\<lparr>retry_count := 0, dns_1s_tick := 0\<rparr>"
  have start: "dns_busy 0 s ?s" by (simp add: dns_busy_def)
  have opened: "wpt (socket p (DNS_SOCKET ?s) Sn_MR_UDP 0 0 ?s) (\<lambda>_. dns_busy 0 s)"
    using dns_busy_step [OF start] by (auto intro!: client)
  have query: "wpt (dns_makequery 0 name t) (\<lambda>_. dns_busy 0 s)" if "dns_busy 0 s t" for t
    using that by (simp add: dns_makequery_def Let_def wpt_def dns_busy_def)
  have sent: "wpo (dns_send p dns_ip n t) (\<lambda>_. dns_busy 1 s)" if "dns_busy 0 s t" for n t
  proof -
    have "DNS_SOCKET t = DNS_SOCKET s" using that by (simp add: dns_busy_def)
    with dns_busy_step [OF that, of 1] show ?thesis unfolding dns_send_def by (auto intro!: client)
  qed
  have loop: "wpo (forever (dns_round p tk dns_ip ip) 0 t) (dns_done ip s)" if "dns_busy 1 s t" for t
    by (rule wpo_forever [where I = "\<lambda>_. dns_busy 1 s", OF that], rule wpo_mono [OF dns_round_spec [OF assms]])
      (auto split: sum.splits)
  show ?thesis
    unfolding DNS_run_def
    by (intro wpo_Let wpo_case_prod wpt_mono [OF opened] wpt_mono [OF query] wpo_bind wpo_mono [OF sent])
      (auto intro!: loop [simplified] wpt_pair)
qed

text \<open>C32: \<open>DNS_run\<close> asks once. Whatever the chip, the network and the timer do, a call that returns has
  given at most one SEND command: the retries of the loop hand \<open>sendto\<close> the length 0 just read
  from the receive size register, for which it does nothing, so a lost query is never repeated
  although the code counts \<open>MAX_DNS_RETRY\<close> retries. The result is 0 with the address untouched,
  or what the parser makes of the message buffer.\<close>

theorem dns_single_query:
  assumes "DNS_run p tk dns_ip name ip s = Some ((r, a), s')" and "DNS_SOCKET s < 8"
  shows "sends (DNS_SOCKET s) s' \<le> sends (DNS_SOCKET s) s + 1
    \<and> (r = 0 \<and> a = ip \<or> (\<exists>h. parseDNSMSG (pDNSMSG s') ip = (r, h, a)))"
  using wpoD [OF DNS_run_spec [OF assms(2)] assms(1)] by (simp add: dns_done_def dns_busy_def)

text \<open>No socket, no answer, and a timer that always runs out.\<close>

definition dns_start :: "u8 list \<Rightarrow> u8 list dns_drv" where
  "dns_start script = drv.extend ((scripted_ready script)\<lparr>chip_state := WIZCHIP_STATE_UNINIT\<rparr>)
     \<lparr>pDNSMSG = (\<lambda>_. 0), DNS_SOCKET = 2, DNS_MSGID = DNS_MSG_ID, dns_1s_tick = 0, retry_count = 0\<rparr>"

lemma query_name_root: "query_name [] = [0]"
  by (subst query_name.simps) simp

theorem dns_single_query_witness:
  "\<exists>s'. DNS_run scripted (\<lambda>_. 3) [8, 8, 8, 8] [] [0, 0, 0, 0] (dns_start []) = Some ((0, [0, 0, 0, 0]), s')
     \<and> sends 2 s' \<le> sends 2 (dns_start []) + 1"
proof -
  have "\<exists>s'. DNS_run scripted (\<lambda>_. 3) [8, 8, 8, 8] [] [0, 0, 0, 0] (dns_start []) = Some ((0, [0, 0, 0, 0]), s')"
    by (simp add: run_defs reg_defs dgram_defs open_defs DNS_run_def dns_round_def dns_makequery_def
        dns_send_def query_message_def query_name_root put16_def check_DNS_timeout_def DNS_time_handler_def
        DNS_WAIT_TIME_def MAX_DNS_RETRY_def dns_start_def drv.extend_def forever_code numeral_3_eq_3
        cong: run_cong)
  then obtain s' where e: "DNS_run scripted (\<lambda>_. 3) [8, 8, 8, 8] [] [0, 0, 0, 0] (dns_start [])
      = Some ((0, [0, 0, 0, 0]), s')" by blast
  have "DNS_SOCKET (dns_start []) = 2" by (simp add: dns_start_def drv.extend_def)
  with dns_single_query [OF e] e show ?thesis by auto
qed

end
