(* ===== verification/Dhcp.thy ===== *)
theory Dhcp
  imports Sends Dns
begin

text \<open>
  The DHCP client, \<open>Internet/DHCP/dhcp.c\<close>, on top of the datagram calls. Its statics extend the
  record of the driver; the message buffer is the memory from its address on, laid out as
  \<open>RIP_MSG\<close>. A registered handler is application code and acts on the outside world only;
  \<open>None\<close> is the default handler. The one-second timer interrupt comes between two calls.
\<close>

unbundle bit_operations_syntax

subsection \<open>Constants and state\<close>

datatype dhcp_state_t = STATE_DHCP_INIT | STATE_DHCP_DISCOVER | STATE_DHCP_REQUEST | STATE_DHCP_LEASED
  | STATE_DHCP_REREQUEST | STATE_DHCP_RELEASE | STATE_DHCP_STOP

datatype dhcp_result = DHCP_FAILED | DHCP_RUNNING | DHCP_IP_ASSIGN | DHCP_IP_CHANGED | DHCP_IP_LEASED
  | DHCP_STOPPED

definition DHCP_FLAGSBROADCAST :: u16 where "DHCP_FLAGSBROADCAST = 0x8000"
definition DHCP_FLAGSUNICAST :: u16 where "DHCP_FLAGSUNICAST = 0x0000"
definition DHCP_BOOTREQUEST :: u8 where "DHCP_BOOTREQUEST = 1"
definition DHCP_DISCOVER :: u8 where "DHCP_DISCOVER = 1"
definition DHCP_OFFER :: u8 where "DHCP_OFFER = 2"
definition DHCP_REQUEST :: u8 where "DHCP_REQUEST = 3"
definition DHCP_DECLINE :: u8 where "DHCP_DECLINE = 4"
definition DHCP_ACK :: u8 where "DHCP_ACK = 5"
definition DHCP_NAK :: u8 where "DHCP_NAK = 6"
definition DHCP_HTYPE10MB :: u8 where "DHCP_HTYPE10MB = 1"
definition DHCP_HLENETHERNET :: u8 where "DHCP_HLENETHERNET = 6"
definition DHCP_HOPS :: u8 where "DHCP_HOPS = 0"
definition DHCP_SECS :: u16 where "DHCP_SECS = 0"
definition INFINITE_LEASETIME :: u32 where "INFINITE_LEASETIME = 0xFFFFFFFF"
definition OPT_SIZE :: nat where "OPT_SIZE = 312"
definition RIP_MSG_SIZE :: u16 where "RIP_MSG_SIZE = 548"
definition MAX_DHCP_RETRY :: int where "MAX_DHCP_RETRY = 2"
definition DHCP_WAIT_TIME :: u32 where "DHCP_WAIT_TIME = 10"
definition DHCP_SERVER_PORT :: u16 where "DHCP_SERVER_PORT = 67"
definition DHCP_CLIENT_PORT :: u16 where "DHCP_CLIENT_PORT = 68"
definition MAGIC_COOKIE :: u32 where "MAGIC_COOKIE = 0x63825363"
definition HOST_NAME :: "u8 list" where "HOST_NAME = [0x57, 0x49, 0x5A, 0x6E, 0x65, 0x74]"

definition padOption :: u8 where "padOption = 0"
definition subnetMask :: u8 where "subnetMask = 1"
definition routersOnSubnet :: u8 where "routersOnSubnet = 3"
definition dns_option :: u8 where "dns_option = 6"
definition hostName :: u8 where "hostName = 12"
definition domainName :: u8 where "domainName = 15"
definition performRouterDiscovery :: u8 where "performRouterDiscovery = 31"
definition staticRoute :: u8 where "staticRoute = 33"
definition dhcpRequestedIPaddr :: u8 where "dhcpRequestedIPaddr = 50"
definition dhcpIPaddrLeaseTime :: u8 where "dhcpIPaddrLeaseTime = 51"
definition dhcpMessageType :: u8 where "dhcpMessageType = 53"
definition dhcpServerIdentifier :: u8 where "dhcpServerIdentifier = 54"
definition dhcpParamRequest :: u8 where "dhcpParamRequest = 55"
definition dhcpT1value :: u8 where "dhcpT1value = 58"
definition dhcpT2value :: u8 where "dhcpT2value = 59"
definition dhcpClientIdentifier :: u8 where "dhcpClientIdentifier = 61"
definition endOption :: u8 where "endOption = 255"

text \<open>Offsets in \<open>RIP_MSG\<close>.\<close>

definition RIP_flags :: nat where "RIP_flags = 10"
definition RIP_ciaddr :: nat where "RIP_ciaddr = 12"
definition RIP_yiaddr :: nat where "RIP_yiaddr = 16"
definition RIP_chaddr :: nat where "RIP_chaddr = 28"
definition RIP_OPT :: nat where "RIP_OPT = 236"

record 'w dhcp_drv = "'w drv" +
  DHCP_SOCKET :: u8
  DHCP_SIP :: "u8 list"
  DHCP_REAL_SIP :: "u8 list"
  OLD_allocated_ip :: "u8 list"
  DHCP_allocated_ip :: "u8 list"
  DHCP_allocated_gw :: "u8 list"
  DHCP_allocated_sn :: "u8 list"
  DHCP_allocated_dns :: "u8 list"
  dhcp_state :: dhcp_state_t
  dhcp_retry_count :: int
  dhcp_lease_time :: u32
  dhcp_tick_1s :: u32
  dhcp_tick_next :: u32
  DHCP_XID :: u32
  pDHCPMSG :: "nat \<Rightarrow> u8"
  DHCP_CHADDR :: "u8 list"
  dhcp_ip_assign :: "('w \<Rightarrow> 'w) option"
  dhcp_ip_update :: "('w \<Rightarrow> 'w) option"
  dhcp_ip_conflict :: "('w \<Rightarrow> 'w) option"

type_synonym ('w, 'm) dhcp_proc = "('w, 'm) dhcp_drv_scheme \<Rightarrow> ('w, 'm) dhcp_drv_scheme"
type_synonym ('a, 'w, 'm) dhcp_wait = "('w, 'm) dhcp_drv_scheme \<Rightarrow> ('a \<times> ('w, 'm) dhcp_drv_scheme) option"

subsection \<open>Handlers\<close>

definition default_ip_assign :: "'w platform \<Rightarrow> ('w, 'm) dhcp_proc" where
  "default_ip_assign p s =
     (let s = setSIPR p (DHCP_allocated_ip s) s; s = setSUBR p (DHCP_allocated_sn s) s
      in setGAR p (DHCP_allocated_gw s) s)"

definition default_ip_update :: "'w platform \<Rightarrow> ('w, 'm) dhcp_proc" where
  "default_ip_update p s =
     (let s = setMR p MR_RST s; (_, s) = getMR p s; s = default_ip_assign p s
      in setSHAR p (DHCP_CHADDR s) s)"

definition default_ip_conflict :: "'w platform \<Rightarrow> ('w, 'm) dhcp_proc" where
  "default_ip_conflict p s =
     (let s = setMR p MR_RST s; (_, s) = getMR p s in setSHAR p (DHCP_CHADDR s) s)"

definition reg_dhcp_cbfunc ::
    "('w \<Rightarrow> 'w) option \<Rightarrow> ('w \<Rightarrow> 'w) option \<Rightarrow> ('w \<Rightarrow> 'w) option \<Rightarrow> ('w, 'm) dhcp_proc" where
  "reg_dhcp_cbfunc ip_assign ip_update ip_conflict s =
     s\<lparr>dhcp_ip_assign := ip_assign, dhcp_ip_update := ip_update, dhcp_ip_conflict := ip_conflict\<rparr>"

text \<open>Calling a handler.\<close>

definition handle :: "('w \<Rightarrow> 'w) option \<Rightarrow> ('w, 'm) dhcp_proc \<Rightarrow> ('w, 'm) dhcp_proc" where
  "handle cb dflt s = (case cb of None \<Rightarrow> dflt s | Some f \<Rightarrow> s\<lparr>world := f (world s)\<rparr>)"

subsection \<open>Messages\<close>

definition NibbleToHex :: "u8 \<Rightarrow> u8" where
  "NibbleToHex nibble =
     (let nibble = nibble AND 0x0F in if nibble \<le> 9 then nibble + 0x30 else nibble + (0x41 - 0x0A))"

definition put32 :: "u32 \<Rightarrow> u8 list" where
  "put32 v = [ucast (drop_bit 24 v), ucast (drop_bit 16 v), ucast (drop_bit 8 v), ucast v]"

text \<open>The fixed part of a message with the magic cookie, after reading (and dropping) the hardware address.\<close>

definition rip_header :: "u32 \<Rightarrow> u8 list \<Rightarrow> u8 list" where
  "rip_header xid chaddr =
     [DHCP_BOOTREQUEST, DHCP_HTYPE10MB, DHCP_HLENETHERNET, DHCP_HOPS] @ put32 xid @ put16 DHCP_SECS
     @ put16 DHCP_FLAGSBROADCAST @ replicate 4 0 @ replicate 4 0 @ replicate 4 0 @ replicate 4 0
     @ map (\<lambda>i. chaddr ! i) [0..<6] @ replicate 10 0 @ replicate 64 0 @ replicate 128 0
     @ put32 MAGIC_COOKIE"

definition makeDHCPMSG :: "'w platform \<Rightarrow> ('w, 'm) dhcp_proc" where
  "makeDHCPMSG p s =
     (let (_, s) = getSHAR p s
      in s\<lparr>pDHCPMSG := store_bytes (rip_header (DHCP_XID s) (DHCP_CHADDR s)) (pDHCPMSG s)\<rparr>)"

text \<open>Writing at an offset of the message.\<close>

definition put_at :: "nat \<Rightarrow> u8 list \<Rightarrow> ('w, 'm) dhcp_proc" where
  "put_at off bs s =
     s\<lparr>pDHCPMSG := (\<lambda>i. if off \<le> i \<and> i < off + length bs then bs ! (i - off) else pDHCPMSG s i)\<rparr>"

text \<open>The options behind the cookie, padded with zeros up to the size of the option field.\<close>

definition put_options :: "u8 list \<Rightarrow> ('w, 'm) dhcp_proc" where
  "put_options opts s = put_at (RIP_OPT + 4) (opts @ replicate (OPT_SIZE - 4 - length opts) 0) s"

definition type_option :: "u8 \<Rightarrow> u8 list" where
  "type_option t = [dhcpMessageType, 0x01, t]"

definition client_option :: "u8 list \<Rightarrow> u8 list" where
  "client_option chaddr = [dhcpClientIdentifier, 0x07, 0x01] @ map (\<lambda>i. chaddr ! i) [0..<6]"

definition address_option :: "u8 \<Rightarrow> u8 list \<Rightarrow> u8 list" where
  "address_option t a = [t, 0x04] @ map (\<lambda>i. a ! i) [0..<4]"

definition host_option :: "u8 list \<Rightarrow> u8 list" where
  "host_option chaddr =
     [hostName, of_nat (length HOST_NAME) + 6] @ HOST_NAME
     @ [NibbleToHex (drop_bit 4 (chaddr ! 3)), NibbleToHex (chaddr ! 3),
        NibbleToHex (drop_bit 4 (chaddr ! 4)), NibbleToHex (chaddr ! 4),
        NibbleToHex (drop_bit 4 (chaddr ! 5)), NibbleToHex (chaddr ! 5)]"

definition dhcp_send :: "'w platform \<Rightarrow> u8 list \<Rightarrow> (unit, 'w, 'm) dhcp_wait" where
  "dhcp_send p ip s = do {
     (_, s) \<leftarrow> sendto_W5x00 p (DHCP_SOCKET s) (Some (bytes_at (pDHCPMSG s) 0 (unat RIP_MSG_SIZE))) RIP_MSG_SIZE
       (Some ip) DHCP_SERVER_PORT s;
     Some ((), s)
   }"

definition discover_options :: "u8 list \<Rightarrow> u8 list" where
  "discover_options chaddr =
     type_option DHCP_DISCOVER @ client_option chaddr @ host_option chaddr
     @ [dhcpParamRequest, 0x06, subnetMask, routersOnSubnet, dns_option, domainName, dhcpT1value,
        dhcpT2value, endOption]"

definition send_DHCP_DISCOVER :: "'w platform \<Rightarrow> (unit, 'w, 'm) dhcp_wait" where
  "send_DHCP_DISCOVER p s =
     (let s = makeDHCPMSG p s;
          s = s\<lparr>DHCP_SIP := [0, 0, 0, 0], DHCP_REAL_SIP := [0, 0, 0, 0]\<rparr>;
          s = put_options (discover_options (DHCP_CHADDR s)) s
      in dhcp_send p [255, 255, 255, 255] s)"

definition request_options :: "u8 list \<Rightarrow> u8 list \<Rightarrow> u8 list \<Rightarrow> u8 list \<Rightarrow> u8 list" where
  "request_options ip chaddr allocated server =
     type_option DHCP_REQUEST @ client_option chaddr
     @ (if ip ! 3 = 255
        then address_option dhcpRequestedIPaddr allocated @ address_option dhcpServerIdentifier server
        else [])
     @ host_option chaddr
     @ [dhcpParamRequest, 0x08, subnetMask, routersOnSubnet, dns_option, domainName, dhcpT1value,
        dhcpT2value, performRouterDiscovery, staticRoute, endOption]"

definition send_DHCP_REQUEST :: "'w platform \<Rightarrow> (unit, 'w, 'm) dhcp_wait" where
  "send_DHCP_REQUEST p s =
     (let s = makeDHCPMSG p s;
          renewing = dhcp_state s = STATE_DHCP_LEASED \<or> dhcp_state s = STATE_DHCP_REREQUEST;
          s = (if renewing
               then put_at RIP_ciaddr (take 4 (DHCP_allocated_ip s)) (put_at RIP_flags (put16 DHCP_FLAGSUNICAST) s)
               else s);
          ip = (if renewing then DHCP_SIP s else [255, 255, 255, 255]);
          s = put_options (request_options ip (DHCP_CHADDR s) (DHCP_allocated_ip s) (DHCP_SIP s)) s
      in dhcp_send p ip s)"

definition send_DHCP_DECLINE :: "'w platform \<Rightarrow> (unit, 'w, 'm) dhcp_wait" where
  "send_DHCP_DECLINE p s =
     (let s = makeDHCPMSG p s;
          s = put_at RIP_flags (put16 DHCP_FLAGSUNICAST) s;
          s = put_options (type_option DHCP_DECLINE @ client_option (DHCP_CHADDR s)
                @ address_option dhcpRequestedIPaddr (DHCP_allocated_ip s)
                @ address_option dhcpServerIdentifier (DHCP_SIP s) @ [endOption]) s
      in dhcp_send p [255, 255, 255, 255] s)"

subsection \<open>Reading a reply\<close>

definition lease_at :: "(nat \<Rightarrow> u8) \<Rightarrow> nat \<Rightarrow> u32" where
  "lease_at msg q =
     (let t = ucast (msg q); t = push_bit 8 t + ucast (msg (q + 1)); t = push_bit 8 t + ucast (msg (q + 2))
      in push_bit 8 t + ucast (msg (q + 3)))"

text \<open>One option at \<open>q\<close>: the new position, message type and state; \<open>None\<close> at the end option.\<close>

definition dhcp_option ::
    "u8 list \<Rightarrow> nat \<Rightarrow> u8 \<Rightarrow> ('w, 'm) dhcp_drv_scheme \<Rightarrow> nat option \<times> u8 \<times> ('w, 'm) dhcp_drv_scheme" where
  "dhcp_option svr_addr q type s =
     (let msg = pDHCPMSG s; opt_len = unat (msg (q + 1)) in
      if msg q = endOption then (None, type, s)
      else if msg q = padOption then (Some (q + 1), type, s)
      else if msg q = dhcpMessageType then (Some (q + 3), msg (q + 2), s)
      else if msg q = subnetMask
      then (Some (q + 6), type, s\<lparr>DHCP_allocated_sn := bytes_at msg (q + 2) 4\<rparr>)
      else if msg q = routersOnSubnet
      then (Some (q + 6 + opt_len - 4), type, s\<lparr>DHCP_allocated_gw := bytes_at msg (q + 2) 4\<rparr>)
      else if msg q = dns_option
      then (Some (q + 6 + opt_len - 4), type, s\<lparr>DHCP_allocated_dns := bytes_at msg (q + 2) 4\<rparr>)
      else if msg q = dhcpIPaddrLeaseTime
      then (Some (q + 6), type, s\<lparr>dhcp_lease_time := lease_at msg (q + 2)\<rparr>)
      else if msg q = dhcpServerIdentifier
      then (Some (q + 6), type, s\<lparr>DHCP_SIP := bytes_at msg (q + 2) 4, DHCP_REAL_SIP := svr_addr\<rparr>)
      else (Some (q + 2 + opt_len), type, s))"

lemma dhcp_option_moves: "dhcp_option svr q type s = (Some q', t', s') \<Longrightarrow> q < q'"
  by (auto simp: dhcp_option_def Let_def split: if_splits)

function dhcp_options ::
    "u8 list \<Rightarrow> nat \<Rightarrow> nat \<Rightarrow> u8 \<Rightarrow> ('w, 'm) dhcp_drv_scheme \<Rightarrow> u8 \<times> ('w, 'm) dhcp_drv_scheme" where
  "dhcp_options svr_addr q e type s =
     (if q < e then
        (case dhcp_option svr_addr q type s of
           (None, type, s) \<Rightarrow> (type, s)
         | (Some q, type, s) \<Rightarrow> dhcp_options svr_addr q e type s)
      else (type, s))"
  by pat_completeness auto

termination
  by (relation "measure (\<lambda>(svr, q, e, t, s). e - q)") (auto dest!: dhcp_option_moves [OF sym])

declare dhcp_options.simps [simp del]

text \<open>
  The message type, 0 for a message to be ignored. \<open>stack\<close> is what the uninitialised locals
  \<open>svr_port\<close> and \<open>svr_addr\<close> hold when \<open>recvfrom\<close> fails before it writes them.
\<close>

definition dhcp_ours :: "u8 list \<Rightarrow> ('w, 'm) dhcp_drv_scheme \<Rightarrow> bool" where
  "dhcp_ours svr_addr s \<longleftrightarrow>
     bytes_at (pDHCPMSG s) RIP_chaddr 6 = DHCP_CHADDR s
     \<and> (DHCP_SIP s = [0, 0, 0, 0] \<or> svr_addr = DHCP_SIP s \<or> svr_addr = DHCP_REAL_SIP s)"

definition parseDHCPMSG :: "'w platform \<Rightarrow> u16 \<times> u8 list \<Rightarrow> (u8, 'w, 'm) dhcp_wait" where
  "parseDHCPMSG p stack s = do {
     (len, s) \<leftarrow> getSn_RX_RSR p (DHCP_SOCKET s) s;
     if 0 < len then do {
       ((ret, out), s) \<leftarrow> recvfrom_W5x00 p (DHCP_SOCKET s) True len True True s;
       let len = (of_int ret :: u16);
       let s = s\<lparr>pDHCPMSG := store_bytes (out_data out) (pDHCPMSG s)\<rparr>;
       let svr_port = (case out_port out of None \<Rightarrow> fst stack | Some v \<Rightarrow> v);
       let svr_addr = (case out_addr out of None \<Rightarrow> snd stack | Some a \<Rightarrow> a);
       if svr_port = DHCP_SERVER_PORT then
         if \<not> dhcp_ours svr_addr s then Some (0, s)
         else Some (dhcp_options svr_addr 240 (unat len) 0 s)
       else Some (0, s)
     } else Some (0, s)
   }"

subsection \<open>Timeouts\<close>

definition reset_DHCP_timeout :: "('w, 'm) dhcp_proc" where
  "reset_DHCP_timeout s = s\<lparr>dhcp_tick_1s := 0, dhcp_tick_next := DHCP_WAIT_TIME, dhcp_retry_count := 0\<rparr>"

definition check_DHCP_timeout :: "'w platform \<Rightarrow> (dhcp_result, 'w, 'm) dhcp_wait" where
  "check_DHCP_timeout p s =
     (if dhcp_retry_count s < MAX_DHCP_RETRY then
        if dhcp_tick_next s < dhcp_tick_1s s then do {
          (_, s) \<leftarrow> (case dhcp_state s of
             STATE_DHCP_DISCOVER \<Rightarrow> send_DHCP_DISCOVER p s
           | STATE_DHCP_REQUEST \<Rightarrow> send_DHCP_REQUEST p s
           | STATE_DHCP_REREQUEST \<Rightarrow> send_DHCP_REQUEST p s
           | _ \<Rightarrow> Some ((), s));
          let s = s\<lparr>dhcp_tick_1s := 0\<rparr>;
          let s = s\<lparr>dhcp_tick_next := dhcp_tick_1s s + DHCP_WAIT_TIME\<rparr>;
          Some (DHCP_RUNNING, s\<lparr>dhcp_retry_count := dhcp_retry_count s + 1\<rparr>)
        } else Some (DHCP_RUNNING, s)
      else do {
        (ret, s) \<leftarrow> (case dhcp_state s of
           STATE_DHCP_DISCOVER \<Rightarrow> Some (DHCP_FAILED, s\<lparr>dhcp_state := STATE_DHCP_INIT\<rparr>)
         | STATE_DHCP_REQUEST \<Rightarrow> do {
             (_, s) \<leftarrow> send_DHCP_DISCOVER p s; Some (DHCP_RUNNING, s\<lparr>dhcp_state := STATE_DHCP_DISCOVER\<rparr>) }
         | STATE_DHCP_REREQUEST \<Rightarrow> do {
             (_, s) \<leftarrow> send_DHCP_DISCOVER p s; Some (DHCP_RUNNING, s\<lparr>dhcp_state := STATE_DHCP_DISCOVER\<rparr>) }
         | _ \<Rightarrow> Some (DHCP_RUNNING, s));
        Some (ret, reset_DHCP_timeout s)
      })"

definition check_DHCP_leasedIP :: int where "check_DHCP_leasedIP = 1"

subsection \<open>The state machine\<close>

text \<open>The cases of the switch in \<open>DHCP_run\<close>, for a message of type \<open>type\<close>.\<close>

definition run_init :: "'w platform \<Rightarrow> (dhcp_result, 'w, 'm) dhcp_wait" where
  "run_init p s = do {
     (_, s) \<leftarrow> send_DHCP_DISCOVER p (s\<lparr>DHCP_allocated_ip := [0, 0, 0, 0]\<rparr>);
     Some (DHCP_RUNNING, s\<lparr>dhcp_state := STATE_DHCP_DISCOVER\<rparr>)
   }"

definition run_discover :: "'w platform \<Rightarrow> u8 \<Rightarrow> (dhcp_result, 'w, 'm) dhcp_wait" where
  "run_discover p type s =
     (if type = DHCP_OFFER then do {
        (_, s) \<leftarrow> send_DHCP_REQUEST p (s\<lparr>DHCP_allocated_ip := bytes_at (pDHCPMSG s) RIP_yiaddr 4\<rparr>);
        Some (DHCP_RUNNING, s\<lparr>dhcp_state := STATE_DHCP_REQUEST\<rparr>)
      } else check_DHCP_timeout p s)"

definition run_request :: "'w platform \<Rightarrow> u8 \<Rightarrow> (dhcp_result, 'w, 'm) dhcp_wait" where
  "run_request p type s =
     (if type = DHCP_ACK then
        if check_DHCP_leasedIP \<noteq> 0 then
          let s = handle (dhcp_ip_assign s) (default_ip_assign p) s; s = reset_DHCP_timeout s
          in Some (DHCP_RUNNING, s\<lparr>dhcp_state := STATE_DHCP_LEASED\<rparr>)
        else
          let s = reset_DHCP_timeout s; s = handle (dhcp_ip_conflict s) (default_ip_conflict p) s
          in Some (DHCP_RUNNING, s\<lparr>dhcp_state := STATE_DHCP_INIT\<rparr>)
      else if type = DHCP_NAK then
        Some (DHCP_RUNNING, (reset_DHCP_timeout s)\<lparr>dhcp_state := STATE_DHCP_DISCOVER\<rparr>)
      else check_DHCP_timeout p s)"

definition run_leased :: "'w platform \<Rightarrow> (dhcp_result, 'w, 'm) dhcp_wait" where
  "run_leased p s =
     (if dhcp_lease_time s \<noteq> INFINITE_LEASETIME \<and> dhcp_lease_time s div 2 < dhcp_tick_1s s then do {
        (_, s) \<leftarrow> send_DHCP_REQUEST p
          (s\<lparr>OLD_allocated_ip := DHCP_allocated_ip s, DHCP_XID := DHCP_XID s + 1\<rparr>);
        Some (DHCP_IP_LEASED, (reset_DHCP_timeout s)\<lparr>dhcp_state := STATE_DHCP_REREQUEST\<rparr>)
      } else Some (DHCP_IP_LEASED, s))"

definition run_rerequest :: "'w platform \<Rightarrow> u8 \<Rightarrow> (dhcp_result, 'w, 'm) dhcp_wait" where
  "run_rerequest p type s =
     (if type = DHCP_ACK then
        let s = s\<lparr>dhcp_retry_count := 0\<rparr>;
            changed = OLD_allocated_ip s \<noteq> DHCP_allocated_ip s;
            s = (if changed then handle (dhcp_ip_update s) (default_ip_update p) s else s)
        in Some (if changed then DHCP_IP_CHANGED else DHCP_IP_LEASED,
             (reset_DHCP_timeout s)\<lparr>dhcp_state := STATE_DHCP_LEASED\<rparr>)
      else if type = DHCP_NAK then
        Some (DHCP_IP_LEASED, (reset_DHCP_timeout s)\<lparr>dhcp_state := STATE_DHCP_DISCOVER\<rparr>)
      else check_DHCP_timeout p s)"

text \<open>What every call does first: open the socket again if needed, and read a message.\<close>

definition dhcp_input :: "'w platform \<Rightarrow> u16 \<times> u8 list \<Rightarrow> (u8, 'w, 'm) dhcp_wait" where
  "dhcp_input p stack s =
     (let (sr, s) = getSn_SR p (DHCP_SOCKET s) s;
          (_, s) = (if sr \<noteq> SOCK_UDP then socket p (DHCP_SOCKET s) Sn_MR_UDP DHCP_CLIENT_PORT 0 s else (0, s))
      in parseDHCPMSG p stack s)"

definition DHCP_run :: "'w platform \<Rightarrow> u16 \<times> u8 list \<Rightarrow> (dhcp_result, 'w, 'm) dhcp_wait" where
  "DHCP_run p stack s =
     (if dhcp_state s = STATE_DHCP_STOP then Some (DHCP_STOPPED, s)
      else do {
        (type, s) \<leftarrow> dhcp_input p stack s;
        (case dhcp_state s of
           STATE_DHCP_INIT \<Rightarrow> run_init p s
         | STATE_DHCP_DISCOVER \<Rightarrow> run_discover p type s
         | STATE_DHCP_REQUEST \<Rightarrow> run_request p type s
         | STATE_DHCP_LEASED \<Rightarrow> run_leased p s
         | STATE_DHCP_REREQUEST \<Rightarrow> run_rerequest p type s
         | _ \<Rightarrow> Some (DHCP_RUNNING, s))
      })"

definition DHCP_stop :: "'w platform \<Rightarrow> ('w, 'm) dhcp_proc" where
  "DHCP_stop p s = (let (_, s) = close p (DHCP_SOCKET s) s in s\<lparr>dhcp_state := STATE_DHCP_STOP\<rparr>)"

definition DHCP_init :: "'w platform \<Rightarrow> u8 \<Rightarrow> (nat \<Rightarrow> u8) \<Rightarrow> ('w, 'm) dhcp_proc" where
  "DHCP_init p sn buf s =
     (let (mac, s) = getSHAR p s;
          s = s\<lparr>DHCP_CHADDR := mac\<rparr>;
          s = (if foldr (OR) mac 0 = 0
               then let s = s\<lparr>DHCP_CHADDR := [0x00, 0x08, 0xDC, 0x00, 0x00, 0x00]\<rparr>
                    in setSHAR p (DHCP_CHADDR s) s
               else s);
          s = s\<lparr>DHCP_SOCKET := sn, pDHCPMSG := buf\<rparr>;
          c = DHCP_CHADDR s;
          s = s\<lparr>DHCP_XID := 0x12345678 + ucast (c ! 3) + ucast (c ! 4) + ucast (c ! 5)
                  + ucast (c ! 3 XOR c ! 4 XOR c ! 5)\<rparr>;
          s = setSIPR p [0, 0, 0, 0] s;
          s = setGAR p [0, 0, 0, 0] s;
          s = reset_DHCP_timeout s
      in s\<lparr>dhcp_state := STATE_DHCP_INIT\<rparr>)"

definition DHCP_time_handler :: "('w, 'm) dhcp_proc" where
  "DHCP_time_handler s = s\<lparr>dhcp_tick_1s := dhcp_tick_1s s + 1\<rparr>"

definition getIPfromDHCP :: "('w, 'm) dhcp_drv_scheme \<Rightarrow> u8 list" where
  "getIPfromDHCP s = DHCP_allocated_ip s"
definition getGWfromDHCP :: "('w, 'm) dhcp_drv_scheme \<Rightarrow> u8 list" where
  "getGWfromDHCP s = DHCP_allocated_gw s"
definition getSNfromDHCP :: "('w, 'm) dhcp_drv_scheme \<Rightarrow> u8 list" where
  "getSNfromDHCP s = DHCP_allocated_sn s"
definition getDNSfromDHCP :: "('w, 'm) dhcp_drv_scheme \<Rightarrow> u8 list" where
  "getDNSfromDHCP s = DHCP_allocated_dns s"
definition getDHCPLeasetime :: "('w, 'm) dhcp_drv_scheme \<Rightarrow> u32" where
  "getDHCPLeasetime s = dhcp_lease_time s"

end
