(* ===== verification/DhcpProps.thy ===== *)
theory DhcpProps
  imports Dhcp Scripted
begin

text \<open>
  Correctness of the DHCP client: the well-formedness of its statics under any interleaving of
  calls and timer interrupts, and the refinement of an abstract lease machine.
\<close>

unbundle bit_operations_syntax

subsection \<open>What the calls below the state machine keep\<close>

text \<open>The part of the statics that only the state machine writes, and the sizes of the arrays.\<close>

definition dhcp_core :: "('w, 'm) dhcp_drv_scheme
    \<Rightarrow> u8 \<times> u8 list \<times> u8 list \<times> dhcp_state_t \<times> int \<times> u32 \<times> u32 \<times> u8 list" where
  "dhcp_core s = (DHCP_SOCKET s, OLD_allocated_ip s, DHCP_allocated_ip s, dhcp_state s, dhcp_retry_count s,
     dhcp_tick_1s s, dhcp_tick_next s, DHCP_CHADDR s)"

definition dhcp_shape :: "('w, 'm) dhcp_drv_scheme \<Rightarrow> bool" where
  "dhcp_shape s \<longleftrightarrow> DHCP_SOCKET s < 8 \<and> length (DHCP_SIP s) = 4 \<and> length (DHCP_REAL_SIP s) = 4
     \<and> length (OLD_allocated_ip s) = 4 \<and> length (DHCP_allocated_ip s) = 4 \<and> length (DHCP_allocated_gw s) = 4
     \<and> length (DHCP_allocated_sn s) = 4 \<and> length (DHCP_allocated_dns s) = 4 \<and> length (DHCP_CHADDR s) = 6"

definition dhcp_below :: "nat \<Rightarrow> ('w, 'm) dhcp_drv_scheme \<Rightarrow> ('w, 'm) dhcp_drv_scheme \<Rightarrow> bool" where
  "dhcp_below k s t \<longleftrightarrow> dhcp_core t = dhcp_core s \<and> dhcp_shape t
     \<and> sends (DHCP_SOCKET s) t \<le> sends (DHCP_SOCKET s) s + k"

lemma dhcp_kept:
  fixes s t :: "('w, 'm) dhcp_drv_scheme"
  assumes "drv.more t = drv.more s"
  shows "dhcp_core t = dhcp_core s" "dhcp_shape t = dhcp_shape s" "pDHCPMSG t = pDHCPMSG s"
    "dhcp_lease_time t = dhcp_lease_time s" "DHCP_SIP t = DHCP_SIP s"
  using assms by (cases s; cases t; simp add: dhcp_core_def dhcp_shape_def)+

lemma dhcp_sends [simp]:
  fixes s :: "('w, 'm) dhcp_drv_scheme"
  shows "sends sn (s\<lparr>DHCP_SIP := a1\<rparr>) = sends sn s" "sends sn (s\<lparr>DHCP_REAL_SIP := a2\<rparr>) = sends sn s"
    "sends sn (s\<lparr>OLD_allocated_ip := a3\<rparr>) = sends sn s" "sends sn (s\<lparr>DHCP_allocated_ip := a4\<rparr>) = sends sn s"
    "sends sn (s\<lparr>DHCP_allocated_gw := a5\<rparr>) = sends sn s" "sends sn (s\<lparr>DHCP_allocated_sn := a6\<rparr>) = sends sn s"
    "sends sn (s\<lparr>DHCP_allocated_dns := a7\<rparr>) = sends sn s" "sends sn (s\<lparr>dhcp_state := st\<rparr>) = sends sn s"
    "sends sn (s\<lparr>dhcp_retry_count := i\<rparr>) = sends sn s" "sends sn (s\<lparr>dhcp_lease_time := l\<rparr>) = sends sn s"
    "sends sn (s\<lparr>dhcp_tick_1s := t\<rparr>) = sends sn s" "sends sn (s\<lparr>dhcp_tick_next := n\<rparr>) = sends sn s"
    "sends sn (s\<lparr>DHCP_XID := x\<rparr>) = sends sn s" "sends sn (s\<lparr>pDHCPMSG := m\<rparr>) = sends sn s"
    "sends sn (s\<lparr>world := w\<rparr>) = sends sn s"
  by (simp_all add: sends_def cmds_def)

lemma dhcp_below_refl: "dhcp_shape s \<Longrightarrow> dhcp_below 0 s s"
  by (simp add: dhcp_below_def)

lemma dhcp_below_client:
  assumes "dhcp_below j s t" and "client_step (DHCP_SOCKET s) k t u"
  shows "dhcp_below (j + k) s u"
  using assms dhcp_kept [of u t] by (simp add: dhcp_below_def client_step_def)

lemma dhcp_below_socket: "dhcp_below j s t \<Longrightarrow> DHCP_SOCKET t = DHCP_SOCKET s \<and> DHCP_SOCKET s < 8"
  by (auto simp: dhcp_below_def dhcp_core_def dhcp_shape_def)

lemma dhcp_below_fields [simp]:
  "dhcp_below k s (t\<lparr>pDHCPMSG := m\<rparr>) = dhcp_below k s t"
  "dhcp_below k s (t\<lparr>world := w\<rparr>) = dhcp_below k s t"
  "dhcp_below k s (t\<lparr>DHCP_XID := x\<rparr>) = dhcp_below k s t"
  "dhcp_below k s (t\<lparr>dhcp_lease_time := l\<rparr>) = dhcp_below k s t"
  by (simp_all add: dhcp_below_def dhcp_core_def dhcp_shape_def)

lemma dhcp_below_arrays:
  assumes "dhcp_below k s t" and "length a = 4"
  shows "dhcp_below k s (t\<lparr>DHCP_SIP := a\<rparr>)" "dhcp_below k s (t\<lparr>DHCP_REAL_SIP := a\<rparr>)"
    "dhcp_below k s (t\<lparr>DHCP_allocated_gw := a\<rparr>)" "dhcp_below k s (t\<lparr>DHCP_allocated_sn := a\<rparr>)"
    "dhcp_below k s (t\<lparr>DHCP_allocated_dns := a\<rparr>)"
  using assms by (auto simp: dhcp_below_def dhcp_core_def dhcp_shape_def)

subsection \<open>Sending\<close>

lemma makeDHCPMSG_below:
  assumes "dhcp_below k s t"
  shows "dhcp_below k s (makeDHCPMSG p t)"
proof -
  have "wpt (getSHAR p t) (\<lambda>_. dhcp_below k s)"
    using dhcp_below_client [OF assms, of 0] dhcp_below_socket [OF assms] by (auto intro!: client_getSHAR)
  then show ?thesis by (simp add: makeDHCPMSG_def wpt_def split_beta)
qed

lemma put_below [simp]:
  "dhcp_below k s (put_at off bs t) = dhcp_below k s t" "dhcp_below k s (put_options opts t) = dhcp_below k s t"
  by (simp_all add: put_at_def put_options_def)

lemma dhcp_send_below: "dhcp_below k s t \<Longrightarrow> wpo (dhcp_send p ip t) (\<lambda>_. dhcp_below (Suc k) s)"
  using dhcp_below_client [of k s t 1] dhcp_below_socket [of k s t] unfolding dhcp_send_def
  by (auto intro!: wp client_sendto)

lemma send_below:
  assumes "dhcp_below k s t"
  shows "wpo (send_DHCP_DISCOVER p t) (\<lambda>_. dhcp_below (Suc k) s)"
    and "wpo (send_DHCP_REQUEST p t) (\<lambda>_. dhcp_below (Suc k) s)"
    and "wpo (send_DHCP_DECLINE p t) (\<lambda>_. dhcp_below (Suc k) s)"
proof -
  note made = makeDHCPMSG_below [OF assms]
  have zero: "length [0, 0, 0, 0 :: u8] = 4" by simp
  show "wpo (send_DHCP_DISCOVER p t) (\<lambda>_. dhcp_below (Suc k) s)"
    unfolding send_DHCP_DISCOVER_def Let_def
    using dhcp_below_arrays(2) [OF dhcp_below_arrays(1) [OF made [of p] zero] zero]
    by (intro dhcp_send_below) simp
  show "wpo (send_DHCP_REQUEST p t) (\<lambda>_. dhcp_below (Suc k) s)"
    "wpo (send_DHCP_DECLINE p t) (\<lambda>_. dhcp_below (Suc k) s)"
    unfolding send_DHCP_REQUEST_def send_DHCP_DECLINE_def Let_def
    by (auto intro!: dhcp_send_below made)
qed

subsection \<open>Receiving\<close>

definition dhcp_mine :: "('w, 'm) dhcp_drv_scheme \<Rightarrow> bool" where
  "dhcp_mine s \<longleftrightarrow> bytes_at (pDHCPMSG s) RIP_chaddr 6 = DHCP_CHADDR s"

lemma dhcp_option_below:
  assumes "dhcp_below k s t" and "length svr = 4" and "dhcp_option svr q ty t = (x, ty', t')"
  shows "dhcp_below k s t' \<and> pDHCPMSG t' = pDHCPMSG t \<and> DHCP_CHADDR t' = DHCP_CHADDR t"
  using assms by (auto simp: dhcp_option_def Let_def dhcp_below_arrays bytes_at_def split: if_splits)

lemma dhcp_options_below:
  assumes "dhcp_below k s t" and "length svr = 4" and "dhcp_options svr q e ty t = (ty', t')"
  shows "dhcp_below k s t' \<and> pDHCPMSG t' = pDHCPMSG t \<and> DHCP_CHADDR t' = DHCP_CHADDR t"
  using assms
proof (induction svr q e ty t arbitrary: ty' t' rule: dhcp_options.induct)
  case (1 svr q e ty t)
  obtain x tx u where o: "dhcp_option svr q ty t = (x, tx, u)" by (metis prod_cases3)
  from dhcp_option_below [OF 1(2,3) o] 1 show ?case
    by (cases x) (auto simp: dhcp_options.simps [of svr q] o split: if_splits)
qed

lemma parse_below:
  assumes "dhcp_below k s t" and "length (snd stack) = 4"
  shows "wpo (parseDHCPMSG p stack t) (\<lambda>ty u. dhcp_below k s u \<and> (ty \<noteq> 0 \<longrightarrow> dhcp_mine u))"
proof -
  have step: "dhcp_below k s u" if "dhcp_below k s v" "client_step (DHCP_SOCKET v) 0 v u" for v u
    using dhcp_below_client [OF that(1), of 0] dhcp_below_socket [OF that(1)] that(2) by simp
  have one: "dhcp_below k s u" if "client_step (DHCP_SOCKET s) 0 t u" for u
    using dhcp_below_client [OF assms(1) that] by simp
  have opts: "wpt (dhcp_options svr 240 n 0 u) (\<lambda>ty u. dhcp_below k s u \<and> (ty \<noteq> 0 \<longrightarrow> dhcp_mine u))"
    if "dhcp_below k s u" "length svr = 4" "dhcp_ours svr u" for svr n u
    using dhcp_options_below [OF that(1,2), of 240 n 0] that(3)
    by (cases "dhcp_options svr 240 n 0 u") (simp add: wpt_def dhcp_mine_def dhcp_ours_def)
  have addr: "length (case out_addr out of None \<Rightarrow> snd stack | Some a \<Rightarrow> a) = 4" if "sender_ok out" for out
    using that assms(2) by (auto simp: sender_ok_def split: option.split)
  show ?thesis
    unfolding parseDHCPMSG_def Let_def
    using assms(1) dhcp_below_socket [OF assms(1)]
    by (auto intro!: wp client_getSn_RX_RSR client_recvfrom_sender opts addr intro: one step [OF one])
qed

lemma input_below:
  assumes "dhcp_shape s" and "length (snd stack) = 4"
  shows "wpo (dhcp_input p stack s) (\<lambda>ty u. dhcp_below 0 s u \<and> (ty \<noteq> 0 \<longrightarrow> dhcp_mine u))"
proof -
  note start = dhcp_below_refl [OF assms(1)]
  have sn: "DHCP_SOCKET s < 8" using assms(1) by (simp add: dhcp_shape_def)
  have step: "dhcp_below 0 s u" if "dhcp_below 0 s v" "client_step (DHCP_SOCKET v) 0 v u" for v u
    using dhcp_below_client [OF that(1), of 0] dhcp_below_socket [OF that(1)] that(2) by simp
  have sr: "dhcp_below 0 s u" if "client_step (DHCP_SOCKET s) 0 s u" for u by (rule step [OF start that])
  show ?thesis
    unfolding dhcp_input_def Let_def
    by (intro wpo_case_prod wpt_if client_getSn_SR sn client_socket wpt_pair parse_below assms(2))
      (auto intro: sr step [OF sr])
qed

subsection \<open>The lease machine\<close>

text \<open>
  The client as an abstract machine: where it stands in obtaining a lease, and with which address.
  A step is labelled with its cause, the number of messages it sends, and the reported result.
\<close>

datatype lease = Idle | Selecting | Requesting "u8 list" | Bound "u8 list" | Renewing "u8 list" | Stopped

datatype lease_event = Start | Offer "u8 list" | Ack | Nak | Wait | Resend | Give_up | Renew

fun awaiting :: "lease \<Rightarrow> bool" where
  "awaiting Selecting = True"
| "awaiting (Requesting a) = True"
| "awaiting (Renewing a) = True"
| "awaiting _ = False"

inductive lease_step :: "lease \<Rightarrow> lease_event \<Rightarrow> nat \<Rightarrow> dhcp_result \<Rightarrow> lease \<Rightarrow> bool" where
  start: "lease_step Idle Start 1 DHCP_RUNNING Selecting"
| offer: "lease_step Selecting (Offer a) 1 DHCP_RUNNING (Requesting a)"
| ack: "lease_step (Requesting a) Ack 0 DHCP_RUNNING (Bound a)"
| nak: "lease_step (Requesting a) Nak 0 DHCP_RUNNING Selecting"
| hold: "lease_step (Bound a) Wait 0 DHCP_IP_LEASED (Bound a)"
| renew: "lease_step (Bound a) Renew 1 DHCP_IP_LEASED (Renewing a)"
| renewed: "lease_step (Renewing a) Ack 0 DHCP_IP_LEASED (Bound a)"
| refused: "lease_step (Renewing a) Nak 0 DHCP_IP_LEASED Selecting"
| wait: "awaiting l \<Longrightarrow> lease_step l Wait 0 DHCP_RUNNING l"
| resend: "awaiting l \<Longrightarrow> lease_step l Resend 1 DHCP_RUNNING l"
| no_offer: "lease_step Selecting Give_up 0 DHCP_FAILED Idle"
| no_answer: "\<lbrakk>awaiting l; l \<noteq> Selecting\<rbrakk> \<Longrightarrow> lease_step l Give_up 1 DHCP_RUNNING Selecting"
| stopped: "lease_step Stopped Wait 0 DHCP_STOPPED Stopped"

inductive_cases lease_step_results [elim!]:
  "lease_step l ev k DHCP_IP_ASSIGN l'" "lease_step l ev k DHCP_IP_CHANGED l'"

lemmas lease_steps = lease_step.intros [unfolded One_nat_def]

definition lease_of :: "('w, 'm) dhcp_drv_scheme \<Rightarrow> lease" where
  "lease_of s = (case dhcp_state s of
     STATE_DHCP_INIT \<Rightarrow> Idle
   | STATE_DHCP_DISCOVER \<Rightarrow> Selecting
   | STATE_DHCP_REQUEST \<Rightarrow> Requesting (DHCP_allocated_ip s)
   | STATE_DHCP_LEASED \<Rightarrow> Bound (DHCP_allocated_ip s)
   | STATE_DHCP_REREQUEST \<Rightarrow> Renewing (DHCP_allocated_ip s)
   | _ \<Rightarrow> Stopped)"

text \<open>What justifies a step: the type of the message just read, the retries, or the clock.\<close>

definition lease_cause :: "u8 \<Rightarrow> ('w, 'm) dhcp_drv_scheme \<Rightarrow> lease_event \<Rightarrow> bool" where
  "lease_cause type s ev = (case ev of
     Offer a \<Rightarrow> type = DHCP_OFFER \<and> a = bytes_at (pDHCPMSG s) RIP_yiaddr 4
   | Ack \<Rightarrow> type = DHCP_ACK
   | Nak \<Rightarrow> type = DHCP_NAK
   | Resend \<Rightarrow> dhcp_retry_count s < MAX_DHCP_RETRY \<and> dhcp_tick_next s < dhcp_tick_1s s
   | Give_up \<Rightarrow> dhcp_retry_count s = MAX_DHCP_RETRY
   | Renew \<Rightarrow> dhcp_lease_time s \<noteq> INFINITE_LEASETIME \<and> dhcp_lease_time s div 2 < dhcp_tick_1s s
   | _ \<Rightarrow> True)"

definition dhcp_ok :: "('w, 'm) dhcp_drv_scheme \<Rightarrow> bool" where
  "dhcp_ok s \<longleftrightarrow> dhcp_shape s \<and> 0 \<le> dhcp_retry_count s \<and> dhcp_retry_count s \<le> MAX_DHCP_RETRY
     \<and> dhcp_state s \<noteq> STATE_DHCP_RELEASE
     \<and> (dhcp_state s = STATE_DHCP_REREQUEST \<longrightarrow> OLD_allocated_ip s = DHCP_allocated_ip s)"

text \<open>One step of the machine taken by the code, from the state the message was read in.\<close>

definition lease_taken ::
    "u8 \<Rightarrow> ('w, 'm) dhcp_drv_scheme \<Rightarrow> dhcp_result \<Rightarrow> ('w, 'm) dhcp_drv_scheme \<Rightarrow> bool" where
  "lease_taken type s r s' \<longleftrightarrow> dhcp_ok s' \<and> (\<exists>ev k. lease_step (lease_of s) ev k r (lease_of s') \<and> lease_cause type s ev
     \<and> sends (DHCP_SOCKET s) s' \<le> sends (DHCP_SOCKET s) s + k)"

lemmas dhcp_views = lease_of_def lease_cause_def dhcp_ok_def dhcp_below_def dhcp_core_def dhcp_shape_def
  MAX_DHCP_RETRY_def reset_DHCP_timeout_def DHCP_WAIT_TIME_def

lemma lease_takenI:
  assumes "dhcp_ok s'" and "lease_step (lease_of s) ev k r (lease_of s')" and "lease_cause type s ev"
    and "sends (DHCP_SOCKET s) s' \<le> sends (DHCP_SOCKET s) s + k"
  shows "lease_taken type s r s'"
  using assms unfolding lease_taken_def by blast

lemma check_timeout_taken:
  assumes "dhcp_ok s" and "awaiting (lease_of s)"
  shows "wpo (check_DHCP_timeout p s) (lease_taken type s)"
proof -
  have here: "dhcp_below 0 s s" using assms(1) by (simp add: dhcp_ok_def dhcp_below_refl)
  have resend: "lease_taken type s DHCP_RUNNING
      (u\<lparr>dhcp_tick_1s := 0, dhcp_tick_next := n, dhcp_retry_count := dhcp_retry_count u + 1\<rparr>)"
    if "dhcp_below 1 s u" "dhcp_retry_count s < MAX_DHCP_RETRY" "dhcp_tick_next s < dhcp_tick_1s s" for u n
    by (rule lease_takenI [where ev = Resend and k = 1])
      (use that assms in \<open>auto simp: dhcp_views intro: lease_steps split: dhcp_state_t.splits\<close>)
  have wait: "lease_taken type s DHCP_RUNNING s"
    by (rule lease_takenI [where ev = Wait and k = 0])
      (use assms in \<open>auto simp: lease_cause_def intro: lease_steps\<close>)
  have restart: "lease_taken type s DHCP_RUNNING (reset_DHCP_timeout (u\<lparr>dhcp_state := STATE_DHCP_DISCOVER\<rparr>))"
    if "dhcp_below 1 s u" "\<not> dhcp_retry_count s < MAX_DHCP_RETRY" "lease_of s \<noteq> Selecting" for u
    by (rule lease_takenI [where ev = Give_up and k = 1])
      (use that assms lease_steps(12) [of "lease_of s"] in \<open>auto simp: dhcp_views\<close>)
  have failed: "lease_taken type s DHCP_FAILED (reset_DHCP_timeout (s\<lparr>dhcp_state := STATE_DHCP_INIT\<rparr>))"
    if "\<not> dhcp_retry_count s < MAX_DHCP_RETRY" "dhcp_state s = STATE_DHCP_DISCOVER"
    by (rule lease_takenI [where ev = Give_up and k = 0])
      (use that assms in \<open>auto simp: dhcp_views intro: lease_steps\<close>)
  note sent = send_below(1,2) [OF here, simplified]
  show ?thesis
    using assms(2) unfolding check_DHCP_timeout_def Let_def
    by (auto intro!: wp wpo_mono [OF sent(1)] wpo_mono [OF sent(2)] wait failed intro: resend restart
        simp: lease_of_def split: dhcp_state_t.splits)
qed

subsection \<open>The cases of the machine\<close>

lemma lease_of_eqs [simp]:
  "dhcp_state s = STATE_DHCP_INIT \<Longrightarrow> lease_of s = Idle"
  "dhcp_state s = STATE_DHCP_DISCOVER \<Longrightarrow> lease_of s = Selecting"
  "dhcp_state s = STATE_DHCP_REQUEST \<Longrightarrow> lease_of s = Requesting (DHCP_allocated_ip s)"
  "dhcp_state s = STATE_DHCP_LEASED \<Longrightarrow> lease_of s = Bound (DHCP_allocated_ip s)"
  "dhcp_state s = STATE_DHCP_REREQUEST \<Longrightarrow> lease_of s = Renewing (DHCP_allocated_ip s)"
  "dhcp_state s = STATE_DHCP_STOP \<Longrightarrow> lease_of s = Stopped"
  by (simp_all add: lease_of_def)

lemma run_init_taken:
  assumes "dhcp_ok s" and "dhcp_state s = STATE_DHCP_INIT"
  shows "wpo (run_init p s) (lease_taken type s)"
proof -
  let ?s = "s\<lparr>DHCP_allocated_ip := [0, 0, 0, 0]\<rparr>"
  have taken: "lease_taken type s DHCP_RUNNING (u\<lparr>dhcp_state := STATE_DHCP_DISCOVER\<rparr>)" if "dhcp_below 1 ?s u" for u
    by (rule lease_takenI [where ev = Start and k = 1])
      (use that assms in \<open>auto simp: dhcp_views intro: lease_steps\<close>)
  have "dhcp_below 0 ?s ?s"
    using assms(1) by (intro dhcp_below_refl) (simp add: dhcp_ok_def dhcp_shape_def)
  then show ?thesis
    unfolding run_init_def by (auto intro!: wp wpo_mono [OF send_below(1)] taken)
qed

lemma run_discover_taken:
  assumes "dhcp_ok s" and "dhcp_state s = STATE_DHCP_DISCOVER"
  shows "wpo (run_discover p type s) (lease_taken type s)"
proof -
  let ?a = "bytes_at (pDHCPMSG s) RIP_yiaddr 4"
  let ?s = "s\<lparr>DHCP_allocated_ip := ?a\<rparr>"
  have taken: "lease_taken DHCP_OFFER s DHCP_RUNNING (u\<lparr>dhcp_state := STATE_DHCP_REQUEST\<rparr>)"
    if "dhcp_below 1 ?s u" for u
    by (rule lease_takenI [where ev = "Offer ?a" and k = 1])
      (use that assms in \<open>auto simp: dhcp_views intro: lease_steps\<close>)
  have "dhcp_below 0 ?s ?s"
    using assms(1) by (intro dhcp_below_refl) (simp add: dhcp_ok_def dhcp_shape_def bytes_at_def)
  then show ?thesis
    unfolding run_discover_def using assms
    by (auto intro!: wp check_timeout_taken wpo_mono [OF send_below(2)] taken)
qed

lemma handle_below:
  assumes "dhcp_below k s t" and "dhcp_below k s (dflt t)"
  shows "dhcp_below k s (handle cb dflt t)"
  using assms by (cases cb) (simp_all add: handle_def)

lemma registers_below:
  assumes "dhcp_below k s t"
  shows "dhcp_below k s (setSIPR p v t)" "dhcp_below k s (setSUBR p v t)" "dhcp_below k s (setGAR p v t)"
    "dhcp_below k s (setSHAR p v t)" "dhcp_below k s (setMR p b t)" "dhcp_below k s (snd (getMR p t))"
proof -
  note below = dhcp_below_client [OF assms, of 0, simplified]
  have sn: "DHCP_SOCKET s < 8" using dhcp_below_socket [OF assms] by simp
  show "dhcp_below k s (setSIPR p v t)" "dhcp_below k s (setSUBR p v t)" "dhcp_below k s (setGAR p v t)"
    "dhcp_below k s (setSHAR p v t)" "dhcp_below k s (setMR p b t)"
    by (rule below, rule client_common, rule sn)+
  have "wpt (getMR p t) (\<lambda>_. dhcp_below k s)" using sn by (rule client_getMR) (rule below)
  then show "dhcp_below k s (snd (getMR p t))" by (simp add: wpt_def)
qed

lemma default_below:
  assumes "dhcp_below k s t"
  shows "dhcp_below k s (default_ip_assign p t)" "dhcp_below k s (default_ip_update p t)"
    "dhcp_below k s (default_ip_conflict p t)"
  unfolding default_ip_update_def default_ip_conflict_def default_ip_assign_def Let_def split_beta
  by (intro registers_below assms)+

lemma run_request_taken:
  assumes "dhcp_ok s" and "dhcp_state s = STATE_DHCP_REQUEST"
  shows "wpo (run_request p type s) (lease_taken type s)"
proof -
  have here: "dhcp_below 0 s s" using assms(1) by (simp add: dhcp_ok_def dhcp_below_refl)
  have ack: "lease_taken DHCP_ACK s DHCP_RUNNING ((reset_DHCP_timeout u)\<lparr>dhcp_state := STATE_DHCP_LEASED\<rparr>)"
    if "dhcp_below 0 s u" for u
    by (rule lease_takenI [where ev = Ack and k = 0])
      (use that assms in \<open>auto simp: dhcp_views intro: lease_steps\<close>)
  have nak: "lease_taken DHCP_NAK s DHCP_RUNNING ((reset_DHCP_timeout s)\<lparr>dhcp_state := STATE_DHCP_DISCOVER\<rparr>)"
    by (rule lease_takenI [where ev = Nak and k = 0])
      (use assms in \<open>auto simp: dhcp_views intro: lease_steps\<close>)
  show ?thesis
    unfolding run_request_def Let_def using assms
    by (auto intro!: wp check_timeout_taken ack nak handle_below here default_below
        simp: check_DHCP_leasedIP_def)
qed

lemma run_leased_taken:
  assumes "dhcp_ok s" and "dhcp_state s = STATE_DHCP_LEASED"
  shows "wpo (run_leased p s) (lease_taken type s)"
proof -
  let ?s = "s\<lparr>OLD_allocated_ip := DHCP_allocated_ip s, DHCP_XID := DHCP_XID s + 1\<rparr>"
  have renew: "lease_taken type s DHCP_IP_LEASED ((reset_DHCP_timeout u)\<lparr>dhcp_state := STATE_DHCP_REREQUEST\<rparr>)"
    if "dhcp_below 1 ?s u" "dhcp_lease_time s \<noteq> INFINITE_LEASETIME" "dhcp_lease_time s div 2 < dhcp_tick_1s s" for u
    by (rule lease_takenI [where ev = Renew and k = 1])
      (use that assms in \<open>auto simp: dhcp_views intro: lease_steps\<close>)
  have hold: "lease_taken type s DHCP_IP_LEASED s"
    by (rule lease_takenI [where ev = Wait and k = 0])
      (use assms in \<open>auto simp: lease_cause_def intro: lease_steps\<close>)
  have "dhcp_below 0 ?s ?s"
    using assms(1) by (intro dhcp_below_refl) (simp add: dhcp_ok_def dhcp_shape_def)
  then show ?thesis
    unfolding run_leased_def by (auto intro!: wp hold wpo_mono [OF send_below(2)] renew)
qed

lemma run_rerequest_taken:
  assumes "dhcp_ok s" and "dhcp_state s = STATE_DHCP_REREQUEST"
  shows "wpo (run_rerequest p type s) (lease_taken type s)"
proof -
  have same: "OLD_allocated_ip s = DHCP_allocated_ip s" using assms by (simp add: dhcp_ok_def)
  have ack: "lease_taken DHCP_ACK s DHCP_IP_LEASED
      ((reset_DHCP_timeout (s\<lparr>dhcp_retry_count := 0\<rparr>))\<lparr>dhcp_state := STATE_DHCP_LEASED\<rparr>)"
    by (rule lease_takenI [where ev = Ack and k = 0])
      (use assms in \<open>auto simp: dhcp_views intro: lease_steps\<close>)
  have nak: "lease_taken DHCP_NAK s DHCP_IP_LEASED ((reset_DHCP_timeout s)\<lparr>dhcp_state := STATE_DHCP_DISCOVER\<rparr>)"
    by (rule lease_takenI [where ev = Nak and k = 0])
      (use assms in \<open>auto simp: dhcp_views intro: lease_steps\<close>)
  show ?thesis
    unfolding run_rerequest_def Let_def using assms same
    by (auto intro!: wp check_timeout_taken ack nak)
qed

subsection \<open>A whole call\<close>

text \<open>The message a call acts on: its type, and the state after reading it. A stopped client reads none.\<close>

definition dhcp_heard :: "'w platform \<Rightarrow> u16 \<times> u8 list \<Rightarrow> ('w, 'm) dhcp_drv_scheme \<Rightarrow> u8
    \<Rightarrow> ('w, 'm) dhcp_drv_scheme \<Rightarrow> bool" where
  "dhcp_heard p stack s type t \<longleftrightarrow>
     (if dhcp_state s = STATE_DHCP_STOP then type = 0 \<and> t = s else dhcp_input p stack s = Some (type, t))"

lemma below_ok:
  assumes "dhcp_below 0 s t"
  shows "dhcp_ok s \<Longrightarrow> dhcp_ok t" "lease_of t = lease_of s" "dhcp_state t = dhcp_state s"
  using assms by (auto simp: dhcp_views split: dhcp_state_t.split)

lemma stopped_taken: "\<lbrakk>dhcp_ok s; dhcp_state s = STATE_DHCP_STOP\<rbrakk> \<Longrightarrow> lease_taken type s DHCP_STOPPED s"
  by (rule lease_takenI [where ev = Wait and k = 0]) (auto simp: lease_cause_def intro: lease_steps)

lemmas cases_taken = run_init_taken run_discover_taken run_request_taken run_leased_taken run_rerequest_taken

lemma DHCP_run_taken:
  assumes e: "DHCP_run p stack s = Some (r, s')" and ok: "dhcp_ok s" and stack: "length (snd stack) = 4"
  obtains type t where "dhcp_heard p stack s type t" "type \<noteq> 0 \<longrightarrow> dhcp_mine t" "dhcp_below 0 s t"
    "lease_taken type t r s'"
proof (cases "dhcp_state s = STATE_DHCP_STOP")
  case True
  with e ok have "dhcp_heard p stack s 0 s" "dhcp_below 0 s s" "lease_taken 0 s r s'"
    by (auto simp: DHCP_run_def dhcp_heard_def dhcp_ok_def dhcp_below_refl stopped_taken)
  then show ?thesis by (auto intro: that)
next
  case False
  with e obtain type t where i: "dhcp_input p stack s = Some (type, t)"
    and c: "(case dhcp_state t of STATE_DHCP_INIT \<Rightarrow> run_init p t
         | STATE_DHCP_DISCOVER \<Rightarrow> run_discover p type t | STATE_DHCP_REQUEST \<Rightarrow> run_request p type t
         | STATE_DHCP_LEASED \<Rightarrow> run_leased p t | STATE_DHCP_REREQUEST \<Rightarrow> run_rerequest p type t
         | _ \<Rightarrow> Some (DHCP_RUNNING, t)) = Some (r, s')"
    by (auto simp: DHCP_run_def bind_eq_Some_conv)
  have "dhcp_shape s" using ok by (simp add: dhcp_ok_def)
  from wpoD [OF input_below [OF this stack] i] have t: "dhcp_below 0 s t" "type \<noteq> 0 \<longrightarrow> dhcp_mine t" by auto
  have "dhcp_ok t" "dhcp_state t \<noteq> STATE_DHCP_STOP" "dhcp_state t \<noteq> STATE_DHCP_RELEASE"
    using below_ok [OF t(1)] ok False by (auto simp: dhcp_ok_def)
  then have "lease_taken type t r s'"
    using c wpoD [OF cases_taken(1)] wpoD [OF cases_taken(2)] wpoD [OF cases_taken(3)]
      wpoD [OF cases_taken(4)] wpoD [OF cases_taken(5)]
    by (cases "dhcp_state t") (simp; blast)+
  with t i False show ?thesis by (auto intro!: that simp: dhcp_heard_def)
qed

text \<open>C7: \<open>DHCP_run\<close> implements the lease machine. Whatever the chip, the network and the handlers do, a call
  that returns took one step of the machine, with the result of that step, and gave at most as many
  SEND commands as the step has messages. The step was justified by what the call read: an offer
  of the very address now requested, an acknowledgement or a refusal, in a message that carries the
  client's own hardware address; by the retries left; or by half the lease time having passed.\<close>

theorem dhcp_refines:
  assumes "DHCP_run p stack s = Some (r, s')" and "dhcp_ok s" and "length (snd stack) = 4"
  shows "\<exists>type t ev k. dhcp_heard p stack s type t \<and> (type \<noteq> 0 \<longrightarrow> dhcp_mine t) \<and> lease_cause type t ev
    \<and> lease_step (lease_of s) ev k r (lease_of s')
    \<and> sends (DHCP_SOCKET s) s' \<le> sends (DHCP_SOCKET s) s + k"
proof -
  from DHCP_run_taken [OF assms] obtain type t where t: "dhcp_heard p stack s type t"
    "type \<noteq> 0 \<longrightarrow> dhcp_mine t" "dhcp_below 0 s t" "lease_taken type t r s'" by blast
  from t(4) obtain ev k where "lease_step (lease_of t) ev k r (lease_of s')" "lease_cause type t ev"
    "sends (DHCP_SOCKET t) s' \<le> sends (DHCP_SOCKET t) t + k"
    unfolding lease_taken_def by blast
  moreover have "DHCP_SOCKET t = DHCP_SOCKET s" "sends (DHCP_SOCKET s) t \<le> sends (DHCP_SOCKET s) s"
    using t(3) by (auto simp: dhcp_below_def dhcp_core_def)
  ultimately show ?thesis
    using t(1,2) below_ok(2) [OF t(3)] by (metis add_le_mono1 order_trans)
qed

text \<open>A client on socket 2, with an address and a server, and a chip that answers nothing.\<close>

definition dhcp_start :: "dhcp_state_t \<Rightarrow> u8 list dhcp_drv" where
  "dhcp_start st = drv.extend ((scripted_ready [])\<lparr>chip_state := WIZCHIP_STATE_UNINIT\<rparr>)
     \<lparr>DHCP_SOCKET = 2, DHCP_SIP = [10, 0, 0, 1], DHCP_REAL_SIP = [10, 0, 0, 1], OLD_allocated_ip = [0, 0, 0, 0],
      DHCP_allocated_ip = [10, 0, 0, 9], DHCP_allocated_gw = [10, 0, 0, 1], DHCP_allocated_sn = [255, 0, 0, 0],
      DHCP_allocated_dns = [10, 0, 0, 1], dhcp_state = st, dhcp_retry_count = 0, dhcp_lease_time = 1000,
      dhcp_tick_1s = 400, dhcp_tick_next = 10, DHCP_XID = 0x12345678, pDHCPMSG = (\<lambda>_. 0),
      DHCP_CHADDR = [0, 8, 0xDC, 1, 2, 3], dhcp_ip_assign = None, dhcp_ip_update = None, dhcp_ip_conflict = None\<rparr>"

lemma dhcp_start_ok:
  "st \<noteq> STATE_DHCP_RELEASE \<Longrightarrow> st \<noteq> STATE_DHCP_REREQUEST \<Longrightarrow> dhcp_ok (dhcp_start st)"
  by (simp add: dhcp_views dhcp_start_def drv.extend_def)

lemmas dhcp_run_defs = DHCP_run_def dhcp_input_def parseDHCPMSG_def run_leased_def run_request_def
  check_DHCP_timeout_def MAX_DHCP_RETRY_def DHCP_ACK_def DHCP_NAK_def send_DHCP_REQUEST_def makeDHCPMSG_def
  put_at_def put_options_def dhcp_send_def dhcp_start_def drv.extend_def forever_code

lemma dhcp_start_run:
  "\<exists>s'. DHCP_run scripted (0, [0, 0, 0, 0]) (dhcp_start STATE_DHCP_REQUEST) = Some (DHCP_RUNNING, s')"
  "\<exists>s'. DHCP_run scripted (0, [0, 0, 0, 0]) (dhcp_start STATE_DHCP_LEASED) = Some (DHCP_IP_LEASED, s')"
  by (simp_all add: run_defs reg_defs dgram_defs open_defs dhcp_run_defs cong: run_cong)

theorem dhcp_refines_witness:
  "\<exists>s'. DHCP_run scripted (0, [0, 0, 0, 0]) (dhcp_start STATE_DHCP_REQUEST) = Some (DHCP_RUNNING, s')
    \<and> (\<exists>ev k. lease_step (Requesting [10, 0, 0, 9]) ev k DHCP_RUNNING (lease_of s'))"
proof -
  obtain s' where e: "DHCP_run scripted (0, [0, 0, 0, 0]) (dhcp_start STATE_DHCP_REQUEST) = Some (DHCP_RUNNING, s')"
    using dhcp_start_run by blast
  have "lease_of (dhcp_start STATE_DHCP_REQUEST) = Requesting [10, 0, 0, 9]"
    by (simp add: lease_of_def dhcp_start_def drv.extend_def)
  with dhcp_refines [OF e dhcp_start_ok] e show ?thesis by auto
qed

subsection \<open>Any interleaving\<close>

text \<open>
  One operation of a program that uses the client: its calls, the timer interrupt, and calls of
  the rest of the driver.
\<close>

inductive dhcp_step :: "'w platform \<Rightarrow> ('w, 'm) dhcp_drv_scheme \<Rightarrow> dhcp_result list
    \<Rightarrow> ('w, 'm) dhcp_drv_scheme \<Rightarrow> bool" for p where
  run: "\<lbrakk>DHCP_run p stack s = Some (r, s'); length (snd stack) = 4\<rbrakk> \<Longrightarrow> dhcp_step p s [r] s'"
| tick: "dhcp_step p s [] (DHCP_time_handler s)"
| stop: "dhcp_step p s [] (DHCP_stop p s)"
| init: "sn < 8 \<Longrightarrow> dhcp_step p s [] (DHCP_init p sn buf s)"
| handlers: "dhcp_step p s [] (reg_dhcp_cbfunc a u c s)"
| other: "statics s s' \<Longrightarrow> dhcp_step p s [] s'"

inductive dhcp_runs :: "'w platform \<Rightarrow> ('w, 'm) dhcp_drv_scheme \<Rightarrow> dhcp_result list
    \<Rightarrow> ('w, 'm) dhcp_drv_scheme \<Rightarrow> bool" for p where
  none: "dhcp_runs p s [] s"
| more: "\<lbrakk>dhcp_step p s rs t; dhcp_runs p t rs' s'\<rbrakk> \<Longrightarrow> dhcp_runs p s (rs @ rs') s'"

lemma DHCP_stop_ok:
  assumes "dhcp_ok s"
  shows "dhcp_ok (DHCP_stop p s)"
proof -
  have "wpt (close p (DHCP_SOCKET s) s) (\<lambda>_. dhcp_below 0 s)"
    using assms dhcp_below_client [OF dhcp_below_refl, of s 0] by (auto simp: dhcp_ok_def intro!: client_close)
  with assms show ?thesis
    by (auto simp: DHCP_stop_def wpt_def split_beta dhcp_views)
qed

lemma registers_ok:
  assumes "dhcp_ok t"
  shows "dhcp_ok (setSIPR p v t)" "dhcp_ok (setGAR p v t)" "dhcp_ok (setSHAR p v t)"
proof -
  have "dhcp_below 0 t t" using assms by (simp add: dhcp_ok_def dhcp_below_refl)
  note registers_below [OF this]
  then show "dhcp_ok (setSIPR p v t)" "dhcp_ok (setGAR p v t)" "dhcp_ok (setSHAR p v t)"
    using below_ok(1) assms by blast+
qed

lemma dhcp_ok_fields:
  "dhcp_ok t \<Longrightarrow> length mac = 6 \<Longrightarrow> dhcp_ok (t\<lparr>DHCP_CHADDR := mac\<rparr>)"
  "dhcp_ok t \<Longrightarrow> sn < 8 \<Longrightarrow> dhcp_ok (t\<lparr>DHCP_SOCKET := sn\<rparr>)"
  "dhcp_ok t \<Longrightarrow> dhcp_ok (t\<lparr>pDHCPMSG := buf\<rparr>)"
  "dhcp_ok t \<Longrightarrow> dhcp_ok (t\<lparr>DHCP_XID := x\<rparr>)"
  "dhcp_ok t \<Longrightarrow> dhcp_ok ((reset_DHCP_timeout t)\<lparr>dhcp_state := STATE_DHCP_INIT\<rparr>)"
  by (simp_all add: dhcp_ok_def dhcp_shape_def reset_DHCP_timeout_def MAX_DHCP_RETRY_def)

lemma DHCP_init_ok:
  assumes "dhcp_ok s" and "sn < 8"
  shows "dhcp_ok (DHCP_init p sn buf s)"
proof -
  have here: "dhcp_below 0 s s" and "DHCP_SOCKET s < 8"
    using assms(1) by (simp_all add: dhcp_ok_def dhcp_below_refl dhcp_shape_def)
  then have "wpt (getSHAR p s) (\<lambda>mac t. length mac = 6 \<and> dhcp_ok t)"
    using dhcp_below_client [OF here, of 0] below_ok(1) [of s] assms(1) by (auto intro!: client_getSHAR)
  then have mac: "length (fst (getSHAR p s)) = 6" "dhcp_ok (snd (getSHAR p s))" by (simp_all add: wpt_def)
  have cond: "dhcp_ok (if c then a else b)" if "dhcp_ok a" "dhcp_ok b" for c and a b :: "('a, 'b) dhcp_drv_scheme"
    using that by simp
  show ?thesis
    unfolding DHCP_init_def Let_def split_beta
    by (intro cond dhcp_ok_fields registers_ok mac assms(2)) simp_all
qed

lemma tick_handlers_ok:
  "dhcp_ok s \<Longrightarrow> dhcp_ok (DHCP_time_handler s)" "dhcp_ok s \<Longrightarrow> dhcp_ok (reg_dhcp_cbfunc a u c s)"
  by (simp_all add: DHCP_time_handler_def reg_dhcp_cbfunc_def dhcp_ok_def dhcp_shape_def)

lemma dhcp_step_ok:
  assumes "dhcp_step p s rs s'" and "dhcp_ok s"
  shows "dhcp_ok s' \<and> DHCP_IP_ASSIGN \<notin> set rs \<and> DHCP_IP_CHANGED \<notin> set rs"
  using assms
proof cases
  case (run stack r)
  from DHCP_run_taken [OF run(2) assms(2) run(3)] obtain type t where "lease_taken type t r s'" by metis
  with run(1) show ?thesis by (auto simp: lease_taken_def)
next
  case other
  with assms(2) dhcp_kept [of s' s] show ?thesis
    by (auto simp: statics_def dhcp_ok_def dhcp_core_def)
qed (auto simp: DHCP_stop_ok DHCP_init_ok tick_handlers_ok)

text \<open>C30: The statics of the client stay well-formed, over any sequence of calls, timer interrupts, handler
  registrations and other uses of the driver: the socket number and the array sizes are as declared, the retry
  count is between 0 and \<open>MAX_DHCP_RETRY\<close>, the unused state is never entered, and while a lease is being
  renewed the old address is the current one. The address of an acknowledgement is never read, so
  \<open>DHCP_run\<close> never returns \<open>DHCP_IP_ASSIGN\<close> or \<open>DHCP_IP_CHANGED\<close>.\<close>

theorem dhcp_wellformed:
  assumes "dhcp_runs p s rs s'" and "dhcp_ok s"
  shows "dhcp_ok s' \<and> DHCP_IP_ASSIGN \<notin> set rs \<and> DHCP_IP_CHANGED \<notin> set rs"
  using assms by (induction rule: dhcp_runs.induct) (auto dest: dhcp_step_ok)

theorem dhcp_wellformed_witness:
  "\<exists>rs s'. dhcp_runs scripted (dhcp_start STATE_DHCP_LEASED) rs s' \<and> rs = [DHCP_IP_LEASED] \<and> dhcp_ok s'"
proof -
  obtain s' where "DHCP_run scripted (0, [0, 0, 0, 0]) (dhcp_start STATE_DHCP_LEASED) = Some (DHCP_IP_LEASED, s')"
    using dhcp_start_run by blast
  then have "dhcp_step scripted (dhcp_start STATE_DHCP_LEASED) [DHCP_IP_LEASED] s'"
    by (rule dhcp_step.run) simp
  then have "dhcp_runs scripted (dhcp_start STATE_DHCP_LEASED) ([DHCP_IP_LEASED] @ ([] @ [])) (DHCP_time_handler s')"
    by (rule dhcp_runs.more [OF _ dhcp_runs.more [OF dhcp_step.tick dhcp_runs.none]])
  with dhcp_wellformed [OF this dhcp_start_ok] show ?thesis by auto
qed

end
