(* ===== verification/DhcpOptions.thy ===== *)
theory DhcpOptions
  imports DhcpProps DnsProps
begin

text \<open>
  The option parser of the DHCP client against the meaning of a list of options: a message that
  carries well-formed options configures the client by the last value of each.
\<close>

unbundle bit_operations_syntax

subsection \<open>Options and their meaning\<close>

datatype dhcp_opt = Pad | Opt u8 "u8 list"

fun opt_bytes :: "dhcp_opt \<Rightarrow> u8 list" where
  "opt_bytes Pad = [padOption]"
| "opt_bytes (Opt c d) = c # of_nat (length d) # d"

text \<open>The sizes RFC 2132 gives the options the client reads.\<close>

fun opt_ok :: "dhcp_opt \<Rightarrow> bool" where
  "opt_ok Pad \<longleftrightarrow> True"
| "opt_ok (Opt c d) \<longleftrightarrow> c \<noteq> padOption \<and> c \<noteq> endOption \<and> length d < 256
     \<and> (c = dhcpMessageType \<longrightarrow> length d = 1)
     \<and> (c = subnetMask \<or> c = dhcpIPaddrLeaseTime \<or> c = dhcpServerIdentifier \<longrightarrow> length d = 4)
     \<and> (c = routersOnSubnet \<or> c = dns_option \<longrightarrow> 4 \<le> length d)"

text \<open>The last value of an option, or a default.\<close>

fun opt_value :: "u8 \<Rightarrow> 'a \<Rightarrow> (u8 list \<Rightarrow> 'a) \<Rightarrow> dhcp_opt list \<Rightarrow> 'a" where
  "opt_value c v f [] = v"
| "opt_value c v f (Pad # os) = opt_value c v f os"
| "opt_value c v f (Opt c' d # os) = opt_value c (if c' = c then f d else v) f os"

definition lease_seconds :: "u8 list \<Rightarrow> u32" where
  "lease_seconds d = of_nat (foldl (\<lambda>n b. n * 256 + unat b) 0 d)"

definition configured :: "u8 list \<Rightarrow> dhcp_opt list \<Rightarrow> ('w, 'm) dhcp_drv_scheme \<Rightarrow> ('w, 'm) dhcp_drv_scheme" where
  "configured svr os s = s\<lparr>
     DHCP_SIP := opt_value dhcpServerIdentifier (DHCP_SIP s) id os,
     DHCP_REAL_SIP := opt_value dhcpServerIdentifier (DHCP_REAL_SIP s) (\<lambda>_. svr) os,
     DHCP_allocated_gw := opt_value routersOnSubnet (DHCP_allocated_gw s) (take 4) os,
     DHCP_allocated_sn := opt_value subnetMask (DHCP_allocated_sn s) id os,
     DHCP_allocated_dns := opt_value dns_option (DHCP_allocated_dns s) (take 4) os,
     dhcp_lease_time := opt_value dhcpIPaddrLeaseTime (dhcp_lease_time s) lease_seconds os\<rparr>"

lemmas opt_codes = padOption_def endOption_def dhcpMessageType_def subnetMask_def routersOnSubnet_def
  dns_option_def dhcpIPaddrLeaseTime_def dhcpServerIdentifier_def

subsection \<open>One option\<close>

lemma lease_at_bytes:
  assumes "stands msg q d" and "length d = 4"
  shows "lease_at msg q = lease_seconds d"
proof -
  obtain a b c e where d: "d = [a, b, c, e]"
    using assms(2) by (auto simp: numeral_eq_Suc length_Suc_conv)
  with assms(1) show ?thesis
    by (simp add: lease_at_def lease_seconds_def push_bit_eq_mult numeral_3_eq_3 ac_simps)
qed

lemma bytes_at_take: "\<lbrakk>stands msg q d; n \<le> length d\<rbrakk> \<Longrightarrow> bytes_at msg q n = take n d"
proof -
  assume d: "stands msg q d" and n: "n \<le> length d"
  have "take n (bytes_at msg q (length d)) = bytes_at msg q n"
    using n by (simp add: bytes_at_def take_map)
  with d show ?thesis by (simp add: stands_def)
qed

lemma dhcp_option_pad:
  "pDHCPMSG s q = padOption \<Longrightarrow> dhcp_option svr q ty s = (Some (q + 1), ty, s)"
  "pDHCPMSG s q = endOption \<Longrightarrow> dhcp_option svr q ty s = (None, ty, s)"
  by (simp_all add: dhcp_option_def opt_codes)

lemma dhcp_option_opt:
  assumes "opt_ok (Opt c d)" and "stands (pDHCPMSG s) q (opt_bytes (Opt c d))"
  shows "dhcp_option svr q ty s =
    (Some (q + length (opt_bytes (Opt c d))), opt_value dhcpMessageType ty hd [Opt c d], configured svr [Opt c d] s)"
proof -
  from assms have c: "pDHCPMSG s q = c" "unat (pDHCPMSG s (Suc q)) = length d"
    and d: "stands (pDHCPMSG s) (Suc (Suc q)) d"
    by (simp_all add: unsigned_of_nat take_bit_nat_eq_self)
  have four: "bytes_at (pDHCPMSG s) (Suc (Suc q)) 4 = take 4 d" if "4 \<le> length d"
    using bytes_at_take [OF d that] .
  have one: "pDHCPMSG s (Suc (Suc q)) = hd d" if "length d = 1"
    using d that by (cases d) auto
  show ?thesis
    using assms(1) c four one lease_at_bytes [OF d]
    by (auto simp: dhcp_option_def configured_def Let_def opt_codes)
qed

subsection \<open>All options\<close>

lemma configured_kept [simp]: "pDHCPMSG (configured svr os s) = pDHCPMSG s"
  by (simp add: configured_def)

lemma configured_Nil: "configured svr [] s = s"
  by (simp add: configured_def)

lemma configured_Pad: "configured svr (Pad # os) s = configured svr os s"
  by (simp add: configured_def)

lemma configured_Opt: "configured svr (Opt c d # os) s = configured svr os (configured svr [Opt c d] s)"
  by (simp add: configured_def)

text \<open>C17: The option parser reads what the options mean. A message in which options of the sizes of RFC 2132,
  in any order, with padding between them and repeats, stand behind each other and are closed by the end
  option inside the datagram, yields the value of the last message type option, and sets the subnet
  mask, the first router, the first name server, the lease time (big-endian seconds) and the server
  identifier to the last value given, and nothing else.\<close>

theorem dhcp_options_decode:
  assumes "\<forall>x \<in> set os. opt_ok x" and "stands (pDHCPMSG s) q (concat (map opt_bytes os) @ [endOption])"
    and "q + length (concat (map opt_bytes os)) < e"
  shows "dhcp_options svr q e ty s = (opt_value dhcpMessageType ty hd os, configured svr os s)"
  using assms
proof (induction os arbitrary: q ty s)
  case Nil
  then show ?case by (simp add: dhcp_options.simps [of svr q] dhcp_option_pad configured_Nil)
next
  case (Cons x os)
  then have q: "q < e" by (cases x) auto
  show ?case
  proof (cases x)
    case Pad
    with Cons.prems q Cons.IH [of s "q + 1" ty] show ?thesis
      by (simp add: dhcp_options.simps [of svr q] dhcp_option_pad configured_Pad)
  next
    case (Opt c d)
    with Cons.prems have "dhcp_option svr q ty s =
      (Some (q + length (opt_bytes x)), opt_value dhcpMessageType ty hd [x], configured svr [x] s)"
      using dhcp_option_opt [of c d s q svr ty] by simp
    with Cons.prems q Cons.IH [of "configured svr [x] s" "q + length (opt_bytes x)"] Opt show ?thesis
      by (simp add: dhcp_options.simps [of svr q] configured_Opt [of svr c d os])
  qed
qed

text \<open>An acknowledgement with a lease of a day, an unknown option and two routers.\<close>

definition ack_options :: "dhcp_opt list" where
  "ack_options = [Opt dhcpMessageType [DHCP_ACK], Opt dhcpServerIdentifier [10, 0, 0, 1],
     Opt dhcpIPaddrLeaseTime [0, 1, 0x51, 0x80], Pad, Opt 28 [10, 0, 0, 255], Opt subnetMask [255, 0, 0, 0],
     Opt routersOnSubnet [10, 0, 0, 2, 10, 0, 0, 3]]"

definition ack_read :: "u8 list dhcp_drv" where
  "ack_read = (dhcp_start STATE_DHCP_REQUEST)
     \<lparr>pDHCPMSG := \<lambda>i. message (concat (map opt_bytes ack_options) @ [endOption]) (i - 240)\<rparr>"

theorem dhcp_options_decode_witness:
  "let (t, s) = dhcp_options [10, 0, 0, 7] 240 300 0 ack_read
   in t = DHCP_ACK \<and> dhcp_lease_time s = 86400 \<and> DHCP_allocated_gw s = [10, 0, 0, 2]
     \<and> DHCP_SIP s = [10, 0, 0, 1] \<and> DHCP_REAL_SIP s = [10, 0, 0, 7]"
proof -
  have "\<forall>x \<in> set ack_options. opt_ok x" by (simp add: ack_options_def opt_codes)
  moreover have "stands (pDHCPMSG ack_read) 240 (concat (map opt_bytes ack_options) @ [endOption])"
    by (simp add: ack_read_def ack_options_def message_def)
  moreover have "240 + length (concat (map opt_bytes ack_options)) < 300" by (simp add: ack_options_def)
  ultimately have "dhcp_options [10, 0, 0, 7] 240 300 0 ack_read
      = (opt_value dhcpMessageType 0 hd ack_options, configured [10, 0, 0, 7] ack_options ack_read)"
    by (rule dhcp_options_decode)
  then show ?thesis
    by (simp add: configured_def ack_options_def opt_codes lease_seconds_def)
qed

end
