(* ===== verification/Callbacks.thy ===== *)
theory Callbacks
  imports Prelude
begin

text \<open>
  The callback table \<open>WIZCHIP\<close> of \<open>Ethernet/wizchip_conf.c\<close> and the functions that fill it. A slot
  holds a function pointer: null, a default of the library, or a function of the application.
  Pointers have the types of the declarations. \<open>IF\<close> is a union: the byte slots of the SPI
  interface, the word slots of the bus interface and the slots of the QSPI interface are the
  same memory. A registration that waits for the interface mode never returns if the mode is wrong
  (\<open>None\<close>): nothing changes the mode. The critical section around the update of the status slots is
  an event of the world, not part of the table.
\<close>

unbundle bit_operations_syntax

subsection \<open>Functions and slots\<close>

text \<open>The types of the function pointers in the table.\<close>

datatype fn_type =
    Void_Void                                           \<comment> \<open>\<open>void (*)(void)\<close>\<close>
  | U8_Void                                             \<comment> \<open>\<open>uint8_t (*)(void)\<close>\<close>
  | S8_Void                                             \<comment> \<open>\<open>int8_t (*)(void)\<close>\<close>
  | Void_U8                                             \<comment> \<open>\<open>void (*)(uint8_t)\<close>\<close>
  | Void_Buf                                            \<comment> \<open>\<open>void (*)(uint8_t*, uint16_t)\<close>\<close>
  | Bus_Read | Bus_Write | Bus_Buf                      \<comment> \<open>the bus accessors\<close>
  | Qspi                                                \<comment> \<open>\<open>void (*)(uint8_t, uint16_t, uint8_t*, uint16_t)\<close>\<close>

datatype 'f code =
    wizchip_cris_enter | wizchip_cris_exit | wizchip_cs_select | wizchip_cs_deselect
  | wizchip_spi_readbyte | wizchip_spi_writebyte
  | wizchip_bus_readdata | wizchip_bus_writedata | wizchip_bus_read_buf | wizchip_bus_write_buf
  | wizchip_qspi_read | wizchip_qspi_write
  | wizchip_spi_busy_default | wizchip_spi_error_default | wizchip_spi_clear_default
  | wizchip_sock_lock_default | wizchip_sock_unlock_default
  | wizchip_global_lock_default | wizchip_global_unlock_default
  | wizchip_wdt_kick_default | wizchip_phy_callback_default
  | App fn_type 'f

type_synonym 'f fptr = "'f code option"

definition IO_MODE_BUS :: u16 where "IO_MODE_BUS = 0x0100"
definition IO_MODE_SPI :: u16 where "IO_MODE_SPI = 0x0200"
definition IO_MODE_SPI_QSPI :: u16 where "IO_MODE_SPI_QSPI = IO_MODE_SPI + 4"

record 'f WIZCHIP =
  if_mode :: u16
  CRIS_enter :: "'f fptr"
  CRIS_exit :: "'f fptr"
  CS_select :: "'f fptr"
  CS_deselect :: "'f fptr"
  IF_0 :: "'f fptr"  \<comment> \<open>\<open>SPI._read_byte\<close>, \<open>BUS._read_data\<close>, \<open>QSPI._read_qspi\<close>\<close>
  IF_1 :: "'f fptr"  \<comment> \<open>\<open>SPI._write_byte\<close>, \<open>BUS._write_data\<close>, \<open>QSPI._write_qspi\<close>\<close>
  IF_2 :: "'f fptr"  \<comment> \<open>\<open>SPI._read_burst\<close>, \<open>BUS._read_data_buf\<close>\<close>
  IF_3 :: "'f fptr"  \<comment> \<open>\<open>SPI._write_burst\<close>, \<open>BUS._write_data_buf\<close>\<close>
  SPI_check_busy :: "'f fptr"
  SPI_check_error :: "'f fptr"
  SPI_clear :: "'f fptr"
  LOCK_sock_enter :: "'f fptr"
  LOCK_sock_exit :: "'f fptr"
  LOCK_global_enter :: "'f fptr"
  LOCK_global_exit :: "'f fptr"
  wizchip_wdt_kick_cb :: "'f fptr"
  wizchip_phy_link_cb :: "'f fptr"

definition WIZCHIP_initial :: "'f WIZCHIP" where
  "WIZCHIP_initial =
    \<lparr>if_mode = IO_MODE_SPI,
     CRIS_enter = Some wizchip_cris_enter, CRIS_exit = Some wizchip_cris_exit,
     CS_select = Some wizchip_cs_select, CS_deselect = Some wizchip_cs_deselect,
     IF_0 = Some wizchip_spi_readbyte, IF_1 = Some wizchip_spi_writebyte, IF_2 = None, IF_3 = None,
     SPI_check_busy = Some wizchip_spi_busy_default, SPI_check_error = Some wizchip_spi_error_default,
     SPI_clear = Some wizchip_spi_clear_default,
     LOCK_sock_enter = Some wizchip_sock_lock_default, LOCK_sock_exit = Some wizchip_sock_unlock_default,
     LOCK_global_enter = Some wizchip_global_lock_default, LOCK_global_exit = Some wizchip_global_unlock_default,
     wizchip_wdt_kick_cb = Some wizchip_wdt_kick_default,
     wizchip_phy_link_cb = Some wizchip_phy_callback_default\<rparr>"

subsection \<open>Registration\<close>

definition reg_wizchip_wdt_cbfunc :: "'f fptr \<Rightarrow> 'f WIZCHIP \<Rightarrow> 'f WIZCHIP" where
  "reg_wizchip_wdt_cbfunc kick w = w\<lparr>wizchip_wdt_kick_cb := kick\<rparr>"

definition reg_wizchip_phy_cbfunc :: "'f fptr \<Rightarrow> 'f WIZCHIP \<Rightarrow> 'f WIZCHIP" where
  "reg_wizchip_phy_cbfunc cb w = w\<lparr>wizchip_phy_link_cb := cb\<rparr>"

definition reg_wizchip_cris_cbfunc :: "'f fptr \<Rightarrow> 'f fptr \<Rightarrow> 'f WIZCHIP \<Rightarrow> 'f WIZCHIP" where
  "reg_wizchip_cris_cbfunc cris_en cris_ex w =
     (if cris_en = None \<or> cris_ex = None
      then w\<lparr>CRIS_enter := Some wizchip_cris_enter, CRIS_exit := Some wizchip_cris_exit\<rparr>
      else w\<lparr>CRIS_enter := cris_en, CRIS_exit := cris_ex\<rparr>)"

definition reg_wizchip_cs_cbfunc :: "'f fptr \<Rightarrow> 'f fptr \<Rightarrow> 'f WIZCHIP \<Rightarrow> 'f WIZCHIP" where
  "reg_wizchip_cs_cbfunc cs_sel cs_desel w =
     (if cs_sel = None \<or> cs_desel = None
      then w\<lparr>CS_select := Some wizchip_cs_select, CS_deselect := Some wizchip_cs_deselect\<rparr>
      else w\<lparr>CS_select := cs_sel, CS_deselect := cs_desel\<rparr>)"

definition reg_wizchip_bus_cbfunc :: "'f fptr \<Rightarrow> 'f fptr \<Rightarrow> 'f WIZCHIP \<Rightarrow> 'f WIZCHIP" where
  "reg_wizchip_bus_cbfunc bus_rb bus_wb w =
     (if if_mode w AND IO_MODE_BUS = 0 then w
      else if bus_rb = None \<or> bus_wb = None
      then w\<lparr>IF_0 := Some wizchip_bus_readdata, IF_1 := Some wizchip_bus_writedata\<rparr>
      else w\<lparr>IF_0 := bus_rb, IF_1 := bus_wb\<rparr>)"

definition reg_wizchip_busbuf_cbfunc :: "'f fptr \<Rightarrow> 'f fptr \<Rightarrow> 'f WIZCHIP \<Rightarrow> 'f WIZCHIP" where
  "reg_wizchip_busbuf_cbfunc busbuf_rb busbuf_wb w =
     (if if_mode w AND IO_MODE_BUS = 0 then w
      else if busbuf_rb = None \<or> busbuf_wb = None
      then w\<lparr>IF_2 := Some wizchip_bus_read_buf, IF_3 := Some wizchip_bus_write_buf\<rparr>
      else w\<lparr>IF_2 := busbuf_rb, IF_3 := busbuf_wb\<rparr>)"

definition reg_wizchip_spi_cbfunc :: "'f fptr \<Rightarrow> 'f fptr \<Rightarrow> 'f WIZCHIP \<Rightarrow> 'f WIZCHIP option" where
  "reg_wizchip_spi_cbfunc spi_rb spi_wb w =
     (if if_mode w AND IO_MODE_SPI = 0 then None
      else if spi_rb = None \<or> spi_wb = None
      then Some (w\<lparr>IF_0 := Some wizchip_spi_readbyte, IF_1 := Some wizchip_spi_writebyte\<rparr>)
      else Some (w\<lparr>IF_0 := spi_rb, IF_1 := spi_wb\<rparr>))"

definition reg_wizchip_spiburst_cbfunc :: "'f fptr \<Rightarrow> 'f fptr \<Rightarrow> 'f WIZCHIP \<Rightarrow> 'f WIZCHIP option" where
  "reg_wizchip_spiburst_cbfunc spi_rb spi_wb w =
     (if if_mode w AND IO_MODE_SPI = 0 then None
      else Some (w\<lparr>IF_2 := spi_rb, IF_3 := spi_wb\<rparr>))"

definition reg_wizchip_spistatus_cbfunc ::
    "'f fptr \<Rightarrow> 'f fptr \<Rightarrow> 'f fptr \<Rightarrow> 'f WIZCHIP \<Rightarrow> 'f WIZCHIP" where
  "reg_wizchip_spistatus_cbfunc busy_cb error_cb clear_cb w =
     (let busy = (if busy_cb \<noteq> None then busy_cb else Some wizchip_spi_busy_default);
          error = (if error_cb \<noteq> None then error_cb else Some wizchip_spi_error_default);
          clear = (if clear_cb \<noteq> None then clear_cb else Some wizchip_spi_clear_default)
      in w\<lparr>SPI_check_busy := busy, SPI_check_error := error, SPI_clear := clear\<rparr>)"

definition reg_wizchip_qspi_cbfunc :: "'f fptr \<Rightarrow> 'f fptr \<Rightarrow> 'f WIZCHIP \<Rightarrow> 'f WIZCHIP option" where
  "reg_wizchip_qspi_cbfunc qspi_rb qspi_wb w =
     (if if_mode w AND IO_MODE_SPI_QSPI = 0 then None
      else if qspi_rb = None \<or> qspi_wb = None
      then Some (w\<lparr>IF_0 := Some wizchip_qspi_read, IF_1 := Some wizchip_qspi_write\<rparr>)
      else Some (w\<lparr>IF_0 := qspi_rb, IF_1 := qspi_wb\<rparr>))"

definition reg_wizchip_lock_cbfunc ::
    "'f fptr \<Rightarrow> 'f fptr \<Rightarrow> 'f fptr \<Rightarrow> 'f fptr \<Rightarrow> 'f WIZCHIP \<Rightarrow> int \<times> 'f WIZCHIP" where
  "reg_wizchip_lock_cbfunc sock_enter sock_exit global_enter global_exit w =
     (let (result, w) =
        (if (sock_enter = None) \<noteq> (sock_exit = None)
         then (-1, w\<lparr>LOCK_sock_enter := Some wizchip_sock_lock_default,
           LOCK_sock_exit := Some wizchip_sock_unlock_default\<rparr>)
         else if sock_enter \<noteq> None
         then (0, w\<lparr>LOCK_sock_enter := sock_enter, LOCK_sock_exit := sock_exit\<rparr>)
         else (0, w\<lparr>LOCK_sock_enter := Some wizchip_sock_lock_default,
           LOCK_sock_exit := Some wizchip_sock_unlock_default\<rparr>)) in
      if (global_enter = None) \<noteq> (global_exit = None)
      then (-1, w\<lparr>LOCK_global_enter := Some wizchip_global_lock_default,
        LOCK_global_exit := Some wizchip_global_unlock_default\<rparr>)
      else if global_enter \<noteq> None
      then (result, w\<lparr>LOCK_global_enter := global_enter, LOCK_global_exit := global_exit\<rparr>)
      else (result, w\<lparr>LOCK_global_enter := Some wizchip_global_lock_default,
        LOCK_global_exit := Some wizchip_global_unlock_default\<rparr>))"

subsection \<open>Well-typed tables\<close>

fun fn_type_of :: "'f code \<Rightarrow> fn_type" where
  "fn_type_of (App t f) = t"
| "fn_type_of wizchip_spi_readbyte = U8_Void"
| "fn_type_of wizchip_spi_writebyte = Void_U8"
| "fn_type_of wizchip_bus_readdata = Bus_Read"
| "fn_type_of wizchip_bus_writedata = Bus_Write"
| "fn_type_of wizchip_bus_read_buf = Bus_Buf"
| "fn_type_of wizchip_bus_write_buf = Bus_Buf"
| "fn_type_of wizchip_qspi_read = Qspi"
| "fn_type_of wizchip_qspi_write = Qspi"
| "fn_type_of wizchip_spi_busy_default = U8_Void"
| "fn_type_of wizchip_spi_error_default = S8_Void"
| "fn_type_of wizchip_sock_lock_default = Void_U8"
| "fn_type_of wizchip_sock_unlock_default = Void_U8"
| "fn_type_of wizchip_phy_callback_default = Void_U8"
| "fn_type_of _ = Void_Void"

text \<open>An argument is null or of its declared type; a slot that is called unchecked is not null.\<close>

definition of_type :: "fn_type \<Rightarrow> 'f fptr \<Rightarrow> bool" where
  "of_type t f \<longleftrightarrow> (case f of None \<Rightarrow> True | Some c \<Rightarrow> fn_type_of c = t)"

definition callable :: "fn_type \<Rightarrow> 'f fptr \<Rightarrow> bool" where
  "callable t f \<longleftrightarrow> f \<noteq> None \<and> of_type t f"

definition table_ok :: "'f WIZCHIP \<Rightarrow> bool" where
  "table_ok w \<longleftrightarrow> if_mode w = IO_MODE_SPI
     \<and> callable Void_Void (CRIS_enter w) \<and> callable Void_Void (CRIS_exit w)
     \<and> callable Void_Void (CS_select w) \<and> callable Void_Void (CS_deselect w)
     \<and> callable U8_Void (IF_0 w) \<and> callable Void_U8 (IF_1 w) \<and> of_type Void_Buf (IF_2 w) \<and> of_type Void_Buf (IF_3 w)
     \<and> callable U8_Void (SPI_check_busy w) \<and> callable S8_Void (SPI_check_error w) \<and> callable Void_Void (SPI_clear w)
     \<and> callable Void_U8 (LOCK_sock_enter w) \<and> callable Void_U8 (LOCK_sock_exit w)
     \<and> callable Void_Void (LOCK_global_enter w) \<and> callable Void_Void (LOCK_global_exit w)
     \<and> of_type Void_Void (wizchip_wdt_kick_cb w) \<and> of_type Void_U8 (wizchip_phy_link_cb w)"

lemma callable_default: "f \<noteq> None \<Longrightarrow> of_type t f \<Longrightarrow> callable t f"
  by (simp add: callable_def)

lemma callable_Some [simp]: "callable t (Some c) \<longleftrightarrow> fn_type_of c = t"
  by (simp add: callable_def of_type_def)

lemma of_type_simps [simp]: "of_type t None" "of_type t (Some c) \<longleftrightarrow> fn_type_of c = t"
  by (simp_all add: of_type_def)

text \<open>A registration call with arguments of the declared types, and whether it is the one for QSPI.\<close>

inductive register :: "bool \<Rightarrow> 'f WIZCHIP \<Rightarrow> 'f WIZCHIP \<Rightarrow> bool" where
  wdt: "of_type Void_Void f \<Longrightarrow> register False w (reg_wizchip_wdt_cbfunc f w)"
| phy: "of_type Void_U8 f \<Longrightarrow> register False w (reg_wizchip_phy_cbfunc f w)"
| cris: "\<lbrakk>of_type Void_Void f; of_type Void_Void g\<rbrakk> \<Longrightarrow> register False w (reg_wizchip_cris_cbfunc f g w)"
| cs: "\<lbrakk>of_type Void_Void f; of_type Void_Void g\<rbrakk> \<Longrightarrow> register False w (reg_wizchip_cs_cbfunc f g w)"
| bus: "\<lbrakk>of_type Bus_Read f; of_type Bus_Write g\<rbrakk> \<Longrightarrow> register False w (reg_wizchip_bus_cbfunc f g w)"
| busbuf: "\<lbrakk>of_type Bus_Buf f; of_type Bus_Buf g\<rbrakk> \<Longrightarrow> register False w (reg_wizchip_busbuf_cbfunc f g w)"
| spi: "\<lbrakk>of_type U8_Void f; of_type Void_U8 g; reg_wizchip_spi_cbfunc f g w = Some w'\<rbrakk> \<Longrightarrow> register False w w'"
| spiburst: "\<lbrakk>of_type Void_Buf f; of_type Void_Buf g; reg_wizchip_spiburst_cbfunc f g w = Some w'\<rbrakk>
    \<Longrightarrow> register False w w'"
| spistatus: "\<lbrakk>of_type U8_Void f; of_type S8_Void g; of_type Void_Void h\<rbrakk>
    \<Longrightarrow> register False w (reg_wizchip_spistatus_cbfunc f g h w)"
| locks: "\<lbrakk>of_type Void_U8 f; of_type Void_U8 g; of_type Void_Void h; of_type Void_Void k;
    reg_wizchip_lock_cbfunc f g h k w = (r, w')\<rbrakk> \<Longrightarrow> register False w w'"
| qspi: "\<lbrakk>of_type Qspi f; of_type Qspi g; reg_wizchip_qspi_cbfunc f g w = Some w'\<rbrakk> \<Longrightarrow> register True w w'"

lemmas reg_cbfunc_defs = reg_wizchip_wdt_cbfunc_def reg_wizchip_phy_cbfunc_def reg_wizchip_cris_cbfunc_def
  reg_wizchip_cs_cbfunc_def reg_wizchip_bus_cbfunc_def reg_wizchip_busbuf_cbfunc_def reg_wizchip_spi_cbfunc_def
  reg_wizchip_spiburst_cbfunc_def reg_wizchip_spistatus_cbfunc_def reg_wizchip_qspi_cbfunc_def
  reg_wizchip_lock_cbfunc_def IO_MODE_BUS_def IO_MODE_SPI_def IO_MODE_SPI_QSPI_def

lemma register_ok: "\<lbrakk>register q w w'; \<not> q; table_ok w\<rbrakk> \<Longrightarrow> table_ok w'"
  by (induction rule: register.induct)
    (auto simp: table_ok_def reg_cbfunc_defs Let_def split: if_splits)

lemma register_qspi: "\<lbrakk>register q w w'; q\<rbrakk> \<Longrightarrow> \<not> table_ok w'"
  by (induction rule: register.induct) (auto simp: table_ok_def reg_cbfunc_defs split: if_splits)

text \<open>C35: The callback table is well-typed and has no null entry that is called unchecked: a registration
  with arguments of the declared types, null ones included, leads from such a table in SPI mode to
  such a table if and only if it is not \<open>reg_wizchip_qspi_cbfunc\<close>. That one is not refused outside
  QSPI mode, because the mode bits of SPI are among those it tests, and its functions land in
  the byte slots of the SPI interface, with which they share the union.\<close>

theorem table_typed:
  assumes "table_ok w" and "register q w w'"
  shows "table_ok w' \<longleftrightarrow> \<not> q"
  using assms register_ok register_qspi by blast

theorem table_typed_witness:
  "table_ok (reg_wizchip_cs_cbfunc (Some (App Void_Void 1)) None (WIZCHIP_initial :: nat WIZCHIP))
   \<and> (\<exists>w. register True (WIZCHIP_initial :: nat WIZCHIP) w \<and> \<not> table_ok w)"
proof -
  have ok: "table_ok (WIZCHIP_initial :: nat WIZCHIP)" by (simp add: table_ok_def WIZCHIP_initial_def)
  have "register False (WIZCHIP_initial :: nat WIZCHIP)
      (reg_wizchip_cs_cbfunc (Some (App Void_Void 1)) None WIZCHIP_initial)"
    by (rule register.cs) simp_all
  moreover have "register True (WIZCHIP_initial :: nat WIZCHIP)
      (WIZCHIP_initial\<lparr>IF_0 := Some (App Qspi 2), IF_1 := Some (App Qspi 3)\<rparr>)"
    by (rule register.qspi [of "Some (App Qspi 2)" "Some (App Qspi 3)"])
      (simp_all add: reg_cbfunc_defs WIZCHIP_initial_def)
  ultimately show ?thesis using table_typed [OF ok] by blast
qed

end
