(* ===== verification/NetUtil.thy ===== *)
theory NetUtil
  imports Memory
begin

text \<open>
  Byte order, \<open>Internet/TFTP/netutil.c\<close>, for the little-endian host its header selects
  (\<open>SYSTEM_LITTLE_ENDIAN\<close>), and 16- and 32-bit accesses to byte memory on that host.
\<close>

unbundle bit_operations_syntax

definition swaps :: "u16 \<Rightarrow> u16" where
  "swaps i = push_bit 8 (i AND 0xFF) OR (drop_bit 8 i AND 0xFF)"

definition swapl :: "u32 \<Rightarrow> u32" where
  "swapl l = push_bit 24 (l AND 0xFF) OR push_bit 16 (drop_bit 8 l AND 0xFF)
     OR push_bit 8 (drop_bit 16 l AND 0xFF) OR (drop_bit 24 l AND 0xFF)"

definition htons :: "u16 \<Rightarrow> u16" where "htons hostshort = swaps hostshort"
definition htonl :: "u32 \<Rightarrow> u32" where "htonl hostlong = swapl hostlong"
definition ntohs :: "u16 \<Rightarrow> u32" where "ntohs netshort = ucast (htons netshort)"
definition ntohl :: "u32 \<Rightarrow> u32" where "ntohl netlong = swapl netlong"

subsection \<open>Memory of the host\<close>

definition load16 :: "(nat \<Rightarrow> u8) \<Rightarrow> nat \<Rightarrow> u16" where
  "load16 m a = ucast (m a) OR push_bit 8 (ucast (m (a + 1)))"

definition bytes16 :: "u16 \<Rightarrow> u8 list" where
  "bytes16 v = [ucast v, ucast (drop_bit 8 v)]"

definition store16 :: "nat \<Rightarrow> u16 \<Rightarrow> (nat \<Rightarrow> u8) \<Rightarrow> nat \<Rightarrow> u8" where
  "store16 a v m = m(a := ucast v, a + 1 := ucast (drop_bit 8 v))"

definition load32 :: "u8 list \<Rightarrow> u32" where
  "load32 bs = ucast (bs ! 0) OR push_bit 8 (ucast (bs ! 1)) OR push_bit 16 (ucast (bs ! 2))
     OR push_bit 24 (ucast (bs ! 3))"

definition bytes32 :: "u32 \<Rightarrow> u8 list" where
  "bytes32 v = [ucast v, ucast (drop_bit 8 v), ucast (drop_bit 16 v), ucast (drop_bit 24 v)]"

subsection \<open>Network order\<close>

lemma byte_mask: "(0xFF :: u16) = mask 8" "(0xFF :: u32) = mask 8"
  by (simp_all add: mask_eq_exp_minus_1)

lemma swaps_bytes [simp]:
  "(ucast (swaps v) :: u8) = ucast (drop_bit 8 v)" "(ucast (drop_bit 8 (swaps v)) :: u8) = ucast v"
  unfolding swaps_def byte_mask by (rule bit_word_eqI, simp add: bit_simps)+

lemma swapl_bytes [simp]:
  "(ucast (swapl v) :: u8) = ucast (drop_bit 24 v)" "(ucast (drop_bit 8 (swapl v)) :: u8) = ucast (drop_bit 16 v)"
  "(ucast (drop_bit 16 (swapl v)) :: u8) = ucast (drop_bit 8 v)" "(ucast (drop_bit 24 (swapl v)) :: u8) = ucast v"
  unfolding swapl_def byte_mask by (rule bit_word_eqI, simp add: bit_simps)+

text \<open>What the host stores in network order is big-endian on the wire.\<close>

lemma bytes16_htons: "bytes16 (htons v) = [ucast (drop_bit 8 v), ucast v]"
  by (simp add: bytes16_def htons_def)

lemma bytes32_htonl:
  "bytes32 (htonl v) = [ucast (drop_bit 24 v), ucast (drop_bit 16 v), ucast (drop_bit 8 v), ucast v]"
  by (simp add: bytes32_def htonl_def)

lemma load16_swaps: "swaps (load16 m a) = push_bit 8 (ucast (m a)) OR ucast (m (a + 1))"
  unfolding swaps_def load16_def byte_mask
  by (rule bit_word_eqI) (auto simp: bit_simps dest: bit_imp_le_length)

end
