(* ===== verification/Tftp.thy ===== *)
theory Tftp
  imports Sends NetUtil
begin

text \<open>
  The TFTP client, \<open>Internet/TFTP/tftp.c\<close>, on top of the datagram calls; its statics extend the record of
  the driver. \<open>save_data\<close>, which the application provides when it defines \<open>F_STORAGE\<close>, is
  \<open>storage\<close>; the ghost field \<open>saved\<close> lists what it was given, latest first. \<open>None\<close> is a call that does
  not return, or that writes through a null pointer or past the end of \<open>g_filename\<close>. A file name is the
  bytes before its terminator.
\<close>

unbundle bit_operations_syntax

subsection \<open>Constants and state\<close>

definition TFTP_RRQ :: u16 where "TFTP_RRQ = 1"
definition TFTP_WRQ :: u16 where "TFTP_WRQ = 2"
definition TFTP_DATA :: u16 where "TFTP_DATA = 3"
definition TFTP_ACK :: u16 where "TFTP_ACK = 4"
definition TFTP_ERROR :: u16 where "TFTP_ERROR = 5"
definition TFTP_OACK :: u16 where "TFTP_OACK = 6"
definition TFTP_PROGRESS :: u8 where "TFTP_PROGRESS = 0"
definition TFTP_FAIL :: u8 where "TFTP_FAIL = 1"
definition TFTP_SUCCESS :: u8 where "TFTP_SUCCESS = 2"
definition TFTP_SERVER_PORT :: u16 where "TFTP_SERVER_PORT = 69"
definition TFTP_BLK_SIZE :: u32 where "TFTP_BLK_SIZE = 512"
definition MAX_MTU_SIZE :: u32 where "MAX_MTU_SIZE = 1514"
definition FILE_NAME_SIZE :: nat where "FILE_NAME_SIZE = 20"
definition TRANS_BINARY :: "u8 list" where "TRANS_BINARY = [0x6F, 0x63, 0x74, 0x65, 0x74]"

datatype tftp_state_t = STATE_NONE | STATE_RRQ | STATE_WRQ | STATE_DATA | STATE_ACK | STATE_OACK

record TFTP_OPTION =
  opt_code :: "u8 list"
  opt_value :: "u8 list"

definition default_tftp_opt :: TFTP_OPTION where
  "default_tftp_opt = \<lparr>opt_code = [0x74, 0x69, 0x6D, 0x65, 0x6F, 0x75, 0x74], opt_value = [0x35]\<rparr>"

record 'w tftp_drv = "'w drv" +
  g_tftp_socket :: int
  g_filename :: "u8 list"
  g_server_ip :: u32
  g_server_port :: u16
  g_local_port :: u16
  g_tftp_state :: tftp_state_t
  g_block_num :: u16
  g_timeout :: u32
  g_resend_flag :: u32
  tftp_time_cnt :: u32
  tftp_retry_cnt :: u32
  g_tftp_rcv_buf :: "(nat \<Rightarrow> u8) option"
  g_progress_state :: u8
  storage :: "(u8 list \<Rightarrow> u16 \<Rightarrow> 'w \<Rightarrow> 'w) option"
  saved :: "(u16 \<times> u8 list) list"

type_synonym ('w, 'm) tftp_proc = "('w, 'm) tftp_drv_scheme \<Rightarrow> ('w, 'm) tftp_drv_scheme"
type_synonym ('a, 'w, 'm) tftp_wait = "('w, 'm) tftp_drv_scheme \<Rightarrow> ('a \<times> ('w, 'm) tftp_drv_scheme) option"

subsection \<open>The socket\<close>

text \<open>\<open>sck_state\<close> is what the uninitialised local holds until \<open>getsockopt\<close> writes it.\<close>

definition open_tftp_step :: "'w platform \<Rightarrow> u8 \<Rightarrow> u8 \<Rightarrow> (unit + u8, 'w, 'm) tftp_wait" where
  "open_tftp_step p sd sck_state s = do {
     ((_, v), s) \<leftarrow> getsockopt p sd SO_STATUS True s;
     let sck_state = (case v of Some (V8 x) \<Rightarrow> x | _ \<Rightarrow> sck_state);
     Some (if sck_state \<noteq> SOCK_UDP then Inr sck_state else Inl (), s)
   }"

definition open_tftp_socket :: "'w platform \<Rightarrow> u8 \<Rightarrow> u8 \<Rightarrow> (int, 'w, 'm) tftp_wait" where
  "open_tftp_socket p sck_state sock s =
     (let (r, s) = socket p sock Sn_MR_UDP 51000 SF_IO_NONBLOCK s;
          sd = (of_int r :: u8) in
      if sd \<noteq> sock then Some (-1, s)
      else do { (_, s) \<leftarrow> forever (open_tftp_step p sd) sck_state s; Some (uint sd, s) })"

definition send_udp_packet ::
    "'w platform \<Rightarrow> int \<Rightarrow> u8 list \<Rightarrow> u32 \<Rightarrow> u32 \<Rightarrow> u16 \<Rightarrow> (int, 'w, 'm) tftp_wait" where
  "send_udp_packet p sock packet len ip port s = do {
     (snd_len, s) \<leftarrow> sendto_W5x00 p (of_int sock) (Some packet) (ucast len) (Some (bytes32 (htonl ip))) port s;
     Some (if (of_int snd_len :: u32) \<noteq> len then -1 else snd_len, s)
   }"

text \<open>The caller's \<open>ip\<close> and \<open>port\<close> go in and come out.\<close>

definition recv_udp_packet ::
    "'w platform \<Rightarrow> int \<Rightarrow> u32 \<Rightarrow> u32 \<times> u16 \<Rightarrow> (int \<times> u32 \<times> u16, 'w, 'm) tftp_wait" where
  "recv_udp_packet p sock len from s = do {
     ((ret, v), s) \<leftarrow> getsockopt p (of_int sock) SO_STATUS True s;
     if ret \<noteq> SOCK_OK then Some ((-1, from), s)
     else if v = Some (V8 SOCK_UDP) then do {
       ((ret, v), s) \<leftarrow> getsockopt p (of_int sock) SO_RECVBUF True s;
       if ret \<noteq> SOCK_OK then Some ((-1, from), s)
       else if v \<noteq> Some (V16 0) then do {
         ((r, out), s) \<leftarrow> recvfrom_W5x00 p (of_int sock) (g_tftp_rcv_buf s \<noteq> None) (ucast len) True True s;
         let s = s\<lparr>g_tftp_rcv_buf := map_option (store_bytes (out_data out)) (g_tftp_rcv_buf s)\<rparr>;
         let recv_len = (of_int r :: u16);
         let ip = (case out_addr out of None \<Rightarrow> fst from | Some a \<Rightarrow> load32 a);
         let port = (case out_port out of None \<Rightarrow> snd from | Some v \<Rightarrow> v);
         Some ((uint recv_len, ntohl ip, port), s)
       } else Some ((-1, from), s)
     } else Some ((-1, from), s)
   }"

subsection \<open>Timeout and requests\<close>

definition init_tftp :: "('w, 'm) tftp_proc" where
  "init_tftp s = s\<lparr>g_filename := [], g_server_ip := 0, g_server_port := 0, g_local_port := 0,
     g_tftp_state := STATE_NONE, g_block_num := 0, g_resend_flag := 0, tftp_retry_cnt := 0, tftp_time_cnt := 0,
     g_progress_state := TFTP_PROGRESS\<rparr>"

definition tftp_cancel_timeout :: "('w, 'm) tftp_proc" where
  "tftp_cancel_timeout s =
     (if g_resend_flag s \<noteq> 0 then s\<lparr>g_resend_flag := 0, tftp_retry_cnt := 0, tftp_time_cnt := 0\<rparr> else s)"

definition tftp_reg_timeout :: "('w, 'm) tftp_proc" where
  "tftp_reg_timeout s =
     (if g_resend_flag s = 0 then s\<lparr>g_resend_flag := 1, tftp_retry_cnt := 0, tftp_time_cnt := 0\<rparr> else s)"

definition rrq_packet :: "u8 list \<Rightarrow> u8 list \<Rightarrow> TFTP_OPTION list \<Rightarrow> u8 list" where
  "rrq_packet filename mode opts =
     bytes16 (htons TFTP_RRQ) @ filename @ [0] @ mode @ [0]
     @ concat (map (\<lambda>q. opt_code q @ [0] @ opt_value q @ [0]) opts)"

definition send_tftp_rrq :: "'w platform \<Rightarrow> u8 list \<Rightarrow> u8 list \<Rightarrow> TFTP_OPTION list \<Rightarrow> (unit, 'w, 'm) tftp_wait" where
  "send_tftp_rrq p filename mode opts s =
     (let snd_buf = rrq_packet filename mode opts in
      if unat MAX_MTU_SIZE < length snd_buf then None
      else do {
        (_, s) \<leftarrow> send_udp_packet p (g_tftp_socket s) snd_buf (of_nat (length snd_buf)) (g_server_ip s) TFTP_SERVER_PORT s;
        let s = s\<lparr>g_tftp_state := STATE_RRQ\<rparr>;
        if FILE_NAME_SIZE < length filename + 1 then None
        else Some ((), tftp_reg_timeout (s\<lparr>g_filename := filename\<rparr>))
      })"

definition send_tftp_ack :: "'w platform \<Rightarrow> u16 \<Rightarrow> (unit, 'w, 'm) tftp_wait" where
  "send_tftp_ack p block_number s = do {
     (_, s) \<leftarrow> send_udp_packet p (g_tftp_socket s) (bytes16 (htons TFTP_ACK) @ bytes16 (htons block_number)) 4
       (g_server_ip s) (g_server_port s) s;
     Some ((), tftp_reg_timeout s)
   }"

subsection \<open>Reception\<close>

definition save_data :: "u8 list \<Rightarrow> u16 \<Rightarrow> ('w, 'm) tftp_proc" where
  "save_data data block_number s =
     (case storage s of None \<Rightarrow> s
      | Some f \<Rightarrow> s\<lparr>world := f data block_number (world s), saved := (block_number, data) # saved s\<rparr>)"

text \<open>The conversion of the two header fields to host order, in place.\<close>

definition swap_header :: "(nat \<Rightarrow> u8) \<Rightarrow> nat \<Rightarrow> u8" where
  "swap_header m =
     (let m = store16 0 (ucast (ntohs (load16 m 0))) m in store16 2 (ucast (ntohs (load16 m 2))) m)"

text \<open>The common end of both cases of \<open>recv_tftp_data\<close>: acknowledge whatever came, and stop at a short block.\<close>

definition end_of_block :: "'w platform \<Rightarrow> u16 \<Rightarrow> u32 \<Rightarrow> (unit, 'w, 'm) tftp_wait" where
  "end_of_block p block_num msg_len s = do {
     (_, s) \<leftarrow> send_tftp_ack p block_num s;
     Some ((), if msg_len - 4 < TFTP_BLK_SIZE then (init_tftp s)\<lparr>g_progress_state := TFTP_SUCCESS\<rparr> else s)
   }"

definition recv_tftp_data :: "'w platform \<Rightarrow> (nat \<Rightarrow> u8) \<Rightarrow> u32 \<Rightarrow> (unit, 'w, 'm) tftp_wait" where
  "recv_tftp_data p msg msg_len s =
     (let msg = swap_header msg;
          s = s\<lparr>g_tftp_rcv_buf := Some msg\<rparr>;
          block_num = load16 msg 2;
          data = bytes_at msg 4 (unat (msg_len - 4))
      in case g_tftp_state s of
           STATE_RRQ \<Rightarrow> end_of_block p block_num msg_len
             (if block_num = 1
              then tftp_cancel_timeout (save_data data block_num (s\<lparr>g_tftp_state := STATE_DATA, g_block_num := block_num\<rparr>))
              else s)
         | STATE_OACK \<Rightarrow> end_of_block p block_num msg_len
             (if block_num = 1
              then tftp_cancel_timeout (save_data data block_num (s\<lparr>g_tftp_state := STATE_DATA, g_block_num := block_num\<rparr>))
              else s)
         | STATE_DATA \<Rightarrow> end_of_block p block_num msg_len
             (if uint block_num = uint (g_block_num s) + 1
              then tftp_cancel_timeout (save_data data block_num (s\<lparr>g_block_num := block_num\<rparr>))
              else s)
         | _ \<Rightarrow> Some ((), s))"

definition recv_tftp_oack :: "'w platform \<Rightarrow> (unit, 'w, 'm) tftp_wait" where
  "recv_tftp_oack p s =
     (case g_tftp_state s of
        STATE_RRQ \<Rightarrow> send_tftp_ack p 0 (tftp_cancel_timeout (s\<lparr>g_tftp_state := STATE_OACK\<rparr>))
      | STATE_WRQ \<Rightarrow> Some ((), tftp_cancel_timeout (s\<lparr>g_tftp_state := STATE_ACK\<rparr>))
      | _ \<Rightarrow> Some ((), s))"

definition recv_tftp_error :: "(nat \<Rightarrow> u8) \<Rightarrow> ('w, 'm) tftp_proc" where
  "recv_tftp_error msg s =
     (init_tftp (s\<lparr>g_tftp_rcv_buf := Some (swap_header msg)\<rparr>))\<lparr>g_progress_state := TFTP_FAIL\<rparr>"

text \<open>The cases for a server (\<open>RRQ\<close>, \<open>WRQ\<close>) and for acknowledgements do nothing.\<close>

definition recv_tftp_packet :: "'w platform \<Rightarrow> u32 \<Rightarrow> u32 \<Rightarrow> u16 \<Rightarrow> (unit, 'w, 'm) tftp_wait" where
  "recv_tftp_packet p packet_len from_ip from_port s =
     (if from_ip \<noteq> g_server_ip s then Some ((), s)
      else case g_tftp_rcv_buf s of
        None \<Rightarrow> None
      | Some packet \<Rightarrow>
          let opcode = (ucast (ntohs (load16 packet 0)) :: u16);
              s = (if g_tftp_state s = STATE_WRQ \<or> g_tftp_state s = STATE_RRQ
                   then s\<lparr>g_server_port := from_port\<rparr> else s) in
          if opcode = TFTP_DATA then recv_tftp_data p packet packet_len s
          else if opcode = TFTP_OACK then recv_tftp_oack p s
          else if opcode = TFTP_ERROR then Some ((), recv_tftp_error packet s)
          else Some ((), s))"

subsection \<open>The interface\<close>

definition TFTP_init :: "'w platform \<Rightarrow> u8 \<Rightarrow> u8 \<Rightarrow> (nat \<Rightarrow> u8) \<Rightarrow> (unit, 'w, 'm) tftp_wait" where
  "TFTP_init p sck_state sock buf s = do {
     (sd, s) \<leftarrow> open_tftp_socket p sck_state sock (init_tftp s);
     Some ((), s\<lparr>g_tftp_socket := sd, g_tftp_rcv_buf := Some buf\<rparr>)
   }"

definition TFTP_exit :: "'w platform \<Rightarrow> ('w, 'm) tftp_proc" where
  "TFTP_exit p s =
     (let s = init_tftp s; (_, s) = close p (of_int (g_tftp_socket s)) s
      in s\<lparr>g_tftp_socket := -1, g_tftp_rcv_buf := None\<rparr>)"

definition tftp_check_timeout :: "'w platform \<Rightarrow> (unit, 'w, 'm) tftp_wait" where
  "tftp_check_timeout p s =
     (if g_resend_flag s \<noteq> 0 \<and> g_timeout s \<le> tftp_time_cnt s then do {
        (_, s) \<leftarrow> (case g_tftp_state s of
           STATE_RRQ \<Rightarrow> send_tftp_rrq p (g_filename s) TRANS_BINARY [default_tftp_opt] s
         | STATE_OACK \<Rightarrow> send_tftp_ack p (g_block_num s) s
         | STATE_DATA \<Rightarrow> send_tftp_ack p (g_block_num s) s
         | _ \<Rightarrow> Some ((), s));
        let s = s\<lparr>tftp_time_cnt := 0, tftp_retry_cnt := tftp_retry_cnt s + 1\<rparr>;
        Some ((), if 5 \<le> tftp_retry_cnt s then (init_tftp s)\<lparr>g_progress_state := TFTP_FAIL\<rparr> else s)
      } else Some ((), s))"

text \<open>
  \<open>from\<close> is what the locals \<open>from_ip\<close> and \<open>from_port\<close> hold before they are written. The length is
  cut to 16 bits and never negative, so a call that received nothing goes on with the old buffer.
\<close>

definition TFTP_run :: "'w platform \<Rightarrow> u32 \<times> u16 \<Rightarrow> (u8, 'w, 'm) tftp_wait" where
  "TFTP_run p from s = do {
     (_, s) \<leftarrow> tftp_check_timeout p s;
     ((r, from_ip, from_port), s) \<leftarrow> recv_udp_packet p (g_tftp_socket s) MAX_MTU_SIZE from s;
     let len = (of_int r :: u16);
     (_, s) \<leftarrow> recv_tftp_packet p (ucast len) from_ip from_port s;
     Some (g_progress_state s, s)
   }"

definition TFTP_read_request :: "'w platform \<Rightarrow> u32 \<Rightarrow> u8 list \<Rightarrow> (unit, 'w, 'm) tftp_wait" where
  "TFTP_read_request p server_ip filename s =
     send_tftp_rrq p filename TRANS_BINARY [default_tftp_opt]
       (s\<lparr>g_server_ip := server_ip, g_progress_state := TFTP_PROGRESS\<rparr>)"

definition tftp_timeout_handler :: "('w, 'm) tftp_proc" where
  "tftp_timeout_handler s = (if g_resend_flag s \<noteq> 0 then s\<lparr>tftp_time_cnt := tftp_time_cnt s + 1\<rparr> else s)"

end
