(* ===== verification/TftpProps.thy ===== *)
theory TftpProps
  imports Tftp Scripted
begin

text \<open>
  The TFTP client as a receiver of numbered blocks: every operation is a path of an abstract
  receiver, whose invariant is that blocks are saved in order.
\<close>

unbundle bit_operations_syntax

subsection \<open>The receiver\<close>

text \<open>Its state: where the transfer stands, the number of the last block, and the blocks saved, latest first.\<close>

type_synonym receiver = "tftp_state_t \<times> u16 \<times> (u16 \<times> u8 list) list"

text \<open>
  One step of a transfer once it is requested; \<open>keep\<close> says whether the build stores blocks at all.
\<close>

inductive receives :: "bool \<Rightarrow> receiver \<Rightarrow> receiver \<Rightarrow> bool" for keep where
  options: "receives keep (STATE_RRQ, n, bs) (STATE_OACK, n, bs)"
| accepted: "receives keep (STATE_WRQ, n, bs) (STATE_ACK, n, bs)"
| first: "st = STATE_RRQ \<or> st = STATE_OACK \<Longrightarrow>
    receives keep (st, n, bs) (STATE_DATA, 1, if keep then (1, d) # bs else bs)"
| more: "uint b = uint n + 1 \<Longrightarrow>
    receives keep (STATE_DATA, n, bs) (STATE_DATA, b, if keep then (b, d) # bs else bs)"
| ends: "receives keep (st, n, bs) (STATE_NONE, 0, bs)"

text \<open>Block numbers as they are saved: each is 1, the start of a transfer, or one more than the one before it.\<close>

fun in_order :: "(u16 \<times> u8 list) list \<Rightarrow> bool" where
  "in_order [] = True"
| "in_order [x] \<longleftrightarrow> fst x = 1"
| "in_order (x # y # bs) \<longleftrightarrow> (fst x = 1 \<or> uint (fst x) = uint (fst y) + 1) \<and> in_order (y # bs)"

definition receiver_ok :: "bool \<Rightarrow> receiver \<Rightarrow> bool" where
  "receiver_ok keep x \<longleftrightarrow> (case x of (st, n, bs) \<Rightarrow>
     in_order bs \<and> st \<noteq> STATE_WRQ \<and> st \<noteq> STATE_ACK
     \<and> (st = STATE_DATA \<and> keep \<longrightarrow> bs \<noteq> [] \<and> fst (hd bs) = n))"

lemma in_order_first [simp]: "in_order ((1, d) # bs) \<longleftrightarrow> in_order bs"
  by (cases bs) simp_all

lemma receives_ok: "\<lbrakk>receives keep x y; receiver_ok keep x\<rbrakk> \<Longrightarrow> receiver_ok keep y"
proof (induction rule: receives.induct)
  case (more b n bs d)
  then show ?case by (cases bs) (auto simp: receiver_ok_def)
qed (auto simp: receiver_ok_def)

lemma path_ok: "\<lbrakk>(receives keep)\<^sup>*\<^sup>* x y; receiver_ok keep x\<rbrakk> \<Longrightarrow> receiver_ok keep y"
  by (induction rule: rtranclp_induct) (auto intro: receives_ok)

subsection \<open>The code as a receiver\<close>

definition receiver_of :: "('w, 'm) tftp_drv_scheme \<Rightarrow> receiver" where
  "receiver_of s = (g_tftp_state s, g_block_num s, saved s)"

text \<open>A path of the receiver; the build does not change.\<close>

definition receives_to :: "('w, 'm) tftp_drv_scheme \<Rightarrow> ('w, 'm) tftp_drv_scheme \<Rightarrow> bool" where
  "receives_to s t \<longleftrightarrow> storage t = storage s \<and> (receives (storage s \<noteq> None))\<^sup>*\<^sup>* (receiver_of s) (receiver_of t)"

lemma receives_to_refl [simp]: "receives_to s s"
  by (simp add: receives_to_def)

lemma receives_to_trans: "\<lbrakk>receives_to a b; receives_to b c\<rbrakk> \<Longrightarrow> receives_to a c"
  unfolding receives_to_def by (auto intro: rtranclp_trans [of _ "receiver_of a" "receiver_of b"])

lemma receives_to_same:
  "\<lbrakk>receives_to a b; receiver_of c = receiver_of b; storage c = storage b\<rbrakk> \<Longrightarrow> receives_to a c"
  by (simp add: receives_to_def)

lemma receives_to_step:
  "\<lbrakk>receives_to a b; receives (storage a \<noteq> None) (receiver_of b) (receiver_of c); storage c = storage b\<rbrakk>
    \<Longrightarrow> receives_to a c"
  by (auto simp: receives_to_def)

lemma tftp_kept:
  fixes s t :: "('w, 'm) tftp_drv_scheme"
  assumes "statics s t"
  shows "receiver_of t = receiver_of s" "storage t = storage s"
  using assms by (cases s; cases t; simp add: statics_def receiver_of_def)+

lemma receives_to_statics: "\<lbrakk>receives_to a b; statics b c\<rbrakk> \<Longrightarrow> receives_to a c"
  using receives_to_same [of a b c] tftp_kept [of b c] by simp

lemma timeouts_kept [simp]:
  "receiver_of (tftp_reg_timeout s) = receiver_of s" "storage (tftp_reg_timeout s) = storage s"
  "receiver_of (tftp_cancel_timeout s) = receiver_of s" "storage (tftp_cancel_timeout s) = storage s"
  by (simp_all add: tftp_reg_timeout_def tftp_cancel_timeout_def receiver_of_def)

lemma fields_kept [simp]:
  "receiver_of (s\<lparr>g_tftp_rcv_buf := m\<rparr>) = receiver_of s" "receiver_of (s\<lparr>g_server_port := q\<rparr>) = receiver_of s"
  "receiver_of (s\<lparr>g_server_ip := i\<rparr>) = receiver_of s" "receiver_of (s\<lparr>g_progress_state := v\<rparr>) = receiver_of s"
  "receiver_of (s\<lparr>g_filename := f\<rparr>) = receiver_of s" "receiver_of (s\<lparr>tftp_time_cnt := c\<rparr>) = receiver_of s"
  "receiver_of (s\<lparr>tftp_retry_cnt := r\<rparr>) = receiver_of s" "receiver_of (s\<lparr>g_tftp_socket := k\<rparr>) = receiver_of s"
  by (simp_all add: receiver_of_def)

lemma receives_to_ends:
  assumes "receives_to a b"
  shows "receives_to a (init_tftp b)"
  by (rule receives_to_step [OF assms]) (simp_all add: init_tftp_def receiver_of_def receives.ends)

subsection \<open>The operations\<close>

lemma send_udp_kept: "wpo (send_udp_packet p k bs n ip port s) (\<lambda>_. statics s)"
  unfolding send_udp_packet_def by (auto intro!: wp client_sendto intro: statics_client)

lemma recv_udp_kept: "wpo (recv_udp_packet p k n from s) (\<lambda>_. receives_to s)"
proof -
  have got: "wpo (getsockopt p sn q True t) (\<lambda>_. receives_to s)" if "receives_to s t" for sn q t
    by (rule wpo_mono [OF statics_getsockopt]) (rule receives_to_statics [OF that])
  have read: "receives_to s (u\<lparr>g_tftp_rcv_buf := m\<rparr>)" if "receives_to s t" "client_step sn 0 t u" for t u sn m
    using receives_to_statics [OF that(1) statics_client [OF that(2)]] by (rule receives_to_same) simp_all
  show ?thesis
    unfolding recv_udp_packet_def Let_def
    by (auto intro!: wp wpo_mono [OF got] client_recvfrom intro: read)
qed

lemma send_ack_kept:
  assumes "receives_to s t"
  shows "wpo (send_tftp_ack p b t) (\<lambda>_. receives_to s)"
  unfolding send_tftp_ack_def
  by (auto intro!: wp wpo_mono [OF send_udp_kept]
      intro: receives_to_same [OF receives_to_statics [OF assms]])

lemma send_rrq_kept:
  "wpo (send_tftp_rrq p name mode opts s)
     (\<lambda>_ t. receiver_of t = (STATE_RRQ, g_block_num s, saved s) \<and> storage t = storage s)"
proof -
  have "receiver_of (u\<lparr>g_tftp_state := STATE_RRQ, g_filename := f\<rparr>) = (STATE_RRQ, g_block_num s, saved s)"
    if "statics s u" for u f
    using tftp_kept [OF that] by (simp add: receiver_of_def)
  then show ?thesis
    unfolding send_tftp_rrq_def Let_def
    by (auto intro!: wp wpo_mono [OF send_udp_kept] simp: tftp_kept)
qed

lemma resend_path:
  assumes "g_tftp_state s = STATE_RRQ"
  shows "wpo (send_tftp_rrq p name mode opts s) (\<lambda>_. receives_to s)"
  by (rule wpo_mono [OF send_rrq_kept]) (use assms in \<open>auto simp: receives_to_def receiver_of_def\<close>)

lemma end_of_block_path:
  assumes "receives_to s t"
  shows "wpo (end_of_block p b n t) (\<lambda>_. receives_to s)"
proof -
  have "receives_to s ((init_tftp u)\<lparr>g_progress_state := v\<rparr>)" if "receives_to s u" for u v
    using receives_to_ends [OF that] by (rule receives_to_same) simp_all
  then show ?thesis
    unfolding end_of_block_def by (auto intro!: wp wpo_mono [OF send_ack_kept [OF assms]])
qed

lemma save_block:
  assumes "receives_to s t" and "g_tftp_state u = STATE_DATA" "g_block_num u = b" "saved u = saved t" "storage u = storage t"
    and "g_tftp_state t = STATE_RRQ \<and> b = 1 \<or> g_tftp_state t = STATE_OACK \<and> b = 1
      \<or> g_tftp_state t = STATE_DATA \<and> uint b = uint (g_block_num t) + 1"
  shows "receives_to s (tftp_cancel_timeout (save_data d b u))"
proof (rule receives_to_step [OF assms(1)])
  have keep: "storage s = storage t" using assms(1) by (simp add: receives_to_def)
  have "receiver_of (save_data d b u) = (STATE_DATA, b, if storage s \<noteq> None then (b, d) # saved t else saved t)"
    using assms(2-5) keep by (auto simp: save_data_def receiver_of_def split: option.splits)
  moreover have "receiver_of t = (g_tftp_state t, g_block_num t, saved t)" by (simp add: receiver_of_def)
  ultimately show "receives (storage s \<noteq> None) (receiver_of t) (receiver_of (tftp_cancel_timeout (save_data d b u)))"
    using assms(6) receives.first [of "g_tftp_state t"] receives.more by fastforce
  show "storage (tftp_cancel_timeout (save_data d b u)) = storage t"
    using assms(5) by (auto simp: save_data_def split: option.splits)
qed

lemma recv_data_path:
  assumes "receives_to s t"
  shows "wpo (recv_tftp_data p msg n t) (\<lambda>_. receives_to s)"
  using receives_to_same [OF assms]
  unfolding recv_tftp_data_def Let_def
  by (auto intro!: wp end_of_block_path save_block [where t = t] assms
      split: tftp_state_t.splits)

lemma recv_oack_path:
  assumes "receives_to s t"
  shows "wpo (recv_tftp_oack p t) (\<lambda>_. receives_to s)"
proof -
  have "receives_to s (tftp_cancel_timeout (t\<lparr>g_tftp_state := STATE_OACK\<rparr>))" if "g_tftp_state t = STATE_RRQ"
    by (rule receives_to_step [OF assms]) (simp_all, simp add: receiver_of_def that receives.options)
  moreover have "receives_to s (tftp_cancel_timeout (t\<lparr>g_tftp_state := STATE_ACK\<rparr>))" if "g_tftp_state t = STATE_WRQ"
    by (rule receives_to_step [OF assms]) (simp_all, simp add: receiver_of_def that receives.accepted)
  ultimately show ?thesis
    unfolding recv_tftp_oack_def
    by (auto intro!: wp send_ack_kept assms split: tftp_state_t.splits)
qed

lemma recv_error_path:
  assumes "receives_to s t"
  shows "receives_to s (recv_tftp_error msg t)"
proof -
  have "receives_to s (t\<lparr>g_tftp_rcv_buf := Some (swap_header msg)\<rparr>)"
    using receives_to_same [OF assms] by simp
  from receives_to_ends [OF this] show ?thesis
    unfolding recv_tftp_error_def by (rule receives_to_same) simp_all
qed

lemma recv_packet_path:
  assumes "receives_to s t"
  shows "wpo (recv_tftp_packet p n ip port t) (\<lambda>_. receives_to s)"
  using receives_to_same [OF assms]
  unfolding recv_tftp_packet_def Let_def
  by (auto intro!: wp recv_data_path recv_oack_path recv_error_path assms)

lemma check_timeout_path: "wpo (tftp_check_timeout p s) (\<lambda>_. receives_to s)"
proof -
  have counts: "receives_to s (t\<lparr>tftp_time_cnt := a, tftp_retry_cnt := b\<rparr>)" if "receives_to s t" for t a b
    using receives_to_same [OF that] by simp
  have fails: "receives_to s ((init_tftp t)\<lparr>g_progress_state := v\<rparr>)" if "receives_to s t" for t v
    using receives_to_ends [OF that] by (rule receives_to_same) simp_all
  have send: "wpo (case g_tftp_state s of
           STATE_RRQ \<Rightarrow> send_tftp_rrq p (g_filename s) TRANS_BINARY [default_tftp_opt] s
         | STATE_OACK \<Rightarrow> send_tftp_ack p (g_block_num s) s
         | STATE_DATA \<Rightarrow> send_tftp_ack p (g_block_num s) s
         | _ \<Rightarrow> Some ((), s)) (\<lambda>_. receives_to s)"
    by (auto intro: resend_path send_ack_kept wpo_Some split: tftp_state_t.splits)
  show ?thesis
    unfolding tftp_check_timeout_def Let_def
    by (auto intro!: wp wpo_mono [OF send] fails counts simp del: tftp_drv.update_convs)
qed

lemma run_path: "wpo (TFTP_run p from s) (\<lambda>_. receives_to s)"
proof -
  have recv: "wpo (recv_udp_packet p k n from t) (\<lambda>_. receives_to s)" if "receives_to s t" for k n t
    by (rule wpo_mono [OF recv_udp_kept]) (rule receives_to_trans [OF that])
  show ?thesis
    unfolding TFTP_run_def Let_def
    by (auto intro!: wp wpo_mono [OF check_timeout_path] wpo_mono [OF recv] wpo_mono [OF recv_packet_path])
qed

lemma tick_kept [simp]:
  "receiver_of (tftp_timeout_handler s) = receiver_of s" "storage (tftp_timeout_handler s) = storage s"
  by (simp_all add: tftp_timeout_handler_def)

lemma init_path: "wpo (TFTP_init p g k buf s) (\<lambda>_. receives_to s)"
proof -
  have opens: "receives_to s (u\<lparr>g_tftp_socket := sd, g_tftp_rcv_buf := m\<rparr>)" if "statics (init_tftp s) u" for u sd m
    using receives_to_statics [OF receives_to_ends [OF receives_to_refl] that] by (rule receives_to_same) simp_all
  have wait: "wpo (forever (open_tftp_step p sd) v t) (\<lambda>_. statics (init_tftp s))" if "statics (init_tftp s) t" for sd v t
  proof (rule wpo_forever [where I = "\<lambda>_. statics (init_tftp s)"])
    show "wpo (open_tftp_step p sd v' t') (\<lambda>r t''. case r of Inl a \<Rightarrow> statics (init_tftp s) t''
        | Inr c \<Rightarrow> statics (init_tftp s) t'')" if "statics (init_tftp s) t'" for v' t'
      unfolding open_tftp_step_def Let_def
      by (auto intro!: wp wpo_mono [OF statics_getsockopt] intro: statics_trans [OF that])
  qed (use that in auto)
  show ?thesis
    unfolding TFTP_init_def open_tftp_socket_def Let_def
    by (auto intro!: wp client_socket wpo_mono [OF wait] intro: opens statics_client)
qed

lemma exit_path: "receives_to s (TFTP_exit p s)"
proof -
  have "wpt (close p k (init_tftp s)) (\<lambda>_ u. statics (init_tftp s) u)" for k
    by (rule client_close) (rule statics_client)
  then have "receives_to s (snd (close p k (init_tftp s)))" for k
    by (auto simp: wpt_def split_beta intro: receives_to_statics [OF receives_to_ends [OF receives_to_refl]])
  then show ?thesis
    unfolding TFTP_exit_def Let_def split_beta by (rule receives_to_same) simp_all
qed

subsection \<open>Sequences of calls\<close>

text \<open>What goes on during a transfer: its own calls, and calls of the driver by the rest of the program.\<close>

inductive transfers :: "'w platform \<Rightarrow> ('w, 'm) tftp_drv_scheme \<Rightarrow> ('w, 'm) tftp_drv_scheme \<Rightarrow> bool" for p where
  run: "TFTP_run p src s = Some (r, t) \<Longrightarrow> transfers p s t"
| tick: "transfers p s (tftp_timeout_handler s)"
| others: "statics s t \<Longrightarrow> transfers p s t"

text \<open>Every call the application can make.\<close>

inductive tftp_calls :: "'w platform \<Rightarrow> ('w, 'm) tftp_drv_scheme \<Rightarrow> ('w, 'm) tftp_drv_scheme \<Rightarrow> bool" for p where
  transfers: "transfers p s t \<Longrightarrow> tftp_calls p s t"
| init: "TFTP_init p g k buf s = Some ((), t) \<Longrightarrow> tftp_calls p s t"
| request: "TFTP_read_request p ip name s = Some ((), t) \<Longrightarrow> tftp_calls p s t"
| exit: "tftp_calls p s (TFTP_exit p s)"

lemma transfers_path: "transfers p s t \<Longrightarrow> receives_to s t"
proof (induction rule: transfers.induct)
  case (run src s r t)
  then show ?case by (rule wpoD [OF run_path])
next
  case (tick s)
  show ?case by (rule receives_to_same [OF receives_to_refl]) simp_all
next
  case (others s t)
  then show ?case by (rule receives_to_statics [OF receives_to_refl])
qed

lemma transfers_paths: "(transfers p)\<^sup>*\<^sup>* s t \<Longrightarrow> receives_to s t"
  by (induction rule: rtranclp_induct) (auto intro: receives_to_trans transfers_path)

definition receiving_ok :: "('w, 'm) tftp_drv_scheme \<Rightarrow> bool" where
  "receiving_ok s = receiver_ok (storage s \<noteq> None) (receiver_of s)"

lemma receives_to_ok: "\<lbrakk>receives_to s t; receiving_ok s\<rbrakk> \<Longrightarrow> receiving_ok t"
  by (auto simp: receives_to_def receiving_ok_def dest: path_ok)

lemma request_ok:
  assumes "TFTP_read_request p ip name s = Some ((), t)" and "receiving_ok s"
  shows "receiving_ok t"
proof -
  have "receiver_of t = (STATE_RRQ, g_block_num s, saved s) \<and> storage t = storage s"
    using wpoD [OF send_rrq_kept assms(1) [unfolded TFTP_read_request_def]] by simp
  with assms(2) show ?thesis by (auto simp: receiving_ok_def receiver_ok_def receiver_of_def)
qed

lemma tftp_calls_ok: "\<lbrakk>tftp_calls p s t; receiving_ok s\<rbrakk> \<Longrightarrow> receiving_ok t"
proof (induction rule: tftp_calls.induct)
  case (transfers s t)
  then show ?case by (auto intro: receives_to_ok transfers_path)
next
  case (init g k buf s t)
  then show ?case by (auto intro: receives_to_ok wpoD [OF init_path])
next
  case (request ip name s t)
  then show ?case by (rule request_ok)
next
  case (exit s)
  then show ?case by (rule receives_to_ok [OF exit_path])
qed

lemma tftp_calls_oks: "\<lbrakk>(tftp_calls p)\<^sup>*\<^sup>* s t; receiving_ok s\<rbrakk> \<Longrightarrow> receiving_ok t"
  by (induction rule: rtranclp_induct) (auto intro: tftp_calls_ok)

text \<open>The last block number: no block can follow it, and nothing wraps.\<close>

lemma receives_stalls:
  "\<lbrakk>receives keep x y; x = (STATE_DATA, 0xFFFF, bs) \<or> (\<exists>n. x = (STATE_NONE, n, bs))\<rbrakk>
    \<Longrightarrow> y = (STATE_DATA, 0xFFFF, bs) \<or> (\<exists>n. y = (STATE_NONE, n, bs))"
proof (induction rule: receives.induct)
  case (more b n bs' d)
  moreover have "uint b < 0x10000" using uint_lt2p [of b] by simp
  ultimately show ?case by auto
qed auto

lemma path_stalls:
  assumes "(receives keep)\<^sup>*\<^sup>* (STATE_DATA, 0xFFFF, bs) y"
  shows "y = (STATE_DATA, 0xFFFF, bs) \<or> (\<exists>n. y = (STATE_NONE, n, bs))"
  using assms by (induction rule: rtranclp_induct) (auto dest: receives_stalls)

subsection \<open>The properties\<close>

text \<open>C9: The client saves a file in order. Whatever calls the application makes, interleaved with any calls
  of the rest of the driver, and whatever the network and the chip answer, the block numbers given to
  \<open>save_data\<close> are each 1 or one more than the one before: no duplicate and no gap reaches the file. The
  states of the write request, which the client never sends, are never entered.\<close>

theorem tftp_in_order:
  assumes "(tftp_calls p)\<^sup>*\<^sup>* s t" and "g_tftp_state s = STATE_NONE" and "saved s = []"
  shows "in_order (saved t) \<and> g_tftp_state t \<noteq> STATE_WRQ \<and> g_tftp_state t \<noteq> STATE_ACK"
proof -
  have "receiving_ok s" using assms(2,3) by (simp add: receiving_ok_def receiver_ok_def receiver_of_def)
  with assms(1) have "receiving_ok t" by (rule tftp_calls_oks)
  then show ?thesis by (simp add: receiving_ok_def receiver_ok_def receiver_of_def)
qed

text \<open>A client that stores blocks, with what its buffer holds when nothing new arrives.\<close>

definition tftp_start :: "u8 list \<Rightarrow> tftp_state_t \<Rightarrow> u16 \<Rightarrow> u8 list tftp_drv" where
  "tftp_start buf st n = drv.extend (scripted_ready [])
     \<lparr>g_tftp_socket = 2, g_filename = [0x66], g_server_ip = 0x0A000001, g_server_port = 50000, g_local_port = 0,
      g_tftp_state = st, g_block_num = n, g_timeout = 5, g_resend_flag = 0, tftp_time_cnt = 0, tftp_retry_cnt = 0,
      g_tftp_rcv_buf = Some (message buf), g_progress_state = TFTP_PROGRESS,
      storage = Some (\<lambda>_ _ w. w), saved = []\<rparr>"

lemmas tftp_run_defs = run_defs reg_defs dgram_defs open_defs TFTP_run_def TFTP_read_request_def send_tftp_rrq_def
  tftp_check_timeout_def recv_udp_packet_def recv_tftp_packet_def recv_tftp_data_def end_of_block_def save_data_def
  send_tftp_ack_def send_udp_packet_def tftp_cancel_timeout_def tftp_reg_timeout_def init_tftp_def
  tftp_start_def drv.extend_def ctl_defs rrq_packet_def bytes16_def htons_def ntohs_def swaps_def swap_header_def
  load16_def store16_def message_def default_tftp_opt_def TRANS_BINARY_def TFTP_DATA_def TFTP_OACK_def
  TFTP_ERROR_def TFTP_RRQ_def TFTP_BLK_SIZE_def MAX_MTU_SIZE_def FILE_NAME_SIZE_def

lemma length_minus_1 [simp]: "(ucast (- 1 :: u16) :: u32) = 0xFFFF"
  by code_simp

text \<open>A block 1 in the buffer reaches the file after the request.\<close>

theorem tftp_in_order_witness:
  "\<exists>t. (tftp_calls scripted)\<^sup>*\<^sup>* (tftp_start [0, 3, 0, 1] STATE_NONE 0) t \<and> map fst (saved t) = [1 :: u16] \<and> in_order (saved t)"
proof -
  let ?s = "tftp_start [0, 3, 0, 1] STATE_NONE 0"
  have "\<exists>u. Option.bind (TFTP_read_request scripted 0x0A000001 [0x66] ?s) (\<lambda>(_, t). TFTP_run scripted (0x0A000001, 50000) t)
      = Some (0, u) \<and> map fst (saved u) = [1]"
    by (simp add: tftp_run_defs TFTP_PROGRESS_def forever_code cong: run_cong)
  then obtain t u where request: "TFTP_read_request scripted 0x0A000001 [0x66] ?s = Some ((), t)"
    and run: "TFTP_run scripted (0x0A000001, 50000) t = Some (0, u)" and got: "\<exists>d. saved u = [(1, d)]"
    by (auto simp: bind_eq_Some_conv)
  have calls: "(tftp_calls scripted)\<^sup>*\<^sup>* (tftp_start [0, 3, 0, 1] STATE_NONE 0) u"
    using tftp_calls.request [OF request] tftp_calls.transfers [OF transfers.run [OF run]]
    by (meson r_into_rtranclp rtranclp.rtrancl_into_rtrancl)
  with got tftp_in_order [OF calls] show ?thesis
    by (auto simp: tftp_start_def drv.extend_def)
qed

text \<open>A file ends at block 65535. Once that block is saved, nothing that the network or the chip does makes
  \<open>TFTP_run\<close> save another block before the next request: the client compares the number of a block with
  the last one plus 1 as integers, which the 16 bits of a header never reach, so the block 0 (or 1) that
  a server sends next is acknowledged and dropped. The transfer stays where it is or it ends.\<close>

theorem tftp_stalls:
  assumes "(transfers p)\<^sup>*\<^sup>* s t" and "g_tftp_state s = STATE_DATA" and "g_block_num s = 0xFFFF"
  shows "saved t = saved s \<and> (g_tftp_state t = STATE_DATA \<and> g_block_num t = 0xFFFF \<or> g_tftp_state t = STATE_NONE)"
proof -
  have "(receives (storage s \<noteq> None))\<^sup>*\<^sup>* (STATE_DATA, 0xFFFF, saved s) (receiver_of t)"
    using transfers_paths [OF assms(1)] assms(2,3) by (simp add: receives_to_def receiver_of_def)
  from path_stalls [OF this] show ?thesis by (auto simp: receiver_of_def)
qed

text \<open>Block 0 of the next round is acknowledged, and not saved.\<close>

theorem tftp_stalls_witness:
  "\<exists>t. TFTP_run scripted (0x0A000001, 50000) (tftp_start [0, 3, 0, 0] STATE_DATA 0xFFFF) = Some (0, t)
     \<and> g_resend_flag t = 1 \<and> saved t = []"
proof -
  have "\<exists>t. TFTP_run scripted (0x0A000001, 50000) (tftp_start [0, 3, 0, 0] STATE_DATA 0xFFFF) = Some (0, t)
     \<and> g_resend_flag t = 1"
    by (simp add: tftp_run_defs TFTP_PROGRESS_def forever_code cong: run_cong)
  then obtain t where run: "TFTP_run scripted (0x0A000001, 50000) (tftp_start [0, 3, 0, 0] STATE_DATA 0xFFFF) = Some (0, t)"
    and flag: "g_resend_flag t = 1" by blast
  have "(transfers scripted)\<^sup>*\<^sup>* (tftp_start [0, 3, 0, 0] STATE_DATA 0xFFFF) t"
    by (rule r_into_rtranclp) (rule transfers.run [OF run])
  from tftp_stalls [OF this] run flag show ?thesis
    by (simp add: tftp_start_def drv.extend_def)
qed

end
