(* ===== verification/CString.thy ===== *)
theory CString
  imports Prelude
begin

text \<open>
  Strings of C and what the clients use of \<open>string.h\<close> and of \<open>sprintf\<close>. A string is the list of bytes
  before its terminator. A pointer into an array is what follows it in the array, and its string
  ends at the first zero. Null pointers are \<open>None\<close>.
\<close>

subsection \<open>Strings in arrays\<close>

definition chars :: "string \<Rightarrow> u8 list" where
  "chars cs = map (\<lambda>c. of_nat (of_char c)) cs"

definition upto_nul :: "u8 list \<Rightarrow> u8 list" where
  "upto_nul bs = takeWhile (\<lambda>c. c \<noteq> 0) bs"

text \<open>The string at a pointer, when there is a terminator.\<close>

definition cstr :: "u8 list \<Rightarrow> u8 list option" where
  "cstr bs = (if 0 \<in> set bs then Some (upto_nul bs) else None)"

definition strlen :: "u8 list \<Rightarrow> nat option" where
  "strlen bs = map_option length (cstr bs)"

text \<open>A copy into an array at an offset, when it fits.\<close>

definition put_at :: "nat \<Rightarrow> u8 list \<Rightarrow> u8 list \<Rightarrow> u8 list option" where
  "put_at i bs mem =
     (if i + length bs \<le> length mem then Some (take i mem @ bs @ drop (i + length bs) mem) else None)"

subsection \<open>Searching\<close>

text \<open>The first place where a string without a zero begins; works on strings and on pointers.\<close>

fun strstr :: "u8 list \<Rightarrow> u8 list \<Rightarrow> u8 list option" where
  "strstr [] pat = (if pat = [] then Some [] else None)"
| "strstr (c # cs) pat =
     (if take (length pat) (c # cs) = pat then Some (c # cs) else if c = 0 then None else strstr cs pat)"

definition occurs :: "u8 list \<Rightarrow> u8 list \<Rightarrow> bool" where
  "occurs pat s \<longleftrightarrow> strstr s pat \<noteq> None"

text \<open>\<open>strtok\<close>: the next token and what is left, or the null pointer.\<close>

definition strtok :: "u8 list \<Rightarrow> u8 list \<Rightarrow> (u8 list \<times> u8 list) option" where
  "strtok ds s = (let s = dropWhile (\<lambda>c. c \<in> set ds) s in
     if s = [] then None
     else Some (takeWhile (\<lambda>c. c \<notin> set ds) s, drop 1 (dropWhile (\<lambda>c. c \<notin> set ds) s)))"

lemma takeWhile_all: "\<forall>c\<in>set as. P c \<Longrightarrow> takeWhile P (as @ bs) = as @ takeWhile P bs"
  by (induction as) auto

lemma dropWhile_all: "\<forall>c\<in>set as. P c \<Longrightarrow> dropWhile P (as @ bs) = dropWhile P bs"
  by (induction as) auto

lemma strtok_token:
  assumes "s \<noteq> []" and "\<forall>c\<in>set s. c \<notin> set ds" and "d \<in> set ds"
  shows "strtok ds (s @ d # rest) = Some (s, rest)" and "strtok ds s = Some (s, [])"
proof -
  have all: "takeWhile (\<lambda>c. c \<notin> set ds) (s @ t) = s @ takeWhile (\<lambda>c. c \<notin> set ds) t"
    "dropWhile (\<lambda>c. c \<notin> set ds) (s @ t) = dropWhile (\<lambda>c. c \<notin> set ds) t" for t
    using assms(2) by (simp_all add: takeWhile_all dropWhile_all)
  have first: "dropWhile (\<lambda>c. c \<in> set ds) (s @ t) = s @ t" for t
    using assms(1,2) by (cases s) auto
  have whole: "dropWhile (\<lambda>c. c \<notin> set ds) s = []" "takeWhile (\<lambda>c. c \<notin> set ds) s = s"
    "dropWhile (\<lambda>c. c \<in> set ds) s = s"
    using all(1) [of "[]"] all(2) [of "[]"] first [of "[]"] by (simp_all del: dropWhile_eq_Nil_conv)
  show "strtok ds (s @ d # rest) = Some (s, rest)" "strtok ds s = Some (s, [])"
    unfolding strtok_def Let_def first all whole using assms(1,3) by simp_all
qed

lemma upto_nul_string [simp]:
  assumes "0 \<notin> set s"
  shows "upto_nul (s @ 0 # rest) = s" "upto_nul s = s"
proof -
  have "\<forall>c\<in>set s. c \<noteq> 0" using assms by auto
  then show "upto_nul (s @ 0 # rest) = s" "upto_nul s = s"
    by (simp_all add: upto_nul_def takeWhile_all takeWhile_eq_all_conv)
qed

lemma cstr_string [simp]: "0 \<notin> set s \<Longrightarrow> cstr (s @ 0 # rest) = Some s"
  by (simp add: cstr_def)

lemma strlen_string [simp]: "0 \<notin> set s \<Longrightarrow> strlen (s @ 0 # rest) = Some (length s)"
  by (simp add: strlen_def)

lemma cstr_no_nul: "cstr bs = Some s \<Longrightarrow> 0 \<notin> set s"
  by (auto simp: cstr_def upto_nul_def split: if_splits dest: set_takeWhileD)

lemma put_at_length: "put_at i bs mem = Some mem' \<Longrightarrow> length mem' = length mem"
  by (auto simp: put_at_def split: if_splits)

lemma strstr_suffix: "strstr s pat = Some t \<Longrightarrow> \<exists>u. s = u @ t \<and> take (length pat) t = pat"
proof (induction s)
  case (Cons c s)
  show ?case
  proof (cases "take (length pat) (c # s) = pat")
    case False
    with Cons.prems have "strstr s pat = Some t" by (simp split: if_splits)
    then obtain u where "s = u @ t \<and> take (length pat) t = pat" using Cons.IH by blast
    then show ?thesis by (intro exI [of _ "c # u"]) simp
  qed (use Cons.prems in simp)
qed (simp split: if_splits)

text \<open>A pattern is found where its first byte occurs first, when it stands there.\<close>

lemma strstr_first:
  assumes "\<forall>c\<in>set u. c \<noteq> p \<and> c \<noteq> 0"
  shows "strstr (u @ (p # ps) @ rest) (p # ps) = Some ((p # ps) @ rest)"
  using assms by (induction u) simp_all

subsection \<open>Decimal numbers\<close>

text \<open>\<open>%d\<close> of a number that is not negative.\<close>

definition digit :: "nat \<Rightarrow> u8" where
  "digit n = 0x30 + of_nat n"

fun percent_d :: "nat \<Rightarrow> u8 list" where
  "percent_d n = (if n < 10 then [digit n] else percent_d (n div 10) @ [digit (n mod 10)])"

declare percent_d.simps [simp del]

lemma digit_range: "k < 10 \<Longrightarrow> 0x30 \<le> digit k \<and> digit k \<le> 0x39"
proof -
  have "\<forall>k\<in>set [0..<10]. 0x30 \<le> digit k \<and> digit k \<le> 0x39"
    by code_simp
  then show "k < 10 \<Longrightarrow> ?thesis" by simp
qed

lemma percent_d_digits: "c \<in> set (percent_d n) \<Longrightarrow> 0x30 \<le> c \<and> c \<le> 0x39"
proof (induction n rule: percent_d.induct)
  case (1 n)
  show ?case
  proof (cases "n < 10")
    case True
    then show ?thesis using 1(2) digit_range by (simp add: percent_d.simps [of n])
  next
    case False
    then have "c \<in> set (percent_d (n div 10)) \<or> c = digit (n mod 10)"
      using 1(2) by (auto simp: percent_d.simps [of n])
    then show ?thesis using 1(1) [OF False] digit_range [of "n mod 10"] by auto
  qed
qed

lemma percent_d_no_nul: "0 \<notin> set (percent_d n)"
  using percent_d_digits [of 0 n] by auto

end
