(* ===== verification/InetAddr.thy ===== *)
theory InetAddr
  imports NetUtil CString
begin

text \<open>
  The dotted decimal notation of \<open>Internet/TFTP/netutil.c\<close>: \<open>inet_ntoa\<close>, \<open>inet_ntoa_pad\<close> and \<open>inet_addr\<close>,
  with what they use of \<open>strtol\<close>. \<open>None\<close> is a use of the null token or a copy past the 30 bytes of \<open>taddr\<close>. The width of
  \<open>long\<close>, to which \<open>strtol\<close> clips, is a parameter.
\<close>

unbundle bit_operations_syntax

subsection \<open>The C library\<close>

text \<open>\<open>%03d\<close> of a number that is not negative.\<close>

definition percent_03d :: "nat \<Rightarrow> u8 list" where
  "percent_03d n = (let s = percent_d n in replicate (3 - length s) (digit 0) @ s)"

definition digit_value :: "u8 \<Rightarrow> nat" where
  "digit_value c =
     (if 0x30 \<le> c \<and> c \<le> 0x39 then unat (c - 0x30)
      else if 0x41 \<le> c \<and> c \<le> 0x5A then unat (c - 0x41) + 10
      else if 0x61 \<le> c \<and> c \<le> 0x7A then unat (c - 0x61) + 10
      else 36)"

fun digits_value :: "nat \<Rightarrow> int \<Rightarrow> u8 list \<Rightarrow> int" where
  "digits_value base acc [] = acc"
| "digits_value base acc (c # cs) =
     (if digit_value c < base then digits_value base (acc * int base + int (digit_value c)) cs else acc)"

definition isspace :: "u8 \<Rightarrow> bool" where
  "isspace c \<longleftrightarrow> c = 0x20 \<or> 9 \<le> c \<and> c \<le> 13"

text \<open>\<open>strtol\<close> in base 10 or 16; a prefix \<open>0x\<close> belongs to base 16 when a digit follows it.\<close>

definition hex_prefix :: "u8 list \<Rightarrow> u8 list" where
  "hex_prefix s = (case s of
     z # x # d # cs \<Rightarrow> if z = 0x30 \<and> (x = 0x78 \<or> x = 0x58) \<and> digit_value d < 16 then d # cs else s
   | _ \<Rightarrow> s)"

definition strtol :: "nat \<Rightarrow> nat \<Rightarrow> u8 list \<Rightarrow> int" where
  "strtol lw base s =
     (let s = dropWhile isspace s;
          (neg, s) = (case s of [] \<Rightarrow> (False, [])
            | c # cs \<Rightarrow> if c = 0x2D then (True, cs) else if c = 0x2B then (False, cs) else (False, s));
          v = digits_value base 0 (if base = 16 then hex_prefix s else s)
      in if neg then max (- (2 ^ (lw - 1))) (- v) else min (2 ^ (lw - 1) - 1) v)"

subsection \<open>The conversions\<close>

definition addr_byte :: "u32 \<Rightarrow> nat \<Rightarrow> nat" where
  "addr_byte addr n = unat (drop_bit n addr AND 0xFF)"

definition inet_ntoa :: "u32 \<Rightarrow> u8 list" where
  "inet_ntoa addr = percent_d (addr_byte addr 24) @ [0x2E] @ percent_d (addr_byte addr 16) @ [0x2E]
     @ percent_d (addr_byte addr 8) @ [0x2E] @ percent_d (addr_byte addr 0)"

definition inet_ntoa_pad :: "u32 \<Rightarrow> u8 list" where
  "inet_ntoa_pad addr = percent_03d (addr_byte addr 24) @ [0x2E] @ percent_03d (addr_byte addr 16) @ [0x2E]
     @ percent_03d (addr_byte addr 8) @ [0x2E] @ percent_03d (addr_byte addr 0)"

definition inet_number :: "nat \<Rightarrow> u8 list \<Rightarrow> u32" where
  "inet_number lw tok =
     of_int (if take 2 tok = [0x30, 0x78] then strtol lw 16 (drop 2 tok) else strtol lw 10 tok)"

fun inet_loop :: "nat \<Rightarrow> nat \<Rightarrow> u8 list \<Rightarrow> u32 \<Rightarrow> u32 option" where
  "inet_loop lw 0 s inetaddr = Some inetaddr"
| "inet_loop lw (Suc i) s inetaddr = do {
     (tok, s) \<leftarrow> strtok [0x2E] s;
     inet_loop lw i s (push_bit 8 inetaddr OR (inet_number lw tok AND 0xFF))
   }"

definition inet_addr :: "nat \<Rightarrow> u8 list \<Rightarrow> u32 option" where
  "inet_addr lw addr = (if 30 < length addr + 1 then None else inet_loop lw 4 addr 0)"

subsection \<open>Tokens of decimal digits\<close>

text \<open>What both formats give for a byte: up to three digits that \<open>strtol\<close> reads back.\<close>

definition decimal :: "nat \<Rightarrow> u8 list \<Rightarrow> bool" where
  "decimal n s \<longleftrightarrow> s \<noteq> [] \<and> length s \<le> 3 \<and> (\<forall>c\<in>set s. 0x30 \<le> c \<and> c \<le> 0x39) \<and> digits_value 10 0 s = int n"

lemma digit_less: "k < 10 \<Longrightarrow> 0x30 \<le> digit k \<and> digit k \<le> 0x39 \<and> digit_value (digit k) = k"
proof -
  have "\<forall>k\<in>set [0..<10]. 0x30 \<le> digit k \<and> digit k \<le> 0x39 \<and> digit_value (digit k) = k"
    by code_simp
  then show "k < 10 \<Longrightarrow> ?thesis" by simp
qed

lemma percent_d_step:
  "n < 10 \<Longrightarrow> percent_d n = [digit n]"
  "10 \<le> n \<Longrightarrow> percent_d n = percent_d (n div 10) @ [digit (n mod 10)]"
  by (simp_all add: percent_d.simps [of n])

lemma percent_d_less:
  assumes "n < 1000"
  shows "10 \<le> n \<Longrightarrow> n < 100 \<Longrightarrow> percent_d n = [digit (n div 10), digit (n mod 10)]"
    and "100 \<le> n \<Longrightarrow> percent_d n = [digit (n div 10 div 10), digit (n div 10 mod 10), digit (n mod 10)]"
proof -
  show "percent_d n = [digit (n div 10), digit (n mod 10)]" if n: "10 \<le> n" "n < 100"
  proof -
    have "n div 10 < 10" using n by (simp add: less_mult_imp_div_less)
    then show ?thesis unfolding percent_d_step(2) [OF n(1)] by (simp add: percent_d_step(1))
  qed
  show "percent_d n = [digit (n div 10 div 10), digit (n div 10 mod 10), digit (n mod 10)]" if n: "100 \<le> n"
  proof -
    have "10 \<le> n" "n div 10 div 10 < 10" using n assms by (simp_all add: less_mult_imp_div_less)
    moreover have "10 \<le> n div 10" using div_le_mono [OF n, of 10] by simp
    ultimately show ?thesis using percent_d_step(2) [of n] percent_d_step(2) [of "n div 10"] percent_d_step(1) [of "n div 10 div 10"]
      by (simp only: append.simps)
  qed
qed

lemma percent_d_byte:
  assumes "n < 256"
  shows "decimal n (percent_d n) \<and> decimal n (percent_03d n)"
proof -
  have digits: "m = 100 * a + 10 * b + c \<Longrightarrow> decimal m [digit a, digit b, digit c]"
    "m = 10 * b + c \<Longrightarrow> decimal m [digit b, digit c]" "m = c \<Longrightarrow> decimal m [digit c]"
    if "a < 10" "b < 10" "c < 10" for m a b c
    using digit_less [OF that(1)] digit_less [OF that(2)] digit_less [OF that(3)] that by (simp_all add: decimal_def)
  have n: "n = 10 * (n div 10) + n mod 10" "n = 100 * (n div 10 div 10) + 10 * (n div 10 mod 10) + n mod 10"
    using mult_div_mod_eq [of 10 n] mult_div_mod_eq [of 10 "n div 10"] by linarith+
  have "n div 10 div 10 < 10" using assms by (simp add: less_mult_imp_div_less)
  then have three: "decimal n [digit (n div 10 div 10), digit (n div 10 mod 10), digit (n mod 10)]"
    by (rule digits(1) [OF _ _ _ n(2)]) simp_all
  have two: "decimal n [digit (n div 10), digit (n mod 10)]" if "n < 100"
    by (rule digits(2) [where a = 0, OF _ _ _ n(1)]) (use that in \<open>simp_all add: less_mult_imp_div_less\<close>)
  have one: "decimal n [digit n]" if "n < 10"
    by (rule digits(3) [where a = 0 and b = 0]) (use that in simp_all)
  consider "n < 10" | "10 \<le> n" "n < 100" | "100 \<le> n" by linarith
  then show ?thesis
    by cases (use assms one two three in \<open>simp_all add: percent_d_step percent_d_less percent_03d_def numeral_2_eq_2\<close>)
qed

lemma decimal_strtol:
  assumes "decimal n s" and "n < 256" and "32 \<le> lw"
  shows "strtol lw 10 s = int n"
proof -
  from assms(1) obtain c cs where s: "s = c # cs" and c: "0x30 \<le> c" "c \<le> 0x39"
    and v: "digits_value 10 0 s = int n"
    by (cases s) (auto simp: decimal_def)
  have "\<not> c \<le> 13" using c(1) by (auto dest: order_trans)
  then have c': "\<not> isspace c" "c \<noteq> 0x2D" "c \<noteq> 0x2B"
    using c by (auto simp: isspace_def)
  have "(2::int) ^ 31 \<le> 2 ^ (lw - 1)" using assms(3) by (intro power_increasing) auto
  with v assms(2) show ?thesis
    by (simp add: strtol_def s c' Let_def)
qed

lemma decimal_number:
  assumes "decimal n s" and "n < 256" and "32 \<le> lw"
  shows "inet_number lw s = of_nat n"
proof -
  have "take 2 s \<noteq> [0x30, 0x78]"
  proof
    assume "take 2 s = [0x30, 0x78]"
    then have "(0x78 :: u8) \<in> set s" by (metis in_set_takeD list.set_intros)
    with assms(1) show False by (auto simp: decimal_def)
  qed
  then show ?thesis by (simp add: inet_number_def decimal_strtol [OF assms])
qed

lemma decimal_strtok:
  assumes "decimal n s"
  shows "strtok [0x2E] (s @ 0x2E # rest) = Some (s, rest)" "strtok [0x2E] s = Some (s, [])"
proof -
  have s: "s \<noteq> []" "\<forall>c\<in>set s. c \<notin> set [0x2E]" using assms by (auto simp: decimal_def)
  show "strtok [0x2E] (s @ 0x2E # rest) = Some (s, rest)" "strtok [0x2E] s = Some (s, [])"
    by (rule strtok_token [OF s], simp)+
qed

text \<open>The four bytes as the loop puts them together.\<close>

definition join_bytes :: "u32 \<Rightarrow> u32 \<Rightarrow> u32 \<Rightarrow> u32 \<Rightarrow> u32" where
  "join_bytes a b c d = push_bit 8 (push_bit 8 (push_bit 8 (push_bit 8 0 OR (a AND 0xFF)) OR (b AND 0xFF))
     OR (c AND 0xFF)) OR (d AND 0xFF)"

lemma decimal_addr:
  assumes "decimal a sa" "decimal b sb" "decimal c sc" "decimal d sd"
    and "a < 256" "b < 256" "c < 256" "d < 256" and "32 \<le> lw"
  shows "inet_addr lw (sa @ 0x2E # sb @ 0x2E # sc @ 0x2E # sd)
    = Some (join_bytes (of_nat a) (of_nat b) (of_nat c) (of_nat d))"
proof -
  have "length (sa @ 0x2E # sb @ 0x2E # sc @ 0x2E # sd) + 1 \<le> 30"
    using assms(1-4) by (simp add: decimal_def)
  then show ?thesis
    by (simp add: inet_addr_def numeral_eq_Suc decimal_strtok(1) [OF assms(1)] decimal_strtok(1) [OF assms(2)]
        decimal_strtok(1) [OF assms(3)] decimal_strtok(2) [OF assms(4)] join_bytes_def
        decimal_number [OF assms(1) assms(5) assms(9)] decimal_number [OF assms(2) assms(6) assms(9)]
        decimal_number [OF assms(3) assms(7) assms(9)] decimal_number [OF assms(4) assms(8) assms(9)])
qed

lemma addr_byte_less [simp]: "addr_byte a n < 256"
proof -
  have "drop_bit n a AND 0xFF < (256 :: u32)" by (rule le_less_trans [OF word_and_le1]) simp
  then show ?thesis unfolding addr_byte_def by (simp add: word_less_nat_alt)
qed

lemma addr_bytes:
  "join_bytes (of_nat (addr_byte a 24)) (of_nat (addr_byte a 16)) (of_nat (addr_byte a 8)) (of_nat (addr_byte a 0)) = a"
proof (rule bit_word_eqI)
  fix n assume n: "n < LENGTH(32)"
  consider "n < 8" | "8 \<le> n" "n < 16" | "16 \<le> n" "n < 24" | "24 \<le> n" by linarith
  then show "bit (join_bytes (of_nat (addr_byte a 24)) (of_nat (addr_byte a 16)) (of_nat (addr_byte a 8))
      (of_nat (addr_byte a 0))) n = bit a n"
    by cases (use n in \<open>auto simp: join_bytes_def addr_byte_def byte_mask bit_simps\<close>)
qed

text \<open>C34: \<open>inet_addr\<close> reads back what \<open>inet_ntoa\<close> and \<open>inet_ntoa_pad\<close> print: the address, for every address
  and every \<open>long\<close> of at least 32 bits. The padded form is read in base 10, and neither form overruns
  the 30 bytes into which the string is copied nor runs out of tokens.\<close>

theorem inet_roundtrip:
  assumes "32 \<le> lw"
  shows "inet_addr lw (inet_ntoa a) = Some a \<and> inet_addr lw (inet_ntoa_pad a) = Some a"
  using decimal_addr [where lw = lw, OF conjunct1 [OF percent_d_byte] conjunct1 [OF percent_d_byte]
      conjunct1 [OF percent_d_byte] conjunct1 [OF percent_d_byte],
      of "addr_byte a 24" "addr_byte a 16" "addr_byte a 8" "addr_byte a 0"]
    decimal_addr [where lw = lw, OF conjunct2 [OF percent_d_byte] conjunct2 [OF percent_d_byte]
      conjunct2 [OF percent_d_byte] conjunct2 [OF percent_d_byte],
      of "addr_byte a 24" "addr_byte a 16" "addr_byte a 8" "addr_byte a 0"]
  by (simp add: inet_ntoa_def inet_ntoa_pad_def addr_bytes assms)

theorem inet_roundtrip_witness:
  "inet_ntoa 0xC0A80A01 = map (\<lambda>c. of_nat (of_char c) :: u8) ''192.168.10.1'' \<and> inet_addr 32 (inet_ntoa 0xC0A80A01) = Some 0xC0A80A01"
proof -
  have "inet_ntoa 0xC0A80A01 = map (\<lambda>c. of_nat (of_char c) :: u8) ''192.168.10.1''" by code_simp
  with inet_roundtrip [where lw = 32 and a = "0xC0A80A01"] show ?thesis by simp
qed

end
