(* ===== verification/SnmpData.thy ===== *)
theory SnmpData
  imports NetUtil CString
begin

text \<open>
  The object table of the SNMP agent: \<open>SNMP/snmp_custom.c\<close> and the functions of \<open>SNMP/snmp.c\<close> that read and
  write an entry. The value of an entry is a union of 64 bytes; the integer in it is its first four,
  in the order of the host. A \<open>getfunction\<close> may read the clock; what a \<open>setfunction\<close> does is an effect
  on the world. \<open>None\<close> is an access outside an array, a string without a terminator, or a shift by
  the width of an integer.
\<close>

unbundle bit_operations_syntax

subsection \<open>Constants\<close>

definition MAX_OID :: nat where "MAX_OID = 12"
definition MAX_STRING :: nat where "MAX_STRING = 64"
definition SNMP_SUCCESS :: int where "SNMP_SUCCESS = 0"
definition OID_NOT_FOUND :: int where "OID_NOT_FOUND = -1"
definition INVALID_ENTRY_ID :: int where "INVALID_ENTRY_ID = -4"
definition INVALID_DATA_TYPE :: int where "INVALID_DATA_TYPE = -5"
definition SNMPDTYPE_INTEGER :: u8 where "SNMPDTYPE_INTEGER = 0x02"
definition SNMPDTYPE_OCTET_STRING :: u8 where "SNMPDTYPE_OCTET_STRING = 0x04"
definition SNMPDTYPE_OBJ_ID :: u8 where "SNMPDTYPE_OBJ_ID = 0x06"
definition SNMPDTYPE_COUNTER :: u8 where "SNMPDTYPE_COUNTER = 0x41"
definition SNMPDTYPE_GAUGE :: u8 where "SNMPDTYPE_GAUGE = 0x42"
definition SNMPDTYPE_TIME_TICKS :: u8 where "SNMPDTYPE_TIME_TICKS = 0x43"

lemmas snmp_types = SNMPDTYPE_INTEGER_def SNMPDTYPE_OCTET_STRING_def SNMPDTYPE_OBJ_ID_def SNMPDTYPE_COUNTER_def
  SNMPDTYPE_GAUGE_def SNMPDTYPE_TIME_TICKS_def

subsection \<open>Entries\<close>

text \<open>A \<open>getfunction\<close> takes the time of day and the start time of the agent, and the union.\<close>

record 'w dataEntryType =
  oidlen :: u8
  oid :: "u8 list"
  dataType :: u8
  dataLen :: u8
  octetstring :: "u8 list"  \<comment> \<open>the union \<open>u\<close>\<close>
  getfunction :: "(u32 \<Rightarrow> u32 \<Rightarrow> u8 list \<Rightarrow> u8 list \<times> u8) option"
  setfunction :: "(int \<Rightarrow> 'w \<Rightarrow> 'w) option"

definition intval :: "u8 list \<Rightarrow> u32" where
  "intval bs = load32 bs"

definition set_intval :: "u32 \<Rightarrow> u8 list \<Rightarrow> u8 list" where
  "set_intval v bs = bytes32 v @ drop 4 bs"

definition currentUptime :: "u32 \<Rightarrow> u32 \<Rightarrow> u8 list \<Rightarrow> u8 list \<times> u8" where
  "currentUptime curTime start ptr = (set_intval (curTime - start) ptr, 4)"

definition is_string :: "u8 \<Rightarrow> bool" where
  "is_string t \<longleftrightarrow> t = SNMPDTYPE_OCTET_STRING \<or> t = SNMPDTYPE_OBJ_ID"

definition is_number :: "u8 \<Rightarrow> bool" where
  "is_number t \<longleftrightarrow> t = SNMPDTYPE_INTEGER \<or> t = SNMPDTYPE_TIME_TICKS \<or> t = SNMPDTYPE_COUNTER \<or> t = SNMPDTYPE_GAUGE"

definition call_get :: "u32 \<Rightarrow> u32 \<Rightarrow> 'w dataEntryType \<Rightarrow> 'w dataEntryType" where
  "call_get curTime start e =
     (case getfunction e of None \<Rightarrow> e | Some f \<Rightarrow> let (v, n) = f curTime start (octetstring e) in e\<lparr>octetstring := v, dataLen := n\<rparr>)"

text \<open>The switch of \<open>getEntry\<close>: the status, the bytes put at \<open>ptr\<close>, and the entry.\<close>

definition string_value :: "'w dataEntryType \<Rightarrow> (u8 list \<times> 'w dataEntryType) option" where
  "string_value e = do {
     e \<leftarrow> (if dataType e = SNMPDTYPE_OCTET_STRING
           then do { n \<leftarrow> strlen (octetstring e); Some (e\<lparr>dataLen := of_nat n\<rparr>) } else Some e);
     if length (octetstring e) < unat (dataLen e) then None else Some (take (unat (dataLen e)) (octetstring e), e)
   }"

definition number_value :: "'w dataEntryType \<Rightarrow> (u8 list \<times> 'w dataEntryType) option" where
  "number_value e =
     (let n = (if dataLen e \<noteq> 0 then unat (dataLen e) else 4); value = intval (octetstring e) in
      if 4 < n then None else Some (map (\<lambda>j. ucast (drop_bit ((n - j - 1) * 8) value)) [0..<n], e))"

definition entry_get ::
    "u32 \<Rightarrow> u32 \<Rightarrow> 'w dataEntryType \<Rightarrow> ((int \<times> u8 list option) \<times> 'w dataEntryType) option" where
  "entry_get curTime start e =
     (if is_string (dataType e) then do {
        (bs, e) \<leftarrow> string_value (call_get curTime start e);
        Some ((SNMP_SUCCESS, Some bs), e)
      } else if is_number (dataType e) then do {
        (bs, e) \<leftarrow> number_value (call_get curTime start e);
        Some ((SNMP_SUCCESS, Some bs), e)
      } else Some ((INVALID_DATA_TYPE, None), e))"

definition getEntry ::
    "u32 \<Rightarrow> u32 \<Rightarrow> 'w dataEntryType list \<Rightarrow> int
       \<Rightarrow> ((int \<times> u8 option \<times> u8 list option) \<times> 'w dataEntryType list) option" where
  "getEntry curTime start tab eid =
     (if \<not> (0 \<le> eid \<and> eid < int (length tab)) then Some ((INVALID_ENTRY_ID, None, None), tab)
      else do {
        ((ret, bs), e) \<leftarrow> entry_get curTime start (tab ! nat eid);
        Some ((ret, Some (dataType (tab ! nat eid)), bs), tab[nat eid := e])
      })"

text \<open>\<open>val\<close> is what follows the pointer in its array.\<close>

definition getValue :: "u8 list \<Rightarrow> int \<Rightarrow> u32 option" where
  "getValue val vlen =
     (if int (length val) < vlen then None
      else Some (foldl (\<lambda>value b. push_bit 8 value OR ucast b) 0 (take (nat vlen) val)))"

text \<open>The switch of \<open>setEntry\<close>: the status, the entry and the value for its \<open>setfunction\<close>.\<close>

definition entry_set ::
    "u8 list \<Rightarrow> int \<Rightarrow> 'w dataEntryType \<Rightarrow> ((int \<times> u32 option) \<times> 'w dataEntryType) option" where
  "entry_set val vlen e =
     (if is_string (dataType e) then
        if int (length val) < vlen \<or> int (length (octetstring e)) < vlen then None
        else Some ((SNMP_SUCCESS, None), e\<lparr>octetstring := take (nat vlen) val @ drop (nat vlen) (octetstring e), dataLen := of_int vlen\<rparr>)
      else if is_number (dataType e) then do {
        v \<leftarrow> getValue val vlen;
        Some ((SNMP_SUCCESS, Some v), e\<lparr>octetstring := set_intval v (octetstring e), dataLen := of_int vlen\<rparr>)
      } else Some ((INVALID_DATA_TYPE, None), e))"

definition same_oid :: "u8 list \<Rightarrow> 'w dataEntryType \<Rightarrow> bool" where
  "same_oid name e \<longleftrightarrow> length name = unat (oidlen e) \<and> take (length name) (oid e) = name"

definition findEntry :: "'w dataEntryType list \<Rightarrow> u8 list \<Rightarrow> int \<Rightarrow> int option" where
  "findEntry tab val len =
     (if \<forall>e\<in>set tab. len \<noteq> uint (oidlen e) then Some OID_NOT_FOUND
      else if int (length val) < len then None
      else Some (case List.find (\<lambda>i. same_oid (take (nat len) val) (tab ! i)) [0..<length tab] of
        None \<Rightarrow> OID_NOT_FOUND | Some i \<Rightarrow> int i))"

definition getOID :: "'w dataEntryType list \<Rightarrow> int \<Rightarrow> int \<times> (u8 list \<times> u8) option" where
  "getOID tab eid =
     (if \<not> (0 \<le> eid \<and> eid < int (length tab)) then (INVALID_ENTRY_ID, None)
      else (SNMP_SUCCESS, Some (take (unat (oidlen (tab ! nat eid))) (oid (tab ! nat eid)), oidlen (tab ! nat eid))))"

subsection \<open>The table\<close>

definition padded :: "nat \<Rightarrow> u8 list \<Rightarrow> u8 list" where
  "padded n bs = bs @ replicate (n - length bs) 0"

definition entry :: "u8 list \<Rightarrow> u8 \<Rightarrow> u8 \<Rightarrow> u8 list \<Rightarrow> (u32 \<Rightarrow> u32 \<Rightarrow> u8 list \<Rightarrow> u8 list \<times> u8) option \<Rightarrow> 'w dataEntryType" where
  "entry name t n value get =
    \<lparr>oidlen = of_nat (length name), oid = padded MAX_OID name, dataType = t, dataLen = n, octetstring = padded MAX_STRING value,
     getfunction = get, setfunction = None\<rparr>"

definition snmpData_initial :: "'w dataEntryType list" where
  "snmpData_initial =
    [entry [0x2B, 6, 1, 2, 1, 1, 1, 0] SNMPDTYPE_OCTET_STRING 30 (chars ''WIZnet Embedded SNMP Agent'') None,
     entry [0x2B, 6, 1, 2, 1, 1, 2, 0] SNMPDTYPE_OBJ_ID 8 [0x2B, 6, 1, 2, 1, 1, 2, 0] None,
     entry [0x2B, 6, 1, 2, 1, 1, 3, 0] SNMPDTYPE_TIME_TICKS 0 [] (Some currentUptime),
     entry [0x2B, 6, 1, 2, 1, 1, 4, 0] SNMPDTYPE_OCTET_STRING 30 (chars ''http://www.wizwiki.net/forum'') None,
     entry [0x2B, 6, 1, 2, 1, 1, 5, 0] SNMPDTYPE_OCTET_STRING 30 (chars ''http://www.wiznet.co.kr'') None,
     entry [0x2B, 6, 1, 2, 1, 1, 6, 0] SNMPDTYPE_OCTET_STRING 30 (chars ''4F Humax Village'') None,
     entry [0x2B, 6, 1, 2, 1, 1, 7, 0] SNMPDTYPE_INTEGER 4 [] None,
     entry [0x2B, 6, 1, 4, 1, 0x81, 0x9B, 0x19, 1, 0] SNMPDTYPE_OCTET_STRING 30 (chars ''long-length OID Test #1'') None,
     entry [0x2B, 6, 1, 4, 1, 0x81, 0xAD, 0x42, 1, 0] SNMPDTYPE_OCTET_STRING 35 (chars ''long-length OID Test #2'') None,
     entry [0x2B, 6, 1, 4, 1, 0x81, 0xAD, 0x42, 2, 0] SNMPDTYPE_OBJ_ID 10
       [0x2B, 6, 1, 4, 1, 0x81, 0xAD, 0x42, 2, 0] None]"

definition initTable :: "'w dataEntryType list \<Rightarrow> 'w dataEntryType list" where
  "initTable tab = tab[6 := (tab ! 6)\<lparr>octetstring := set_intval (- 5) (octetstring (tab ! 6))\<rparr>]"

end
