(* ===== verification/Snmp.thy ===== *)
theory Snmp
  imports Sends SnmpData
begin

text \<open>
  The SNMP agent, \<open>SNMP/snmp.c\<close>: the parser that builds the response while it walks the request, the agent's
  loop body and the traps. \<open>None\<close> is a call that does not return, or an access outside a message buffer
  of 512 bytes, a copy of a negative length, or what SnmpData lists. Lengths and indices are \<open>int\<close>; the
  32 bits of a length from the wire are kept. The debug dumps are left out.
\<close>

unbundle bit_operations_syntax

subsection \<open>Constants and state\<close>

definition PORT_SNMP_AGENT :: u16 where "PORT_SNMP_AGENT = 161"
definition PORT_SNMP_TRAP :: u16 where "PORT_SNMP_TRAP = 162"
definition SNMP_V1 :: u8 where "SNMP_V1 = 0"
definition MAX_SNMPMSG_LEN :: int where "MAX_SNMPMSG_LEN = 512"
definition MAX_TRAPMSG_LEN :: nat where "MAX_TRAPMSG_LEN = 512"
definition NO_SUCH_NAME :: u8 where "NO_SUCH_NAME = 2"
definition BAD_VALUE :: u8 where "BAD_VALUE = 3"
definition GET_REQUEST :: u8 where "GET_REQUEST = 0xA0"
definition GET_NEXT_REQUEST :: u8 where "GET_NEXT_REQUEST = 0xA1"
definition GET_RESPONSE :: u8 where "GET_RESPONSE = 0xA2"
definition SET_REQUEST :: u8 where "SET_REQUEST = 0xA3"
definition SNMPDTYPE_SEQUENCE :: u8 where "SNMPDTYPE_SEQUENCE = 0x30"
definition SNMPDTYPE_SEQUENCE_OF :: u8 where "SNMPDTYPE_SEQUENCE_OF = SNMPDTYPE_SEQUENCE"
definition SNMPTRAP_WARMSTART :: u32 where "SNMPTRAP_WARMSTART = 1"
definition COMMUNITY :: "u8 list" where "COMMUNITY = [0x70, 0x75, 0x62, 0x6C, 0x69, 0x63]"

lemmas snmp_codes = GET_REQUEST_def GET_NEXT_REQUEST_def GET_RESPONSE_def SET_REQUEST_def SNMPDTYPE_SEQUENCE_def
  SNMPDTYPE_SEQUENCE_OF_def

definition VALID_REQUEST :: "u8 \<Rightarrow> bool" where
  "VALID_REQUEST x \<longleftrightarrow> x = GET_REQUEST \<or> x = GET_NEXT_REQUEST \<or> x = SET_REQUEST"

record messageStruct =
  msg_buffer :: "nat \<Rightarrow> u8"
  msg_len :: int
  msg_index :: int

record tlvStructType =
  tlv_start :: int
  tlv_len :: int
  tlv_vstart :: int
  tlv_nstart :: int

record 'w snmp_drv = "'w drv" +
  snmpData :: "'w dataEntryType list"
  request_msg :: messageStruct
  response_msg :: messageStruct
  startTime :: u32
  snmp_tick_10ms :: u32
  SOCK_SNMP_AGENT :: u8
  SOCK_SNMP_TRAP :: u8
  packet_trap :: "nat \<Rightarrow> u8"
  errorStatus :: u8
  errorIndex :: u8

type_synonym ('w, 'm) snmp_proc = "('w, 'm) snmp_drv_scheme \<Rightarrow> ('w, 'm) snmp_drv_scheme"
type_synonym ('a, 'w, 'm) snmp_wait = "('w, 'm) snmp_drv_scheme \<Rightarrow> ('a \<times> ('w, 'm) snmp_drv_scheme) option"

definition SNMP_time_handler :: "('w, 'm) snmp_proc" where
  "SNMP_time_handler s = s\<lparr>snmp_tick_10ms := snmp_tick_10ms s + 1\<rparr>"

subsection \<open>Message buffers\<close>

definition byte_at :: "messageStruct \<Rightarrow> int \<Rightarrow> u8 option" where
  "byte_at m i = (if 0 \<le> i \<and> i < MAX_SNMPMSG_LEN then Some (msg_buffer m (nat i)) else None)"

text \<open>What follows an offset in the array.\<close>

definition bytes_from :: "messageStruct \<Rightarrow> int \<Rightarrow> u8 list" where
  "bytes_from m i = bytes_at (msg_buffer m) (nat i) (nat (MAX_SNMPMSG_LEN - i))"

definition put_response :: "int \<Rightarrow> u8 list \<Rightarrow> (unit, 'w, 'm) snmp_wait" where
  "put_response i bs s =
     (if i < 0 \<or> MAX_SNMPMSG_LEN < i + int (length bs) then None
      else Some ((), s\<lparr>response_msg := (response_msg s)\<lparr>msg_buffer := store_at (nat i) bs (msg_buffer (response_msg s))\<rparr>\<rparr>))"

definition skip_request :: "int \<Rightarrow> ('w, 'm) snmp_proc" where
  "skip_request n s = s\<lparr>request_msg := (request_msg s)\<lparr>msg_index := msg_index (request_msg s) + n\<rparr>\<rparr>"

definition skip_response :: "int \<Rightarrow> ('w, 'm) snmp_proc" where
  "skip_response n s = s\<lparr>response_msg := (response_msg s)\<lparr>msg_index := msg_index (response_msg s) + n\<rparr>\<rparr>"

definition COPY_SEGMENT :: "tlvStructType \<Rightarrow> int \<Rightarrow> (unit, 'w, 'm) snmp_wait" where
  "COPY_SEGMENT x seglen s =
     (let s = skip_request seglen s in
      if seglen < 0 \<or> tlv_start x < 0 \<or> MAX_SNMPMSG_LEN < tlv_start x + seglen then None
      else do {
        (_, s) \<leftarrow> put_response (msg_index (response_msg s))
          (bytes_at (msg_buffer (request_msg s)) (nat (tlv_start x)) (nat seglen)) s;
        Some ((), skip_response seglen s)
      })"

subsection \<open>Type, length, value\<close>

fun length_bytes :: "messageStruct \<Rightarrow> int \<Rightarrow> nat \<Rightarrow> u32 \<Rightarrow> u32 option" where
  "length_bytes m i 0 len = Some len"
| "length_bytes m i (Suc n) len = do {
     b \<leftarrow> byte_at m i;
     length_bytes m (i + 1) n (push_bit 8 len OR ucast b)
   }"

text \<open>
  The number of bytes of the length and its value. With no length byte after the first, the count of the
  loop starts at -1 and it leaves the buffer.
\<close>

definition parseLength :: "messageStruct \<Rightarrow> int \<Rightarrow> (int \<times> int) option" where
  "parseLength m i = do {
     b \<leftarrow> byte_at m i;
     if b AND 0x80 \<noteq> 0 then do {
       let n = unat (b AND 0x7F);
       first \<leftarrow> byte_at m (i + 1);
       if n = 0 then None
       else do {
         len \<leftarrow> length_bytes m (i + 2) (n - 1) (ucast first);
         Some (1 + int n, sint len)
       }
     } else Some (1, uint b)
   }"

definition parseTLV :: "messageStruct \<Rightarrow> int \<Rightarrow> tlvStructType option" where
  "parseTLV m i = do {
     (Llen, len) \<leftarrow> parseLength m (i + 1);
     t \<leftarrow> byte_at m i;
     let vstart = i + Llen + 1;
     Some \<lparr>tlv_start = i, tlv_len = len, tlv_vstart = vstart,
       tlv_nstart = (if t = SNMPDTYPE_SEQUENCE \<or> t = GET_REQUEST \<or> t = GET_NEXT_REQUEST \<or> t = SET_REQUEST
         then vstart else vstart + len)\<rparr>
   }"

definition next_tlv :: "('w, 'm) snmp_drv_scheme \<Rightarrow> tlvStructType option" where
  "next_tlv s = parseTLV (request_msg s) (msg_index (request_msg s))"

text \<open>The loop of \<open>insertRespLen\<close>, from the last length byte to the first.\<close>

fun resp_len_bytes :: "nat \<Rightarrow> nat \<Rightarrow> u32 \<Rightarrow> u32 \<Rightarrow> u8 list" where
  "resp_len_bytes 0 shift msk sz = []"
| "resp_len_bytes (Suc n) shift msk sz =
     resp_len_bytes n (shift + 8) (push_bit (shift + 8) msk) sz @ [ucast (drop_bit shift (sz AND msk))]"

definition insertRespLen :: "int \<Rightarrow> int \<Rightarrow> int \<Rightarrow> (unit, 'w, 'm) snmp_wait" where
  "insertRespLen reqStart respStart sz s = do {
     b \<leftarrow> byte_at (request_msg s) (reqStart + 1);
     if b AND 0x80 \<noteq> 0 then
       let n = unat (b AND 0x7F) in
       if 4 < n then None else put_response (respStart + 2) (resp_len_bytes n 0 0xFF (of_int sz)) s
     else put_response (respStart + 1) [ucast ((of_int sz :: u32) AND 0xFF)] s
   }"

subsection \<open>Variable bindings\<close>

text \<open>The name of a binding: the entry and the size of what was written.\<close>

definition name_part :: "u8 \<Rightarrow> tlvStructType \<Rightarrow> int \<Rightarrow> (int \<times> int, 'w, 'm) snmp_wait" where
  "name_part reqType name eid s =
     (if reqType = GET_REQUEST \<or> reqType = SET_REQUEST then do {
        let seglen = tlv_nstart name - tlv_start name;
        (_, s) \<leftarrow> COPY_SEGMENT name seglen s;
        Some ((eid, seglen), s)
      } else if reqType = GET_NEXT_REQUEST then do {
        t \<leftarrow> byte_at (request_msg s) (tlv_start name);
        let r = msg_index (response_msg s);
        (_, s) \<leftarrow> put_response r [t] s;
        let eid = eid + 1;
        if int (length (snmpData s)) \<le> eid then do {
          let seglen = tlv_nstart name - tlv_start name;
          (_, s) \<leftarrow> COPY_SEGMENT name seglen s;
          Some ((OID_NOT_FOUND, seglen), s)
        } else do {
          let s = skip_request (tlv_nstart name - tlv_start name) s;
          (case getOID (snmpData s) eid of
             (_, None) \<Rightarrow> None
           | (_, Some (bs, n)) \<Rightarrow> do {
               (_, s) \<leftarrow> put_response (r + 1) (n # bs) s;
               let seglen = uint n + 2;
               Some ((eid, seglen), skip_response seglen s)
             })
        }
      } else Some ((eid, 0), s))"

definition setEntry :: "int \<Rightarrow> u8 list \<Rightarrow> int \<Rightarrow> u8 \<Rightarrow> int \<Rightarrow> (int, 'w, 'm) snmp_wait" where
  "setEntry eid val vlen dataType' idx s =
     (let e = snmpData s ! nat eid in
      if dataType e \<noteq> dataType' then Some (INVALID_DATA_TYPE, s\<lparr>errorStatus := BAD_VALUE, errorIndex := of_int idx\<rparr>)
      else do {
        ((ret, v), e') \<leftarrow> entry_set val vlen e;
        let s = s\<lparr>snmpData := (snmpData s)[nat eid := e']\<rparr>;
        Some (ret, case (v, setfunction e) of
            (Some v, Some f) \<Rightarrow> s\<lparr>world := f (sint v) (world s)\<rparr> | _ \<Rightarrow> s)
      })"

text \<open>The value of a binding: the size of what was written.\<close>

definition value_part :: "u8 \<Rightarrow> int \<Rightarrow> tlvStructType \<Rightarrow> int \<Rightarrow> (int, 'w, 'm) snmp_wait" where
  "value_part reqType eid val idx s =
     (if eid \<noteq> OID_NOT_FOUND then
        if reqType = GET_REQUEST \<or> reqType = GET_NEXT_REQUEST then do {
          ((_, t, bs), tab) \<leftarrow> getEntry (snmp_tick_10ms s) (startTime s) (snmpData s) eid;
          (case (t, bs) of
             (Some t, Some bs) \<Rightarrow> do {
               let s = s\<lparr>snmpData := tab\<rparr>;
               (_, s) \<leftarrow> put_response (msg_index (response_msg s)) (t # of_nat (length bs) # bs) s;
               let seglen = 2 + int (length bs);
               Some (seglen, skip_request (tlv_nstart val - tlv_start val) (skip_response seglen s))
             }
           | _ \<Rightarrow> None)
        } else if reqType = SET_REQUEST then do {
          t \<leftarrow> byte_at (request_msg s) (tlv_start val);
          (_, s) \<leftarrow> setEntry eid (bytes_from (request_msg s) (tlv_vstart val)) (tlv_len val) t idx s;
          let seglen = tlv_nstart val - tlv_start val;
          (_, s) \<leftarrow> COPY_SEGMENT val seglen s;
          Some (seglen, s)
        } else Some (0, s)
      else do {
        let seglen = tlv_nstart val - tlv_start val;
        (_, s) \<leftarrow> COPY_SEGMENT val seglen s;
        Some (seglen, s\<lparr>errorIndex := of_int idx, errorStatus := NO_SUCH_NAME\<rparr>)
      })"

definition parseVarBind :: "u8 \<Rightarrow> int \<Rightarrow> (int, 'w, 'm) snmp_wait" where
  "parseVarBind reqType idx s = do {
     name \<leftarrow> next_tlv s;
     t \<leftarrow> byte_at (request_msg s) (tlv_start name);
     if t \<noteq> SNMPDTYPE_OBJ_ID then Some (-1, s)
     else do {
       eid \<leftarrow> findEntry (snmpData s) (bytes_from (request_msg s) (tlv_vstart name)) (tlv_len name);
       ((eid, sz), s) \<leftarrow> name_part reqType name eid s;
       val \<leftarrow> next_tlv s;
       (seglen, s) \<leftarrow> value_part reqType eid val idx s;
       Some (sz + seglen, s)
     }
   }"

definition parseSequence :: "u8 \<Rightarrow> int \<Rightarrow> (int, 'w, 'm) snmp_wait" where
  "parseSequence reqType idx s = do {
     sq \<leftarrow> next_tlv s;
     t \<leftarrow> byte_at (request_msg s) (tlv_start sq);
     if t \<noteq> SNMPDTYPE_SEQUENCE then Some (-1, s)
     else do {
       let seglen = tlv_vstart sq - tlv_start sq;
       let respLoc = msg_index (response_msg s);
       (_, s) \<leftarrow> COPY_SEGMENT sq seglen s;
       (sz, s) \<leftarrow> parseVarBind reqType idx s;
       (_, s) \<leftarrow> insertRespLen (tlv_start sq) respLoc sz s;
       Some (sz + seglen, s)
     }
   }"

text \<open>One round of the loop over the bindings, with the size and the index so far.\<close>

definition seqof_step :: "u8 \<Rightarrow> int \<times> int \<Rightarrow> (int + int \<times> int, 'w, 'm) snmp_wait" where
  "seqof_step reqType c s =
     (case c of (sz, idx) \<Rightarrow>
        if msg_index (request_msg s) < msg_len (request_msg s) then do {
          (n, s) \<leftarrow> parseSequence reqType idx s;
          Some (Inr (sz + n, idx + 1), s)
        } else Some (Inl sz, s))"

definition parseSequenceOf :: "u8 \<Rightarrow> (int, 'w, 'm) snmp_wait" where
  "parseSequenceOf reqType s = do {
     seqof \<leftarrow> next_tlv s;
     t \<leftarrow> byte_at (request_msg s) (tlv_start seqof);
     if t \<noteq> SNMPDTYPE_SEQUENCE_OF then Some (-1, s)
     else do {
       let seglen = tlv_vstart seqof - tlv_start seqof;
       let respLoc = msg_index (response_msg s);
       (_, s) \<leftarrow> COPY_SEGMENT seqof seglen s;
       (sz, s) \<leftarrow> forever (seqof_step reqType) (0, 0) s;
       (_, s) \<leftarrow> insertRespLen (tlv_start seqof) respLoc sz s;
       Some (sz, s)
     }
   }"

subsection \<open>The message\<close>

text \<open>An element that is copied as it stands.\<close>

definition copy_tlv :: "(tlvStructType \<times> int, 'w, 'm) snmp_wait" where
  "copy_tlv s = do {
     x \<leftarrow> next_tlv s;
     let seglen = tlv_nstart x - tlv_start x;
     (_, s) \<leftarrow> COPY_SEGMENT x seglen s;
     Some ((x, seglen), s)
   }"

definition parseRequest :: "(int, 'w, 'm) snmp_wait" where
  "parseRequest s = do {
     snmpreq \<leftarrow> next_tlv s;
     reqType \<leftarrow> byte_at (request_msg s) (tlv_start snmpreq);
     if \<not> VALID_REQUEST reqType then Some (-1, s)
     else do {
       let seglen = tlv_vstart snmpreq - tlv_start snmpreq;
       let respLoc = tlv_start snmpreq;
       let sz = seglen;
       (_, s) \<leftarrow> COPY_SEGMENT snmpreq seglen s;
       (_, s) \<leftarrow> put_response (tlv_start snmpreq) [GET_RESPONSE] s;
       ((_, seglen), s) \<leftarrow> copy_tlv s;
       let sz = sz + seglen;
       ((errStatus, seglen), s) \<leftarrow> copy_tlv s;
       let sz = sz + seglen;
       ((errIndex, seglen), s) \<leftarrow> copy_tlv s;
       let sz = sz + seglen;
       (ret, s) \<leftarrow> parseSequenceOf reqType s;
       if ret = -1 then Some (-1, s)
       else do {
         let sz = sz + ret;
         (_, s) \<leftarrow> insertRespLen (tlv_start snmpreq) respLoc sz s;
         if errorStatus s \<noteq> 0 then do {
           (_, s) \<leftarrow> put_response (tlv_vstart errStatus) [errorStatus s] s;
           (_, s) \<leftarrow> put_response (tlv_vstart errIndex) [errorIndex s + 1] s;
           Some (sz, s)
         } else Some (sz, s)
       }
     }
   }"

definition parseCommunity :: "(int, 'w, 'm) snmp_wait" where
  "parseCommunity s = do {
     community \<leftarrow> next_tlv s;
     t \<leftarrow> byte_at (request_msg s) (tlv_start community);
     if \<not> (t = SNMPDTYPE_OCTET_STRING \<and> tlv_len community = int (length COMMUNITY)) then Some (-1, s)
     else if length (bytes_from (request_msg s) (tlv_vstart community)) < length COMMUNITY then None
     else if take (length COMMUNITY) (bytes_from (request_msg s) (tlv_vstart community)) = COMMUNITY then do {
       let seglen = tlv_nstart community - tlv_start community;
       (_, s) \<leftarrow> COPY_SEGMENT community seglen s;
       (ret, s) \<leftarrow> parseRequest s;
       Some (seglen + ret, s)
     } else Some (-1, s)
   }"

definition parseVersion :: "(int, 'w, 'm) snmp_wait" where
  "parseVersion s = do {
     tlv \<leftarrow> next_tlv s;
     t \<leftarrow> byte_at (request_msg s) (tlv_start tlv);
     v \<leftarrow> (if t = SNMPDTYPE_INTEGER then byte_at (request_msg s) (tlv_vstart tlv) else Some 1);
     if \<not> (t = SNMPDTYPE_INTEGER \<and> v = SNMP_V1) then Some (-1, s)
     else do {
       let seglen = tlv_nstart tlv - tlv_start tlv;
       (_, s) \<leftarrow> COPY_SEGMENT tlv seglen s;
       (sz, s) \<leftarrow> parseCommunity s;
       Some (if sz = -1 then sz else sz + seglen, s)
     }
   }"

definition parseSNMPMessage :: "(int, 'w, 'm) snmp_wait" where
  "parseSNMPMessage s = do {
     tlv \<leftarrow> next_tlv s;
     t \<leftarrow> byte_at (request_msg s) (tlv_start tlv);
     if t \<noteq> SNMPDTYPE_SEQUENCE_OF then Some (-1, s)
     else do {
       let seglen = tlv_vstart tlv - tlv_start tlv;
       let respLoc = tlv_start tlv;
       (_, s) \<leftarrow> COPY_SEGMENT tlv seglen s;
       (sz, s) \<leftarrow> parseVersion s;
       if sz = -1 then Some (-1, s)
       else do {
         (_, s) \<leftarrow> insertRespLen (tlv_start tlv) respLoc (sz + seglen) s;
         Some (0, s)
       }
     }
   }"

subsection \<open>The agent\<close>

definition snmp_begin :: "('w, 'm) snmp_proc" where
  "snmp_begin s = s\<lparr>request_msg := (request_msg s)\<lparr>msg_index := 0\<rparr>,
     response_msg := (response_msg s)\<lparr>msg_index := 0, msg_buffer := (\<lambda>_. 0)\<rparr>, errorStatus := 0, errorIndex := 0\<rparr>"

text \<open>
  \<open>from\<close> is what the locals \<open>svr_addr\<close> and \<open>svr_port\<close> hold before they are written: the rest of a datagram
  comes without a sender.
\<close>

definition snmpd_run :: "'w platform \<Rightarrow> u8 list \<times> u16 \<Rightarrow> (int, 'w, 'm) snmp_wait" where
  "snmpd_run p from s =
     (if WIZCHIP_SOCK_NUM < SOCK_SNMP_AGENT s then Some (-99, s)
      else let (sr, s) = getSn_SR p (SOCK_SNMP_AGENT s) s in
      if sr = SOCK_UDP then do {
        (len, s) \<leftarrow> getSn_RX_RSR p (SOCK_SNMP_AGENT s) s;
        ((addr, port), s) \<leftarrow> (if 0 < len then do {
            ((r, out), s) \<leftarrow> recvfrom_W5x00 p (SOCK_SNMP_AGENT s) True len True True s;
            if MAX_SNMPMSG_LEN < int (length (out_data out)) then None
            else Some ((case out_addr out of None \<Rightarrow> fst from | Some a \<Rightarrow> a,
                case out_port out of None \<Rightarrow> snd from | Some v \<Rightarrow> v),
              s\<lparr>request_msg := (request_msg s)\<lparr>msg_buffer := store_bytes (out_data out) (msg_buffer (request_msg s)),
                 msg_len := r\<rparr>\<rparr>)
          } else Some (from, s\<lparr>request_msg := (request_msg s)\<lparr>msg_len := 0\<rparr>\<rparr>));
        if 0 < msg_len (request_msg s) then do {
          (ret, s) \<leftarrow> parseSNMPMessage (snmp_begin s);
          if ret \<noteq> -1 then do {
            let n = msg_index (response_msg s);
            (_, s) \<leftarrow> sendto_W5x00 p (SOCK_SNMP_AGENT s) (Some (bytes_at (msg_buffer (response_msg s)) 0 (nat n)))
              (of_int n) (Some addr) port s;
            Some (1, s)
          } else Some (1, s)
        } else Some (1, s)
      }
      else if sr = SOCK_CLOSED then
        let (ret, s) = socket p (SOCK_SNMP_AGENT s) Sn_MR_UDP PORT_SNMP_AGENT 0 s
        in Some (if ret \<noteq> uint (SOCK_SNMP_AGENT s) then ret else 1, s)
      else Some (1, s))"

subsection \<open>Traps\<close>

definition put_trap :: "nat \<Rightarrow> u8 list \<Rightarrow> (nat \<Rightarrow> u8) \<Rightarrow> (nat \<Rightarrow> u8) option" where
  "put_trap i bs m = (if MAX_TRAPMSG_LEN < i + length bs then None else Some (store_at i bs m))"

text \<open>
  One binding written at \<open>i\<close>: the length that is reported through \<open>len\<close>, if any, the entry as it is left, and
  the packet.
\<close>

definition makeTrapVariableBindings ::
    "'w dataEntryType \<Rightarrow> nat \<Rightarrow> (nat \<Rightarrow> u8) \<Rightarrow> (nat option \<times> 'w dataEntryType \<times> (nat \<Rightarrow> u8)) option" where
  "makeTrapVariableBindings e i m = do {
     let n = unat (oidlen e);
     m \<leftarrow> put_trap i ([0x30, 0xFF, 0x06, oidlen e] @ take n (oid e)) m;
     (if is_string (dataType e) then do {
        e \<leftarrow> (if dataType e = SNMPDTYPE_OCTET_STRING
              then do { k \<leftarrow> strlen (octetstring e); Some (e\<lparr>dataLen := of_nat k\<rparr>) } else Some e);
        let k = unat (dataLen e);
        if length (octetstring e) < k then None
        else do {
          m \<leftarrow> put_trap (i + 4 + n) ([dataType e, dataLen e] @ take k (octetstring e)) m;
          m \<leftarrow> put_trap (i + 1) [2 + oidlen e + 2 + dataLen e] m;
          Some (Some (4 + n + 2 + k), e, m)
        }
      } else if is_number (dataType e) then do {
        let e = e\<lparr>dataLen := 4\<rparr>;
        m \<leftarrow> put_trap (i + 4 + n) ([dataType e, dataLen e] @ bytes32 (htonl (intval (octetstring e)))) m;
        m \<leftarrow> put_trap (i + 1) [2 + oidlen e + 2 + dataLen e] m;
        Some (Some (4 + n + 2 + 4), e, m)
      } else Some (None, e, m))
   }"

text \<open>The variable bindings: \<open>packet_index\<close>, \<open>length_buff\<close> and the sum of the lengths are carried along.\<close>

fun trap_bindings ::
    "'w dataEntryType list \<Rightarrow> nat \<Rightarrow> nat \<Rightarrow> nat \<Rightarrow> (nat \<Rightarrow> u8)
       \<Rightarrow> (nat \<times> nat \<times> 'w dataEntryType list \<times> (nat \<Rightarrow> u8)) option" where
  "trap_bindings [] i buff tsum m = Some (i, tsum, [], m)"
| "trap_bindings (e # es) i buff tsum m = do {
     (n, e, m) \<leftarrow> makeTrapVariableBindings e i m;
     let buff = (case n of None \<Rightarrow> buff | Some n \<Rightarrow> n);
     (i, tsum, es, m) \<leftarrow> trap_bindings es (i + buff) buff (tsum + buff) m;
     Some (i, tsum, e # es, m)
   }"

text \<open>
  The packet before its lengths are filled in. The length of the community is one byte, by which
  the index advances; the code copies the whole string.
\<close>

definition trap_head :: "u8 list \<Rightarrow> u8 list \<Rightarrow> 'w dataEntryType \<Rightarrow> u32 \<Rightarrow> u32 \<Rightarrow> u8 list" where
  "trap_head agentIP community enterprise genericTrap specificTrap =
     [0x30, 0xFF, 0x02, 0x01, 0x00, 0x04, of_nat (length community)] @ take (length community mod 256) community
     @ [0xA4, 0xFF, 0x06, oidlen enterprise] @ take (unat (oidlen enterprise)) (oid enterprise)
     @ [0x40, 0x04] @ take 4 agentIP @ [0x02, 0x01, ucast genericTrap, 0x02, 0x01, ucast specificTrap]
     @ [0x43, 0x01, 0x00, 0x30, 0xFF]"

definition trap_packet ::
    "u8 list \<Rightarrow> u8 list \<Rightarrow> 'w dataEntryType \<Rightarrow> u32 \<Rightarrow> u32 \<Rightarrow> 'w dataEntryType list \<Rightarrow> (nat \<Rightarrow> u8)
       \<Rightarrow> (nat \<times> 'w dataEntryType list \<times> (nat \<Rightarrow> u8)) option" where
  "trap_packet agentIP community enterprise genericTrap specificTrap vars m = do {
     let head = trap_head agentIP community enterprise genericTrap specificTrap;
     let clen = length community mod 256;
     m \<leftarrow> put_trap 7 community m;
     m \<leftarrow> put_trap 0 head m;
     (i, tsum, vars, m) \<leftarrow> trap_bindings vars (length head) 0 0 m;
     m \<leftarrow> put_trap (length head - 1) [of_nat tsum] m;
     m \<leftarrow> put_trap 1 [of_int (int i - 2)] m;
     m \<leftarrow> put_trap (8 + clen) [of_int (int i - (9 + int clen))] m;
     Some (i, vars, m)
   }"

definition snmp_sendTrap ::
    "'w platform \<Rightarrow> u8 list \<Rightarrow> u8 list \<Rightarrow> u8 list \<Rightarrow> 'w dataEntryType \<Rightarrow> u32 \<Rightarrow> u32 \<Rightarrow> 'w dataEntryType list
       \<Rightarrow> (int \<times> 'w dataEntryType list, 'w, 'm) snmp_wait" where
  "snmp_sendTrap p managerIP agentIP community enterprise genericTrap specificTrap vars s = do {
     (i, vars, m) \<leftarrow> trap_packet agentIP community enterprise genericTrap specificTrap vars (packet_trap s);
     let s = s\<lparr>packet_trap := m\<rparr>;
     let (_, s) = socket p (SOCK_SNMP_TRAP s) Sn_MR_UDP PORT_SNMP_TRAP 0 s;
     (_, s) \<leftarrow> sendto_W5x00 p (SOCK_SNMP_TRAP s) (Some (bytes_at m 0 i)) (of_nat i) (Some managerIP) PORT_SNMP_TRAP s;
     let (_, s) = close p (SOCK_SNMP_TRAP s) s;
     Some ((0, vars), s)
   }"

definition initial_Trap :: "'w platform \<Rightarrow> u8 list \<Rightarrow> u8 list \<Rightarrow> (unit, 'w, 'm) snmp_wait" where
  "initial_Trap p managerIP agentIP s = do {
     let enterprise = entry [0x2B, 6, 1, 4, 1, 0x81, 0x9B, 0x19, 1, 0] SNMPDTYPE_OBJ_ID 10
       [0x2B, 6, 1, 4, 1, 0x81, 0x9B, 0x19, 0x10, 0] None;
     (_, s) \<leftarrow> snmp_sendTrap p managerIP agentIP COMMUNITY enterprise SNMPTRAP_WARMSTART 0 [] s;
     Some ((), s)
   }"

definition snmpd_init :: "'w platform \<Rightarrow> u8 list \<Rightarrow> u8 list \<Rightarrow> u8 \<Rightarrow> u8 \<Rightarrow> (unit, 'w, 'm) snmp_wait" where
  "snmpd_init p managerIP agentIP sn_agent sn_trap s =
     (let s = s\<lparr>SOCK_SNMP_AGENT := sn_agent, SOCK_SNMP_TRAP := sn_trap\<rparr> in
      if WIZCHIP_SOCK_NUM < SOCK_SNMP_AGENT s \<or> WIZCHIP_SOCK_NUM < SOCK_SNMP_TRAP s then Some ((), s)
      else let s = s\<lparr>startTime := snmp_tick_10ms s\<rparr>; s = s\<lparr>snmpData := initTable (snmpData s)\<rparr>
           in initial_Trap p managerIP agentIP s)"

end
