(* ===== verification/SnmpProps.thy ===== *)
theory SnmpProps
  imports Snmp Scripted
begin

text \<open>
  The SNMP agent: what a GET after a SET reads, the response to a GET of any list of variables, and
  what it does with messages it does not understand.
\<close>

unbundle bit_operations_syntax

subsection \<open>Setting and getting a value\<close>

text \<open>What is read after \<open>n\<close> bytes \<open>val\<close> are written over \<open>old\<close>.\<close>

definition stored :: "u8 \<Rightarrow> nat \<Rightarrow> u8 list \<Rightarrow> u8 list \<Rightarrow> u8 list option" where
  "stored t n val old =
     (if t = SNMPDTYPE_OCTET_STRING then
        let v = take n val @ drop n old in if 0 \<in> set v then Some (takeWhile (\<lambda>c. c \<noteq> 0) v) else None
      else if t = SNMPDTYPE_OBJ_ID then Some (take n val)
      else if n \<le> 4 then Some (take n val) else None)"

lemma intval_set [simp]: "intval (set_intval v bs) = v"
proof (rule bit_word_eqI)
  fix n assume n: "n < LENGTH(32)"
  consider "n < 8" | "8 \<le> n" "n < 16" | "16 \<le> n" "n < 24" | "24 \<le> n" by linarith
  then show "bit (intval (set_intval v bs)) n = bit v n"
    by cases (use n in \<open>auto simp: intval_def set_intval_def load32_def bytes32_def bit_simps dest: bit_imp_le_length\<close>)
qed

lemma strlen_cases:
  "strlen bs = None \<Longrightarrow> 0 \<notin> set bs"
  "strlen bs = Some n \<Longrightarrow> 0 \<in> set bs \<and> n = length (takeWhile (\<lambda>c. c \<noteq> 0) bs)"
  by (auto simp: strlen_def cstr_def upto_nul_def split: if_splits)

lemma strlen_less:
  assumes "strlen bs = Some n"
  shows "n < length bs"
proof -
  from assms obtain ys zs where "bs = ys @ 0 # zs" "0 \<notin> set ys"
    by (auto simp: strlen_def cstr_def split: if_splits dest: split_list_first)
  moreover from this have "takeWhile (\<lambda>c. c \<noteq> 0) bs = ys"
    by (auto intro: takeWhile_tail [THEN trans])
  ultimately show ?thesis using assms by (auto simp: strlen_def cstr_def upto_nul_def split: if_splits)
qed

text \<open>The number read back from its big-endian bytes.\<close>

lemma shift_in_byte: "n < 8 \<Longrightarrow> bit (push_bit 8 v OR ucast (b :: u8) :: u32) n = bit b n"
  "\<not> n < 8 \<Longrightarrow> n < 32 \<Longrightarrow> bit (push_bit 8 v OR ucast (b :: u8) :: u32) n = bit v (n - 8)"
  by (auto simp: bit_simps dest: bit_imp_le_length)

lemma number_bytes:
  assumes "length bs \<le> 4"
  shows "map (\<lambda>j. ucast (drop_bit ((length bs - j - 1) * 8) (foldl (\<lambda>v b. push_bit 8 v OR ucast b) 0 bs :: u32)))
    [0..<length bs] = (bs :: u8 list)"
proof (rule nth_equalityI)
  fix j assume j: "j < length (map (\<lambda>j. ucast (drop_bit ((length bs - j - 1) * 8)
    (foldl (\<lambda>v b. push_bit 8 v OR ucast b) 0 bs :: u32)) :: u8) [0..<length bs])"
  have bits: "length bs \<le> 4 \<Longrightarrow> j < length bs \<Longrightarrow> n < 8
      \<Longrightarrow> bit (foldl (\<lambda>v b. push_bit 8 v OR ucast b) 0 bs :: u32) ((length bs - j - 1) * 8 + n) = bit (bs ! j) n" for n
  proof (induction bs rule: rev_induct)
    case (snoc b bs)
    show ?case
    proof (cases "j = length bs")
      case True
      with snoc.prems show ?thesis by (simp add: shift_in_byte)
    next
      case False
      with snoc.prems have less: "j < length bs" by simp
      then have shift: "(length bs - j) * 8 + n - 8 = (length bs - j - 1) * 8 + n"
        by (cases "length bs - j") auto
      have "\<not> (length bs - j) * 8 + n < 8" "(length bs - j) * 8 + n < 32" using less snoc.prems by auto
      then show ?thesis using snoc less
        by (simp add: shift_in_byte(2) shift nth_append)
    qed
  qed simp
  show "map (\<lambda>j. ucast (drop_bit ((length bs - j - 1) * 8) (foldl (\<lambda>v b. push_bit 8 v OR ucast b) 0 bs :: u32)))
      [0..<length bs] ! j = bs ! j"
    using j bits [OF assms] by (simp, intro bit_word_eqI) (simp add: bit_simps)
qed simp

lemma take_foldl:
  assumes "n \<le> length val" and "n \<le> 4"
  shows "map (\<lambda>j. ucast (drop_bit ((n - j - 1) * 8) (foldl (\<lambda>v b. push_bit 8 v OR ucast b) 0 (take n val) :: u32)))
    [0..<n] = (take n val :: u8 list)"
  using number_bytes [of "take n val"] assms by simp

lemma entry_set_get:
  assumes "entry_set val vlen e = Some ((SNMP_SUCCESS, v), e')" and "1 \<le> vlen" "vlen \<le> 64"
    and "getfunction e = None" and "length (octetstring e) = MAX_STRING"
  shows "map_option fst (entry_get now start e')
    = map_option (\<lambda>bs. (SNMP_SUCCESS, Some bs)) (stored (dataType e) (nat vlen) val (octetstring e))"
proof (cases "is_string (dataType e)")
  case True
  with assms(1) have len: "vlen \<le> int (length val)" "vlen \<le> int (length (octetstring e))"
    and e': "e' = e\<lparr>octetstring := take (nat vlen) val @ drop (nat vlen) (octetstring e), dataLen := of_int vlen\<rparr>"
    by (auto simp: entry_set_def split: if_splits)
  let ?v = "take (nat vlen) val @ drop (nat vlen) (octetstring e)"
  have v: "length ?v = 64" using len assms(2,5) by (simp add: MAX_STRING_def)
  have n: "unat (of_int vlen :: u8) = nat vlen"
    using len assms(2,5) by (simp add: MAX_STRING_def unat_eq_nat_uint uint_word_of_int)
  have k: "unat (of_nat k :: u8) = k" if "strlen ?v = Some k" for k
    using strlen_less [OF that] v by (simp add: unsigned_of_nat take_bit_nat_eq_self)
  have get: "entry_get now start e' = do {
      (bs, e) \<leftarrow> string_value e'; Some ((SNMP_SUCCESS, Some bs), e) }"
    using True e' assms(4) by (simp add: entry_get_def call_get_def)
  show ?thesis
  proof (cases "dataType e = SNMPDTYPE_OCTET_STRING")
    case True
    have o: "octetstring e' = ?v" "dataType e' = SNMPDTYPE_OCTET_STRING" using e' True by simp_all
    show ?thesis
    proof (cases "strlen ?v")
      case None
      then have "0 \<notin> set ?v" by (rule strlen_cases)
      with None show ?thesis unfolding get string_value_def o stored_def Let_def by (simp add: True)
    next
      case (Some n)
      then have nul: "0 \<in> set ?v" and n: "n = length (takeWhile (\<lambda>c. c \<noteq> 0) ?v)"
        by (blast dest: strlen_cases)+
      have "take n ?v = takeWhile (\<lambda>c. c \<noteq> 0) ?v" unfolding n by (rule takeWhile_eq_take [symmetric])
      moreover have "\<not> length ?v < n" using strlen_less [OF Some] by simp
      ultimately show ?thesis
        unfolding get string_value_def o stored_def Let_def Some
        by (simp add: True nul v o k [OF Some] del: set_append take_append length_append length_take length_drop)
    qed
  next
    case False
    with True have t: "dataType e = SNMPDTYPE_OBJ_ID" by (simp add: is_string_def)
    have o: "dataType e' = SNMPDTYPE_OBJ_ID" "octetstring e' = ?v" "unat (dataLen e') = nat vlen"
      using e' t n by simp_all
    have "take (nat vlen) ?v = take (nat vlen) val" "\<not> length ?v < nat vlen" using len v assms(3) by simp_all
    then show ?thesis unfolding get string_value_def o stored_def
      by (simp add: t o snmp_types del: take_append length_append length_take length_drop)
  qed
next
  case False
  with assms(1) have num: "is_number (dataType e)" by (auto simp: entry_set_def SNMP_SUCCESS_def INVALID_DATA_TYPE_def split: if_splits)
  with False assms(1) have len: "vlen \<le> int (length val)"
    and e': "e' = e\<lparr>octetstring := set_intval (foldl (\<lambda>value b. push_bit 8 value OR ucast b) 0 (take (nat vlen) val)) (octetstring e),
        dataLen := of_int vlen\<rparr>"
    by (auto simp: entry_set_def getValue_def split: if_splits)
  have old: "getfunction e' = None" "dataType e' = dataType e" "\<not> is_string (dataType e)"
    "intval (octetstring e') = foldl (\<lambda>value b. push_bit 8 value OR ucast b) 0 (take (nat vlen) val)"
    using e' assms(4) False by simp_all
  have "dataLen e' = of_int vlen" using e' by simp
  then have n: "unat (dataLen e') = nat vlen"
    using assms(2,3) by (simp add: unat_eq_nat_uint uint_word_of_int)
  then have n0: "dataLen e' \<noteq> 0" using assms(2) by auto
  show ?thesis
  proof (cases "vlen \<le> 4")
    case True
    then show ?thesis
      using take_foldl [of "nat vlen" val] True len
      unfolding entry_get_def call_get_def number_value_def stored_def Let_def old n
      using old(3) by (simp add: num old n n0 is_string_def)
  next
    case False
    have "entry_get now start e' = None"
      using False num old n n0 by (auto simp: entry_get_def call_get_def number_value_def Let_def)
    then show ?thesis using False num old by (auto simp: stored_def is_string_def)
  qed
qed

lemma setEntry_success:
  assumes "setEntry eid val vlen t idx s = Some (SNMP_SUCCESS, s')"
  obtains v e' where "dataType (snmpData s ! nat eid) = t" and "dataType e' = t"
    and "entry_set val vlen (snmpData s ! nat eid) = Some ((SNMP_SUCCESS, v), e')"
    and "snmpData s' = (snmpData s)[nat eid := e']"
proof -
  let ?e = "snmpData s ! nat eid"
  from assms have t: "dataType ?e = t"
    by (auto simp: setEntry_def SNMP_SUCCESS_def INVALID_DATA_TYPE_def Let_def split: if_splits)
  with assms obtain v e' where e: "entry_set val vlen ?e = Some ((SNMP_SUCCESS, v), e')"
    and s': "snmpData s' = (snmpData s)[nat eid := e']"
    by (cases "setfunction ?e") (auto simp: setEntry_def Let_def bind_eq_Some_conv split: if_splits option.splits)
  have "dataType e' = t" using e t by (auto simp: entry_set_def bind_eq_Some_conv split: if_splits)
  with that t e s' show thesis by blast
qed

text \<open>C36: What a GET reads after a SET. When \<open>setEntry\<close> has stored a value of 1 to 64 bytes in an entry
  without a \<open>getfunction\<close>, \<open>getEntry\<close> returns, under the type of the entry: for a number of up to 4 bytes and
  for an object identifier the bytes that were set; for a string the new bytes followed by what the
  old string had beyond them, up to the terminator, since SET writes no terminator and GET measures
  the string. A number of more than 4 bytes cannot be read.\<close>

theorem snmp_set_get:
  fixes s :: "('w, 'm) snmp_drv_scheme"
  assumes "setEntry eid val vlen t idx s = Some (SNMP_SUCCESS, s')"
    and "0 \<le> eid" "eid < int (length (snmpData s))" and "1 \<le> vlen" "vlen \<le> 64"
    and "getfunction (snmpData s ! nat eid) = None" "length (octetstring (snmpData s ! nat eid)) = MAX_STRING"
  shows "map_option fst (getEntry now start (snmpData s') eid)
    = map_option (\<lambda>bs. (SNMP_SUCCESS, Some t, Some bs)) (stored t (nat vlen) val (octetstring (snmpData s ! nat eid)))"
proof -
  let ?e = "snmpData s ! nat eid"
  from assms(1) obtain v e' where t: "dataType ?e = t" "dataType e' = t"
    and set: "entry_set val vlen ?e = Some ((SNMP_SUCCESS, v), e')" and s': "snmpData s' = (snmpData s)[nat eid := e']"
    by (rule setEntry_success)
  have "snmpData s' ! nat eid = e'" "0 \<le> eid \<and> eid < int (length (snmpData s'))"
    using assms(2,3) s' by (simp_all add: nat_less_iff)
  moreover note entry_set_get [OF set assms(4,5) assms(6,7), of now start]
  ultimately show ?thesis using t
    by (cases "entry_get now start e'"; cases "stored t (nat vlen) val (octetstring ?e)") (auto simp: getEntry_def)
qed

definition snmp_start :: "u8 list \<Rightarrow> u8 list snmp_drv" where
  "snmp_start request = drv.extend (scripted_ready [])
     \<lparr>snmpData = initTable snmpData_initial,
      request_msg = \<lparr>msg_buffer = message request, msg_len = int (length request), msg_index = 0\<rparr>,
      response_msg = \<lparr>msg_buffer = (\<lambda>_. 0), msg_len = 0, msg_index = 0\<rparr>,
      startTime = 0, snmp_tick_10ms = 500, SOCK_SNMP_AGENT = 2, SOCK_SNMP_TRAP = 3, packet_trap = (\<lambda>_. 0),
      errorStatus = 0, errorIndex = 0\<rparr>"

text \<open>The location is set to \<open>5F\<close> and reads \<open>5F Humax Village\<close>.\<close>

theorem snmp_set_get_witness:
  "\<exists>s' tab. setEntry 5 (chars ''5F'') 2 SNMPDTYPE_OCTET_STRING 0 (snmp_start []) = Some (SNMP_SUCCESS, s')
     \<and> getEntry 0 0 (snmpData s') 5
       = Some ((SNMP_SUCCESS, Some SNMPDTYPE_OCTET_STRING, Some (chars ''5F Humax Village'')), tab)"
proof -
  have table: "snmpData (snmp_start []) ! 5
      = (entry [0x2B, 6, 1, 2, 1, 1, 6, 0] SNMPDTYPE_OCTET_STRING 30 (chars ''4F Humax Village'') None :: u8 list dataEntryType)"
    "length (snmpData (snmp_start [])) = 10"
    by (simp_all add: snmp_start_def drv.extend_def initTable_def snmpData_initial_def)
  then have "\<exists>s'. setEntry 5 (chars ''5F'') 2 SNMPDTYPE_OCTET_STRING 0 (snmp_start []) = Some (SNMP_SUCCESS, s')"
    by (simp add: setEntry_def entry_set_def entry_def is_string_def padded_def MAX_STRING_def chars_def Let_def)
  then obtain s' where set: "setEntry 5 (chars ''5F'') 2 SNMPDTYPE_OCTET_STRING 0 (snmp_start []) = Some (SNMP_SUCCESS, s')"
    by blast
  have "stored SNMPDTYPE_OCTET_STRING 2 (chars ''5F'')
      (octetstring (entry [0x2B, 6, 1, 2, 1, 1, 6, 0] SNMPDTYPE_OCTET_STRING 30 (chars ''4F Humax Village'') None :: u8 list dataEntryType))
      = Some (chars ''5F Humax Village'')"
    by code_simp
  moreover have "getfunction (snmpData (snmp_start []) ! 5) = None" "length (octetstring (snmpData (snmp_start []) ! 5)) = MAX_STRING"
    by (simp_all add: table entry_def padded_def MAX_STRING_def chars_def)
  ultimately show ?thesis
    using snmp_set_get [OF set, where now = 0 and start = 0] set by (auto simp: table)
qed

subsection \<open>The walk over a request\<close>

text \<open>
  \<open>pre\<close> of the request is behind, \<open>rest\<close> ahead, and \<open>out\<close> is the response so far.
\<close>

definition walking :: "u8 list \<Rightarrow> u8 list \<Rightarrow> u8 list \<Rightarrow> ('w, 'm) snmp_drv_scheme \<Rightarrow> bool" where
  "walking pre rest out s \<longleftrightarrow>
     stands (msg_buffer (request_msg s)) 0 (pre @ rest) \<and> length (pre @ rest) \<le> 512
     \<and> msg_len (request_msg s) = int (length (pre @ rest)) \<and> msg_index (request_msg s) = int (length pre)
     \<and> stands (msg_buffer (response_msg s)) 0 out \<and> msg_index (response_msg s) = int (length out)"

lemma wps_then: "\<lbrakk>wps m P; \<And>r s. P r s \<Longrightarrow> wps (f r s) Q\<rbrakk> \<Longrightarrow> wps (Option.bind m (\<lambda>(r, s). f r s)) Q"
  by (auto simp: wps_def)

lemma wps_then2: "\<lbrakk>wps m P; \<And>x n s. P (x, n) s \<Longrightarrow> wps (f x n s) Q\<rbrakk> \<Longrightarrow> wps (Option.bind m (\<lambda>((x, n), s). f x n s)) Q"
  by (auto simp: wps_def)

text \<open>Only the messages change.\<close>

definition only_walks :: "('w, 'm) snmp_drv_scheme \<Rightarrow> ('w, 'm) snmp_drv_scheme \<Rightarrow> bool" where
  "only_walks s s' \<longleftrightarrow> s'\<lparr>request_msg := request_msg s, response_msg := response_msg s\<rparr> = s"

lemma stands_nth:
  assumes "stands m off bs" and "i < length bs"
  shows "m (off + i) = bs ! i"
proof -
  have "bytes_at m off (length bs) ! i = m (off + i)" using assms(2) by (simp add: bytes_at_def)
  then show ?thesis using assms(1) by (simp add: stands_def)
qed

lemma standsI: "(\<And>i. i < length bs \<Longrightarrow> m (off + i) = bs ! i) \<Longrightarrow> stands m off bs"
  unfolding stands_def bytes_at_def by (rule nth_equalityI) simp_all

lemma stands_store:
  assumes "stands m 0 out" and "i \<le> length out"
  shows "stands (store_at i bs m) 0 (take i out @ bs @ drop (i + length bs) out)"
proof (rule standsI)
  fix k assume k: "k < length (take i out @ bs @ drop (i + length bs) out)"
  have out: "m k = out ! k" if "k < length out" using stands_nth [OF assms(1) that] by simp
  consider "k < i" | "i \<le> k" "k < i + length bs" | "i + length bs \<le> k" by linarith
  then show "store_at i bs m (0 + k) = (take i out @ bs @ drop (i + length bs) out) ! k"
    by cases (use k assms(2) out in \<open>auto simp: store_at_def nth_append\<close>)
qed

lemma byte_walking:
  assumes "walking pre rest out s" and "i < length (pre @ rest)"
  shows "byte_at (request_msg s) (int i) = Some ((pre @ rest) ! i)"
  using assms stands_nth [of "msg_buffer (request_msg s)" 0 "pre @ rest" i]
  by (simp add: walking_def byte_at_def MAX_SNMPMSG_LEN_def)

lemma next_walking:
  assumes "walking pre (t # l # rest) out s" and "l AND 0x80 = 0"
  shows "next_tlv s = Some \<lparr>tlv_start = int (length pre), tlv_len = uint l, tlv_vstart = int (length pre) + 2,
    tlv_nstart = (if t = SNMPDTYPE_SEQUENCE \<or> t = GET_REQUEST \<or> t = GET_NEXT_REQUEST \<or> t = SET_REQUEST
      then int (length pre) + 2 else int (length pre) + 2 + uint l)\<rparr>"
proof -
  have "byte_at (request_msg s) (int (length pre)) = Some t"
    using byte_walking [OF assms(1), of "length pre"] by simp
  moreover have "byte_at (request_msg s) (int (length pre) + 1) = Some l"
    using byte_walking [OF assms(1), of "length pre + 1"] by (simp add: nth_append add.commute)
  ultimately show ?thesis
    using assms by (simp add: next_tlv_def parseTLV_def parseLength_def walking_def Let_def)
qed

lemma copy_walking:
  assumes "walking pre (seg @ rest) out s" and "tlv_start x = int (length pre)" and "n = int (length seg)"
    and "length out + length seg \<le> 512"
  shows "wps (COPY_SEGMENT x n s) (\<lambda>_ s'. walking (pre @ seg) rest (out @ seg) s' \<and> only_walks s s')"
proof -
  have "bytes_at (msg_buffer (request_msg s)) (length pre) (length seg) = seg"
    using assms(1) by (simp add: walking_def stands_def [symmetric] stands_bytes)
  then show ?thesis
    using assms stands_store [of "msg_buffer (response_msg s)" out "length out" seg]
    by (simp add: COPY_SEGMENT_def put_response_def skip_request_def skip_response_def walking_def only_walks_def
        wps_def MAX_SNMPMSG_LEN_def)
qed

lemma put_walking:
  assumes "walking pre rest out s" and "i + length bs \<le> length out" and "length out \<le> 512"
  shows "wps (put_response (int i) bs s)
    (\<lambda>_ s'. walking pre rest (take i out @ bs @ drop (i + length bs) out) s' \<and> only_walks s s')"
  using assms stands_store [of "msg_buffer (response_msg s)" out i bs]
  by (simp add: put_response_def walking_def only_walks_def wps_def MAX_SNMPMSG_LEN_def)

lemma only_walks_trans: "\<lbrakk>only_walks a b; only_walks b c\<rbrakk> \<Longrightarrow> only_walks a c"
  by (cases a; cases b; cases c; simp add: only_walks_def)

lemma only_walks_same:
  assumes "only_walks s s'"
  shows "snmpData s' = snmpData s" "errorStatus s' = errorStatus s" "errorIndex s' = errorIndex s"
    "snmp_tick_10ms s' = snmp_tick_10ms s" "startTime s' = startTime s"
  using assms by (cases s; cases s'; simp add: only_walks_def)+

text \<open>A length in the short form is filled in.\<close>

lemma length_walking:
  assumes "walking pre rest out s" and "i + 1 < length (pre @ rest)" and "(pre @ rest) ! (i + 1) AND 0x80 = 0"
    and "j + 1 < length out" "length out \<le> 512"
  shows "wps (insertRespLen (int i) (int j) n s) (\<lambda>_ s'. walking pre rest (out[j + 1 := of_int n]) s' \<and> only_walks s s')"
proof -
  have "byte_at (request_msg s) (int i + 1) = Some ((pre @ rest) ! (i + 1))"
    using byte_walking [OF assms(1,2)] by (simp only: of_nat_add of_nat_1)
  moreover have "ucast ((of_int n :: u32) AND 0xFF) = (of_int n :: u8)"
    by (rule bit_word_eqI) (simp add: byte_mask bit_simps)
  moreover have "out[j + 1 := b] = take (j + 1) out @ [b] @ drop (j + 1 + 1) out" for b
    using assms(4) by (simp add: upd_conv_take_nth_drop)
  moreover have e: "int k + 1 = int (k + 1)" for k by simp
  ultimately show ?thesis
    using put_walking [OF assms(1), of "j + 1" "[of_int n]"] assms(3-5)
    unfolding insertRespLen_def e by simp
qed

subsection \<open>Elements of a message\<close>

definition tlv :: "u8 \<Rightarrow> u8 list \<Rightarrow> u8 list" where
  "tlv t bs = t # of_nat (length bs) # bs"

definition simple :: "u8 \<Rightarrow> bool" where
  "simple t \<longleftrightarrow> t \<noteq> SNMPDTYPE_SEQUENCE \<and> \<not> VALID_REQUEST t"

lemma length_tlv [simp]: "length (tlv t bs) = length bs + 2"
  by (simp add: tlv_def)

lemma short_length:
  assumes "n < 128"
  shows "(of_nat n :: u8) AND 0x80 = 0" "uint (of_nat n :: u8) = int n"
proof -
  show "uint (of_nat n :: u8) = int n" using assms by (simp add: unsigned_of_nat take_bit_nat_eq_self)
  have "n < 2 ^ 7" using assms by simp
  then have "\<not> bit n 7" by (simp add: bit_iff_odd)
  then have "\<not> bit (of_nat n :: u8) 7" by (simp add: bit_simps)
  then show "(of_nat n :: u8) AND 0x80 = 0"
    using and_exp_eq_0_iff_not_bit [of "of_nat n :: u8" 7] by simp
qed

lemma next_tlv_walking:
  assumes "walking pre (tlv t bs @ rest) out s" and "length bs < 128"
  shows "next_tlv s = Some \<lparr>tlv_start = int (length pre), tlv_len = int (length bs), tlv_vstart = int (length pre) + 2,
    tlv_nstart = int (length pre) + (if simple t then int (length (tlv t bs)) else 2)\<rparr>"
  using next_walking [of pre t "of_nat (length bs)" "bs @ rest" out s] assms short_length [OF assms(2)]
  by (simp add: tlv_def simple_def VALID_REQUEST_def)

lemma first_walking:
  assumes "walking pre (tlv t bs @ rest) out s"
  shows "byte_at (request_msg s) (int (length pre)) = Some t"
  using byte_walking [OF assms, of "length pre"] by (simp add: tlv_def)

lemma copy_tlv_walking:
  assumes "walking pre (tlv t bs @ rest) out s" and "length bs < 128" "simple t" and "length out + length (tlv t bs) \<le> 512"
  shows "wps (copy_tlv s) (\<lambda>r s'. (tlv_start (fst r) = int (length pre) \<and> tlv_vstart (fst r) = int (length pre) + 2
      \<and> snd r = int (length (tlv t bs))) \<and> walking (pre @ tlv t bs) rest (out @ tlv t bs) s' \<and> only_walks s s')"
  unfolding copy_tlv_def next_tlv_walking [OF assms(1,2)] Let_def Option.bind_lunit
  by (rule wps_bind, rule wps_mono [OF copy_walking [OF assms(1)]]) (use assms(3,4) in \<open>auto simp: wps_def\<close>)

text \<open>The header of a constructed element is copied, its contents lie ahead.\<close>

lemma header_walking:
  assumes "walking pre (tlv t bs @ rest) out s" and "tlv_start x = int (length pre)" and "length out + 2 \<le> 512"
  shows "wps (COPY_SEGMENT x 2 s)
    (\<lambda>_ s'. walking (pre @ [t, of_nat (length bs)]) (bs @ rest) (out @ [t, of_nat (length bs)]) s' \<and> only_walks s s')"
  using copy_walking [of pre "[t, of_nat (length bs)]" "bs @ rest" out s x 2] assms by (simp add: tlv_def)

lemma append_walking:
  assumes "walking pre rest out s" and "length out + length bs \<le> 512" and "n = int (length bs)"
  shows "wps (put_response (msg_index (response_msg s)) bs s)
    (\<lambda>_ s'. walking pre rest (out @ bs) (skip_response n s') \<and> only_walks s (skip_response n s'))"
  using assms stands_store [of "msg_buffer (response_msg s)" out "length out" bs]
  by (simp add: put_response_def walking_def only_walks_def skip_response_def wps_def MAX_SNMPMSG_LEN_def)

lemma skip_walking:
  assumes "walking pre (seg @ rest) out s" and "n = int (length seg)"
  shows "walking (pre @ seg) rest out (skip_request n s)" "only_walks s (skip_request n s)"
  using assms by (simp_all add: walking_def skip_request_def only_walks_def)

subsection \<open>Variable bindings of a GET\<close>

type_synonym binding = "u8 list \<times> u8 \<times> u8 list"

fun binding :: "binding \<Rightarrow> u8 list" where
  "binding (name, t, v) = tlv SNMPDTYPE_OBJ_ID name @ tlv t v"

fun binding_ok :: "binding \<Rightarrow> bool" where
  "binding_ok (name, t, v) \<longleftrightarrow> length name < 128 \<and> length v < 128 \<and> simple t"

text \<open>The table, and the error status and index.\<close>

type_synonym 'w agent = "'w dataEntryType list \<times> u8 \<times> u8"

definition find_id :: "'w dataEntryType list \<Rightarrow> u8 list \<Rightarrow> int" where
  "find_id tab name =
     (case List.find (\<lambda>i. same_oid name (tab ! i)) [0..<length tab] of None \<Rightarrow> OID_NOT_FOUND | Some i \<Rightarrow> int i)"

fun get_binding :: "u32 \<Rightarrow> u32 \<Rightarrow> int \<Rightarrow> binding \<Rightarrow> 'w agent \<Rightarrow> (binding \<times> 'w agent) option" where
  "get_binding now start idx (name, t, v) (tab, err) =
     (if find_id tab name = OID_NOT_FOUND then Some ((name, t, v), (tab, NO_SUCH_NAME, of_int idx))
      else case getEntry now start tab (find_id tab name) of
        Some ((_, Some t', Some v'), tab') \<Rightarrow> Some ((name, t', v'), (tab', err))
      | _ \<Rightarrow> None)"

fun get_bindings :: "u32 \<Rightarrow> u32 \<Rightarrow> int \<Rightarrow> binding list \<Rightarrow> 'w agent \<Rightarrow> (binding list \<times> 'w agent) option" where
  "get_bindings now start idx [] a = Some ([], a)"
| "get_bindings now start idx (b # bs) a = do {
     (r, a) \<leftarrow> get_binding now start idx b a;
     (rs, a) \<leftarrow> get_bindings now start (idx + 1) bs a;
     Some (r # rs, a)
   }"

definition agent_is :: "u32 \<Rightarrow> u32 \<Rightarrow> 'w agent \<Rightarrow> ('w, 'm) snmp_drv_scheme \<Rightarrow> bool" where
  "agent_is now start a s \<longleftrightarrow> snmp_tick_10ms s = now \<and> startTime s = start
     \<and> a = (snmpData s, errorStatus s, errorIndex s)"

lemma agent_walks: "\<lbrakk>only_walks s s'; agent_is now start a s\<rbrakk> \<Longrightarrow> agent_is now start a s'"
  by (simp add: agent_is_def only_walks_same)

lemma take_bytes_at: "n \<le> k \<Longrightarrow> take n (bytes_at m i k) = bytes_at m i n"
  by (simp add: bytes_at_def take_map)

lemma find_walking:
  assumes "walking pre (tlv t name @ rest) out s"
  shows "findEntry tab (bytes_from (request_msg s) (int (length pre) + 2)) (int (length name)) = Some (find_id tab name)"
proof -
  let ?val = "bytes_from (request_msg s) (int (length pre) + 2)"
  have i: "nat (int (length pre) + 2) = length pre + 2" by simp
  have room: "length name \<le> nat (512 - (int (length pre) + 2))"
    using assms by (simp add: walking_def le_nat_iff)
  have "stands (msg_buffer (request_msg s)) (length pre + 2) name"
    using assms by (simp add: walking_def tlv_def)
  then have "take (length name) ?val = name"
    using room unfolding bytes_from_def MAX_SNMPMSG_LEN_def i by (simp add: take_bytes_at stands_bytes)
  moreover have "\<not> length ?val < length name" using room by (simp add: bytes_from_def MAX_SNMPMSG_LEN_def)
  moreover have "List.find (\<lambda>i. same_oid name (tab ! i)) [0..<length tab] = None"
    if "\<forall>e\<in>set tab. int (length name) \<noteq> uint (oidlen e)"
  proof -
    have "\<not> same_oid name e" if "e \<in> set tab" for e
      using that \<open>\<forall>e\<in>set tab. int (length name) \<noteq> uint (oidlen e)\<close> by (auto simp: same_oid_def)
    then show ?thesis unfolding find_None_iff by simp
  qed
  ultimately show ?thesis by (simp add: findEntry_def find_id_def)
qed

lemma value_walking:
  fixes s :: "('w, 'm) snmp_drv_scheme"
  assumes w: "walking pre (tlv t v @ rest) out s" and len: "length v < 128" and t: "simple t"
    and ag: "agent_is now start a s" and reply: "get_binding now start idx (name, t, v) a = Some ((name', t', v'), a')"
    and room: "length out + length (tlv t' v') \<le> 512"
    and x: "tlv_start x = int (length pre)" "tlv_nstart x = int (length pre) + int (length (tlv t v))"
  shows "wps (value_part GET_REQUEST (find_id (fst a) name) x idx s) (\<lambda>n s'. n = int (length (tlv t' v'))
    \<and> walking (pre @ tlv t v) rest (out @ tlv t' v') s' \<and> agent_is now start a' s')"
proof -
  obtain tab err where a: "a = (tab, err)" by (cases a)
  have s: "snmpData s = tab" "snmp_tick_10ms s = now" "startTime s = start" "err = (errorStatus s, errorIndex s)"
    using ag a by (simp_all add: agent_is_def)
  show ?thesis
  proof (cases "find_id tab name = OID_NOT_FOUND")
    case True
    with reply a have r: "t' = t" "v' = v" "a' = (tab, NO_SUCH_NAME, of_int idx)" by simp_all
    have "wps (COPY_SEGMENT x (int (length (tlv t v))) s)
        (\<lambda>_ s'. walking (pre @ tlv t v) rest (out @ tlv t v) s' \<and> only_walks s s')"
      by (rule copy_walking [OF w x(1)]) (use room r in simp_all)
    then show ?thesis
      using True x s a r
      by (auto simp: value_part_def wps_def walking_def agent_is_def only_walks_same Let_def)
  next
    case False
    with reply a obtain ret where e: "getEntry now start tab (find_id tab name) = Some ((ret, Some t', Some v'), fst a')"
      and err: "snd a' = err"
      by (auto split: option.splits prod.splits)
    let ?s = "s\<lparr>snmpData := fst a'\<rparr>"
    have w': "walking pre (tlv t v @ rest) out ?s" using w by (simp add: walking_def)
    have out: "t' # of_nat (length v') # v' = tlv t' v'" by (simp add: tlv_def)
    have "wps (put_response (msg_index (response_msg ?s)) (tlv t' v') ?s)
      (\<lambda>_ s'. walking pre (tlv t v @ rest) (out @ tlv t' v') (skip_response (2 + int (length v')) s')
        \<and> only_walks ?s (skip_response (2 + int (length v')) s'))"
      by (rule append_walking [OF w' room]) simp
    moreover have "walking (pre @ tlv t v) rest (out @ tlv t' v') (skip_request (int (length (tlv t v))) u)
        \<and> agent_is now start a' (skip_request (int (length (tlv t v))) u)"
      if "walking pre (tlv t v @ rest) (out @ tlv t' v') u" "only_walks ?s u" for u
    proof -
      have "agent_is now start a' ?s" using s err a by (cases a') (simp add: agent_is_def)
      then show ?thesis using skip_walking [OF that(1) refl] agent_walks that(2) by metis
    qed
    ultimately show ?thesis
      using False e x s a
      by (auto simp: value_part_def wps_def out Let_def)
  qed
qed

lemma varbind_walking:
  assumes w: "walking pre (binding b @ rest) out s" and ok: "binding_ok b"
    and ag: "agent_is now start a s" and reply: "get_binding now start idx b a = Some (r, a')"
    and room: "length out + length (binding r) \<le> 512"
  shows "wps (parseVarBind GET_REQUEST idx s) (\<lambda>n s'. n = int (length (binding r))
    \<and> walking (pre @ binding b) rest (out @ binding r) s' \<and> agent_is now start a' s')"
proof -
  obtain name t v where b: "b = (name, t, v)" by (cases b)
  obtain tab err where a: "a = (tab, err)" by (cases a)
  from reply b a obtain t' v' where r: "r = (name, t', v')"
    by (auto split: if_splits option.splits prod.splits)
  let ?o = "tlv SNMPDTYPE_OBJ_ID name"
  have w1: "walking pre (?o @ (tlv t v @ rest)) out s" using w b by simp
  have nt: "simple SNMPDTYPE_OBJ_ID" by (simp add: simple_def VALID_REQUEST_def snmp_types snmp_codes)
  have tab: "snmpData s = tab" using ag a by (simp add: agent_is_def)
  note head = next_tlv_walking [OF w1] first_walking [OF w1] find_walking [OF w1, of tab]
  have step: "wps (value_part GET_REQUEST (find_id tab name) x idx u) (\<lambda>n s'. n = int (length (tlv t' v'))
      \<and> walking (pre @ binding b) rest (out @ binding r) s' \<and> agent_is now start a' s')"
    if u: "walking (pre @ ?o) (tlv t v @ rest) (out @ ?o) u" "only_walks s u"
      and x: "next_tlv u = Some x" for x u
  proof -
    have "tlv_start x = int (length (pre @ ?o))" "tlv_nstart x = int (length (pre @ ?o)) + int (length (tlv t v))"
      using next_tlv_walking [OF u(1)] x ok b by auto
    moreover have "length (out @ ?o) + length (tlv t' v') \<le> 512" using room r by simp
    ultimately show ?thesis
      using value_walking [OF u(1) _ _ agent_walks [OF u(2) ag], of idx name name t' v' a' x] ok reply a b r by simp
  qed
  have copy: "wps (COPY_SEGMENT x (int (length ?o)) s)
      (\<lambda>_ u. walking (pre @ ?o) (tlv t v @ rest) (out @ ?o) u \<and> only_walks s u)"
    if "tlv_start x = int (length pre)" for x
    by (rule copy_walking [OF w1 that]) (use room r in simp_all)
  have next_u: "\<exists>x. next_tlv u = Some x" if "walking (pre @ ?o) (tlv t v @ rest) (out @ ?o) u" for u
    using next_tlv_walking [OF that] ok b by simp
  have name: "wps (name_part GET_REQUEST x (find_id tab name) s) (\<lambda>y u. y = (find_id tab name, int (length ?o))
      \<and> walking (pre @ ?o) (tlv t v @ rest) (out @ ?o) u \<and> only_walks s u)"
    if "tlv_start x = int (length pre)" "tlv_nstart x = int (length pre) + int (length ?o)" for x
    using copy [OF that(1)] that by (auto simp: name_part_def Let_def wps_def)
  let ?x = "\<lparr>tlv_start = int (length pre), tlv_len = int (length name), tlv_vstart = int (length pre) + 2,
    tlv_nstart = int (length pre) + int (length ?o)\<rparr>"
  have x: "next_tlv s = Some ?x" using head(1) ok b nt by simp
  have n: "wps (name_part GET_REQUEST ?x (find_id tab name) s) (\<lambda>y u. y = (find_id tab name, int (length ?o))
      \<and> walking (pre @ ?o) (tlv t v @ rest) (out @ ?o) u \<and> only_walks s u)"
    by (rule name) simp_all
  have rest: "wps (do { val \<leftarrow> next_tlv u;
        (seglen, s) \<leftarrow> value_part GET_REQUEST (find_id tab name) val idx u;
        Some (int (length ?o) + seglen, s) }) (\<lambda>n s'. n = int (length (binding r))
      \<and> walking (pre @ binding b) rest (out @ binding r) s' \<and> agent_is now start a' s')"
    if u: "walking (pre @ ?o) (tlv t v @ rest) (out @ ?o) u" "only_walks s u" for u
  proof -
    from next_u [OF u(1)] obtain x where x: "next_tlv u = Some x" by blast
    have "wps (Some (int (length ?o) + n, s')) (\<lambda>n s'. n = int (length (binding r))
      \<and> walking (pre @ binding b) rest (out @ binding r) s' \<and> agent_is now start a' s')"
      if "n = int (length (tlv t' v'))" "walking (pre @ binding b) rest (out @ binding r) s'" "agent_is now start a' s'"
      for n s'
      using that r by (simp add: wps_def)
    then show ?thesis
      unfolding x Option.bind_lunit by (intro wps_bind wps_mono [OF step [OF u x]]) auto
  qed
  have e: "parseVarBind GET_REQUEST idx s = do {
      ((eid, sz), u) \<leftarrow> name_part GET_REQUEST ?x (find_id tab name) s;
      val \<leftarrow> next_tlv u; (seglen, u) \<leftarrow> value_part GET_REQUEST eid val idx u; Some (sz + seglen, u) }"
    unfolding parseVarBind_def x Option.bind_lunit using head(2,3) tab by simp
  show ?thesis unfolding e by (intro wps_bind wps_mono [OF n]) (use rest in auto)
qed

subsection \<open>The list of bindings\<close>

definition varbind :: "binding \<Rightarrow> u8 list" where
  "varbind b = tlv SNMPDTYPE_SEQUENCE (binding b)"

definition varbinds :: "binding list \<Rightarrow> u8 list" where
  "varbinds bs = concat (map varbind bs)"

lemma update_header:
  assumes "k = length out"
  shows "((out @ [t, l]) @ bs)[k + 1 := m] = out @ t # m # bs"
  using assms by (simp add: list_update_append)

lemma header_length:
  assumes "i = length pre" and "length bs < 128"
  shows "((pre @ tlv t bs) @ rest) ! (i + 1) AND 0x80 = 0"
  using assms short_length(1) by (simp add: nth_append tlv_def)

lemma sequence_walking:
  assumes w: "walking pre (varbind b @ rest) out s" and ok: "binding_ok b" "length (binding b) < 128"
    and ag: "agent_is now start a s" and reply: "get_binding now start idx b a = Some (r, a')"
    and room: "length out + length (varbind r) \<le> 512" "length (binding r) < 128"
  shows "wps (parseSequence GET_REQUEST idx s) (\<lambda>n s'. n = int (length (varbind r))
    \<and> walking (pre @ varbind b) rest (out @ varbind r) s' \<and> agent_is now start a' s')"
proof -
  let ?t = SNMPDTYPE_SEQUENCE and ?l = "of_nat (length (binding b)) :: u8"
  let ?x = "\<lparr>tlv_start = int (length pre), tlv_len = int (length (binding b)), tlv_vstart = int (length pre) + 2,
    tlv_nstart = int (length pre) + 2\<rparr>"
  note w1 = w [unfolded varbind_def]
  have x: "next_tlv s = Some ?x" "byte_at (request_msg s) (int (length pre)) = Some ?t"
    using next_tlv_walking [OF w1 ok(2)] first_walking [OF w1] by (simp_all add: simple_def)
  have loc: "msg_index (response_msg s) = int (length out)" using w by (simp add: walking_def)
  have copy: "wps (COPY_SEGMENT ?x 2 s)
      (\<lambda>_ u. walking (pre @ [?t, ?l]) (binding b @ rest) (out @ [?t, ?l]) u \<and> only_walks s u)"
    by (rule header_walking [OF w1]) (use room in \<open>simp_all add: varbind_def\<close>)
  have bind: "wps (parseVarBind GET_REQUEST idx u) (\<lambda>n v. n = int (length (binding r))
      \<and> walking ((pre @ [?t, ?l]) @ binding b) rest ((out @ [?t, ?l]) @ binding r) v \<and> agent_is now start a' v)"
    if "walking (pre @ [?t, ?l]) (binding b @ rest) (out @ [?t, ?l]) u" "only_walks s u" for u
    by (rule varbind_walking [OF that(1) ok(1) agent_walks [OF that(2) ag] reply]) (use room in \<open>simp add: varbind_def\<close>)
  have fill: "wps (insertRespLen (int (length pre)) (int (length out)) (int (length (binding r))) v)
      (\<lambda>_ s'. walking (pre @ varbind b) rest (out @ varbind r) s' \<and> only_walks v s')"
    if v: "walking ((pre @ [?t, ?l]) @ binding b) rest ((out @ [?t, ?l]) @ binding r) v" for v
  proof -
    have v': "walking (pre @ varbind b) rest ((out @ [?t, ?l]) @ binding r) v"
      using v by (simp add: varbind_def tlv_def)
    have "((out @ [?t, ?l]) @ binding r)[length out + 1 := of_int (int (length (binding r)))] = out @ varbind r"
      unfolding update_header [OF refl] by (simp add: varbind_def tlv_def)
    then show ?thesis
      using length_walking [OF v', of "length pre" "length out" "int (length (binding r))"]
        header_length [OF refl ok(2), of pre ?t rest] room
      by (simp add: varbind_def)
  qed
  have e: "parseSequence GET_REQUEST idx s = do {
      (_, u) \<leftarrow> COPY_SEGMENT ?x 2 s;
      (sz, v) \<leftarrow> parseVarBind GET_REQUEST idx u;
      (_, s') \<leftarrow> insertRespLen (int (length pre)) (int (length out)) sz v;
      Some (sz + 2, s') }"
    unfolding parseSequence_def x(1) Option.bind_lunit using x(2) loc by (simp add: Let_def)
  show ?thesis unfolding e
    by (rule wps_then [OF copy], elim conjE, rule wps_then [OF bind], assumption, assumption, elim conjE, hypsubst,
        rule wps_then [OF fill], assumption)
      (auto simp: wps_def varbind_def intro: agent_walks)
qed

definition bindings_ok :: "binding list \<Rightarrow> bool" where
  "bindings_ok bs \<longleftrightarrow> (\<forall>b\<in>set bs. binding_ok b)"

lemma varbinds_simps [simp]:
  "varbinds [] = []" "varbinds (b # bs) = varbind b @ varbinds bs"
  by (simp_all add: varbinds_def)

lemma length_varbind [simp]: "length (varbind b) = length (binding b) + 2"
  by (simp add: varbind_def)

lemma bindings_walking:
  fixes s :: "('w, 'm) snmp_drv_scheme"
  assumes "walking pre (varbinds bs) out s" and "bindings_ok bs" "length (varbinds bs) < 128"
    and "agent_is now start a s" and "get_bindings now start idx bs a = Some (rs, a')"
    and "length out + length (varbinds rs) \<le> 512" "length (varbinds rs) < 128"
  shows "wps (forever (seqof_step GET_REQUEST) (n, idx) s) (\<lambda>m s'. m = n + int (length (varbinds rs))
    \<and> walking (pre @ varbinds bs) [] (out @ varbinds rs) s' \<and> agent_is now start a' s')"
  using assms
proof (induction bs arbitrary: pre out s n idx a rs)
  case Nil
  then have "\<not> msg_index (request_msg s) < msg_len (request_msg s)" by (simp add: walking_def)
  with Nil show ?case by (subst forever.simps) (auto simp: seqof_step_def wps_def)
next
  case (Cons b bs)
  from Cons.prems(5) obtain r a1 rs1 where r: "get_binding now start idx b a = Some (r, a1)"
    and rs1: "get_bindings now start (idx + 1) bs a1 = Some (rs1, a')" and rs: "rs = r # rs1"
    by (auto simp: bind_eq_Some_conv)
  have more: "msg_index (request_msg s) < msg_len (request_msg s)"
    using Cons.prems(1) by (simp add: walking_def)
  have w: "walking pre (varbind b @ varbinds bs) out s" using Cons.prems(1) by simp
  have one: "wps (parseSequence GET_REQUEST idx s) (\<lambda>k s'. k = int (length (varbind r))
      \<and> walking (pre @ varbind b) (varbinds bs) (out @ varbind r) s' \<and> agent_is now start a1 s')"
    by (rule sequence_walking [OF w _ _ Cons.prems(4) r]) (use Cons.prems(2,3,6,7) rs in \<open>simp_all add: bindings_ok_def\<close>)
  have others: "wps (forever (seqof_step GET_REQUEST) (k, idx + 1) u) (\<lambda>m s'. m = k + int (length (varbinds rs1))
      \<and> walking ((pre @ varbind b) @ varbinds bs) [] ((out @ varbind r) @ varbinds rs1) s' \<and> agent_is now start a' s')"
    if "walking (pre @ varbind b) (varbinds bs) (out @ varbind r) u" "agent_is now start a1 u" for k and u :: "('w, 'm) snmp_drv_scheme"
    by (rule Cons.IH [OF that(1) _ _ that(2) rs1]) (use Cons.prems(2,3,6,7) rs in \<open>simp_all add: bindings_ok_def\<close>)
  from one obtain k u where k: "parseSequence GET_REQUEST idx s = Some (k, u)" "k = int (length (varbind r))"
    and u: "walking (pre @ varbind b) (varbinds bs) (out @ varbind r) u" "agent_is now start a1 u"
    by (auto simp: wps_def)
  have "forever (seqof_step GET_REQUEST) (n, idx) s = forever (seqof_step GET_REQUEST) (n + k, idx + 1) u"
    by (subst forever.simps) (simp add: seqof_step_def more k(1))
  then show ?case using wps_mono [OF others [OF u, of "n + k"]] k(2) rs
    by (simp add: ac_simps)
qed

lemma seqof_walking:
  assumes w: "walking pre (tlv SNMPDTYPE_SEQUENCE (varbinds bs)) out s" and ok: "bindings_ok bs" "length (varbinds bs) < 128"
    and ag: "agent_is now start a s" and reply: "get_bindings now start 0 bs a = Some (rs, a')"
    and room: "length out + length (tlv SNMPDTYPE_SEQUENCE (varbinds rs)) \<le> 512" "length (varbinds rs) < 128"
  shows "wps (parseSequenceOf GET_REQUEST s) (\<lambda>n s'. n = int (length (varbinds rs))
    \<and> walking (pre @ tlv SNMPDTYPE_SEQUENCE (varbinds bs)) [] (out @ tlv SNMPDTYPE_SEQUENCE (varbinds rs)) s'
    \<and> agent_is now start a' s')"
proof -
  let ?t = SNMPDTYPE_SEQUENCE and ?l = "of_nat (length (varbinds bs)) :: u8"
  let ?x = "\<lparr>tlv_start = int (length pre), tlv_len = int (length (varbinds bs)), tlv_vstart = int (length pre) + 2,
    tlv_nstart = int (length pre) + 2\<rparr>"
  have w1: "walking pre (tlv ?t (varbinds bs) @ []) out s" using w by simp
  have x: "next_tlv s = Some ?x" "byte_at (request_msg s) (int (length pre)) = Some ?t"
    using next_tlv_walking [OF w1 ok(2)] first_walking [OF w1] by (simp_all add: simple_def)
  have loc: "msg_index (response_msg s) = int (length out)" using w by (simp add: walking_def)
  have copy: "wps (COPY_SEGMENT ?x 2 s)
      (\<lambda>_ u. walking (pre @ [?t, ?l]) (varbinds bs @ []) (out @ [?t, ?l]) u \<and> only_walks s u)"
    by (rule header_walking [OF w1]) (use room in simp_all)
  have loop: "wps (forever (seqof_step GET_REQUEST) (0, 0) u) (\<lambda>n v. n = 0 + int (length (varbinds rs))
      \<and> walking ((pre @ [?t, ?l]) @ varbinds bs) [] ((out @ [?t, ?l]) @ varbinds rs) v \<and> agent_is now start a' v)"
    if "walking (pre @ [?t, ?l]) (varbinds bs @ []) (out @ [?t, ?l]) u" "only_walks s u" for u
    by (rule bindings_walking [OF that(1) [simplified append_Nil2] ok agent_walks [OF that(2) ag] reply])
      (use room in simp_all)
  have fill: "wps (insertRespLen (int (length pre)) (int (length out)) (0 + int (length (varbinds rs))) v)
      (\<lambda>_ s'. walking (pre @ tlv ?t (varbinds bs)) [] (out @ tlv ?t (varbinds rs)) s' \<and> only_walks v s')"
    if v: "walking ((pre @ [?t, ?l]) @ varbinds bs) [] ((out @ [?t, ?l]) @ varbinds rs) v" for v
  proof -
    have v': "walking (pre @ tlv ?t (varbinds bs)) [] ((out @ [?t, ?l]) @ varbinds rs) v"
      using v by (simp add: tlv_def)
    have "((out @ [?t, ?l]) @ varbinds rs)[length out + 1 := of_int (int (length (varbinds rs)))] = out @ tlv ?t (varbinds rs)"
      unfolding update_header [OF refl] by (simp add: tlv_def)
    then show ?thesis
      using length_walking [OF v', of "length pre" "length out" "int (length (varbinds rs))"]
        header_length [OF refl ok(2), of pre ?t "[]"] room
      by simp
  qed
  have e: "parseSequenceOf GET_REQUEST s = do {
      (_, u) \<leftarrow> COPY_SEGMENT ?x 2 s;
      (sz, v) \<leftarrow> forever (seqof_step GET_REQUEST) (0, 0) u;
      (_, s') \<leftarrow> insertRespLen (int (length pre)) (int (length out)) sz v;
      Some (sz, s') }"
    unfolding parseSequenceOf_def x(1) Option.bind_lunit using x(2) loc
    by (simp add: Let_def SNMPDTYPE_SEQUENCE_OF_def)
  show ?thesis unfolding e
    by (rule wps_then [OF copy], elim conjE, rule wps_then [OF loop], assumption, assumption, elim conjE, hypsubst,
        rule wps_then [OF fill], assumption)
      (auto simp: wps_def intro: agent_walks)
qed

subsection \<open>The whole message\<close>

definition pdu_body :: "u8 list \<Rightarrow> u8 \<Rightarrow> u8 \<Rightarrow> binding list \<Rightarrow> u8 list" where
  "pdu_body rid est eix bs = tlv SNMPDTYPE_INTEGER rid @ tlv SNMPDTYPE_INTEGER [est] @ tlv SNMPDTYPE_INTEGER [eix]
     @ tlv SNMPDTYPE_SEQUENCE (varbinds bs)"

lemma put_at:
  assumes "length xs = i"
  shows "take i (xs @ x # ys) @ [y] @ drop (i + length [y]) (xs @ x # ys) = xs @ y # ys"
  using assms by simp

lemma simple_integer [simp]: "simple SNMPDTYPE_INTEGER" "simple SNMPDTYPE_OCTET_STRING"
  "\<not> simple SNMPDTYPE_SEQUENCE" "\<not> simple GET_REQUEST"
  by (simp_all add: simple_def VALID_REQUEST_def snmp_types snmp_codes)

lemma request_header:
  assumes w: "walking pre (tlv GET_REQUEST body) out s" and "length pre = length out" "length body < 128" "length out + 2 \<le> 512"
    and x: "tlv_start x = int (length pre)"
  shows "wps (COPY_SEGMENT x 2 s) (\<lambda>_ u. wps (put_response (int (length pre)) [GET_RESPONSE] u)
    (\<lambda>_ v. walking (pre @ [GET_REQUEST, of_nat (length body)]) body (out @ [GET_RESPONSE, of_nat (length body)]) v
      \<and> only_walks s v))"
proof -
  have w1: "walking pre (tlv GET_REQUEST body @ []) out s" using w by simp
  have put: "wps (put_response (int (length pre)) [GET_RESPONSE] u)
      (\<lambda>_ v. walking (pre @ [GET_REQUEST, of_nat (length body)]) body (out @ [GET_RESPONSE, of_nat (length body)]) v
        \<and> only_walks s v)"
    if u: "walking (pre @ [GET_REQUEST, of_nat (length body)]) (body @ []) (out @ [GET_REQUEST, of_nat (length body)]) u"
      "only_walks s u" for u
    by (rule wps_mono [OF put_walking [OF u(1)]]) (use assms(2,4) u(2) in \<open>auto intro: only_walks_trans\<close>)
  show ?thesis
    by (rule wps_mono [OF header_walking [OF w1 x assms(4)]]) (use put in auto)
qed

text \<open>The error status and index are put over the zeros that came with the request.\<close>

lemma error_walking:
  assumes w: "walking pre rest (out @ tlv SNMPDTYPE_INTEGER [0] @ tlv SNMPDTYPE_INTEGER [0] @ vs) s"
    and room: "length out + length vs + 6 \<le> 512" and i: "i = int (length out) + 2" "j = int (length out) + 5"
  shows "wps (if errorStatus s \<noteq> 0 then do {
        (_, s) \<leftarrow> put_response i [errorStatus s] s;
        (_, s) \<leftarrow> put_response j [errorIndex s + 1] s;
        Some (n, s) } else Some (n, s))
    (\<lambda>m s'. m = n \<and> walking pre rest (out @ tlv SNMPDTYPE_INTEGER [errorStatus s]
      @ tlv SNMPDTYPE_INTEGER [if errorStatus s = 0 then 0 else errorIndex s + 1] @ vs) s' \<and> snmpData s' = snmpData s)"
proof (cases "errorStatus s = 0")
  case True
  then show ?thesis using w by (simp add: wps_def)
next
  case False
  let ?t = "SNMPDTYPE_INTEGER" and ?e = "errorStatus s"
  have i': "i = int (length out + 2)" "j = int (length out + 5)" using i by simp_all
  have one: "wps (put_response i [?e] s) (\<lambda>_ u. walking pre rest ((out @ [?t, 1]) @ ?e # (tlv ?t [0] @ vs)) u \<and> only_walks s u)"
  proof -
    have w1: "walking pre rest ((out @ [?t, 1]) @ 0 # (tlv ?t [0] @ vs)) s" using w by (simp add: tlv_def)
    have l: "length (out @ [?t, 1]) = length out + 2" by simp
    from put_walking [OF w1, of "length out + 2" "[?e]"] show ?thesis
      unfolding i'(1) put_at [OF l] using room by simp
  qed
  have two: "wps (put_response j [x] u) (\<lambda>_ v. walking pre rest ((out @ [?t, 1, ?e, ?t, 1]) @ x # vs) v \<and> only_walks u v)"
    if u: "walking pre rest ((out @ [?t, 1]) @ ?e # (tlv ?t [0] @ vs)) u" for u x
  proof -
    have w1: "walking pre rest ((out @ [?t, 1, ?e, ?t, 1]) @ 0 # vs) u" using u by (simp add: tlv_def)
    have l: "length (out @ [?t, 1, ?e, ?t, 1]) = length out + 5" by simp
    from put_walking [OF w1, of "length out + 5" "[x]"] show ?thesis
      unfolding i'(2) put_at [OF l] using room by simp
  qed
  show ?thesis
    by (subst if_P [OF False], rule wps_then [OF one], elim conjE, rule wps_then [OF two], assumption)
      (use False in \<open>auto simp: wps_def tlv_def only_walks_same\<close>)
qed

text \<open>The reply to the body of a request.\<close>

definition reply_body :: "u8 list \<Rightarrow> 'w agent \<Rightarrow> binding list \<Rightarrow> u8 list" where
  "reply_body rid a rs = (case a of (_, est, eix) \<Rightarrow> pdu_body rid est (if est = 0 then 0 else eix + 1) rs)"

lemma length_pdu_body: "length (pdu_body rid est eix bs) = length rid + length (varbinds bs) + 10"
  by (simp add: pdu_body_def)

lemma length_reply_body [simp]: "length (reply_body rid a rs) = length rid + length (varbinds rs) + 10"
  by (simp add: reply_body_def length_pdu_body split_beta)

lemma request_walking:
  fixes s :: "('w, 'm) snmp_drv_scheme"
  assumes w: "walking pre (tlv GET_REQUEST (pdu_body rid 0 0 bs)) out s" and start: "length pre = length out"
    and ok: "bindings_ok bs" "length (pdu_body rid 0 0 bs) < 128"
    and ag: "agent_is now start a s" and reply: "get_bindings now start 0 bs a = Some (rs, a')"
    and room: "length out + length (reply_body rid a' rs) + 2 \<le> 512" "length (reply_body rid a' rs) < 128"
  shows "wps (parseRequest s) (\<lambda>n s'. n = int (length (reply_body rid a' rs))
    \<and> walking (pre @ tlv GET_REQUEST (pdu_body rid 0 0 bs)) [] (out @ tlv GET_RESPONSE (reply_body rid a' rs)) s'
    \<and> snmpData s' = fst a')"
proof -
  let ?b = "pdu_body rid 0 0 bs" and ?r = "reply_body rid a' rs"
  let ?l = "of_nat (length ?b) :: u8"
  let ?I = "tlv SNMPDTYPE_INTEGER rid" and ?E = "tlv SNMPDTYPE_INTEGER [0]"
  let ?V = "tlv SNMPDTYPE_SEQUENCE (varbinds bs)" and ?W = "tlv SNMPDTYPE_SEQUENCE (varbinds rs)"
  let ?P = "pre @ [GET_REQUEST, ?l]" and ?O = "out @ [GET_RESPONSE, ?l]"
  let ?x = "\<lparr>tlv_start = int (length pre), tlv_len = int (length ?b), tlv_vstart = int (length pre) + 2,
    tlv_nstart = int (length pre) + 2\<rparr>"
  have w1: "walking pre (tlv GET_REQUEST ?b @ []) out s" using w by simp
  have x: "next_tlv s = Some ?x" "byte_at (request_msg s) (int (length pre)) = Some GET_REQUEST"
    using next_tlv_walking [OF w1 ok(2)] first_walking [OF w1] by simp_all
  have lens: "length rid < 128" "length (varbinds bs) < 128" "length (varbinds rs) < 128"
    using ok(2) room(2) by (simp_all add: length_pdu_body)
  have head: "wps (COPY_SEGMENT ?x 2 s) (\<lambda>_ u. wps (put_response (int (length pre)) [GET_RESPONSE] u)
      (\<lambda>_ v. walking ?P (?I @ ?E @ ?E @ ?V) ?O v \<and> only_walks s v))"
    using request_header [OF w start ok(2), of ?x] room by (simp add: pdu_body_def)
  have copy: "wps (copy_tlv u) (\<lambda>r v. (tlv_start (fst r) = int (length P) \<and> tlv_vstart (fst r) = int (length P) + 2
      \<and> snd r = int (length (tlv SNMPDTYPE_INTEGER c))) \<and> walking (P @ tlv SNMPDTYPE_INTEGER c) R (O' @ tlv SNMPDTYPE_INTEGER c) v
      \<and> agent_is now start a v)"
    if "walking P (tlv SNMPDTYPE_INTEGER c @ R) O' u" "agent_is now start a u" "length c < 128" "length O' + length c + 2 \<le> 512"
    for P R O' c and u :: "('w, 'm) snmp_drv_scheme"
    by (rule wps_mono [OF copy_tlv_walking [OF that(1,3) simple_integer(1)]]) (use that in \<open>auto intro: agent_walks\<close>)
  let ?PI = "?P @ ?I" and ?OI = "?O @ ?I"
  have seqof: "wps (parseSequenceOf GET_REQUEST u) (\<lambda>n v. n = int (length (varbinds rs))
      \<and> walking (((?PI @ ?E) @ ?E) @ ?V) [] (((?OI @ ?E) @ ?E) @ ?W) v \<and> agent_is now start a' v)"
    if "walking ((?PI @ ?E) @ ?E) ?V ((?OI @ ?E) @ ?E) u" "agent_is now start a u" for u :: "('w, 'm) snmp_drv_scheme"
    by (rule seqof_walking [OF that(1) ok(1) lens(2) that(2) reply]) (use room lens in simp_all)
  have fill: "wps (insertRespLen (int (length pre)) (int (length pre)) (int (length ?r)) v) (\<lambda>_ s'.
      walking (pre @ tlv GET_REQUEST ?b) [] ((out @ [GET_RESPONSE, of_nat (length ?r)] @ ?I) @ ?E @ ?E @ ?W) s'
      \<and> agent_is now start a' s')"
    if v: "walking (((?PI @ ?E) @ ?E) @ ?V) [] (((?OI @ ?E) @ ?E) @ ?W) v" "agent_is now start a' v"
    for v :: "('w, 'm) snmp_drv_scheme"
  proof -
    have v': "walking (pre @ tlv GET_REQUEST ?b) [] ((out @ [GET_RESPONSE, ?l]) @ ?I @ ?E @ ?E @ ?W) v"
      using v(1) by (simp add: pdu_body_def tlv_def)
    have h: "((pre @ tlv GET_REQUEST ?b) @ []) ! (length pre + 1) AND 0x80 = 0"
      using header_length [OF refl ok(2), of pre GET_REQUEST "[]"] by simp
    have "((out @ [GET_RESPONSE, ?l]) @ ?I @ ?E @ ?E @ ?W)[length pre + 1 := of_int (int (length ?r))]
        = (out @ [GET_RESPONSE, of_nat (length ?r)] @ ?I) @ ?E @ ?E @ ?W"
      unfolding update_header [OF start] by simp
    then show ?thesis
      using length_walking [OF v' _ h, of "length pre" "int (length ?r)"] start room agent_walks [OF _ v(2)]
      by (auto elim!: wps_mono)
  qed
  have errors: "wps (if errorStatus u \<noteq> 0 then do {
        (_, u) \<leftarrow> put_response (int (length ?PI) + 2) [errorStatus u] u;
        (_, u) \<leftarrow> put_response (int (length (?PI @ ?E)) + 2) [errorIndex u + 1] u;
        Some (n, u) } else Some (n, u)) (\<lambda>m s'. m = n
      \<and> walking (pre @ tlv GET_REQUEST ?b) [] (out @ tlv GET_RESPONSE ?r) s' \<and> snmpData s' = fst a')"
    if u: "walking (pre @ tlv GET_REQUEST ?b) [] ((out @ [GET_RESPONSE, of_nat (length ?r)] @ ?I) @ ?E @ ?E @ ?W) u"
      "agent_is now start a' u"
    for n and u :: "('w, 'm) snmp_drv_scheme"
  proof -
    have "(out @ [GET_RESPONSE, of_nat (length ?r)] @ ?I) @ tlv SNMPDTYPE_INTEGER [errorStatus u]
        @ tlv SNMPDTYPE_INTEGER [if errorStatus u = 0 then 0 else errorIndex u + 1] @ ?W = out @ tlv GET_RESPONSE ?r"
      using u(2) by (cases a') (simp add: agent_is_def reply_body_def pdu_body_def tlv_def)
    moreover have "snmpData u = fst a'" using u(2) by (simp add: agent_is_def)
    ultimately show ?thesis
      using error_walking [OF u(1), of "int (length ?PI) + 2" "int (length (?PI @ ?E)) + 2" n] start room by simp
  qed
  have e: "parseRequest s = do {
      (_, u) \<leftarrow> COPY_SEGMENT ?x 2 s;
      (_, u) \<leftarrow> put_response (int (length pre)) [GET_RESPONSE] u;
      ((x0, n0), u) \<leftarrow> copy_tlv u;
      ((x1, n1), u) \<leftarrow> copy_tlv u;
      ((x2, n2), u) \<leftarrow> copy_tlv u;
      (ret, u) \<leftarrow> parseSequenceOf GET_REQUEST u;
      if ret = -1 then Some (-1, u)
      else do {
        (_, u) \<leftarrow> insertRespLen (int (length pre)) (int (length pre)) (2 + n0 + n1 + n2 + ret) u;
        if errorStatus u \<noteq> 0 then do {
          (_, u) \<leftarrow> put_response (tlv_vstart x1) [errorStatus u] u;
          (_, u) \<leftarrow> put_response (tlv_vstart x2) [errorIndex u + 1] u;
          Some (2 + n0 + n1 + n2 + ret, u)
        } else Some (2 + n0 + n1 + n2 + ret, u)
      } }"
    unfolding parseRequest_def x(1) Option.bind_lunit Let_def tlvStructType.select_convs x(2) add_diff_cancel_left'
    by (simp add: VALID_REQUEST_def)
  have no_error: "int (length (varbinds rs)) \<noteq> - 1" by simp
  have sz: "2 + int (length ?I) + int (length ?E) + int (length ?E) + int (length (varbinds rs)) = int (length ?r)"
    by simp
  have c1: "wps (copy_tlv u) (\<lambda>r v. snd r = int (length ?I) \<and> walking ?PI (?E @ ?E @ ?V) ?OI v \<and> agent_is now start a v)"
    if "walking ?P (?I @ ?E @ ?E @ ?V) ?O u" "only_walks s u" for u :: "('w, 'm) snmp_drv_scheme"
    by (rule wps_mono [OF copy [OF that(1) agent_walks [OF that(2) ag]]]) (use lens room in auto)
  have c2: "wps (copy_tlv u) (\<lambda>r v. (tlv_vstart (fst r) = int (length ?PI) + 2 \<and> snd r = int (length ?E))
      \<and> walking (?PI @ ?E) (?E @ ?V) (?OI @ ?E) v \<and> agent_is now start a v)"
    if "walking ?PI (?E @ ?E @ ?V) ?OI u" "agent_is now start a u" for u :: "('w, 'm) snmp_drv_scheme"
    by (rule wps_mono [OF copy [OF that]]) (use room in auto)
  have c3: "wps (copy_tlv u) (\<lambda>r v. (tlv_vstart (fst r) = int (length (?PI @ ?E)) + 2 \<and> snd r = int (length ?E))
      \<and> walking ((?PI @ ?E) @ ?E) ?V ((?OI @ ?E) @ ?E) v \<and> agent_is now start a v)"
    if "walking (?PI @ ?E) (?E @ ?V) (?OI @ ?E) u" "agent_is now start a u" for u :: "('w, 'm) snmp_drv_scheme"
    by (rule wps_mono [OF copy [OF that]]) (use room in auto)
  show ?thesis unfolding e
    by (rule wps_then [OF head], rule wps_then, assumption, elim conjE,
        rule wps_then2 [OF c1], assumption, assumption, elim conjE,
        rule wps_then2 [OF c2], assumption, assumption, elim conjE,
        rule wps_then2 [OF c3], assumption, assumption, elim conjE,
        rule wps_then [OF seqof], assumption, assumption, elim conjE,
        simp only: fst_conv snd_conv sz no_error if_False,
        rule wps_then [OF fill], assumption, assumption, elim conjE,
        rule errors, assumption+)
qed

lemma community_step:
  fixes s :: "('w, 'm) snmp_drv_scheme"
  assumes w: "walking pre (tlv SNMPDTYPE_OCTET_STRING COMMUNITY @ pdu) out s" and room: "length out + 8 \<le> 512"
    and request: "\<And>u. \<lbrakk>walking (pre @ tlv SNMPDTYPE_OCTET_STRING COMMUNITY) pdu
        (out @ tlv SNMPDTYPE_OCTET_STRING COMMUNITY) u; only_walks s u\<rbrakk> \<Longrightarrow> wps (parseRequest u) (\<lambda>n s'. n = m \<and> R s')"
  shows "wps (parseCommunity s) (\<lambda>n s'. n = m + 8 \<and> R s')"
proof -
  let ?c = "tlv SNMPDTYPE_OCTET_STRING COMMUNITY"
  let ?x = "\<lparr>tlv_start = int (length pre), tlv_len = int (length COMMUNITY), tlv_vstart = int (length pre) + 2,
    tlv_nstart = int (length pre) + int (length ?c)\<rparr>"
  have c: "length COMMUNITY = 6" by (simp add: COMMUNITY_def)
  have x: "next_tlv s = Some ?x" "byte_at (request_msg s) (int (length pre)) = Some SNMPDTYPE_OCTET_STRING"
    using next_tlv_walking [OF w] first_walking [OF w] c by simp_all
  have name: "take 6 (bytes_from (request_msg s) (int (length pre) + 2)) = COMMUNITY"
    "\<not> length (bytes_from (request_msg s) (int (length pre) + 2)) < 6"
  proof -
    have i: "nat (int (length pre) + 2) = length pre + 2" by simp
    have r: "6 \<le> nat (512 - (int (length pre) + 2))" using w c by (simp add: walking_def le_nat_iff)
    have "stands (msg_buffer (request_msg s)) (length pre + 2) COMMUNITY" using w by (simp add: walking_def tlv_def)
    then show "take 6 (bytes_from (request_msg s) (int (length pre) + 2)) = COMMUNITY"
      using r c stands_bytes [of "msg_buffer (request_msg s)" "length pre + 2" COMMUNITY]
      unfolding bytes_from_def MAX_SNMPMSG_LEN_def i by (simp add: take_bytes_at)
    show "\<not> length (bytes_from (request_msg s) (int (length pre) + 2)) < 6"
      using r by (simp add: bytes_from_def MAX_SNMPMSG_LEN_def)
  qed
  have copy: "wps (COPY_SEGMENT ?x (int (length ?c)) s) (\<lambda>_ u. walking (pre @ ?c) pdu (out @ ?c) u \<and> only_walks s u)"
    by (rule copy_walking [OF w]) (use room c in simp_all)
  have e: "parseCommunity s = do {
      (_, u) \<leftarrow> COPY_SEGMENT ?x (int (length ?c)) s; (ret, u) \<leftarrow> parseRequest u; Some (int (length ?c) + ret, u) }"
    unfolding parseCommunity_def x(1) Option.bind_lunit tlvStructType.select_convs x(2) c
    using name by (simp add: c Let_def)
  show ?thesis unfolding e
    by (rule wps_then [OF copy], elim conjE, rule wps_then [OF request], assumption+) (auto simp: wps_def c)
qed

text \<open>A message of version 1.\<close>

definition message_body :: "u8 list \<Rightarrow> u8 list" where
  "message_body pdu = tlv SNMPDTYPE_INTEGER [SNMP_V1] @ tlv SNMPDTYPE_OCTET_STRING COMMUNITY @ pdu"

lemma length_message_body [simp]: "length (message_body pdu) = length pdu + 11"
  by (simp add: message_body_def COMMUNITY_def)

lemma version_step:
  fixes s :: "('w, 'm) snmp_drv_scheme"
  assumes w: "walking pre (message_body pdu) out s" and room: "length out + 11 \<le> 512" and m: "- 1 \<le> m"
    and request: "\<And>u. \<lbrakk>walking (pre @ message_body []) pdu (out @ message_body []) u; only_walks s u\<rbrakk>
        \<Longrightarrow> wps (parseRequest u) (\<lambda>n s'. n = m \<and> R s')"
  shows "wps (parseVersion s) (\<lambda>n s'. n = m + 11 \<and> R s')"
proof -
  let ?v = "tlv SNMPDTYPE_INTEGER [SNMP_V1]" and ?c = "tlv SNMPDTYPE_OCTET_STRING COMMUNITY"
  let ?x = "\<lparr>tlv_start = int (length pre), tlv_len = 1, tlv_vstart = int (length pre) + 2,
    tlv_nstart = int (length pre) + 3\<rparr>"
  have w1: "walking pre (?v @ (?c @ pdu)) out s" using w by (simp add: message_body_def)
  have x: "next_tlv s = Some ?x" "byte_at (request_msg s) (int (length pre)) = Some SNMPDTYPE_INTEGER"
    using next_tlv_walking [OF w1] first_walking [OF w1] by simp_all
  have v: "byte_at (request_msg s) (int (length pre) + 2) = Some SNMP_V1"
    using byte_walking [OF w1, of "length pre + 2"] by (simp add: nth_append tlv_def add.commute)
  have copy: "wps (COPY_SEGMENT ?x 3 s) (\<lambda>_ u. walking (pre @ ?v) (?c @ pdu) (out @ ?v) u \<and> only_walks s u)"
    by (rule copy_walking [OF w1]) (use room in simp_all)
  have community: "wps (parseCommunity u) (\<lambda>n s'. n = m + 8 \<and> R s')"
    if u: "walking (pre @ ?v) (?c @ pdu) (out @ ?v) u" "only_walks s u" for u
  proof (rule community_step [OF u(1)])
    show "length (out @ ?v) + 8 \<le> 512" using room by simp
    show "wps (parseRequest t) (\<lambda>n s'. n = m \<and> R s')"
      if "walking ((pre @ ?v) @ ?c) pdu ((out @ ?v) @ ?c) t" "only_walks u t" for t
      by (rule request) (use that u(2) in \<open>auto simp: message_body_def intro: only_walks_trans\<close>)
  qed
  have e: "parseVersion s = do {
      (_, u) \<leftarrow> COPY_SEGMENT ?x 3 s; (sz, u) \<leftarrow> parseCommunity u; Some (if sz = -1 then sz else sz + 3, u) }"
    unfolding parseVersion_def x(1) Option.bind_lunit tlvStructType.select_convs x(2) using v by (simp add: Let_def)
  show ?thesis unfolding e
    by (rule wps_then [OF copy], elim conjE, rule wps_then [OF community], assumption+) (use m in \<open>auto simp: wps_def\<close>)
qed

text \<open>What the parser reports for the body goes into the outer length.\<close>

lemma message_step:
  fixes s :: "('w, 'm) snmp_drv_scheme" and body :: "u8 list"
  defines "h \<equiv> [SNMPDTYPE_SEQUENCE, of_nat (length body)]"
  assumes w: "walking [] (tlv SNMPDTYPE_SEQUENCE body) [] s" and len: "length body < 128" and m: "0 \<le> m"
    and version: "\<And>u. \<lbrakk>walking h body h u; only_walks s u\<rbrakk> \<Longrightarrow> wps (parseVersion u) (\<lambda>n v. n = m
        \<and> (walking pre rest (h @ out) v \<and> snmpData v = tab))"
    and all: "pre @ rest = tlv SNMPDTYPE_SEQUENCE body" and room: "length out \<le> 500"
  shows "wps (parseSNMPMessage s) (\<lambda>n s'. n = 0
    \<and> walking pre rest (SNMPDTYPE_SEQUENCE # of_int (m + 2) # out) s' \<and> snmpData s' = tab)"
proof -
  let ?e = "[] :: u8 list" and ?t = SNMPDTYPE_SEQUENCE
  let ?x = "\<lparr>tlv_start = int (length ?e), tlv_len = int (length body), tlv_vstart = int (length ?e) + 2,
    tlv_nstart = int (length ?e) + 2\<rparr>"
  have w1: "walking [] (tlv ?t body @ []) [] s" using w by simp
  have x: "next_tlv s = Some ?x" "byte_at (request_msg s) (int (length ?e)) = Some ?t"
    using next_tlv_walking [OF w1 len] first_walking [OF w1] by simp_all
  have copy: "wps (COPY_SEGMENT ?x 2 s) (\<lambda>_ u. walking h body h u \<and> only_walks s u)"
    using header_walking [OF w1, of ?x] by (simp add: h_def)
  have fill: "wps (insertRespLen (int (length ?e)) (int (length ?e)) (m + 2) v)
      (\<lambda>_ s'. walking pre rest (?t # of_int (m + 2) # out) s' \<and> snmpData s' = tab)"
    if v: "walking pre rest (h @ out) v" "snmpData v = tab" for v :: "('w, 'm) snmp_drv_scheme"
  proof -
    have "(pre @ rest) ! (length ?e + 1) AND 0x80 = 0"
      using header_length [OF refl len, of "[]" ?t "[]"] by (simp add: all)
    moreover have "(h @ out)[length ?e + 1 := of_int (m + 2)] = ?t # of_int (m + 2) # out"
      by (simp add: h_def)
    moreover have "length ?e + 1 < length (pre @ rest)" by (simp add: all)
    ultimately show ?thesis
      using length_walking [OF v(1), of "length ?e" "length ?e" "m + 2"] room v(2)
      by (auto simp: h_def only_walks_same elim!: wps_mono)
  qed
  have e: "parseSNMPMessage s = do {
      (_, u) \<leftarrow> COPY_SEGMENT ?x 2 s;
      (sz, u) \<leftarrow> parseVersion u;
      if sz = -1 then Some (-1, u)
      else do { (_, u) \<leftarrow> insertRespLen (int (length ?e)) (int (length ?e)) (sz + 2) u; Some (0, u) } }"
    unfolding parseSNMPMessage_def x(1) Option.bind_lunit tlvStructType.select_convs x(2) Let_def add_diff_cancel_left'
    by (simp add: SNMPDTYPE_SEQUENCE_OF_def)
  have no_error: "m \<noteq> - 1" using m by simp
  show ?thesis unfolding e
    by (rule wps_then [OF copy], elim conjE, rule wps_then [OF version], assumption, assumption, elim conjE,
        simp only: no_error if_False, rule wps_then [OF fill], assumption, assumption)
      (auto simp: wps_def)
qed

definition get_message :: "u8 list \<Rightarrow> binding list \<Rightarrow> u8 list" where
  "get_message rid bs = tlv SNMPDTYPE_SEQUENCE (message_body (tlv GET_REQUEST (pdu_body rid 0 0 bs)))"

definition reply_message :: "u8 list \<Rightarrow> 'w agent \<Rightarrow> binding list \<Rightarrow> u8 list" where
  "reply_message rid a rs = tlv SNMPDTYPE_SEQUENCE (message_body (tlv GET_RESPONSE (reply_body rid a rs)))"

lemma message_walking:
  fixes s :: "('w, 'm) snmp_drv_scheme"
  assumes w: "walking [] (get_message rid bs) [] s" and ok: "bindings_ok bs" "length (get_message rid bs) < 130"
    and ag: "agent_is now start a s" and reply: "get_bindings now start 0 bs a = Some (rs, a')"
    and room: "length (reply_message rid a' rs) < 130"
  shows "wps (parseSNMPMessage s) (\<lambda>n s'. n = 0
    \<and> walking (get_message rid bs) [] (reply_message rid a' rs) s' \<and> snmpData s' = fst a')"
proof -
  let ?b = "tlv GET_REQUEST (pdu_body rid 0 0 bs)" and ?r = "tlv GET_RESPONSE (reply_body rid a' rs)"
  let ?h = "[SNMPDTYPE_SEQUENCE, of_nat (length (message_body ?b))] :: u8 list"
  have len: "length (message_body ?b) < 128" "length (message_body ?r) < 128"
    using ok room by (simp_all add: get_message_def reply_message_def)
  have split: "message_body p = message_body [] @ p" for p by (simp add: message_body_def)
  have version: "wps (parseVersion u) (\<lambda>n v. n = int (length (reply_body rid a' rs)) + 11
      \<and> (walking (get_message rid bs) [] (?h @ message_body ?r) v \<and> snmpData v = fst a'))"
    if u: "walking ?h (message_body ?b) ?h u" "only_walks s u" for u
  proof (rule version_step [OF u(1)])
    show "wps (parseRequest t) (\<lambda>n v. n = int (length (reply_body rid a' rs))
        \<and> (walking (get_message rid bs) [] (?h @ message_body ?r) v \<and> snmpData v = fst a'))"
      if t: "walking (?h @ message_body []) ?b (?h @ message_body []) t" "only_walks u t" for t
    proof (rule wps_mono [OF request_walking [OF t(1) _ ok(1) _ _ reply]])
      show "agent_is now start a t" by (rule agent_walks [OF t(2) agent_walks [OF u(2) ag]])
    qed (use len in \<open>simp_all add: length_pdu_body get_message_def tlv_def split [of "_ # _"]\<close>)
  qed simp_all
  have "wps (parseSNMPMessage s) (\<lambda>n s'. n = 0 \<and> walking (get_message rid bs) []
      (SNMPDTYPE_SEQUENCE # of_int (int (length (reply_body rid a' rs)) + 11 + 2) # message_body ?r) s' \<and> snmpData s' = fst a')"
    by (rule message_step [OF w [unfolded get_message_def] len(1) _ version])
      (use len in \<open>simp_all add: get_message_def\<close>)
  then show ?thesis by (simp add: reply_message_def tlv_def)
qed

lemma walking_begin:
  assumes "stands (msg_buffer (request_msg s)) 0 req" and "length req \<le> 512" "msg_len (request_msg s) = int (length req)"
  shows "walking [] req [] (snmp_begin s)"
  using assms by (simp add: walking_def snmp_begin_def)

text \<open>C10: The reply to a GET. For a message of version 1 with the right community that asks for any list of
  variables, in short-form lengths and in less than 130 bytes, whose reply takes less than 130 bytes too, the
  parser succeeds, and the response is the complete encoding of
  the reply: the same request identifier, for each variable in order its name with the type and value
  that the table holds (or the binding as it came, if the name is unknown), all lengths filled in,
  and the error status and index of the last unknown name, zero if there is none. A longer
  reply would need lengths in the long form, which the agent does not write.\<close>

theorem snmp_get_reply:
  fixes s :: "('w, 'm) snmp_drv_scheme"
  assumes "stands (msg_buffer (request_msg s)) 0 (get_message rid bs)"
    and "msg_len (request_msg s) = int (length (get_message rid bs))"
    and "bindings_ok bs" "length (get_message rid bs) < 130"
    and "get_bindings (snmp_tick_10ms s) (startTime s) 0 bs (snmpData s, 0, 0) = Some (rs, a)"
    and "length (reply_message rid a rs) < 130"
  shows "\<exists>s'. parseSNMPMessage (snmp_begin s) = Some (0, s')
    \<and> msg_index (response_msg s') = int (length (reply_message rid a rs))
    \<and> stands (msg_buffer (response_msg s')) 0 (reply_message rid a rs) \<and> snmpData s' = fst a"
proof -
  have "agent_is (snmp_tick_10ms s) (startTime s) (snmpData s, 0, 0) (snmp_begin s)"
    by (simp add: agent_is_def snmp_begin_def)
  with message_walking [OF walking_begin assms(3,4) _ assms(5,6)] assms(1,2,4) show ?thesis
    by (auto simp: wps_def walking_def)
qed

text \<open>The location and a name that is not in the table.\<close>

definition ask_location :: "binding list" where
  "ask_location = [([0x2B, 6, 1, 2, 1, 1, 6, 0], 5, []), ([0x2B, 6, 1, 9], 5, [])]"

theorem snmp_get_reply_witness:
  "\<exists>s'. parseSNMPMessage (snmp_begin (snmp_start (get_message [7] ask_location))) = Some (0, s')
    \<and> stands (msg_buffer (response_msg s')) 0 (reply_message [7] (snmpData s', NO_SUCH_NAME, 1)
        [([0x2B, 6, 1, 2, 1, 1, 6, 0], SNMPDTYPE_OCTET_STRING, chars ''4F Humax Village''), ([0x2B, 6, 1, 9], 5, [])])"
proof -
  let ?s = "snmp_start (get_message [7] ask_location)"
  let ?rs = "[([0x2B, 6, 1, 2, 1, 1, 6, 0], SNMPDTYPE_OCTET_STRING, chars ''4F Humax Village''), ([0x2B, 6, 1, 9], 5, [])]"
  have "map_option (\<lambda>(rs, a). (rs, snd a)) (get_bindings 500 0 0 ask_location (initTable snmpData_initial :: u8 list dataEntryType list, 0, 0))
      = Some (?rs, NO_SUCH_NAME, 1)"
    by code_simp
  then obtain tab where "get_bindings 500 0 0 ask_location (initTable snmpData_initial :: u8 list dataEntryType list, 0, 0)
      = Some (?rs, tab, NO_SUCH_NAME, 1)"
    by auto
  then have bs: "get_bindings (snmp_tick_10ms ?s) (startTime ?s) 0 ask_location (snmpData ?s, 0, 0) = Some (?rs, tab, NO_SUCH_NAME, 1)"
    by (simp add: snmp_start_def drv.extend_def)
  have req: "stands (msg_buffer (request_msg ?s)) 0 (get_message [7] ask_location)"
    "msg_len (request_msg ?s) = int (length (get_message [7] ask_location))"
    by (simp_all add: snmp_start_def drv.extend_def stands_message)
  have ok: "bindings_ok ask_location" "length (get_message [7] ask_location) < 130"
    "length (reply_message [7] (tab, NO_SUCH_NAME, 1) ?rs) < 130"
    by (simp_all add: bindings_ok_def ask_location_def simple_def VALID_REQUEST_def snmp_codes get_message_def
        reply_message_def length_pdu_body chars_def)
  have "reply_message [7] (tab, NO_SUCH_NAME, 1) ?rs = reply_message [7] (tab', NO_SUCH_NAME, 1) ?rs"
    for tab' :: "u8 list dataEntryType list"
    by (simp add: reply_message_def reply_body_def)
  with snmp_get_reply [OF req ok(1,2) bs ok(3)] show ?thesis by auto
qed

subsection \<open>Messages that are not understood\<close>

text \<open>Any other kind of message is answered. When the type of the request is not GET, GET-NEXT or SET,
  \<open>parseRequest\<close> fails, but \<open>parseCommunity\<close> adds the size of the community to its -1, so the failure is
  lost: the parser reports success and the agent sends the first 13 bytes of the message back, in
  which the outer length claims one byte more than there is.\<close>

theorem snmp_unsupported_answered:
  fixes s :: "('w, 'm) snmp_drv_scheme"
  assumes "stands (msg_buffer (request_msg s)) 0 (tlv SNMPDTYPE_SEQUENCE (message_body (tlv t v)))"
    and "msg_len (request_msg s) = int (length v) + 15" and "length v < 115" and "\<not> VALID_REQUEST t"
  shows "\<exists>s'. parseSNMPMessage (snmp_begin s) = Some (0, s') \<and> msg_index (response_msg s') = 13
    \<and> stands (msg_buffer (response_msg s')) 0 ([SNMPDTYPE_SEQUENCE, 12] @ message_body [])"
proof -
  let ?s = "snmp_begin s" and ?b = "message_body (tlv t v)"
  let ?h = "[SNMPDTYPE_SEQUENCE, of_nat (length ?b)] :: u8 list"
  have len: "length ?b < 128" using assms(3) by simp
  have w: "walking [] (tlv SNMPDTYPE_SEQUENCE ?b) [] ?s"
    using walking_begin [OF assms(1)] assms(2,3) by simp
  have version: "wps (parseVersion u) (\<lambda>n s'. n = - 1 + 11
      \<and> (walking (?h @ message_body []) (tlv t v) (?h @ message_body []) s' \<and> snmpData s' = snmpData s))"
    if u: "walking ?h (message_body (tlv t v)) ?h u" "only_walks ?s u" for u
  proof (rule version_step [OF u(1)])
    show "wps (parseRequest q) (\<lambda>n s'. n = - 1
        \<and> (walking (?h @ message_body []) (tlv t v) (?h @ message_body []) s' \<and> snmpData s' = snmpData s))"
      if q: "walking (?h @ message_body []) (tlv t v) (?h @ message_body []) q" "only_walks u q" for q
    proof -
      have q': "walking (?h @ message_body []) (tlv t v @ []) (?h @ message_body []) q" using q(1) by simp
      have "snmpData q = snmpData s" using only_walks_same [OF q(2)] only_walks_same [OF u(2)] by (simp add: snmp_begin_def)
      then show ?thesis
        using next_tlv_walking [OF q'] first_walking [OF q'] q(1) assms(3,4)
        by (simp add: parseRequest_def wps_def)
    qed
  qed simp_all
  have "wps (parseSNMPMessage ?s) (\<lambda>n s'. n = 0 \<and> walking (?h @ message_body []) (tlv t v)
      (SNMPDTYPE_SEQUENCE # of_int (- 1 + 11 + 2) # message_body []) s' \<and> snmpData s' = snmpData s)"
    by (rule message_step [OF w len _ version]) (simp_all add: tlv_def message_body_def COMMUNITY_def)
  then show ?thesis by (auto simp: wps_def walking_def)
qed

text \<open>A trap, sent to the port of the agent.\<close>

theorem snmp_unsupported_answered_witness:
  "\<exists>s'. parseSNMPMessage (snmp_begin (snmp_start (tlv SNMPDTYPE_SEQUENCE (message_body (tlv 0xA4 []))))) = Some (0, s')
    \<and> bytes_at (msg_buffer (response_msg s')) 0 13 = [0x30, 12, 2, 1, 0, 4, 6, 0x70, 0x75, 0x62, 0x6C, 0x69, 0x63]"
proof -
  let ?s = "snmp_start (tlv SNMPDTYPE_SEQUENCE (message_body (tlv 0xA4 [])))"
  have s: "stands (msg_buffer (request_msg ?s)) 0 (tlv SNMPDTYPE_SEQUENCE (message_body (tlv 0xA4 [])))"
    "msg_len (request_msg ?s) = int (length ([] :: u8 list)) + 15"
    by (simp_all add: snmp_start_def drv.extend_def stands_message)
  obtain s' where s': "parseSNMPMessage (snmp_begin ?s) = Some (0, s')"
    "stands (msg_buffer (response_msg s')) 0 ([SNMPDTYPE_SEQUENCE, 12] @ message_body [])"
    using snmp_unsupported_answered [OF s] by (auto simp: VALID_REQUEST_def snmp_codes)
  have "[SNMPDTYPE_SEQUENCE, 12] @ message_body [] = [0x30, 12, 2, 1, 0, 4, 6, 0x70, 0x75, 0x62, 0x6C, 0x69, 0x63]"
    by (simp add: message_body_def tlv_def COMMUNITY_def snmp_codes snmp_types SNMP_V1_def)
  with s'(2) have "bytes_at (msg_buffer (response_msg s')) 0 13
      = [0x30, 12, 2, 1, 0, 4, 6, 0x70, 0x75, 0x62, 0x6C, 0x69, 0x63]"
    unfolding stands_def by simp
  with s'(1) show ?thesis by blast
qed

text \<open>C37: A malformed list of bindings hangs the agent. When \<open>parseSequenceOf\<close> has copied the header of the list
  and the element that comes next, before the end of the message, is not a sequence, every round of its
  loop gets -1 from \<open>parseSequence\<close>, leaves the state as it was and goes on: the function never returns,
  whatever the type of the request.\<close>

theorem snmp_hangs:
  fixes s u :: "('w, 'm) snmp_drv_scheme"
  assumes "next_tlv s = Some x" and "byte_at (request_msg s) (tlv_start x) = Some SNMPDTYPE_SEQUENCE_OF"
    and "COPY_SEGMENT x (tlv_vstart x - tlv_start x) s = Some ((), u)"
    and "msg_index (request_msg u) < msg_len (request_msg u)"
    and "next_tlv u = Some y" and "byte_at (request_msg u) (tlv_start y) = Some t" and "t \<noteq> SNMPDTYPE_SEQUENCE"
  shows "(\<forall>n k. seqof_step reqType (n, k) u = Some (Inr (n - 1, k + 1), u)) \<and> parseSequenceOf reqType s = None"
proof -
  have step: "seqof_step reqType (n, k) u = Some (Inr (n - 1, k + 1), u)" for n k
    using assms(4-7) by (simp add: seqof_step_def parseSequence_def)
  have "wpo (forever (seqof_step reqType) c u) (\<lambda>_ _. False)" for c
    by (rule wpo_forever [where I = "\<lambda>_ v. v = u"]) (use step in \<open>auto simp: wpo_def split: prod.splits\<close>)
  then have "forever (seqof_step reqType) c u = None" for c
    unfolding wpo_def by (metis not_None_eq prod.exhaust_sel)
  with assms(1-3) step show ?thesis by (simp add: parseSequenceOf_def Let_def)
qed

text \<open>A list whose first element is \<open>NULL\<close>.\<close>

theorem snmp_hangs_witness:
  "parseSequenceOf GET_REQUEST (snmp_begin (snmp_start [0x30, 2, 5, 0])) = (None :: (int \<times> u8 list snmp_drv) option)"
proof -
  let ?s = "snmp_begin (snmp_start [0x30, 2, 5, 0]) :: u8 list snmp_drv"
  have w: "walking [] (tlv SNMPDTYPE_SEQUENCE [5, 0] @ []) [] ?s"
    by (rule walking_begin)
      (simp_all add: snmp_start_def drv.extend_def tlv_def snmp_codes stands_message [of "[0x30, 2, 5, 0]", simplified] message_def)
  let ?x = "\<lparr>tlv_start = 0, tlv_len = 2, tlv_vstart = 2, tlv_nstart = 2\<rparr>"
  have x: "next_tlv ?s = Some ?x" "byte_at (request_msg ?s) 0 = Some SNMPDTYPE_SEQUENCE_OF"
    using next_tlv_walking [OF w] first_walking [OF w] by (simp_all add: SNMPDTYPE_SEQUENCE_OF_def)
  obtain u where u: "COPY_SEGMENT ?x 2 ?s = Some ((), u)" and w': "walking [SNMPDTYPE_SEQUENCE, 2] (tlv 5 [] @ []) [SNMPDTYPE_SEQUENCE, 2] u"
    using header_walking [OF w, of ?x] by (auto simp: wps_def tlv_def)
  have "msg_index (request_msg u) < msg_len (request_msg u)" using w' by (simp add: walking_def)
  with next_tlv_walking [OF w'] first_walking [OF w'] snmp_hangs [OF x(1), of u _ 5 GET_REQUEST] x(2) u
  show ?thesis by (simp add: snmp_codes)
qed

end
