(* ===== verification/HttpParser.thy ===== *)
theory HttpParser
  imports CString
begin

text \<open>
  The parser of the HTTP server, \<open>Internet/httpServer/httpParser.c\<close>: request line, names and types of
  files, heads of responses, parameters of forms. An array is a list of bytes; what a function leaves in
  its buffer is part of the result. \<open>None\<close> is a use of a null pointer or an access outside an array.
  \<open>unsigned int\<close> has 32 bits. A \<open>strcpy\<close> that moves a string to the front of its own array copies
  byte by byte from the front.
\<close>

unbundle bit_operations_syntax

subsection \<open>Constants\<close>

definition HTTP_SERVER_PORT :: u16 where "HTTP_SERVER_PORT = 80"
definition METHOD_ERR :: u8 where "METHOD_ERR = 0"
definition METHOD_GET :: u8 where "METHOD_GET = 1"
definition METHOD_HEAD :: u8 where "METHOD_HEAD = 2"
definition METHOD_POST :: u8 where "METHOD_POST = 3"
definition PTYPE_ERR :: u8 where "PTYPE_ERR = 0"
definition PTYPE_HTML :: u8 where "PTYPE_HTML = 1"
definition PTYPE_GIF :: u8 where "PTYPE_GIF = 2"
definition PTYPE_TEXT :: u8 where "PTYPE_TEXT = 3"
definition PTYPE_JPEG :: u8 where "PTYPE_JPEG = 4"
definition PTYPE_FLASH :: u8 where "PTYPE_FLASH = 5"
definition PTYPE_CGI :: u8 where "PTYPE_CGI = 8"
definition PTYPE_XML :: u8 where "PTYPE_XML = 9"
definition PTYPE_CSS :: u8 where "PTYPE_CSS = 10"
definition PTYPE_JS :: u8 where "PTYPE_JS = 11"
definition PTYPE_JSON :: u8 where "PTYPE_JSON = 12"
definition PTYPE_PNG :: u8 where "PTYPE_PNG = 13"
definition PTYPE_ICO :: u8 where "PTYPE_ICO = 14"
definition PTYPE_TTF :: u8 where "PTYPE_TTF = 20"
definition PTYPE_OTF :: u8 where "PTYPE_OTF = 21"
definition PTYPE_WOFF :: u8 where "PTYPE_WOFF = 22"
definition PTYPE_EOT :: u8 where "PTYPE_EOT = 23"
definition PTYPE_SVG :: u8 where "PTYPE_SVG = 24"
definition STATUS_OK :: u16 where "STATUS_OK = 200"
definition STATUS_BAD_REQ :: u16 where "STATUS_BAD_REQ = 400"
definition STATUS_NOT_FOUND :: u16 where "STATUS_NOT_FOUND = 404"
definition MAX_URI_SIZE :: nat where "MAX_URI_SIZE = 512"

lemmas ptype_defs = PTYPE_ERR_def PTYPE_HTML_def PTYPE_GIF_def PTYPE_TEXT_def PTYPE_JPEG_def PTYPE_FLASH_def
  PTYPE_CGI_def PTYPE_XML_def PTYPE_CSS_def PTYPE_JS_def PTYPE_JSON_def PTYPE_PNG_def PTYPE_ICO_def PTYPE_TTF_def
  PTYPE_OTF_def PTYPE_WOFF_def PTYPE_EOT_def PTYPE_SVG_def

definition CRLF :: "u8 list" where "CRLF = [0x0D, 0x0A]"

definition ERROR_HTML_PAGE :: "u8 list" where
  "ERROR_HTML_PAGE = chars ''HTTP/1.1 404 Not Found'' @ CRLF @ chars ''Content-Type: text/html'' @ CRLF
     @ chars ''Content-Length: 78'' @ CRLF @ CRLF @ chars ''<HTML>'' @ CRLF @ chars ''<BODY>'' @ CRLF
     @ chars ''Sorry, the page you requested was not found.'' @ CRLF @ chars ''</BODY>'' @ CRLF
     @ chars ''</HTML>'' @ CRLF"

definition ERROR_REQUEST_PAGE :: "u8 list" where
  "ERROR_REQUEST_PAGE = chars ''HTTP/1.1 400 OK'' @ CRLF @ chars ''Content-Type: text/html'' @ CRLF
     @ chars ''Content-Length: 50'' @ CRLF @ CRLF @ chars ''<HTML>'' @ CRLF @ chars ''<BODY>'' @ CRLF
     @ chars ''Invalid request.'' @ CRLF @ chars ''</BODY>'' @ CRLF @ chars ''</HTML>'' @ CRLF"

definition res_head :: "string \<Rightarrow> bool \<Rightarrow> u8 list" where
  "res_head media keep_alive = chars ''HTTP/1.1 200 OK'' @ CRLF @ chars ''Content-Type: '' @ chars media @ CRLF
     @ (if keep_alive then chars ''Connection: keep-alive'' @ CRLF else []) @ chars ''Content-Length: ''"

definition RES_HTMLHEAD_OK :: "u8 list" where "RES_HTMLHEAD_OK = res_head ''text/html'' True"
definition RES_TEXTHEAD_OK :: "u8 list" where "RES_TEXTHEAD_OK = res_head ''text/plain'' False"
definition RES_GIFHEAD_OK :: "u8 list" where "RES_GIFHEAD_OK = res_head ''image/gif'' False"
definition RES_JPEGHEAD_OK :: "u8 list" where "RES_JPEGHEAD_OK = res_head ''image/jpeg'' False"
definition RES_PNGHEAD_OK :: "u8 list" where "RES_PNGHEAD_OK = res_head ''image/png'' False"
definition RES_FLASHHEAD_OK :: "u8 list" where
  "RES_FLASHHEAD_OK = res_head ''application/x-shockwave-flash'' False"
definition RES_XMLHEAD_OK :: "u8 list" where "RES_XMLHEAD_OK = res_head ''text/xml'' True"
definition RES_CSSHEAD_OK :: "u8 list" where "RES_CSSHEAD_OK = res_head ''text/css'' False"
definition RES_JSHEAD_OK :: "u8 list" where "RES_JSHEAD_OK = res_head ''application/javascript'' False"
definition RES_JSONHEAD_OK :: "u8 list" where "RES_JSONHEAD_OK = res_head ''application/json'' False"
definition RES_ICOHEAD_OK :: "u8 list" where "RES_ICOHEAD_OK = res_head ''image/x-icon'' False"
definition RES_CGIHEAD_OK :: "u8 list" where "RES_CGIHEAD_OK = res_head ''text/html'' False"
definition RES_TTFHEAD_OK :: "u8 list" where
  "RES_TTFHEAD_OK = res_head ''application/x-font-truetype'' False"
definition RES_OTFHEAD_OK :: "u8 list" where
  "RES_OTFHEAD_OK = res_head ''application/x-font-opentype'' False"
definition RES_WOFFHEAD_OK :: "u8 list" where "RES_WOFFHEAD_OK = res_head ''application/font-woff'' False"
definition RES_EOTHEAD_OK :: "u8 list" where
  "RES_EOTHEAD_OK = res_head ''application/vnd.ms-fontobject'' False"
definition RES_SVGHEAD_OK :: "u8 list" where "RES_SVGHEAD_OK = res_head ''image/svg+xml'' False"

lemmas res_head_defs = RES_HTMLHEAD_OK_def RES_TEXTHEAD_OK_def RES_GIFHEAD_OK_def RES_JPEGHEAD_OK_def
  RES_PNGHEAD_OK_def RES_FLASHHEAD_OK_def RES_XMLHEAD_OK_def RES_CSSHEAD_OK_def RES_JSHEAD_OK_def
  RES_JSONHEAD_OK_def RES_ICOHEAD_OK_def RES_CGIHEAD_OK_def RES_TTFHEAD_OK_def RES_OTFHEAD_OK_def
  RES_WOFFHEAD_OK_def RES_EOTHEAD_OK_def RES_SVGHEAD_OK_def

subsection \<open>Characters and numbers\<close>

definition C2D :: "u8 \<Rightarrow> u8" where
  "C2D c =
     (if 0x30 \<le> c \<and> c \<le> 0x39 then c - 0x30
      else if 0x61 \<le> c \<and> c \<le> 0x66 then 10 + c - 0x61
      else if 0x41 \<le> c \<and> c \<le> 0x46 then 10 + c - 0x41
      else c)"

definition ATOI :: "u8 list \<Rightarrow> u8 \<Rightarrow> u16" where
  "ATOI str base =
     ucast (foldl (\<lambda>num c. num * ucast base + ucast (C2D c)) (0 :: u32) (takeWhile (\<lambda>c. c \<noteq> 0 \<and> c \<noteq> 0x20) str))"

text \<open>
  The bytes that the loop writes; it writes behind the place where it reads. A \<open>%\<close> takes the next two
  bytes, whatever they are, and the loop goes on after them.
\<close>

fun unescape_bytes :: "u8 list \<Rightarrow> u8 list option" where
  "unescape_bytes [] = None"
| "unescape_bytes (c # cs) =
     (if c = 0 then Some []
      else if c = 0x25 then
        (case cs of h # l # rest \<Rightarrow> map_option ((#) (C2D h * 0x10 + C2D l)) (unescape_bytes rest) | _ \<Rightarrow> None)
      else map_option ((#) c) (unescape_bytes cs))"

definition unescape_http_url :: "u8 list \<Rightarrow> u8 list option" where
  "unescape_http_url url = do { bs \<leftarrow> unescape_bytes url; put_at 0 (bs @ [0]) url }"

definition replacetochar :: "u8 list \<Rightarrow> u8 \<Rightarrow> u8 \<Rightarrow> u8 list" where
  "replacetochar str oldchar newchar =
     map (\<lambda>c. if c = oldchar then newchar else c) (upto_nul str) @ drop (length (upto_nul str)) str"

subsection \<open>Requests\<close>

text \<open>\<open>st_http_request\<close> in an array: the method, the type and the URI.\<close>

definition req_METHOD :: "u8 list \<Rightarrow> u8" where "req_METHOD req = req ! 0"
definition req_URI :: "u8 list \<Rightarrow> u8 list" where "req_URI req = drop 2 req"

text \<open>The method for the first token, and the next token or the null pointer.\<close>

definition request_token :: "u8 list \<Rightarrow> u8 list \<Rightarrow> u8 \<times> u8 list option" where
  "request_token tok rest =
     (if tok = chars ''GET'' \<or> tok = chars ''get'' then (METHOD_GET, map_option fst (strtok [0x20] rest))
      else if tok = chars ''HEAD'' \<or> tok = chars ''head'' then (METHOD_HEAD, map_option fst (strtok [0x20] rest))
      else if tok = chars ''POST'' \<or> tok = chars ''post'' then (METHOD_POST, map_option fst (strtok [] rest))
      else (METHOD_ERR, Some tok))"

definition parse_http_request :: "u8 list \<Rightarrow> u8 list \<Rightarrow> u8 list option" where
  "parse_http_request request buf = do {
     s \<leftarrow> cstr buf;
     case strtok [0x20] s of
       None \<Rightarrow> put_at 0 [METHOD_ERR] request
     | Some (tok, rest) \<Rightarrow>
         (case request_token tok rest of
            (method, None) \<Rightarrow> put_at 0 [METHOD_ERR] request
          | (method, Some uri) \<Rightarrow> do { request \<leftarrow> put_at 0 [method] request; put_at 2 (uri @ [0]) request })
   }"

definition get_http_uri_name :: "u8 list \<Rightarrow> u8 list option" where
  "get_http_uri_name uri =
     (if MAX_URI_SIZE < length uri + 1 then None
      else case strtok [0x20, 0x3F] uri of
        None \<Rightarrow> None
      | Some (tok, _) \<Rightarrow> Some (if tok \<noteq> [0x2F] then tl tok else tok))"

definition find_http_uri_type :: "u8 list \<Rightarrow> u8" where
  "find_http_uri_type buf =
     (let has = (\<lambda>ext. occurs (chars ext) buf) in
      if has ''.htm'' \<or> has ''.html'' then PTYPE_HTML
      else if has ''.gif'' then PTYPE_GIF
      else if has ''.text'' \<or> has ''.txt'' then PTYPE_TEXT
      else if has ''.jpeg'' \<or> has ''.jpg'' then PTYPE_JPEG
      else if has ''.swf'' then PTYPE_FLASH
      else if has ''.cgi'' \<or> has ''.CGI'' then PTYPE_CGI
      else if has ''.json'' \<or> has ''.JSON'' then PTYPE_JSON
      else if has ''.js'' \<or> has ''.JS'' then PTYPE_JS
      else if has ''.CGI'' \<or> has ''.cgi'' then PTYPE_CGI
      else if has ''.xml'' \<or> has ''.XML'' then PTYPE_XML
      else if has ''.css'' \<or> has ''.CSS'' then PTYPE_CSS
      else if has ''.png'' \<or> has ''.PNG'' then PTYPE_PNG
      else if has ''.ico'' \<or> has ''.ICO'' then PTYPE_ICO
      else if has ''.ttf'' \<or> has ''.TTF'' then PTYPE_TTF
      else if has ''.otf'' \<or> has ''.OTF'' then PTYPE_OTF
      else if has ''.woff'' \<or> has ''.WOFF'' then PTYPE_WOFF
      else if has ''.eot'' \<or> has ''.EOT'' then PTYPE_EOT
      else if has ''.svg'' \<or> has ''.SVG'' then PTYPE_SVG
      else PTYPE_ERR)"

subsection \<open>Heads of responses\<close>

text \<open>The head for a type, or the null pointer.\<close>

definition type_head :: "u8 \<Rightarrow> u8 list option" where
  "type_head t =
     (if t = PTYPE_HTML then Some RES_HTMLHEAD_OK
      else if t = PTYPE_GIF then Some RES_GIFHEAD_OK
      else if t = PTYPE_TEXT then Some RES_TEXTHEAD_OK
      else if t = PTYPE_JPEG then Some RES_JPEGHEAD_OK
      else if t = PTYPE_FLASH then Some RES_FLASHHEAD_OK
      else if t = PTYPE_XML then Some RES_XMLHEAD_OK
      else if t = PTYPE_CSS then Some RES_CSSHEAD_OK
      else if t = PTYPE_JSON then Some RES_JSONHEAD_OK
      else if t = PTYPE_JS then Some RES_JSHEAD_OK
      else if t = PTYPE_CGI then Some RES_CGIHEAD_OK
      else if t = PTYPE_PNG then Some RES_PNGHEAD_OK
      else if t = PTYPE_ICO then Some RES_ICOHEAD_OK
      else if t = PTYPE_TTF then Some RES_TTFHEAD_OK
      else if t = PTYPE_OTF then Some RES_OTFHEAD_OK
      else if t = PTYPE_WOFF then Some RES_WOFFHEAD_OK
      else if t = PTYPE_EOT then Some RES_EOTHEAD_OK
      else if t = PTYPE_SVG then Some RES_SVGHEAD_OK
      else None)"

text \<open>The string that goes to \<open>buf\<close>; the digits and their terminator fit in the 10 bytes of \<open>tmp\<close>.\<close>

definition make_http_response_head :: "u8 \<Rightarrow> u32 \<Rightarrow> u8 list option" where
  "make_http_response_head t len =
     (let tmp = percent_d (unat len) in
      if 10 < length tmp + 1 then None
      else do { head \<leftarrow> type_head t; Some (head @ tmp @ CRLF @ CRLF) })"

subsection \<open>Parameters\<close>

text \<open>The string between two others.\<close>

definition mid :: "u8 list \<Rightarrow> u8 list \<Rightarrow> u8 list \<Rightarrow> u8 list option" where
  "mid src s1 s2 = do {
     sub1 \<leftarrow> strstr src s1;
     let sub1 = drop (length s1) sub1;
     sub2 \<leftarrow> strstr sub1 s2;
     let n = (of_nat (length sub1 - length sub2) :: u16);
     Some (take (unat n) sub1)
   }"

text \<open>
  \<open>uri\<close> is the array that holds the request; the result is the string in \<open>BUFPUB\<close> or the null pointer,
  the array and \<open>BUFPUB\<close>.
\<close>

definition param_to_buf :: "u8 list \<Rightarrow> nat \<Rightarrow> u8 list \<Rightarrow> u8 list option" where
  "param_to_buf name len BUFPUB = do {
     ret \<leftarrow> put_at 0 (take len name @ [0]) BUFPUB;
     ret \<leftarrow> unescape_http_url ret;
     Some (replacetochar ret 0x2B 0x20)
   }"

definition get_http_param_value ::
    "u8 list \<Rightarrow> u8 list \<Rightarrow> u8 list \<Rightarrow> (u8 list option \<times> u8 list \<times> u8 list) option" where
  "get_http_param_value uri param_name BUFPUB = do {
     tmp_buf \<leftarrow> mid uri (chars ''Content-Length: '') CRLF;
     if 10 < length tmp_buf + 1 then None
     else do {
       let content_len = ATOI tmp_buf 10;
       body \<leftarrow> strstr uri (CRLF @ CRLF);
       let start = length uri - length body + 4;
       uri \<leftarrow> put_at (start + unat content_len) [0] uri;
       case strstr (drop start uri) param_name of
         None \<Rightarrow> Some (None, uri, BUFPUB)
       | Some found \<Rightarrow> do {
           let name = drop (length param_name + 1) found;
           whole \<leftarrow> strlen name;
           let len = (of_nat (case strstr name [0x26] of None \<Rightarrow> whole | Some t \<Rightarrow> length name - length t) :: u16);
           BUFPUB \<leftarrow> (if len \<noteq> 0 then param_to_buf name (unat len) BUFPUB else put_at 0 [0] BUFPUB);
           ret \<leftarrow> cstr BUFPUB;
           Some (Some ret, uri, BUFPUB)
         }
     }
   }"

subsection \<open>Addresses\<close>

fun inet_addr_loop :: "nat \<Rightarrow> u8 list \<Rightarrow> u8 list option" where
  "inet_addr_loop 0 s = Some []"
| "inet_addr_loop (Suc i) s = do {
     (tok, s) \<leftarrow> strtok [0x2E] s;
     let num = (if take 2 tok = [0x30, 0x78] then ATOI (drop 2 tok) 0x10 else ATOI tok 10);
     ip \<leftarrow> inet_addr_loop i s;
     Some (ucast num # ip)
   }"

definition http_inet_addr :: "u8 list \<Rightarrow> u8 list option" where
  "http_inet_addr addr = (if 30 < length addr + 1 then None else inet_addr_loop 4 addr)"

end
