(* ===== verification/HttpServer.thy ===== *)
theory HttpServer
  imports Sends HttpParser
begin

text \<open>
  The HTTP server, \<open>Internet/httpServer/httpServer.c\<close> and \<open>httpUtil.c\<close>, on top of the stream calls, in the
  configuration of the header: no SD card, no data flash, no watchdog, debug output on (of which only the
  two register reads are modelled). The statics extend the record of the driver. The two buffers of the
  application are arrays; \<open>http_request\<close> and \<open>http_response\<close> are the receive buffer,
  \<open>parsed_http_request\<close> is the transmit buffer. The ghost field \<open>http_sent\<close> lists what was handed to
  \<open>send\<close> on which socket, latest first. \<open>None\<close> is a call that does not return, uses a null pointer or
  leaves an array.
\<close>

unbundle bit_operations_syntax

subsection \<open>Constants and state\<close>

definition DATA_BUF_SIZE :: nat where "DATA_BUF_SIZE = 2048"
definition INITIAL_WEBPAGE :: "u8 list" where "INITIAL_WEBPAGE = chars ''index.html''"
definition M_INITIAL_WEBPAGE :: "u8 list" where "M_INITIAL_WEBPAGE = chars ''m/index.html''"
definition MOBILE_INITIAL_WEBPAGE :: "u8 list" where "MOBILE_INITIAL_WEBPAGE = chars ''mobile/index.html''"
definition STATE_HTTP_IDLE :: u8 where "STATE_HTTP_IDLE = 0"
definition STATE_HTTP_RES_INPROC :: u8 where "STATE_HTTP_RES_INPROC = 3"
definition STATE_HTTP_RES_DONE :: u8 where "STATE_HTTP_RES_DONE = 4"
definition HTTP_FAILED :: u8 where "HTTP_FAILED = 0"
definition HTTP_OK :: u8 where "HTTP_OK = 1"
definition HTTP_RESET :: u8 where "HTTP_RESET = 2"
definition MAX_CONTENT_NAME_LEN :: nat where "MAX_CONTENT_NAME_LEN = 128"
definition MAX_CONTENT_CALLBACK :: nat where "MAX_CONTENT_CALLBACK = 20"

lemmas http_states = STATE_HTTP_IDLE_def STATE_HTTP_RES_INPROC_def STATE_HTTP_RES_DONE_def

datatype StorageType = NONE | CODEFLASH | SDCARD | DATAFLASH

record st_http_socket =
  sock_status :: u8
  file_name :: "u8 list"
  file_start :: u32
  file_len :: u32
  file_offset :: u32
  storage_type :: StorageType

record httpServer_webContent =
  content_name :: "u8 list"
  content_len :: u32
  content :: "u8 list"

text \<open>
  The registered contents are the first \<open>total_content_cnt\<close> entries of the table. The two processors of
  \<open>httpUtil.c\<close> are stubs without a return statement, for the application to fill in: they take the
  name (and the URI), and give their return value, the bytes they put at \<open>buf\<close> and the length.
\<close>

record 'w http_drv = "'w drv" +
  HTTPSock_Num :: "u8 list"
  pHTTP_TX :: "u8 list"
  pHTTP_RX :: "u8 list"
  httpServer_tick_1s :: u32
  HTTPSock_Status :: "st_http_socket list"
  web_content :: "httpServer_webContent list"
  HTTPServer_ReStart :: "'w \<Rightarrow> 'w"
  HTTPServer_WDT_Reset :: "'w \<Rightarrow> 'w"
  predefined_get_cgi_processor :: "u8 list \<Rightarrow> 'w \<Rightarrow> (u8 \<times> u8 list \<times> u16) \<times> 'w"
  predefined_set_cgi_processor :: "u8 list \<Rightarrow> u8 list \<Rightarrow> 'w \<Rightarrow> (u8 \<times> u8 list \<times> u16) \<times> 'w"
  http_sent :: "(u8 \<times> u8 list) list"

type_synonym ('w, 'm) http_proc = "('w, 'm) http_drv_scheme \<Rightarrow> ('w, 'm) http_drv_scheme"
type_synonym ('a, 'w, 'm) http_wait = "('w, 'm) http_drv_scheme \<Rightarrow> ('a \<times> ('w, 'm) http_drv_scheme) option"

definition WIZCHIP_SOCKETS :: nat where "WIZCHIP_SOCKETS = 8"

definition http_status :: "('w, 'm) http_drv_scheme \<Rightarrow> nat \<Rightarrow> st_http_socket" where
  "http_status s q = HTTPSock_Status s ! q"

definition set_http_status :: "nat \<Rightarrow> st_http_socket \<Rightarrow> ('w, 'm) http_proc" where
  "set_http_status q st s = s\<lparr>HTTPSock_Status := (HTTPSock_Status s)[q := st]\<rparr>"

definition put_rx :: "nat \<Rightarrow> u8 list \<Rightarrow> (unit, 'w, 'm) http_wait" where
  "put_rx i bs s = map_option (\<lambda>b. ((), s\<lparr>pHTTP_RX := b\<rparr>)) (put_at i bs (pHTTP_RX s))"

definition put_tx :: "nat \<Rightarrow> u8 list \<Rightarrow> (unit, 'w, 'm) http_wait" where
  "put_tx i bs s = map_option (\<lambda>b. ((), s\<lparr>pHTTP_TX := b\<rparr>)) (put_at i bs (pHTTP_TX s))"

subsection \<open>Set-up\<close>

fun httpServer_Sockinit :: "u8 list \<Rightarrow> nat \<Rightarrow> (unit, 'w, 'm) http_wait" where
  "httpServer_Sockinit socklist i s =
     (case socklist of [] \<Rightarrow> Some ((), s)
      | n # ns \<Rightarrow> if length (HTTPSock_Num s) \<le> i then None
                  else httpServer_Sockinit ns (i + 1) (s\<lparr>HTTPSock_Num := (HTTPSock_Num s)[i := n]\<rparr>))"

definition getHTTPSocketNum :: "('w, 'm) http_drv_scheme \<Rightarrow> u8 \<Rightarrow> u8 option" where
  "getHTTPSocketNum s seqnum =
     (if unat seqnum < length (HTTPSock_Num s) then Some (HTTPSock_Num s ! unat seqnum) else None)"

text \<open>\<open>None\<close> is the result -1.\<close>

definition getHTTPSequenceNum :: "('w, 'm) http_drv_scheme \<Rightarrow> u8 \<Rightarrow> nat option" where
  "getHTTPSequenceNum s sock = List.find (\<lambda>i. HTTPSock_Num s ! i = sock) [0..<WIZCHIP_SOCKETS]"

definition httpServer_init :: "u8 list \<Rightarrow> u8 list \<Rightarrow> u8 \<Rightarrow> u8 list \<Rightarrow> (unit, 'w, 'm) http_wait" where
  "httpServer_init tx_buf rx_buf cnt socklist s =
     (if length socklist < unat cnt then None
      else httpServer_Sockinit (take (unat cnt) socklist) 0 (s\<lparr>pHTTP_TX := tx_buf, pHTTP_RX := rx_buf\<rparr>))"

definition reg_httpServer_cbfunc :: "('w \<Rightarrow> 'w) option \<Rightarrow> ('w \<Rightarrow> 'w) option \<Rightarrow> ('w, 'm) http_proc" where
  "reg_httpServer_cbfunc mcu_reset wdt_reset s =
     (let s = (case mcu_reset of None \<Rightarrow> s | Some f \<Rightarrow> s\<lparr>HTTPServer_ReStart := f\<rparr>)
      in case wdt_reset of None \<Rightarrow> s | Some f \<Rightarrow> s\<lparr>HTTPServer_WDT_Reset := f\<rparr>)"

definition httpServer_time_handler :: "('w, 'm) http_proc" where
  "httpServer_time_handler s = s\<lparr>httpServer_tick_1s := httpServer_tick_1s s + 1\<rparr>"

definition get_httpServer_timecount :: "('w, 'm) http_drv_scheme \<Rightarrow> u32" where
  "get_httpServer_timecount s = httpServer_tick_1s s"

subsection \<open>Web contents\<close>

text \<open>Both strings are given, or the null pointer; \<open>malloc\<close> finds memory.\<close>

definition reg_httpServer_webContent :: "u8 list option \<Rightarrow> u8 list option \<Rightarrow> ('w, 'm) http_proc" where
  "reg_httpServer_webContent name data s =
     (case (name, data) of
        (Some name, Some data) \<Rightarrow>
          if MAX_CONTENT_CALLBACK \<le> length (web_content s) then s
          else s\<lparr>web_content := web_content s @
            [\<lparr>content_name = name, content_len = of_nat (length data), content = data\<rparr>]\<rparr>
      | _ \<Rightarrow> s)"

definition find_userReg_webContent :: "('w, 'm) http_drv_scheme \<Rightarrow> u8 list \<Rightarrow> (u16 \<times> u32) option" where
  "find_userReg_webContent s name =
     map_option (\<lambda>i. (of_nat i, content_len (web_content s ! i)))
       (List.find (\<lambda>i. name = content_name (web_content s ! i)) [0..<length (web_content s)])"

text \<open>What is put at \<open>buf\<close>; a content number equal to the count passes the check, and its entry is a null pointer.\<close>

definition read_userReg_webContent ::
    "u16 \<Rightarrow> u32 \<Rightarrow> u16 \<Rightarrow> (u16, 'w, 'm) http_wait" where
  "read_userReg_webContent num offset n s =
     (if length (web_content s) < unat num then Some (0, s)
      else if length (web_content s) = unat num then None
      else let data = content (web_content s ! unat num) in
        if length data < unat offset then None
        else do {
          let bs = take (unat n) (drop (unat offset) data);
          (_, s) \<leftarrow> put_rx 0 (bs @ replicate (unat n - length bs) 0 @ [0]) s;
          len \<leftarrow> strlen (pHTTP_RX s);
          Some (of_nat len, s)
        })"

subsection \<open>Responses\<close>

text \<open>A call of \<open>send\<close>, whose result the server ignores.\<close>

definition http_send :: "'w platform \<Rightarrow> u8 \<Rightarrow> u8 list \<Rightarrow> nat \<Rightarrow> (unit, 'w, 'm) http_wait" where
  "http_send p sn buf n s = do {
     let len = (of_nat n :: u16);
     (_, s) \<leftarrow> send p sn (Some buf) len s;
     Some ((), s\<lparr>http_sent := (sn, take (unat len) buf) # http_sent s\<rparr>)
   }"

text \<open>What is put into the receive buffer \<open>rx\<close>, with terminators, unless nothing is sent.\<close>

definition header_text :: "u8 \<Rightarrow> u32 \<Rightarrow> u16 \<Rightarrow> u8 list option option" where
  "header_text content_type body_len status =
     (if status = STATUS_OK then
        if content_type \<noteq> PTYPE_CGI \<and> content_type \<noteq> PTYPE_XML
        then map_option (\<lambda>t. Some (t @ [0])) (make_http_response_head content_type body_len)
        else Some None
      else if status = STATUS_BAD_REQ then Some (Some (ERROR_REQUEST_PAGE @ [0, 0]))
      else if status = STATUS_NOT_FOUND then Some (Some (ERROR_HTML_PAGE @ [0, 0]))
      else if status = 0 then Some None else Some (Some []))"

definition send_http_response_header :: "'w platform \<Rightarrow> u8 \<Rightarrow> u8 \<Rightarrow> u32 \<Rightarrow> u16 \<Rightarrow> (unit, 'w, 'm) http_wait" where
  "send_http_response_header p sn content_type body_len status s = do {
     t \<leftarrow> header_text content_type body_len status;
     case t of None \<Rightarrow> Some ((), s)
     | Some t \<Rightarrow> do {
         (_, s) \<leftarrow> put_rx 0 t s;
         n \<leftarrow> strlen (pHTTP_RX s);
         http_send p sn (pHTTP_RX s) n s
       }
   }"

text \<open>The length of the next part, whether it ends the response, and the file information.\<close>

definition body_part :: "u8 list \<Rightarrow> u32 \<Rightarrow> u32 \<Rightarrow> st_http_socket \<Rightarrow> (u32 \<times> bool \<times> st_http_socket) option" where
  "body_part uri_name start_addr len st =
     (let most = of_nat (DATA_BUF_SIZE - 1) in
      if file_len st = 0 then
        if most < len then
          if MAX_CONTENT_NAME_LEN < length uri_name + 1 then None
          else Some (most, False, st\<lparr>file_start := start_addr, file_len := len, file_name := uri_name\<rparr>)
        else Some (len, False, st)
      else let send_len = file_len st - file_offset st in
        if most < send_len then Some (most, False, st) else Some (send_len, True, st))"

definition send_http_response_body ::
    "'w platform \<Rightarrow> u8 \<Rightarrow> u8 list \<Rightarrow> u32 \<Rightarrow> u32 \<Rightarrow> (unit, 'w, 'm) http_wait" where
  "send_http_response_body p sn uri_name start_addr len s =
     (case getHTTPSequenceNum s sn of
        None \<Rightarrow> Some ((), s)
      | Some q \<Rightarrow> do {
          (send_len, fin, st) \<leftarrow> body_part uri_name start_addr len (http_status s q);
          let s = set_http_status q st s;
          (send_len, s) \<leftarrow> (if storage_type st = CODEFLASH then do {
              let start_addr = (if file_len st \<noteq> 0 then file_start st else start_addr);
              (_, s) \<leftarrow> read_userReg_webContent (ucast start_addr) (file_offset st) (ucast send_len) s;
              Some (send_len, s)
            } else Some (0, s));
          (fin, s) \<leftarrow> (if send_len \<noteq> 0 then do {
              (_, s) \<leftarrow> http_send p sn (pHTTP_RX s) (unat send_len) s;
              Some (fin, s)
            } else Some (True, s));
          let st = http_status s q;
          Some ((), set_http_status q
            (if fin then st\<lparr>file_start := 0, file_len := 0, file_offset := 0\<rparr>
             else st\<lparr>file_offset := file_offset st + send_len\<rparr>) s)
        })"

text \<open>\<open>sprintf\<close> into one buffer of a head and the string in the other.\<close>

definition cgi_text :: "u16 \<Rightarrow> u8 list \<Rightarrow> u8 list" where
  "cgi_text len body = RES_CGIHEAD_OK @ percent_d (unat len) @ CRLF @ CRLF @ body"

definition send_http_response_cgi_rx :: "'w platform \<Rightarrow> u8 \<Rightarrow> u16 \<Rightarrow> (unit, 'w, 'm) http_wait" where
  "send_http_response_cgi_rx p sn len s = do {
     body \<leftarrow> cstr (pHTTP_TX s);
     let t = cgi_text len body;
     (_, s) \<leftarrow> put_rx 0 (t @ [0]) s;
     http_send p sn (pHTTP_RX s) (length t) s
   }"

definition send_http_response_cgi_tx :: "'w platform \<Rightarrow> u8 \<Rightarrow> u16 \<Rightarrow> (unit, 'w, 'm) http_wait" where
  "send_http_response_cgi_tx p sn len s = do {
     body \<leftarrow> cstr (pHTTP_RX s);
     let t = cgi_text len body;
     (_, s) \<leftarrow> put_tx 0 (t @ [0]) s;
     http_send p sn (pHTTP_TX s) (length t) s
   }"

subsection \<open>CGI\<close>

definition http_get_cgi_handler :: "u8 list \<Rightarrow> (u8 \<times> u32, 'w, 'm) http_wait" where
  "http_get_cgi_handler uri_name s = do {
     let ((r, bs, len), w) = predefined_get_cgi_processor s uri_name (world s);
     (_, s) \<leftarrow> put_tx 0 bs (s\<lparr>world := w\<rparr>);
     if r \<noteq> 0 \<or> uri_name = chars ''example.cgi'' then Some ((HTTP_OK, ucast len), s)
     else Some ((HTTP_FAILED, 0), s)
   }"

definition http_post_cgi_handler :: "u8 list \<Rightarrow> (u8 \<times> u32, 'w, 'm) http_wait" where
  "http_post_cgi_handler uri_name s = do {
     let ((r, bs, len), w) = predefined_set_cgi_processor s uri_name (req_URI (pHTTP_TX s)) (world s);
     (_, s) \<leftarrow> put_rx 0 bs (s\<lparr>world := w\<rparr>);
     if r \<noteq> 0 then Some ((HTTP_OK, ucast len), s)
     else if uri_name = chars ''example.cgi'' then do {
       let text = percent_d 1;
       (_, s) \<leftarrow> put_rx 0 (text @ [0]) s;
       Some ((HTTP_OK, of_nat (length text)), s)
     } else Some ((HTTP_FAILED, 0), s)
   }"

definition cgi_fits :: "u32 \<Rightarrow> bool" where
  "cgi_fits len \<longleftrightarrow> unat len \<le> DATA_BUF_SIZE - (length RES_CGIHEAD_OK + 8)"

subsection \<open>The handler of a request\<close>

definition http_page :: "u8 list \<Rightarrow> u8 list" where
  "http_page name =
     (let name = (if name = [0x2F] then INITIAL_WEBPAGE else name);
          name = (if name = [0x6D] then M_INITIAL_WEBPAGE else name)
      in if name = chars ''mobile'' then MOBILE_INITIAL_WEBPAGE else name)"

definition http_get_page :: "'w platform \<Rightarrow> u8 \<Rightarrow> nat \<Rightarrow> u8 list \<Rightarrow> u8 \<Rightarrow> (unit, 'w, 'm) http_wait" where
  "http_get_page p sn q name t s =
     (case find_userReg_webContent s name of
        None \<Rightarrow> send_http_response_header p sn t 0 STATUS_NOT_FOUND s
      | Some (num, len) \<Rightarrow> do {
          let s = set_http_status q ((http_status s q)\<lparr>storage_type := CODEFLASH\<rparr>) s;
          (_, s) \<leftarrow> send_http_response_header p sn t len STATUS_OK s;
          send_http_response_body p sn name (ucast num) len s
        })"

definition http_get_cgi :: "'w platform \<Rightarrow> u8 \<Rightarrow> u8 list \<Rightarrow> (unit, 'w, 'm) http_wait" where
  "http_get_cgi p sn name s = do {
     ((found, len), s) \<leftarrow> http_get_cgi_handler name s;
     if found \<noteq> 0 \<and> cgi_fits len then send_http_response_cgi_rx p sn (ucast len) s
     else send_http_response_header p sn PTYPE_CGI 0 STATUS_NOT_FOUND s
   }"

definition http_get :: "'w platform \<Rightarrow> u8 \<Rightarrow> nat \<Rightarrow> (unit, 'w, 'm) http_wait" where
  "http_get p sn q s = do {
     uri \<leftarrow> cstr (req_URI (pHTTP_TX s));
     name \<leftarrow> get_http_uri_name uri;
     let name = http_page name;
     let t = find_http_uri_type name;
     (_, s) \<leftarrow> put_tx 1 [t] s;
     if t = PTYPE_CGI then http_get_cgi p sn name s else http_get_page p sn q name t s
   }"

definition http_post_cgi :: "'w platform \<Rightarrow> u8 \<Rightarrow> u8 list \<Rightarrow> (unit, 'w, 'm) http_wait" where
  "http_post_cgi p sn name s = do {
     ((found, len), s) \<leftarrow> http_post_cgi_handler name s;
     if found \<noteq> 0 \<and> cgi_fits len then do {
       (_, s) \<leftarrow> send_http_response_cgi_tx p sn (ucast len) s;
       Some ((), if found = HTTP_RESET then s\<lparr>world := HTTPServer_ReStart s (world s)\<rparr> else s)
     } else send_http_response_header p sn PTYPE_CGI 0 STATUS_NOT_FOUND s
   }"

definition http_post :: "'w platform \<Rightarrow> u8 \<Rightarrow> (unit, 'w, 'm) http_wait" where
  "http_post p sn s = do {
     name \<leftarrow> mid (req_URI (pHTTP_TX s)) [0x2F] (chars '' HTTP'');
     if MAX_URI_SIZE < length name + 1 then None
     else do {
       let t = find_http_uri_type name;
       (_, s) \<leftarrow> put_tx 1 [t] s;
       if t = PTYPE_CGI then http_post_cgi p sn name s
       else send_http_response_header p sn 0 0 STATUS_NOT_FOUND s
     }
   }"

definition http_process_handler :: "'w platform \<Rightarrow> u8 \<Rightarrow> (unit, 'w, 'm) http_wait" where
  "http_process_handler p sn s =
     (case getHTTPSequenceNum s sn of
        None \<Rightarrow> Some ((), s)
      | Some q \<Rightarrow>
          let method = req_METHOD (pHTTP_TX s) in
          if method = METHOD_HEAD \<or> method = METHOD_GET then http_get p sn q s
          else if method = METHOD_POST then http_post p sn s
          else send_http_response_header p sn 0 0 STATUS_BAD_REQ s)"

subsection \<open>The server\<close>

definition discon_step :: "'w platform \<Rightarrow> u8 \<Rightarrow> unit \<Rightarrow> (unit + unit, 'w, 'm) http_wait" where
  "discon_step p sn _ s = (let (v, s) = getSn_CR p sn s in Some (if v = 0 then Inl () else Inr (), s))"

definition http_disconnect :: "'w platform \<Rightarrow> u8 \<Rightarrow> (int, 'w, 'm) http_wait" where
  "http_disconnect p sn s = do {
     (_, s) \<leftarrow> forever (discon_step p sn) () (setSn_CR p sn Sn_CR_DISCON s);
     Some (SOCK_OK, s)
   }"

text \<open>
  A round of the wait for an empty transmit buffer. The timer interrupt may come at any time;
  only this loop looks at its counter, and \<open>tk i\<close> interrupts come before the look of round \<open>i\<close>.
\<close>

definition drain_step :: "'w platform \<Rightarrow> (nat \<Rightarrow> nat) \<Rightarrow> u8 \<Rightarrow> u32 \<Rightarrow> nat \<Rightarrow> (unit + nat, 'w, 'm) http_wait" where
  "drain_step p tk sn gettime i s = do {
     (fsr, s) \<leftarrow> getSn_TX_FSR p sn s;
     let (mx, s) = getSn_TxMAX p sn s;
     if fsr = mx then Some (Inl (), s)
     else let s = (httpServer_time_handler ^^ tk i) s
       in Some (if 3 < get_httpServer_timecount s - gettime then Inl () else Inr (i + 1), s)
   }"

text \<open>The request in the receive buffer is answered.\<close>

definition http_request_done :: "'w platform \<Rightarrow> (nat \<Rightarrow> nat) \<Rightarrow> u8 \<Rightarrow> nat \<Rightarrow> (unit, 'w, 'm) http_wait" where
  "http_request_done p tk sn q s = do {
     request \<leftarrow> parse_http_request (pHTTP_TX s) (pHTTP_RX s);
     let (_, s) = getSn_DIPR p sn (s\<lparr>pHTTP_TX := request\<rparr>);
     let (_, s) = getSn_DPORT p sn s;
     (_, s) \<leftarrow> http_process_handler p sn s;
     (_, s) \<leftarrow> forever (drain_step p tk sn (get_httpServer_timecount s)) 0 s;
     let st = http_status s q;
     Some ((), set_http_status q
       (st\<lparr>sock_status := (if 0 < file_len st then STATE_HTTP_RES_INPROC else STATE_HTTP_RES_DONE)\<rparr>) s)
   }"

definition http_idle :: "'w platform \<Rightarrow> (nat \<Rightarrow> nat) \<Rightarrow> u8 \<Rightarrow> nat \<Rightarrow> (unit, 'w, 'm) http_wait" where
  "http_idle p tk sn q s = do {
     (len, s) \<leftarrow> getSn_RX_RSR p sn s;
     if 0 < len then do {
       let len = (if of_nat DATA_BUF_SIZE < len then of_nat DATA_BUF_SIZE else len);
       ((ret, bs), s) \<leftarrow> recv p sn True len s;
       (_, s) \<leftarrow> put_rx 0 bs s;
       (_, s) \<leftarrow> put_rx (unat (of_int ret :: u16)) [0] s;
       http_request_done p tk sn q s
     } else Some ((), s)
   }"

definition http_inproc :: "'w platform \<Rightarrow> u8 \<Rightarrow> nat \<Rightarrow> (unit, 'w, 'm) http_wait" where
  "http_inproc p sn q s = do {
     (_, s) \<leftarrow> send_http_response_body p sn [] 0 0 s;
     let st = http_status s q;
     Some ((), if file_len st = 0 then set_http_status q (st\<lparr>sock_status := STATE_HTTP_RES_DONE\<rparr>) s else s)
   }"

definition http_done :: "'w platform \<Rightarrow> u8 \<Rightarrow> nat \<Rightarrow> (unit, 'w, 'm) http_wait" where
  "http_done p sn q s = do {
     let st = http_status s q;
     let s = set_http_status q
       (st\<lparr>file_len := 0, file_offset := 0, file_start := 0, sock_status := STATE_HTTP_IDLE\<rparr>) s;
     (_, s) \<leftarrow> http_disconnect p sn s;
     Some ((), s)
   }"

definition http_established :: "'w platform \<Rightarrow> (nat \<Rightarrow> nat) \<Rightarrow> u8 \<Rightarrow> nat \<Rightarrow> (unit, 'w, 'm) http_wait" where
  "http_established p tk sn q s =
     (let (ir, s) = getSn_IR p sn s;
          s = (if ir AND Sn_IR_CON \<noteq> 0 then setSn_IR p sn Sn_IR_CON s else s);
          st = sock_status (http_status s q)
      in if st = STATE_HTTP_IDLE then http_idle p tk sn q s
         else if st = STATE_HTTP_RES_INPROC then http_inproc p sn q s
         else if st = STATE_HTTP_RES_DONE then http_done p sn q s
         else Some ((), s))"

definition httpServer_run :: "'w platform \<Rightarrow> (nat \<Rightarrow> nat) \<Rightarrow> u8 \<Rightarrow> (unit, 'w, 'm) http_wait" where
  "httpServer_run p tk seqnum s = do {
     sn \<leftarrow> getHTTPSocketNum s seqnum;
     let (sr, s) = getSn_SR p sn s;
     if sr = SOCK_ESTABLISHED then http_established p tk sn (unat seqnum) s
     else if sr = SOCK_CLOSE_WAIT then do { (_, s) \<leftarrow> disconnect p sn s; Some ((), s) }
     else if sr = SOCK_CLOSED then let (_, s) = socket p sn Sn_MR_TCP HTTP_SERVER_PORT 0 s in Some ((), s)
     else if sr = SOCK_INIT then let (_, s) = listen p sn s in Some ((), s)
     else Some ((), s)
   }"

end
