(* ===== verification/Live.thy ===== *)
theory Live
  imports SockStream Scripted
begin

text \<open>
  Runs of a client on the scripted platform: rules that follow its stream calls on socket 0 call by
  call. The statics of the client are the field \<open>more\<close> of the record of the driver.
\<close>

unbundle bit_operations_syntax

text \<open>
  Socket 0 is open for TCP and the transport is healthy. What a call changes are the parameters: the
  trace, the rest of the script, and whether the socket is sending.
\<close>

definition live :: "event list \<Rightarrow> u8 list \<Rightarrow> u8 \<Rightarrow> 'm \<Rightarrow> (u8 list, 'm) drv_scheme" where
  "live tr w k m = drv.extend ((scripted_ready w)\<lparr>trace := tr, wizchip_transport_healthy := True,
     sock_mode := (\<lambda>_. Sn_MR_TCP), sock_is_sending := (\<lambda>_. 0)(0 := k)\<rparr>) m"

text \<open>Evaluation looks only where control is.\<close>

lemma bind_weak_cong: "m = m' \<Longrightarrow> Option.bind m f = Option.bind m' f"
  by simp

lemmas live_defs = live_def drv.extend_def run_defs reg_defs
lemmas live_cong = run_cong bind_weak_cong

lemma live_reads:
  "\<exists>t. getSn_SR scripted 0 (live tr (v # w) k m) = (v, live t w k m)"
  "\<exists>t. getSn_IR scripted 0 (live tr (i # w) k m) = (i AND 0x1F, live t w k m)"
  "\<exists>t. getSn_DIPR scripted 0 (live tr (a # b # c # d # w) k m) = ([a, b, c, d], live t w k m)"
  "\<exists>t. getSn_DPORT scripted 0 (live tr (a # b # w) k m) = (join16 a b, live t w k m)"
  "\<exists>t. getSn_TxMAX scripted 0 (live tr (2 # w) k m) = (2048, live t w k m)"
  by (simp_all add: live_defs getSn_TxMAX_def getSn_TXBUF_SIZE_def cong: live_cong)

lemma live_SR: "fst (getSn_SR scripted 0 (live tr (v # w) k m)) = v"
  using live_reads(1) by (metis fst_conv)

lemma live_sizes:
  "\<exists>t. getSn_RX_RSR scripted 0 (live tr (0 # 10 # 0 # 10 # w) k m) = Some (10, live t w k m)"
  "\<exists>t. getSn_TX_FSR scripted 0 (live tr (8 # 0 # 8 # 0 # w) k m) = Some (2048, live t w k m)"
  by (simp add: live_defs cong: live_cong, subst forever_code, simp add: live_defs cong: live_cong)+

text \<open>What the chip answers during a call of \<open>send\<close>, and during the next one.\<close>

definition send_script :: "u8 list" where "send_script = [8, 0, 8, 0, 0x17, 0, 16, 0]"

lemma live_send:
  assumes "n \<noteq> 0" and "n \<le> 2048"
  shows "\<exists>t. send scripted 0 (Some buf) n (live tr (0x17 # send_script @ w) 0 m) = Some (uint n, live t w 1 m)"
    and "\<exists>t. send scripted 0 (Some buf) n (live tr (0x17 # 0x10 # send_script @ w) 1 m)
      = Some (uint n, live t w 1 m)"
  using assms(1) assms(2) assms(2) [folded not_less]
  by (simp add: send_script_def send_def send_locked_def send_transfer_def sendok_probe_def live_defs cong: live_cong,
      subst forever_code, simp add: space_step_def live_defs cong: live_cong,
      subst forever_code, simp add: live_defs cong: live_cong)+

text \<open>A request of ten bytes.\<close>

lemma live_recv:
  assumes "length bs = 10"
  shows "\<exists>t. recv scripted 0 True 10 (live tr ([0, 10, 0, 10, 0x17, 0, 5] @ bs @ 0 # w) k m)
      = Some ((10, bs), live t w k m)"
proof -
  obtain b0 b1 b2 b3 b4 b5 b6 b7 b8 b9 where "bs = [b0, b1, b2, b3, b4, b5, b6, b7, b8, b9]"
    using assms by (auto simp: eval_nat_numeral length_Suc_conv)
  then show ?thesis
    by (simp add: recv_def recv_locked_def recv_transfer_def live_defs cong: live_cong,
        subst forever_code, simp add: data_step_def live_defs cong: live_cong,
        subst forever_code, simp add: live_defs cong: live_cong)
qed

text \<open>Following a run.\<close>

definition ends_in :: "('a \<times> 'b \<Rightarrow> bool) \<Rightarrow> ('a \<times> 'b) option \<Rightarrow> bool" where
  "ends_in P r \<longleftrightarrow> (\<exists>x. r = Some x \<and> P x)"

abbreviation ends :: "('a \<times> 'b) option \<Rightarrow> bool" where
  "ends r \<equiv> ends_in (\<lambda>_. True) r"

lemma ends_pair: "\<exists>t. r = (v, g t) \<Longrightarrow> (\<And>t. ends_in P (f v (g t))) \<Longrightarrow> ends_in P (case r of (v, s) \<Rightarrow> f v s)"
  by auto

lemma ends_bind: "\<exists>t. r = Some (v, g t) \<Longrightarrow> (\<And>t. ends_in P (f (v, g t))) \<Longrightarrow> ends_in P (Option.bind r f)"
  by auto

lemma bind_case: "Option.bind (case r of (a, b) \<Rightarrow> f a b) k = (case r of (a, b) \<Rightarrow> Option.bind (f a b) k)"
  by (simp add: case_prod_unfold)

lemmas live_follows = live_reads [THEN ends_pair] live_sizes [THEN ends_bind] live_recv [THEN ends_bind]
  live_send [THEN ends_bind]
lemmas live_flat = bind_case bind_assoc Let_def

end
