(* ===== verification/HttpRuns.thy ===== *)
theory HttpRuns
  imports HttpServer Live
begin

text \<open>
  Sequences of calls of the HTTP server, and two runs of it on the scripted platform that the
  witnesses use: a GET answered with a registered content, and a file resumed after its
  connection has gone.
\<close>

unbundle bit_operations_syntax

subsection \<open>Sequences of calls\<close>

text \<open>The calls of the application and of the timer.\<close>

datatype http_call = Http_run u8 "nat \<Rightarrow> nat" | Http_tick | Http_register "u8 list option" "u8 list option"

fun http_calls :: "'w platform \<Rightarrow> http_call list \<Rightarrow> (unit, 'w, 'm) http_wait" where
  "http_calls p [] s = Some ((), s)"
| "http_calls p (Http_run seq tk # cs) s = do { (_, s) \<leftarrow> httpServer_run p tk seq s; http_calls p cs s }"
| "http_calls p (Http_tick # cs) s = http_calls p cs (httpServer_time_handler s)"
| "http_calls p (Http_register name data # cs) s = http_calls p cs (reg_httpServer_webContent name data s)"

text \<open>Runs that find the socket in any state but \<open>SOCK_ESTABLISHED\<close>.\<close>

fun quiet_runs :: "'w platform \<Rightarrow> u8 \<Rightarrow> nat \<Rightarrow> (unit, 'w, 'm) http_wait" where
  "quiet_runs p seq 0 s = Some ((), s)"
| "quiet_runs p seq (Suc n) s = do {
     sn \<leftarrow> getHTTPSocketNum s seq;
     if fst (getSn_SR p sn s) = SOCK_ESTABLISHED then None
     else do { (_, s) \<leftarrow> httpServer_run p (\<lambda>_. 0) seq s; quiet_runs p seq n s }
   }"

subsection \<open>A server on the scripted platform\<close>

definition srv :: "event list \<Rightarrow> u8 list \<Rightarrow> u8 \<Rightarrow> httpServer_webContent list \<Rightarrow> u8 list \<Rightarrow> u8 list
    \<Rightarrow> st_http_socket list \<Rightarrow> (u8 \<times> u8 list) list \<Rightarrow> u8 list http_drv" where
  "srv tr w k web tx rx sts out = live tr w k
     \<lparr>HTTPSock_Num = [0, 1, 2, 3, 4, 5, 6, 7], pHTTP_TX = tx, pHTTP_RX = rx, httpServer_tick_1s = 0,
      HTTPSock_Status = sts, web_content = web, HTTPServer_ReStart = id, HTTPServer_WDT_Reset = id,
      predefined_get_cgi_processor = (\<lambda>_ w. ((0, [], 0), w)),
      predefined_set_cgi_processor = (\<lambda>_ _ w. ((0, [], 0), w)), http_sent = out\<rparr>"

lemma srv_fields [simp]:
  "HTTPSock_Num (srv tr w k web tx rx sts out) = [0, 1, 2, 3, 4, 5, 6, 7]"
  "pHTTP_TX (srv tr w k web tx rx sts out) = tx" "pHTTP_RX (srv tr w k web tx rx sts out) = rx"
  "HTTPSock_Status (srv tr w k web tx rx sts out) = sts" "web_content (srv tr w k web tx rx sts out) = web"
  "http_sent (srv tr w k web tx rx sts out) = out" "httpServer_tick_1s (srv tr w k web tx rx sts out) = 0"
  "(srv tr w k web tx rx sts out)\<lparr>pHTTP_TX := tx'\<rparr> = srv tr w k web tx' rx sts out"
  "(srv tr w k web tx rx sts out)\<lparr>pHTTP_RX := rx'\<rparr> = srv tr w k web tx rx' sts out"
  "(srv tr w k web tx rx sts out)\<lparr>HTTPSock_Status := sts'\<rparr> = srv tr w k web tx rx sts' out"
  "(srv tr w k web tx rx sts out)\<lparr>web_content := web'\<rparr> = srv tr w k web' tx rx sts out"
  "(srv tr w k web tx rx sts out)\<lparr>http_sent := out'\<rparr> = srv tr w k web tx rx sts out'"
  by (simp_all add: srv_def live_def drv.extend_def)

text \<open>The calls of the driver on it.\<close>

lemmas srv_follows = live_follows [where m = "\<lparr>HTTPSock_Num = [0, 1, 2, 3, 4, 5, 6, 7], pHTTP_TX = tx, pHTTP_RX = rx,
    httpServer_tick_1s = 0, HTTPSock_Status = sts, web_content = web,
    HTTPServer_ReStart = id :: u8 list \<Rightarrow> u8 list, HTTPServer_WDT_Reset = id,
    predefined_get_cgi_processor = (\<lambda>_ w. ((0, [], 0), w)),
    predefined_set_cgi_processor = (\<lambda>_ _ w. ((0, [], 0), w)), http_sent = out\<rparr>", folded srv_def]
  for web tx rx sts out

lemma srv_SR: "fst (getSn_SR scripted 0 (srv tr (v # w) k web tx rx sts out)) = v"
  unfolding srv_def by (rule live_SR)

text \<open>A registered page, and its request.\<close>

definition get_text :: "u8 list" where "get_text = chars ''GET /a.txt''"

definition no_file :: st_http_socket where
  "no_file = \<lparr>sock_status = STATE_HTTP_IDLE, file_name = [], file_start = 0, file_len = 0, file_offset = 0,
     storage_type = NONE\<rparr>"

definition http_start :: "u8 list \<Rightarrow> u8 list http_drv" where
  "http_start w = srv [] w 0 [] (replicate 16 0) (replicate 80 0) (replicate 8 no_file) []"

definition get_script :: "u8 list" where
  "get_script = [0x17, 0, 0, 10, 0, 10, 0, 10, 0, 10, 0x17, 0, 5] @ get_text @ [0, 1, 2, 3, 4, 0, 80]
     @ 0x17 # send_script @ 0x17 # 0x10 # send_script @ [8, 0, 8, 0, 2]"

definition get_calls :: "http_call list" where
  "get_calls = [Http_register (Some (chars ''a.txt'')) (Some (chars ''hi'')), Http_run 0 (\<lambda>_. 0), Http_tick]"

definition get_request :: "u8 list" where
  "get_request = METHOD_GET # 0 # chars ''/a.txt'' @ replicate 8 0"

definition get_head :: "u8 list" where
  "get_head = RES_TEXTHEAD_OK @ [0x32, 13, 10, 13, 10]"

text \<open>The pieces of the answer, computed.\<close>

lemma get_parts:
  "parse_http_request (replicate 16 0) (get_text @ 0 # replicate 69 0) = Some get_request"
  "req_METHOD get_request = METHOD_GET"
  "cstr (req_URI get_request) = Some (chars ''/a.txt'')"
  "get_http_uri_name (chars ''/a.txt'') = Some (chars ''a.txt'')"
  "http_page (chars ''a.txt'') = chars ''a.txt''"
  "find_http_uri_type (chars ''a.txt'') = PTYPE_TEXT"
  "make_http_response_head PTYPE_TEXT 2 = Some get_head"
  "strlen (get_head @ 0 # replicate 15 0) = Some (length get_head)"
  "put_at 0 get_text (replicate 80 0) = Some (get_text @ replicate 70 0)"
  "put_at 10 [0] (get_text @ replicate 70 0) = Some (get_text @ 0 # replicate 69 0)"
  "put_at (Suc 0) [PTYPE_TEXT] get_request = Some (METHOD_GET # PTYPE_TEXT # drop 2 get_request)"
  "put_at 0 (get_head @ [0]) (get_text @ 0 # replicate 69 0) = Some (get_head @ 0 # replicate 15 0)"
  "strlen (chars ''hi'' @ 0 # drop 3 get_head @ 0 # replicate 15 0) = Some 2"
  "length (chars ''hi'') = 2" "PTYPE_TEXT \<noteq> PTYPE_CGI" "PTYPE_TEXT \<noteq> PTYPE_XML"
  "length get_head = 64" "length get_text = 10"
  "put_at 0 (chars ''hi'' @ [0]) (get_head @ 0 # replicate 15 0) = Some (chars ''hi'' @ 0 # drop 3 get_head @ 0 # replicate 15 0)"
  by code_simp+

lemma srv_number: "getHTTPSequenceNum (srv tr w k web tx rx sts out) 0 = Some 0"
  by (simp add: getHTTPSequenceNum_def WIZCHIP_SOCKETS_def upt_conv_Cons)

lemma srv_content: "find_userReg_webContent (srv tr w k [c] tx rx sts out) (content_name c) = Some (0, content_len c)"
  by (simp add: find_userReg_webContent_def)

lemma get_run: "ends (http_calls scripted get_calls (http_start get_script))"
  unfolding get_calls_def http_start_def get_script_def
  apply (simp add: reg_httpServer_webContent_def MAX_CONTENT_CALLBACK_def httpServer_run_def getHTTPSocketNum_def
    live_flat cong: live_cong)
  apply (rule srv_follows)
  apply (simp add: http_established_def http_status_def live_flat no_file_def cong: live_cong)
  apply (rule srv_follows)
  apply (simp add: http_established_def http_status_def set_http_status_def http_idle_def http_states live_flat cong: live_cong)
  apply (rule srv_follows)
  apply (simp add: DATA_BUF_SIZE_def live_flat cong: live_cong)
  apply (rule srv_follows [simplified], simp add: get_parts)
  apply (simp add: put_rx_def get_parts live_flat cong: live_cong)
  apply (simp add: http_request_done_def get_parts live_flat cong: live_cong)
  apply (rule srv_follows)
  apply (simp add: live_flat cong: live_cong)
  apply (rule srv_follows)
  apply (simp add: http_process_handler_def srv_number http_get_def get_parts METHOD_GET_def METHOD_HEAD_def put_tx_def live_flat cong: live_cong)
  apply (simp add: http_get_page_def srv_content [of _ _ _ "\<lparr>content_name = chars ''a.txt'', content_len = c, content = x\<rparr>" for c x, simplified] get_parts set_http_status_def http_status_def live_flat cong: live_cong)
  apply (simp add: send_http_response_header_def header_text_def get_parts STATUS_OK_def put_rx_def live_flat cong: live_cong)
  apply (simp add: http_send_def get_parts live_flat cong: live_cong)
  apply (rule srv_follows, simp, simp)
  apply (simp add: send_http_response_body_def srv_number body_part_def DATA_BUF_SIZE_def http_status_def set_http_status_def
     read_userReg_webContent_def get_parts put_rx_def live_flat cong: live_cong)
  apply (simp add: http_send_def get_parts live_flat cong: live_cong)
  apply (rule srv_follows, simp, simp)
  apply (simp add: http_status_def set_http_status_def live_flat cong: live_cong)
  apply (subst forever_code)
  apply (simp add: drain_step_def live_flat cong: live_cong)
  apply (rule srv_follows)
  apply (simp add: live_flat cong: live_cong)
  apply (rule srv_follows)
  apply (simp add: http_status_def set_http_status_def httpServer_time_handler_def ends_in_def live_flat cong: live_cong)
  done

text \<open>A file of 2,050 bytes with its last three still to send, and the socket listening again.\<close>

definition long_page :: httpServer_webContent where
  "long_page = \<lparr>content_name = chars ''a.txt'', content_len = 2050, content = replicate 2050 7\<rparr>"

definition half_sent :: st_http_socket where
  "half_sent = \<lparr>sock_status = STATE_HTTP_RES_INPROC, file_name = chars ''a.txt'', file_start = 0, file_len = 2050,
     file_offset = 2047, storage_type = CODEFLASH\<rparr>"

definition http_half :: "u8 list \<Rightarrow> u8 list http_drv" where
  "http_half w = srv [] w 0 [long_page] (replicate 16 0) (replicate 80 0) (half_sent # replicate 7 no_file) []"

lemma quiet_listening:
  "\<exists>tr. quiet_runs scripted 0 1 (srv [] (0x14 # w) 0 web tx rx sts out) = Some ((), srv tr w 0 web tx rx sts out)"
proof -
  have "\<exists>tr. getSn_SR scripted 0 (srv [] (0x14 # w) 0 web tx rx sts out) = (0x14, srv tr w 0 web tx rx sts out)"
    unfolding srv_def by (rule live_reads(1))
  then show ?thesis by (auto simp: httpServer_run_def getHTTPSocketNum_def)
qed

lemma resumed_run:
  "ends (httpServer_run scripted (\<lambda>_. 0) 0 (srv tr (0x17 # 0 # 0x17 # send_script @ w) 0 [long_page] (replicate 16 0)
    (replicate 80 0) (half_sent # replicate 7 no_file) []))"
  apply (simp add: httpServer_run_def getHTTPSocketNum_def live_flat cong: live_cong)
  apply (rule srv_follows)
  apply (simp add: http_established_def http_status_def live_flat cong: live_cong)
  apply (rule srv_follows)
  apply (simp add: http_status_def half_sent_def http_states http_inproc_def send_http_response_body_def srv_number
      set_http_status_def body_part_def DATA_BUF_SIZE_def live_flat cong: live_cong)
  apply (simp add: read_userReg_webContent_def long_page_def put_rx_def live_flat cong: live_cong)
  apply (simp add: put_at_def strlen_def cstr_def upto_nul_def http_send_def live_flat cong: live_cong)
  apply (rule srv_follows, simp, simp)
  apply (simp add: http_status_def set_http_status_def ends_in_def live_flat)
  done

end
