(* ===== verification/Statics.thy ===== *)
theory Statics
  imports Sends SockStream
begin

text \<open>
  The stream calls and the register accessors leave the statics of a client alone, the field \<open>more\<close> of
  the record of the driver: rules that carry any property of them over a call.
\<close>

unbundle bit_operations_syntax

named_theorems stream_calls "calls of the driver that keep the statics of a client"

lemma statics_isolated: "isolated sn s s' \<Longrightarrow> statics s s'"
  by (simp add: statics_def isolated_def)

lemma wpt_statics:
  "\<lbrakk>wpt m (\<lambda>_. isolated sn s); \<And>v s'. statics s s' \<Longrightarrow> Q v s'\<rbrakk> \<Longrightarrow> wpt m Q"
  by (erule wpt_mono) (blast dest: statics_isolated)

lemma wpo_statics:
  "\<lbrakk>wpo m (\<lambda>_. isolated sn s); \<And>v s'. statics s s' \<Longrightarrow> Q v s'\<rbrakk> \<Longrightarrow> wpo m Q"
  by (erule wpo_mono) (blast dest: statics_isolated)

lemma stream_operations [stream_calls]:
  "(\<And>v s'. statics s s' \<Longrightarrow> Q1 v s') \<Longrightarrow> wpo (send p sn b n s) Q1"
  "(\<And>v s'. statics s s' \<Longrightarrow> Q2 v s') \<Longrightarrow> wpo (recv p sn out n s) Q2"
  "(\<And>v s'. statics s s' \<Longrightarrow> Q3 v s') \<Longrightarrow> wpo (disconnect p sn s) Q3"
  "(\<And>v s'. statics s s' \<Longrightarrow> Q4 v s') \<Longrightarrow> wpt (socket p sn proto port flag s) Q4"
  "(\<And>v s'. statics s s' \<Longrightarrow> Q5 v s') \<Longrightarrow> wpt (listen p sn s) Q5"
  "(\<And>v s'. statics s s' \<Longrightarrow> Q6 v s') \<Longrightarrow> wpo (connect_W5x00 p sn ip port s) Q6"
  unfolding connect_W5x00_def
  by (rule wpo_statics wpt_statics,
      rule isolation.A_send isolation.A_recv isolation.A_disconnect isolation.A_socket isolation.A_listen
        isolation.A_connect,
      rule isolation.A_refl, assumption, blast)+

lemma stream_registers:
  "(\<And>v s'. statics s s' \<Longrightarrow> Q1 v s') \<Longrightarrow> wpt (WIZCHIP_READ p a s) Q1"
  "(\<And>v s'. statics s s' \<Longrightarrow> Q2 v s') \<Longrightarrow> wpt (WIZCHIP_READ_BUF p a True n s) Q2"
  "(\<And>v s'. statics s s' \<Longrightarrow> Q3 v s') \<Longrightarrow> wpt (wizchip_read16_5500_value p a s) Q3"
  by (rule wpt_statics, rule isolation.R_READ isolation.R_READ_BUF isolation.R_read16_value,
      rule isolation.R_refl, assumption, blast)+

lemma stream_reads [stream_calls]:
  "(\<And>v s'. statics s s' \<Longrightarrow> Q1 v s') \<Longrightarrow> wpo (getSn_RX_RSR p sn s) Q1"
  "(\<And>v s'. statics s s' \<Longrightarrow> Q2 v s') \<Longrightarrow> wpo (getSn_TX_FSR p sn s) Q2"
  "(\<And>v s'. statics s s' \<Longrightarrow> Q3 v s') \<Longrightarrow> wpt (getSn_SR p sn s) Q3"
  "(\<And>v s'. statics s s' \<Longrightarrow> Q4 v s') \<Longrightarrow> wpt (getSn_IR p sn s) Q4"
  "(\<And>v s'. statics s s' \<Longrightarrow> Q5 v s') \<Longrightarrow> wpt (getSn_CR p sn s) Q5"
  "(\<And>v s'. statics s s' \<Longrightarrow> Q6 v s') \<Longrightarrow> wpt (getSn_DIPR p sn s) Q6"
  "(\<And>v s'. statics s s' \<Longrightarrow> Q7 v s') \<Longrightarrow> wpt (getSn_DPORT p sn s) Q7"
  "(\<And>v s'. statics s s' \<Longrightarrow> Q8 v s') \<Longrightarrow> wpt (getSn_TxMAX p sn s) Q8"
  unfolding getSn_SR_def getSn_IR_def getSn_CR_def getSn_DIPR_def getSn_DPORT_def getSn_TxMAX_def getSn_TXBUF_SIZE_def
  by (rule wpo_statics, rule isolation.R_RX_RSR isolation.R_TX_FSR, rule isolation.R_refl, assumption, blast)+
    (auto intro!: wp stream_registers)

lemma stream_writes [simp]:
  "statics s (setSn_CR p sn v s)" "statics s (setSn_IR p sn v s)"
  unfolding setSn_CR_def setSn_IR_def
  by (rule statics_isolated, rule isolation.R_WRITE, rule isolation.R_refl)+

end
