(* ===== verification/HttpProps.thy ===== *)
theory HttpProps
  imports HttpRuns Statics
begin

text \<open>
  The HTTP server as a sequence of responses: between two idle states a sequence number hands one
  complete response to \<open>send\<close>, whatever the number of runs it takes.
\<close>

unbundle bit_operations_syntax

subsection \<open>Responses\<close>

text \<open>What was handed to \<open>send\<close> on a socket, in order.\<close>

definition http_out :: "u8 \<Rightarrow> ('w, 'm) http_drv_scheme \<Rightarrow> u8 list" where
  "http_out sn s = concat (map snd (filter (\<lambda>x. fst x = sn) (rev (http_sent s))))"

text \<open>The head of a page; CGI and XML pages have none.\<close>

definition page_head :: "u8 \<Rightarrow> u32 \<Rightarrow> u8 list option" where
  "page_head t len = (if t = PTYPE_CGI \<or> t = PTYPE_XML then Some [] else make_http_response_head t len)"

definition content_head :: "httpServer_webContent \<Rightarrow> u8 list option" where
  "content_head c = page_head (find_http_uri_type (content_name c)) (content_len c)"

text \<open>A complete response, and a page whose rest is still to be sent.\<close>

definition http_answer :: "httpServer_webContent list \<Rightarrow> u8 list \<Rightarrow> bool" where
  "http_answer web r \<longleftrightarrow> r = ERROR_REQUEST_PAGE \<or> r = ERROR_HTML_PAGE \<or> (\<exists>len body. r = cgi_text len body)
     \<or> (\<exists>c h. c \<in> set web \<and> content_head c = Some h \<and> r = h @ content c)"

definition sending :: "httpServer_webContent list \<Rightarrow> st_http_socket \<Rightarrow> u8 list \<Rightarrow> bool" where
  "sending web st r \<longleftrightarrow> storage_type st = CODEFLASH \<and> 0 < file_offset st \<and> file_offset st < file_len st
     \<and> (\<exists>k h. k < length web \<and> file_start st = of_nat k \<and> file_len st = content_len (web ! k)
         \<and> content_head (web ! k) = Some h \<and> r = h @ take (unat (file_offset st)) (content (web ! k)))"

definition web_ok :: "httpServer_webContent list \<Rightarrow> bool" where
  "web_ok web \<longleftrightarrow> length web \<le> MAX_CONTENT_CALLBACK
     \<and> (\<forall>c\<in>set web. content_len c = of_nat (length (content c)) \<and> length (content c) < 2 ^ 32)"

text \<open>What a stretch of the code hands to \<open>send\<close>, and the file information it leaves.\<close>

definition http_step ::
    "u8 \<Rightarrow> u8 list \<Rightarrow> st_http_socket list \<Rightarrow> ('w, 'm) http_drv_scheme \<Rightarrow> ('w, 'm) http_drv_scheme \<Rightarrow> bool" where
  "http_step sn bs sts s s' \<longleftrightarrow> HTTPSock_Num s' = HTTPSock_Num s \<and> web_content s' = web_content s
     \<and> HTTPSock_Status s' = sts \<and> length (pHTTP_RX s') = length (pHTTP_RX s)
     \<and> length (pHTTP_TX s') = length (pHTTP_TX s)
     \<and> (\<forall>m. http_out m s' = http_out m s @ (if m = sn then bs else []))"

lemma http_step_refl: "http_step sn [] (HTTPSock_Status s) s s"
  by (simp add: http_step_def)

lemma http_kept:
  fixes s t :: "('w, 'm) http_drv_scheme"
  assumes "statics s t"
  shows "HTTPSock_Num t = HTTPSock_Num s" "web_content t = web_content s" "HTTPSock_Status t = HTTPSock_Status s"
    "pHTTP_RX t = pHTTP_RX s" "pHTTP_TX t = pHTTP_TX s" "http_sent t = http_sent s"
  using assms by (cases s; cases t; simp add: statics_def)+

lemma http_step_statics: "\<lbrakk>http_step sn bs sts s t; statics t u\<rbrakk> \<Longrightarrow> http_step sn bs sts s u"
  by (simp add: http_step_def http_kept http_out_def)

lemma http_step_set:
  "http_step sn bs sts s t \<Longrightarrow> http_step sn bs (sts[q := st]) s (set_http_status q st t)"
  by (simp add: http_step_def http_out_def set_http_status_def)

lemma http_step_fields [simp]:
  "http_step sn bs sts s (t\<lparr>world := w\<rparr>) = http_step sn bs sts s t"
  "http_step sn bs sts s (t\<lparr>httpServer_tick_1s := k\<rparr>) = http_step sn bs sts s t"
  by (simp_all add: http_step_def http_out_def)

lemma http_step_put:
  assumes "http_step sn bs sts s t"
  shows "wpo (put_rx i b t) (\<lambda>_ u. http_step sn bs sts s u \<and> put_at i b (pHTTP_RX t) = Some (pHTTP_RX u))"
    and "wpo (put_tx i b t) (\<lambda>_ u. http_step sn bs sts s u \<and> put_at i b (pHTTP_TX t) = Some (pHTTP_TX u))"
  using assms by (auto simp: put_rx_def put_tx_def wpo_def http_step_def http_out_def dest: put_at_length)

lemma http_step_send:
  assumes "http_step sn bs sts s t" and "n < 65536"
  shows "wpo (http_send p sn buf n t) (\<lambda>_. http_step sn (bs @ take n buf) sts s)"
proof -
  have n: "unat (of_nat n :: u16) = n" using assms(2) by (simp add: unsigned_of_nat take_bit_nat_eq_self)
  have "http_step sn (bs @ take n buf) sts s (u\<lparr>http_sent := (sn, take n buf) # http_sent u\<rparr>)" if "statics t u" for u
    using http_step_statics [OF assms(1) that] by (auto simp: http_step_def http_out_def)
  then show ?thesis
    unfolding http_send_def Let_def n by (auto intro!: wp stream_calls)
qed

text \<open>No head and no error page holds a zero.\<close>

lemma pages_no_nul: "0 \<notin> set ERROR_HTML_PAGE" "0 \<notin> set ERROR_REQUEST_PAGE"
  by code_simp+

lemma heads_no_nul: "type_head t = Some h \<Longrightarrow> 0 \<notin> set h"
proof -
  have "\<forall>h\<in>set [RES_HTMLHEAD_OK, RES_TEXTHEAD_OK, RES_GIFHEAD_OK, RES_JPEGHEAD_OK, RES_PNGHEAD_OK,
      RES_FLASHHEAD_OK, RES_XMLHEAD_OK, RES_CSSHEAD_OK, RES_JSHEAD_OK, RES_JSONHEAD_OK, RES_ICOHEAD_OK,
      RES_CGIHEAD_OK, RES_TTFHEAD_OK, RES_OTFHEAD_OK, RES_WOFFHEAD_OK, RES_EOTHEAD_OK, RES_SVGHEAD_OK]. 0 \<notin> set h"
    by code_simp
  then show "type_head t = Some h \<Longrightarrow> ?thesis"
    unfolding type_head_def by (simp split: if_splits)
qed

lemma response_head_no_nul: "make_http_response_head t len = Some h \<Longrightarrow> 0 \<notin> set h"
  unfolding make_http_response_head_def Let_def CRLF_def
  by (auto simp: bind_eq_Some_conv percent_d_no_nul dest: heads_no_nul split: if_splits)

lemma put_at_0: "put_at 0 b mem = Some mem' \<Longrightarrow> mem' = b @ drop (length b) mem"
  by (simp add: put_at_def split: if_splits)

lemma header_step:
  assumes "http_step sn bs sts s t" and "length (pHTTP_RX s) < 65536"
    and "header_text ty len status = Some (Some (h @ 0 # slack))" and "0 \<notin> set h"
  shows "wpo (send_http_response_header p sn ty len status t) (\<lambda>_. http_step sn (bs @ h) sts s)"
proof -
  have "wpo (do { n \<leftarrow> strlen (pHTTP_RX u); http_send p sn (pHTTP_RX u) n u }) (\<lambda>_. http_step sn (bs @ h) sts s)"
    if u: "http_step sn bs sts s u" "put_at 0 (h @ 0 # slack) (pHTTP_RX t) = Some (pHTTP_RX u)" for u
  proof -
    have rx: "pHTTP_RX u = h @ 0 # slack @ drop (length (h @ 0 # slack)) (pHTTP_RX t)"
      using put_at_0 [OF u(2)] by simp
    then have "strlen (pHTTP_RX u) = Some (length h)" "take (length h) (pHTTP_RX u) = h"
      using assms(4) by simp_all
    moreover have "length h < 65536"
      using rx u(1) assms(2) by (simp add: http_step_def)
    ultimately show ?thesis
      using http_step_send [OF u(1), of "length h" p "pHTTP_RX u"] by simp
  qed
  then show ?thesis
    unfolding send_http_response_header_def assms(3)
    by (auto intro!: wp wpo_mono [OF http_step_put(1) [OF assms(1)]])
qed

lemma header_sent:
  assumes "http_step sn bs sts s t" and "length (pHTTP_RX s) < 65536"
  shows "wpo (send_http_response_header p sn ty len STATUS_OK t)
      (\<lambda>_ u. \<exists>h. page_head ty len = Some h \<and> http_step sn (bs @ h) sts s u)"
    and "wpo (send_http_response_header p sn ty len STATUS_BAD_REQ t) (\<lambda>_. http_step sn (bs @ ERROR_REQUEST_PAGE) sts s)"
    and "wpo (send_http_response_header p sn ty len STATUS_NOT_FOUND t) (\<lambda>_. http_step sn (bs @ ERROR_HTML_PAGE) sts s)"
proof -
  show "wpo (send_http_response_header p sn ty len STATUS_OK t)
      (\<lambda>_ u. \<exists>h. page_head ty len = Some h \<and> http_step sn (bs @ h) sts s u)"
  proof (cases "header_text ty len STATUS_OK")
    case None
    then show ?thesis by (simp add: send_http_response_header_def wp)
  next
    case (Some x)
    consider "x = None" "page_head ty len = Some []"
      | h where "make_http_response_head ty len = Some h" "x = Some (h @ [0])" "page_head ty len = Some h"
      using Some by (auto simp: header_text_def page_head_def split: if_splits)
    then show ?thesis
    proof cases
      case 1
      then show ?thesis
        using assms(1) Some by (simp add: send_http_response_header_def wpo_def)
    next
      case 2
      then show ?thesis
        using header_step [OF assms, of ty len STATUS_OK h "[]"] Some response_head_no_nul by simp
    qed
  qed
  show "wpo (send_http_response_header p sn ty len STATUS_BAD_REQ t) (\<lambda>_. http_step sn (bs @ ERROR_REQUEST_PAGE) sts s)"
    by (rule header_step [OF assms _ pages_no_nul(2), where slack = "[0]"])
      (simp add: header_text_def STATUS_OK_def STATUS_BAD_REQ_def)
  show "wpo (send_http_response_header p sn ty len STATUS_NOT_FOUND t) (\<lambda>_. http_step sn (bs @ ERROR_HTML_PAGE) sts s)"
    by (rule header_step [OF assms _ pages_no_nul(1), where slack = "[0]"])
      (simp add: header_text_def STATUS_OK_def STATUS_BAD_REQ_def STATUS_NOT_FOUND_def)
qed

lemma wpo_bind_value: "(\<And>v. m = Some v \<Longrightarrow> wpo (f v) Q) \<Longrightarrow> wpo (Option.bind m f) Q"
  by (cases m) (simp_all add: wpo_def)

text \<open>A part of a content, as it is read and as it is sent.\<close>

lemma read_step:
  assumes "http_step sn bs sts s t" and "unat k < length (web_content s)"
    and "unat off + unat n \<le> length (content (web_content s ! unat k))"
  shows "wpo (read_userReg_webContent k off n t) (\<lambda>_ u. http_step sn bs sts s u
    \<and> take (unat n) (pHTTP_RX u) = take (unat n) (drop (unat off) (content (web_content s ! unat k))))"
proof -
  have web: "web_content t = web_content s" using assms(1) by (simp add: http_step_def)
  let ?b = "take (unat n) (drop (unat off) (content (web_content s ! unat k)))"
  have len: "length ?b = unat n" using assms(3) by simp
  have "wpo (do { m \<leftarrow> strlen (pHTTP_RX u); Some (of_nat m :: u16, u) })
      (\<lambda>_ u. http_step sn bs sts s u \<and> take (unat n) (pHTTP_RX u) = ?b)"
    if "http_step sn bs sts s u" "put_at 0 (?b @ [0]) (pHTTP_RX t) = Some (pHTTP_RX u)"
    for u :: "('a, 'b) http_drv_scheme"
    using put_at_0 [OF that(2)] len that(1) by (auto intro!: wp wpo_bind_value)
  then show ?thesis
    unfolding read_userReg_webContent_def web Let_def using assms(2,3) len
    by (auto intro!: wp wpo_mono [OF http_step_put(1) [OF assms(1)]])
qed

definition after_part :: "u32 \<times> bool \<times> st_http_socket \<Rightarrow> st_http_socket" where
  "after_part x = (case x of (n, fin, st) \<Rightarrow>
     if fin \<or> n = 0 then st\<lparr>file_start := 0, file_len := 0, file_offset := 0\<rparr>
     else st\<lparr>file_offset := file_offset st + n\<rparr>)"

lemma http_step_status: "http_step sn bs sts s t \<Longrightarrow> http_status t q = sts ! q"
  by (simp add: http_step_def http_status_def)

lemma http_step_sequence: "http_step sn bs sts s t \<Longrightarrow> getHTTPSequenceNum t n = getHTTPSequenceNum s n"
  by (simp add: http_step_def getHTTPSequenceNum_def)

lemma body_step:
  fixes s t :: "('w, 'm) http_drv_scheme" and k :: u16
  assumes step: "http_step sn bs sts s t" and q: "getHTTPSequenceNum s sn = Some q" "q < length sts"
    and part: "body_part name start len (sts ! q) = Some (n, fin, st)" and st: "storage_type st = CODEFLASH"
    and k: "k = ucast (if file_len st \<noteq> 0 then file_start st else start)" "unat k < length (web_content s)"
    and n: "unat (file_offset st) + unat n \<le> length (content (web_content s ! unat k))" "unat n < 65536"
  shows "wpo (send_http_response_body p sn name start len t)
    (\<lambda>_. http_step sn (bs @ take (unat n) (drop (unat (file_offset st)) (content (web_content s ! unat k))))
      (sts[q := after_part (n, fin, st)]) s)"
proof -
  let ?b = "take (unat n) (drop (unat (file_offset st)) (content (web_content s ! unat k)))"
  have n': "unat (ucast n :: u16) = unat n" using n(2) by (simp add: unsigned_ucast_eq take_bit_nat_eq_self)
  have set1: "http_step sn bs (sts[q := st]) s (set_http_status q st t)"
    by (rule http_step_set [OF step])
  have read: "wpo (read_userReg_webContent k (file_offset st) (ucast n) (set_http_status q st t))
      (\<lambda>_ u. http_step sn bs (sts[q := st]) s u \<and> take (unat n) (pHTTP_RX u) = ?b)"
    using read_step [OF set1 k(2), of "file_offset st" "ucast n"] n(1) n' by simp
  have sent: "wpo (http_send p sn (pHTTP_RX u) (unat n) u) (\<lambda>_. http_step sn (bs @ ?b) (sts[q := st]) s)"
    if "http_step sn bs (sts[q := st]) s u" "take (unat n) (pHTTP_RX u) = ?b" for u
    using http_step_send [OF that(1) n(2), of p "pHTTP_RX u"] that(2) by simp
  have stop: "http_step sn b (sts[q := after_part (n, fin, st)]) s
      (set_http_status q ((http_status u q)\<lparr>file_start := 0, file_len := 0, file_offset := 0\<rparr>) u)"
    if "http_step sn b (sts[q := st]) s u" "fin \<or> n = 0" for b u
    using http_step_set [OF that(1), of q] http_step_status [OF that(1), of q] q(2) that(2)
    by (simp add: after_part_def)
  have more: "http_step sn b (sts[q := after_part (n, fin, st)]) s
      (set_http_status q ((http_status u q)\<lparr>file_offset := file_offset (http_status u q) + n\<rparr>) u)"
    if "http_step sn b (sts[q := st]) s u" "\<not> fin" "n \<noteq> 0" for b u
    using http_step_set [OF that(1), of q] http_step_status [OF that(1), of q] q(2) that(2,3)
    by (simp add: after_part_def)
  show ?thesis
    unfolding send_http_response_body_def http_step_sequence [OF step] q(1) http_step_status [OF step] part
      option.case Let_def bind.simps case_prod_conv st refl if_True k(1) [symmetric]
    using stop more by (auto intro!: wp wpo_mono [OF read] wpo_mono [OF sent])
qed

text \<open>A response that is complete, or whose rest is to follow.\<close>

definition responded :: "httpServer_webContent list \<Rightarrow> st_http_socket \<Rightarrow> u8 list \<Rightarrow> bool" where
  "responded web st r \<longleftrightarrow> (file_len st = 0 \<and> http_answer web r) \<or> sending web st r"

definition most :: u32 where "most = 2047"

lemma most_eq: "of_nat (DATA_BUF_SIZE - 1) = most"
  by (simp add: DATA_BUF_SIZE_def most_def)

lemma web_len: "\<lbrakk>web_ok web; k < length web\<rbrakk> \<Longrightarrow> unat (content_len (web ! k)) = length (content (web ! k))"
  by (simp add: web_ok_def unsigned_of_nat take_bit_nat_eq_self)

lemma file_number: "(ucast (ucast (k :: u16) :: u32) :: u16) = k"
  by (auto simp: bit_eq_iff bit_simps dest: bit_imp_le_length)

lemma first_part_answer:
  assumes "web_ok web" and "unat k < length web" and "content_head (web ! unat k) = Some h" and "file_len st = 0"
  shows "responded web st (h @ content (web ! unat k))"
  using assms nth_mem [OF assms(2)] unfolding responded_def http_answer_def by blast

lemma body_first:
  fixes s t :: "('w, 'm) http_drv_scheme" and k :: u16
  assumes step: "http_step sn h sts s t" and q: "getHTTPSequenceNum s sn = Some q" "q < length sts"
    and st: "file_len (sts ! q) = 0" "file_offset (sts ! q) = 0" "storage_type (sts ! q) = CODEFLASH"
    and k: "unat k < length (web_content s)" and web: "web_ok (web_content s)"
    and h: "content_head (web_content s ! unat k) = Some h"
  shows "wpo (send_http_response_body p sn name (ucast k) (content_len (web_content s ! unat k)) t)
    (\<lambda>_ u. \<exists>st b. http_step sn b (sts[q := st]) s u \<and> sock_status st = sock_status (sts ! q)
      \<and> responded (web_content s) st b)"
proof -
  let ?c = "web_content s ! unat k"
  let ?st = "(sts ! q)\<lparr>file_start := ucast k, file_len := content_len ?c, file_name := name\<rparr>"
  note len = web_len [OF web k]
  consider "most < content_len ?c" "body_part name (ucast k) (content_len ?c) (sts ! q) = None"
    | "most < content_len ?c" "body_part name (ucast k) (content_len ?c) (sts ! q) = Some (most, False, ?st)"
    | "\<not> most < content_len ?c" "body_part name (ucast k) (content_len ?c) (sts ! q) = Some (content_len ?c, False, sts ! q)"
    using st(1) unfolding body_part_def Let_def most_eq by (cases "MAX_CONTENT_NAME_LEN < length name + 1") auto
  then show ?thesis
  proof cases
    case 1
    then show ?thesis
      by (simp add: send_http_response_body_def http_step_sequence [OF step] q http_step_status [OF step] wp)
  next
    case 2
    then have less: "unat most < length (content ?c)" by (simp add: word_less_nat_alt len)
    have nz: "content_len ?c \<noteq> 0" using 2(1) by (auto simp: word_less_nat_alt)
    have st': "after_part (most, False, ?st) = ?st\<lparr>file_offset := most\<rparr>"
      using st(2) by (simp add: after_part_def most_def)
    have "sending (web_content s) (?st\<lparr>file_offset := most\<rparr>) (h @ take (unat most) (content ?c))"
      unfolding sending_def
      by (intro conjI exI [of _ "unat k"] exI [of _ h])
        (use k h st(3) 2(1) in \<open>simp_all add: most_def\<close>)
    moreover have "wpo (send_http_response_body p sn name (ucast k) (content_len ?c) t)
        (\<lambda>_. http_step sn (h @ take (unat most) (content ?c)) (sts[q := ?st\<lparr>file_offset := most\<rparr>]) s)"
    proof -
      have "wpo (send_http_response_body p sn name (ucast k) (content_len ?c) t)
          (\<lambda>_. http_step sn (h @ take (unat most) (drop (unat (file_offset ?st)) (content ?c)))
            (sts[q := after_part (most, False, ?st)]) s)"
        by (rule body_step [OF step q 2(2)]) (use st(2,3) k less nz in \<open>simp_all add: file_number, simp_all add: most_def\<close>)
      then show ?thesis unfolding st' using st(2) by simp
    qed
    ultimately show ?thesis
      by (elim wpo_mono) (auto simp: responded_def intro!: exI)
  next
    case 3
    then have n: "unat (content_len ?c) < 65536" by (simp add: word_less_nat_alt most_def)
    have "file_len (after_part (content_len ?c, False, sts ! q)) = 0"
      "sock_status (after_part (content_len ?c, False, sts ! q)) = sock_status (sts ! q)"
      using st by (simp_all add: after_part_def)
    moreover have "wpo (send_http_response_body p sn name (ucast k) (content_len ?c) t)
        (\<lambda>_. http_step sn (h @ content ?c) (sts[q := after_part (content_len ?c, False, sts ! q)]) s)"
    proof -
      have "wpo (send_http_response_body p sn name (ucast k) (content_len ?c) t)
          (\<lambda>_. http_step sn (h @ take (unat (content_len ?c)) (drop (unat (file_offset (sts ! q))) (content ?c)))
            (sts[q := after_part (content_len ?c, False, sts ! q)]) s)"
        by (rule body_step [OF step q 3(2)]) (use st k n len in \<open>simp_all add: file_number\<close>)
      then show ?thesis using st(2) len by simp
    qed
    ultimately show ?thesis
      using first_part_answer [OF web k h] by (elim wpo_mono) blast
  qed
qed

text \<open>The next part of the content under way.\<close>

definition next_part :: "httpServer_webContent list \<Rightarrow> st_http_socket \<Rightarrow> u8 list" where
  "next_part web st = take (unat most) (drop (unat (file_offset st)) (content (web ! unat (file_start st))))"

lemma body_next:
  fixes s t :: "('w, 'm) http_drv_scheme"
  assumes step: "http_step sn bs sts s t" and q: "getHTTPSequenceNum s sn = Some q" "q < length sts"
    and st: "sending (web_content s) (sts ! q) r" and web: "web_ok (web_content s)"
    and b: "b = next_part (web_content s) (sts ! q)"
  shows "wpo (send_http_response_body p sn name 0 0 t)
    (\<lambda>_ u. \<exists>st. http_step sn (bs @ b) (sts[q := st]) s u \<and> sock_status st = sock_status (sts ! q)
      \<and> responded (web_content s) st (r @ b))"
proof -
  let ?st = "sts ! q"
  from st obtain k h where k: "k < length (web_content s)" "file_start ?st = of_nat k"
    and len: "file_len ?st = content_len (web_content s ! k)" and h: "content_head (web_content s ! k) = Some h"
    and r: "r = h @ take (unat (file_offset ?st)) (content (web_content s ! k))"
    and off: "0 < file_offset ?st" "file_offset ?st < file_len ?st" and flash: "storage_type ?st = CODEFLASH"
    by (auto simp: sending_def)
  let ?c = "content (web_content s ! k)" and ?o = "unat (file_offset ?st)"
  have k20: "k < 65536" using k(1) web by (simp add: web_ok_def MAX_CONTENT_CALLBACK_def)
  have num: "unat (ucast (file_start ?st) :: u16) = k" "unat (file_start ?st) = k"
    using k20 by (simp_all add: k(2) unsigned_ucast_eq unsigned_of_nat take_bit_nat_eq_self)
  have b': "b = take 2047 (drop ?o ?c)" by (simp add: b next_part_def num most_def)
  have clen: "unat (file_len ?st) = length ?c" using web_len [OF web k(1)] len by simp
  have o: "?o < length ?c" using off(2) clen by (simp add: word_less_nat_alt)
  have rest: "unat (file_len ?st - file_offset ?st) = length ?c - ?o"
    using off(2) clen by (simp add: unat_sub less_imp_le)
  have nz: "file_len ?st \<noteq> 0" using off(2) by (auto simp: word_less_nat_alt)
  note part = body_step [OF step q _ flash refl, where start = 0 and len = 0 and name = name and p = p,
      unfolded if_P [OF nz] num]
  show ?thesis
  proof (cases "most < file_len ?st - file_offset ?st")
    case True
    then have less: "?o + 2047 < length ?c" using rest o by (simp add: word_less_nat_alt most_def)
    have "body_part name 0 0 ?st = Some (most, False, ?st)"
      using nz True unfolding body_part_def Let_def most_eq by simp
    from part [OF this] less k(1)
    have sent: "wpo (send_http_response_body p sn name 0 0 t) (\<lambda>_. http_step sn (bs @ b)
        (sts[q := ?st\<lparr>file_offset := file_offset ?st + most\<rparr>]) s)"
      by (simp add: after_part_def most_def b')
    have "unat (file_len ?st) < 2 ^ 32" using unsigned_less [of "file_len ?st"] by simp
    then have o': "unat (file_offset ?st + most) = ?o + 2047"
      using less clen by (simp add: unat_word_ariths most_def)
    have "sending (web_content s) (?st\<lparr>file_offset := file_offset ?st + most\<rparr>) (r @ b)"
      unfolding sending_def
      by (intro conjI exI [of _ k] exI [of _ h])
        (use k h r flash less len clen o' b' in \<open>simp_all add: word_less_nat_alt take_add\<close>)
    then show ?thesis by (intro wpo_mono [OF sent]) (auto simp: responded_def intro!: exI)
  next
    case False
    then have less: "length ?c - ?o \<le> 2047" using rest by (simp add: word_less_nat_alt most_def)
    have n: "file_len ?st - file_offset ?st \<noteq> 0" using rest o by auto
    have "body_part name 0 0 ?st = Some (file_len ?st - file_offset ?st, True, ?st)"
      using nz False unfolding body_part_def Let_def most_eq by simp
    from part [OF this] less k(1) o
    have sent: "wpo (send_http_response_body p sn name 0 0 t) (\<lambda>_. http_step sn (bs @ b)
        (sts[q := ?st\<lparr>file_start := 0, file_len := 0, file_offset := 0\<rparr>]) s)"
      by (simp add: after_part_def rest b')
    have "http_answer (web_content s) (r @ b)"
      using nth_mem [OF k(1)] h less unfolding r b' http_answer_def by auto
    then show ?thesis by (intro wpo_mono [OF sent]) (auto simp: responded_def intro!: exI)
  qed
qed

subsection \<open>The handler of a request\<close>

text \<open>The state before a request: nothing is under way; and what the handler leaves.\<close>

definition at_rest :: "u8 \<Rightarrow> nat \<Rightarrow> ('w, 'm) http_drv_scheme \<Rightarrow> bool" where
  "at_rest sn q s \<longleftrightarrow> getHTTPSequenceNum s sn = Some q \<and> q < length (HTTPSock_Status s)
     \<and> file_len (http_status s q) = 0 \<and> file_offset (http_status s q) = 0 \<and> web_ok (web_content s)
     \<and> length (pHTTP_RX s) < 65536 \<and> length (pHTTP_TX s) < 65536"

definition replied :: "u8 \<Rightarrow> nat \<Rightarrow> ('w, 'm) http_drv_scheme \<Rightarrow> ('w, 'm) http_drv_scheme \<Rightarrow> bool" where
  "replied sn q s u \<longleftrightarrow> (\<exists>st b. http_step sn b ((HTTPSock_Status s)[q := st]) s u
     \<and> sock_status st = sock_status (http_status s q) \<and> responded (web_content s) st b)"

abbreviation kept :: "u8 \<Rightarrow> ('w, 'm) http_drv_scheme \<Rightarrow> ('w, 'm) http_drv_scheme \<Rightarrow> bool" where
  "kept sn s t \<equiv> http_step sn [] (HTTPSock_Status s) s t"

lemma replied_answer:
  assumes "at_rest sn q s" and "http_step sn b (HTTPSock_Status s) s u" and "http_answer (web_content s) b"
  shows "replied sn q s u"
  unfolding replied_def
  by (rule exI [of _ "http_status s q"], rule exI [of _ b])
    (use assms in \<open>simp add: at_rest_def http_status_def responded_def\<close>)

lemma error_pages:
  assumes "at_rest sn q s" and "kept sn s t"
  shows "wpo (send_http_response_header p sn ty len STATUS_BAD_REQ t) (\<lambda>_. replied sn q s)"
    and "wpo (send_http_response_header p sn ty len STATUS_NOT_FOUND t) (\<lambda>_. replied sn q s)"
proof -
  have rx: "length (pHTTP_RX s) < 65536" using assms(1) by (simp add: at_rest_def)
  note sent = header_sent(2,3) [OF assms(2) rx]
  show "wpo (send_http_response_header p sn ty len STATUS_BAD_REQ t) (\<lambda>_. replied sn q s)"
    by (rule wpo_mono [OF sent(1)]) (auto intro!: replied_answer [OF assms(1)] simp: http_answer_def)
  show "wpo (send_http_response_header p sn ty len STATUS_NOT_FOUND t) (\<lambda>_. replied sn q s)"
    by (rule wpo_mono [OF sent(2)]) (auto intro!: replied_answer [OF assms(1)] simp: http_answer_def)
qed

lemma http_get_page_replies:
  fixes s t :: "('w, 'm) http_drv_scheme"
  assumes rest: "at_rest sn q s" and t: "kept sn s t" and ty: "ty = find_http_uri_type name"
  shows "wpo (http_get_page p sn q name ty t) (\<lambda>_. replied sn q s)"
proof -
  have web: "web_content t = web_content s" and web_ok: "web_ok (web_content s)"
    and q: "getHTTPSequenceNum s sn = Some q" "q < length (HTTPSock_Status s)"
    and rx: "length (pHTTP_RX s) < 65536"
    and st0: "http_status t q = http_status s q" "file_len (http_status s q) = 0" "file_offset (http_status s q) = 0"
    using rest t by (auto simp: at_rest_def http_step_def http_status_def)
  show ?thesis
  proof (cases "find_userReg_webContent t name")
    case None
    then show ?thesis using error_pages(2) [OF rest t] by (simp add: http_get_page_def)
  next
    case (Some x)
    then obtain k where k: "k < length (web_content s)" "name = content_name (web_content s ! k)"
      and x: "x = (of_nat k, content_len (web_content s ! k))"
      by (auto simp: find_userReg_webContent_def web find_Some_iff)
    have num: "unat (of_nat k :: u16) = k"
      using k(1) web_ok by (simp add: web_ok_def MAX_CONTENT_CALLBACK_def unsigned_of_nat take_bit_nat_eq_self)
    let ?c = "web_content s ! k" and ?st = "(http_status s q)\<lparr>storage_type := CODEFLASH\<rparr>"
    let ?sts = "(HTTPSock_Status s)[q := ?st]"
    have set1: "http_step sn [] ?sts s (set_http_status q ?st t)" by (rule http_step_set [OF t])
    have body: "wpo (send_http_response_body p sn name (ucast (of_nat k :: u16)) (content_len ?c) u) (\<lambda>_. replied sn q s)"
      if h: "page_head ty (content_len ?c) = Some h" and u: "http_step sn h ?sts s u" for u h
    proof -
      have "content_head (web_content s ! unat (of_nat k :: u16)) = Some h"
        using h k(2) ty by (simp add: content_head_def num)
      from body_first [OF u q(1) _ _ _ _ _ web_ok this, of p name] q(2) st0(2,3) k(1)
      have "wpo (send_http_response_body p sn name (ucast (of_nat k :: u16)) (content_len ?c) u)
          (\<lambda>_ v. \<exists>st b. http_step sn b ((HTTPSock_Status s)[q := st]) s v
            \<and> sock_status st = sock_status (http_status s q) \<and> responded (web_content s) st b)"
        by (simp add: num)
      then show ?thesis unfolding replied_def [abs_def] .
    qed
    show ?thesis
      unfolding http_get_page_def Some x st0(1) Let_def option.case prod.case
      by (rule wpo_bind, rule wpo_mono [OF header_sent(1) [OF set1 rx]]) (auto intro: body)
  qed
qed

text \<open>A CGI response goes out whole, from either buffer.\<close>

lemma put_text_sent:
  assumes "http_step sn bs sts s u" and "put_at 0 (t @ [0]) mem = Some buf" and "length mem < 65536"
  shows "wpo (http_send p sn buf (length t) u) (\<lambda>_. http_step sn (bs @ t) sts s)"
proof -
  have "length t < 65536" using assms(2,3) by (simp add: put_at_def split: if_splits)
  moreover have "take (length t) buf = t" using put_at_0 [OF assms(2)] by simp
  ultimately show ?thesis using http_step_send [OF assms(1), of "length t" p buf] by simp
qed

lemma cgi_sent:
  assumes rest: "at_rest sn q s" and t: "kept sn s t"
  shows "wpo (send_http_response_cgi_rx p sn len t) (\<lambda>_ u. \<exists>b. http_step sn b (HTTPSock_Status s) s u \<and> http_answer (web_content s) b)"
    and "wpo (send_http_response_cgi_tx p sn len t) (\<lambda>_ u. \<exists>b. http_step sn b (HTTPSock_Status s) s u \<and> http_answer (web_content s) b)"
proof -
  have len: "length (pHTTP_RX t) < 65536" "length (pHTTP_TX t) < 65536"
    using rest t by (simp_all add: at_rest_def http_step_def)
  have answer: "http_answer (web_content s) (cgi_text n body)" for n body
    by (auto simp: http_answer_def)
  have rx: "wpo (http_send p sn (pHTTP_RX u) (length (cgi_text len body)) u)
      (\<lambda>_ u. \<exists>b. http_step sn b (HTTPSock_Status s) s u \<and> http_answer (web_content s) b)"
    if "kept sn s u" "put_at 0 (cgi_text len body @ [0]) (pHTTP_RX t) = Some (pHTTP_RX u)" for u body
    by (rule wpo_mono [OF put_text_sent [OF that len(1)]]) (auto intro: answer)
  have tx: "wpo (http_send p sn (pHTTP_TX u) (length (cgi_text len body)) u)
      (\<lambda>_ u. \<exists>b. http_step sn b (HTTPSock_Status s) s u \<and> http_answer (web_content s) b)"
    if "kept sn s u" "put_at 0 (cgi_text len body @ [0]) (pHTTP_TX t) = Some (pHTTP_TX u)" for u body
    by (rule wpo_mono [OF put_text_sent [OF that len(2)]]) (auto intro: answer)
  show "wpo (send_http_response_cgi_rx p sn len t) (\<lambda>_ u. \<exists>b. http_step sn b (HTTPSock_Status s) s u \<and> http_answer (web_content s) b)"
    unfolding send_http_response_cgi_rx_def Let_def
    by (rule wpo_bind_value) (auto intro!: wpo_bind wpo_mono [OF http_step_put(1) [OF t]] rx)
  show "wpo (send_http_response_cgi_tx p sn len t) (\<lambda>_ u. \<exists>b. http_step sn b (HTTPSock_Status s) s u \<and> http_answer (web_content s) b)"
    unfolding send_http_response_cgi_tx_def Let_def
    by (rule wpo_bind_value) (auto intro!: wpo_bind wpo_mono [OF http_step_put(2) [OF t]] tx)
qed

lemma cgi_handlers_kept:
  assumes "kept sn s t"
  shows "wpo (http_get_cgi_handler name t) (\<lambda>_. kept sn s)" and "wpo (http_post_cgi_handler name t) (\<lambda>_. kept sn s)"
proof -
  have world: "kept sn s (t\<lparr>world := w\<rparr>)" for w using assms by simp
  show "wpo (http_get_cgi_handler name t) (\<lambda>_. kept sn s)"
    unfolding http_get_cgi_handler_def Let_def split_beta
    by (rule wpo_bind, rule wpo_mono [OF http_step_put(2) [OF world]]) (auto intro!: wp)
  show "wpo (http_post_cgi_handler name t) (\<lambda>_. kept sn s)"
    unfolding http_post_cgi_handler_def Let_def split_beta
    by (rule wpo_bind, rule wpo_mono [OF http_step_put(1) [OF world]])
      (auto intro!: wp wpo_mono [OF http_step_put(1)])
qed

lemma cgi_replies:
  assumes rest: "at_rest sn q s" and t: "kept sn s t"
  shows "wpo (http_get_cgi p sn name t) (\<lambda>_. replied sn q s)" and "wpo (http_post_cgi p sn name t) (\<lambda>_. replied sn q s)"
proof -
  note answer = replied_answer [OF rest]
  show "wpo (http_get_cgi p sn name t) (\<lambda>_. replied sn q s)"
    unfolding http_get_cgi_def
    by (rule wpo_bind, rule wpo_mono [OF cgi_handlers_kept(1) [OF t]])
      (auto intro!: wp error_pages(2) [OF rest] wpo_mono [OF cgi_sent(1) [OF rest]] intro: answer)
  show "wpo (http_post_cgi p sn name t) (\<lambda>_. replied sn q s)"
    unfolding http_post_cgi_def
    by (rule wpo_bind, rule wpo_mono [OF cgi_handlers_kept(2) [OF t]])
      (auto intro!: wp error_pages(2) [OF rest] wpo_mono [OF cgi_sent(2) [OF rest]] intro: answer)
qed

lemma http_process_replies:
  assumes rest: "at_rest sn q s" and t: "kept sn s t"
  shows "wpo (http_process_handler p sn t) (\<lambda>_. replied sn q s)"
proof -
  have q: "getHTTPSequenceNum t sn = Some q"
    using rest http_step_sequence [OF t] by (simp add: at_rest_def)
  have get: "wpo (http_get p sn q t) (\<lambda>_. replied sn q s)"
    unfolding http_get_def Let_def
    by (rule wpo_bind_value, rule wpo_bind_value, rule wpo_bind, rule wpo_mono [OF http_step_put(2) [OF t]])
      (auto intro!: wp cgi_replies [OF rest] http_get_page_replies [OF rest])
  have post: "wpo (http_post p sn t) (\<lambda>_. replied sn q s)"
    unfolding http_post_def Let_def
    by (rule wpo_bind_value, rule wpo_if, rule wpo_None, rule wpo_bind, rule wpo_mono [OF http_step_put(2) [OF t]])
      (auto intro!: wp cgi_replies [OF rest] error_pages(2) [OF rest])
  show ?thesis
    unfolding http_process_handler_def q option.case Let_def
    by (auto intro!: wp get post error_pages(1) [OF rest t])
qed

subsection \<open>The states of a connection\<close>

text \<open>What has been handed over of the response under way, in each state.\<close>

definition phase_ok :: "httpServer_webContent list \<Rightarrow> st_http_socket \<Rightarrow> u8 list \<Rightarrow> bool" where
  "phase_ok web st r \<longleftrightarrow>
     (if sock_status st = STATE_HTTP_IDLE then file_len st = 0 \<and> file_offset st = 0 \<and> r = []
      else if sock_status st = STATE_HTTP_RES_INPROC then sending web st r
      else sock_status st = STATE_HTTP_RES_DONE \<and> r = [])"

text \<open>A stretch of the server completes any number of responses and may leave one open.\<close>

definition progress :: "u8 \<Rightarrow> nat \<Rightarrow> u8 list \<Rightarrow> ('w, 'm) http_drv_scheme \<Rightarrow> ('w, 'm) http_drv_scheme \<Rightarrow> bool" where
  "progress sn q r s u \<longleftrightarrow> (\<exists>st b rs r'. http_step sn b ((HTTPSock_Status s)[q := st]) s u
     \<and> r @ b = concat rs @ r' \<and> (\<forall>x\<in>set rs. http_answer (web_content s) x) \<and> phase_ok (web_content s) st r')"

lemma sending_status [simp]: "sending web (st\<lparr>sock_status := v\<rparr>) r = sending web st r"
  by (simp add: sending_def)

lemma progress_kept:
  assumes "kept sn s u" and "phase_ok (web_content s) (http_status s q) r"
  shows "progress sn q r s u"
  unfolding progress_def
  by (rule exI [of _ "http_status s q"], rule exI [of _ "[]"], rule exI [of _ "[]"], rule exI [of _ r])
    (use assms in \<open>simp add: http_status_def\<close>)

lemma progress_responded:
  assumes "http_step sn b ((HTTPSock_Status s)[q := st]) s u" and "responded (web_content s) st (r @ b)"
    and "v = (if 0 < file_len st then STATE_HTTP_RES_INPROC else STATE_HTTP_RES_DONE)"
  shows "progress sn q r s (set_http_status q (st\<lparr>sock_status := v\<rparr>) u)"
proof -
  let ?st = "st\<lparr>sock_status := v\<rparr>"
  have step: "http_step sn b ((HTTPSock_Status s)[q := ?st]) s (set_http_status q ?st u)"
    using http_step_set [OF assms(1), of q ?st] by simp
  show ?thesis
  proof (cases "0 < file_len st")
    case True
    then have "sending (web_content s) st (r @ b)" using assms(2) by (auto simp: responded_def)
    then show ?thesis
      unfolding progress_def using step True assms(3)
      by (intro exI [of _ ?st] exI [of _ b] exI [of _ "[]"] exI [of _ "r @ b"]) (simp add: phase_ok_def http_states)
  next
    case False
    then have "http_answer (web_content s) (r @ b)" using assms(2) by (auto simp: responded_def sending_def)
    then show ?thesis
      unfolding progress_def using step False assms(3)
      by (intro exI [of _ ?st] exI [of _ b] exI [of _ "[r @ b]"] exI [of _ "[]"]) (simp add: phase_ok_def http_states)
  qed
qed

lemma parse_length:
  assumes "parse_http_request req buf = Some req'"
  shows "length req' = length req"
proof -
  have put: "length b = length a" if "put_at i bs a = Some b" for i bs a b by (rule put_at_length [OF that])
  from assms obtain s where parsed: "(case strtok [0x20] s of None \<Rightarrow> put_at 0 [METHOD_ERR] req
      | Some (tok, rest) \<Rightarrow> (case request_token tok rest of (method, None) \<Rightarrow> put_at 0 [METHOD_ERR] req
        | (method, Some uri) \<Rightarrow> do { req \<leftarrow> put_at 0 [method] req; put_at 2 (uri @ [0]) req })) = Some req'"
    by (auto simp: parse_http_request_def bind_eq_Some_conv)
  show ?thesis
  proof (cases "strtok [0x20] s")
    case (Some x)
    obtain meth next_tok where "request_token (fst x) (snd x) = (meth, next_tok)" by fastforce
    then show ?thesis
      using parsed Some by (cases x; cases next_tok) (auto simp: bind_eq_Some_conv dest!: put)
  qed (use parsed in \<open>auto dest: put\<close>)
qed

lemma ticks_kept: "http_step sn bs sts s ((httpServer_time_handler ^^ n) t) = http_step sn bs sts s t"
  by (induction n) (simp_all add: httpServer_time_handler_def)

lemma drain_kept:
  assumes "http_step sn bs sts s t"
  shows "wpo (forever (drain_step p tk sm g) i t) (\<lambda>_. http_step sn bs sts s)"
proof (rule wpo_forever [where I = "\<lambda>_. http_step sn bs sts s", OF assms])
  fix j u assume "http_step sn bs sts s u"
  then show "wpo (drain_step p tk sm g j u)
      (\<lambda>r s'. case r of Inl a \<Rightarrow> http_step sn bs sts s s' | Inr c' \<Rightarrow> http_step sn bs sts s s')"
    unfolding drain_step_def
    by (auto intro!: wp stream_calls simp: Let_def ticks_kept split: sum.splits) (blast intro: http_step_statics)+
qed

lemma http_idle_progress:
  assumes rest: "at_rest sn q s" and t: "kept sn s t" and st: "sock_status (http_status s q) = STATE_HTTP_IDLE"
  shows "wpo (http_idle p tk sn q t) (\<lambda>_. progress sn q [] s)"
proof -
  have phase: "phase_ok (web_content s) (http_status s q) []"
    using rest st by (simp add: phase_ok_def at_rest_def)
  have ends: "wpo (do { (_, v) \<leftarrow> forever (drain_step p tk sn g) 0 u; let st = http_status v q;
      Some ((), set_http_status q
         (st\<lparr>sock_status := (if 0 < file_len st then STATE_HTTP_RES_INPROC else STATE_HTTP_RES_DONE)\<rparr>) v) })
      (\<lambda>_. progress sn q [] s)" if "replied sn q s u" for g u
  proof -
    from that obtain st b where step: "http_step sn b ((HTTPSock_Status s)[q := st]) s u"
      and resp: "responded (web_content s) st b" by (auto simp: replied_def)
    have "http_status v q = st" if "http_step sn b ((HTTPSock_Status s)[q := st]) s v" for v
      using http_step_status [OF that] rest by (simp add: at_rest_def)
    moreover have "progress sn q [] s (set_http_status q
        (st\<lparr>sock_status := (if 0 < file_len st then STATE_HTTP_RES_INPROC else STATE_HTTP_RES_DONE)\<rparr>) v)"
      if "http_step sn b ((HTTPSock_Status s)[q := st]) s v" for v
      using progress_responded [OF that _ refl, of "[]"] resp by simp
    ultimately show ?thesis
      unfolding Let_def by (intro wpo_bind wpo_mono [OF drain_kept [OF step]]) (simp add: wpo_def)
  qed
  have request: "kept sn s (u\<lparr>pHTTP_TX := req\<rparr>)"
    if "kept sn s u" "parse_http_request (pHTTP_TX u) buf = Some req" for u req buf
    using that parse_length [OF that(2)] by (simp add: http_step_def http_out_def)
  have "wpo (http_request_done p tk sn q u) (\<lambda>_. progress sn q [] s)" if u: "kept sn s u" for u
    unfolding http_request_done_def
  proof (rule wpo_bind_value)
    fix req assume "parse_http_request (pHTTP_TX u) (pHTTP_RX u) = Some req"
    note asked = http_step_statics [OF request [OF u this]]
    have handled: "wpo (http_process_handler p sn w) (\<lambda>_. replied sn q s)"
      if "statics (u\<lparr>pHTTP_TX := req\<rparr>) v" "statics v w" for v w
      by (rule http_process_replies [OF rest http_step_statics [OF asked [OF that(1)] that(2)]])
    show "wpo (let (_, s) = getSn_DIPR p sn (u\<lparr>pHTTP_TX := req\<rparr>); (_, s) = getSn_DPORT p sn s
      in do {
        (_, s) \<leftarrow> http_process_handler p sn s;
        (_, s) \<leftarrow> forever (drain_step p tk sn (get_httpServer_timecount s)) 0 s;
        let st = http_status s q;
        Some ((), set_http_status q
          (st\<lparr>sock_status := (if 0 < file_len st then STATE_HTTP_RES_INPROC else STATE_HTTP_RES_DONE)\<rparr>) s)
      }) (\<lambda>_. progress sn q [] s)"
      by (intro wpo_Let wpo_case_prod stream_calls wpo_bind wpo_mono [OF handled])
        (assumption | rule wpt_pair, erule ends)+
  qed
  then show ?thesis
    unfolding http_idle_def using http_step_statics [OF t]
    by (auto intro!: wp stream_calls wpo_mono [OF http_step_put(1)] progress_kept [OF _ phase] simp: Let_def
        intro: http_step_statics)
qed

text \<open>The state of a sequence number, and the response under way on its socket.\<close>

definition under_way :: "u8 \<Rightarrow> nat \<Rightarrow> u8 list \<Rightarrow> ('w, 'm) http_drv_scheme \<Rightarrow> bool" where
  "under_way sn q r s \<longleftrightarrow> getHTTPSequenceNum s sn = Some q \<and> q < length (HTTPSock_Status s) \<and> web_ok (web_content s)
     \<and> length (pHTTP_RX s) < 65536 \<and> length (pHTTP_TX s) < 65536 \<and> phase_ok (web_content s) (http_status s q) r"

lemma http_inproc_step:
  assumes s: "under_way sn q r s" and t: "kept sn s t" and st: "sock_status (http_status s q) = STATE_HTTP_RES_INPROC"
    and b: "b = next_part (web_content s) (http_status s q)"
  shows "wpo (http_inproc p sn q t) (\<lambda>_ u. progress sn q r s u \<and> http_out sn u = http_out sn s @ b)"
proof -
  have q: "getHTTPSequenceNum s sn = Some q" "q < length (HTTPSock_Status s)" and web: "web_ok (web_content s)"
    and sending: "sending (web_content s) (HTTPSock_Status s ! q) r"
    using s st by (auto simp: under_way_def phase_ok_def http_states http_status_def)
  have body: "wpo (send_http_response_body p sn [] 0 0 t)
    (\<lambda>_ u. \<exists>st. http_step sn b ((HTTPSock_Status s)[q := st]) s u \<and> sock_status st = sock_status (http_status s q)
      \<and> responded (web_content s) st (r @ b))"
    using body_next [OF t q sending web, of b p "[]"] b by (simp add: http_status_def)
  have ends: "progress sn q r s v \<and> http_out sn v = http_out sn s @ b"
    if v: "v = (if file_len (http_status u q) = 0
        then set_http_status q ((http_status u q)\<lparr>sock_status := STATE_HTTP_RES_DONE\<rparr>) u else u)"
      and u: "http_step sn b ((HTTPSock_Status s)[q := st']) s u" "sock_status st' = sock_status (http_status s q)"
      "responded (web_content s) st' (r @ b)" for u v st'
  proof
    have st': "http_status u q = st'" using http_step_status [OF u(1), of q] q(2) by simp
    show "http_out sn v = http_out sn s @ b"
      using u(1) by (simp add: v http_step_def http_out_def set_http_status_def)
    show "progress sn q r s v"
    proof (cases "file_len st' = 0")
      case True
      then show ?thesis using progress_responded [OF u(1,3) refl] st' v by simp
    next
      case False
      then have "phase_ok (web_content s) st' (r @ b)"
        using u(2,3) st by (simp add: phase_ok_def responded_def http_states)
      then have "progress sn q r s u"
        unfolding progress_def
        by (intro exI [of _ st'] exI [of _ b] exI [of _ "[]"] exI [of _ "r @ b"]) (simp add: u(1))
      then show ?thesis using False st' v by simp
    qed
  qed
  show ?thesis
    unfolding http_inproc_def Let_def
    by (rule wpo_bind, rule wpo_mono [OF body], elim exE conjE) (simp only: prod.case, rule wpo_Some, rule ends [OF refl])
qed

lemma http_done_progress:
  assumes s: "under_way sn q r s" and t: "kept sn s t" and st: "sock_status (http_status s q) = STATE_HTTP_RES_DONE"
  shows "wpo (http_done p sn q t) (\<lambda>_. progress sn q r s)"
proof -
  let ?st = "(http_status s q)\<lparr>file_len := 0, file_offset := 0, file_start := 0, sock_status := STATE_HTTP_IDLE\<rparr>"
  let ?sts = "(HTTPSock_Status s)[q := ?st]"
  have r: "r = []" using s st by (simp add: under_way_def phase_ok_def http_states)
  have start: "http_step sn [] ?sts s (set_http_status q ?st t)" by (rule http_step_set [OF t])
  have wait: "wpo (forever (discon_step p sn) () u) (\<lambda>_. http_step sn [] ?sts s)"
    if "http_step sn [] ?sts s u" for u
    by (rule wpo_forever [where I = "\<lambda>_. http_step sn [] ?sts s", OF that])
      (auto simp: discon_step_def Let_def intro!: wp stream_calls split: sum.splits intro: http_step_statics)
  have ends: "progress sn q r s u" if "http_step sn [] ?sts s u" for u
    unfolding progress_def r
    by (rule exI [of _ ?st], rule exI [of _ "[]"], rule exI [of _ "[]"], rule exI [of _ "[]"])
      (simp add: that phase_ok_def)
  show ?thesis
    unfolding http_done_def http_disconnect_def Let_def http_step_status [OF t] http_status_def [symmetric]
    by (auto intro!: wp wpo_mono [OF wait] http_step_statics [OF start] ends)
qed

lemma http_established_progress:
  assumes s: "under_way sn q r s" and t: "kept sn s t"
  shows "wpo (http_established p tk sn q t) (\<lambda>_. progress sn q r s)"
proof -
  have phase: "phase_ok (web_content s) (http_status s q) r" using s by (simp add: under_way_def)
  have idle: "at_rest sn q s \<and> r = []" if "sock_status (http_status s q) = STATE_HTTP_IDLE"
    using s that by (simp add: under_way_def at_rest_def phase_ok_def)
  have cases: "wpo (let st = sock_status (http_status u q) in
      if st = STATE_HTTP_IDLE then http_idle p tk sn q u
      else if st = STATE_HTTP_RES_INPROC then http_inproc p sn q u
      else if st = STATE_HTTP_RES_DONE then http_done p sn q u
      else Some ((), u)) (\<lambda>_. progress sn q r s)" if u: "kept sn s u" for u
  proof -
    have "http_status u q = http_status s q" using http_step_status [OF u] by (simp add: http_status_def)
    then show ?thesis
      using idle wpo_mono [OF http_inproc_step [OF s u _ refl]] http_done_progress [OF s u] progress_kept [OF u phase]
      by (auto simp: Let_def intro!: wp http_idle_progress [OF _ u])
  qed
  show ?thesis
    unfolding http_established_def
    by (intro wpo_Let wpo_case_prod stream_calls, rule cases [unfolded Let_def])
      (auto intro: http_step_statics [OF http_step_statics [OF t]] http_step_statics [OF t])
qed

subsection \<open>Sequences of calls\<close>

text \<open>The sizes of the arrays; and a sequence number that is the first with its socket.\<close>

definition server_ok :: "('w, 'm) http_drv_scheme \<Rightarrow> bool" where
  "server_ok s \<longleftrightarrow> length (HTTPSock_Num s) = WIZCHIP_SOCKETS \<and> length (HTTPSock_Status s) = WIZCHIP_SOCKETS
     \<and> web_ok (web_content s) \<and> length (pHTTP_RX s) < 65536 \<and> length (pHTTP_TX s) < 65536"

definition owned :: "u8 list \<Rightarrow> nat \<Rightarrow> bool" where
  "owned socks q \<longleftrightarrow> q < WIZCHIP_SOCKETS \<and> (\<forall>i<q. socks ! i \<noteq> socks ! q)"

text \<open>Everything handed to \<open>send\<close> on a socket is complete responses, and the start of the one under way.\<close>

definition answered :: "nat \<Rightarrow> ('w, 'm) http_drv_scheme \<Rightarrow> bool" where
  "answered q s \<longleftrightarrow> (\<exists>rs r. http_out (HTTPSock_Num s ! q) s = concat rs @ r
     \<and> (\<forall>x\<in>set rs. http_answer (web_content s) x) \<and> phase_ok (web_content s) (http_status s q) r)"

definition http_ok :: "('w, 'm) http_drv_scheme \<Rightarrow> bool" where
  "http_ok s \<longleftrightarrow> server_ok s \<and> (\<forall>q. owned (HTTPSock_Num s) q \<longrightarrow> answered q s)"

lemma owned_sequence: "owned (HTTPSock_Num s) q \<Longrightarrow> getHTTPSequenceNum s (HTTPSock_Num s ! q) = Some q"
  by (auto simp: owned_def getHTTPSequenceNum_def find_Some_iff)

lemma owned_same: "\<lbrakk>owned socks q; owned socks q'; socks ! q = socks ! q'\<rbrakk> \<Longrightarrow> q = q'"
  by (metis linorder_neqE_nat owned_def)

lemma progress_answered:
  assumes ok: "http_ok s" and q: "owned (HTTPSock_Num s) q"
    and out: "http_out (HTTPSock_Num s ! q) s = concat rs @ r" "\<forall>x\<in>set rs. http_answer (web_content s) x"
    and u: "progress (HTTPSock_Num s ! q) q r s u"
  shows "http_ok u \<and> HTTPSock_Num u = HTTPSock_Num s"
proof -
  from u obtain st b rs' r' where step: "http_step (HTTPSock_Num s ! q) b ((HTTPSock_Status s)[q := st]) s u"
    and more: "r @ b = concat rs' @ r'" "\<forall>x\<in>set rs'. http_answer (web_content s) x"
    and phase: "phase_ok (web_content s) st r'"
    by (auto simp: progress_def)
  have len: "q < length (HTTPSock_Status s)" using ok q by (simp add: http_ok_def server_ok_def owned_def)
  have same: "HTTPSock_Num u = HTTPSock_Num s" "web_content u = web_content s"
    using step by (simp_all add: http_step_def)
  have "answered i u" if i: "owned (HTTPSock_Num s) i" for i
  proof (cases "i = q")
    case True
    have "http_out (HTTPSock_Num s ! q) u = concat (rs @ rs') @ r'"
      using step out(1) more(1) by (simp add: http_step_def)
    then show ?thesis
      unfolding answered_def same True http_step_status [OF step]
      using out(2) more(2) phase len by (intro exI [of _ "rs @ rs'"] exI [of _ r']) auto
  next
    case False
    then have "HTTPSock_Num s ! i \<noteq> HTTPSock_Num s ! q" using owned_same [OF i q] by blast
    then have "http_out (HTTPSock_Num s ! i) u = http_out (HTTPSock_Num s ! i) s"
      using step by (simp add: http_step_def)
    moreover have "http_status u i = http_status s i"
      using False http_step_status [OF step] by (simp add: http_status_def)
    ultimately show ?thesis using ok i by (simp add: http_ok_def answered_def same)
  qed
  moreover have "server_ok u" using ok step by (simp add: http_ok_def server_ok_def http_step_def)
  ultimately show ?thesis by (simp add: http_ok_def same)
qed

lemma http_run_progress:
  assumes s: "under_way sn q r s" and q: "getHTTPSocketNum s seq = Some sn" "q = unat seq"
  shows "wpo (httpServer_run p tk seq s) (\<lambda>_. progress sn q r s)"
proof -
  have phase: "phase_ok (web_content s) (http_status s q) r" using s by (simp add: under_way_def)
  have kept: "kept sn s t" if "statics s t" for t by (rule http_step_statics [OF http_step_refl that])
  have quiet: "progress sn q r s t" if "statics s t" for t by (rule progress_kept [OF kept [OF that] phase])
  show ?thesis
    unfolding httpServer_run_def q(1) bind.simps
    by (intro wpo_Let wpo_case_prod stream_calls)
      (auto simp: q(2) [symmetric] intro!: wp stream_calls http_established_progress [OF s] kept quiet elim: statics_trans)
qed

lemma http_run_ok:
  assumes ok: "http_ok s" and q: "owned (HTTPSock_Num s) (unat seq)"
  shows "wpo (httpServer_run p tk seq s) (\<lambda>_ u. http_ok u \<and> HTTPSock_Num u = HTTPSock_Num s)"
proof -
  let ?sn = "HTTPSock_Num s ! unat seq"
  from ok q obtain rs r where out: "http_out ?sn s = concat rs @ r" "\<forall>x\<in>set rs. http_answer (web_content s) x"
    and phase: "phase_ok (web_content s) (http_status s (unat seq)) r"
    by (auto simp: http_ok_def answered_def)
  have "under_way ?sn (unat seq) r s" "getHTTPSocketNum s seq = Some ?sn"
    using ok q phase owned_sequence [OF q]
    by (auto simp: under_way_def http_ok_def server_ok_def owned_def getHTTPSocketNum_def)
  from http_run_progress [OF this refl] show ?thesis
    by (rule wpo_mono) (rule progress_answered [OF ok q out])
qed

text \<open>More registered contents change no response.\<close>

lemma web_register_ok:
  assumes ok: "http_ok s" and data: "\<And>x. data = Some x \<Longrightarrow> length x < 2 ^ 32"
  shows "http_ok (reg_httpServer_webContent name data s)
    \<and> HTTPSock_Num (reg_httpServer_webContent name data s) = HTTPSock_Num s"
proof -
  define s' where "s' = reg_httpServer_webContent name data s"
  have fields: "HTTPSock_Num s' = HTTPSock_Num s" "HTTPSock_Status s' = HTTPSock_Status s" "http_sent s' = http_sent s"
    "pHTTP_RX s' = pHTTP_RX s" "pHTTP_TX s' = pHTTP_TX s"
    by (simp_all add: s'_def reg_httpServer_webContent_def split: option.split)
  have "\<exists>web'. web_content s' = web_content s @ web'"
    by (cases name; cases data) (auto simp: s'_def reg_httpServer_webContent_def)
  then obtain web' where web: "web_content s' = web_content s @ web'" by blast
  have "web_ok (web_content s')"
    using ok data by (auto simp: s'_def reg_httpServer_webContent_def http_ok_def server_ok_def web_ok_def split: option.split)
  moreover have "answered q s'" if "answered q s" for q
  proof -
    have "http_answer (web_content s) x \<Longrightarrow> http_answer (web_content s') x" for x
      unfolding http_answer_def web by auto
    moreover have "sending (web_content s) st x \<Longrightarrow> sending (web_content s') st x" for st x
      unfolding sending_def web by (fastforce simp: nth_append)
    then have "phase_ok (web_content s) st x \<Longrightarrow> phase_ok (web_content s') st x" for st x
      by (simp add: phase_ok_def split: if_splits)
    ultimately show ?thesis
      using that unfolding answered_def http_out_def http_status_def fields by blast
  qed
  ultimately have "http_ok s'"
    using ok unfolding http_ok_def server_ok_def fields by blast
  then show ?thesis using fields(1) by (simp add: s'_def)
qed

fun call_ok :: "u8 list \<Rightarrow> http_call \<Rightarrow> bool" where
  "call_ok socks (Http_run seq tk) = owned socks (unat seq)"
| "call_ok socks Http_tick = True"
| "call_ok socks (Http_register name data) = (case data of None \<Rightarrow> True | Some x \<Rightarrow> length x < 2 ^ 32)"

lemma http_calls_ok:
  "\<lbrakk>http_ok s; \<forall>c\<in>set cs. call_ok (HTTPSock_Num s) c; http_calls p cs s = Some ((), s')\<rbrakk>
    \<Longrightarrow> http_ok s' \<and> HTTPSock_Num s' = HTTPSock_Num s"
proof (induction p cs s rule: http_calls.induct)
  case (2 p seq tk cs s)
  then obtain u where u: "httpServer_run p tk seq s = Some ((), u)" "http_calls p cs u = Some ((), s')"
    by (auto simp: bind_eq_Some_conv)
  with wpoD [OF http_run_ok u(1)] 2 show ?case by simp
next
  case (3 p cs s)
  have "http_ok (httpServer_time_handler s) \<and> HTTPSock_Num (httpServer_time_handler s) = HTTPSock_Num s"
    using 3(2) by (simp add: httpServer_time_handler_def http_ok_def server_ok_def answered_def http_out_def http_status_def)
  with 3 show ?case by simp
next
  case (4 p name data cs s)
  from 4(3) have "data = Some x \<Longrightarrow> length x < 2 ^ 32" for x by simp
  with web_register_ok [OF 4(2), of data name] 4 show ?case by simp
qed simp

text \<open>A server that has done nothing yet.\<close>

definition server_start :: "('w, 'm) http_drv_scheme \<Rightarrow> bool" where
  "server_start s \<longleftrightarrow> server_ok s \<and> http_sent s = []
     \<and> (\<forall>st\<in>set (HTTPSock_Status s). sock_status st = STATE_HTTP_IDLE \<and> file_len st = 0 \<and> file_offset st = 0)"

lemma server_start_ok: "server_start s \<Longrightarrow> http_ok s"
  by (auto simp: server_start_def http_ok_def server_ok_def owned_def answered_def http_out_def phase_ok_def http_status_def
      intro!: exI [of _ "[]"])

text \<open>C11: The HTTP server hands over complete responses. Whatever the chip, the peers and the timer do,
  and in whichever order the application calls \<open>httpServer_run\<close> for its sequence numbers and
  registers contents: everything handed to \<open>send\<close> on a socket is a sequence of complete responses
  (the page for 400 or 404, a CGI response, or the head of a registered content with its length and
  then the whole content), followed, while a file is under way, by its head and exactly the
  bytes up to \<open>file_offset\<close>.\<close>

theorem http_complete_responses:
  assumes "http_calls p cs s = Some ((), s')" and "server_start s" and "\<forall>c\<in>set cs. call_ok (HTTPSock_Num s) c"
    and "owned (HTTPSock_Num s) q"
  shows "\<exists>rs r. http_out (HTTPSock_Num s ! q) s' = concat rs @ r
    \<and> (\<forall>x\<in>set rs. http_answer (web_content s') x) \<and> phase_ok (web_content s') (http_status s' q) r"
proof -
  from http_calls_ok [OF server_start_ok [OF assms(2)] assms(3,1)]
  have "HTTPSock_Num s' = HTTPSock_Num s" "answered q s'" using assms(4) by (simp_all add: http_ok_def)
  then show ?thesis by (simp add: answered_def)
qed

text \<open>A server with a registered page, and a request for it.\<close>

lemma http_start_ok: "server_start (http_start w)"
  by (simp add: server_start_def server_ok_def web_ok_def http_start_def WIZCHIP_SOCKETS_def no_file_def)

theorem http_complete_responses_witness:
  "\<exists>s'. http_calls scripted get_calls (http_start get_script) = Some ((), s')
    \<and> (\<exists>rs r. http_out 0 s' = concat rs @ r \<and> (\<forall>x\<in>set rs. http_answer (web_content s') x)
      \<and> phase_ok (web_content s') (http_status s' 0) r)"
proof -
  obtain s' where run: "http_calls scripted get_calls (http_start get_script) = Some ((), s')"
    using get_run by (auto simp: ends_in_def)
  have calls: "\<forall>c\<in>set get_calls. call_ok (HTTPSock_Num (http_start get_script)) c"
    by (simp add: get_calls_def owned_def WIZCHIP_SOCKETS_def get_parts)
  have first: "owned (HTTPSock_Num (http_start get_script)) 0" "HTTPSock_Num (http_start get_script) ! 0 = 0"
    by (simp_all add: owned_def WIZCHIP_SOCKETS_def http_start_def)
  show ?thesis
    using run http_complete_responses [OF run http_start_ok calls first(1)] unfolding first(2) by blast
qed

subsection \<open>A response that outlives its connection\<close>

lemma quiet_run_statics:
  assumes "getHTTPSocketNum s seq = Some sn" and "fst (getSn_SR p sn s) \<noteq> SOCK_ESTABLISHED"
  shows "wpo (httpServer_run p tk seq s) (\<lambda>_. statics s)"
proof -
  obtain sr t where sr: "getSn_SR p sn s = (sr, t)" by fastforce
  have "wpt (getSn_SR p sn s) (\<lambda>_. statics s)" by (rule stream_calls) simp
  then have "statics s t" using sr by (simp add: wpt_def)
  then show ?thesis
    unfolding httpServer_run_def assms(1) bind.simps sr Let_def
    using assms(2) sr by (auto intro!: wp stream_calls elim: statics_trans)
qed

lemma statics_numbers: "statics s t \<Longrightarrow> getHTTPSocketNum t seq = getHTTPSocketNum s seq"
  by (simp add: getHTTPSocketNum_def http_kept)

lemma quiet_runs_statics: "quiet_runs p seq n s = Some ((), t) \<Longrightarrow> statics s t"
proof (induction p seq n s rule: quiet_runs.induct)
  case (2 p seq n s)
  then obtain sn u where "getHTTPSocketNum s seq = Some sn" "fst (getSn_SR p sn s) \<noteq> SOCK_ESTABLISHED"
    "httpServer_run p (\<lambda>_. 0) seq s = Some ((), u)" "quiet_runs p seq n u = Some ((), t)"
    by (auto simp: bind_eq_Some_conv split: if_splits)
  with wpoD [OF quiet_run_statics] 2(1) show ?case by (blast intro: statics_trans)
qed simp

text \<open>C38: A response survives the connection it belongs to. If the connection ends while a file is under
  way, then whatever the server does while the socket is closed, opened again and listening, the
  first thing it hands to \<open>send\<close> when the socket is established again, before it reads
  any request of the new peer, is the next part of the old file: not empty, without a head, and from
  the middle of the content.\<close>

theorem http_resumes_elsewhere:
  assumes "under_way sn q r s" and "sock_status (http_status s q) = STATE_HTTP_RES_INPROC"
    and "getHTTPSocketNum s seq = Some sn" and "q = unat seq"
    and "quiet_runs p seq n s = Some ((), t)"
    and "fst (getSn_SR p sn t) = SOCK_ESTABLISHED" and "httpServer_run p tk seq t = Some ((), u)"
  shows "http_out sn u = http_out sn s @ next_part (web_content s) (http_status s q)
    \<and> next_part (web_content s) (http_status s q) \<noteq> []"
proof
  have t: "kept sn s t" by (rule http_step_statics [OF http_step_refl quiet_runs_statics [OF assms(5)]])
  have num: "getHTTPSocketNum t seq = Some sn" using statics_numbers [OF quiet_runs_statics [OF assms(5)]] assms(3) by simp
  have st: "http_status v q = http_status s q" if "kept sn s v" for v
    using http_step_status [OF that] by (simp add: http_status_def)
  let ?b = "next_part (web_content s) (http_status s q)"
  have inproc: "wpo (http_inproc p sn q v) (\<lambda>_ u. http_out sn u = http_out sn s @ ?b)" if "kept sn s v" for v
    by (rule wpo_mono [OF http_inproc_step [OF assms(1) that assms(2) refl]]) simp
  have turn: "wpo (if sock_status (http_status v q) = STATE_HTTP_IDLE then http_idle p tk sn q v
      else if sock_status (http_status v q) = STATE_HTTP_RES_INPROC then http_inproc p sn q v
      else if sock_status (http_status v q) = STATE_HTTP_RES_DONE then http_done p sn q v
      else Some ((), v)) (\<lambda>_ u. http_out sn u = http_out sn s @ ?b)" if "kept sn s v" for v
    using inproc [OF that] st [OF that] assms(2) by (simp add: http_states)
  have "wpo (http_established p tk sn q v) (\<lambda>_ u. http_out sn u = http_out sn s @ ?b)" if v: "kept sn s v" for v
    unfolding http_established_def
    by (intro wpo_Let wpo_case_prod stream_calls, rule turn)
      (auto intro: http_step_statics [OF http_step_statics [OF v]] http_step_statics [OF v])
  moreover obtain v where v: "getSn_SR p sn t = (SOCK_ESTABLISHED, v)"
    using assms(6) by (cases "getSn_SR p sn t") simp
  have "wpt (getSn_SR p sn t) (\<lambda>_. statics t)" by (rule stream_calls) simp
  then have "kept sn s v" using v http_step_statics [OF t] by (simp add: wpt_def)
  ultimately show "http_out sn u = http_out sn s @ ?b"
    using assms(4,7) by (auto simp: httpServer_run_def num v wpo_def)
  show "?b \<noteq> []"
  proof -
    have "sending (web_content s) (http_status s q) r" and web: "web_ok (web_content s)"
      using assms(1,2) by (auto simp: under_way_def phase_ok_def http_states)
    then obtain k where k: "k < length (web_content s)" "file_start (http_status s q) = of_nat k"
      "file_offset (http_status s q) < content_len (web_content s ! k)"
      by (auto simp: sending_def)
    have "k < 65536" using k(1) web by (simp add: web_ok_def MAX_CONTENT_CALLBACK_def)
    then have "unat (file_start (http_status s q)) = k"
      by (simp add: k(2) unsigned_of_nat take_bit_nat_eq_self)
    then show ?thesis
      using k(3) web_len [OF web k(1)] by (simp add: next_part_def most_def word_less_nat_alt)
  qed
qed

lemma half_under_way: "\<exists>r. under_way 0 0 r (http_half w)"
proof -
  obtain h where h: "content_head long_page = Some h"
  proof (cases "content_head long_page")
    case None
    moreover have "content_head long_page \<noteq> None" by code_simp
    ultimately show ?thesis by simp
  qed
  then show ?thesis
    by (intro exI [of _ "h @ take 2047 (content long_page)"])
      (simp add: under_way_def http_half_def srv_number web_ok_def MAX_CONTENT_CALLBACK_def phase_ok_def http_status_def
        half_sent_def http_states sending_def exI [of _ 0] long_page_def)
qed

theorem http_resumes_elsewhere_witness:
  "\<exists>u :: u8 list http_drv. http_out 0 u = http_out 0 (http_half []) @ next_part [long_page] half_sent \<and> next_part [long_page] half_sent \<noteq> []"
proof -
  let ?w = "0x17 # 0 # 0x17 # send_script @ [0]"
  let ?s = "http_half (0x14 # ?w)"
  obtain r where way: "under_way 0 0 r ?s" using half_under_way by blast
  obtain tr where quiet: "quiet_runs scripted 0 1 ?s = Some ((), srv tr ?w 0 [long_page] (replicate 16 0) (replicate 80 0)
      (half_sent # replicate 7 no_file) [])" (is "_ = Some ((), ?t)")
    using quiet_listening unfolding http_half_def by blast
  obtain u where run: "httpServer_run scripted (\<lambda>_. 0) 0 ?t = Some ((), u)"
    using resumed_run by (auto simp: ends_in_def)
  have sr: "fst (getSn_SR scripted 0 ?t) = SOCK_ESTABLISHED"
    by (simp add: srv_SR SOCK_ESTABLISHED_def)
  have "http_out 0 u = http_out 0 ?s @ next_part (web_content ?s) (http_status ?s 0) \<and> next_part (web_content ?s) (http_status ?s 0) \<noteq> []"
    by (rule http_resumes_elsewhere [OF way _ _ _ quiet sr run])
      (simp_all add: http_half_def http_status_def half_sent_def getHTTPSocketNum_def)
  then show ?thesis
    by (intro exI [of _ u]) (simp add: http_half_def http_out_def http_status_def)
qed

subsection \<open>A name of question marks\<close>

lemma question_marks: "strtok [0x20, 0x3F] (replicate n 0x3F) = None"
  by (simp add: strtok_def)

text \<open>C39: A request whose URI is made of question marks only crashes the server: \<open>strtok\<close> finds no token in
  it, and \<open>get_http_uri_name\<close> compares through the null pointer it gets. The parser accepts the
  request, and the handler has no result, in any state and for GET and HEAD alike.\<close>

theorem http_question_crash:
  assumes "word \<in> {chars ''GET'', chars ''get'', chars ''HEAD'', chars ''head''}" and "0 < n"
    and "parse_http_request (pHTTP_TX s) (word @ 0x20 # replicate n 0x3F @ 0x20 # version @ 0 # junk) = Some request"
    and "0 \<notin> set version" and "getHTTPSequenceNum s sn = Some q"
  shows "http_process_handler p sn (s\<lparr>pHTTP_TX := request\<rparr>) = None"
proof -
  let ?uri = "replicate n (0x3F :: u8)"
  have word: "word \<noteq> []" "\<forall>c\<in>set word. c \<notin> set [0x20]" "0 \<notin> set word"
    using assms(1) by (auto simp: chars_def)
  have uri: "?uri \<noteq> []" "\<forall>c\<in>set ?uri. c \<notin> set [0x20]" using assms(2) by auto
  have "cstr ((word @ 0x20 # ?uri @ 0x20 # version) @ 0 # junk) = Some (word @ 0x20 # ?uri @ 0x20 # version)"
    by (rule cstr_string) (use word(3) assms(4) in auto)
  moreover have "strtok [0x20] (word @ 0x20 # ?uri @ 0x20 # version) = Some (word, ?uri @ 0x20 # version)"
    by (rule strtok_token(1) [OF word(1,2)]) simp
  moreover have "strtok [0x20] (?uri @ 0x20 # version) = Some (?uri, version)"
    by (rule strtok_token(1) [OF uri]) simp
  moreover obtain m where "request_token word (?uri @ 0x20 # version) = (m, map_option fst (strtok [0x20] (?uri @ 0x20 # version)))"
    and m: "m = METHOD_GET \<or> m = METHOD_HEAD"
    using assms(1) by (auto simp: request_token_def chars_def)
  ultimately obtain req where req: "put_at 0 [m] (pHTTP_TX s) = Some req" "put_at 2 (?uri @ [0]) req = Some request"
    using assms(3) by (auto simp: parse_http_request_def bind_eq_Some_conv)
  have "req_METHOD request = m"
    using req by (auto simp: put_at_def req_METHOD_def nth_append split: if_splits)
  moreover have "cstr (req_URI request) = Some ?uri"
    using req(2) by (auto simp: put_at_def req_URI_def split: if_splits)
  moreover have "getHTTPSequenceNum (s\<lparr>pHTTP_TX := request\<rparr>) sn = Some q"
    using assms(5) by (simp add: getHTTPSequenceNum_def)
  ultimately show ?thesis
    using m by (auto simp: http_process_handler_def Let_def http_get_def get_http_uri_name_def question_marks)
qed

text \<open>\<open>GET ? x\<close>.\<close>

theorem http_question_crash_witness:
  "http_process_handler scripted 0 ((http_start [])\<lparr>pHTTP_TX := METHOD_GET # 0 # 0x3F # replicate 13 0\<rparr>) = None"
proof -
  have "parse_http_request (replicate 16 0) (chars ''GET'' @ 0x20 # replicate 1 0x3F @ 0x20 # [0x78] @ 0 # [])
      = Some (METHOD_GET # 0 # 0x3F # replicate 13 0)"
    by code_simp
  then show ?thesis
    by (intro http_question_crash [where word = "chars ''GET''" and n = 1 and version = "[0x78]" and junk = "[]" and q = 0])
      (simp_all add: http_start_def srv_number)
qed

end
