(* ===== verification/MqttPacket.thy ===== *)
theory MqttPacket
  imports CString "HOL-Library.Signed_Division"
begin

text \<open>
  The packets of the MQTT client, \<open>Internet/MQTT/MQTTPacket/src\<close>: the functions that \<open>MQTTClient.c\<close> uses.
  What a function writes into its buffer is part of the result. A pointer into a buffer is what follows
  it there, a position is its distance from the start. \<open>None\<close> is an access outside an array or a null
  pointer that is used; an output that is not written is \<open>None\<close> inside the result. \<open>char\<close> is unsigned, as
  on the ARM targets of the driver; lengths are added without overflow.
\<close>

unbundle bit_operations_syntax

subsection \<open>Constants and headers\<close>

definition CONNECT :: u8 where "CONNECT = 1"
definition CONNACK :: u8 where "CONNACK = 2"
definition PUBLISH :: u8 where "PUBLISH = 3"
definition PUBACK :: u8 where "PUBACK = 4"
definition PUBREC :: u8 where "PUBREC = 5"
definition PUBREL :: u8 where "PUBREL = 6"
definition PUBCOMP :: u8 where "PUBCOMP = 7"
definition SUBSCRIBE :: u8 where "SUBSCRIBE = 8"
definition SUBACK :: u8 where "SUBACK = 9"
definition UNSUBSCRIBE :: u8 where "UNSUBSCRIBE = 10"
definition UNSUBACK :: u8 where "UNSUBACK = 11"
definition PINGREQ :: u8 where "PINGREQ = 12"
definition PINGRESP :: u8 where "PINGRESP = 13"
definition DISCONNECT :: u8 where "DISCONNECT = 14"
definition MQTTPACKET_BUFFER_TOO_SHORT :: int where "MQTTPACKET_BUFFER_TOO_SHORT = -2"
definition MAX_NO_OF_REMAINING_LENGTH_BYTES :: nat where "MAX_NO_OF_REMAINING_LENGTH_BYTES = 4"

lemmas mqtt_types = CONNECT_def CONNACK_def PUBLISH_def PUBACK_def PUBREC_def PUBREL_def PUBCOMP_def SUBSCRIBE_def
  SUBACK_def UNSUBSCRIBE_def UNSUBACK_def PINGREQ_def PINGRESP_def DISCONNECT_def

text \<open>The byte of a header, and its fields.\<close>

definition MQTTHeader :: "u8 \<Rightarrow> u8 \<Rightarrow> int \<Rightarrow> u8 \<Rightarrow> u8" where
  "MQTTHeader type dup qos retain =
     push_bit 4 type OR push_bit 3 (dup AND 1) OR push_bit 1 (of_int qos AND 3) OR (retain AND 1)"

definition header_type :: "u8 \<Rightarrow> u8" where "header_type b = drop_bit 4 b"
definition header_dup :: "u8 \<Rightarrow> u8" where "header_dup b = drop_bit 3 b AND 1"
definition header_qos :: "u8 \<Rightarrow> int" where "header_qos b = uint (drop_bit 1 b AND 3)"
definition header_retain :: "u8 \<Rightarrow> u8" where "header_retain b = b AND 1"

subsection \<open>Lengths\<close>

function MQTTPacket_encode :: "int \<Rightarrow> u8 list" where
  "MQTTPacket_encode n =
     (let d = of_int (n smod 128) in
      if 0 < n sdiv 128 then (d OR 0x80) # MQTTPacket_encode (n sdiv 128) else [d])"
  by auto
termination
proof (relation "measure nat")
  fix n :: int and d :: u8
  assume "0 < n sdiv 128"
  then have "128 \<le> n" by (auto simp: signed_divide_int_def sgn_if split: if_splits)
  then show "(n sdiv 128, n) \<in> measure nat" by (simp add: signed_divide_int_def sgn_if)
qed simp

declare MQTTPacket_encode.simps [simp del]

text \<open>The loop counts the byte it does not read when there are more than four.\<close>

fun decode_loop :: "nat \<Rightarrow> int \<Rightarrow> int \<Rightarrow> u8 list \<Rightarrow> (nat \<times> int) option" where
  "decode_loop len multiplier value bs =
     (if MAX_NO_OF_REMAINING_LENGTH_BYTES < len + 1 then Some (len + 1, value)
      else case bs of
        [] \<Rightarrow> None
      | c # cs \<Rightarrow>
          let value = value + uint (c AND 127) * multiplier in
          if c AND 128 \<noteq> 0 then decode_loop (len + 1) (multiplier * 128) value cs else Some (len + 1, value))"

declare decode_loop.simps [simp del]

definition MQTTPacket_decodeBuf :: "u8 list \<Rightarrow> (nat \<times> int) option" where
  "MQTTPacket_decodeBuf buf = decode_loop 0 1 0 buf"

definition MQTTPacket_len :: "int \<Rightarrow> int" where
  "MQTTPacket_len rem_len =
     (let rem_len = rem_len + 1 in
      if rem_len < 128 then rem_len + 1
      else if rem_len < 16384 then rem_len + 2
      else if rem_len < 2097151 then rem_len + 3
      else rem_len + 4)"

subsection \<open>Integers and strings\<close>

definition readInt :: "u8 list \<Rightarrow> nat \<Rightarrow> int option" where
  "readInt buf i = (if i + 1 < length buf then Some (256 * uint (buf ! i) + uint (buf ! (i + 1))) else None)"

definition readChar :: "u8 list \<Rightarrow> nat \<Rightarrow> u8 option" where
  "readChar buf i = (if i < length buf then Some (buf ! i) else None)"

text \<open>Of a number that is not negative.\<close>

definition writeInt :: "int \<Rightarrow> u8 list" where
  "writeInt anInt = [of_int (anInt div 256), of_int (anInt mod 256)]"

definition writeCString :: "u8 list \<Rightarrow> u8 list" where
  "writeCString string = writeInt (int (length string)) @ string"

text \<open>A number of bytes at a pointer.\<close>

definition mem_bytes :: "int \<Rightarrow> u8 list \<Rightarrow> u8 list option" where
  "mem_bytes n ptr = (if 0 \<le> n \<and> nat n \<le> length ptr then Some (take (nat n) ptr) else None)"

record MQTTString =
  cstring :: "u8 list option"
  lenstring_len :: int
  lenstring_data :: "u8 list option"

definition MQTTString_initializer :: MQTTString where
  "MQTTString_initializer = \<lparr>cstring = None, lenstring_len = 0, lenstring_data = None\<rparr>"

definition writeMQTTString :: "MQTTString \<Rightarrow> u8 list option" where
  "writeMQTTString m =
     (if 0 < lenstring_len m then do {
        data \<leftarrow> lenstring_data m;
        bs \<leftarrow> mem_bytes (lenstring_len m) data;
        Some (writeInt (lenstring_len m) @ bs)
      } else case cstring m of Some c \<Rightarrow> Some (writeCString c) | None \<Rightarrow> Some (writeInt 0))"

definition MQTTstrlen :: "MQTTString \<Rightarrow> int" where
  "MQTTstrlen m = (case cstring m of Some c \<Rightarrow> int (length c) | None \<Rightarrow> lenstring_len m)"

definition MQTTPacket_equals :: "MQTTString \<Rightarrow> u8 list \<Rightarrow> bool option" where
  "MQTTPacket_equals a bptr =
     (case cstring a of
        Some c \<Rightarrow> Some (c = bptr)
      | None \<Rightarrow>
          if lenstring_len a = int (length bptr) then do {
            data \<leftarrow> lenstring_data a;
            bs \<leftarrow> mem_bytes (lenstring_len a) data;
            Some (bs = bptr)
          } else Some False)"

text \<open>Whether it worked, the length and the pointer that are read, and the position after them.\<close>

definition readMQTTLenString :: "u8 list \<Rightarrow> nat \<Rightarrow> int \<Rightarrow> (bool \<times> int option \<times> u8 list option \<times> nat) option" where
  "readMQTTLenString buf i enddata =
     (if 1 < enddata - int i then do {
        len \<leftarrow> readInt buf i;
        if int (i + 2) + len \<le> enddata then Some (True, Some len, Some (drop (i + 2) buf), i + 2 + nat len)
        else Some (False, Some len, None, i + 2)
      } else Some (False, None, None, i))"

subsection \<open>Packets that are sent\<close>

definition put_packet :: "u8 list \<Rightarrow> u8 list \<Rightarrow> (int \<times> u8 list) option" where
  "put_packet buf bs = do { buf \<leftarrow> put_at 0 bs buf; Some (int (length bs), buf) }"

definition MQTTSerialize_publishLength :: "int \<Rightarrow> MQTTString \<Rightarrow> int \<Rightarrow> int" where
  "MQTTSerialize_publishLength qos topicName payloadlen =
     2 + MQTTstrlen topicName + payloadlen + (if 0 < qos then 2 else 0)"

definition MQTTSerialize_publish ::
    "u8 list \<Rightarrow> int \<Rightarrow> u8 \<Rightarrow> int \<Rightarrow> u8 \<Rightarrow> u16 \<Rightarrow> MQTTString \<Rightarrow> u8 list \<Rightarrow> int \<Rightarrow> (int \<times> u8 list) option" where
  "MQTTSerialize_publish buf buflen dup qos retained packetid topicName payload payloadlen =
     (let rem_len = MQTTSerialize_publishLength qos topicName payloadlen in
      if buflen < MQTTPacket_len rem_len then Some (MQTTPACKET_BUFFER_TOO_SHORT, buf)
      else do {
        topic \<leftarrow> writeMQTTString topicName;
        data \<leftarrow> mem_bytes payloadlen payload;
        put_packet buf (MQTTHeader PUBLISH dup qos retained # MQTTPacket_encode rem_len @ topic
          @ (if 0 < qos then writeInt (uint packetid) else []) @ data)
      })"

definition MQTTSerialize_ack :: "u8 list \<Rightarrow> int \<Rightarrow> u8 \<Rightarrow> u8 \<Rightarrow> u16 \<Rightarrow> (int \<times> u8 list) option" where
  "MQTTSerialize_ack buf buflen packettype dup packetid =
     (if buflen < 4 then Some (MQTTPACKET_BUFFER_TOO_SHORT, buf)
      else put_packet buf (MQTTHeader packettype dup (if packettype = PUBREL then 1 else 0) 0
        # MQTTPacket_encode 2 @ writeInt (uint packetid)))"

definition MQTTSerialize_zero :: "u8 list \<Rightarrow> int \<Rightarrow> u8 \<Rightarrow> (int \<times> u8 list) option" where
  "MQTTSerialize_zero buf buflen packettype =
     (if buflen < 2 then Some (MQTTPACKET_BUFFER_TOO_SHORT, buf)
      else put_packet buf (MQTTHeader packettype 0 0 0 # MQTTPacket_encode 0))"

definition MQTTSerialize_disconnect :: "u8 list \<Rightarrow> int \<Rightarrow> (int \<times> u8 list) option" where
  "MQTTSerialize_disconnect buf buflen = MQTTSerialize_zero buf buflen DISCONNECT"

definition MQTTSerialize_pingreq :: "u8 list \<Rightarrow> int \<Rightarrow> (int \<times> u8 list) option" where
  "MQTTSerialize_pingreq buf buflen = MQTTSerialize_zero buf buflen PINGREQ"

text \<open>The topic filters come with the requested qualities of service.\<close>

definition MQTTSerialize_subscribeLength :: "MQTTString list \<Rightarrow> int" where
  "MQTTSerialize_subscribeLength topicFilters = foldl (\<lambda>len t. len + (2 + MQTTstrlen t + 1)) 2 topicFilters"

fun write_filters :: "(MQTTString \<times> u8) list \<Rightarrow> u8 list option" where
  "write_filters [] = Some []"
| "write_filters ((t, qos) # ts) = do { bs \<leftarrow> writeMQTTString t; cs \<leftarrow> write_filters ts; Some (bs @ qos # cs) }"

definition MQTTSerialize_subscribe ::
    "u8 list \<Rightarrow> int \<Rightarrow> u8 \<Rightarrow> u16 \<Rightarrow> (MQTTString \<times> u8) list \<Rightarrow> (int \<times> u8 list) option" where
  "MQTTSerialize_subscribe buf buflen dup packetid filters =
     (let rem_len = MQTTSerialize_subscribeLength (map fst filters) in
      if buflen < MQTTPacket_len rem_len then Some (MQTTPACKET_BUFFER_TOO_SHORT, buf)
      else do {
        bs \<leftarrow> write_filters filters;
        put_packet buf (MQTTHeader SUBSCRIBE dup 1 0 # MQTTPacket_encode rem_len @ writeInt (uint packetid) @ bs)
      })"

definition MQTTSerialize_unsubscribeLength :: "MQTTString list \<Rightarrow> int" where
  "MQTTSerialize_unsubscribeLength topicFilters = foldl (\<lambda>len t. len + (2 + MQTTstrlen t)) 2 topicFilters"

fun write_strings :: "MQTTString list \<Rightarrow> u8 list option" where
  "write_strings [] = Some []"
| "write_strings (t # ts) = do { bs \<leftarrow> writeMQTTString t; cs \<leftarrow> write_strings ts; Some (bs @ cs) }"

definition MQTTSerialize_unsubscribe ::
    "u8 list \<Rightarrow> int \<Rightarrow> u8 \<Rightarrow> u16 \<Rightarrow> MQTTString list \<Rightarrow> (int \<times> u8 list) option" where
  "MQTTSerialize_unsubscribe buf buflen dup packetid filters =
     (let rem_len = MQTTSerialize_unsubscribeLength filters in
      if buflen < MQTTPacket_len rem_len then Some (MQTTPACKET_BUFFER_TOO_SHORT, buf)
      else do {
        bs \<leftarrow> write_strings filters;
        put_packet buf (MQTTHeader UNSUBSCRIBE dup 1 0 # MQTTPacket_encode rem_len @ writeInt (uint packetid) @ bs)
      })"

subsection \<open>Connect\<close>

record MQTTPacket_willOptions =
  will_topicName :: MQTTString
  will_message :: MQTTString
  will_retained :: u8
  will_qos :: u8

record MQTTPacket_connectData =
  MQTTVersion :: u8
  clientID :: MQTTString
  option_keepAlive :: u16
  cleansession :: u8
  willFlag :: u8
  will :: MQTTPacket_willOptions
  username :: MQTTString
  password :: MQTTString

definition MQTTPacket_connectData_initializer :: MQTTPacket_connectData where
  "MQTTPacket_connectData_initializer =
     \<lparr>MQTTVersion = 4, clientID = MQTTString_initializer, option_keepAlive = 60, cleansession = 1, willFlag = 0,
      will = \<lparr>will_topicName = MQTTString_initializer, will_message = MQTTString_initializer, will_retained = 0,
        will_qos = 0\<rparr>,
      username = MQTTString_initializer, password = MQTTString_initializer\<rparr>"

definition string_given :: "MQTTString \<Rightarrow> bool" where
  "string_given m \<longleftrightarrow> cstring m \<noteq> None \<or> lenstring_data m \<noteq> None"

definition MQTTSerialize_connectLength :: "MQTTPacket_connectData \<Rightarrow> int" where
  "MQTTSerialize_connectLength options =
     (if MQTTVersion options = 3 then 12 else if MQTTVersion options = 4 then 10 else 0)
       + MQTTstrlen (clientID options) + 2
       + (if willFlag options \<noteq> 0
          then MQTTstrlen (will_topicName (will options)) + 2 + MQTTstrlen (will_message (will options)) + 2 else 0)
       + (if string_given (username options) then MQTTstrlen (username options) + 2 else 0)
       + (if string_given (password options) then MQTTstrlen (password options) + 2 else 0)"

definition connect_flags :: "MQTTPacket_connectData \<Rightarrow> u8" where
  "connect_flags options =
     push_bit 1 (cleansession options AND 1)
     OR (if willFlag options \<noteq> 0
         then push_bit 2 1 OR push_bit 3 (will_qos (will options) AND 3)
           OR push_bit 5 (will_retained (will options) AND 1) else 0)
     OR (if string_given (password options) then push_bit 6 1 else 0)
     OR (if string_given (username options) then push_bit 7 1 else 0)"

definition connect_strings :: "MQTTPacket_connectData \<Rightarrow> MQTTString list" where
  "connect_strings options =
     clientID options
     # (if willFlag options \<noteq> 0 then [will_topicName (will options), will_message (will options)] else [])
     @ (if string_given (username options) then [username options] else [])
     @ (if string_given (password options) then [password options] else [])"

definition MQTTSerialize_connect ::
    "u8 list \<Rightarrow> int \<Rightarrow> MQTTPacket_connectData \<Rightarrow> (int \<times> u8 list) option" where
  "MQTTSerialize_connect buf buflen options =
     (let len = MQTTSerialize_connectLength options in
      if buflen < MQTTPacket_len len then Some (MQTTPACKET_BUFFER_TOO_SHORT, buf)
      else do {
        bs \<leftarrow> write_strings (connect_strings options);
        put_packet buf (MQTTHeader CONNECT 0 0 0 # MQTTPacket_encode len
          @ (if MQTTVersion options = 4 then writeCString (chars ''MQTT'') @ [4]
             else writeCString (chars ''MQIsdp'') @ [3])
          @ connect_flags options # writeInt (uint (option_keepAlive options)) @ bs)
      })"

subsection \<open>Packets that are received\<close>

text \<open>What a PUBLISH gives to its receiver; a topic or a payload is a pointer into the buffer.\<close>

record publish_data =
  pub_dup :: u8
  pub_qos :: int
  pub_retained :: u8
  pub_id :: "u16 option"
  pub_topic_len :: "int option"
  pub_topic :: "u8 list option"
  pub_payloadlen :: "int option"
  pub_payload :: "u8 list option"

text \<open>The return code, and what is written; a string that does not fit leaves the number of length bytes in it.\<close>

definition MQTTDeserialize_publish :: "u8 list \<Rightarrow> (int \<times> publish_data option) option" where
  "MQTTDeserialize_publish buf = do {
     h \<leftarrow> readChar buf 0;
     if header_type h \<noteq> PUBLISH then Some (0, None)
     else do {
       (n, mylen) \<leftarrow> MQTTPacket_decodeBuf (tl buf);
       let enddata = int (1 + n) + mylen;
       (ok, len, data, i) \<leftarrow> readMQTTLenString buf (1 + n) enddata;
       let d = \<lparr>pub_dup = header_dup h, pub_qos = header_qos h, pub_retained = header_retain h, pub_id = None,
         pub_topic_len = len, pub_topic = data, pub_payloadlen = None, pub_payload = None\<rparr>;
       if \<not> ok \<or> enddata - int i < 0 then Some (int n, Some d)
       else do {
         (d, i) \<leftarrow> (if 0 < pub_qos d then do { v \<leftarrow> readInt buf i; Some (d\<lparr>pub_id := Some (of_int v)\<rparr>, i + 2) }
           else Some (d, i));
         Some (1, Some (d\<lparr>pub_payloadlen := Some (enddata - int i), pub_payload := Some (drop i buf)\<rparr>))
       }
     }
   }"

text \<open>The return code, the type, the flag and the identifier.\<close>

definition MQTTDeserialize_ack :: "u8 list \<Rightarrow> (int \<times> u8 \<times> u8 \<times> u16 option) option" where
  "MQTTDeserialize_ack buf = do {
     h \<leftarrow> readChar buf 0;
     (n, mylen) \<leftarrow> MQTTPacket_decodeBuf (tl buf);
     if mylen < 2 then Some (int n, header_type h, header_dup h, None)
     else do { v \<leftarrow> readInt buf (1 + n); Some (1, header_type h, header_dup h, Some (of_int v)) }
   }"

text \<open>The return code, and the two outputs when they are written.\<close>

definition MQTTDeserialize_connack :: "u8 list \<Rightarrow> (int \<times> (u8 \<times> u8) option) option" where
  "MQTTDeserialize_connack buf = do {
     h \<leftarrow> readChar buf 0;
     if header_type h \<noteq> CONNACK then Some (0, None)
     else do {
       (n, mylen) \<leftarrow> MQTTPacket_decodeBuf (tl buf);
       if mylen < 2 then Some (int n, None)
       else do {
         flags \<leftarrow> readChar buf (1 + n);
         connack_rc \<leftarrow> readChar buf (2 + n);
         Some (1, Some (drop_bit 7 flags, connack_rc))
       }
     }
   }"

text \<open>The loop that fills the array of the caller.\<close>

function granted_loop :: "nat \<Rightarrow> nat \<Rightarrow> int list \<Rightarrow> u8 list \<Rightarrow> nat \<Rightarrow> int \<Rightarrow> (int \<times> nat \<times> int list) option" where
  "granted_loop maxcount count granted buf i enddata =
     (if int i < enddata then
        if maxcount < count then Some (-1, count, granted)
        else do {
          q \<leftarrow> readChar buf i;
          if length granted \<le> count then None
          else granted_loop maxcount (count + 1) (granted[count := uint q]) buf (i + 1) enddata
        }
      else Some (1, count, granted))"
  by auto
termination by (relation "measure (\<lambda>(maxcount, count, granted, buf, i, enddata). nat (enddata - int i))") auto

declare granted_loop.simps [simp del]

definition MQTTDeserialize_suback :: "nat \<Rightarrow> nat \<Rightarrow> int list \<Rightarrow> u8 list \<Rightarrow> (int \<times> nat \<times> int list) option" where
  "MQTTDeserialize_suback maxcount count grantedQoSs buf = do {
     h \<leftarrow> readChar buf 0;
     if header_type h \<noteq> SUBACK then Some (0, count, grantedQoSs)
     else do {
       (n, mylen) \<leftarrow> MQTTPacket_decodeBuf (tl buf);
       if mylen < 2 then Some (int n, count, grantedQoSs)
       else do {
         packetid \<leftarrow> readInt buf (1 + n);
         granted_loop maxcount 0 grantedQoSs buf (3 + n) (int (1 + n) + mylen)
       }
     }
   }"

definition MQTTDeserialize_unsuback :: "u8 list \<Rightarrow> int option" where
  "MQTTDeserialize_unsuback buf = do {
     (rc, type, dup, packetid) \<leftarrow> MQTTDeserialize_ack buf;
     Some (if type = UNSUBACK then 1 else rc)
   }"

end
