(* ===== verification/MqttClient.thy ===== *)
theory MqttClient
  imports Sends MqttPacket
begin

text \<open>
  The MQTT client, \<open>Internet/MQTT/MQTTClient.c\<close>, and the functions it gets from the driver,
  \<open>mqtt_interface.c\<close>, on top of the stream calls, without \<open>MQTT_TASK\<close>. The structures \<open>MQTTClient\<close> and
  \<open>Network\<close> and the millisecond counter extend the record of the driver. \<open>unsigned long\<close> has 32 bits. The
  timer interrupt may come at any time, and only a look at the counter sees it: \<open>timer_ticks\<close> says how
  often it came before a look. Handlers of messages belong to the application: they act on the world and
  call no function of the client. The ghost field \<open>mqtt_sent\<close> lists what was given to \<open>send\<close>, with its
  result, latest first. \<open>None\<close> is a call that does not return, leaves a buffer or uses a variable that was
  never set.
\<close>

unbundle bit_operations_syntax

subsection \<open>State and timers\<close>

definition MAX_PACKET_ID :: u32 where "MAX_PACKET_ID = 65535"
definition MAX_MESSAGE_HANDLERS :: nat where "MAX_MESSAGE_HANDLERS = 5"
definition MQTT_FAILURE :: int where "MQTT_FAILURE = -1"
definition SUCCESSS :: int where "SUCCESSS = 0"

definition SOCK_ERROR :: int where "SOCK_ERROR = 0"

type_synonym 'w message_handler = "publish_data \<Rightarrow> 'w \<Rightarrow> 'w"

record 'w mqtt_drv = "'w drv" +
  MilliTimer :: u32
  timer_ticks :: "'w \<Rightarrow> nat \<times> 'w"
  my_socket :: int
  next_packetid :: u32
  command_timeout_ms :: u32
  mqtt_buf :: "u8 list"
  buf_size :: u32
  readbuf :: "u8 list"
  readbuf_size :: u32
  keepAliveInterval :: u32
  ping_outstanding :: u8
  isconnected :: int
  messageHandlers :: "(u8 list option \<times> 'w message_handler option) list"
  defaultMessageHandler :: "'w message_handler option"
  ping_timer :: u32
  mqtt_sent :: "(u8 list \<times> int) list"

type_synonym ('w, 'm) mqtt_proc = "('w, 'm) mqtt_drv_scheme \<Rightarrow> ('w, 'm) mqtt_drv_scheme"
type_synonym ('a, 'w, 'm) mqtt_op = "('w, 'm) mqtt_drv_scheme \<Rightarrow> 'a \<times> ('w, 'm) mqtt_drv_scheme"
type_synonym ('a, 'w, 'm) mqtt_wait = "('w, 'm) mqtt_drv_scheme \<Rightarrow> ('a \<times> ('w, 'm) mqtt_drv_scheme) option"

definition MilliTimer_Handler :: "('w, 'm) mqtt_proc" where
  "MilliTimer_Handler s = s\<lparr>MilliTimer := MilliTimer s + 1\<rparr>"

text \<open>A look at the counter.\<close>

definition milli_now :: "(u32, 'w, 'm) mqtt_op" where
  "milli_now s =
     (let (k, w) = timer_ticks s (world s);
          s = (MilliTimer_Handler ^^ k) (s\<lparr>world := w\<rparr>)
      in (MilliTimer s, s))"

text \<open>A timer is its \<open>end_time\<close>.\<close>

definition TimerInit :: u32 where "TimerInit = 0"

definition TimerIsExpired :: "u32 \<Rightarrow> (bool, 'w, 'm) mqtt_op" where
  "TimerIsExpired end_time s = (let (now, s) = milli_now s in (sint (end_time - now) < 0, s))"

definition TimerCountdownMS :: "u32 \<Rightarrow> (u32, 'w, 'm) mqtt_op" where
  "TimerCountdownMS timeout s = (let (now, s) = milli_now s in (now + timeout, s))"

definition TimerCountdown :: "u32 \<Rightarrow> (u32, 'w, 'm) mqtt_op" where
  "TimerCountdown timeout s = (let (now, s) = milli_now s in (now + timeout * 1000, s))"

definition TimerLeftMS :: "u32 \<Rightarrow> (int, 'w, 'm) mqtt_op" where
  "TimerLeftMS end_time s =
     (let (now, s) = milli_now s;
          left = sint (end_time - now)
      in (if left < 0 then 0 else left, s))"

subsection \<open>The network\<close>

definition NewNetwork :: "int \<Rightarrow> ('w, 'm) mqtt_proc" where
  "NewNetwork sn s = s\<lparr>my_socket := sn\<rparr>"

definition w5x00_read :: "'w platform \<Rightarrow> int \<Rightarrow> (int \<times> u8 list, 'w, 'm) mqtt_wait" where
  "w5x00_read p len s =
     (let (sr, s) = getSn_SR p (of_int (my_socket s)) s in
      if sr = SOCK_ESTABLISHED then do {
        (rsr, s) \<leftarrow> getSn_RX_RSR p (of_int (my_socket s)) s;
        if 0 < rsr then recv p (of_int (my_socket s)) True (of_int len) s
        else Some ((SOCK_ERROR, []), s)
      } else Some ((SOCK_ERROR, []), s))"

text \<open>
  \<open>send\<close> takes its length in 16 bits; the bytes that it is given must be there. The log keeps them with
  its result.
\<close>

definition w5x00_write :: "'w platform \<Rightarrow> u8 list \<Rightarrow> int \<Rightarrow> (int, 'w, 'm) mqtt_wait" where
  "w5x00_write p buffer len s =
     (let (sr, s) = getSn_SR p (of_int (my_socket s)) s in
      if sr = SOCK_ESTABLISHED then do {
        let n = (of_int len :: u16);
        bs \<leftarrow> mem_bytes (uint n) buffer;
        (r, s) \<leftarrow> send p (of_int (my_socket s)) (Some bs) n s;
        Some (r, s\<lparr>mqtt_sent := (bs, r) # mqtt_sent s\<rparr>)
      } else Some (SOCK_ERROR, s))"

definition w5x00_disconnect :: "'w platform \<Rightarrow> (unit, 'w, 'm) mqtt_wait" where
  "w5x00_disconnect p s = do { (_, s) \<leftarrow> disconnect p (of_int (my_socket s)) s; Some ((), s) }"

definition ConnectNetwork :: "'w platform \<Rightarrow> u8 list \<Rightarrow> u16 \<Rightarrow> (int, 'w, 'm) mqtt_wait" where
  "ConnectNetwork p ip port s =
     (let (r, s) = socket p (of_int (my_socket s)) Sn_MR_TCP 12345 0 s in
      if r \<noteq> my_socket s then Some (SOCK_ERROR, s)
      else do {
        (r, s) \<leftarrow> connect_W5x00 p (of_int (my_socket s)) (Some ip) port s;
        Some (if r \<noteq> SOCK_OK then SOCK_ERROR else SOCK_OK, s)
      })"

subsection \<open>Sending and receiving packets\<close>

definition MQTTClientInit :: "u32 \<Rightarrow> u8 list \<Rightarrow> u32 \<Rightarrow> u8 list \<Rightarrow> u32 \<Rightarrow> ('w, 'm) mqtt_proc" where
  "MQTTClientInit timeout sendbuf sendbuf_size rdbuf rdbuf_size s =
     s\<lparr>messageHandlers := map (\<lambda>(_, fp). (None, fp)) (messageHandlers s), command_timeout_ms := timeout,
       mqtt_buf := sendbuf, buf_size := sendbuf_size, readbuf := rdbuf, readbuf_size := rdbuf_size,
       isconnected := 0, ping_outstanding := 0, defaultMessageHandler := None, next_packetid := 1,
       ping_timer := TimerInit\<rparr>"

definition getNextPacketId :: "(u32, 'w, 'm) mqtt_op" where
  "getNextPacketId s =
     (let i = (if next_packetid s = MAX_PACKET_ID then 1 else next_packetid s + 1)
      in (i, s\<lparr>next_packetid := i\<rparr>))"

text \<open>A round of the loop of \<open>sendPacket\<close>, which is left with the number of bytes sent.\<close>

definition send_step :: "'w platform \<Rightarrow> int \<Rightarrow> u32 \<Rightarrow> int \<Rightarrow> (int + int, 'w, 'm) mqtt_wait" where
  "send_step p len timer sent s =
     (if len \<le> sent then Some (Inl sent, s)
      else let (expired, s) = TimerIsExpired timer s in
        if expired then Some (Inl sent, s)
        else do {
          let (_, s) = TimerLeftMS timer s;
          (rc, s) \<leftarrow> w5x00_write p (drop (nat sent) (mqtt_buf s)) len s;
          Some (if rc < 0 then Inl sent else Inr (sent + rc), s)
        })"

definition sendPacket :: "'w platform \<Rightarrow> int \<Rightarrow> u32 \<Rightarrow> (int, 'w, 'm) mqtt_wait" where
  "sendPacket p len timer s = do {
     (sent, s) \<leftarrow> forever (send_step p len timer) 0 s;
     if sent = len then let (t, s) = TimerCountdown (keepAliveInterval s) s in Some (SUCCESSS, s\<lparr>ping_timer := t\<rparr>)
     else Some (MQTT_FAILURE, s)
   }"

text \<open>The rounds that are left; the result is the value, the number of bytes is not used.\<close>

fun decodePacket :: "'w platform \<Rightarrow> nat \<Rightarrow> int \<Rightarrow> int \<Rightarrow> (int, 'w, 'm) mqtt_wait" where
  "decodePacket p 0 multiplier value s = Some (value, s)"
| "decodePacket p (Suc k) multiplier value s = do {
     ((rc, bs), s) \<leftarrow> w5x00_read p 1 s;
     if rc \<noteq> 1 then Some (value, s)
     else case bs of
       [] \<Rightarrow> None
     | i # _ \<Rightarrow>
         let value = value + uint (i AND 127) * multiplier in
         if i AND 128 \<noteq> 0 then decodePacket p k (multiplier * 128) value s else Some (value, s)
   }"

text \<open>Bytes that are read to a position of the buffer, and the result of the read.\<close>

definition read_at :: "'w platform \<Rightarrow> nat \<Rightarrow> int \<Rightarrow> (int, 'w, 'm) mqtt_wait" where
  "read_at p i len s = do {
     ((rc, bs), s) \<leftarrow> w5x00_read p len s;
     b \<leftarrow> put_at i bs (readbuf s);
     Some (rc, s\<lparr>readbuf := b\<rparr>)
   }"

definition readPacket :: "'w platform \<Rightarrow> u32 \<Rightarrow> (int, 'w, 'm) mqtt_wait" where
  "readPacket p timer s = do {
     let (_, s) = TimerLeftMS timer s;
     (rc, s) \<leftarrow> read_at p 0 1 s;
     if rc \<noteq> 1 then Some (MQTT_FAILURE, s)
     else do {
       let (_, s) = TimerLeftMS timer s;
       (rem_len, s) \<leftarrow> decodePacket p MAX_NO_OF_REMAINING_LENGTH_BYTES 1 0 s;
       b \<leftarrow> put_at 1 (MQTTPacket_encode rem_len) (readbuf s);
       let s = s\<lparr>readbuf := b\<rparr>;
       let len = 1 + length (MQTTPacket_encode rem_len);
       (bad, s) \<leftarrow> (if 0 < rem_len then do {
           let (_, s) = TimerLeftMS timer s;
           (rc, s) \<leftarrow> read_at p len rem_len s;
           Some (rc \<noteq> rem_len, s)
         } else Some (False, s));
       if bad then Some (MQTT_FAILURE, s)
       else do { h \<leftarrow> readChar (readbuf s) 0; Some (uint (header_type h), s) }
     }
   }"

subsection \<open>Messages\<close>

text \<open>The rest of the filter and the rest of the topic.\<close>

fun isTopicMatched :: "u8 list \<Rightarrow> u8 list \<Rightarrow> bool" where
  "isTopicMatched [] curn = (curn = [])"
| "isTopicMatched (f # curf) [] = False"
| "isTopicMatched (f # curf) (n # curn) =
     (if n = 0x2F \<and> f \<noteq> 0x2F then False
      else if f \<noteq> 0x2B \<and> f \<noteq> 0x23 \<and> f \<noteq> n then False
      else if f = 0x2B then isTopicMatched curf (dropWhile (\<lambda>c. c \<noteq> 0x2F) curn)
      else if f = 0x23 then isTopicMatched curf []
      else isTopicMatched curf curn)"

definition handler_matches :: "u8 list \<Rightarrow> publish_data \<Rightarrow> bool option" where
  "handler_matches topicFilter d = do {
     len \<leftarrow> pub_topic_len d;
     equal \<leftarrow> MQTTPacket_equals \<lparr>cstring = None, lenstring_len = len, lenstring_data = pub_topic d\<rparr> topicFilter;
     if equal then Some True
     else do { data \<leftarrow> pub_topic d; topic \<leftarrow> mem_bytes len data; Some (isTopicMatched topicFilter topic) }
   }"

fun deliver_loop :: "(u8 list option \<times> 'w message_handler option) list \<Rightarrow> publish_data \<Rightarrow> int \<Rightarrow> (int, 'w, 'm) mqtt_wait" where
  "deliver_loop [] d rc s = Some (rc, s)"
| "deliver_loop ((topicFilter, fp) # hs) d rc s = do {
     matches \<leftarrow> (case topicFilter of None \<Rightarrow> Some False | Some f \<Rightarrow> handler_matches f d);
     case fp of
       Some fp \<Rightarrow>
         if matches then deliver_loop hs d SUCCESSS (s\<lparr>world := fp d (world s)\<rparr>) else deliver_loop hs d rc s
     | None \<Rightarrow> deliver_loop hs d rc s
   }"

definition deliverMessage :: "publish_data \<Rightarrow> (int, 'w, 'm) mqtt_wait" where
  "deliverMessage d s = do {
     (rc, s) \<leftarrow> deliver_loop (messageHandlers s) d MQTT_FAILURE s;
     Some (case defaultMessageHandler s of
         Some fp \<Rightarrow> if rc = MQTT_FAILURE then (SUCCESSS, s\<lparr>world := fp d (world s)\<rparr>) else (rc, s)
       | None \<Rightarrow> (rc, s))
   }"

text \<open>A serialised packet goes into the buffer of the client.\<close>

definition serialized :: "(u8 list \<Rightarrow> int \<Rightarrow> (int \<times> u8 list) option) \<Rightarrow> (int, 'w, 'm) mqtt_wait" where
  "serialized f s = do { (len, b) \<leftarrow> f (mqtt_buf s) (sint (buf_size s)); Some (len, s\<lparr>mqtt_buf := b\<rparr>) }"

definition keepalive :: "'w platform \<Rightarrow> (int, 'w, 'm) mqtt_wait" where
  "keepalive p s =
     (if keepAliveInterval s = 0 then Some (SUCCESSS, s)
      else let (expired, s) = TimerIsExpired (ping_timer s) s in
        if expired \<and> ping_outstanding s = 0 then do {
          let (timer, s) = TimerCountdownMS 1000 s;
          (len, s) \<leftarrow> serialized MQTTSerialize_pingreq s;
          if 0 < len then do {
            (rc, s) \<leftarrow> sendPacket p len timer s;
            Some (rc, if rc = SUCCESSS then s\<lparr>ping_outstanding := 1\<rparr> else s)
          } else Some (MQTT_FAILURE, s)
        } else Some (MQTT_FAILURE, s))"

subsection \<open>One packet\<close>

text \<open>An acknowledgement is serialised and sent.\<close>

definition send_ack :: "'w platform \<Rightarrow> u8 \<Rightarrow> u16 \<Rightarrow> u32 \<Rightarrow> (int, 'w, 'm) mqtt_wait" where
  "send_ack p packettype packetid timer s = do {
     (len, s) \<leftarrow> serialized (\<lambda>buf buflen. MQTTSerialize_ack buf buflen packettype 0 packetid) s;
     if len \<le> 0 then Some (MQTT_FAILURE, s) else sendPacket p len timer s
   }"

text \<open>What a packet leads to: \<open>rc\<close>, and whether the function jumps to its end.\<close>

definition cycle_publish :: "'w platform \<Rightarrow> u32 \<Rightarrow> (int \<times> bool, 'w, 'm) mqtt_wait" where
  "cycle_publish p timer s = do {
     (r, d) \<leftarrow> MQTTDeserialize_publish (readbuf s);
     if r \<noteq> 1 then Some ((SUCCESSS, True), s)
     else do {
       d \<leftarrow> d;
       (_, s) \<leftarrow> deliverMessage d s;
       if pub_qos d = 0 then Some ((SUCCESSS, False), s)
       else if pub_qos d = 1 \<or> pub_qos d = 2 then do {
         packetid \<leftarrow> pub_id d;
         (rc, s) \<leftarrow> send_ack p (if pub_qos d = 1 then PUBACK else PUBREC) packetid timer s;
         Some ((rc, rc = MQTT_FAILURE), s)
       } else Some ((MQTT_FAILURE, True), s)
     }
   }"

definition cycle_pubrec :: "'w platform \<Rightarrow> u32 \<Rightarrow> (int \<times> bool, 'w, 'm) mqtt_wait" where
  "cycle_pubrec p timer s = do {
     (r, type, dup, mypacketid) \<leftarrow> MQTTDeserialize_ack (readbuf s);
     if r \<noteq> 1 then Some ((MQTT_FAILURE, True), s)
     else do {
       packetid \<leftarrow> mypacketid;
       (rc, s) \<leftarrow> send_ack p PUBREL packetid timer s;
       Some ((if rc \<noteq> SUCCESSS then MQTT_FAILURE else rc, rc \<noteq> SUCCESSS), s)
     }
   }"

definition cycle :: "'w platform \<Rightarrow> u32 \<Rightarrow> (int, 'w, 'm) mqtt_wait" where
  "cycle p timer s = do {
     (t, s) \<leftarrow> readPacket p timer s;
     let packet_type = (of_int t :: u16);
     ((rc, exit), s) \<leftarrow>
       (if packet_type = ucast PUBLISH then cycle_publish p timer s
        else if packet_type = ucast PUBREC then cycle_pubrec p timer s
        else Some ((SUCCESSS, False),
          if packet_type = ucast PINGRESP then s\<lparr>ping_outstanding := 0\<rparr> else s));
     (_, s) \<leftarrow> (if exit then Some (0, s) else keepalive p s);
     Some (if rc = SUCCESSS then uint packet_type else rc, s)
   }"

definition MQTTYield :: "'w platform \<Rightarrow> int \<Rightarrow> (int, 'w, 'm) mqtt_wait" where
  "MQTTYield p timeout_ms s =
     (let (timer, s) = TimerCountdownMS (of_int timeout_ms) s in do {
        (rc, s) \<leftarrow> cycle p timer s;
        Some (if rc = MQTT_FAILURE then MQTT_FAILURE else SUCCESSS, s)
      })"

definition run_step :: "'w platform \<Rightarrow> unit \<Rightarrow> (unit + unit, 'w, 'm) mqtt_wait" where
  "run_step p _ s =
     (let (timer, s) = TimerCountdownMS 500 s in do { (_, s) \<leftarrow> cycle p timer s; Some (Inr (), s) })"

definition MQTTRun :: "'w platform \<Rightarrow> (unit, 'w, 'm) mqtt_wait" where
  "MQTTRun p s = forever (run_step p) () s"

text \<open>A round of the loop of \<open>waitfor\<close>, with its \<open>rc\<close>.\<close>

definition wait_step :: "'w platform \<Rightarrow> u8 \<Rightarrow> u32 \<Rightarrow> int \<Rightarrow> (int + int, 'w, 'm) mqtt_wait" where
  "wait_step p packet_type timer rc s =
     (let (expired, s) = TimerIsExpired timer s in
      if expired then Some (Inl rc, s)
      else do {
        (rc, s) \<leftarrow> cycle p timer s;
        Some (if rc \<noteq> uint packet_type then Inr rc else Inl rc, s)
      })"

definition waitfor :: "'w platform \<Rightarrow> u8 \<Rightarrow> u32 \<Rightarrow> (int, 'w, 'm) mqtt_wait" where
  "waitfor p packet_type timer s = forever (wait_step p packet_type timer) MQTT_FAILURE s"

subsection \<open>Calls of the application\<close>

text \<open>The packet in the buffer is sent, and its answer awaited; \<open>answer\<close> reads it.\<close>

definition request ::
    "'w platform \<Rightarrow> int \<Rightarrow> u32 \<Rightarrow> u8 \<Rightarrow> (int, 'w, 'm) mqtt_wait \<Rightarrow> (int, 'w, 'm) mqtt_wait" where
  "request p len timer packet_type answer s = do {
     (rc, s) \<leftarrow> sendPacket p len timer s;
     if rc \<noteq> SUCCESSS then Some (rc, s)
     else do {
       (t, s) \<leftarrow> waitfor p packet_type timer s;
       if t = uint packet_type then answer s else Some (MQTT_FAILURE, s)
     }
   }"

definition connack_answer :: "(int, 'w, 'm) mqtt_wait" where
  "connack_answer s = do {
     (r, out) \<leftarrow> MQTTDeserialize_connack (readbuf s);
     Some (if r = 1 then uint (case out of Some (_, connack_rc) \<Rightarrow> connack_rc | None \<Rightarrow> 255) else MQTT_FAILURE, s)
   }"

definition MQTTConnect :: "'w platform \<Rightarrow> MQTTPacket_connectData option \<Rightarrow> (int, 'w, 'm) mqtt_wait" where
  "MQTTConnect p options s =
     (if isconnected s \<noteq> 0 then Some (MQTT_FAILURE, s)
      else do {
        let (timer, s) = TimerCountdownMS (command_timeout_ms s) s;
        let options = (case options of None \<Rightarrow> MQTTPacket_connectData_initializer | Some d \<Rightarrow> d);
        let s = s\<lparr>keepAliveInterval := ucast (option_keepAlive options)\<rparr>;
        let (t, s) = TimerCountdown (keepAliveInterval s) s;
        (len, s) \<leftarrow> serialized (\<lambda>buf buflen. MQTTSerialize_connect buf buflen options) (s\<lparr>ping_timer := t\<rparr>);
        (rc, s) \<leftarrow> (if len \<le> 0 then Some (MQTT_FAILURE, s) else request p len timer CONNACK connack_answer s);
        Some (rc, if rc = SUCCESSS then s\<lparr>isconnected := 1\<rparr> else s)
      })"

text \<open>A string of the caller as a topic.\<close>

definition topic_string :: "u8 list \<Rightarrow> MQTTString" where
  "topic_string c = MQTTString_initializer\<lparr>cstring := Some c\<rparr>"

definition set_handler :: "u8 list \<Rightarrow> 'w message_handler option \<Rightarrow> (int, 'w, 'm) mqtt_wait" where
  "set_handler topicFilter fp s =
     Some (case List.find (\<lambda>i. fst (messageHandlers s ! i) = None) [0..<length (messageHandlers s)] of
         None \<Rightarrow> (MQTT_FAILURE, s)
       | Some i \<Rightarrow> (0, s\<lparr>messageHandlers := (messageHandlers s)[i := (Some topicFilter, fp)]\<rparr>))"

definition suback_answer :: "u8 list \<Rightarrow> 'w message_handler option \<Rightarrow> (int, 'w, 'm) mqtt_wait" where
  "suback_answer topicFilter fp s = do {
     (r, count, granted) \<leftarrow> MQTTDeserialize_suback 1 0 [-1] (readbuf s);
     let rc = (if r = 1 then granted ! 0 else SUCCESSS);
     if rc \<noteq> 0x80 then do {
       (found, s) \<leftarrow> set_handler topicFilter fp s;
       Some (if found = 0 then 0 else rc, s)
     } else Some (rc, s)
   }"

definition MQTTSubscribe ::
    "'w platform \<Rightarrow> u8 list \<Rightarrow> int \<Rightarrow> 'w message_handler option \<Rightarrow> (int, 'w, 'm) mqtt_wait" where
  "MQTTSubscribe p topicFilter qos fp s =
     (if isconnected s = 0 then Some (MQTT_FAILURE, s)
      else do {
        let (timer, s) = TimerCountdownMS (command_timeout_ms s) s;
        let (packetid, s) = getNextPacketId s;
        (len, s) \<leftarrow> serialized (\<lambda>buf buflen. MQTTSerialize_subscribe buf buflen 0 (ucast packetid)
          [(topic_string topicFilter, of_int qos)]) s;
        if len \<le> 0 then Some (MQTT_FAILURE, s)
        else request p len timer SUBACK (suback_answer topicFilter fp) s
      })"

definition unsuback_answer :: "(int, 'w, 'm) mqtt_wait" where
  "unsuback_answer s = do { r \<leftarrow> MQTTDeserialize_unsuback (readbuf s); Some (SUCCESSS, s) }"

definition MQTTUnsubscribe :: "'w platform \<Rightarrow> u8 list \<Rightarrow> (int, 'w, 'm) mqtt_wait" where
  "MQTTUnsubscribe p topicFilter s =
     (if isconnected s = 0 then Some (MQTT_FAILURE, s)
      else do {
        let (timer, s) = TimerCountdownMS (command_timeout_ms s) s;
        let (packetid, s) = getNextPacketId s;
        (len, s) \<leftarrow> serialized (\<lambda>buf buflen. MQTTSerialize_unsubscribe buf buflen 0 (ucast packetid)
          [topic_string topicFilter]) s;
        if len \<le> 0 then Some (MQTT_FAILURE, s) else request p len timer UNSUBACK unsuback_answer s
      })"

text \<open>What the application wants to publish.\<close>

record MQTTMessage =
  msg_qos :: int
  msg_retained :: u8
  msg_id :: u16
  msg_payload :: "u8 list"
  msg_payloadlen :: u32

definition ack_answer :: "(int, 'w, 'm) mqtt_wait" where
  "ack_answer s = do {
     (r, type, dup, mypacketid) \<leftarrow> MQTTDeserialize_ack (readbuf s);
     Some (if r \<noteq> 1 then MQTT_FAILURE else SUCCESSS, s)
   }"

text \<open>The result comes with the message, whose identifier is set.\<close>

definition MQTTPublish :: "'w platform \<Rightarrow> u8 list \<Rightarrow> MQTTMessage \<Rightarrow> (int \<times> MQTTMessage, 'w, 'm) mqtt_wait" where
  "MQTTPublish p topicName msg s =
     (if isconnected s = 0 then Some ((MQTT_FAILURE, msg), s)
      else do {
        let (timer, s) = TimerCountdownMS (command_timeout_ms s) s;
        let (msg, s) =
          (if msg_qos msg = 1 \<or> msg_qos msg = 2
           then let (i, s) = getNextPacketId s in (msg\<lparr>msg_id := ucast i\<rparr>, s) else (msg, s));
        (len, s) \<leftarrow> serialized (\<lambda>buf buflen. MQTTSerialize_publish buf buflen 0 (msg_qos msg)
          (msg_retained msg) (msg_id msg) (topic_string topicName) (msg_payload msg)
          (sint (msg_payloadlen msg))) s;
        (rc, s) \<leftarrow> (if len \<le> 0 then Some (MQTT_FAILURE, s)
          else if msg_qos msg = 1 then request p len timer PUBACK ack_answer s
          else if msg_qos msg = 2 then request p len timer PUBCOMP ack_answer s
          else sendPacket p len timer s);
        Some ((rc, msg), s)
      })"

definition MQTTDisconnect :: "'w platform \<Rightarrow> (int, 'w, 'm) mqtt_wait" where
  "MQTTDisconnect p s = do {
     let (timer, s) = TimerCountdownMS (command_timeout_ms s) s;
     (len, s) \<leftarrow> serialized MQTTSerialize_disconnect s;
     (rc, s) \<leftarrow> (if 0 < len then sendPacket p len timer s else Some (MQTT_FAILURE, s));
     Some (rc, s\<lparr>isconnected := 0\<rparr>)
   }"

end
