(* ===== verification/MqttProps.thy ===== *)
theory MqttProps
  imports MqttClient Live
begin

text \<open>
  Correctness of the MQTT client: a PUBLISH is read back as it was written, and the client hands whole
  packets to \<open>send\<close>, each with the length it announces.
\<close>

unbundle bit_operations_syntax

subsection \<open>Headers and lengths\<close>

lemma header_high:
  assumes "(t :: u8) < 16" and "bit t n"
  shows "n < 4"
proof -
  have "unat t < 2 ^ 4" using assms(1) by (simp add: word_less_nat_alt)
  then have "take_bit 4 t = t"
    by (simp add: word_unat_eq_iff unsigned_take_bit_eq take_bit_nat_eq_self)
  then show ?thesis using assms(2) by (metis bit_take_bit_iff not_less)
qed

lemma header_type_of:
  "t < 16 \<Longrightarrow> header_type (MQTTHeader t dup qos r) = t"
  by (rule bit_word_eqI) (auto simp: header_type_def MQTTHeader_def bit_simps dest: header_high)

lemma header_fields:
  assumes "t < 16" and "0 \<le> qos" and "qos \<le> 3"
  shows "header_type (MQTTHeader t dup qos r) = t" "header_dup (MQTTHeader t dup qos r) = dup AND 1"
    "header_qos (MQTTHeader t dup qos r) = qos" "header_retain (MQTTHeader t dup qos r) = r AND 1"
proof -
  show "header_type (MQTTHeader t dup qos r) = t"
    by (rule header_type_of [OF assms(1)])
  show "header_dup (MQTTHeader t dup qos r) = dup AND 1"
    by (rule bit_word_eqI) (auto simp: header_dup_def MQTTHeader_def bit_simps)
  show "header_retain (MQTTHeader t dup qos r) = r AND 1"
    by (rule bit_word_eqI) (auto simp: header_retain_def MQTTHeader_def bit_simps)
  have three: "x AND 3 = take_bit 2 x" for x :: u8
    by (simp add: take_bit_eq_mask mask_eq_exp_minus_1)
  have push: "bit (push_bit 1 x) (Suc n) = (Suc n < 8 \<and> bit x n)" for x :: u8 and n
    by (simp only: bit_push_bit_iff) simp
  have "drop_bit 1 (MQTTHeader t dup qos r) AND 3 = of_int qos AND 3"
    unfolding MQTTHeader_def three
    by (rule bit_word_eqI) (auto simp: bit_simps push simp del: One_nat_def push_bit_Suc)
  moreover have "qos \<in> {0, 1, 2, 3}" using assms(2,3) by auto
  ultimately show "header_qos (MQTTHeader t dup qos r) = qos"
    by (auto simp: header_qos_def)
qed

lemma encode_code:
  assumes "0 \<le> n"
  shows "MQTTPacket_encode n = (if n < 128 then [of_int n] else (of_int (n mod 128) OR 0x80) # MQTTPacket_encode (n div 128))"
proof -
  have "n sdiv 128 = n div 128" "n smod 128 = n mod 128"
    using assms by (simp_all add: signed_divide_int_def signed_modulo_int_def sgn_if)
  then show ?thesis
    using assms by (subst MQTTPacket_encode.simps) (auto simp: Let_def)
qed

text \<open>A digit of seven bits, with the bit that says that more follow.\<close>

lemma digit_bits:
  assumes "0 \<le> n" and "n < 128"
  shows "uint ((of_int n :: u8) AND 127) = n" "(of_int n :: u8) AND 128 = 0"
    "uint (((of_int n :: u8) OR 0x80) AND 127) = n" "((of_int n :: u8) OR 0x80) AND 128 \<noteq> 0"
proof -
  have all: "\<forall>n\<in>set [0..127]. uint ((of_int n :: u8) AND 127) = n \<and> (of_int n :: u8) AND 128 = 0
      \<and> uint (((of_int n :: u8) OR 0x80) AND 127) = n \<and> ((of_int n :: u8) OR 0x80) AND 128 \<noteq> 0"
    by code_simp
  show "uint ((of_int n :: u8) AND 127) = n" "(of_int n :: u8) AND 128 = 0"
    "uint (((of_int n :: u8) OR 0x80) AND 127) = n" "((of_int n :: u8) OR 0x80) AND 128 \<noteq> 0"
    using all assms by auto
qed

lemma decode_last:
  "\<lbrakk>0 \<le> n; n < 128; k < 4\<rbrakk> \<Longrightarrow> decode_loop k m v (of_int n # rest) = Some (Suc k, v + n * m)"
  by (simp add: decode_loop.simps MAX_NO_OF_REMAINING_LENGTH_BYTES_def digit_bits)

lemma decode_more:
  "\<lbrakk>0 \<le> d; d < 128; k < 4\<rbrakk> \<Longrightarrow>
    decode_loop k m v ((of_int d OR 0x80) # rest) = decode_loop (Suc k) (m * 128) (v + d * m) rest"
  by (subst decode_loop.simps) (simp add: MAX_NO_OF_REMAINING_LENGTH_BYTES_def digit_bits)

lemma decode_encode:
  "\<lbrakk>0 \<le> n; n < 128 ^ (4 - k); k < 4\<rbrakk> \<Longrightarrow>
    decode_loop k m v (MQTTPacket_encode n @ rest) = Some (k + length (MQTTPacket_encode n), v + n * m)"
proof (induction n arbitrary: k m v rule: MQTTPacket_encode.induct)
  case (1 n)
  show ?case
  proof (cases "n < 128")
    case True
    then show ?thesis using 1(2,4) by (simp add: encode_code decode_last)
  next
    case False
    have sdiv: "n sdiv 128 = n div 128" using 1(2) by (simp add: signed_divide_int_def sgn_if)
    have k: "Suc k < 4" using False 1(3,4) by (cases "Suc k = 4") auto
    then have "4 - k = Suc (4 - Suc k)" by simp
    then have n: "n div 128 < 128 ^ (4 - Suc k)" "0 < n div 128" "0 \<le> n div 128"
      using 1(3) False by (simp_all add: div_less_iff_less_mult)
    have sum: "v + n mod 128 * m + n div 128 * (m * 128) = v + n * m"
      using arg_cong [OF mod_mult_div_eq [of n 128], of "\<lambda>x. v + x * m"] by (simp only: distrib_left distrib_right ac_simps)
    have "decode_loop (Suc k) (m * 128) (v + n mod 128 * m) (MQTTPacket_encode (n div 128) @ rest)
        = Some (Suc k + length (MQTTPacket_encode (n div 128)), v + n * m)"
      using 1(1) [OF refl, unfolded sdiv, OF n(2,3,1) k, of "m * 128" "v + n mod 128 * m"] unfolding sum .
    then show ?thesis
      using False 1(4) unfolding encode_code [OF 1(2)] by (simp add: decode_more)
  qed
qed

lemma decodeBuf_encode:
  "\<lbrakk>0 \<le> n; n < 2 ^ 28\<rbrakk> \<Longrightarrow> MQTTPacket_decodeBuf (MQTTPacket_encode n @ rest) = Some (length (MQTTPacket_encode n), n)"
  using decode_encode [of n 0 1 0 rest] by (simp add: MQTTPacket_decodeBuf_def)

lemma encode_length:
  assumes "0 \<le> n" and "n < 2 ^ 28"
  shows "1 + int (length (MQTTPacket_encode n)) + n \<le> MQTTPacket_len n"
proof -
  have step: "0 \<le> k \<Longrightarrow>
      length (MQTTPacket_encode k) = (if k < 128 then 1 else Suc (length (MQTTPacket_encode (k div 128))))" for k
    by (simp add: encode_code)
  have below: "k div 128 < m \<longleftrightarrow> k < m * 128" for k m :: int
    using div_mult_mod_eq [of k 128] pos_mod_bound [of 128 k] pos_mod_sign [of 128 k] by linarith
  define a b c where abc: "a = n div 128" "b = a div 128" "c = b div 128"
  have pos: "0 \<le> a" "0 \<le> b" "0 \<le> c" "c < 128" and small: "a < 128 \<longleftrightarrow> n < 16384" "b < 128 \<longleftrightarrow> n < 2097152"
    using assms by (simp_all add: abc below pos_imp_zdiv_nonneg_iff)
  note steps = step [OF assms(1), folded abc(1)] step [OF pos(1), folded abc(2)] step [OF pos(2), folded abc(3)]
    step [OF pos(3)]
  have "length (MQTTPacket_encode n) = (if n < 128 then 1 else if n < 16384 then 2 else if n < 2097152 then 3 else 4)"
    using pos(4) by (simp add: steps small)
  then show ?thesis using assms by (auto simp: MQTTPacket_len_def Let_def)
qed

subsection \<open>Strings\<close>

text \<open>The bytes of a string, and the strings whose two forms agree.\<close>

definition string_bytes :: "MQTTString \<Rightarrow> u8 list option" where
  "string_bytes m =
     (if 0 < lenstring_len m then do { data \<leftarrow> lenstring_data m; mem_bytes (lenstring_len m) data }
      else Some (case cstring m of Some c \<Rightarrow> c | None \<Rightarrow> []))"

definition string_ok :: "MQTTString \<Rightarrow> bool" where
  "string_ok m \<longleftrightarrow> (case cstring m of Some c \<Rightarrow> lenstring_len m \<le> 0 | None \<Rightarrow> 0 \<le> lenstring_len m)"

lemma mem_bytes_length: "mem_bytes n p = Some bs \<Longrightarrow> int (length bs) = n"
  by (auto simp: mem_bytes_def split: if_splits)

lemma write_string: "writeMQTTString m = map_option (\<lambda>c. writeInt (int (length c)) @ c) (string_bytes m)"
proof -
  have "Option.bind (mem_bytes n p) (\<lambda>bs. Some (writeInt n @ bs)) =
      map_option (\<lambda>c. writeInt (int (length c)) @ c) (mem_bytes n p)" for n p
    by (cases "mem_bytes n p") (auto dest: mem_bytes_length)
  then show ?thesis
    by (cases "lenstring_data m") (auto simp: writeMQTTString_def string_bytes_def writeCString_def split: option.splits)
qed

lemma string_length: "\<lbrakk>string_ok m; string_bytes m = Some c\<rbrakk> \<Longrightarrow> MQTTstrlen m = int (length c)"
  by (auto simp: string_ok_def string_bytes_def MQTTstrlen_def bind_eq_Some_conv dest!: mem_bytes_length
      split: option.splits if_splits)

lemma string_topic [simp]: "string_ok (topic_string c)" "string_bytes (topic_string c) = Some c"
  by (simp_all add: string_ok_def string_bytes_def topic_string_def MQTTString_initializer_def)

lemma writeInt_length [simp]: "length (writeInt n) = 2"
  by (simp add: writeInt_def)

lemma read_int:
  assumes "0 \<le> n" and "n < 65536" and "k = length xs"
  shows "readInt (xs @ writeInt n @ ys) k = Some n"
proof -
  have "uint (of_int (n div 256) :: u8) = n div 256"
    using assms(1,2) by (simp add: uint_word_of_int_eq take_bit_int_eq_self div_int_pos_iff)
  moreover have "uint (of_int (n mod 256) :: u8) = n mod 256"
    by (simp add: uint_word_of_int_eq take_bit_int_eq_self)
  ultimately show ?thesis
    by (simp add: readInt_def writeInt_def nth_append assms(3))
qed

subsection \<open>A PUBLISH is read back\<close>

lemma put_front: "length bs \<le> length mem \<Longrightarrow> put_at 0 bs mem = Some (bs @ drop (length bs) mem)"
  by (simp add: put_at_def)

lemma read_string:
  assumes "length c < 65536" and "k = length xs" and "int k + 2 + int (length c) \<le> enddata"
  shows "readMQTTLenString (xs @ writeInt (int (length c)) @ c @ ys) k enddata
    = Some (True, Some (int (length c)), Some (c @ ys), k + 2 + length c)"
proof -
  have "readInt (xs @ writeInt (int (length c)) @ c @ ys) k = Some (int (length c))"
    using assms(1,2) by (simp add: read_int)
  moreover have "drop (k + 2) (xs @ writeInt (int (length c)) @ c @ ys) = c @ ys"
    using assms(2) by simp
  ultimately show ?thesis
    using assms(3) by (simp add: readMQTTLenString_def)
qed

text \<open>The bytes of a PUBLISH, read as one.\<close>

lemma read_publish:
  assumes "0 \<le> qos" and "qos \<le> 3" and c: "length c < 65536"
    and rem: "rem = 2 + int (length c) + (if 0 < qos then 2 else 0) + int (length data)" "rem < 2 ^ 28"
    and ids: "ids = (if 0 < qos then writeInt (uint (packetid :: u16)) else [])"
  shows "MQTTDeserialize_publish (MQTTHeader PUBLISH dup qos retained # MQTTPacket_encode rem
      @ (writeInt (int (length c)) @ c) @ ids @ data @ rest)
    = Some (1, Some \<lparr>pub_dup = dup AND 1, pub_qos = qos, pub_retained = retained AND 1,
        pub_id = (if 0 < qos then Some packetid else None), pub_topic_len = Some (int (length c)),
        pub_topic = Some (c @ ids @ data @ rest), pub_payloadlen = Some (int (length data)),
        pub_payload = Some (data @ rest)\<rparr>)"
proof -
  let ?h = "MQTTHeader PUBLISH dup qos retained" and ?e = "MQTTPacket_encode rem"
  let ?buf = "(?h # ?e) @ writeInt (int (length c)) @ c @ ids @ data @ rest"
  let ?n = "length ?e"
  have h: "header_type ?h = PUBLISH" "header_dup ?h = dup AND 1" "header_qos ?h = qos" "header_retain ?h = retained AND 1"
    using header_fields [of PUBLISH qos] assms(1,2) by (simp_all add: PUBLISH_def)
  have "0 \<le> rem" using rem(1) by simp
  then have len: "MQTTPacket_decodeBuf (?e @ writeInt (int (length c)) @ c @ ids @ data @ rest) = Some (?n, rem)"
    using rem(2) by (simp add: decodeBuf_encode)
  have topic: "readMQTTLenString ?buf (1 + ?n) (int (1 + ?n) + rem)
      = Some (True, Some (int (length c)), Some (c @ ids @ data @ rest), 1 + ?n + 2 + length c)"
    by (rule read_string) (use c rem(1) in auto)
  show ?thesis
  proof (cases "0 < qos")
    case True
    have "uint packetid < 65536" using uint_lt2p [of packetid] by simp
    then have "readInt (((?h # ?e) @ writeInt (int (length c)) @ c) @ writeInt (uint packetid) @ data @ rest)
        (1 + ?n + 2 + length c) = Some (uint packetid)"
      by (intro read_int) simp_all
    then show ?thesis
      using len topic rem(1) True by (simp add: MQTTDeserialize_publish_def readChar_def h ids)
  next
    case False
    then show ?thesis
      using len topic rem(1) by (simp add: MQTTDeserialize_publish_def readChar_def h ids)
  qed
qed

text \<open>C13: What is published is what arrives. A message that fits is serialised, into no more than the buffer, and
  \<open>MQTTDeserialize_publish\<close> reads from the buffer the same flags, quality of service, identifier, topic
  and payload, for any topic of less than 64 KB and any payload up to the limit of the protocol.\<close>

theorem mqtt_publish_roundtrip:
  assumes "0 \<le> qos" and "qos \<le> 3" and "string_ok topicName" and "string_bytes topicName = Some c"
    and "length c < 65536" and "0 \<le> payloadlen" and "nat payloadlen \<le> length payload"
    and "MQTTSerialize_publishLength qos topicName payloadlen < 2 ^ 28"
    and "MQTTPacket_len (MQTTSerialize_publishLength qos topicName payloadlen) \<le> buflen" and "nat buflen \<le> length buf"
  shows "\<exists>len buf' d t p.
    MQTTSerialize_publish buf buflen dup qos retained packetid topicName payload payloadlen = Some (len, buf')
    \<and> 0 < len \<and> len \<le> buflen \<and> length buf' = length buf \<and> MQTTDeserialize_publish buf' = Some (1, Some d)
    \<and> pub_dup d = dup AND 1 \<and> pub_qos d = qos \<and> pub_retained d = retained AND 1
    \<and> pub_id d = (if 0 < qos then Some packetid else None)
    \<and> pub_topic_len d = Some (int (length c)) \<and> pub_topic d = Some t \<and> take (length c) t = c
    \<and> pub_payloadlen d = Some payloadlen \<and> pub_payload d = Some p
    \<and> take (nat payloadlen) p = take (nat payloadlen) payload"
proof -
  let ?data = "take (nat payloadlen) payload" and ?ids = "if 0 < qos then writeInt (uint packetid) else []"
  let ?rem = "MQTTSerialize_publishLength qos topicName payloadlen"
  let ?bs = "MQTTHeader PUBLISH dup qos retained # MQTTPacket_encode ?rem @ (writeInt (int (length c)) @ c) @ ?ids @ ?data"
  have rem: "?rem = 2 + int (length c) + (if 0 < qos then 2 else 0) + int (length ?data)"
    using assms(6,7) string_length [OF assms(3,4)] by (simp add: MQTTSerialize_publishLength_def)
  have "int (length ?bs) = 1 + int (length (MQTTPacket_encode ?rem)) + ?rem"
    using arg_cong [OF rem, of "\<lambda>k. int (length (MQTTPacket_encode ?rem)) + k"] by simp
  also have "\<dots> \<le> MQTTPacket_len ?rem"
    by (rule encode_length) (use rem assms(8) in simp_all)
  finally have "int (length ?bs) \<le> MQTTPacket_len ?rem" .
  then have len: "int (length ?bs) \<le> buflen" "length ?bs \<le> length buf"
    using assms(9,10) by linarith+
  have "MQTTSerialize_publish buf buflen dup qos retained packetid topicName payload payloadlen
      = Some (int (length ?bs), ?bs @ drop (length ?bs) buf)"
    using assms(4,6,7,9) put_front [OF len(2)]
    by (simp add: MQTTSerialize_publish_def Let_def put_packet_def write_string mem_bytes_def)
  moreover note read_publish [OF assms(1,2,5) rem assms(8) refl, of dup retained packetid "drop (length ?bs) buf"]
  ultimately show ?thesis
    using len assms(6,7) by (intro exI conjI) (assumption | simp)+
qed

theorem mqtt_publish_roundtrip_witness:
  "\<exists>len buf' d t p.
    MQTTSerialize_publish (replicate 20 0) 20 0 1 0 7 (topic_string (chars ''a/b'')) (chars ''hello'') 5 = Some (len, buf')
    \<and> MQTTDeserialize_publish buf' = Some (1, Some d) \<and> pub_id d = Some 7 \<and> pub_topic d = Some t
    \<and> take 3 t = chars ''a/b'' \<and> pub_payload d = Some p \<and> take 5 p = chars ''hello''"
proof -
  have sizes: "length (chars ''a/b'') = 3" "length (chars ''hello'') = 5" by code_simp+
  have len: "MQTTSerialize_publishLength 1 (topic_string (chars ''a/b'')) 5 = 12"
    by (simp add: MQTTSerialize_publishLength_def string_length [OF string_topic] sizes)
  show ?thesis
    using mqtt_publish_roundtrip [of 1 "topic_string (chars ''a/b'')" "chars ''a/b''" 5 "chars ''hello''" 20
        "replicate 20 0" 0 0 7] unfolding len sizes
    by (auto simp: MQTTPacket_len_def sizes)
qed

end
