(* ===== verification/MqttFrames.thy ===== *)
theory MqttFrames
  imports MqttProps Statics
begin

text \<open>
  What the MQTT client hands to \<open>send\<close>: complete packets, until one of them is accepted only in part.
  A connection that is gone is not noticed by \<open>MQTTYield\<close>.
\<close>

unbundle bit_operations_syntax

subsection \<open>Packets and the log\<close>

text \<open>
  A length as MQTT writes it: digits of seven bits, the least first, with the top bit set in all but the
  last.
\<close>

fun digits_value :: "u8 list \<Rightarrow> nat option" where
  "digits_value [] = None"
| "digits_value [d] = (if bit d 7 then None else Some (unat d))"
| "digits_value (d # ds) = (if bit d 7 then map_option (\<lambda>n. unat (take_bit 7 d) + 128 * n) (digits_value ds) else None)"

text \<open>A packet of the client: a known type, at most four digits, and exactly as many bytes as they say.\<close>

definition mqtt_packet :: "u8 list \<Rightarrow> bool" where
  "mqtt_packet bs \<longleftrightarrow> (\<exists>h ds body. bs = h # ds @ body \<and> length ds \<le> 4 \<and> digits_value ds = Some (length body)
     \<and> header_type h \<in> {CONNECT, PUBLISH, PUBACK, PUBREC, PUBREL, SUBSCRIBE, UNSUBSCRIBE, PINGREQ, DISCONNECT})"

text \<open>Accepted, but not all of it.\<close>

definition in_part :: "u8 list \<times> int \<Rightarrow> bool" where
  "in_part e \<longleftrightarrow> 0 < snd e \<and> snd e < int (length (fst e))"

text \<open>The log, latest first: up to the first that is accepted in part, all are packets.\<close>

fun whole_packets :: "(u8 list \<times> int) list \<Rightarrow> bool" where
  "whole_packets [] = True"
| "whole_packets (e # log) \<longleftrightarrow> whole_packets log \<and> (mqtt_packet (fst e) \<or> list_ex in_part log)"

lemma whole_packets_split:
  "whole_packets (newer @ e # older) \<Longrightarrow> mqtt_packet (fst e) \<or> list_ex in_part older"
  by (induction newer) auto

definition sound :: "('w, 'm) mqtt_drv_scheme \<Rightarrow> bool" where
  "sound s \<longleftrightarrow> whole_packets (mqtt_sent s) \<and> buf_size s < 65536"

text \<open>A buffer starts with a packet of this length, which fits the 16 bits that \<open>send\<close> takes.\<close>

definition starts_packet :: "int \<Rightarrow> u8 list \<Rightarrow> bool" where
  "starts_packet len b \<longleftrightarrow> (\<exists>bs rest. b = bs @ rest \<and> int (length bs) = len \<and> len < 65536 \<and> mqtt_packet bs)"

subsection \<open>Serialised packets\<close>

lemma digit_mark:
  assumes "0 \<le> n" and "n < 128"
  shows "unat (of_int n :: u8) = nat n" "\<not> bit (of_int n :: u8) 7"
    "unat (take_bit 7 ((of_int n :: u8) OR 0x80)) = nat n" "bit ((of_int n :: u8) OR 0x80) 7"
proof -
  have all: "\<forall>n\<in>set [0..127]. unat (of_int n :: u8) = nat n \<and> \<not> bit (of_int n :: u8) 7
      \<and> unat (take_bit 7 ((of_int n :: u8) OR 0x80)) = nat n \<and> bit ((of_int n :: u8) OR 0x80) 7"
    by code_simp
  show "unat (of_int n :: u8) = nat n" "\<not> bit (of_int n :: u8) 7"
    "unat (take_bit 7 ((of_int n :: u8) OR 0x80)) = nat n" "bit ((of_int n :: u8) OR 0x80) 7"
    using all assms by auto
qed

lemma encode_digits:
  "\<lbrakk>0 \<le> n; n < 128 ^ Suc k\<rbrakk> \<Longrightarrow>
    length (MQTTPacket_encode n) \<le> Suc k \<and> digits_value (MQTTPacket_encode n) = Some (nat n)"
proof (induction k arbitrary: n)
  case 0
  then show ?case by (simp add: encode_code digit_mark)
next
  case (Suc k)
  show ?case
  proof (cases "n < 128")
    case True
    with Suc(2) show ?thesis by (simp add: encode_code digit_mark)
  next
    case False
    have "n div 128 < 128 ^ Suc k" using Suc(3) by (simp add: div_less_iff_less_mult)
    then have "length (MQTTPacket_encode (n div 128)) \<le> Suc k"
      "digits_value (MQTTPacket_encode (n div 128)) = Some (nat (n div 128))"
      using Suc(1) [of "n div 128"] Suc(2) by (simp_all add: pos_imp_zdiv_nonneg_iff)
    moreover have "nat (n mod 128) + 128 * nat (n div 128) = nat n"
      using Suc(2) by (simp add: nat_mod_distrib nat_div_distrib)
    ultimately show ?thesis
      using False Suc(2) digit_mark(3) [of "n mod 128"] by (cases "MQTTPacket_encode (n div 128)") (simp_all add: encode_code [of n] digit_mark)
  qed
qed

text \<open>The serialisers fill the buffer with what they announce.\<close>

definition packs :: "(u8 list \<Rightarrow> int \<Rightarrow> (int \<times> u8 list) option) \<Rightarrow> bool" where
  "packs f \<longleftrightarrow> (\<forall>buf n len b. f buf n = Some (len, b) \<longrightarrow> n < 65536 \<longrightarrow> 0 < len \<longrightarrow> starts_packet len b)"

lemma put_packet_packs:
  assumes "put_packet buf (MQTTHeader t dup qos r # MQTTPacket_encode n @ body) = Some (len, b)"
    and "n = int (length body)" and "t \<in> {CONNECT, PUBLISH, PUBACK, PUBREC, PUBREL, SUBSCRIBE, UNSUBSCRIBE, PINGREQ, DISCONNECT}"
    and "MQTTPacket_len n < 65536"
  shows "starts_packet len b"
proof -
  have "n < MQTTPacket_len n" by (simp add: MQTTPacket_len_def Let_def)
  with assms(2,4) have n: "0 \<le> n" "n < 2 ^ 28" by auto
  have "t < 16" using assms(3) by (auto simp: mqtt_types)
  then have "mqtt_packet (MQTTHeader t dup qos r # MQTTPacket_encode n @ body)"
    unfolding mqtt_packet_def using assms(2,3) header_type_of encode_digits [of n 3] n by (auto intro!: exI)
  moreover from assms(1) obtain rest where "b = (MQTTHeader t dup qos r # MQTTPacket_encode n @ body) @ rest"
    "len = int (length (MQTTHeader t dup qos r # MQTTPacket_encode n @ body))"
    by (auto simp: put_packet_def put_at_def bind_eq_Some_conv split: if_splits)
  moreover have "int (length (MQTTHeader t dup qos r # MQTTPacket_encode n @ body)) < 65536"
    using encode_length [OF n] assms(2,4) by simp
  ultimately show ?thesis unfolding starts_packet_def by blast
qed

lemmas too_short = MQTTPACKET_BUFFER_TOO_SHORT_def

lemma zero_packs: "packs MQTTSerialize_disconnect" "packs MQTTSerialize_pingreq"
  unfolding packs_def MQTTSerialize_disconnect_def MQTTSerialize_pingreq_def MQTTSerialize_zero_def
  by (auto split: if_splits simp: too_short MQTTPacket_len_def intro!: put_packet_packs [where n = 0 and body = "[]", simplified])

lemma ack_packs:
  "t \<in> {PUBACK, PUBREC, PUBREL} \<Longrightarrow> packs (\<lambda>buf n. MQTTSerialize_ack buf n t 0 packetid)"
  unfolding packs_def MQTTSerialize_ack_def
  by (auto split: if_splits simp: too_short MQTTPacket_len_def intro!: put_packet_packs [where n = 2])

text \<open>The number of bytes of strings that are written one after the other.\<close>

lemma write_length:
  assumes "string_ok m" and "writeMQTTString m = Some bs"
  shows "int (length bs) = 2 + MQTTstrlen m"
proof -
  obtain c where "string_bytes m = Some c" "bs = writeInt (int (length c)) @ c"
    using assms(2) by (auto simp: write_string)
  then show ?thesis using string_length [OF assms(1)] by simp
qed

lemma writes_length:
  "\<lbrakk>\<forall>m\<in>set ms. string_ok m; write_strings ms = Some bs\<rbrakk> \<Longrightarrow> int (length bs) = (\<Sum>m\<leftarrow>ms. 2 + MQTTstrlen m)"
  by (induction ms arbitrary: bs) (auto simp: bind_eq_Some_conv write_length)

lemma publish_packs: "packs (\<lambda>buf n. MQTTSerialize_publish buf n 0 qos r i (topic_string topic) data len)"
  unfolding packs_def MQTTSerialize_publish_def
  by (auto simp: Let_def bind_eq_Some_conv too_short MQTTSerialize_publishLength_def
      dest!: mem_bytes_length write_length [OF string_topic(1)] split: if_splits intro!: put_packet_packs)

lemma subscribe_packs: "packs (\<lambda>buf n. MQTTSerialize_subscribe buf n 0 i [(topic_string topic, qos)])"
  unfolding packs_def MQTTSerialize_subscribe_def
  by (auto simp: Let_def bind_eq_Some_conv too_short MQTTSerialize_subscribeLength_def
      dest!: write_length [OF string_topic(1)] split: if_splits intro!: put_packet_packs)

lemma unsubscribe_packs: "packs (\<lambda>buf n. MQTTSerialize_unsubscribe buf n 0 i [topic_string topic])"
  unfolding packs_def MQTTSerialize_unsubscribe_def
  by (auto simp: Let_def bind_eq_Some_conv too_short MQTTSerialize_unsubscribeLength_def
      dest!: write_length [OF string_topic(1)] split: if_splits intro!: put_packet_packs)

text \<open>Options of a connection that the application may use.\<close>

definition options_ok :: "MQTTPacket_connectData \<Rightarrow> bool" where
  "options_ok d \<longleftrightarrow> (MQTTVersion d = 3 \<or> MQTTVersion d = 4) \<and> (\<forall>m\<in>set (connect_strings d). string_ok m)"

lemma default_options: "options_ok MQTTPacket_connectData_initializer"
  by (simp add: options_ok_def connect_strings_def MQTTPacket_connectData_initializer_def MQTTString_initializer_def
      string_ok_def string_given_def)

lemma connect_length:
  "MQTTSerialize_connectLength d = (if MQTTVersion d = 3 then 12 else if MQTTVersion d = 4 then 10 else 0)
    + (\<Sum>m\<leftarrow>connect_strings d. 2 + MQTTstrlen m)"
  by (simp add: MQTTSerialize_connectLength_def connect_strings_def)

lemma protocol_names: "length (writeCString (chars ''MQTT'')) = 6" "length (writeCString (chars ''MQIsdp'')) = 8"
  by (simp_all add: writeCString_def chars_def)

lemma connect_packs:
  assumes "options_ok d"
  shows "packs (\<lambda>buf n. MQTTSerialize_connect buf n d)"
  using assms unfolding packs_def MQTTSerialize_connect_def options_ok_def
  by (auto simp: Let_def bind_eq_Some_conv too_short connect_length protocol_names split: if_splits
      intro!: put_packet_packs intro: writes_length [symmetric])

subsection \<open>What keeps the log\<close>

named_theorems frames "rules that follow a program text of the client and keep the log sound"

definition keeps :: "('w, 'm) mqtt_drv_scheme \<Rightarrow> ('w, 'm) mqtt_drv_scheme \<Rightarrow> bool" where
  "keeps s s' \<longleftrightarrow> mqtt_sent s' = mqtt_sent s \<and> mqtt_buf s' = mqtt_buf s \<and> buf_size s' = buf_size s
     \<and> keepAliveInterval s' = keepAliveInterval s"

lemma keeps_refl [simp]: "keeps s s"
  by (simp add: keeps_def)

lemma keeps_trans: "\<lbrakk>keeps a b; keeps b c\<rbrakk> \<Longrightarrow> keeps a c"
  by (simp add: keeps_def)

lemma keeps_sound: "\<lbrakk>keeps s s'; sound s\<rbrakk> \<Longrightarrow> sound s'"
  by (simp add: keeps_def sound_def)

lemma keeps_fields [simp]:
  "keeps (s\<lparr>readbuf := b\<rparr>) s0 = keeps s s0"
  "keeps s0 (s\<lparr>readbuf := b\<rparr>) = keeps s0 s" "keeps s0 (s\<lparr>world := w\<rparr>) = keeps s0 s"
  "keeps s0 (s\<lparr>MilliTimer := k\<rparr>) = keeps s0 s"
  by (simp_all add: keeps_def)

lemma sound_fields [simp]:
  "sound (s\<lparr>mqtt_buf := b1\<rparr>) = sound s" "sound (s\<lparr>ping_timer := v1\<rparr>) = sound s"
  "sound (s\<lparr>ping_outstanding := v2\<rparr>) = sound s" "sound (s\<lparr>isconnected := v3\<rparr>) = sound s"
  "sound (s\<lparr>keepAliveInterval := v4\<rparr>) = sound s" "sound (s\<lparr>next_packetid := v5\<rparr>) = sound s"
  "sound (s\<lparr>readbuf := v8\<rparr>) = sound s" "sound (s\<lparr>messageHandlers := v6\<rparr>) = sound s" "sound (s\<lparr>world := v7\<rparr>) = sound s"
  by (simp_all add: sound_def)

lemma statics_keeps:
  fixes s t :: "('w, 'm) mqtt_drv_scheme"
  assumes "statics s t"
  shows "keeps s t" "my_socket t = my_socket s"
  using assms by (cases s; cases t; simp add: statics_def keeps_def)+

lemma read_keeps: "wpo (w5x00_read p n s) (\<lambda>_. keeps s)"
  unfolding w5x00_read_def Let_def
  by (auto intro!: wp stream_calls intro: statics_keeps(1) statics_trans)

lemma statics_log:
  fixes s t :: "('w, 'm) mqtt_drv_scheme"
  assumes "statics s t"
  shows "mqtt_sent t = mqtt_sent s \<and> mqtt_buf t = mqtt_buf s \<and> buf_size t = buf_size s"
  using statics_keeps(1) [OF assms] by (simp add: keeps_def)

lemma milli_keeps: "wpt (milli_now s) (\<lambda>_. keeps s)"
proof -
  have "keeps t ((MilliTimer_Handler ^^ k) t)" for k and t :: "('a, 'b) mqtt_drv_scheme"
    by (induction k) (simp_all add: MilliTimer_Handler_def)
  then have "keeps s ((MilliTimer_Handler ^^ k) (s\<lparr>world := w\<rparr>))" for k w
    using keeps_trans [of s "s\<lparr>world := w\<rparr>"] by simp
  then show ?thesis
    by (simp add: milli_now_def wpt_def case_prod_unfold Let_def)
qed

lemma timers_keep:
  "wpt (TimerIsExpired t s) (\<lambda>_. keeps s)" "wpt (TimerCountdownMS n s) (\<lambda>_. keeps s)"
  "wpt (TimerCountdown n s) (\<lambda>_. keeps s)" "wpt (TimerLeftMS t s) (\<lambda>_. keeps s)"
  unfolding TimerIsExpired_def TimerCountdownMS_def TimerCountdown_def TimerLeftMS_def Let_def
  by (intro wpt_case_prod wpt_mono [OF milli_keeps] wpt_pair, assumption)+

text \<open>Binds of values that are no state.\<close>

lemma wpo_option: "(\<And>x. m = Some x \<Longrightarrow> wpo (f x) Q) \<Longrightarrow> wpo (Option.bind m f) Q"
  by (cases m) (simp_all add: wpo_def)

lemma wpo_case_list:
  "\<lbrakk>xs = [] \<Longrightarrow> wpo a Q; \<And>y ys. xs = y # ys \<Longrightarrow> wpo (f y ys) Q\<rbrakk> \<Longrightarrow> wpo (case_list a f xs) Q"
  by (cases xs) auto

lemma wpo_case_app: "(\<And>a b. v = (a, b) \<Longrightarrow> wpo (f a b s) Q) \<Longrightarrow> wpo ((case v of (a, b) \<Rightarrow> f a b) s) Q"
  by (cases v) simp

lemmas plain = wpo_option [where m = "put_at i bs xs" for i bs xs] wpo_option [where m = "readChar xs i" for xs i]
  wpo_option [where m = "MQTTDeserialize_publish xs" for xs] wpo_option [where m = "MQTTDeserialize_ack xs" for xs]
  wpo_option [where m = "MQTTDeserialize_connack xs" for xs] wpo_option [where m = "MQTTDeserialize_unsuback xs" for xs]
  wpo_option [where m = "MQTTDeserialize_suback k c g xs" for k c g xs] wpo_option [where m = "i :: u16 option" for i]
  wpo_option [where m = "d :: publish_data option" for d] wpo_option [where m = "m :: bool option" for m]
  wpo_case_list wpo_case_app

lemma wpt_sound: "\<lbrakk>wpt m (\<lambda>_. keeps s); sound s; \<And>v s'. sound s' \<Longrightarrow> Q v s'\<rbrakk> \<Longrightarrow> wpt m Q"
  by (erule wpt_mono) (blast dest: keeps_sound)

lemma reads [frames]:
  "\<lbrakk>sound s; \<And>v s'. sound s' \<Longrightarrow> Q1 v s'\<rbrakk> \<Longrightarrow> wpt (TimerIsExpired t s) Q1"
  "\<lbrakk>sound s; \<And>v s'. sound s' \<Longrightarrow> Q2 v s'\<rbrakk> \<Longrightarrow> wpt (TimerCountdownMS n s) Q2"
  "\<lbrakk>sound s; \<And>v s'. sound s' \<Longrightarrow> Q3 v s'\<rbrakk> \<Longrightarrow> wpt (TimerCountdown n s) Q3"
  "\<lbrakk>sound s; \<And>v s'. sound s' \<Longrightarrow> Q4 v s'\<rbrakk> \<Longrightarrow> wpt (TimerLeftMS t s) Q4"
  by (rule wpt_sound, rule timers_keep, assumption, assumption)+

lemma wpo_sound: "\<lbrakk>wpo m (\<lambda>_. sound); \<And>v s'. sound s' \<Longrightarrow> Q v s'\<rbrakk> \<Longrightarrow> wpo m Q"
  by (rule wpo_mono)

lemma read_sound: "sound s \<Longrightarrow> wpo (w5x00_read p k s) (\<lambda>_. sound)"
  by (rule wpo_mono [OF read_keeps]) (rule keeps_sound)

lemmas [frames] = read_sound [THEN wpo_sound]

lemma read_at_sound: "sound s \<Longrightarrow> wpo (read_at p i n s) (\<lambda>_. sound)"
  unfolding read_at_def by (rule frames plain | rule wp | rule wptI | assumption | simp; fail)+

lemma decode_sound: "sound s \<Longrightarrow> wpo (decodePacket p k m v s) (\<lambda>_. sound)"
proof (induction k arbitrary: m v s)
  case (Suc k)
  show ?case
    unfolding decodePacket.simps using Suc(2)
    by - (rule Suc(1) frames plain | rule wp | rule wptI | assumption | simp; fail)+
qed (simp add: wpo_def)

lemmas [frames] = read_at_sound [THEN wpo_sound] decode_sound [THEN wpo_sound]

lemma packet_sound: "sound s \<Longrightarrow> wpo (readPacket p timer s) (\<lambda>_. sound)"
  unfolding readPacket_def
  by (rule frames plain | rule wp | rule wptI | assumption | simp; fail)+

text \<open>A packet that is ready is sent, and the log stays sound.\<close>

lemma write_log:
  "wpo (w5x00_write p b n s) (\<lambda>r s'. mqtt_buf s' = mqtt_buf s \<and> buf_size s' = buf_size s \<and> (r = 0 \<and> mqtt_sent s' = mqtt_sent s
     \<or> (\<exists>bs. mem_bytes (uint (of_int n :: u16)) b = Some bs \<and> mqtt_sent s' = (bs, r) # mqtt_sent s)))"
  unfolding w5x00_write_def Let_def
  by (rule stream_calls wpo_option [where m = "mem_bytes k b" for k] | rule wp | simp add: SOCK_ERROR_def statics_log; fail
    | (drule statics_log)+)+

definition sending_packet :: "int \<Rightarrow> int \<Rightarrow> ('w, 'm) mqtt_drv_scheme \<Rightarrow> bool" where
  "sending_packet len sent s \<longleftrightarrow> sound s \<and> starts_packet len (mqtt_buf s) \<and> 0 \<le> sent
     \<and> (0 < sent \<and> sent < len \<longrightarrow> list_ex in_part (mqtt_sent s))"

lemma sending_keeps: "\<lbrakk>sending_packet len sent s; keeps s s'\<rbrakk> \<Longrightarrow> sending_packet len sent s'"
  by (simp add: sending_packet_def keeps_def sound_def)

lemma sending_write:
  assumes "sending_packet len sent s" and "sent < len" and "mqtt_buf s' = mqtt_buf s" and "buf_size s' = buf_size s"
    and "r = 0 \<and> mqtt_sent s' = mqtt_sent s
      \<or> (\<exists>bs. mem_bytes (uint (of_int len :: u16)) (drop (nat sent) (mqtt_buf s)) = Some bs \<and> mqtt_sent s' = (bs, r) # mqtt_sent s)"
  shows "sound s'" "0 \<le> r \<Longrightarrow> sending_packet len (sent + r) s'"
proof -
  obtain pk rest where pk: "mqtt_buf s = pk @ rest" "int (length pk) = len" "mqtt_packet pk" "len < 65536"
    using assms(1) by (auto simp: sending_packet_def starts_packet_def)
  have len: "uint (of_int len :: u16) = len"
    using pk(2,4) by (simp add: uint_word_of_int_eq take_bit_int_eq_self)
  have first: "bs = pk" if "mem_bytes len (drop (nat sent) (mqtt_buf s)) = Some bs" "sent = 0" for bs
    using that pk(1,2) by (auto simp: mem_bytes_def split: if_splits)
  show "sound s'"
    using assms first pk(3) unfolding len by (cases "sent = 0") (auto simp: sending_packet_def sound_def)
  then show "0 \<le> r \<Longrightarrow> sending_packet len (sent + r) s'"
    using assms unfolding len by (auto simp: sending_packet_def in_part_def dest!: mem_bytes_length)
qed

lemma send_step_packet:
  assumes "sending_packet len sent s"
  shows "wpo (send_step p len timer sent s)
    (\<lambda>r s'. case r of Inl _ \<Rightarrow> sound s' | Inr sent' \<Rightarrow> sending_packet len sent' s')"
proof -
  have timers: "wpt (TimerIsExpired timer t) (\<lambda>_. sending_packet len sent)"
    "wpt (TimerLeftMS timer t) (\<lambda>_. sending_packet len sent)" if "sending_packet len sent t" for t
    using that by (blast intro: wpt_mono [OF timers_keep(1)] wpt_mono [OF timers_keep(4)] sending_keeps)+
  have written: "wpo (w5x00_write p (drop (nat sent) (mqtt_buf t)) len t)
      (\<lambda>r s'. sound s' \<and> (0 \<le> r \<longrightarrow> sending_packet len (sent + r) s'))" if "sending_packet len sent t" "sent < len" for t
    by (rule wpo_mono [OF write_log]) (use sending_write [OF that] in blast)
  have "sound t" if "sending_packet len sent t" for t using that by (simp add: sending_packet_def)
  then show ?thesis
    unfolding send_step_def using assms
    by (auto intro!: wp wpt_mono [OF timers(1)] wpt_mono [OF timers(2)] wpo_mono [OF written])
qed

lemma send_sound:
  assumes "sound s" and "starts_packet len (mqtt_buf s)"
  shows "wpo (sendPacket p len timer s) (\<lambda>_. sound)"
proof -
  have "wpo (forever (send_step p len timer) 0 s) (\<lambda>_. sound)"
    by (rule wpo_forever [where I = "sending_packet len", OF _ send_step_packet])
      (use assms in \<open>simp_all add: sending_packet_def\<close>)
  then show ?thesis
    unfolding sendPacket_def
    by - (rule wpo_bind, erule wpo_sound, (rule frames | rule wp | assumption | simp; fail)+)
qed

subsection \<open>The calls of the client\<close>

lemma sound_buffer:
  assumes "sound s"
  shows "sint (buf_size s) < 65536"
proof -
  have "sint x \<le> uint x" for x :: u32
    using order.trans [OF _ uint_ge_0, of "- 2147483648" x] by (simp add: sint_uint signed_take_bit_int_less_eq_self_iff)
  moreover have "uint (buf_size s) < 65536" using assms by (simp add: sound_def word_less_def)
  ultimately show ?thesis by (rule le_less_trans)
qed

lemma serialized_ready:
  assumes "packs f" and "sound s"
  shows "wpo (serialized f s) (\<lambda>len s'. sound s' \<and> (0 < len \<longrightarrow> starts_packet len (mqtt_buf s')))"
  using assms sound_buffer [OF assms(2)] by (auto simp: serialized_def wpo_def packs_def bind_eq_Some_conv)

text \<open>A packet is serialised, and what follows may send it.\<close>

lemma wpo_serialized:
  assumes "packs f" and "sound s"
    and "\<And>len s'. \<lbrakk>sound s'; 0 < len \<Longrightarrow> starts_packet len (mqtt_buf s')\<rbrakk> \<Longrightarrow> Q len s'"
  shows "wpo (serialized f s) Q"
  using assms(3) by (intro wpo_mono [OF serialized_ready [OF assms(1,2)]]) blast

lemmas [frames] = send_sound [THEN wpo_sound] packet_sound [THEN wpo_sound]

lemma deliver_loop_sound: "sound s \<Longrightarrow> wpo (deliver_loop hs d rc s) (\<lambda>_. sound)"
proof (induction hs arbitrary: rc s)
  case (Cons h hs)
  obtain topicFilter fp where "h = (topicFilter, fp)" by fastforce
  with Cons show ?case by (auto intro!: wpo_option split: option.split)
qed (simp add: wpo_def)

lemma deliver_sound: "sound s \<Longrightarrow> wpo (deliverMessage d s) (\<lambda>_. sound)"
  unfolding deliverMessage_def
  by (rule wpo_bind, erule wpo_mono [OF deliver_loop_sound]) (auto intro!: wpo_Some split: option.split)

lemmas [frames] = deliver_sound [THEN wpo_sound]

lemma not_sent [simp]: "\<not> len \<le> 0 \<Longrightarrow> 0 < (len :: int)"
  by simp

lemma keepalive_sound: "sound s \<Longrightarrow> wpo (keepalive p s) (\<lambda>_. sound)"
  unfolding keepalive_def
  by (rule frames plain wpo_serialized [OF zero_packs(2)] | rule wp | assumption | simp; fail)+

lemma ack_sound: "\<lbrakk>sound s; t \<in> {PUBACK, PUBREC, PUBREL}\<rbrakk> \<Longrightarrow> wpo (send_ack p t i timer s) (\<lambda>_. sound)"
  unfolding send_ack_def
  by (rule frames plain wpo_serialized [OF ack_packs] | rule wp | assumption | simp; fail)+

lemmas [frames] = keepalive_sound [THEN wpo_sound] ack_sound [THEN wpo_sound]

lemma handled_sound:
  "sound s \<Longrightarrow> wpo (cycle_publish p timer s) (\<lambda>_. sound)" "sound s \<Longrightarrow> wpo (cycle_pubrec p timer s) (\<lambda>_. sound)"
  unfolding cycle_publish_def cycle_pubrec_def
  by (rule frames plain | rule wp | rule wptI | assumption | simp; fail)+

lemmas [frames] = handled_sound [THEN wpo_sound]

lemma cycle_sound: "sound s \<Longrightarrow> wpo (cycle p timer s) (\<lambda>_. sound)"
  unfolding cycle_def
  by (rule frames plain | rule wp | rule wptI | assumption | simp; fail)+

lemmas [frames] = cycle_sound [THEN wpo_sound]

lemma wait_sound: "sound s \<Longrightarrow> wpo (waitfor p t timer s) (\<lambda>_. sound)"
  unfolding waitfor_def
  by (rule wpo_forever [where I = "\<lambda>_. sound"], assumption, unfold wait_step_def)
    (rule frames | rule wp | assumption | simp; fail)+

lemmas [frames] = wait_sound [THEN wpo_sound]

lemma request_sound:
  assumes "sound s" and "starts_packet len (mqtt_buf s)" and "\<And>s. sound s \<Longrightarrow> wpo (answer s) (\<lambda>_. sound)"
  shows "wpo (request p len timer t answer s) (\<lambda>_. sound)"
  unfolding request_def using assms(1,2)
  by - (rule frames wpo_sound [OF assms(3)] | rule wp | assumption | simp; fail)+

lemma answers_sound:
  "sound s \<Longrightarrow> wpo (connack_answer s) (\<lambda>_. sound)" "sound s \<Longrightarrow> wpo (suback_answer f fp s) (\<lambda>_. sound)"
  "sound s \<Longrightarrow> wpo (unsuback_answer s) (\<lambda>_. sound)" "sound s \<Longrightarrow> wpo (ack_answer s) (\<lambda>_. sound)"
  unfolding connack_answer_def suback_answer_def unsuback_answer_def ack_answer_def set_handler_def
  by (rule frames plain | rule wp | rule wptI | assumption | simp; fail)+

lemmas [frames] = request_sound [OF _ _ answers_sound(1), THEN wpo_sound] request_sound [OF _ _ answers_sound(2), THEN wpo_sound]
  request_sound [OF _ _ answers_sound(3), THEN wpo_sound] request_sound [OF _ _ answers_sound(4), THEN wpo_sound]

lemma connect_sound:
  assumes "sound s" and "\<forall>d. options = Some d \<longrightarrow> options_ok d"
  shows "wpo (MQTTConnect p options s) (\<lambda>_. sound)"
proof -
  have "options_ok (case options of None \<Rightarrow> MQTTPacket_connectData_initializer | Some d \<Rightarrow> d)"
    using assms(2) default_options by (simp split: option.split)
  then show ?thesis
    unfolding MQTTConnect_def using assms(1)
    by - (rule frames wpo_serialized [OF connect_packs] | rule wp | assumption | simp; fail)+
qed

lemma packet_id_sound [frames]: "\<lbrakk>sound s; \<And>v s'. sound s' \<Longrightarrow> Q v s'\<rbrakk> \<Longrightarrow> wpt (getNextPacketId s) Q"
  by (simp add: getNextPacketId_def wpt_def Let_def)

lemma requests_sound:
  assumes "sound s"
  shows "wpo (MQTTSubscribe p f qos fp s) (\<lambda>_. sound)" "wpo (MQTTUnsubscribe p f s) (\<lambda>_. sound)"
    "wpo (MQTTPublish p f msg s) (\<lambda>_. sound)" "wpo (MQTTDisconnect p s) (\<lambda>_. sound)"
    "wpo (MQTTYield p ms s) (\<lambda>_. sound)"
  unfolding MQTTSubscribe_def MQTTUnsubscribe_def MQTTPublish_def MQTTDisconnect_def MQTTYield_def
  using assms
  by - (rule frames wpo_serialized [OF subscribe_packs] wpo_serialized [OF unsubscribe_packs]
      wpo_serialized [OF publish_packs] wpo_serialized [OF zero_packs(1)] | rule wp | rule wptI | assumption | simp; fail)+

lemma network_sound:
  assumes "sound s"
  shows "wpo (ConnectNetwork p ip port s) (\<lambda>_. sound)" "wpo (w5x00_disconnect p s) (\<lambda>_. sound)"
  unfolding ConnectNetwork_def w5x00_disconnect_def Let_def
  by (auto intro!: wp stream_calls intro: keeps_sound [OF statics_keeps(1) assms] statics_trans)

subsection \<open>Any sequence of calls\<close>

datatype 'w mqtt_call = Mqtt_network "u8 list" u16 | Mqtt_connect "MQTTPacket_connectData option"
  | Mqtt_subscribe "u8 list" int "'w message_handler option" | Mqtt_unsubscribe "u8 list"
  | Mqtt_publish "u8 list" MQTTMessage | Mqtt_yield int | Mqtt_disconnect | Mqtt_close

text \<open>The results are not looked at; each may be followed by any other call.\<close>

definition ignoring :: "('a \<times> ('w, 'm) mqtt_drv_scheme) option \<Rightarrow> (unit \<times> ('w, 'm) mqtt_drv_scheme) option" where
  "ignoring r = do { (_, s) \<leftarrow> r; Some ((), s) }"

fun mqtt_do :: "'w platform \<Rightarrow> 'w mqtt_call \<Rightarrow> (unit, 'w, 'm) mqtt_wait" where
  "mqtt_do p (Mqtt_network ip port) s = ignoring (ConnectNetwork p ip port s)"
| "mqtt_do p (Mqtt_connect options) s = ignoring (MQTTConnect p options s)"
| "mqtt_do p (Mqtt_subscribe f qos fp) s = ignoring (MQTTSubscribe p f qos fp s)"
| "mqtt_do p (Mqtt_unsubscribe f) s = ignoring (MQTTUnsubscribe p f s)"
| "mqtt_do p (Mqtt_publish f msg) s = ignoring (MQTTPublish p f msg s)"
| "mqtt_do p (Mqtt_yield ms) s = ignoring (MQTTYield p ms s)"
| "mqtt_do p Mqtt_disconnect s = ignoring (MQTTDisconnect p s)"
| "mqtt_do p Mqtt_close s = ignoring (w5x00_disconnect p s)"

fun mqtt_calls :: "'w platform \<Rightarrow> 'w mqtt_call list \<Rightarrow> (unit, 'w, 'm) mqtt_wait" where
  "mqtt_calls p [] s = Some ((), s)"
| "mqtt_calls p (c # cs) s = do { (_, s) \<leftarrow> mqtt_do p c s; mqtt_calls p cs s }"

fun mqtt_call_ok :: "'w mqtt_call \<Rightarrow> bool" where
  "mqtt_call_ok (Mqtt_connect options) = (case options of None \<Rightarrow> True | Some d \<Rightarrow> options_ok d)"
| "mqtt_call_ok _ = True"

lemma ignoring_sound: "wpo m (\<lambda>_. sound) \<Longrightarrow> wpo (ignoring m) (\<lambda>_. sound)"
  unfolding ignoring_def by (rule wpo_bind, erule wpo_mono) (simp add: wpo_def)

lemma call_sound: "\<lbrakk>mqtt_call_ok c; sound s\<rbrakk> \<Longrightarrow> wpo (mqtt_do p c s) (\<lambda>_. sound)"
  by (cases c) (auto intro!: ignoring_sound connect_sound requests_sound network_sound split: option.splits)

lemma calls_sound: "\<lbrakk>\<forall>c\<in>set cs. mqtt_call_ok c; sound s\<rbrakk> \<Longrightarrow> wpo (mqtt_calls p cs s) (\<lambda>_. sound)"
  by (induction cs arbitrary: s) (auto intro!: wpo_Some wpo_bind wpo_sound [OF call_sound])

text \<open>C12: What the MQTT client sends are packets. Whatever the chip and the broker do, in whichever order the
  application calls the client, and whether or not calls fail or time out: every piece handed to \<open>send\<close> is
  one complete packet of a type that a client may send, whose length field, read as the protocol defines it,
  counts exactly the bytes that follow, as long as no earlier piece was accepted by \<open>send\<close> only in part. The
  options of a connection are for version 3 or 4 of the protocol, with well-formed strings. The
  application's send buffer is smaller than 64 KB: \<open>send\<close> takes 16 bits of the length, and of a larger packet
  it would be given the first bytes only.\<close>

theorem mqtt_whole_packets:
  assumes "mqtt_calls p cs s = Some ((), s')" and "mqtt_sent s = []" and "buf_size s < 65536" and "\<forall>c\<in>set cs. mqtt_call_ok c"
    and "mqtt_sent s' = newer @ (bs, r) # older"
  shows "mqtt_packet bs \<or> list_ex in_part older"
proof -
  have "sound s'"
    using wpoD [OF calls_sound [OF assms(4)] assms(1)] assms(2,3) by (simp add: sound_def)
  then show ?thesis
    using whole_packets_split [of newer "(bs, r)" older] by (simp add: sound_def assms(5))
qed

text \<open>A connected client on the scripted platform.\<close>

definition cli :: "event list \<Rightarrow> u8 list \<Rightarrow> u8 \<Rightarrow> u8 list \<Rightarrow> u8 list \<Rightarrow> u32 \<Rightarrow> (u8 list \<times> int) list \<Rightarrow> u8 list mqtt_drv" where
  "cli tr w k buf rd t out = live tr w k
     \<lparr>MilliTimer = 0, timer_ticks = (\<lambda>w. (0, w)), my_socket = 0, next_packetid = 1, command_timeout_ms = 1000,
      mqtt_buf = buf, buf_size = 16, readbuf = rd, readbuf_size = 16, keepAliveInterval = 0, ping_outstanding = 0,
      isconnected = 1, messageHandlers = [], defaultMessageHandler = None, ping_timer = t, mqtt_sent = out\<rparr>"

lemma cli_fields [simp]:
  "MilliTimer (cli tr w k buf rd t out) = 0" "timer_ticks (cli tr w k buf rd t out) = (\<lambda>w. (0, w))"
  "my_socket (cli tr w k buf rd t out) = 0" "command_timeout_ms (cli tr w k buf rd t out) = 1000"
  "mqtt_buf (cli tr w k buf rd t out) = buf" "buf_size (cli tr w k buf rd t out) = 16"
  "readbuf (cli tr w k buf rd t out) = rd" "keepAliveInterval (cli tr w k buf rd t out) = 0"
  "isconnected (cli tr w k buf rd t out) = 1" "mqtt_sent (cli tr w k buf rd t out) = out"
  "(cli tr w k buf rd t out)\<lparr>mqtt_buf := buf'\<rparr> = cli tr w k buf' rd t out"
  "(cli tr w k buf rd t out)\<lparr>ping_timer := t'\<rparr> = cli tr w k buf rd t' out"
  "(cli tr w k buf rd t out)\<lparr>mqtt_sent := out'\<rparr> = cli tr w k buf rd t out'"
  "(cli tr w k buf rd t out)\<lparr>world := world (cli tr w k buf rd t out)\<rparr> = cli tr w k buf rd t out"
  by (simp_all add: cli_def live_def drv.extend_def)

lemmas cli_follows = live_follows [where m = "\<lparr>MilliTimer = 0, timer_ticks = (\<lambda>w :: u8 list. (0 :: nat, w)), my_socket = 0, next_packetid = 1, command_timeout_ms = 1000,
      mqtt_buf = buf, buf_size = 16, readbuf = rd, readbuf_size = 16, keepAliveInterval = 0, ping_outstanding = 0,
      isconnected = 1, messageHandlers = [], defaultMessageHandler = None, ping_timer = t, mqtt_sent = out\<rparr>", folded cli_def]
  for buf rd t out

lemma cli_now [simp]: "milli_now (cli tr w k buf rd t out) = (0, cli tr w k buf rd t out)"
  by (simp add: milli_now_def)

text \<open>The message \<open>hi\<close> for the topic \<open>a\<close>.\<close>

definition hi_message :: MQTTMessage where
  "hi_message = \<lparr>msg_qos = 0, msg_retained = 0, msg_id = 0, msg_payload = [0x68, 0x69], msg_payloadlen = 2\<rparr>"

lemma hi_packet:
  "MQTTSerialize_publish (replicate 16 0) 16 0 0 0 0 (topic_string [0x61]) [0x68, 0x69] 2
    = Some (7, [0x30, 5, 0, 1, 0x61, 0x68, 0x69] @ replicate 9 0)"
  by code_simp

lemma hi_run:
  "ends_in (\<lambda>(_, s). mqtt_sent s = [([0x30, 5, 0, 1, 0x61, 0x68, 0x69], 7)])
    (mqtt_calls scripted [Mqtt_publish [0x61] hi_message] (cli [] (0x17 # 0x17 # send_script) 0 (replicate 16 0) [0] 0 []))"
  apply (simp add: ignoring_def MQTTPublish_def hi_message_def TimerCountdownMS_def serialized_def hi_packet sendPacket_def
    live_flat cong: live_cong)
  apply (subst forever_code)
  apply (simp add: send_step_def TimerIsExpired_def TimerLeftMS_def w5x00_write_def live_flat cong: live_cong)
  apply (rule cli_follows)
  apply (simp add: SOCK_ESTABLISHED_def mem_bytes_def live_flat cong: live_cong)
  apply (rule cli_follows [where w = "[]", simplified], simp, simp)
  apply (simp add: live_flat cong: live_cong)
  apply (subst forever_code)
  apply (simp add: send_step_def TimerCountdown_def ends_in_def live_flat cong: live_cong)
  done

theorem mqtt_whole_packets_witness:
  "\<exists>s'. mqtt_calls scripted [Mqtt_publish [0x61] hi_message] (cli [] (0x17 # 0x17 # send_script) 0 (replicate 16 0) [0] 0 [])
      = Some ((), s')
    \<and> mqtt_sent s' = [([0x30, 5, 0, 1, 0x61, 0x68, 0x69], 7)] \<and> mqtt_packet [0x30, 5, 0, 1, 0x61, 0x68, 0x69]"
proof -
  obtain s' where run: "mqtt_calls scripted [Mqtt_publish [0x61] hi_message]
      (cli [] (0x17 # 0x17 # send_script) 0 (replicate 16 0) [0] 0 []) = Some ((), s')"
    and log: "mqtt_sent s' = [([0x30, 5, 0, 1, 0x61, 0x68, 0x69], 7)]"
    using hi_run by (auto simp: ends_in_def)
  have "mqtt_packet [0x30, 5, 0, 1, 0x61, 0x68, 0x69] \<or> list_ex in_part []"
    by (rule mqtt_whole_packets [OF run, where newer = "[]" and r = 7]) (simp_all add: log)
  then show ?thesis using run log by simp
qed

subsection \<open>A connection that is gone\<close>

lemma closed_read:
  assumes "fst (getSn_SR p (of_int (my_socket s)) s) \<noteq> SOCK_ESTABLISHED"
  shows "\<exists>u. read_at p 0 n s = Some (SOCK_ERROR, u) \<and> keepAliveInterval u = keepAliveInterval s"
proof -
  obtain sr t where sr: "getSn_SR p (of_int (my_socket s)) s = (sr, t)" by fastforce
  have "wpt (getSn_SR p (of_int (my_socket s)) s) (\<lambda>_. statics s)" by (rule stream_calls) simp
  then have "keepAliveInterval t = keepAliveInterval s"
    using sr statics_keeps(1) [of s t] by (simp add: wpt_def keeps_def)
  then show ?thesis
    using assms by (simp add: sr read_at_def w5x00_read_def put_at_def)
qed

text \<open>C40: \<open>MQTTYield\<close> does not notice that its connection is gone. When the socket is not established at the
  look that \<open>readPacket\<close> takes, the failure that it returns becomes 65535 in \<open>packet_type\<close>: whatever
  happens next, a call that returns reports success, and without keep-alive it does return.\<close>

theorem mqtt_yield_blind:
  assumes "TimerCountdownMS (of_int ms) s = (timer, s1)" and "TimerLeftMS timer s1 = (left, s2)"
    and "fst (getSn_SR p (of_int (my_socket s2)) s2) \<noteq> SOCK_ESTABLISHED"
  shows "(\<forall>rc u. MQTTYield p ms s = Some (rc, u) \<longrightarrow> rc = SUCCESSS)
    \<and> (keepAliveInterval s = 0 \<longrightarrow> (\<exists>u. MQTTYield p ms s = Some (SUCCESSS, u)))"
proof -
  obtain u where read: "read_at p 0 1 s2 = Some (SOCK_ERROR, u)" "keepAliveInterval u = keepAliveInterval s2"
    using closed_read [OF assms(3)] by blast
  then have packet: "readPacket p timer s1 = Some (MQTT_FAILURE, u)"
    by (simp add: readPacket_def assms(2) SOCK_ERROR_def)
  have interval: "keepAliveInterval u = keepAliveInterval s"
    using read(2) wptD [OF timers_keep(2) assms(1)] wptD [OF timers_keep(4) assms(2)] by (simp add: keeps_def)
  have "cycle p timer s1 = do { (_, v) \<leftarrow> keepalive p u; Some (65535, v) }"
    by (simp add: cycle_def packet MQTT_FAILURE_def SUCCESSS_def mqtt_types unsigned_minus_1_eq_mask mask_eq_exp_minus_1)
  then have "MQTTYield p ms s = do { (_, v) \<leftarrow> keepalive p u; Some (SUCCESSS, v) }"
    by (cases "keepalive p u") (auto simp: MQTTYield_def assms(1) MQTT_FAILURE_def)
  then show ?thesis
    using interval by (auto simp: bind_eq_Some_conv keepalive_def)
qed

theorem mqtt_yield_blind_witness:
  "\<exists>u. MQTTYield scripted 10 (cli [] [0] 0 (replicate 16 0) [0] 0 []) = Some (SUCCESSS, u)"
proof -
  let ?s = "cli [] [0] 0 (replicate 16 0) [0] 0 []"
  have look: "fst (getSn_SR scripted 0 ?s) = 0"
    unfolding cli_def by (rule live_SR)
  show ?thesis
    using mqtt_yield_blind [of 10 ?s 10 ?s 10 ?s scripted] look
    by (simp add: TimerCountdownMS_def TimerLeftMS_def SOCK_ESTABLISHED_def)
qed

end
