(* ===== verification/Spec2Isabelle.thy ===== *)
theory Spec2Isabelle
  imports ChipProps SockProps GateProps ConnProps StreamProps DgramProps ConfProps PhyProps Driver Sntp DnsClient
    DhcpOptions Callbacks TftpProps InetAddr SnmpProps HttpProps MqttFrames
begin

text \<open>
  Verification of the WIZnet ioLibrary driver, in the build for the W5500 controller over SPI
  (\<open>_WIZCHIP_ == W5500\<close>, \<open>_WIZCHIP_IO_MODE_ == _WIZCHIP_IO_MODE_SPI_\<close>), and of the clients that
  come with it.

  The program. The application calls the socket interface (\<open>Ethernet/socket.c\<close>) and the control
  interface (\<open>Ethernet/wizchip_conf.c\<close>). Both reach the chip through register accessors
  (\<open>Ethernet/W5500/w5500.h\<close>, \<open>w5500.c\<close>), which end in checked SPI transactions made of calls through
  a table of callbacks (\<open>wizchip_conf.c\<close>). A time base with deadlines bounds the waits. The clients
  under \<open>Internet/\<close> (DHCP, DNS, SNTP, TFTP, the SNMP agent) are state machines over datagram
  sockets; the HTTP server and the MQTT client are state machines over stream sockets.

  The state. One record grows with the layers, as the C statics are spread over the files:
  \<open>bus_state\<close> (Bus), \<open>time_state\<close> (Deadline), the driver's record \<open>drv\<close> (SockState), and one
  extension of it per client. The record carries the state \<open>world\<close> of everything outside the
  program (chip, bus, clock, locks) and a ghost \<open>trace\<close> of the callbacks called, latest first.
  The outside is a parameter, the record \<open>platform\<close> of functions on the world, about which nothing is
  assumed: the chip may answer anything at any time, and the clock may do anything. What a property
  needs to know of the clock or of an answer is a hypothesis of it.

  A function of C that always returns is a function into result and new state. One that loops on
  the outside world returns an option, defined by \<open>forever\<close>; \<open>None\<close> is a call that does not return.
  In the clients \<open>None\<close> is also a call that ends in undefined behaviour that the code does not
  guard against, where the theory says so. Errors are the negative \<open>int\<close> codes of the source. Integers
  have the width of the source; a value that the code computes as \<open>int\<close> and cannot overflow is an
  \<open>int\<close>.

  The theories.
  \<^item> Prelude: integers, the loop combinator, the calculus \<open>wpt\<close>/\<open>wpo\<close> (a postcondition for every
    returned state) with the rule collection \<open>wp\<close>. Memory: byte lists in and out of host memory.
    CString: the C string functions on arrays of bytes.
  \<^item> Bus (SPI transactions, chip state, last error), Callbacks (the table and its registration
    functions), Deadline (time base, deadlines, polls, timeout floor), Registers (register map and
    accessors), W5500 (buffer sizes, stable counter reads, data copies).
  \<^item> Wire: the trace read back as chip-select frames and as a log of register accesses, and the
    locale \<open>bus_relation\<close>: what every transaction keeps. \<open>poll_relation\<close> (W5500), \<open>sock_relation\<close> and
    \<open>api_relation\<close> (SockState), \<open>conf_relation\<close> and \<open>conf_api\<close> (ChipConf) carry such a relation up to whole
    calls, once for all of its instances: lock order, framing, isolation of sockets, port range, sticky
    fault (SockSpec, ChipConf, Driver).
  \<^item> SockState, SockOpen, SockStream, SockDgram, SockCtl: \<open>socket.c\<close>. ChipConf, Phy: reset,
    initialisation, network configuration, PHY and the control dispatchers.
  \<^item> Scripted: an executable platform whose chip answers from a script, for the witnesses.
  \<^item> SockSpec, SockFun, Commands: rules that follow a program text and collect what it keeps, what it
    writes, and which commands it gives. Sends counts SEND commands for the clients.
  \<^item> ChipProps, SockProps, GateProps, ConnProps, StreamProps, DgramProps, ConfProps, PhyProps, Driver:
    the properties of the driver.
  \<^item> Calendar and Sntp (\<open>SNTP/sntp.c\<close>); Dns, DnsProps and DnsClient (\<open>DNS/dns.c\<close>); Dhcp, DhcpProps and
    DhcpOptions (\<open>DHCP/dhcp.c\<close>); NetUtil, InetAddr, Tftp and TftpProps (\<open>TFTP/tftp.c\<close>, \<open>TFTP/netutil.c\<close>);
    SnmpData, Snmp and SnmpProps (\<open>SNMP/snmp.c\<close>, \<open>SNMP/snmp_custom.c\<close>); HttpParser, HttpServer, HttpRuns
    and HttpProps (\<open>httpServer/httpParser.c\<close>, \<open>httpServer.c\<close>, \<open>httpUtil.c\<close>); MqttPacket, MqttClient,
    MqttProps and MqttFrames (\<open>MQTT/MQTTPacket/src\<close>, \<open>MQTT/MQTTClient.c\<close>, \<open>mqtt_interface.c\<close>). Statics
    and Live, shared by the last two, say what the stream calls keep and follow runs on Scripted.

  What is shown. A transaction is one complete frame and returns what the chip answered; the 64-bit
  time is exact across wraps of the 32-bit clock; waits end, within 100000 polls where the code
  bounds them. A successful \<open>socket\<close>, \<open>connect\<close>, \<open>listen\<close>, \<open>disconnect\<close>, \<open>send\<close>, \<open>recv\<close>, \<open>recvfrom\<close> or \<open>close\<close>
  did on the chip what it promises, in the right order. \<open>sendto\<close> refines a three-state contract that
  accounts for every SEND command. A faulted socket or chip is left alone. Initialisation and reset
  leave the chip ready with everything cleared, or faulted. Any sequence of calls keeps locks and frames
  paired and changes no other socket. DHCP refines an abstract lease machine, and its option parser
  inverts the encoding of options; the DNS parser reads back every reply of records of the types that it
  knows, with compressed names; SNTP reports the civil time of the server's timestamp; TFTP saves blocks in order; the SNMP
  agent answers a GET whose reply fits short-form lengths with the complete encoding of its table's values,
  and reads what was set; the HTTP
  server hands over complete responses, and of the one under way exactly the bytes up to its offset; the MQTT
  client sends complete packets from a buffer below 64 KB, and a PUBLISH is read back as it was written.
  Where the code does not do what it means to, the theorem states what it does: connect, which waits
  forever on an undecided peer when the clock stands, retries of DNS and SNTP that send nothing, the
  name buffer overrun of DNS, block number 65535 of TFTP, the QSPI registration, the SNMP messages that make the agent loop or answer
  nonsense, the HTTP response that goes on in the next connection and the request that crashes the server,
  the lost MQTT connection that is reported as success.

  Bounds and fuel. No definition uses fuel for a loop of the code: loops on the outside use \<open>forever\<close>,
  loops over data are structural or have a measure. The parser of compressed DNS names recurses
  with a measure because the code gives up on long names. Polls are bounded by the code's own limit.

  Not modelled. The other controllers (W5100, W5100S, W5200, W5300, W6100, W6300) are alternatives of
  the chip layer that this build excludes; DHCPv6 and address autoconfiguration need the IPv6
  controllers. Of MQTT, the broker's side of the packets, their formatting
  and the packet readers that the client does not use are left out. The samples under
  \<open>Application/\<close> and the test programs are not modelled. Of the HTTP server, storage on SD card or data
  flash, the watchdog and the printing of the content list are left out. Concurrency appears as the
  order of lock events, not as interleaved threads: a call is a sequence of callbacks. Printing
  under debug macros is left out.
\<close>

end
